(* ===== verification/Prelude.thy ===== *)
theory Prelude
  imports Main "HOL-Library.Word" "HOL-Library.Product_Lexorder"
begin

text \<open>
  Shared vocabulary of the development: the Go base types, the result of a Go call, the
  combinators that sequence calls, and the generic lemmas on tables held as lists.

  A Go function that returns \<open>(T, error)\<close> and touches the outside world is a function from
  a state to an outcome and the next state. The outcome is the value, the error, or a panic;
  the state is returned in all three cases because Go does not undo effects on error.
\<close>

section \<open>Base types\<close>

text \<open>
  A UUID is the 16-byte array of \<open>google/uuid\<close>, read as a big-endian number, so that the byte
  order PostgreSQL sorts by is the order of the words. An instant and a duration are counted in
  nanoseconds, as \<open>time.Time\<close> and \<open>time.Duration\<close> do. A Go string and a \<open>[]byte\<close> are both
  sequences of bytes: \<open>string\<close>, whose characters are the 256 byte values.
\<close>

type_synonym uuid = "128 word"
type_synonym time = int

abbreviation second :: time where
  "second \<equiv> 1000000000"

abbreviation minute :: time where
  "minute \<equiv> 60 * second"

abbreviation hour :: time where
  "hour \<equiv> 60 * minute"

section \<open>Rule collections\<close>

named_theorems op_defs \<open>definitions of the combinators\<close>
named_theorems keeps_rules \<open>introduction rules for invariants of operations\<close>
named_theorems table_simps \<open>equations on tables\<close>

section \<open>Outcomes and operations\<close>

datatype ('e, 'a) outcome = Ok 'a | Err 'e | Panic string

type_synonym ('s, 'e, 'a) op = "'s \<Rightarrow> ('e, 'a) outcome \<times> 's"

definition retM :: "'a \<Rightarrow> ('s, 'e, 'a) op" where
  "retM x s = (Ok x, s)"

definition errM :: "'e \<Rightarrow> ('s, 'e, 'a) op" where
  "errM e s = (Err e, s)"

definition panicM :: "string \<Rightarrow> ('s, 'e, 'a) op" where
  "panicM p s = (Panic p, s)"

text \<open>\<open>x, err := m(); if err != nil { return err }; f(x)\<close>\<close>

definition bindM :: "('s, 'e, 'a) op \<Rightarrow> ('a \<Rightarrow> ('s, 'e, 'b) op) \<Rightarrow> ('s, 'e, 'b) op" where
  "bindM m f s = (case m s of
      (Ok x, s') \<Rightarrow> f x s'
    | (Err e, s') \<Rightarrow> (Err e, s')
    | (Panic p, s') \<Rightarrow> (Panic p, s'))"

text \<open>\<open>x, err := m()\<close> where the code inspects \<open>err\<close> itself; a panic still unwinds.\<close>

definition tryM :: "('s, 'e, 'a) op \<Rightarrow> ('e + 'a \<Rightarrow> ('s, 'e, 'b) op) \<Rightarrow> ('s, 'e, 'b) op" where
  "tryM m f s = (case m s of
      (Ok x, s') \<Rightarrow> f (Inr x) s'
    | (Err e, s') \<Rightarrow> f (Inl e) s'
    | (Panic p, s') \<Rightarrow> (Panic p, s'))"

text \<open>\<open>_ = m()\<close>\<close>

definition ignoreM :: "('s, 'e, 'a) op \<Rightarrow> ('s, 'e, unit) op" where
  "ignoreM m = tryM m (\<lambda>_. retM ())"

text \<open>A statement that only changes the state, and one that only reads it.\<close>

definition modifyM :: "('s \<Rightarrow> 's) \<Rightarrow> ('s, 'e, unit) op" where
  "modifyM f s = (Ok (), f s)"

definition readM :: "('s \<Rightarrow> 'a) \<Rightarrow> ('s, 'e, 'a) op" where
  "readM f s = (Ok (f s), s)"

text \<open>\<open>for _, x := range xs { if err := f(x); err != nil { return err } }\<close>\<close>

fun forM :: "'a list \<Rightarrow> ('a \<Rightarrow> ('s, 'e, unit) op) \<Rightarrow> ('s, 'e, unit) op" where
  "forM [] f = retM ()"
| "forM (x # xs) f = bindM (f x) (\<lambda>_. forM xs f)"

declare retM_def [op_defs] errM_def [op_defs] panicM_def [op_defs] bindM_def [op_defs]
  tryM_def [op_defs] ignoreM_def [op_defs] modifyM_def [op_defs] readM_def [op_defs]

lemma bindM_retM [simp]: "bindM (retM x) f = f x"
  by (rule ext) (simp add: op_defs)

lemma bindM_errM [simp]: "bindM (errM e) f = errM e"
  by (rule ext) (simp add: op_defs)

lemma bindM_panicM [simp]: "bindM (panicM p) f = panicM p"
  by (rule ext) (simp add: op_defs)

lemma bindM_assoc: "bindM (bindM m f) g = bindM m (\<lambda>x. bindM (f x) g)"
  by (rule ext) (simp add: op_defs split: prod.splits outcome.splits)

lemma tryM_retM [simp]: "tryM (retM x) f = f (Inr x)"
  by (rule ext) (simp add: op_defs)

lemma tryM_errM [simp]: "tryM (errM e) f = f (Inl e)"
  by (rule ext) (simp add: op_defs)

lemma bindM_Ok: "bindM m f s = (Ok y, s') \<longleftrightarrow> (\<exists>x t. m s = (Ok x, t) \<and> f x t = (Ok y, s'))"
  by (auto simp: op_defs split: prod.splits outcome.splits)

lemma tryM_Ok:
  "tryM m f s = (Ok y, s') \<longleftrightarrow> (\<exists>x t. m s = (Ok x, t) \<and> f (Inr x) t = (Ok y, s')) \<or>
     (\<exists>e t. m s = (Err e, t) \<and> f (Inl e) t = (Ok y, s'))"
  by (auto simp: tryM_def split: prod.splits outcome.splits)

lemma forM_append: "forM (xs @ ys) f = bindM (forM xs f) (\<lambda>_. forM ys f)"
  by (induction xs) (simp_all add: bindM_assoc)

section \<open>Invariants of operations\<close>

text \<open>
  \<open>keeps I m\<close>: the operation \<open>m\<close> keeps \<open>I\<close> whatever its outcome is. The rules below let a
  handler's invariant be proved by following its text.
\<close>

definition keeps :: "('s \<Rightarrow> bool) \<Rightarrow> ('s, 'e, 'a) op \<Rightarrow> bool" where
  "keeps I m \<longleftrightarrow> (\<forall>s. I s \<longrightarrow> I (snd (m s)))"

lemma keepsI: "(\<And>s. I s \<Longrightarrow> I (snd (m s))) \<Longrightarrow> keeps I m"
  by (simp add: keeps_def)

lemma keepsD: "keeps I m \<Longrightarrow> I s \<Longrightarrow> I (snd (m s))"
  by (simp add: keeps_def)

lemma keepsE: "keeps I m \<Longrightarrow> I s \<Longrightarrow> m s = (r, s') \<Longrightarrow> I s'"
  by (metis keepsD snd_conv)

lemma keeps_retM [keeps_rules]: "keeps I (retM x)"
  by (simp add: keeps_def op_defs)

lemma keeps_errM [keeps_rules]: "keeps I (errM e)"
  by (simp add: keeps_def op_defs)

lemma keeps_panicM [keeps_rules]: "keeps I (panicM p)"
  by (simp add: keeps_def op_defs)

lemma keeps_readM [keeps_rules]: "keeps I (readM f)"
  by (simp add: keeps_def op_defs)

lemma keeps_bindM [keeps_rules]:
  "keeps I m \<Longrightarrow> (\<And>x. keeps I (f x)) \<Longrightarrow> keeps I (bindM m f)"
  unfolding keeps_def bindM_def
  by (force split: prod.splits outcome.splits)

lemma keeps_tryM [keeps_rules]:
  "keeps I m \<Longrightarrow> (\<And>x. keeps I (f x)) \<Longrightarrow> keeps I (tryM m f)"
  unfolding keeps_def tryM_def
  by (force split: prod.splits outcome.splits)

lemma keeps_ignoreM [keeps_rules]: "keeps I m \<Longrightarrow> keeps I (ignoreM m)"
  unfolding ignoreM_def by (intro keeps_tryM keeps_retM)

lemma keeps_forM [keeps_rules]: "(\<And>x. x \<in> set xs \<Longrightarrow> keeps I (f x)) \<Longrightarrow> keeps I (forM xs f)"
  by (induction xs) (auto intro!: keeps_rules)

lemma keeps_if [keeps_rules]:
  "(b \<Longrightarrow> keeps I m) \<Longrightarrow> (\<not> b \<Longrightarrow> keeps I n) \<Longrightarrow> keeps I (if b then m else n)"
  by simp

lemma keeps_case_sum [keeps_rules]:
  "(\<And>e. x = Inl e \<Longrightarrow> keeps I (f e)) \<Longrightarrow> (\<And>a. x = Inr a \<Longrightarrow> keeps I (g a)) \<Longrightarrow>
    keeps I (case x of Inl e \<Rightarrow> f e | Inr a \<Rightarrow> g a)"
  by (cases x) simp_all

lemma keeps_case_option [keeps_rules]:
  "(x = None \<Longrightarrow> keeps I m) \<Longrightarrow> (\<And>a. x = Some a \<Longrightarrow> keeps I (g a)) \<Longrightarrow>
    keeps I (case x of None \<Rightarrow> m | Some a \<Rightarrow> g a)"
  by (cases x) simp_all

lemma keeps_case_prod [keeps_rules]:
  "(\<And>a b. x = (a, b) \<Longrightarrow> keeps I (g a b)) \<Longrightarrow> keeps I (case x of (a, b) \<Rightarrow> g a b)"
  by (cases x) simp_all

lemma keeps_Let [keeps_rules]: "(\<And>a. a = x \<Longrightarrow> keeps I (g a)) \<Longrightarrow> keeps I (Let x g)"
  by simp

section \<open>Tables as lists of rows\<close>

text \<open>
  \<open>UPDATE t SET f WHERE P\<close> rewrites the rows that satisfy \<open>P\<close>; the number of rows affected is
  \<open>count_where\<close>.
\<close>

definition update_where :: "('r \<Rightarrow> bool) \<Rightarrow> ('r \<Rightarrow> 'r) \<Rightarrow> 'r list \<Rightarrow> 'r list" where
  "update_where P f rows = map (\<lambda>r. if P r then f r else r) rows"

definition count_where :: "('r \<Rightarrow> bool) \<Rightarrow> 'r list \<Rightarrow> nat" where
  "count_where P rows = length (filter P rows)"

lemma update_where_Nil [simp]: "update_where P f [] = []"
  by (simp add: update_where_def)

lemma update_where_Cons [simp]:
  "update_where P f (r # rows) = (if P r then f r else r) # update_where P f rows"
  by (simp add: update_where_def)

lemma set_update_where:
  "set (update_where P f rows) = (\<lambda>r. if P r then f r else r) ` set rows"
  by (simp add: update_where_def)

lemma length_update_where [simp]: "length (update_where P f rows) = length rows"
  by (simp add: update_where_def)

lemma map_key_update_where:
  "(\<And>r. key (f r) = key r) \<Longrightarrow> map key (update_where P f rows) = map key rows"
  by (induction rows) auto

lemma update_where_id: "(\<And>r. r \<in> set rows \<Longrightarrow> \<not> P r) \<Longrightarrow> update_where P f rows = rows"
  by (induction rows) auto

lemma count_where_0_iff [simp]: "count_where P rows = 0 \<longleftrightarrow> (\<forall>r \<in> set rows. \<not> P r)"
  by (auto simp: count_where_def filter_empty_conv)

lemma find_None_all: "find P rows = None \<longleftrightarrow> (\<forall>r \<in> set rows. \<not> P r)"
  by (auto simp: find_None_iff)

lemma find_SomeD: "find P rows = Some r \<Longrightarrow> r \<in> set rows \<and> P r"
  by (auto simp: find_Some_iff)

lemma find_count: "find P rows = Some r \<Longrightarrow> count_where P rows \<noteq> 0"
  using find_SomeD [of P rows r] by auto

lemma find_append: "find P (xs @ ys) = (case find P xs of None \<Rightarrow> find P ys | Some r \<Rightarrow> Some r)"
  by (induction xs) auto

text \<open>Lookups after an update: the row that is looked up, and any other row.\<close>

lemma find_update_same:
  assumes "\<And>r. r \<in> set rows \<Longrightarrow> P r \<Longrightarrow> Q (f r)" and "\<And>r. r \<in> set rows \<Longrightarrow> \<not> P r \<Longrightarrow> \<not> Q r"
  shows "find Q (update_where P f rows) = map_option f (find P rows)"
  using assms by (induction rows) auto

lemma find_update_other:
  assumes "\<And>r. r \<in> set rows \<Longrightarrow> P r \<Longrightarrow> \<not> Q r \<and> \<not> Q (f r)"
  shows "find Q (update_where P f rows) = find Q rows"
  using assms by (induction rows) auto

lemma distinct_key_unique:
  "distinct (map key rows) \<Longrightarrow> r \<in> set rows \<Longrightarrow> q \<in> set rows \<Longrightarrow> key r = key q \<Longrightarrow> r = q"
  by (auto simp: distinct_map inj_on_def)

lemma find_key:
  "distinct (map key rows) \<Longrightarrow> r \<in> set rows \<Longrightarrow> find (\<lambda>q. key q = key r) rows = Some r"
  by (induction rows) auto

lemma distinct_map_filterI: "distinct (map key rows) \<Longrightarrow> distinct (map key (filter P rows))"
  by (rule distinct_map_filter)

end
