(* ===== verification/Go_Error.thy ===== *)
theory Go_Error
  imports Prelude
begin

text \<open>
  Go error values: the sentinel errors the packages declare, \<open>fmt.Errorf\<close> with and without
  \<open>%w\<close>, the struct \<open>DomainError\<close>, and the errors that libraries return. \<open>errors.Is\<close> and
  \<open>Error()\<close> walk the chain. Two sentinels with the same text are different values, since Go
  compares the pointers: \<open>command.ErrInvalidCredentials\<close> is not
  \<open>query.ErrInvalidCredentials\<close>.
\<close>

datatype sentinel =
    ErrNotFound | ErrAlreadyExists | ErrInvalidID | ErrDeleted
  | ErrConflict | ErrValidation | ErrForbidden | ErrUnauthorized
  | ErrTodoNotFound | ErrTodoAlreadyDone | ErrInvalidTitle
  | Cmd_ErrInvalidCredentials | ErrEmailAlreadyExists | ErrUserNotFound
  | ErrInvalidRefreshToken | Cmd_ErrAccountDisabled | Cmd_ErrAccountLocked
  | Cmd_ErrEmailNotVerified | ErrInvalidVerifyToken | ErrVerifyTokenExpired
  | ErrInvalidResetToken | ErrResetTokenExpired
  | Query_ErrInvalidCredentials | Query_ErrAccountDisabled
  | Query_ErrAccountLocked | Query_ErrEmailNotVerified
  | ErrNoRows

fun sentinel_text :: "sentinel \<Rightarrow> string" where
  "sentinel_text ErrNotFound = ''entity not found''"
| "sentinel_text ErrAlreadyExists = ''entity already exists''"
| "sentinel_text ErrInvalidID = ''invalid entity ID''"
| "sentinel_text ErrDeleted = ''entity is deleted''"
| "sentinel_text ErrConflict = ''entity conflict''"
| "sentinel_text ErrValidation = ''validation failed''"
| "sentinel_text ErrForbidden = ''forbidden''"
| "sentinel_text ErrUnauthorized = ''unauthorized''"
| "sentinel_text ErrTodoNotFound = ''todo not found''"
| "sentinel_text ErrTodoAlreadyDone = ''todo is already completed''"
| "sentinel_text ErrInvalidTitle = ''title is required''"
| "sentinel_text Cmd_ErrInvalidCredentials = ''invalid email or password''"
| "sentinel_text ErrEmailAlreadyExists = ''email already exists''"
| "sentinel_text ErrUserNotFound = ''user not found''"
| "sentinel_text ErrInvalidRefreshToken = ''invalid or expired refresh token''"
| "sentinel_text Cmd_ErrAccountDisabled = ''account is disabled''"
| "sentinel_text Cmd_ErrAccountLocked = ''account is temporarily locked''"
| "sentinel_text Cmd_ErrEmailNotVerified = ''email not verified''"
| "sentinel_text ErrInvalidVerifyToken = ''invalid or expired verification token''"
| "sentinel_text ErrVerifyTokenExpired = ''verification token expired''"
| "sentinel_text ErrInvalidResetToken = ''invalid or expired reset token''"
| "sentinel_text ErrResetTokenExpired = ''reset token expired''"
| "sentinel_text Query_ErrInvalidCredentials = ''invalid email or password''"
| "sentinel_text Query_ErrAccountDisabled = ''account is disabled''"
| "sentinel_text Query_ErrAccountLocked = ''account is temporarily locked''"
| "sentinel_text Query_ErrEmailNotVerified = ''email not verified''"
| "sentinel_text ErrNoRows = ''sql: no rows in result set''"

text \<open>
  \<open>Errorf m\<close> is \<open>fmt.Errorf(m)\<close>; \<open>Wrapf m e\<close> is \<open>fmt.Errorf(m + ": %w", e)\<close>;
  \<open>DomainError e code msg\<close> is the struct of \<open>core/domain\<close>; \<open>PqErr code msg\<close> is an error of
  the PostgreSQL driver and \<open>ExtErr msg\<close> one of any other library.
\<close>

datatype goerr =
    Sentinel sentinel
  | Errorf string
  | Wrapf string goerr
  | DomainError goerr string string
  | PqErr string string
  | ExtErr string

fun err_text :: "goerr \<Rightarrow> string" where
  "err_text (Sentinel s) = sentinel_text s"
| "err_text (Errorf m) = m"
| "err_text (Wrapf m e) = m @ '': '' @ err_text e"
| "err_text (DomainError e code msg) = (if msg \<noteq> '''' then msg else err_text e)"
| "err_text (PqErr code msg) = ''pq: '' @ msg"
| "err_text (ExtErr m) = m"

text \<open>\<open>errors.Is(err, sentinel)\<close> follows \<open>Unwrap\<close>.\<close>

fun err_is :: "goerr \<Rightarrow> sentinel \<Rightarrow> bool" where
  "err_is (Sentinel s) t = (s = t)"
| "err_is (Wrapf m e) t = err_is e t"
| "err_is (DomainError e code msg) t = err_is e t"
| "err_is _ t = False"

definition is_not_found :: "goerr \<Rightarrow> bool" where
  "is_not_found e \<longleftrightarrow> err_is e ErrNotFound"

definition is_conflict :: "goerr \<Rightarrow> bool" where
  "is_conflict e \<longleftrightarrow> err_is e ErrConflict"

text \<open>The \<open>== sql.ErrNoRows\<close> test compares values, so a wrapped error does not pass it.\<close>

definition is_no_rows :: "goerr \<Rightarrow> bool" where
  "is_no_rows e \<longleftrightarrow> e = Sentinel ErrNoRows"

text \<open>An error value carries at most one sentinel, so the tests exclude each other.\<close>

lemma err_is_unique: "err_is e s \<Longrightarrow> err_is e t \<Longrightarrow> s = t"
  by (induction e) auto

type_synonym ('s, 'a) gop = "('s, goerr, 'a) op"
type_synonym 'a result = "(goerr, 'a) outcome"

text \<open>\<open>if err != nil { return fmt.Errorf("msg: %w", err) }\<close>\<close>

definition wrapM :: "string \<Rightarrow> ('s, 'a) gop \<Rightarrow> ('s, 'a) gop" where
  "wrapM msg m = tryM m (\<lambda>r. case r of Inl e \<Rightarrow> errM (Wrapf msg e) | Inr x \<Rightarrow> retM x)"

declare wrapM_def [op_defs]

lemma keeps_wrapM [keeps_rules]: "keeps I m \<Longrightarrow> keeps I (wrapM msg m)"
  unfolding wrapM_def by (intro keeps_rules)

text \<open>
  \<open>if err == sql.ErrNoRows { return fmt.Errorf(nf) }; if err != nil { return fmt.Errorf("msg: %w", err) }\<close>
\<close>

definition norowsM :: "goerr \<Rightarrow> string \<Rightarrow> ('s, 'a) gop \<Rightarrow> ('s, 'a) gop" where
  "norowsM nf msg m = tryM m (\<lambda>r. case r of
      Inl e \<Rightarrow> if is_no_rows e then errM nf else errM (Wrapf msg e)
    | Inr x \<Rightarrow> retM x)"

declare norowsM_def [op_defs]

lemma keeps_norowsM [keeps_rules]: "keeps I m \<Longrightarrow> keeps I (norowsM nf msg m)"
  unfolding norowsM_def by (intro keeps_rules)

end
