(* ===== verification/Database.thy ===== *)
theory Database
  imports Go_Error Go_Std
begin

text \<open>
  The PostgreSQL schema of \<open>migrations/\<close> as rows and tables. A nullable column is an option, a
  timestamp is an instant in UTC. Lengths of \<open>VARCHAR\<close> columns are checked for the two log tables
  only (\<open>Audit_Log\<close>): elsewhere a value the database refuses for its length shows as a failed
  statement of the fault schedule in \<open>World\<close>.
  Tables the program never reads or writes (profiles, addresses, sessions, social links,
  preferences) are left out.
\<close>

section \<open>Rows\<close>

record todos_row =
  td_id :: uuid
  td_title :: string
  td_description :: string
  td_completed :: bool
  td_created_at :: time
  td_updated_at :: time
  td_deleted_at :: "time option"
  td_tenant_id :: string

record roles_row =
  ro_id :: uuid
  ro_name :: string
  ro_description :: string
  ro_created_at :: time
  ro_updated_at :: time
  ro_deleted_at :: "time option"
  ro_tenant_id :: string

record permissions_row =
  pe_id :: uuid
  pe_name :: string
  pe_description :: string
  pe_resource :: string
  pe_action :: string
  pe_created_at :: time
  pe_updated_at :: time
  pe_deleted_at :: "time option"
  pe_tenant_id :: string

record user_roles_row =
  ur_user_id :: uuid
  ur_role_id :: uuid
  ur_created_at :: time
  ur_tenant_id :: string

record role_permissions_row =
  rp_role_id :: uuid
  rp_permission_id :: uuid
  rp_created_at :: time
  rp_tenant_id :: string

record users_row =
  us_id :: uuid
  us_email :: string
  us_password :: string
  us_name :: string
  us_is_active :: bool
  us_created_at :: time
  us_updated_at :: time
  us_deleted_at :: "time option"
  us_tenant_id :: string
  us_email_verified_at :: "time option"

record user_credentials_row =
  uc_user_id :: uuid
  uc_password_hash :: string
  uc_last_login_at :: "time option"

record user_security_row =
  se_user_id :: uuid
  se_login_attempts :: int
  se_locked_until :: "time option"

record user_tokens_row =
  ut_user_id :: uuid
  ut_token_type :: string
  ut_token_hash :: "string option"
  ut_expires_at :: "time option"
  ut_consumed_at :: "time option"
  ut_created_at :: time

record refresh_tokens_row =
  rt_id :: uuid
  rt_user_id :: uuid
  rt_token :: string
  rt_expires_at :: time
  rt_revoked_at :: "time option"
  rt_created_at :: time
  rt_updated_at :: time
  rt_deleted_at :: "time option"

record tenants_row =
  tn_id :: uuid
  tn_name :: string
  tn_slug :: string
  tn_domain :: "string option"
  tn_settings :: string
  tn_is_active :: bool
  tn_created_at :: time
  tn_updated_at :: time

record casbin_row =
  cb_ptype :: string
  cb_values :: "string list"

record audit_logs_row =
  au_id :: uuid
  au_request_id :: string
  au_user_id :: "uuid option"
  au_user_email :: "string option"
  au_method :: string
  au_path :: string
  au_status_code :: int
  au_duration_ms :: int
  au_ip :: string
  au_user_agent :: string
  au_request_body :: "string option"
  au_response_size :: int
  au_created_at :: time
  au_tenant_id :: string

record error_logs_row =
  er_id :: uuid
  er_request_id :: string
  er_user_id :: "uuid option"
  er_user_email :: "string option"
  er_level :: string
  er_message :: string
  er_error :: string
  er_stack_trace :: string
  er_method :: string
  er_path :: string
  er_status_code :: int
  er_ip :: string
  er_user_agent :: string
  er_request_body :: "string option"
  er_metadata :: string
  er_created_at :: time
  er_tenant_id :: string

section \<open>The database\<close>

record database =
  todos :: "todos_row list"
  roles :: "roles_row list"
  permissions :: "permissions_row list"
  user_roles :: "user_roles_row list"
  role_permissions :: "role_permissions_row list"
  users :: "users_row list"
  user_credentials :: "user_credentials_row list"
  user_security :: "user_security_row list"
  user_tokens :: "user_tokens_row list"
  refresh_tokens :: "refresh_tokens_row list"
  tenants :: "tenants_row list"
  casbin_rule :: "casbin_row list"
  audit_logs :: "audit_logs_row list"
  error_logs :: "error_logs_row list"

definition empty_db :: database where
  "empty_db = \<lparr>todos = [], roles = [], permissions = [], user_roles = [], role_permissions = [],
     users = [], user_credentials = [], user_security = [], user_tokens = [], refresh_tokens = [],
     tenants = [], casbin_rule = [], audit_logs = [], error_logs = []\<rparr>"

section \<open>Constraint violations\<close>

definition unique_violation :: "string \<Rightarrow> goerr" where
  "unique_violation c = PqErr ''23505'' (''duplicate key value violates unique constraint '' @ c)"

definition fk_violation :: "string \<Rightarrow> goerr" where
  "fk_violation c = PqErr ''23503'' (''insert or update violates foreign key constraint '' @ c)"

text \<open>
  An insert that a list of constraints guards: the first one that fails is the error. New rows go
  to the end; no query below depends on the order it does not ask for, except where noted.
\<close>

fun check_constraints :: "(bool \<times> goerr) list \<Rightarrow> goerr option" where
  "check_constraints [] = None"
| "check_constraints ((ok, e) # cs) = (if ok then check_constraints cs else Some e)"

lemma check_constraints_None: "check_constraints cs = None \<longleftrightarrow> (\<forall>c \<in> set cs. fst c)"
  by (induction cs rule: check_constraints.induct) (auto split: if_splits)

end
