(* ===== verification/Go_Time.thy ===== *)
theory Go_Time
  imports Go_Std
begin

text \<open>
  \<open>time.Time\<close> as the number of nanoseconds since the Unix epoch in UTC, and its RFC 3339 text
  form: what \<open>MarshalJSON\<close> writes and \<open>UnmarshalJSON\<close> accepts. Dates are those of the proleptic
  Gregorian calendar; the year starts in March inside the computation, so that the leap day is
  its last day.
\<close>

section \<open>The calendar\<close>

type_synonym date = "int \<times> int \<times> int"

definition days_of_civil :: "date \<Rightarrow> int" where
  "days_of_civil = (\<lambda>(y, m, d).
     let y' = (if m \<le> 2 then y - 1 else y);
         era = y' div 400;
         yoe = y' mod 400;
         mp = (if m \<le> 2 then m + 9 else m - 3);
         doy = (153 * mp + 2) div 5 + d - 1;
         doe = yoe * 365 + yoe div 4 - yoe div 100 + doy
     in era * 146097 + doe - 719468)"

text \<open>
  A 400-year era has 146097 days: centuries of 36524 days, the last one longer, of 4-year cycles
  of 1461 days, the last of a century possibly shorter, of years of 365 days, the last of a
  cycle longer.
\<close>

definition year_of_era :: "int \<Rightarrow> int \<times> int" where
  "year_of_era doe =
     (let c = min 3 (doe div 36524);
          r = doe - 36524 * c;
          q = r div 1461;
          r' = r - 1461 * q;
          n = min 3 (r' div 365)
      in (100 * c + 4 * q + n, r' - 365 * n))"

definition civil_of_days :: "int \<Rightarrow> date" where
  "civil_of_days days =
     (let z = days + 719468;
          era = z div 146097;
          (yoe, doy) = year_of_era (z mod 146097);
          mp = (5 * doy + 2) div 153;
          d = doy - (153 * mp + 2) div 5 + 1;
          m = (if mp < 10 then mp + 3 else mp - 9);
          y = yoe + era * 400 + (if m \<le> 2 then 1 else 0)
      in (y, m, d))"

text \<open>A date exists when it is the date of the day it denotes.\<close>

definition valid_date :: "date \<Rightarrow> bool" where
  "valid_date ymd \<longleftrightarrow> civil_of_days (days_of_civil ymd) = ymd"

lemma valid_date_examples:
  "valid_date (2024, 2, 29)" "\<not> valid_date (2023, 2, 29)" "\<not> valid_date (1900, 2, 29)"
  "valid_date (2000, 2, 29)" "\<not> valid_date (2024, 4, 31)" "civil_of_days 0 = (1970, 1, 1)"
  by code_simp+

lemma div_bounds:
  fixes a k :: int
  assumes "0 < k"
  shows "k * (a div k) \<le> a" "a < k * (a div k) + k"
proof -
  have "k * (a div k) + a mod k = a" "0 \<le> a mod k" "a mod k < k"
    using assms by simp_all
  then show "k * (a div k) \<le> a" "a < k * (a div k) + k" by linarith+
qed

lemma year_of_era:
  assumes "0 \<le> doe" "doe < 146097" and e: "year_of_era doe = (yoe, doy)"
  shows "0 \<le> yoe" "yoe < 400" "0 \<le> doy" "doy \<le> 365"
    "yoe * 365 + yoe div 4 - yoe div 100 + doy = doe"
proof -
  define c where "c = min 3 (doe div 36524)"
  define r where "r = doe - 36524 * c"
  define q where "q = r div 1461"
  define r' where "r' = r - 1461 * q"
  define n where "n = min 3 (r' div 365)"
  have yoe: "yoe = 100 * c + 4 * q + n" and doy: "doy = r' - 365 * n"
    using e by (auto simp: year_of_era_def Let_def c_def r_def q_def r'_def n_def)
  have c: "0 \<le> c" "c \<le> 3" and r: "0 \<le> r" "r \<le> 36524"
    using assms div_bounds [of 36524 doe] by (auto simp: c_def r_def min_def)
  have q: "0 \<le> q" "q \<le> 24" and r': "0 \<le> r'" "r' \<le> 1460"
    using r div_bounds [of 1461 r] by (auto simp: q_def r'_def)
  have n: "0 \<le> n" "n \<le> 3" and d: "0 \<le> doy" "doy \<le> 365"
    using r' div_bounds [of 365 r'] by (auto simp: n_def doy min_def)
  show "0 \<le> yoe" "yoe < 400" "0 \<le> doy" "doy \<le> 365"
    using c q n d by (auto simp: yoe)
  have "yoe div 4 = 25 * c + q" "yoe div 100 = c"
    using c q n by (auto simp: yoe)
  then show "yoe * 365 + yoe div 4 - yoe div 100 + doy = doe"
    by (simp add: yoe doy r'_def r_def)
qed

lemma days_of_civil_of_days: "days_of_civil (civil_of_days days) = days"
proof -
  define z where "z = days + 719468"
  obtain yoe doy where y: "year_of_era (z mod 146097) = (yoe, doy)" by fastforce
  have b: "0 \<le> z mod 146097" "z mod 146097 < 146097" by simp_all
  note Y = year_of_era [OF b y]
  define mp where "mp = (5 * doy + 2) div 153"
  have mp: "0 \<le> mp" "mp \<le> 11"
    using Y(3,4) div_bounds [of 153 "5 * doy + 2"] by (auto simp: mp_def)
  have era: "(yoe + z div 146097 * 400) div 400 = z div 146097" "(yoe + z div 146097 * 400) mod 400 = yoe"
    using Y(1,2) by auto
  define m where "m = (if mp < 10 then mp + 3 else mp - 9)"
  define Y' where "Y' = yoe + z div 146097 * 400 + (if m \<le> 2 then 1 else 0)"
  have cod: "civil_of_days days = (Y', m, doy - (153 * mp + 2) div 5 + 1)"
    using y by (simp add: civil_of_days_def Let_def Y'_def m_def mp_def z_def)
  have m: "(if m \<le> 2 then m + 9 else m - 3) = mp" and "(if m \<le> 2 then Y' - 1 else Y') = yoe + z div 146097 * 400"
    using mp by (auto simp: m_def Y'_def)
  then have "days_of_civil (civil_of_days days) =
      z div 146097 * 146097 + (yoe * 365 + yoe div 4 - yoe div 100 + doy) - 719468"
    unfolding cod days_of_civil_def Let_def prod.case by (simp only: m era)
  also have "\<dots> = days"
    by (simp add: Y(5) z_def)
  finally show ?thesis .
qed

lemma valid_civil_of_days [simp]: "valid_date (civil_of_days days)"
  by (simp add: valid_date_def days_of_civil_of_days)

section \<open>Fixed-width decimals\<close>

fun pad :: "nat \<Rightarrow> nat \<Rightarrow> string" where
  "pad 0 k = []"
| "pad (Suc n) k = pad n (k div 10) @ [char_of (48 + k mod 10)]"

definition num_of :: "string \<Rightarrow> nat" where
  "num_of s = foldl (\<lambda>acc c. acc * 10 + (of_char c - 48)) 0 s"

definition take_num :: "nat \<Rightarrow> string \<Rightarrow> (nat \<times> string) option" where
  "take_num n s = (if n \<le> length s \<and> list_all is_digit (take n s)
                   then Some (num_of (take n s), drop n s) else None)"

lemma of_char_digit: "d < 10 \<Longrightarrow> (of_char (char_of (48 + d :: nat)) :: nat) = 48 + d"
  by simp

lemma length_pad [simp]: "length (pad n k) = n"
  by (induction n arbitrary: k) auto

lemma pad_digits: "list_all is_digit (pad n k)"
  by (induction n arbitrary: k) (auto simp: is_digit_def)

lemma num_of_snoc: "num_of (s @ [c]) = num_of s * 10 + (of_char c - 48)"
  by (simp add: num_of_def)

lemma num_of_pad: "num_of (pad n k) = k mod 10 ^ n"
proof (induction n arbitrary: k)
  case (Suc n)
  have "k mod (10 * 10 ^ n) = 10 * (k div 10 mod 10 ^ n) + k mod 10"
    by (rule mod_mult2_eq)
  then show ?case by (simp add: num_of_snoc Suc)
qed (simp add: num_of_def)

lemma take_num_pad [simp]: "k < 10 ^ n \<Longrightarrow> take_num n (pad n k @ r) = Some (k, r)"
  by (simp add: take_num_def pad_digits num_of_pad)

section \<open>RFC 3339\<close>

definition trim_zeros :: "string \<Rightarrow> string" where
  "trim_zeros s = rev (dropWhile (\<lambda>c. c = CHR ''0'') (rev s))"

definition year_text :: "int \<Rightarrow> string" where
  "year_text y = (if 0 \<le> y \<and> y \<le> 9999 then pad 4 (nat y) else itoa y)"

definition clock_text :: "date \<Rightarrow> nat \<Rightarrow> string" where
  "clock_text = (\<lambda>(y, m, d) sod. year_text y @ ''-'' @ pad 2 (nat m) @ ''-'' @ pad 2 (nat d) @ ''T''
     @ pad 2 (sod div 3600) @ '':'' @ pad 2 (sod div 60 mod 60) @ '':'' @ pad 2 (sod mod 60))"

text \<open>\<open>t.Format(time.RFC3339)\<close> and \<open>t.Format(time.RFC3339Nano)\<close> of a time in UTC.\<close>

definition rfc3339 :: "time \<Rightarrow> string" where
  "rfc3339 t = (let secs = t div second in
     clock_text (civil_of_days (secs div 86400)) (nat (secs mod 86400)) @ ''Z'')"

definition rfc3339nano :: "time \<Rightarrow> string" where
  "rfc3339nano t = (let secs = t div second; ns = nat (t mod second) in
     clock_text (civil_of_days (secs div 86400)) (nat (secs mod 86400))
       @ (if ns = 0 then [] else CHR ''.'' # trim_zeros (pad 9 ns)) @ ''Z'')"

text \<open>\<open>MarshalJSON\<close> refuses years outside \<open>[0, 9999]\<close>.\<close>

definition year_of :: "time \<Rightarrow> int" where
  "year_of t = fst (civil_of_days (t div second div 86400))"

definition year_ok :: "time \<Rightarrow> bool" where
  "year_ok t \<longleftrightarrow> 0 \<le> year_of t \<and> year_of t \<le> 9999"

text \<open>
  \<open>time.Parse(time.RFC3339, s)\<close>, and with \<open>strict\<close> what \<open>Time.UnmarshalJSON\<close> accepts: two digits
  for the hour, a period before the fraction, and a zone below 24:60.
\<close>

definition expect :: "char \<Rightarrow> string \<Rightarrow> string option" where
  "expect c s = (case s of [] \<Rightarrow> None | x # r \<Rightarrow> if x = c then Some r else None)"

definition take_hour :: "bool \<Rightarrow> string \<Rightarrow> (nat \<times> string) option" where
  "take_hour strict s =
     (case take_num 2 s of Some x \<Rightarrow> Some x | None \<Rightarrow> if strict then None else take_num 1 s)"

definition parse_fraction :: "bool \<Rightarrow> string \<Rightarrow> (nat \<times> string) option" where
  "parse_fraction strict s = (case s of
      [] \<Rightarrow> Some (0, s)
    | c # r \<Rightarrow> if c \<noteq> CHR ''.'' \<and> (strict \<or> c \<noteq> CHR '','') then Some (0, s)
        else (let ds = takeWhile is_digit r in
          if ds = [] then None
          else Some (num_of (take 9 (ds @ replicate 9 (CHR ''0''))), dropWhile is_digit r)))"

definition parse_zone :: "bool \<Rightarrow> string \<Rightarrow> int option" where
  "parse_zone strict s = (case s of
      [] \<Rightarrow> None
    | c # r \<Rightarrow>
        if c = CHR ''Z'' then (if r = [] then Some 0 else None)
        else if c = CHR ''+'' \<or> c = CHR ''-'' then
          Option.bind (take_num 2 r) (\<lambda>(hh, r). Option.bind (expect (CHR '':'') r) (\<lambda>r.
          Option.bind (take_num 2 r) (\<lambda>(mm, r).
            if r = [] \<and> (if strict then hh < 24 \<and> mm < 60 else hh \<le> 24 \<and> mm \<le> 60)
            then Some ((if c = CHR ''-'' then -1 else 1) * (int hh * 3600 + int mm * 60)) else None)))
        else None)"

definition parse_rfc3339 :: "bool \<Rightarrow> string \<Rightarrow> time option" where
  "parse_rfc3339 strict s =
     Option.bind (take_num 4 s) (\<lambda>(y, s). Option.bind (expect (CHR ''-'') s) (\<lambda>s.
     Option.bind (take_num 2 s) (\<lambda>(m, s). Option.bind (expect (CHR ''-'') s) (\<lambda>s.
     Option.bind (take_num 2 s) (\<lambda>(d, s). Option.bind (expect (CHR ''T'') s) (\<lambda>s.
     Option.bind (take_hour strict s) (\<lambda>(h, s). Option.bind (expect (CHR '':'') s) (\<lambda>s.
     Option.bind (take_num 2 s) (\<lambda>(mi, s). Option.bind (expect (CHR '':'') s) (\<lambda>s.
     Option.bind (take_num 2 s) (\<lambda>(sec, s).
     Option.bind (parse_fraction strict s) (\<lambda>(ns, s).
     Option.bind (parse_zone strict s) (\<lambda>off.
       if valid_date (int y, int m, int d) \<and> h < 24 \<and> mi < 60 \<and> sec < 60
       then Some ((days_of_civil (int y, int m, int d) * 86400
                   + int h * 3600 + int mi * 60 + int sec - off) * second + int ns)
       else None)))))))))))))"

lemma take_hour_pad [simp]: "k < 10 ^ 2 \<Longrightarrow> take_hour strict (pad 2 k @ r) = Some (k, r)"
  by (simp add: take_hour_def)

lemma expect_same [simp]: "expect c (c # s) = Some s"
  by (simp add: expect_def)

lemma trim_zeros_decomp: "\<exists>k. s = trim_zeros s @ replicate k (CHR ''0'')"
proof -
  have "rev s = takeWhile (\<lambda>c. c = CHR ''0'') (rev s) @ dropWhile (\<lambda>c. c = CHR ''0'') (rev s)"
    by simp
  moreover have "takeWhile (\<lambda>c. c = CHR ''0'') xs =
      replicate (length (takeWhile (\<lambda>c. c = CHR ''0'') xs)) (CHR ''0'')" for xs
    by (induction xs) auto
  then obtain k where "takeWhile (\<lambda>c. c = CHR ''0'') (rev s) = replicate k (CHR ''0'')"
    by blast
  ultimately have "rev s = replicate k (CHR ''0'') @ dropWhile (\<lambda>c. c = CHR ''0'') (rev s)"
    by simp
  then have "rev (rev s) = rev (replicate k (CHR ''0'') @ dropWhile (\<lambda>c. c = CHR ''0'') (rev s))"
    by (rule arg_cong)
  then have "s = trim_zeros s @ replicate k (CHR ''0'')"
    by (simp add: trim_zeros_def)
  then show ?thesis ..
qed

lemma take_trim_zeros:
  "length s = n \<Longrightarrow> take n (trim_zeros s @ replicate n (CHR ''0'')) = s"
proof -
  assume n: "length s = n"
  obtain k where k: "s = trim_zeros s @ replicate k (CHR ''0'')"
    using trim_zeros_decomp by blast
  with n have "length (trim_zeros s) + k = n"
    by (metis length_append length_replicate)
  then have "take n (trim_zeros s @ replicate n (CHR ''0'')) = trim_zeros s @ replicate k (CHR ''0'')"
    by (auto simp: min_def)
  with k show ?thesis by simp
qed

lemma trim_zeros_digits: "list_all is_digit s \<Longrightarrow> list_all is_digit (trim_zeros s)"
  unfolding trim_zeros_def list_all_iff by (auto dest: set_dropWhileD)

lemma trim_zeros_Nil: "trim_zeros s = [] \<Longrightarrow> s = replicate (length s) (CHR ''0'')"
  using trim_zeros_decomp [of s] by auto

lemma num_of_zeros: "num_of (replicate k (CHR ''0'')) = 0"
  by (induction k) (simp_all add: num_of_def)

lemma parse_fraction_write:
  assumes "ns < 10 ^ 9"
  shows "parse_fraction strict ((if ns = 0 then [] else CHR ''.'' # trim_zeros (pad 9 ns)) @ ''Z'') = Some (ns, ''Z'')"
proof (cases "ns = 0")
  case True
  then show ?thesis by (simp add: parse_fraction_def)
next
  case False
  let ?z = "trim_zeros (pad 9 ns)"
  have d: "list_all is_digit ?z" by (simp add: trim_zeros_digits pad_digits)
  have z: "\<not> is_digit (CHR ''Z'')" by (simp add: is_digit_def)
  have tw: "takeWhile is_digit (?z @ ''Z'') = ?z" "dropWhile is_digit (?z @ ''Z'') = ''Z''"
    using d z by (auto simp: list_all_iff)
  have ne: "?z \<noteq> []"
    using trim_zeros_Nil [of "pad 9 ns"] num_of_zeros [of 9] num_of_pad [of 9 ns] False assms by auto
  have "take 9 (?z @ replicate 9 (CHR ''0'')) = pad 9 ns"
    by (rule take_trim_zeros) simp
  then show ?thesis
    using False tw ne assms by (simp add: parse_fraction_def num_of_pad)
qed

lemma civil_ranges:
  assumes "civil_of_days z = (y, m, d)"
  shows "1 \<le> m" "m \<le> 12" "1 \<le> d" "d \<le> 31"
proof -
  define z' where "z' = z + 719468"
  obtain yoe doy where y: "year_of_era (z' mod 146097) = (yoe, doy)" by fastforce
  have b: "0 \<le> z' mod 146097" "z' mod 146097 < 146097" by simp_all
  note Y = year_of_era(3,4) [OF b y]
  define mp where "mp = (5 * doy + 2) div 153"
  have mp: "0 \<le> mp" "mp \<le> 11" "153 * mp \<le> 5 * doy + 2" "5 * doy + 2 < 153 * mp + 153"
    using Y div_bounds [of 153 "5 * doy + 2"] by (auto simp: mp_def)
  have "m = (if mp < 10 then mp + 3 else mp - 9)" "d = doy - (153 * mp + 2) div 5 + 1"
    using assms y by (auto simp: civil_of_days_def Let_def mp_def simp flip: z'_def)
  then show "1 \<le> m" "m \<le> 12" "1 \<le> d" "d \<le> 31"
    using mp div_bounds [of 5 "153 * mp + 2"] by auto
qed

lemma rfc3339nano_whole: "t mod second = 0 \<Longrightarrow> rfc3339nano t = rfc3339 t"
  by (simp add: rfc3339nano_def rfc3339_def Let_def)

theorem rfc3339nano_round_trip:
  assumes "year_ok t"
  shows "parse_rfc3339 strict (rfc3339nano t) = Some t"
proof -
  define secs where "secs = t div second"
  define ns where "ns = nat (t mod second)"
  define sod where "sod = nat (secs mod 86400)"
  obtain y m d where c: "civil_of_days (secs div 86400) = (y, m, d)"
    using prod_cases3 by blast
  note R = civil_ranges [OF c]
  have ns: "ns < 10 ^ 9" by (simp add: ns_def nat_less_iff)
  have sod: "sod < 86400" by (simp add: sod_def nat_less_iff)
  have y: "0 \<le> y" "y \<le> 9999"
    using assms c by (simp_all add: year_ok_def year_of_def secs_def)
  have s: "rfc3339nano t = pad 4 (nat y) @ ''-'' @ pad 2 (nat m) @ ''-'' @ pad 2 (nat d) @ ''T''
           @ pad 2 (sod div 3600) @ '':'' @ pad 2 (sod div 60 mod 60) @ '':'' @ pad 2 (sod mod 60)
           @ (if ns = 0 then [] else CHR ''.'' # trim_zeros (pad 9 ns)) @ ''Z''"
    unfolding rfc3339nano_def Let_def secs_def [symmetric] ns_def [symmetric]
      sod_def [symmetric] c clock_text_def
    using y by (simp add: year_text_def)
  have small: "nat y < 10 ^ 4" "nat m < 10 ^ 2" "nat d < 10 ^ 2" "sod div 3600 < 24" "sod mod 60 < 10 ^ 2"
    "sod div 60 mod 60 < 10 ^ 2"
    using y R sod by (auto simp: less_mult_imp_div_less intro: order.strict_trans [of _ 60])
  then have small': "sod div 3600 < 10 ^ 2" by simp
  have vd: "valid_date (y, m, d)" and dc: "days_of_civil (y, m, d) = secs div 86400"
    using valid_civil_of_days [of "secs div 86400"] days_of_civil_of_days [of "secs div 86400"]
    by (simp_all add: c)
  have "sod div 3600 = sod div 60 div 60"
    by (simp add: div_mult2_eq [symmetric])
  then have "sod div 3600 * 3600 + sod div 60 mod 60 * 60 + sod mod 60 = sod"
    using div_mult_mod_eq [of "sod div 60" 60] div_mult_mod_eq [of sod 60] by linarith
  then have "int (sod div 3600 * 3600 + sod div 60 mod 60 * 60 + sod mod 60) = int sod"
    by (rule arg_cong)
  then have hms: "int (sod div 3600) * 3600 + int (sod div 60 mod 60) * 60 + int (sod mod 60) = int sod"
    by (simp only: of_nat_add of_nat_mult of_nat_numeral)
  have "int sod = secs mod 86400" "int ns = t mod second"
    by (simp_all add: sod_def ns_def)
  then have t: "(secs div 86400 * 86400 + int sod) * second + int ns = t"
    by (simp add: secs_def)
  have "parse_rfc3339 strict (rfc3339nano t) = Some ((secs div 86400 * 86400 +
      int (sod div 3600) * 3600 + int (sod div 60 mod 60) * 60 + int (sod mod 60) - 0) * second + int ns)"
    unfolding s parse_rfc3339_def using small small' parse_fraction_write [OF ns]
    y R by (simp add: parse_zone_def vd dc del: of_nat_div of_nat_mod)
  with hms t show ?thesis by (simp add: add.assoc)
qed

text \<open>The text without fraction keeps the whole seconds.\<close>

lemma rfc3339_floor: "rfc3339 t = rfc3339 (t div second * second)"
  by (simp add: rfc3339_def)

theorem rfc3339_round_trip:
  assumes "year_ok t"
  shows "parse_rfc3339 strict (rfc3339 t) = Some (t div second * second)"
proof -
  have "year_ok (t div second * second)"
    using assms by (simp add: year_ok_def year_of_def)
  then show ?thesis
    using rfc3339nano_round_trip [of "t div second * second" strict]
    by (simp add: rfc3339_floor [of t] rfc3339nano_whole)
qed

end
