(* ===== verification/Go_Json.thy ===== *)
theory Go_Json
  imports Go_Time
begin

text \<open>
  \<open>encoding/json\<close>: the values, the text that \<open>Marshal\<close> writes and the parser behind
  \<open>Unmarshal\<close> and \<open>Decoder.Decode\<close>. Strings are taken to be valid UTF-8 (Go would replace a bad
  byte by U+FFFD) and the nesting limit of 10000 is not modelled. The parser runs on fuel: each
  value consumes a character before it holds another, so two units per character are enough:
  \<open>fuel_enough\<close> shows that no text gets another answer from more.
\<close>

datatype json =
    JNull
  | JBool bool
  | JNum string
  | JStr string
  | JArr "json list"
  | JObj "(string \<times> json) list"
  | JRaw string

abbreviation quote :: char where
  "quote \<equiv> CHR 0x22"

abbreviation backslash :: char where
  "backslash \<equiv> CHR 0x5C"

section \<open>Writing\<close>

definition code :: "char \<Rightarrow> nat" where
  "code c = of_char c"

definition escape_char :: "char \<Rightarrow> string" where
  "escape_char c =
     (if c = quote then [backslash, quote]
      else if c = backslash then [backslash, backslash]
      else if c = CHR 0x08 then [backslash, CHR ''b'']
      else if c = CHR 0x0C then [backslash, CHR ''f'']
      else if c = CHR 0x0A then [backslash, CHR ''n'']
      else if c = CHR 0x0D then [backslash, CHR ''r'']
      else if c = CHR 0x09 then [backslash, CHR ''t'']
      else if code c < 32 \<or> c = CHR ''<'' \<or> c = CHR ''>'' \<or> c = CHR ''&''
      then [backslash, CHR ''u'', CHR ''0'', CHR ''0'', hex_digit (code c div 16), hex_digit (code c mod 16)]
      else [c])"

text \<open>The line and paragraph separators U+2028 and U+2029, whose UTF-8 is E2 80 A8 and E2 80 A9.\<close>

definition separator :: "string \<Rightarrow> char option" where
  "separator s =
     (if take 3 s = [CHR 0xE2, CHR 0x80, CHR 0xA8] then Some (CHR ''8'')
      else if take 3 s = [CHR 0xE2, CHR 0x80, CHR 0xA9] then Some (CHR ''9'') else None)"

function escape :: "string \<Rightarrow> string" where
  "escape s = (case s of
      [] \<Rightarrow> []
    | c # r \<Rightarrow> (case separator s of
        Some d \<Rightarrow> backslash # CHR ''u'' # ''202'' @ d # escape (drop 2 r)
      | None \<Rightarrow> escape_char c @ escape r))"
  by pat_completeness auto
termination by (relation "measure length") auto

declare escape.simps [simp del]

lemma escape_Nil [simp]: "escape [] = []"
  by (subst escape.simps) simp

lemma escape_Cons [simp]: "separator (c # s) = None \<Longrightarrow> escape (c # s) = escape_char c @ escape s"
  by (subst escape.simps) simp

text \<open>\<open>json.RawMessage\<close> is written without the space between tokens and with the same escapes.\<close>

definition is_ws :: "char \<Rightarrow> bool" where
  "is_ws c \<longleftrightarrow> c = CHR '' '' \<or> c = CHR 0x09 \<or> c = CHR 0x0A \<or> c = CHR 0x0D"

function compact_raw :: "bool \<Rightarrow> bool \<Rightarrow> string \<Rightarrow> string" where
  "compact_raw in_str esc s = (case s of
      [] \<Rightarrow> []
    | c # r \<Rightarrow> (case separator s of
        Some d \<Rightarrow> backslash # CHR ''u'' # ''202'' @ d # compact_raw in_str False (drop 2 r)
      | None \<Rightarrow>
          if \<not> in_str \<and> is_ws c then compact_raw False False r
          else (if c = CHR ''<'' \<or> c = CHR ''>'' \<or> c = CHR ''&'' then escape_char c else [c]) @
            compact_raw (if c = quote \<and> \<not> esc then \<not> in_str else in_str)
              (in_str \<and> \<not> esc \<and> c = backslash) r))"
  by pat_completeness auto
termination by (relation "measure (\<lambda>(_, _, s). length s)") auto

declare compact_raw.simps [simp del]

definition json_str :: "string \<Rightarrow> string" where
  "json_str s = quote # escape s @ [quote]"

fun json_text :: "json \<Rightarrow> string"
  and elems_text :: "json list \<Rightarrow> string"
  and members_text :: "(string \<times> json) list \<Rightarrow> string" where
  "json_text JNull = ''null''"
| "json_text (JBool b) = (if b then ''true'' else ''false'')"
| "json_text (JNum t) = t"
| "json_text (JStr s) = json_str s"
| "json_text (JArr vs) = (if vs = [] then ''[]'' else CHR ''['' # elems_text vs)"
| "json_text (JObj ms) = (if ms = [] then ''{}'' else CHR ''{'' # members_text ms)"
| "json_text (JRaw t) = compact_raw False False t"
| "elems_text [] = []"
| "elems_text (v # vs) = json_text v @ (if vs = [] then '']'' else CHR '','' # elems_text vs)"
| "members_text [] = []"
| "members_text ((k, v) # ms) =
     json_str k @ CHR '':'' # json_text v @ (if ms = [] then ''}'' else CHR '','' # members_text ms)"

section \<open>Reading\<close>

definition skip_ws :: "string \<Rightarrow> string" where
  "skip_ws s = dropWhile is_ws s"

definition hex_val :: "char \<Rightarrow> nat option" where
  "hex_val c = index_of (lower_char c) ''0123456789abcdef''"

fun hex4 :: "string \<Rightarrow> nat option" where
  "hex4 [a, b, c, d] =
     (case (hex_val a, hex_val b, hex_val c, hex_val d) of
        (Some w, Some x, Some y, Some z) \<Rightarrow> Some (((w * 16 + x) * 16 + y) * 16 + z)
      | _ \<Rightarrow> None)"
| "hex4 _ = None"

definition utf8 :: "nat \<Rightarrow> string" where
  "utf8 u =
     (if u < 0x80 then [char_of u]
      else if u < 0x800 then [char_of (0xC0 + u div 64), char_of (0x80 + u mod 64)]
      else if u < 0x10000
      then [char_of (0xE0 + u div 4096), char_of (0x80 + u div 64 mod 64), char_of (0x80 + u mod 64)]
      else [char_of (0xF0 + u div 262144), char_of (0x80 + u div 4096 mod 64),
            char_of (0x80 + u div 64 mod 64), char_of (0x80 + u mod 64)])"

text \<open>After \<open>\u\<close>: the code point and the number of characters used; a lone surrogate is U+FFFD.\<close>

definition unicode_escape :: "string \<Rightarrow> (nat \<times> nat) option" where
  "unicode_escape s = (case hex4 (take 4 s) of
      None \<Rightarrow> None
    | Some u \<Rightarrow>
        if 0xD800 \<le> u \<and> u < 0xE000 then
          (case (take 2 (drop 4 s) = [backslash, CHR ''u''], hex4 (take 4 (drop 6 s))) of
             (True, Some l) \<Rightarrow>
               if u < 0xDC00 \<and> 0xDC00 \<le> l \<and> l < 0xE000
               then Some (0x10000 + (u - 0xD800) * 1024 + (l - 0xDC00), 10) else Some (0xFFFD, 4)
           | _ \<Rightarrow> Some (0xFFFD, 4))
        else Some (u, 4))"

definition simple_escape :: "char \<Rightarrow> char option" where
  "simple_escape e = map_of
     [(quote, quote), (backslash, backslash), (CHR ''/'', CHR ''/''), (CHR ''b'', CHR 0x08),
      (CHR ''f'', CHR 0x0C), (CHR ''n'', CHR 0x0A), (CHR ''r'', CHR 0x0D), (CHR ''t'', CHR 0x09)] e"

function str_body :: "string \<Rightarrow> (string \<times> string) option" where
  "str_body s = (case s of
      [] \<Rightarrow> None
    | c # r \<Rightarrow>
        if c = quote then Some ([], r)
        else if c = backslash then
          (case r of
             [] \<Rightarrow> None
           | e # r' \<Rightarrow>
               if e = CHR ''u'' then
                 (case unicode_escape r' of
                    None \<Rightarrow> None
                  | Some (u, n) \<Rightarrow> map_option (\<lambda>(t, q). (utf8 u @ t, q)) (str_body (drop n r')))
               else (case simple_escape e of
                    None \<Rightarrow> None
                  | Some x \<Rightarrow> map_option (\<lambda>(t, q). (x # t, q)) (str_body r')))
        else if code c < 32 then None
        else map_option (\<lambda>(t, q). (c # t, q)) (str_body r))"
  by pat_completeness auto
termination by (relation "measure length") auto

declare str_body.simps [simp del]

definition is_num_char :: "char \<Rightarrow> bool" where
  "is_num_char c \<longleftrightarrow> is_digit c \<or> c \<in> set ''+-.eE''"

text \<open>\<open>-? (0 | [1-9][0-9]*) (. [0-9]+)? ([eE] [+-]? [0-9]+)?\<close>\<close>

definition valid_number :: "string \<Rightarrow> bool" where
  "valid_number t =
     (let t1 = (if t \<noteq> [] \<and> hd t = CHR ''-'' then tl t else t);
          ip = takeWhile is_digit t1; t2 = dropWhile is_digit t1;
          fp = takeWhile is_digit (tl t2);
          t3 = (if t2 \<noteq> [] \<and> hd t2 = CHR ''.'' then dropWhile is_digit (tl t2) else t2);
          t4 = (if t3 \<noteq> [] \<and> tl t3 \<noteq> [] \<and> hd (tl t3) \<in> set ''+-'' then tl (tl t3) else tl t3)
      in ip \<noteq> [] \<and> (hd ip = CHR ''0'' \<longrightarrow> ip = ''0'')
         \<and> (t2 \<noteq> [] \<and> hd t2 = CHR ''.'' \<longrightarrow> fp \<noteq> [])
         \<and> (t3 = [] \<or> hd t3 \<in> set ''eE'' \<and> t4 \<noteq> [] \<and> list_all is_digit t4))"

definition scalar :: "string \<Rightarrow> (json \<times> string) option" where
  "scalar s =
     (if take 4 s = ''null'' then Some (JNull, drop 4 s)
      else if take 4 s = ''true'' then Some (JBool True, drop 4 s)
      else if take 5 s = ''false'' then Some (JBool False, drop 5 s)
      else (let t = takeWhile is_num_char s in
        if valid_number t then Some (JNum t, dropWhile is_num_char s) else None))"

fun pval :: "nat \<Rightarrow> string \<Rightarrow> (json \<times> string) option"
  and pelems :: "nat \<Rightarrow> string \<Rightarrow> (json list \<times> string) option"
  and pmembers :: "nat \<Rightarrow> string \<Rightarrow> ((string \<times> json) list \<times> string) option" where
  "pval 0 s = None"
| "pval (Suc n) s = (case skip_ws s of
      [] \<Rightarrow> None
    | c # r \<Rightarrow>
        if c = CHR ''{'' then
          (case expect (CHR ''}'') (skip_ws r) of
             Some r' \<Rightarrow> Some (JObj [], r')
           | None \<Rightarrow> map_option (\<lambda>(ms, q). (JObj ms, q)) (pmembers n r))
        else if c = CHR ''['' then
          (case expect (CHR '']'') (skip_ws r) of
             Some r' \<Rightarrow> Some (JArr [], r')
           | None \<Rightarrow> map_option (\<lambda>(vs, q). (JArr vs, q)) (pelems n r))
        else if c = quote then map_option (\<lambda>(t, q). (JStr t, q)) (str_body r)
        else scalar (c # r))"
| "pelems 0 s = None"
| "pelems (Suc n) s = (case pval n s of
      None \<Rightarrow> None
    | Some (v, r) \<Rightarrow>
        (case skip_ws r of
           [] \<Rightarrow> None
         | c # r' \<Rightarrow>
             if c = CHR '']'' then Some ([v], r')
             else if c = CHR '','' then map_option (\<lambda>(vs, q). (v # vs, q)) (pelems n r')
             else None))"
| "pmembers 0 s = None"
| "pmembers (Suc n) s =
     Option.bind (expect quote (skip_ws s)) (\<lambda>r. Option.bind (str_body r) (\<lambda>(k, r).
     Option.bind (expect (CHR '':'') (skip_ws r)) (\<lambda>r. Option.bind (pval n r) (\<lambda>(v, r).
       case skip_ws r of
         [] \<Rightarrow> None
       | c # r' \<Rightarrow>
           if c = CHR ''}'' then Some ([(k, v)], r')
           else if c = CHR '','' then map_option (\<lambda>(ms, q). ((k, v) # ms, q)) (pmembers n r')
           else None))))"

text \<open>\<open>json.Unmarshal\<close> wants one value and nothing after it; \<open>Decoder.Decode\<close> stops after the value.\<close>

definition json_parse :: "string \<Rightarrow> json option" where
  "json_parse s = (case pval (2 * length s + 2) s of
      Some (v, r) \<Rightarrow> if skip_ws r = [] then Some v else None
    | None \<Rightarrow> None)"

definition json_first :: "string \<Rightarrow> json option" where
  "json_first s = map_option fst (pval (2 * length s + 2) s)"

text \<open>
  The fields of a struct: keys match without regard to case, each occurrence overwrites the one
  before, \<open>null\<close> leaves the field as it is, and a value of the wrong type is an error.
\<close>

definition key_matches :: "string \<Rightarrow> string \<Rightarrow> bool" where
  "key_matches name k \<longleftrightarrow> to_lower k = to_lower name"

definition field_values :: "string \<Rightarrow> (string \<times> json) list \<Rightarrow> json list" where
  "field_values name ms = filter (\<lambda>v. v \<noteq> JNull) (map snd (filter (\<lambda>(k, v). key_matches name k) ms))"

definition typed_field :: "(json \<Rightarrow> 'a option) \<Rightarrow> string \<Rightarrow> (string \<times> json) list \<Rightarrow> 'a \<Rightarrow> 'a option" where
  "typed_field rd name ms dflt =
     (let vs = map rd (field_values name ms) in
      if list_ex (\<lambda>v. v = None) vs then None else if vs = [] then Some dflt else last vs)"

fun read_string :: "json \<Rightarrow> string option" where
  "read_string (JStr s) = Some s"
| "read_string _ = None"

fun read_bool :: "json \<Rightarrow> bool option" where
  "read_bool (JBool b) = Some b"
| "read_bool _ = None"

definition string_field :: "string \<Rightarrow> (string \<times> json) list \<Rightarrow> string \<Rightarrow> string option" where
  "string_field = typed_field read_string"

definition bool_field :: "string \<Rightarrow> (string \<times> json) list \<Rightarrow> bool \<Rightarrow> bool option" where
  "bool_field = typed_field read_bool"

text \<open>The members of a JSON object; a struct decoded from \<open>null\<close> keeps its zero value.\<close>

fun struct_members :: "json \<Rightarrow> (string \<times> json) list option" where
  "struct_members (JObj ms) = Some ms"
| "struct_members JNull = Some []"
| "struct_members _ = None"

section \<open>Round trip\<close>

fun wf_json :: "json \<Rightarrow> bool"
  and wf_elems :: "json list \<Rightarrow> bool"
  and wf_members :: "(string \<times> json) list \<Rightarrow> bool" where
  "wf_json (JNum t) = (valid_number t \<and> list_all is_num_char t)"
| "wf_json (JArr vs) = wf_elems vs"
| "wf_json (JObj ms) = wf_members ms"
| "wf_json (JRaw t) = False"
| "wf_json _ = True"
| "wf_elems [] = True"
| "wf_elems (v # vs) = (wf_json v \<and> wf_elems vs)"
| "wf_members [] = True"
| "wf_members ((k, v) # ms) = (wf_json v \<and> wf_members ms)"

lemma hex_val_digit_all: "\<forall>n < (16::nat). hex_val (hex_digit n) = Some n"
  by code_simp

lemma hex_val_digit [simp]: "n < 16 \<Longrightarrow> hex_val (hex_digit n) = Some n"
  using hex_val_digit_all by blast

lemma simple_escape_eval [simp]:
  "simple_escape quote = Some quote" "simple_escape backslash = Some backslash"
  "simple_escape (CHR ''b'') = Some (CHR 0x08)" "simple_escape (CHR ''f'') = Some (CHR 0x0C)"
  "simple_escape (CHR ''n'') = Some (CHR 0x0A)" "simple_escape (CHR ''r'') = Some (CHR 0x0D)"
  "simple_escape (CHR ''t'') = Some (CHR 0x09)"
  by code_simp+

lemma code_char [simp]: "char_of (code c) = c"
  by (simp add: code_def)

lemma unicode_escape_control:
  assumes "code c < 128"
  shows "unicode_escape (CHR ''0'' # CHR ''0'' # hex_digit (code c div 16) # hex_digit (code c mod 16) # r)
    = Some (code c, 4)"
proof -
  have z: "hex_val (CHR ''0'') = Some 0" by code_simp
  have "code c div 16 < 16" using assms by (simp add: less_mult_imp_div_less)
  then show ?thesis
    using assms by (simp add: unicode_escape_def z)
qed

lemma str_body_escape_char: "str_body (escape_char c @ r) = map_option (\<lambda>(t, q). (c # t, q)) (str_body r)"
proof (cases "code c < 32 \<or> c = CHR ''<'' \<or> c = CHR ''>'' \<or> c = CHR ''&''")
  case True
  have "code c < 128" using True by (auto simp: code_def)
  then have u: "utf8 (code c) = [c]" by (simp add: utf8_def)
  show ?thesis
    using unicode_escape_control [OF \<open>code c < 128\<close>, of r] True
    by (subst str_body.simps) (auto simp: escape_char_def u)
next
  case False
  then show ?thesis
    by (subst str_body.simps) (auto simp: escape_char_def)
qed

lemma separatorE:
  assumes "separator s = Some d"
  obtains u where "s = CHR 0xE2 # CHR 0x80 # (if d = CHR ''8'' then CHR 0xA8 else CHR 0xA9) # u"
    "d = CHR ''8'' \<or> d = CHR ''9''"
  using assms that by (cases s rule: remdups_adj.cases; cases "tl (tl s)") (auto simp: separator_def split: if_splits)

lemma escape_separator:
  "separator (c # d # e # u) = Some x \<Longrightarrow>
     escape (c # d # e # u) = backslash # CHR ''u'' # CHR ''2'' # CHR ''0'' # CHR ''2'' # x # escape u"
  by (subst escape.simps) simp

lemma str_body_unicode_202:
  "str_body (backslash # CHR ''u'' # CHR ''2'' # CHR ''0'' # CHR ''2'' # CHR ''8'' # r) =
     map_option (\<lambda>(t, q). (CHR 0xE2 # CHR 0x80 # CHR 0xA8 # t, q)) (str_body r)"
  "str_body (backslash # CHR ''u'' # CHR ''2'' # CHR ''0'' # CHR ''2'' # CHR ''9'' # r) =
     map_option (\<lambda>(t, q). (CHR 0xE2 # CHR 0x80 # CHR 0xA9 # t, q)) (str_body r)"
proof -
  have v: "hex_val (CHR ''2'') = Some 2" "hex_val (CHR ''0'') = Some 0" "hex_val (CHR ''8'') = Some 8"
    "hex_val (CHR ''9'') = Some 9" by code_simp+
  have u: "utf8 0x2028 = [CHR 0xE2, CHR 0x80, CHR 0xA8]" "utf8 0x2029 = [CHR 0xE2, CHR 0x80, CHR 0xA9]"
    by (simp_all add: utf8_def char_of_def bit_0)
  show "str_body (backslash # CHR ''u'' # CHR ''2'' # CHR ''0'' # CHR ''2'' # CHR ''8'' # r) =
     map_option (\<lambda>(t, q). (CHR 0xE2 # CHR 0x80 # CHR 0xA8 # t, q)) (str_body r)"
    using u by (subst str_body.simps) (simp add: unicode_escape_def v)
  show "str_body (backslash # CHR ''u'' # CHR ''2'' # CHR ''0'' # CHR ''2'' # CHR ''9'' # r) =
     map_option (\<lambda>(t, q). (CHR 0xE2 # CHR 0x80 # CHR 0xA9 # t, q)) (str_body r)"
    using u by (subst str_body.simps) (simp add: unicode_escape_def v)
qed

lemma str_body_escape [simp]: "str_body (escape s @ quote # r) = Some (s, r)"
proof (induction s rule: escape.induct)
  case (1 s)
  show ?case
  proof (cases s)
    case Nil
    then show ?thesis by (subst str_body.simps) simp
  next
    case (Cons c t)
    show ?thesis
    proof (cases "separator s")
      case None
      with 1 Cons show ?thesis by (simp add: str_body_escape_char)
    next
      case (Some d)
      then have "str_body (escape (drop 2 t) @ quote # r) = Some (drop 2 t, r)"
        using 1 Cons by simp
      moreover obtain u where "s = CHR 0xE2 # CHR 0x80 # (if d = CHR ''8'' then CHR 0xA8 else CHR 0xA9) # u"
          "d = CHR ''8'' \<or> d = CHR ''9''"
        using separatorE [OF Some] by blast
      ultimately show ?thesis
        using Cons Some by (auto simp: escape_separator str_body_unicode_202)
    qed
  qed
qed

definition ends :: "string \<Rightarrow> bool" where
  "ends r \<longleftrightarrow> r = [] \<or> \<not> is_num_char (hd r)"

lemma takeWhile_num: "list_all is_num_char t \<Longrightarrow> ends r \<Longrightarrow>
    takeWhile is_num_char (t @ r) = t \<and> dropWhile is_num_char (t @ r) = r"
  by (induction t) (cases r; simp add: ends_def)+

lemma valid_number_hd: "valid_number t \<Longrightarrow> \<exists>c r. t = c # r \<and> (is_digit c \<or> c = CHR ''-'')"
  by (cases t) (auto simp: valid_number_def Let_def split: if_splits)

lemma skip_ws_Cons [simp]: "\<not> is_ws c \<Longrightarrow> skip_ws (c # r) = c # r"
  by (simp add: skip_ws_def)

lemma not_ws [simp]:
  "\<not> is_ws quote" "\<not> is_ws (CHR ''{'')" "\<not> is_ws (CHR ''}'')" "\<not> is_ws (CHR ''['')" "\<not> is_ws (CHR '']'')"
  "\<not> is_ws (CHR '','')" "\<not> is_ws (CHR '':'')" "\<not> is_ws (CHR ''n'')" "\<not> is_ws (CHR ''t'')" "\<not> is_ws (CHR ''f'')"
  by (simp_all add: is_ws_def)

lemma ends_Cons [simp]: "ends []" "ends (CHR '','' # r)" "ends (CHR ''}'' # r)" "ends (CHR '']'' # r)"
  by (simp_all add: ends_def is_num_char_def is_digit_def)

lemma pval_number:
  assumes "valid_number t" "list_all is_num_char t" "ends r"
  shows "pval (Suc n) (t @ r) = Some (JNum t, r)"
proof -
  obtain c u where t: "t = c # u" and c: "is_digit c \<or> c = CHR ''-''"
    using valid_number_hd [OF assms(1)] by blast
  have "\<not> is_ws c" "c \<noteq> CHR ''{''" "c \<noteq> CHR ''[''" "c \<noteq> quote" "c \<noteq> CHR ''n''" "c \<noteq> CHR ''t''" "c \<noteq> CHR ''f''"
    using c by (auto simp: is_digit_def is_ws_def)
  moreover from this have "scalar (t @ r) = Some (JNum t, r)"
    using takeWhile_num [OF assms(2,3)] assms(1) by (simp add: scalar_def Let_def t)
  ultimately show ?thesis by (simp add: t)
qed

text \<open>What a value starts with, to tell it from a closing bracket.\<close>

lemma json_text_hd:
  assumes "wf_json v"
  shows "\<exists>c r. json_text v = c # r \<and> \<not> is_ws c \<and> c \<noteq> CHR '']'' \<and> c \<noteq> CHR ''}''"
proof (cases v)
  case (JNum t)
  with assms valid_number_hd [of t] show ?thesis
    by (auto simp: is_digit_def is_ws_def)
qed (use assms in \<open>auto simp: json_str_def\<close>)

lemma expect_other [simp]: "c \<noteq> d \<Longrightarrow> expect c (d # r) = None" "expect c [] = None"
  by (simp_all add: expect_def)

lemma pval_text:
  "wf_json v \<Longrightarrow> 2 * length (json_text v) < n \<Longrightarrow> ends r \<Longrightarrow> pval n (json_text v @ r) = Some (v, r)"
  "wf_elems vs \<Longrightarrow> vs \<noteq> [] \<Longrightarrow> 2 * length (elems_text vs) \<le> n \<Longrightarrow>
    pelems n (elems_text vs @ r) = Some (vs, r)"
  "wf_members ms \<Longrightarrow> ms \<noteq> [] \<Longrightarrow> 2 * length (members_text ms) \<le> n \<Longrightarrow>
    pmembers n (members_text ms @ r) = Some (ms, r)"
proof (induction v and vs and ms arbitrary: n r and n r and n r
    rule: json_text_elems_text_members_text.induct)
  case 1
  then show ?case by (cases n) (auto simp: scalar_def)
next
  case (2 b)
  then show ?case by (cases n) (auto simp: scalar_def)
next
  case (3 t)
  then obtain m where "n = Suc m" by (cases n) auto
  with 3 show ?case by (simp add: pval_number del: pval.simps)
next
  case (4 s)
  then obtain m where n: "n = Suc m" by (cases n) auto
  show ?case by (simp add: n json_str_def)
next
  case (5 vs)
  then obtain m where n: "n = Suc m" by (cases n) auto
  show ?case
  proof (cases vs)
    case (Cons v ws)
    then obtain c u where c: "json_text v = c # u" "\<not> is_ws c" "c \<noteq> CHR '']''"
      using 5 json_text_hd [of v] by auto
    have "pelems m (elems_text vs @ r) = Some (vs, r)"
      using 5 Cons n by simp
    then show ?thesis using c Cons by (simp add: n)
  qed (simp add: n)
next
  case (6 ms)
  then obtain m where n: "n = Suc m" by (cases n) auto
  show ?case
  proof (cases ms)
    case (Cons kv ws)
    obtain k v where kv: "kv = (k, v)" by fastforce
    have "pmembers m (members_text ms @ r) = Some (ms, r)"
      using 6 Cons n by simp
    then show ?thesis using Cons by (simp add: n kv json_str_def)
  qed (simp add: n)
next
  case (9 v vs)
  then obtain m where n: "n = Suc m" by (cases n) (auto split: if_splits)
  have IH: "ends q \<Longrightarrow> pval m (json_text v @ q) = Some (v, q)" for q
    using 9 n by (simp split: if_splits)
  show ?case
  proof (cases "vs = []")
    case False
    then have "pelems m (elems_text vs @ r) = Some (vs, r)"
      using 9 n by simp
    then show ?thesis using False IH by (simp add: n)
  qed (simp add: n IH)
next
  case (11 k v ms)
  then obtain m where n: "n = Suc m" by (cases n) (auto simp: json_str_def)
  have IH: "ends q \<Longrightarrow> pval m (json_text v @ q) = Some (v, q)" for q
    using 11 n by (simp add: json_str_def split: if_splits)
  show ?case
  proof (cases "ms = []")
    case False
    then have "pmembers m (members_text ms @ r) = Some (ms, r)"
      using 11 n by (simp add: json_str_def)
    then show ?thesis using False IH by (simp add: n json_str_def)
  qed (simp add: n IH json_str_def)
qed simp_all

theorem json_round_trip: "wf_json v \<Longrightarrow> json_parse (json_text v) = Some v"
  using pval_text(1) [of v "2 * length (json_text v) + 2" "[]"]
  by (simp add: json_parse_def skip_ws_def)


section \<open>The fuel is enough\<close>

text \<open>What is left of a text is never longer than the text, so two units for each character are enough for any text.\<close>

lemma str_body_shorter: "str_body s = Some (t, r) \<Longrightarrow> length r < length s"
proof (induction "length s" arbitrary: s t r rule: less_induct)
  case less
  have IH: "length r' < length s" if "str_body q = Some (t', r')" "length q < length s" for q t' r'
    using less(1) [OF that(2,1)] that(2) by simp
  have "length (drop n q) < length s" if "length q < length s" for n and q :: string using that by simp
  then show ?case
    using less(2) by (subst (asm) str_body.simps) (auto split: if_splits list.splits option.splits dest!: IH)
qed

lemma skip_ws_shorter: "length (skip_ws s) \<le> length s"
  by (simp add: skip_ws_def length_dropWhile_le)

lemma expect_shorter: "expect c s = Some r \<Longrightarrow> length s = Suc (length r)"
  by (auto simp: expect_def split: list.splits if_splits)

lemma scalar_shorter: "scalar s = Some (v, r) \<Longrightarrow> length r \<le> length s"
  by (auto simp: scalar_def Let_def length_dropWhile_le split: if_splits)

lemma rest_shorter:
  "pval n s = Some (v, r) \<Longrightarrow> length r \<le> length s"
  "pelems n s = Some (vs, r) \<Longrightarrow> length r \<le> length s"
  "pmembers n s = Some (ms, r) \<Longrightarrow> length r \<le> length s"
proof (induction n arbitrary: s v vs ms r)
  case (Suc n)
  {
    case 1
    then obtain c cs where c: "skip_ws s = c # cs" by (auto split: list.splits)
    have l: "length (c # cs) \<le> length s" using skip_ws_shorter [of s] c by simp
    show ?case
      using 1 Suc(2,3) [where s = cs] l skip_ws_shorter [of cs]
      by (fastforce simp: c dest: expect_shorter str_body_shorter scalar_shorter split: if_splits option.splits)
  next
    case 2
    then obtain v q where v: "pval n s = Some (v, q)" by (auto split: option.splits)
    show ?case
      using 2 Suc(1) [OF v] Suc(2) skip_ws_shorter [of q]
      by (fastforce simp: v split: if_splits list.splits)
  next
    case 3
    then obtain a k b d v q where "expect quote (skip_ws s) = Some a" "str_body a = Some (k, b)"
      "expect (CHR '':'') (skip_ws b) = Some d" "pval n d = Some (v, q)"
      by (auto simp: Option.bind_eq_Some_conv)
    moreover note skip_ws_shorter [of s] skip_ws_shorter [of b] skip_ws_shorter [of q]
    ultimately show ?case
      using 3 Suc(1) [of d v q] Suc(3)
      by (fastforce dest: expect_shorter str_body_shorter split: if_splits list.splits)
  }
qed simp_all


lemma one_more_unit:
  "2 * length s < n \<Longrightarrow> pval (Suc n) s = pval n s"
  "2 * length s + 2 \<le> n \<Longrightarrow> pelems (Suc n) s = pelems n s"
  "2 * length s + 2 \<le> n \<Longrightarrow> pmembers (Suc n) s = pmembers n s"
proof (induction n arbitrary: s)
  case (Suc n)
  {
    case 1
    show ?case
    proof (cases "skip_ws s")
      case (Cons c cs)
      then have "2 * length cs + 2 \<le> n" using skip_ws_shorter [of s] 1 by simp
      then show ?thesis using Suc(2,3) by (simp add: Cons del: pelems.simps pmembers.simps split: option.split)
    qed simp
  next
    case 2
    have v: "pval (Suc n) s = pval n s" using Suc(1) [of s] 2 by simp
    show ?case
    proof (cases "pval n s")
      case (Some x)
      obtain u q where x: "x = (u, q)" by (cases x)
      have "pelems (Suc n) cs = pelems n cs" if "skip_ws q = c # cs" for c cs
        using Suc(2) [of cs] skip_ws_shorter [of q] rest_shorter(1) [OF Some [unfolded x]] 2 that by simp
      then show ?thesis
        by (cases "skip_ws q") (simp_all add: pelems.simps(2) v Some x del: pval.simps)
    qed (simp add: pelems.simps(2) v del: pval.simps)
  next
    case 3
    show ?case
    proof (cases "Option.bind (expect quote (skip_ws s)) str_body")
      case None
      then show ?thesis
        by (cases "expect quote (skip_ws s)") (simp_all add: pmembers.simps(2) del: pval.simps)
    next
      case (Some kb)
      then obtain a k b where a: "expect quote (skip_ws s) = Some a" "str_body a = Some (k, b)"
        by (cases kb) (auto simp: Option.bind_eq_Some_conv)
      show ?thesis
      proof (cases "expect (CHR '':'') (skip_ws b)")
        case d: (Some d)
        have l: "length d < length s"
          using skip_ws_shorter [of s] skip_ws_shorter [of b] expect_shorter [OF a(1)] str_body_shorter [OF a(2)]
            expect_shorter [OF d] by simp
        have v: "pval (Suc n) d = pval n d" using Suc(1) [of d] 3 l by simp
        have "pmembers (Suc n) cs = pmembers n cs" if "pval n d = Some (u, q)" "skip_ws q = c # cs" for u q c cs
          using Suc(3) [of cs] rest_shorter(1) [OF that(1)] skip_ws_shorter [of q] that(2) l 3 by simp
        then show ?thesis
          by (cases "pval n d") (auto simp: pmembers.simps(2) a d v simp del: pval.simps split: list.split)
      qed (simp add: pmembers.simps(2) a)
    qed
  }
qed simp_all

theorem fuel_enough: "2 * length s < n \<Longrightarrow> pval n s = pval (2 * length s + 2) s"
proof -
  have "pval (Suc (2 * length s) + k) s = pval (Suc (2 * length s)) s" for k
    by (induction k) (simp_all add: one_more_unit(1) del: pval.simps)
  from this [of "n - Suc (2 * length s)"] this [of 1] show "2 * length s < n \<Longrightarrow> ?thesis"
    by (simp del: pval.simps)
qed

end
