(* ===== verification/World.thy ===== *)
theory World
  imports Database Go_Json
begin

text \<open>
  The outside world of a request: the database, Redis, the casbin policy in memory, the mail that
  was sent, the spans of OpenTelemetry, the clock and the sources of randomness. Clock, UUIDs and random bytes are streams
  that are read in order. Every call to an external system first takes the next entry of the
  fault schedule: \<open>Some e\<close> makes it fail with the error \<open>e\<close> and without effect, an empty schedule
  lets every later call through.
\<close>

section \<open>State\<close>

record email =
  mail_to :: string
  mail_subject :: string
  mail_body :: string

record log_entry =
  lg_level :: string
  lg_msg :: string
  lg_fields :: "(string \<times> string) list"

text \<open>
  A span: the identifiers, what \<open>SetAttributes\<close> and \<open>RecordError\<close> add to it, and the description of
  the last \<open>SetStatus\<close>, which the code only calls with \<open>codes.Error\<close>.
\<close>

datatype attribute = AString string | AInt int

datatype span_event = ErrorEvent goerr | NamedEvent string "(string \<times> attribute) list"

record span =
  sp_trace_id :: string
  sp_span_id :: string
  sp_name :: string
  sp_attributes :: "(string \<times> attribute) list"
  sp_status :: "string option"
  sp_events :: "span_event list"

text \<open>
  \<open>active_span\<close> is the recording span of the context the running code passes along, if there is one;
  \<open>spans\<close> are those that have ended.
\<close>

record world =
  db :: database
  redis :: "string \<Rightarrow> (string \<times> time option) option"
  policies :: "string list list"
  outbox :: "email list"
  stream :: "(string \<times> string) list"
  logs :: "log_entry list"
  faults :: "string option list"
  clock :: "nat \<Rightarrow> time"
  ticks :: nat
  uuids :: "nat \<Rightarrow> uuid"
  drawn :: nat
  rands :: "nat \<Rightarrow> string"
  rolled :: nat
  active_span :: "span option"
  spans :: "span list"

definition init_world :: world where
  "init_world = \<lparr>db = empty_db, redis = (\<lambda>_. None), policies = [], outbox = [], stream = [], logs = [], faults = [],
     clock = (\<lambda>n. int n * second), ticks = 0, uuids = (\<lambda>n. word_of_nat (n + 1)), drawn = 0,
     rands = (\<lambda>n. replicate 32 (char_of n)), rolled = 0,
     active_span = None, spans = []\<rparr>"

section \<open>Clock, identifiers, randomness\<close>

definition nowM :: "(world, 'e, time) op" where
  "nowM w = (Ok (clock w (ticks w)), w\<lparr>ticks := Suc (ticks w)\<rparr>)"

definition new_uuidM :: "(world, 'e, uuid) op" where
  "new_uuidM w = (Ok (uuids w (drawn w)), w\<lparr>drawn := Suc (drawn w)\<rparr>)"

text \<open>
  The logger never fails. It adds the identifiers of the recording span of the context, if they are set;
  code that logs with \<open>context.Background()\<close> has no span.
\<close>

definition append_trace_fields :: "span option \<Rightarrow> (string \<times> string) list \<Rightarrow> (string \<times> string) list" where
  "append_trace_fields sp fs = (case sp of
      None \<Rightarrow> fs
    | Some s \<Rightarrow> fs @ (if sp_trace_id s \<noteq> [] then [(''trace_id'', sp_trace_id s)] else []) @
        (if sp_span_id s \<noteq> [] then [(''span_id'', sp_span_id s)] else []))"

definition log_line :: "world \<Rightarrow> string \<Rightarrow> string \<Rightarrow> (string \<times> string) list \<Rightarrow> log_entry" where
  "log_line w level msg fs =
     \<lparr>lg_level = level, lg_msg = msg, lg_fields = append_trace_fields (active_span w) fs\<rparr>"

definition logM :: "string \<Rightarrow> string \<Rightarrow> (string \<times> string) list \<Rightarrow> (world, 'e, unit) op" where
  "logM level msg fs = modifyM (\<lambda>w. w\<lparr>logs := logs w @ [log_line w level msg fs]\<rparr>)"

definition in_background :: "(world, 'e, 'a) op \<Rightarrow> (world, 'e, 'a) op" where
  "in_background m w = (case m (w\<lparr>active_span := None\<rparr>) of (res, w') \<Rightarrow> (res, w'\<lparr>active_span := active_span w\<rparr>))"

text \<open>What is done to the span of the context when it is recording.\<close>

definition spanM :: "(span \<Rightarrow> span) \<Rightarrow> (world, 'e, unit) op" where
  "spanM f = modifyM (\<lambda>w. w\<lparr>active_span := map_option f (active_span w)\<rparr>)"

definition set_span_status :: "string \<Rightarrow> span \<Rightarrow> span" where
  "set_span_status d s = s\<lparr>sp_status := Some d\<rparr>"

definition span_record_error :: "goerr \<Rightarrow> span \<Rightarrow> span" where
  "span_record_error e s = s\<lparr>sp_events := sp_events s @ [ErrorEvent e]\<rparr>"

definition span_add_event :: "string \<Rightarrow> (string \<times> attribute) list \<Rightarrow> span \<Rightarrow> span" where
  "span_add_event name as s = s\<lparr>sp_events := sp_events s @ [NamedEvent name as]\<rparr>"

section \<open>External calls\<close>

definition extM :: "(world \<Rightarrow> (goerr + 'a) \<times> world) \<Rightarrow> (world, 'a) gop" where
  "extM f w = (case faults w of
      Some e # fs \<Rightarrow> (Err (ExtErr e), w\<lparr>faults := fs\<rparr>)
    | fs \<Rightarrow> (case f (w\<lparr>faults := tl fs\<rparr>) of
        (Inl e, w') \<Rightarrow> (Err e, w')
      | (Inr x, w') \<Rightarrow> (Ok x, w')))"

text \<open>\<open>rand.Read\<close> into a 32-byte buffer.\<close>

definition rand32M :: "(world, string) gop" where
  "rand32M = extM (\<lambda>w. (Inr (rands w (rolled w)), w\<lparr>rolled := Suc (rolled w)\<rparr>))"

text \<open>One SQL statement: it fails and leaves the tables alone, or gives a value and new tables.\<close>

definition sqlM :: "(database \<Rightarrow> goerr + 'a \<times> database) \<Rightarrow> (world, 'a) gop" where
  "sqlM stm = extM (\<lambda>w. case stm (db w) of
      Inl e \<Rightarrow> (Inl e, w)
    | Inr (x, d) \<Rightarrow> (Inr x, w\<lparr>db := d\<rparr>))"

definition queryM :: "(database \<Rightarrow> 'a) \<Rightarrow> (world, 'a) gop" where
  "queryM f = sqlM (\<lambda>d. Inr (f d, d))"

text \<open>\<open>QueryRow(...).Scan\<close>: no row is the error \<open>sql.ErrNoRows\<close>.\<close>

definition query_rowM :: "(database \<Rightarrow> 'a option) \<Rightarrow> (world, 'a) gop" where
  "query_rowM f = sqlM (\<lambda>d. case f d of None \<Rightarrow> Inl (Sentinel ErrNoRows) | Some x \<Rightarrow> Inr (x, d))"

definition insertM :: "(database \<Rightarrow> (bool \<times> goerr) list) \<Rightarrow> (database \<Rightarrow> database) \<Rightarrow> (world, unit) gop" where
  "insertM cs f = sqlM (\<lambda>d. case check_constraints (cs d) of Some e \<Rightarrow> Inl e | None \<Rightarrow> Inr ((), f d))"

definition execM :: "(database \<Rightarrow> database) \<Rightarrow> (world, unit) gop" where
  "execM f = sqlM (\<lambda>d. Inr ((), f d))"

text \<open>\<open>ExecContext\<close> with \<open>RowsAffected\<close>: the rows that satisfied the condition before the update.\<close>

definition exec_rowsM :: "(database \<Rightarrow> nat) \<Rightarrow> (database \<Rightarrow> database) \<Rightarrow> (world, nat) gop" where
  "exec_rowsM n f = sqlM (\<lambda>d. Inr (n d, f d))"

text \<open>
  \<open>BeginTx\<close>, a body, and \<open>Commit\<close>; an error of the body or of the commit, and a panic, roll
  the tables back. \<open>wrap_begin\<close> and \<open>wrap_commit\<close> are what the caller makes of their errors.
\<close>

definition noopM :: "(world, unit) gop" where
  "noopM = extM (\<lambda>w. (Inr (), w))"

definition map_errM :: "(goerr \<Rightarrow> goerr) \<Rightarrow> (world, 'a) gop \<Rightarrow> (world, 'a) gop" where
  "map_errM g m = tryM m (\<lambda>r. case r of Inl e \<Rightarrow> errM (g e) | Inr x \<Rightarrow> retM x)"

definition txM :: "(goerr \<Rightarrow> goerr) \<Rightarrow> (goerr \<Rightarrow> goerr) \<Rightarrow> (world, 'a) gop \<Rightarrow> (world, 'a) gop" where
  "txM wrap_begin wrap_commit body = bindM (map_errM wrap_begin noopM) (\<lambda>_ w.
     case bindM body (\<lambda>x. bindM (map_errM wrap_commit noopM) (\<lambda>_. retM x)) w of
       (Ok x, w') \<Rightarrow> (Ok x, w')
     | (r, w') \<Rightarrow> (r, w'\<lparr>db := db w\<rparr>))"

declare logM_def [op_defs] spanM_def [op_defs] nowM_def [op_defs] new_uuidM_def [op_defs] map_errM_def [op_defs]

section \<open>Execution without faults\<close>

lemma extM_nofault:
  "faults w = [] \<Longrightarrow> extM f w = (case f w of (Inl e, w') \<Rightarrow> (Err e, w') | (Inr x, w') \<Rightarrow> (Ok x, w'))"
  by (cases w) (simp add: extM_def)

lemma noopM_nofault [simp]: "faults w = [] \<Longrightarrow> noopM w = (Ok (), w)"
  by (simp add: noopM_def extM_nofault)

lemma sqlM_nofault:
  "faults w = [] \<Longrightarrow> sqlM stm w = (case stm (db w) of Inl e \<Rightarrow> (Err e, w) | Inr (x, d) \<Rightarrow> (Ok x, w\<lparr>db := d\<rparr>))"
  by (simp add: sqlM_def extM_nofault split: sum.splits prod.splits)

lemma queryM_nofault [simp]: "faults w = [] \<Longrightarrow> queryM f w = (Ok (f (db w)), w)"
  by (simp add: queryM_def sqlM_nofault)

lemma query_rowM_nofault [simp]:
  "faults w = [] \<Longrightarrow> query_rowM f w =
     (case f (db w) of None \<Rightarrow> (Err (Sentinel ErrNoRows), w) | Some x \<Rightarrow> (Ok x, w))"
  by (simp add: query_rowM_def sqlM_nofault split: option.splits)

lemma insertM_nofault [simp]:
  "faults w = [] \<Longrightarrow> insertM cs f w =
     (case check_constraints (cs (db w)) of Some e \<Rightarrow> (Err e, w) | None \<Rightarrow> (Ok (), w\<lparr>db := f (db w)\<rparr>))"
  by (simp add: insertM_def sqlM_nofault split: option.splits)

lemma execM_nofault [simp]: "faults w = [] \<Longrightarrow> execM f w = (Ok (), w\<lparr>db := f (db w)\<rparr>)"
  by (simp add: execM_def sqlM_nofault)

lemma exec_rowsM_nofault [simp]:
  "faults w = [] \<Longrightarrow> exec_rowsM n f w = (Ok (n (db w)), w\<lparr>db := f (db w)\<rparr>)"
  by (simp add: exec_rowsM_def sqlM_nofault)

lemma rand32M_nofault [simp]:
  "faults w = [] \<Longrightarrow> rand32M w = (Ok (rands w (rolled w)), w\<lparr>rolled := Suc (rolled w)\<rparr>)"
  by (simp add: rand32M_def extM_nofault)

section \<open>What a successful call did\<close>

lemma extM_Ok:
  "extM f w = (Ok x, w') \<Longrightarrow> \<exists>fs. f (w\<lparr>faults := fs\<rparr>) = (Inr x, w')"
  by (auto simp: extM_def split: list.splits option.splits prod.splits sum.splits)

lemma sqlM_Ok:
  "sqlM stm w = (Ok x, w') \<Longrightarrow> \<exists>d. stm (db w) = Inr (x, d) \<and> db w' = d"
  unfolding sqlM_def by (drule extM_Ok) (cases "stm (db w)"; force)

lemma queryM_Ok: "queryM f w = (Ok x, w') \<Longrightarrow> x = f (db w) \<and> db w' = db w"
  unfolding queryM_def by (drule sqlM_Ok) auto

lemma query_rowM_Ok: "query_rowM f w = (Ok x, w') \<Longrightarrow> f (db w) = Some x \<and> db w' = db w"
  unfolding query_rowM_def by (drule sqlM_Ok) (auto split: option.splits)

lemma insertM_Ok:
  "insertM cs f w = (Ok x, w') \<Longrightarrow> check_constraints (cs (db w)) = None \<and> db w' = f (db w)"
  unfolding insertM_def by (drule sqlM_Ok) (auto split: option.splits)

lemma exec_rowsM_Ok: "exec_rowsM n f w = (Ok x, w') \<Longrightarrow> x = n (db w) \<and> db w' = f (db w)"
  unfolding exec_rowsM_def by (drule sqlM_Ok) auto

lemma execM_Ok: "execM f w = (Ok x, w') \<Longrightarrow> db w' = f (db w)"
  unfolding execM_def by (drule sqlM_Ok) auto

lemma wrapM_Ok: "wrapM msg m w = (Ok x, w') \<longleftrightarrow> m w = (Ok x, w')"
  by (auto simp: wrapM_def op_defs split: prod.splits outcome.splits)

lemma norowsM_Ok: "norowsM nf msg m w = (Ok x, w') \<longleftrightarrow> m w = (Ok x, w')"
  by (auto simp: norowsM_def op_defs split: prod.splits outcome.splits if_splits)

section \<open>Invariants of the tables\<close>

definition on_db :: "(database \<Rightarrow> bool) \<Rightarrow> world \<Rightarrow> bool" where
  "on_db P w \<longleftrightarrow> P (db w)"

lemma keeps_nowM [keeps_rules]: "keeps (on_db P) nowM"
  by (simp add: keeps_def op_defs on_db_def)

lemma keeps_new_uuidM [keeps_rules]: "keeps (on_db P) new_uuidM"
  by (simp add: keeps_def op_defs on_db_def)

lemma keeps_logM [keeps_rules]: "keeps (on_db P) (logM level msg fs)"
  by (simp add: keeps_def op_defs on_db_def)

lemma keeps_spanM [keeps_rules]: "keeps (on_db P) (spanM f)"
  by (simp add: keeps_def op_defs on_db_def)

lemma keeps_in_background [keeps_rules]:
  assumes "keeps (on_db P) m"
  shows "keeps (on_db P) (in_background m)"
proof (rule keepsI)
  fix w
  assume "on_db P w"
  then have "on_db P (snd (m (w\<lparr>active_span := None\<rparr>)))"
    by (intro keepsD [OF assms]) (simp add: on_db_def)
  then show "on_db P (snd (in_background m w))"
    by (simp add: in_background_def on_db_def case_prod_beta)
qed

lemma extM_db:
  assumes "\<And>w. P (db w) \<Longrightarrow> P (db (snd (f w)))"
  shows "keeps (on_db P) (extM f)"
proof (rule keepsI)
  fix w
  assume "on_db P w"
  then have "P (db (w\<lparr>faults := fs\<rparr>))" for fs by (simp add: on_db_def)
  note A = assms [OF this]
  show "on_db P (snd (extM f w))"
    using \<open>on_db P w\<close> A
    by (auto simp: extM_def on_db_def split: list.splits option.splits prod.splits sum.splits)
      (metis snd_conv)+
qed

lemma keeps_sqlM [keeps_rules]:
  assumes "\<And>d x d'. P d \<Longrightarrow> stm d = Inr (x, d') \<Longrightarrow> P d'"
  shows "keeps (on_db P) (sqlM stm)"
  unfolding sqlM_def by (rule extM_db) (auto split: sum.splits intro: assms)

lemma keeps_queryM [keeps_rules]: "keeps (on_db P) (queryM f)"
  unfolding queryM_def by (rule keeps_sqlM) auto

lemma keeps_query_rowM [keeps_rules]: "keeps (on_db P) (query_rowM f)"
  unfolding query_rowM_def by (rule keeps_sqlM) (auto split: option.splits)

lemma keeps_insertM [keeps_rules]:
  "(\<And>d. P d \<Longrightarrow> check_constraints (cs d) = None \<Longrightarrow> P (f d)) \<Longrightarrow> keeps (on_db P) (insertM cs f)"
  unfolding insertM_def by (rule keeps_sqlM) (auto split: option.splits)

lemma keeps_execM [keeps_rules]: "(\<And>d. P d \<Longrightarrow> P (f d)) \<Longrightarrow> keeps (on_db P) (execM f)"
  unfolding execM_def by (rule keeps_sqlM) auto

lemma keeps_exec_rowsM [keeps_rules]: "(\<And>d. P d \<Longrightarrow> P (f d)) \<Longrightarrow> keeps (on_db P) (exec_rowsM n f)"
  unfolding exec_rowsM_def by (rule keeps_sqlM) auto

lemma keeps_rand32M [keeps_rules]: "keeps (on_db P) rand32M"
  unfolding rand32M_def by (rule extM_db) simp

lemma keeps_noopM [keeps_rules]: "keeps (on_db P) noopM"
  unfolding noopM_def by (rule extM_db) simp

lemma keeps_map_errM [keeps_rules]: "keeps I m \<Longrightarrow> keeps I (map_errM g m)"
  unfolding map_errM_def by (intro keeps_rules)

lemma keeps_txM [keeps_rules]: "keeps (on_db P) body \<Longrightarrow> keeps (on_db P) (txM b c body)"
  unfolding txM_def
proof (intro keeps_bindM keeps_map_errM keeps_noopM)
  assume k: "keeps (on_db P) body"
  have k': "keeps (on_db P) (bindM body (\<lambda>x. bindM (map_errM c noopM) (\<lambda>_. retM x)))"
    by (intro keeps_rules k)
  show "keeps (on_db P) (\<lambda>w. case bindM body (\<lambda>x. bindM (map_errM c noopM) (\<lambda>_. retM x)) w of
       (Ok x, w') \<Rightarrow> (Ok x, w') | (r, w') \<Rightarrow> (r, w'\<lparr>db := db w\<rparr>))" (is "keeps _ ?f")
  proof (rule keepsI)
    fix w
    assume "on_db P w"
    with keepsD [OF k' this] show "on_db P (snd (?f w))"
      by (auto simp: on_db_def split: prod.splits outcome.splits)
  qed
qed

text \<open>A transaction that does not succeed leaves the tables as they were.\<close>

lemma noopM_db: "noopM w = (r, w') \<Longrightarrow> db w' = db w"
  by (auto simp: noopM_def extM_def split: list.splits option.splits)

lemma map_errM_snd: "snd (map_errM g m w) = snd (m w)"
  by (auto simp: op_defs split: prod.splits outcome.splits)

lemma txM_atomic: "txM b c body w = (r, w') \<Longrightarrow> \<forall>x. r \<noteq> Ok x \<Longrightarrow> db w' = db w"
proof -
  assume t: "txM b c body w = (r, w')" and r: "\<forall>x. r \<noteq> Ok x"
  obtain r1 w1 where n: "map_errM b noopM w = (r1, w1)" by fastforce
  then have "db w1 = db w"
    using map_errM_snd [of b noopM w] noopM_db [of w] by (metis prod.collapse snd_conv)
  then show ?thesis
    using t r n unfolding txM_def bindM_def [of "map_errM b noopM"]
    by (cases r1) (auto split: prod.splits outcome.splits)
qed

section \<open>The two ways a statement can end\<close>

lemma extM_cases:
  assumes "extM f w = (r, w')"
  shows "(\<exists>e. r = Err (ExtErr e) \<and> (\<exists>fs. w' = w\<lparr>faults := fs\<rparr>)) \<or>
    (\<exists>fs. case f (w\<lparr>faults := fs\<rparr>) of (Inl e, w1) \<Rightarrow> r = Err e \<and> w' = w1 | (Inr x, w1) \<Rightarrow> r = Ok x \<and> w' = w1)"
proof (cases "\<exists>e fs. faults w = Some e # fs")
  case True
  then show ?thesis using assms by (auto simp: extM_def)
next
  case False
  then have "extM f w = (case f (w\<lparr>faults := tl (faults w)\<rparr>) of
        (Inl e, w') \<Rightarrow> (Err e, w') | (Inr x, w') \<Rightarrow> (Ok x, w'))"
    by (auto simp: extM_def split: list.splits option.splits)
  with assms show ?thesis
    by (auto intro!: exI [of _ "tl (faults w)"] split: prod.splits sum.splits)
qed

lemma sqlM_cases:
  assumes "sqlM stm w = (r, w')"
  shows "(\<exists>e. r = Err e \<and> db w' = db w) \<or> (\<exists>x d. r = Ok x \<and> stm (db w) = Inr (x, d) \<and> db w' = d)"
  using extM_cases [OF assms [unfolded sqlM_def]] by (cases "stm (db w)") auto

lemma exec_rowsM_cases:
  "exec_rowsM n f w = (r, w') \<Longrightarrow> (\<exists>e. r = Err e \<and> db w' = db w) \<or> (r = Ok (n (db w)) \<and> db w' = f (db w))"
  unfolding exec_rowsM_def by (drule sqlM_cases) auto

lemma insertM_cases:
  "insertM cs f w = (r, w') \<Longrightarrow> (\<exists>e. r = Err e \<and> db w' = db w) \<or>
    (r = Ok () \<and> check_constraints (cs (db w)) = None \<and> db w' = f (db w))"
  unfolding insertM_def by (drule sqlM_cases) (auto split: option.splits)

lemma query_rowM_cases:
  "query_rowM f w = (r, w') \<Longrightarrow> db w' = db w \<and> (\<forall>x. r = Ok x \<longrightarrow> f (db w) = Some x)"
  unfolding query_rowM_def by (drule sqlM_cases) (auto split: option.splits)

lemma queryM_cases: "queryM f w = (r, w') \<Longrightarrow> db w' = db w \<and> (\<forall>x. r = Ok x \<longrightarrow> f (db w) = x)"
  unfolding queryM_def by (drule sqlM_cases) auto

section \<open>Relations between the tables before and after\<close>

lemma keeps_db_eq: "keeps (on_db (\<lambda>d. d = db w)) m \<Longrightarrow> db (snd (m w)) = db w"
  using keepsD [of "on_db (\<lambda>d. d = db w)" m w] by (simp add: on_db_def)

lemma bindM_rel:
  assumes "\<And>a b c. R a b \<Longrightarrow> R b c \<Longrightarrow> R a c" and "R (db w) (db (snd (m w)))"
    and "\<And>x w1. m w = (Ok x, w1) \<Longrightarrow> R (db w1) (db (snd (f x w1)))"
  shows "R (db w) (db (snd (bindM m f w)))"
  using assms by (cases "m w") (auto simp: bindM_def split: outcome.splits)

lemma bindM_frame:
  assumes "\<And>x. keeps (on_db (\<lambda>d. d = db (snd (m w)))) (f x)"
  shows "db (snd (bindM m f w)) = db (snd (m w))"
proof (cases "m w")
  case (Pair r w1)
  then show ?thesis
    using assms by (cases r) (auto simp: bindM_def intro!: keeps_db_eq)
qed

end
