(* ===== verification/Core_Domain.thy ===== *)
theory Core_Domain
  imports World
begin

text \<open>
  \<open>internal/core/domain\<close> and the request context: the libraries the program calls, the values a
  request carries in its context, \<open>Entity\<close> with the structs that embed it (record extension is
  struct embedding), the aggregate root with its pending events, \<open>Identifier\<close> and \<open>Timestamp\<close>.
\<close>

section \<open>Libraries\<close>

text \<open>
  Third-party code the program calls, as a record of functions: \<open>google/uuid\<close>,
  \<open>x/crypto/bcrypt\<close> (with the salt it draws), the digest of \<open>crypto/sha256\<close>,
  \<open>golang-jwt\<close> (HS256 signing; parsing with a key function of the algorithm, at an instant),
  \<open>go-playground/validator\<close> (the fields and tags that fail, for the fields of a struct with their
  \<open>validate\<close> tags and values), casbin's policy-line reader (a line of comma separated fields against
  the size of the model's definition) and its role function over the grouping rules, and the text
  PostgreSQL gives back for a text stored in a \<open>jsonb\<close> column, none for a text it refuses.
\<close>

record token_claims =
  tc_user_id :: string
  tc_email :: string
  tc_role :: string
  tc_jti :: string
  tc_tenant_id :: string

record jwt_claims =
  jc_user_id :: string
  jc_email :: string
  jc_role :: string
  jc_tenant_id :: string
  jc_exp :: time
  jc_iat :: time
  jc_sub :: string
  jc_id :: string

datatype field_value = TextField string | UuidField uuid

record libs =
  uuid_string :: "uuid \<Rightarrow> string"
  uuid_parse :: "string \<Rightarrow> uuid option"
  bcrypt_hash :: "string \<Rightarrow> string \<Rightarrow> string option"
  bcrypt_check :: "string \<Rightarrow> string \<Rightarrow> bool"
  sha256_sum :: "string \<Rightarrow> string"
  jwt_sign :: "string \<Rightarrow> jwt_claims \<Rightarrow> string option"
  jwt_parse :: "(string \<Rightarrow> string option) \<Rightarrow> string \<Rightarrow> time \<Rightarrow> jwt_claims option"
  struct_errors :: "(string \<times> string \<times> field_value) list \<Rightarrow> (string \<times> string) list"
  policy_line :: "string \<Rightarrow> (string \<times> string list) option"
  casbin_g :: "string list list \<Rightarrow> string \<Rightarrow> string \<Rightarrow> bool"
  jsonb :: "string \<Rightarrow> string option"

text \<open>\<open>uuid.Parse\<close> reads what \<open>String\<close> writes.\<close>

definition uuid_law :: "libs \<Rightarrow> bool" where
  "uuid_law L \<longleftrightarrow> (\<forall>u. uuid_parse L (uuid_string L u) = Some u)"

lemma uuid_string_inj: "uuid_law L \<Longrightarrow> uuid_string L u = uuid_string L v \<longleftrightarrow> u = v"
  unfolding uuid_law_def by (metis option.inject)

text \<open>
  A concrete set of libraries that evaluates, for the witnesses: identifiers in unary, a reader of
  policy lines that splits at the commas, a hash that
  tags its argument, a token that is looked up in a one-entry table.
\<close>

definition unary_string :: "uuid \<Rightarrow> string" where
  "unary_string u = replicate (Suc (unat u)) (CHR ''x'')"

definition unary_parse :: "string \<Rightarrow> uuid option" where
  "unary_parse s = (if s \<noteq> [] \<and> list_all (\<lambda>c. c = CHR ''x'') s then Some (word_of_nat (length s - 1)) else None)"

fun split_comma :: "string \<Rightarrow> string list" where
  "split_comma [] = [[]]"
| "split_comma (c # cs) = (if c = CHR '','' then [] # split_comma cs
     else (c # hd (split_comma cs)) # tl (split_comma cs))"

definition toy_policy_line :: "string \<Rightarrow> (string \<times> string list) option" where
  "toy_policy_line s = (let ts = map (dropWhile (\<lambda>c. c = CHR '' '')) (split_comma s) in
     if hd ts = ''p'' \<and> length ts \<noteq> 4 then None else Some (hd ts, tl ts))"

definition toy_libs :: libs where
  "toy_libs = \<lparr>uuid_string = unary_string, uuid_parse = unary_parse,
     bcrypt_hash = (\<lambda>p salt. Some (CHR ''$'' # p)), bcrypt_check = (\<lambda>h p. h = CHR ''$'' # p),
     sha256_sum = (\<lambda>s. CHR ''#'' # s),
     jwt_sign = (\<lambda>k c. Some (jc_sub c @ [CHR ''.''] @ k)), jwt_parse = (\<lambda>kf s now. None),
     struct_errors = (\<lambda>fs. [(n, ''required''). (n, t, v) \<leftarrow> fs, take 8 t = ''required'', v = TextField []]),
     policy_line = toy_policy_line,
     casbin_g = (\<lambda>gs s t. s = t \<or> [s, t] \<in> set gs), jsonb = (\<lambda>s. Some s)\<rparr>"

lemma uuid_law_toy: "uuid_law toy_libs"
  by (simp add: uuid_law_def toy_libs_def unary_parse_def unary_string_def list_all_iff)

section \<open>The request context\<close>

text \<open>\<open>context.WithValue\<close> under the keys of \<open>middleware.go\<close> and \<open>error_context.go\<close>.\<close>

record error_info =
  ei_err :: goerr
  ei_stack :: string

record ctx =
  cx_request_id :: "string option"
  cx_user_id :: "string option"
  cx_user_email :: "string option"
  cx_user_role :: "string option"
  cx_tenant_id :: "string option"
  cx_tenant_claim :: "string option"
  cx_error_info :: "error_info option"
  cx_idempotency :: "string option"

definition background :: ctx where
  "background = \<lparr>cx_request_id = None, cx_user_id = None, cx_user_email = None, cx_user_role = None,
     cx_tenant_id = None, cx_tenant_claim = None, cx_error_info = None, cx_idempotency = None\<rparr>"

definition or_empty :: "string option \<Rightarrow> string" where
  "or_empty v = (case v of Some s \<Rightarrow> s | None \<Rightarrow> '''')"

definition get_request_id :: "ctx \<Rightarrow> string" where
  "get_request_id c = or_empty (cx_request_id c)"

definition get_user_id :: "ctx \<Rightarrow> string" where
  "get_user_id c = or_empty (cx_user_id c)"

definition get_user_email :: "ctx \<Rightarrow> string" where
  "get_user_email c = or_empty (cx_user_email c)"

definition get_user_role :: "ctx \<Rightarrow> string" where
  "get_user_role c = or_empty (cx_user_role c)"

definition get_tenant_id :: "ctx \<Rightarrow> string" where
  "get_tenant_id c = or_empty (cx_tenant_id c)"

definition get_tenant_id_from_claims :: "ctx \<Rightarrow> string" where
  "get_tenant_id_from_claims c = or_empty (cx_tenant_claim c)"

definition set_error_info :: "ctx \<Rightarrow> goerr \<Rightarrow> string \<Rightarrow> ctx" where
  "set_error_info c e stack = c\<lparr>cx_error_info := Some \<lparr>ei_err = e, ei_stack = stack\<rparr>\<rparr>"

definition get_error_info :: "ctx \<Rightarrow> error_info option" where
  "get_error_info c = cx_error_info c"

section \<open>Entity\<close>

record entity =
  e_id :: uuid
  e_created_at :: time
  e_updated_at :: time
  e_deleted_at :: "time option"

definition new_entity :: "(world, 'e, entity) op" where
  "new_entity = bindM nowM (\<lambda>now. bindM new_uuidM (\<lambda>i.
     retM \<lparr>e_id = i, e_created_at = now, e_updated_at = now, e_deleted_at = None\<rparr>))"

definition touch :: "'a entity_scheme \<Rightarrow> (world, 'e, 'a entity_scheme) op" where
  "touch e = bindM nowM (\<lambda>now. retM (e\<lparr>e_updated_at := now\<rparr>))"

definition soft_delete :: "'a entity_scheme \<Rightarrow> (world, 'e, 'a entity_scheme) op" where
  "soft_delete e = bindM nowM (\<lambda>now. retM (e\<lparr>e_deleted_at := Some now, e_updated_at := now\<rparr>))"

definition is_deleted :: "'a entity_scheme \<Rightarrow> bool" where
  "is_deleted e \<longleftrightarrow> e_deleted_at e \<noteq> None"

text \<open>Pointers may be nil.\<close>

definition entity_equals :: "'a entity_scheme option \<Rightarrow> 'b entity_scheme option \<Rightarrow> bool" where
  "entity_equals a b = (case (a, b) of (Some x, Some y) \<Rightarrow> e_id x = e_id y | _ \<Rightarrow> False)"

lemma keeps_new_entity [keeps_rules]: "keeps (on_db P) new_entity"
  unfolding new_entity_def by (intro keeps_rules)

lemma keeps_touch [keeps_rules]: "keeps (on_db P) (touch e)"
  unfolding touch_def by (intro keeps_rules)

lemma keeps_soft_delete [keeps_rules]: "keeps (on_db P) (soft_delete e)"
  unfolding soft_delete_def by (intro keeps_rules)

section \<open>Aggregate root\<close>

record domain_event =
  de_type :: string
  de_timestamp :: time

record aggregate = entity +
  ag_events :: "domain_event list"

definition new_aggregate_root :: "(world, 'e, aggregate) op" where
  "new_aggregate_root = bindM new_entity (\<lambda>e.
     retM \<lparr>e_id = e_id e, e_created_at = e_created_at e, e_updated_at = e_updated_at e,
       e_deleted_at = e_deleted_at e, ag_events = []\<rparr>)"

definition record_event :: "'a aggregate_scheme \<Rightarrow> domain_event \<Rightarrow> (world, 'e, 'a aggregate_scheme) op" where
  "record_event a ev = touch (a\<lparr>ag_events := ag_events a @ [ev]\<rparr>)"

definition pull_events :: "'a aggregate_scheme \<Rightarrow> domain_event list \<times> 'a aggregate_scheme" where
  "pull_events a = (ag_events a, a\<lparr>ag_events := []\<rparr>)"

definition has_events :: "'a aggregate_scheme \<Rightarrow> bool" where
  "has_events a \<longleftrightarrow> 0 < length (ag_events a)"

definition clear_events :: "'a aggregate_scheme \<Rightarrow> 'a aggregate_scheme" where
  "clear_events a = a\<lparr>ag_events := []\<rparr>"

definition touch_with :: "'a aggregate_scheme \<Rightarrow> time \<Rightarrow> 'a aggregate_scheme" where
  "touch_with a t = a\<lparr>e_updated_at := t\<rparr>"

text \<open>\<open>for _, ev := range evs { a.RecordEvent(ev) }\<close>\<close>

fun record_events :: "'a aggregate_scheme \<Rightarrow> domain_event list \<Rightarrow> (world, 'e, 'a aggregate_scheme) op" where
  "record_events a [] = retM a"
| "record_events a (ev # evs) = bindM (record_event a ev) (\<lambda>a'. record_events a' evs)"

lemma record_events_Ok:
  "record_events a evs w = (Ok a', w') \<Longrightarrow> ag_events a' = ag_events a @ evs \<and> e_id a' = e_id a"
  by (induction evs arbitrary: a w)
    (auto simp: record_event_def touch_def op_defs)

section \<open>Identifier\<close>

record domain_identifier =
  id_value :: uuid

definition new_identifier :: "(world, 'e, domain_identifier) op" where
  "new_identifier = bindM new_uuidM (\<lambda>u. retM \<lparr>id_value = u\<rparr>)"

definition identifier_from_string :: "libs \<Rightarrow> string \<Rightarrow> goerr + domain_identifier" where
  "identifier_from_string L s = (case uuid_parse L s of
      None \<Rightarrow> Inl (Wrapf ''parse identifier'' (ExtErr ''invalid UUID''))
    | Some u \<Rightarrow> Inr \<lparr>id_value = u\<rparr>)"

definition identifier_string :: "libs \<Rightarrow> domain_identifier \<Rightarrow> string" where
  "identifier_string L i = uuid_string L (id_value i)"

definition identifier_is_zero :: "domain_identifier \<Rightarrow> bool" where
  "identifier_is_zero i \<longleftrightarrow> id_value i = 0"

definition identifier_equals :: "domain_identifier \<Rightarrow> domain_identifier \<Rightarrow> bool" where
  "identifier_equals i j \<longleftrightarrow> id_value i = id_value j"

text \<open>
  The receiver of \<open>UnmarshalText\<close> is a value: the parsed identifier is written to a copy, so the
  caller's identifier stays as it was.
\<close>

definition identifier_unmarshal_text :: "libs \<Rightarrow> domain_identifier \<Rightarrow> string \<Rightarrow> goerr option \<times> domain_identifier" where
  "identifier_unmarshal_text L i s = (case uuid_parse L s of
      None \<Rightarrow> (Some (ExtErr ''invalid UUID''), i)
    | Some u \<Rightarrow> (let copy = i\<lparr>id_value := u\<rparr> in (None, i)))"

section \<open>Timestamp\<close>

definition timestamp_marshal_text :: "time \<Rightarrow> string" where
  "timestamp_marshal_text t = rfc3339 t"

definition timestamp_unmarshal_text :: "string \<Rightarrow> goerr + time" where
  "timestamp_unmarshal_text s = (case parse_rfc3339 False s of
      None \<Rightarrow> Inl (Wrapf ''parse timestamp'' (ExtErr ''cannot parse''))
    | Some t \<Rightarrow> Inr t)"

datatype scan_src = SrcTime time | SrcBytes string | SrcString string | SrcOther string

definition timestamp_scan :: "scan_src \<Rightarrow> goerr + time" where
  "timestamp_scan src =
     (let parse = (\<lambda>s. case parse_rfc3339 False s of
            None \<Rightarrow> Inl (Wrapf ''scan timestamp'' (ExtErr ''cannot parse'')) | Some t \<Rightarrow> Inr t)
      in case src of
           SrcTime t \<Rightarrow> Inr t
         | SrcBytes s \<Rightarrow> parse s
         | SrcString s \<Rightarrow> parse s
         | SrcOther ty \<Rightarrow> Inl (Errorf (''scan timestamp: unsupported type '' @ ty)))"

end
