(* ===== verification/Pagination.thy ===== *)
theory Pagination
  imports Core_Domain
begin

text \<open>
  Keyset pagination: the opaque cursor of \<open>internal/shared/cursor\<close>, the SELECT statements the
  repositories build from it (conditions with numbered parameters and an argument list), their
  meaning on a table, and what the repositories make of the rows. The walk along the next cursors
  is proved to visit every visible row once, in order.
\<close>

section \<open>Cursors\<close>

definition zero_time :: time where
  "zero_time = - 62135596800 * second"

definition encode_cursor :: "libs \<Rightarrow> time \<Rightarrow> uuid \<Rightarrow> string" where
  "encode_cursor L t i =
     b64_encode (if year_ok t
       then json_text (JObj [(''t'', JStr (rfc3339nano t)), (''i'', JStr (uuid_string L i))])
       else [])"

fun read_time :: "json \<Rightarrow> time option" where
  "read_time (JStr s) = parse_rfc3339 True s"
| "read_time _ = None"

fun read_uuid :: "libs \<Rightarrow> json \<Rightarrow> uuid option" where
  "read_uuid L (JStr s) = uuid_parse L s"
| "read_uuid L _ = None"

definition unmarshal_cursor :: "libs \<Rightarrow> string \<Rightarrow> (time \<times> uuid) option" where
  "unmarshal_cursor L b =
     Option.bind (json_parse b) (\<lambda>v. Option.bind (struct_members v) (\<lambda>ms.
     Option.bind (typed_field read_time ''t'' ms zero_time) (\<lambda>t.
     Option.bind (typed_field (read_uuid L) ''i'' ms 0) (\<lambda>i. Some (t, i)))))"

definition decode_cursor :: "libs \<Rightarrow> string \<Rightarrow> goerr + time \<times> uuid" where
  "decode_cursor L s =
     (if s = '''' then Inl (Errorf ''empty cursor'')
      else case b64_decode s of
        None \<Rightarrow> Inl (Wrapf ''decode cursor'' (ExtErr ''illegal base64 data''))
      | Some b \<Rightarrow>
          (case unmarshal_cursor L b of
             None \<Rightarrow> Inl (Wrapf ''unmarshal cursor'' (ExtErr ''invalid JSON''))
           | Some c \<Rightarrow> Inr c))"

lemma unmarshal_cursor_text:
  assumes "uuid_law L" "year_ok t"
  shows "unmarshal_cursor L (json_text (JObj [(''t'', JStr (rfc3339nano t)), (''i'', JStr (uuid_string L i))]))
    = Some (t, i)"
proof -
  have ne: "to_lower ''t'' \<noteq> to_lower ''i''" by code_simp
  then have "field_values ''t'' [(''t'', JStr a), (''i'', JStr b)] = [JStr a]"
    "field_values ''i'' [(''t'', JStr a), (''i'', JStr b)] = [JStr b]" for a b
    by (auto simp: field_values_def key_matches_def)
  moreover have "json_parse (json_text (JObj [(''t'', JStr a), (''i'', JStr b)]))
      = Some (JObj [(''t'', JStr a), (''i'', JStr b)])" for a b
    by (rule json_round_trip) simp
  ultimately show ?thesis
    using assms by (simp add: unmarshal_cursor_def typed_field_def rfc3339nano_round_trip uuid_law_def
        del: json_text.simps)
qed

lemma cursor_round_trip_aux:
  assumes "uuid_law L" "year_ok t"
  shows "decode_cursor L (encode_cursor L t i) = Inr (t, i)"
  using unmarshal_cursor_text [OF assms, of i] assms
  by (simp add: decode_cursor_def encode_cursor_def b64_round_trip del: json_text.simps)
    (simp add: json_str_def)

section \<open>LIKE\<close>

text \<open>
  PostgreSQL's \<open>LIKE\<close> with the default escape character: \<open>%\<close> any sequence, \<open>_\<close> any character, a
  backslash takes the next character literally. A pattern that ends in a lone backslash is an
  error there; the patterns built below end in \<open>%\<close>.
\<close>

function like :: "string \<Rightarrow> string \<Rightarrow> bool" where
  "like [] s = (s = [])"
| "like (p # ps) s =
     (if p = CHR ''%'' then like ps s \<or> (case s of [] \<Rightarrow> False | c # t \<Rightarrow> like (p # ps) t)
      else if p = CHR ''_'' then (case s of [] \<Rightarrow> False | c # t \<Rightarrow> like ps t)
      else if p = backslash then
        (case ps of
           [] \<Rightarrow> False
         | q # qs \<Rightarrow> (case s of [] \<Rightarrow> False | c # t \<Rightarrow> c = q \<and> like qs t))
      else (case s of [] \<Rightarrow> False | c # t \<Rightarrow> c = p \<and> like ps t))"
  by pat_completeness auto
termination by (relation "measure (\<lambda>(p, s). length p + length s)") auto

definition ilike :: "string \<Rightarrow> string \<Rightarrow> bool" where
  "ilike s p = like (to_lower p) (to_lower s)"

section \<open>The SELECT statements\<close>

datatype sql_value = VTime time | VUuid uuid | VText string | VInt int

text \<open>Conditions; the numbers are the \<open>$n\<close> of the statement.\<close>

datatype sql_cond =
    DeletedIsNull
  | TenantEq nat
  | KeyBefore nat nat
  | AnyILike nat

record sql_select =
  sel_where :: "sql_cond list"
  sel_limit :: nat

record 'r columns =
  col_id :: "'r \<Rightarrow> uuid"
  col_created_at :: "'r \<Rightarrow> time"
  col_deleted_at :: "'r \<Rightarrow> time option"
  col_tenant_id :: "'r \<Rightarrow> string"
  col_texts :: "'r \<Rightarrow> string list"

type_synonym key = "time \<times> uuid"

definition row_key :: "'r columns \<Rightarrow> 'r \<Rightarrow> key" where
  "row_key C r = (col_created_at C r, col_id C r)"

definition arg :: "sql_value list \<Rightarrow> nat \<Rightarrow> sql_value option" where
  "arg args n = (if 1 \<le> n \<and> n \<le> length args then Some (args ! (n - 1)) else None)"

text \<open>The value of a condition on a row; \<open>None\<close> when a parameter is missing or has another type.\<close>

fun eval_cond :: "'r columns \<Rightarrow> sql_value list \<Rightarrow> sql_cond \<Rightarrow> 'r \<Rightarrow> bool option" where
  "eval_cond C args DeletedIsNull r = Some (col_deleted_at C r = None)"
| "eval_cond C args (TenantEq n) r =
     (case arg args n of Some (VText s) \<Rightarrow> Some (col_tenant_id C r = s) | _ \<Rightarrow> None)"
| "eval_cond C args (KeyBefore n m) r =
     (case (arg args n, arg args m) of
        (Some (VTime t), Some (VUuid i)) \<Rightarrow> Some (row_key C r < (t, i))
      | _ \<Rightarrow> None)"
| "eval_cond C args (AnyILike n) r =
     (case arg args n of
        Some (VText p) \<Rightarrow> Some (list_ex (\<lambda>s. ilike s p) (col_texts C r))
      | _ \<Rightarrow> None)"

definition sql_holds :: "'r columns \<Rightarrow> sql_value list \<Rightarrow> sql_cond list \<Rightarrow> 'r \<Rightarrow> bool" where
  "sql_holds C args cs r \<longleftrightarrow> list_all (\<lambda>c. eval_cond C args c r = Some True) cs"

definition params_ok :: "sql_value list \<Rightarrow> sql_cond \<Rightarrow> bool" where
  "params_ok args c = (case c of
      DeletedIsNull \<Rightarrow> True
    | TenantEq n \<Rightarrow> (case arg args n of Some (VText _) \<Rightarrow> True | _ \<Rightarrow> False)
    | KeyBefore n m \<Rightarrow>
        (case (arg args n, arg args m) of (Some (VTime _), Some (VUuid _)) \<Rightarrow> True | _ \<Rightarrow> False)
    | AnyILike n \<Rightarrow> (case arg args n of Some (VText _) \<Rightarrow> True | _ \<Rightarrow> False))"

text \<open>\<open>ORDER BY created_at DESC, id DESC LIMIT $n\<close>\<close>

definition order_desc :: "('r \<Rightarrow> key) \<Rightarrow> 'r list \<Rightarrow> 'r list" where
  "order_desc k rows = rev (sort_key k rows)"

definition run_select :: "'r columns \<Rightarrow> sql_select \<Rightarrow> sql_value list \<Rightarrow> 'r list \<Rightarrow> goerr + 'r list" where
  "run_select C sel args rows =
     (if \<not> list_all (params_ok args) (sel_where sel)
      then Inl (PqErr ''08P01'' ''bind message does not match the statement'')
      else case arg args (sel_limit sel) of
        Some (VInt n) \<Rightarrow>
          if n < 0 then Inl (PqErr ''2201W'' ''LIMIT must not be negative'')
          else Inr (take (nat n) (order_desc (row_key C) (filter (sql_holds C args (sel_where sel)) rows)))
      | _ \<Rightarrow> Inl (PqErr ''08P01'' ''bind message does not match the statement''))"

text \<open>
  The statement the repositories assemble: base conditions and their arguments, the tenant
  condition under \<open>$len(args)+1\<close>, the cursor under the next two positions, the limit last.
\<close>

definition tenant_filter :: "bool \<Rightarrow> string \<Rightarrow> sql_cond list \<times> sql_value list \<Rightarrow> sql_cond list \<times> sql_value list" where
  "tenant_filter enabled tid = (\<lambda>(conds, args).
     if enabled \<and> tid \<noteq> '''' then (conds @ [TenantEq (length args + 1)], args @ [VText tid])
     else (conds, args))"

definition keyset_select ::
  "libs \<Rightarrow> sql_cond list \<times> sql_value list \<Rightarrow> string option \<Rightarrow> int \<Rightarrow> goerr + sql_select \<times> sql_value list" where
  "keyset_select L = (\<lambda>(conds, args) cursorArg limit.
     let nextPos = length args + 1 in
     case cursorArg of
       None \<Rightarrow> Inr (\<lparr>sel_where = conds, sel_limit = nextPos\<rparr>, args @ [VInt (limit + 1)])
     | Some s \<Rightarrow>
         (case decode_cursor L s of
            Inl e \<Rightarrow> Inl (Wrapf ''invalid cursor'' e)
          | Inr (t, i) \<Rightarrow>
              Inr (\<lparr>sel_where = conds @ [KeyBefore nextPos (nextPos + 1)], sel_limit = nextPos + 2\<rparr>,
                   args @ [VTime t, VUuid i] @ [VInt (limit + 1)])))"

section \<open>Pages\<close>

record 'a page =
  pg_items :: "'a list"
  pg_next :: "string option"
  pg_prev :: "string option"
  pg_has_next :: bool
  pg_has_prev :: bool

text \<open>
  The tail of every listing: cut to the limit, cursors of the last and of the first item.
  \<open>items[:limit]\<close> panics for a negative limit.
\<close>

definition finish_page ::
  "('a \<Rightarrow> string) \<Rightarrow> string option \<Rightarrow> int \<Rightarrow> 'a list \<Rightarrow> (world, 'a page) gop" where
  "finish_page cursor_of cursorArg limit items =
     (let hasNext = limit < int (length items) in
      if hasNext \<and> limit < 0 then panicM ''slice bounds out of range''
      else (let shown = (if hasNext then take (nat limit) items else items) in
        retM \<lparr>pg_items = shown,
          pg_next = (if shown = [] then None else Some (cursor_of (last shown))),
          pg_prev = (if shown = [] then None else Some (cursor_of (hd shown))),
          pg_has_next = hasNext,
          pg_has_prev = (cursorArg \<noteq> None \<and> shown \<noteq> [])\<rparr>))"

definition list_page ::
  "libs \<Rightarrow> 'r columns \<Rightarrow> (database \<Rightarrow> 'r list) \<Rightarrow> string \<Rightarrow> ('r \<Rightarrow> 'a) \<Rightarrow>
   sql_cond list \<times> sql_value list \<Rightarrow> string option \<Rightarrow> int \<Rightarrow> ('a \<Rightarrow> string) \<Rightarrow> (world, 'a page) gop" where
  "list_page L C table msg conv base cursorArg limit cursor_of =
     (case keyset_select L base cursorArg limit of
        Inl e \<Rightarrow> errM e
      | Inr (sel, args) \<Rightarrow>
          bindM (wrapM msg (sqlM (\<lambda>d. case run_select C sel args (table d) of
                               Inl e \<Rightarrow> Inl e | Inr rs \<Rightarrow> Inr (rs, d))))
            (\<lambda>rs. finish_page cursor_of cursorArg limit (map conv rs)))"

lemma keeps_finish_page [keeps_rules]: "keeps I (finish_page cu c l items)"
  unfolding finish_page_def Let_def by (intro keeps_rules)

lemma keeps_select [keeps_rules]:
  "keeps (on_db P) (sqlM (\<lambda>d. case run_select C sel args (table d) of Inl e \<Rightarrow> Inl e | Inr rs \<Rightarrow> Inr (rs, d)))"
  by (rule keeps_sqlM) (auto split: sum.splits)

lemma keeps_list_page [keeps_rules]: "keeps (on_db P) (list_page L C tab msg conv base c l cu)"
  unfolding list_page_def by (intro keeps_rules)

section \<open>What a page contains\<close>

text \<open>The rows a listing shows, newest first, and those of them that a cursor leaves.\<close>

definition listing :: "'r columns \<Rightarrow> sql_cond list \<times> sql_value list \<Rightarrow> 'r list \<Rightarrow> 'r list" where
  "listing C base rows = order_desc (row_key C) (filter (sql_holds C (snd base) (fst base)) rows)"

definition after_cursor :: "libs \<Rightarrow> 'r columns \<Rightarrow> string option \<Rightarrow> 'r list \<Rightarrow> 'r list" where
  "after_cursor L C cursorArg rows = (case cursorArg of
      None \<Rightarrow> rows
    | Some s \<Rightarrow> (case decode_cursor L s of
        Inl e \<Rightarrow> [] | Inr c \<Rightarrow> filter (\<lambda>r. row_key C r < c) rows))"

definition cursor_ok :: "libs \<Rightarrow> string option \<Rightarrow> bool" where
  "cursor_ok L cursorArg = (case cursorArg of None \<Rightarrow> True | Some s \<Rightarrow> \<not> isl (decode_cursor L s))"

definition page_of :: "('a \<Rightarrow> string) \<Rightarrow> string option \<Rightarrow> int \<Rightarrow> 'a list \<Rightarrow> 'a page" where
  "page_of cursor_of cursorArg limit rest =
     (let shown = take (nat limit) rest in
      \<lparr>pg_items = shown,
       pg_next = (if shown = [] then None else Some (cursor_of (last shown))),
       pg_prev = (if shown = [] then None else Some (cursor_of (hd shown))),
       pg_has_next = limit < int (length rest),
       pg_has_prev = (cursorArg \<noteq> None \<and> shown \<noteq> [])\<rparr>)"

lemma arg_append [simp]: "arg args n \<noteq> None \<Longrightarrow> arg (args @ ext) n = arg args n"
  by (auto simp: arg_def nth_append split: if_splits)

lemma params_ok_append: "params_ok args c \<Longrightarrow> params_ok (args @ ext) c"
  by (cases c) (auto simp: params_ok_def split: option.splits sql_value.splits)

lemma eval_cond_append: "params_ok args c \<Longrightarrow> eval_cond C (args @ ext) c r = eval_cond C args c r"
  by (cases c) (auto simp: params_ok_def split: option.splits sql_value.splits)

lemma sql_holds_append:
  "list_all (params_ok args) cs \<Longrightarrow> sql_holds C (args @ ext) cs r = sql_holds C args cs r"
  by (auto simp: sql_holds_def list_all_iff eval_cond_append)

lemma arg_at [simp]:
  "arg (args @ v # ext) (Suc (length args)) = Some v"
  "arg (args @ u # v # ext) (Suc (Suc (length args))) = Some v"
  "arg (args @ t # u # v # ext) (Suc (Suc (Suc (length args)))) = Some v"
  by (simp_all add: arg_def nth_append)

lemma order_desc_filter: "order_desc k (filter P rows) = filter P (order_desc k rows)"
  by (simp add: order_desc_def filter_sort rev_filter [symmetric])

lemma set_order_desc [simp]: "set (order_desc k rows) = set rows"
  by (simp add: order_desc_def)

lemma order_desc_Nil [simp]: "order_desc k [] = []"
  by (simp add: order_desc_def)

lemma finish_page_of:
  assumes "0 \<le> limit"
  shows "finish_page cu c limit (take (nat (limit + 1)) items) = retM (page_of cu c limit items)"
proof (cases "limit < int (length items)")
  case True
  then have "limit < int (length (take (nat (limit + 1)) items))"
    using assms by auto
  moreover have "take (nat limit) (take (nat (limit + 1)) items) = take (nat limit) items"
    using assms by (simp add: min_def)
  ultimately show ?thesis
    using True assms by (simp add: finish_page_def page_of_def Let_def)
next
  case False
  then have "take (nat (limit + 1)) items = items" "take (nat limit) items = items"
    using assms by auto
  with False show ?thesis by (simp add: finish_page_def page_of_def Let_def)
qed

lemma keyset_select_ok:
  assumes "list_all (params_ok (snd base)) (fst base)" "cursor_ok L cursorArg"
  shows "\<exists>sel args. keyset_select L base cursorArg limit = Inr (sel, args)
     \<and> list_all (params_ok args) (sel_where sel) \<and> arg args (sel_limit sel) = Some (VInt (limit + 1))
     \<and> filter (sql_holds C args (sel_where sel)) rows =
        after_cursor L C cursorArg (filter (sql_holds C (snd base) (fst base)) rows)"
proof (cases cursorArg)
  case None
  obtain conds args where b: "base = (conds, args)" by fastforce
  have "sql_holds C (args @ [VInt (limit + 1)]) conds = sql_holds C args conds"
    using assms(1) by (intro ext) (simp add: b sql_holds_append)
  then show ?thesis
    using assms(1) by (auto simp: keyset_select_def after_cursor_def None b params_ok_append list_all_iff)
next
  case (Some s)
  with assms(2) obtain t i where d: "decode_cursor L s = Inr (t, i)"
    by (cases "decode_cursor L s") (auto simp: cursor_ok_def)
  obtain conds args where b: "base = (conds, args)" by fastforce
  have h: "sql_holds C (args @ [VTime t, VUuid i, VInt (limit + 1)])
       (conds @ [KeyBefore (Suc (length args)) (Suc (Suc (length args)))])
     = (\<lambda>r. sql_holds C args conds r \<and> row_key C r < (t, i))"
    using assms(1) sql_holds_append [of args conds C] b
    by (intro ext) (auto simp: sql_holds_def)
  show ?thesis
    using assms(1) h by (auto simp: keyset_select_def after_cursor_def Some d b params_ok_append
        params_ok_def [of _ "KeyBefore n m" for n m] list_all_iff filter_filter)
qed

lemma list_page_ok:
  assumes "faults w = []" "list_all (params_ok (snd base)) (fst base)" "cursor_ok L cursorArg" "0 \<le> limit"
  shows "list_page L C tab msg conv base cursorArg limit cu w =
    (Ok (page_of cu cursorArg limit
       (map conv (after_cursor L C cursorArg (listing C base (tab (db w)))))), w)"
proof -
  obtain sel args where k: "keyset_select L base cursorArg limit = Inr (sel, args)"
      "list_all (params_ok args) (sel_where sel)" "arg args (sel_limit sel) = Some (VInt (limit + 1))"
      "filter (sql_holds C args (sel_where sel)) (tab (db w)) =
        after_cursor L C cursorArg (filter (sql_holds C (snd base) (fst base)) (tab (db w)))"
    using keyset_select_ok [OF assms(2,3)] by blast
  have o: "order_desc (row_key C) (after_cursor L C cursorArg rows) =
      after_cursor L C cursorArg (order_desc (row_key C) rows)" for rows
    by (auto simp: after_cursor_def order_desc_filter split: option.split sum.split)
  have "run_select C sel args (tab (db w)) =
      Inr (take (nat (limit + 1)) (after_cursor L C cursorArg (listing C base (tab (db w)))))"
    using k assms(4) by (simp add: run_select_def o listing_def)
  then show ?thesis
    using assms(1,4) k(1)
    by (simp add: list_page_def op_defs sqlM_nofault wrapM_def take_map [symmetric] finish_page_of)
qed

section \<open>Walking the pages\<close>

text \<open>A client that follows the next cursor while there is one; the fuel bounds the pages read.\<close>

fun walk :: "(string option \<Rightarrow> 'a page option) \<Rightarrow> nat \<Rightarrow> string option \<Rightarrow> 'a list option" where
  "walk get 0 c = None"
| "walk get (Suc n) c = (case get c of
      None \<Rightarrow> None
    | Some pg \<Rightarrow>
        if pg_has_next pg then map_option (\<lambda>rest. pg_items pg @ rest) (walk get n (pg_next pg))
        else Some (pg_items pg))"

definition fetch :: "(string option \<Rightarrow> (world, 'a page) gop) \<Rightarrow> world \<Rightarrow> string option \<Rightarrow> 'a page option" where
  "fetch m w c = (case fst (m c w) of Ok pg \<Rightarrow> Some pg | _ \<Rightarrow> None)"

lemma order_desc_strict:
  "distinct (map k rows) \<Longrightarrow> sorted_wrt (\<lambda>a b. k b < k a) (order_desc k rows)"
proof -
  assume "distinct (map k rows)"
  then have "distinct (map k (sort_key k rows))"
    by (metis distinct_map distinct_sort set_sort)
  then have "sorted_wrt (<) (map k (sort_key k rows))"
    by (simp add: strict_sorted_iff)
  then show ?thesis
    by (simp add: order_desc_def sorted_wrt_rev sorted_wrt_map)
qed

lemma filter_below:
  "sorted_wrt (\<lambda>a b. k b < k a) (xs @ a # ys) \<Longrightarrow> filter (\<lambda>r. k r < k a) (xs @ a # ys) = ys"
  for k :: "'r \<Rightarrow> key"
  by (auto simp: sorted_wrt_append filter_empty_conv filter_id_conv dest: less_asym)

lemma walk_suffix:
  assumes s: "sorted_wrt (\<lambda>a b. row_key C b < row_key C a) full" and "1 \<le> limit"
    and cu: "\<And>r. r \<in> set full \<Longrightarrow> decode_cursor L (cu (conv r)) = Inr (row_key C r)"
    and get: "\<And>c. cursor_ok L c \<Longrightarrow> get c = Some (page_of cu c limit (map conv (after_cursor L C c full)))"
  shows "full = xs @ ys \<Longrightarrow> after_cursor L C c full = ys \<Longrightarrow> cursor_ok L c \<Longrightarrow> length ys < n \<Longrightarrow>
    walk get n c = Some (map conv ys)"
proof (induction n arbitrary: xs ys c)
  case (Suc n)
  note g = get [OF Suc.prems(3), unfolded Suc.prems(2)]
  show ?case
  proof (cases "limit < int (length ys)")
    case False
    then show ?thesis using g assms(2) by (simp add: page_of_def Let_def)
  next
    case True
    define k where "k = nat limit"
    have k: "0 < k" "k < length ys" using True assms(2) by (auto simp: k_def)
    define a where "a = last (take k ys)"
    have a: "take k ys = butlast (take k ys) @ [a]"
      using k unfolding a_def by (metis append_butlast_last_id length_0_conv length_take less_numeral_extra(3) min_less_iff_conj order.strict_trans take_eq_Nil)
    have sp: "full = (xs @ butlast (take k ys)) @ a # drop k ys"
      using Suc.prems(1) a by (metis append.assoc append_Cons append_Nil append_take_drop_id)
    then have "a \<in> set full" by auto
    note d = cu [OF this]
    have nx: "pg_next (page_of cu c limit (map conv ys)) = Some (cu (conv a))"
      using k by (simp add: page_of_def Let_def a_def take_map last_map flip: k_def)
        (metis last_map length_0_conv length_take min_less_iff_conj order_less_irrefl order.strict_trans)
    have af: "after_cursor L C (Some (cu (conv a))) full = drop k ys"
      using filter_below [of "row_key C" "xs @ butlast (take k ys)" a "drop k ys"] s sp
      by (simp add: after_cursor_def d)
    have "walk get n (Some (cu (conv a))) = Some (map conv (drop k ys))"
      by (rule Suc.IH [OF _ af]) (use sp d k Suc.prems(4) in \<open>auto simp: cursor_ok_def\<close>)
    moreover have "pg_items (page_of cu c limit (map conv ys)) @ map conv (drop k ys) = map conv ys"
      by (simp add: page_of_def Let_def flip: k_def map_append take_map drop_map)
    moreover have "pg_has_next (page_of cu c limit (map conv ys))"
      using True by (simp add: page_of_def Let_def)
    ultimately show ?thesis
      using g nx by simp
  qed
qed simp

lemma list_page_walk:
  assumes "faults w = []" "list_all (params_ok (snd base)) (fst base)" "1 \<le> limit" "uuid_law L"
    and d: "distinct (map (row_key C) (tab (db w)))"
    and y: "\<And>r. r \<in> set (tab (db w)) \<Longrightarrow> year_ok (col_created_at C r)"
    and cu: "\<And>r. cu (conv r) = encode_cursor L (col_created_at C r) (col_id C r)"
    and n: "length (tab (db w)) < n"
  shows "walk (fetch (\<lambda>c. list_page L C tab msg conv base c limit cu) w) n None
    = Some (map conv (listing C base (tab (db w))))"
proof (rule walk_suffix [where L = L and C = C and xs = "[]" and cu = cu and limit = limit])
  let ?all = "listing C base (tab (db w))"
  show "sorted_wrt (\<lambda>a b. row_key C b < row_key C a) ?all"
    unfolding listing_def by (intro order_desc_strict distinct_map_filterI d)
  show "decode_cursor L (cu (conv r)) = Inr (row_key C r)" if "r \<in> set ?all" for r
    using that y assms(4) by (simp add: listing_def cu row_key_def cursor_round_trip_aux)
  show "fetch (\<lambda>c. list_page L C tab msg conv base c limit cu) w c =
      Some (page_of cu c limit (map conv (after_cursor L C c ?all)))" if "cursor_ok L c" for c
    using assms(3) by (simp add: fetch_def list_page_ok [OF assms(1,2) that])
  show "length ?all < n"
    using n by (auto simp: listing_def order_desc_def intro: le_less_trans length_filter_le)
qed (use assms in \<open>auto simp: after_cursor_def cursor_ok_def\<close>)

end
