(* ===== verification/Events.thy ===== *)
theory Events
  imports Pagination
begin

text \<open>
  Domain events of the todo and authentication modules, and the event buses of
  \<open>internal/shared/events\<close>: the synchronous in-memory bus, the logging decorator and the NATS
  bus with its payload registry. A payload is passed as a struct value or as a pointer; a type
  assertion on the value fails on the pointer, so the two are kept apart.
\<close>

section \<open>Events\<close>

datatype payload =
    TodoCreated uuid string time
  | TodoUpdated uuid string time
  | TodoCompleted uuid string time
  | TodoDeleted uuid time
  | UserRegistered string string string
  | EmailVerified string string string
  | PasswordResetRequested string string string

datatype payload_ref = ByValue payload | ByPointer payload

record event =
  ev_type :: string
  ev_payload :: payload_ref

definition TodoCreatedEvent :: string where "TodoCreatedEvent = ''todo.created''"
definition TodoUpdatedEvent :: string where "TodoUpdatedEvent = ''todo.updated''"
definition TodoCompletedEvent :: string where "TodoCompletedEvent = ''todo.completed''"
definition TodoDeletedEvent :: string where "TodoDeletedEvent = ''todo.deleted''"
definition UserRegisteredEvent :: string where "UserRegisteredEvent = ''auth.user.registered''"
definition EmailVerifiedEvent :: string where "EmailVerifiedEvent = ''auth.user.email_verified''"
definition PasswordResetRequestedEvent :: string where
  "PasswordResetRequestedEvent = ''auth.user.password_reset_requested''"

lemmas event_type_defs = TodoCreatedEvent_def TodoUpdatedEvent_def TodoCompletedEvent_def
  TodoDeletedEvent_def UserRegisteredEvent_def EmailVerifiedEvent_def PasswordResetRequestedEvent_def

section \<open>The in-memory bus\<close>

type_synonym handler = "event \<Rightarrow> (world, unit) gop"
type_synonym handlers = "string \<Rightarrow> handler list"
type_synonym publisher = "event \<Rightarrow> (world, unit) gop"

definition new_bus :: handlers where
  "new_bus = (\<lambda>_. [])"

definition subscribe :: "handlers \<Rightarrow> string \<Rightarrow> handler \<Rightarrow> handlers" where
  "subscribe b ty h = b(ty := b ty @ [h])"

definition publish_memory :: "handlers \<Rightarrow> publisher" where
  "publish_memory b ev = forM (b (ev_type ev)) (\<lambda>h. h ev)"

section \<open>The logging bus\<close>

definition publish_logged :: "publisher \<Rightarrow> publisher" where
  "publish_logged inner ev = tryM (inner ev) (\<lambda>r. case r of
      Inl e \<Rightarrow> bindM (spanM (span_record_error e \<circ> set_span_status ''event publish failed'')) (\<lambda>_.
        bindM (logM ''error'' ''event publish failed''
          [(''event_type'', ev_type ev), (''error'', err_text e)]) (\<lambda>_. errM e))
    | Inr _ \<Rightarrow> retM ())"

section \<open>The NATS bus\<close>

definition time_json :: "time \<Rightarrow> json option" where
  "time_json t = (if year_ok t then Some (JStr (rfc3339nano t)) else None)"

fun payload_json :: "libs \<Rightarrow> payload \<Rightarrow> json option" where
  "payload_json L (TodoCreated i s t) = map_option (\<lambda>j.
     JObj [(''id'', JStr (uuid_string L i)), (''title'', JStr s), (''created_at'', j)]) (time_json t)"
| "payload_json L (TodoUpdated i s t) = map_option (\<lambda>j.
     JObj [(''id'', JStr (uuid_string L i)), (''title'', JStr s), (''updated_at'', j)]) (time_json t)"
| "payload_json L (TodoCompleted i s t) = map_option (\<lambda>j.
     JObj [(''id'', JStr (uuid_string L i)), (''title'', JStr s), (''updated_at'', j)]) (time_json t)"
| "payload_json L (TodoDeleted i t) = map_option (\<lambda>j.
     JObj [(''id'', JStr (uuid_string L i)), (''deleted_at'', j)]) (time_json t)"
| "payload_json L (UserRegistered e n t) =
     Some (JObj [(''email'', JStr e), (''name'', JStr n), (''verification_token'', JStr t)])"
| "payload_json L (EmailVerified u e n) =
     Some (JObj [(''user_id'', JStr u), (''email'', JStr e), (''name'', JStr n)])"
| "payload_json L (PasswordResetRequested e n t) =
     Some (JObj [(''email'', JStr e), (''name'', JStr n), (''reset_token'', JStr t)])"

text \<open>\<open>Publish\<close> marshals the payload, value or pointer alike, and hands it to JetStream.\<close>

definition js_publish :: "string \<Rightarrow> string \<Rightarrow> (world, unit) gop" where
  "js_publish subject data = extM (\<lambda>w. (Inr (), w\<lparr>stream := stream w @ [(subject, data)]\<rparr>))"

definition payload_of :: "payload_ref \<Rightarrow> payload" where
  "payload_of r = (case r of ByValue p \<Rightarrow> p | ByPointer p \<Rightarrow> p)"

definition publish_nats :: "libs \<Rightarrow> publisher" where
  "publish_nats L ev = (case payload_json L (payload_of (ev_payload ev)) of
      None \<Rightarrow> errM (ExtErr ''Time.MarshalJSON: year outside of range [0,9999]'')
    | Some j \<Rightarrow> js_publish (''events.'' @ ev_type ev) (json_text j))"

text \<open>
  The registry: a factory per event type that returns a pointer to a zero payload. The kind of
  the payload decides how the message is decoded into it.
\<close>

type_synonym registry = "string \<Rightarrow> payload option"

definition register_payload :: "registry \<Rightarrow> string \<Rightarrow> payload \<Rightarrow> registry" where
  "register_payload R ty zero = R(ty := Some zero)"

definition create_payload :: "registry \<Rightarrow> string \<Rightarrow> payload_ref option" where
  "create_payload R ty = map_option ByPointer (R ty)"

fun decode_payload :: "libs \<Rightarrow> payload \<Rightarrow> (string \<times> json) list \<Rightarrow> payload option" where
  "decode_payload L (TodoCreated i s t) ms =
     Option.bind (typed_field (read_uuid L) ''id'' ms i) (\<lambda>i. Option.bind (string_field ''title'' ms s) (\<lambda>s.
     Option.bind (typed_field read_time ''created_at'' ms t) (\<lambda>t. Some (TodoCreated i s t))))"
| "decode_payload L (TodoUpdated i s t) ms =
     Option.bind (typed_field (read_uuid L) ''id'' ms i) (\<lambda>i. Option.bind (string_field ''title'' ms s) (\<lambda>s.
     Option.bind (typed_field read_time ''updated_at'' ms t) (\<lambda>t. Some (TodoUpdated i s t))))"
| "decode_payload L (TodoCompleted i s t) ms =
     Option.bind (typed_field (read_uuid L) ''id'' ms i) (\<lambda>i. Option.bind (string_field ''title'' ms s) (\<lambda>s.
     Option.bind (typed_field read_time ''updated_at'' ms t) (\<lambda>t. Some (TodoCompleted i s t))))"
| "decode_payload L (TodoDeleted i t) ms =
     Option.bind (typed_field (read_uuid L) ''id'' ms i) (\<lambda>i.
     Option.bind (typed_field read_time ''deleted_at'' ms t) (\<lambda>t. Some (TodoDeleted i t)))"
| "decode_payload L (UserRegistered e n t) ms =
     Option.bind (string_field ''email'' ms e) (\<lambda>e. Option.bind (string_field ''name'' ms n) (\<lambda>n.
     Option.bind (string_field ''verification_token'' ms t) (\<lambda>t. Some (UserRegistered e n t))))"
| "decode_payload L (EmailVerified u e n) ms =
     Option.bind (string_field ''user_id'' ms u) (\<lambda>u. Option.bind (string_field ''email'' ms e) (\<lambda>e.
     Option.bind (string_field ''name'' ms n) (\<lambda>n. Some (EmailVerified u e n))))"
| "decode_payload L (PasswordResetRequested e n t) ms =
     Option.bind (string_field ''email'' ms e) (\<lambda>e. Option.bind (string_field ''name'' ms n) (\<lambda>n.
     Option.bind (string_field ''reset_token'' ms t) (\<lambda>t. Some (PasswordResetRequested e n t))))"

definition unmarshal_payload :: "libs \<Rightarrow> payload_ref \<Rightarrow> string \<Rightarrow> payload_ref option" where
  "unmarshal_payload L into data =
     Option.bind (Option.bind (json_parse data) struct_members)
       (\<lambda>ms. map_option ByPointer (decode_payload L (payload_of into) ms))"

datatype reply = Ack | Nak

text \<open>
  The callback of \<open>startSubscription\<close> on one message. Errors of \<open>Ack\<close> and \<open>Nak\<close> themselves are
  dropped by the code; the reply is the value.
\<close>

fun deliver_to :: "handler list \<Rightarrow> event \<Rightarrow> (world, reply) gop" where
  "deliver_to [] ev = retM Ack"
| "deliver_to (h # hs) ev = tryM (h ev) (\<lambda>r. case r of Inl e \<Rightarrow> retM Nak | Inr _ \<Rightarrow> deliver_to hs ev)"

definition nats_deliver :: "libs \<Rightarrow> registry \<Rightarrow> handlers \<Rightarrow> string \<Rightarrow> string \<Rightarrow> (world, reply) gop" where
  "nats_deliver L R b ty data = (case create_payload R ty of
      None \<Rightarrow> retM Ack
    | Some zero \<Rightarrow>
        (case unmarshal_payload L zero data of
           None \<Rightarrow> retM Ack
         | Some p \<Rightarrow> in_background (deliver_to (b ty) \<lparr>ev_type = ty, ev_payload = p\<rparr>)))"

section \<open>The registrations of the modules\<close>

definition todo_registry :: "registry \<Rightarrow> registry" where
  "todo_registry R =
     register_payload (register_payload (register_payload (register_payload R
       TodoCreatedEvent (TodoCreated 0 '''' zero_time))
       TodoUpdatedEvent (TodoUpdated 0 '''' zero_time))
       TodoCompletedEvent (TodoCompleted 0 '''' zero_time))
       TodoDeletedEvent (TodoDeleted 0 zero_time)"

definition auth_registry :: "registry \<Rightarrow> registry" where
  "auth_registry R =
     register_payload (register_payload (register_payload R
       UserRegisteredEvent (UserRegistered '''' '''' ''''))
       EmailVerifiedEvent (EmailVerified '''' '''' ''''))
       PasswordResetRequestedEvent (PasswordResetRequested '''' '''' '''')"

definition app_registry :: registry where
  "app_registry = todo_registry (auth_registry (\<lambda>_. None))"

section \<open>Handlers\<close>

text \<open>\<open>TodoEventHandler\<close> logs; it ignores a payload of another type.\<close>

definition on_created :: "libs \<Rightarrow> handler" where
  "on_created L e = (case ev_payload e of
      ByValue (TodoCreated i s t) \<Rightarrow>
        logM ''info'' ''todo created'' [(''id'', uuid_string L i), (''title'', s)]
    | _ \<Rightarrow> retM ())"

definition on_updated :: "libs \<Rightarrow> handler" where
  "on_updated L e = (case ev_payload e of
      ByValue (TodoUpdated i s t) \<Rightarrow>
        logM ''info'' ''todo updated'' [(''id'', uuid_string L i), (''title'', s)]
    | _ \<Rightarrow> retM ())"

definition on_completed :: "libs \<Rightarrow> handler" where
  "on_completed L e = (case ev_payload e of
      ByValue (TodoCompleted i s t) \<Rightarrow>
        logM ''info'' ''todo completed'' [(''id'', uuid_string L i), (''title'', s)]
    | _ \<Rightarrow> retM ())"

definition on_deleted :: "libs \<Rightarrow> handler" where
  "on_deleted L e = (case ev_payload e of
      ByValue (TodoDeleted i t) \<Rightarrow> logM ''info'' ''todo deleted'' [(''id'', uuid_string L i)]
    | _ \<Rightarrow> retM ())"

definition register_todo_handlers :: "libs \<Rightarrow> handlers \<Rightarrow> handlers" where
  "register_todo_handlers L b =
     subscribe (subscribe (subscribe (subscribe b
       TodoCreatedEvent (on_created L)) TodoUpdatedEvent (on_updated L))
       TodoCompletedEvent (on_completed L)) TodoDeletedEvent (on_deleted L)"

text \<open>\<open>domain.Emailer\<close> and the \<open>EmailHandler\<close> of the authentication module.\<close>

record emailer =
  send_verification :: "string \<Rightarrow> string \<Rightarrow> string \<Rightarrow> (world, unit) gop"
  send_password_reset :: "string \<Rightarrow> string \<Rightarrow> string \<Rightarrow> (world, unit) gop"
  send_welcome :: "string \<Rightarrow> string \<Rightarrow> (world, unit) gop"
  send_invite :: "string \<Rightarrow> string \<Rightarrow> string \<Rightarrow> (world, unit) gop"

definition invalid_payload :: "event \<Rightarrow> goerr" where
  "invalid_payload e = Errorf (''invalid payload type for '' @ ev_type e)"

definition on_user_registered :: "emailer \<Rightarrow> handler" where
  "on_user_registered m e = (case ev_payload e of
      ByValue (UserRegistered em n t) \<Rightarrow> send_verification m em n t
    | _ \<Rightarrow> errM (invalid_payload e))"

definition on_email_verified :: "emailer \<Rightarrow> handler" where
  "on_email_verified m e = (case ev_payload e of
      ByValue (EmailVerified u em n) \<Rightarrow> send_welcome m em n
    | _ \<Rightarrow> errM (invalid_payload e))"

definition on_password_reset_requested :: "emailer \<Rightarrow> handler" where
  "on_password_reset_requested m e = (case ev_payload e of
      ByValue (PasswordResetRequested em n t) \<Rightarrow> send_password_reset m em n t
    | _ \<Rightarrow> errM (invalid_payload e))"

definition register_email_handlers :: "emailer \<Rightarrow> handlers \<Rightarrow> handlers" where
  "register_email_handlers m b =
     subscribe (subscribe (subscribe b
       UserRegisteredEvent (on_user_registered m)) EmailVerifiedEvent (on_email_verified m))
       PasswordResetRequestedEvent (on_password_reset_requested m)"

definition app_handlers :: "libs \<Rightarrow> emailer \<Rightarrow> handlers" where
  "app_handlers L m = register_email_handlers m (register_todo_handlers L new_bus)"

section \<open>The composed bus\<close>

definition app_publish :: "libs \<Rightarrow> emailer \<Rightarrow> publisher" where
  "app_publish L m = publish_logged (publish_memory (app_handlers L m))"

lemma publish_memory_Nil [simp]: "b (ev_type ev) = [] \<Longrightarrow> publish_memory b ev = retM ()"
  by (simp add: publish_memory_def)

lemma publish_memory_one: "b (ev_type ev) = [h] \<Longrightarrow> publish_memory b ev = bindM (h ev) retM"
proof -
  assume "b (ev_type ev) = [h]"
  moreover have "(\<lambda>_. retM ()) = (retM :: unit \<Rightarrow> (world, unit) gop)" by (rule ext) simp
  ultimately show ?thesis by (simp add: publish_memory_def)
qed

lemma app_handlers_at:
  "app_handlers L m TodoCreatedEvent = [on_created L]"
  "app_handlers L m TodoUpdatedEvent = [on_updated L]"
  "app_handlers L m TodoCompletedEvent = [on_completed L]"
  "app_handlers L m TodoDeletedEvent = [on_deleted L]"
  "app_handlers L m UserRegisteredEvent = [on_user_registered m]"
  "app_handlers L m EmailVerifiedEvent = [on_email_verified m]"
  "app_handlers L m PasswordResetRequestedEvent = [on_password_reset_requested m]"
  by (simp_all add: app_handlers_def register_email_handlers_def register_todo_handlers_def
      subscribe_def new_bus_def event_type_defs)

text \<open>A todo event only writes a log entry.\<close>

lemma app_publish_todo [simp]:
  "app_publish L m \<lparr>ev_type = TodoCreatedEvent, ev_payload = ByValue (TodoCreated i s t)\<rparr> w = (Ok (), w\<lparr>logs := logs w @
     [log_line w ''info'' ''todo created'' [(''id'', uuid_string L i), (''title'', s)]]\<rparr>)"
  "app_publish L m \<lparr>ev_type = TodoUpdatedEvent, ev_payload = ByValue (TodoUpdated i s t)\<rparr> w = (Ok (), w\<lparr>logs := logs w @
     [log_line w ''info'' ''todo updated'' [(''id'', uuid_string L i), (''title'', s)]]\<rparr>)"
  "app_publish L m \<lparr>ev_type = TodoCompletedEvent, ev_payload = ByValue (TodoCompleted i s t)\<rparr> w = (Ok (), w\<lparr>logs := logs w @
     [log_line w ''info'' ''todo completed'' [(''id'', uuid_string L i), (''title'', s)]]\<rparr>)"
  "app_publish L m \<lparr>ev_type = TodoDeletedEvent, ev_payload = ByValue (TodoDeleted i t)\<rparr> w = (Ok (), w\<lparr>logs := logs w @
     [log_line w ''info'' ''todo deleted'' [(''id'', uuid_string L i)]]\<rparr>)"
  by (simp_all add: app_publish_def publish_logged_def publish_memory_one app_handlers_at op_defs
      on_created_def on_updated_def on_completed_def on_deleted_def)

text \<open>A mailer for the witnesses.\<close>

definition toy_mailer :: emailer where
  "toy_mailer = \<lparr>send_verification = (\<lambda>e n t. retM ()), send_password_reset = (\<lambda>e n t. retM ()),
     send_welcome = (\<lambda>e n. retM ()), send_invite = (\<lambda>e n i. retM ())\<rparr>"

end
