(* ===== verification/Todo.thy ===== *)
theory Todo
  imports Events "HOL-Library.Sublist"
begin

text \<open>
  The todo module: the entity, the domain service over a repository, the PostgreSQL repository,
  the specifications and filters, the command and query handlers. The repository interface is a
  record of operations; the locale states what the service relies on, and is interpreted on the
  PostgreSQL repository.
\<close>

section \<open>Entity, value objects, specifications\<close>

record todo = entity +
  t_title :: string
  t_description :: string
  t_completed :: bool

definition make_todo :: "entity \<Rightarrow> string \<Rightarrow> string \<Rightarrow> bool \<Rightarrow> todo" where
  "make_todo e title desc fin =
     \<lparr>e_id = e_id e, e_created_at = e_created_at e, e_updated_at = e_updated_at e,
      e_deleted_at = e_deleted_at e, t_title = title, t_description = desc, t_completed = fin\<rparr>"

definition new_todo :: "string \<Rightarrow> string \<Rightarrow> (world, 'e, todo) op" where
  "new_todo title desc = bindM new_entity (\<lambda>e. retM (make_todo e title desc False))"

definition todo_complete :: "todo \<Rightarrow> (world, 'e, todo) op" where
  "todo_complete t = touch (t\<lparr>t_completed := True\<rparr>)"

definition todo_update :: "todo \<Rightarrow> string \<Rightarrow> string \<Rightarrow> (world, 'e, todo) op" where
  "todo_update t title desc =
     (let t1 = (if title \<noteq> '''' then t\<lparr>t_title := title\<rparr> else t);
          t2 = (if desc \<noteq> '''' then t1\<lparr>t_description := desc\<rparr> else t1)
      in touch t2)"

record todo_filters =
  tf_query :: string
  tf_page :: int
  tf_per_page :: int

definition new_todo_filters :: "string \<Rightarrow> int \<Rightarrow> int \<Rightarrow> todo_filters" where
  "new_todo_filters q page perPage =
     (let page = (if page < 1 then 1 else page);
          perPage = (if perPage < 1 then 20 else perPage);
          perPage = (if 100 < perPage then 100 else perPage)
      in \<lparr>tf_query = q, tf_page = page, tf_per_page = perPage\<rparr>)"

definition todo_filters_offset :: "todo_filters \<Rightarrow> int" where
  "todo_filters_offset f = (tf_page f - 1) * tf_per_page f"

datatype todo_spec = NotCompletedSpec | CompletedSpec | TitleContainsSpec string

fun is_satisfied_by :: "todo_spec \<Rightarrow> todo \<Rightarrow> bool" where
  "is_satisfied_by NotCompletedSpec t = (\<not> t_completed t)"
| "is_satisfied_by CompletedSpec t = t_completed t"
| "is_satisfied_by (TitleContainsSpec s) t = (if s = '''' then True else 0 < length (t_title t))"

section \<open>The repository interface and the domain service\<close>

record todo_repo =
  repo_create :: "todo \<Rightarrow> (world, unit) gop"
  repo_get_by_id :: "uuid \<Rightarrow> (world, todo) gop"
  repo_get_all :: "ctx \<Rightarrow> string option \<Rightarrow> int \<Rightarrow> (world, todo page) gop"
  repo_update :: "todo \<Rightarrow> (world, unit) gop"
  repo_delete :: "uuid \<Rightarrow> (world, unit) gop"
  repo_search :: "ctx \<Rightarrow> string \<Rightarrow> string option \<Rightarrow> int \<Rightarrow> (world, todo page) gop"

definition svc_create :: "todo_repo \<Rightarrow> string \<Rightarrow> string \<Rightarrow> (world, todo) gop" where
  "svc_create repo title desc =
     (if title = '''' then errM (Sentinel ErrInvalidTitle)
      else bindM (new_todo title desc) (\<lambda>t. bindM (repo_create repo t) (\<lambda>_. retM t)))"

text \<open>Every error of the lookup becomes \<open>ErrTodoNotFound\<close>.\<close>

definition svc_find :: "todo_repo \<Rightarrow> uuid \<Rightarrow> (world, todo) gop" where
  "svc_find repo i = tryM (repo_get_by_id repo i) (\<lambda>r. case r of
      Inl e \<Rightarrow> errM (Sentinel ErrTodoNotFound) | Inr t \<Rightarrow> retM t)"

definition svc_get :: "todo_repo \<Rightarrow> uuid \<Rightarrow> (world, todo) gop" where
  "svc_get repo i = svc_find repo i"

definition svc_list :: "todo_repo \<Rightarrow> ctx \<Rightarrow> string option \<Rightarrow> int \<Rightarrow> (world, todo page) gop" where
  "svc_list repo cx c limit = repo_get_all repo cx c limit"

definition svc_update :: "todo_repo \<Rightarrow> uuid \<Rightarrow> string \<Rightarrow> string \<Rightarrow> (world, todo) gop" where
  "svc_update repo i title desc =
     bindM (svc_find repo i) (\<lambda>t. bindM (todo_update t title desc) (\<lambda>t'.
     bindM (repo_update repo t') (\<lambda>_. retM t')))"

definition svc_delete :: "todo_repo \<Rightarrow> uuid \<Rightarrow> (world, unit) gop" where
  "svc_delete repo i = bindM (svc_find repo i) (\<lambda>_. repo_delete repo i)"

definition svc_complete :: "todo_repo \<Rightarrow> uuid \<Rightarrow> (world, todo) gop" where
  "svc_complete repo i =
     bindM (svc_find repo i) (\<lambda>t.
       if t_completed t then errM (Sentinel ErrTodoAlreadyDone)
       else bindM (todo_complete t) (\<lambda>t'. bindM (repo_update repo t') (\<lambda>_. retM t')))"

definition svc_search :: "todo_repo \<Rightarrow> ctx \<Rightarrow> string \<Rightarrow> string option \<Rightarrow> int \<Rightarrow> (world, todo page) gop" where
  "svc_search repo cx q c limit = repo_search repo cx q c limit"

section \<open>The PostgreSQL repository\<close>

definition live_todo :: "uuid \<Rightarrow> todos_row \<Rightarrow> bool" where
  "live_todo i r \<longleftrightarrow> td_id r = i \<and> td_deleted_at r = None"

definition todo_of_row :: "todos_row \<Rightarrow> todo" where
  "todo_of_row r =
     \<lparr>e_id = td_id r, e_created_at = td_created_at r, e_updated_at = td_updated_at r,
      e_deleted_at = td_deleted_at r, t_title = td_title r, t_description = td_description r,
      t_completed = td_completed r\<rparr>"

text \<open>
  The statements of \<open>todo.sql\<close>. The rows keep the instants they are given to the nanosecond; PostgreSQL rounds
  a \<open>timestamptz\<close> to the microsecond, so two rows of one microsecond are told apart here by their times and
  there only by their identifiers.
\<close>

definition sql_create_todo :: "todo \<Rightarrow> (world, unit) gop" where
  "sql_create_todo t = insertM
     (\<lambda>d. [(e_id t \<notin> td_id ` set (todos d), unique_violation ''todos_pkey'')])
     (\<lambda>d. d\<lparr>todos := todos d @
        [\<lparr>td_id = e_id t, td_title = t_title t, td_description = t_description t,
          td_completed = t_completed t, td_created_at = e_created_at t,
          td_updated_at = e_updated_at t, td_deleted_at = None, td_tenant_id = ''''\<rparr>]\<rparr>)"

definition sql_get_todo_by_id :: "uuid \<Rightarrow> (world, todos_row) gop" where
  "sql_get_todo_by_id i = query_rowM (\<lambda>d. find (live_todo i) (todos d))"

definition sql_update_todo :: "todo \<Rightarrow> (world, nat) gop" where
  "sql_update_todo t = exec_rowsM (\<lambda>d. count_where (live_todo (e_id t)) (todos d))
     (\<lambda>d. d\<lparr>todos := update_where (live_todo (e_id t))
        (\<lambda>r. r\<lparr>td_title := t_title t, td_description := t_description t,
               td_completed := t_completed t, td_updated_at := e_updated_at t\<rparr>) (todos d)\<rparr>)"

definition sql_soft_delete_todo :: "uuid \<Rightarrow> (world, nat) gop" where
  "sql_soft_delete_todo i = bindM nowM (\<lambda>now.
     exec_rowsM (\<lambda>d. count_where (live_todo i) (todos d))
     (\<lambda>d. d\<lparr>todos := update_where (live_todo i)
        (\<lambda>r. r\<lparr>td_deleted_at := Some now, td_updated_at := now\<rparr>) (todos d)\<rparr>))"

definition todo_columns :: "todos_row columns" where
  "todo_columns = \<lparr>col_id = td_id, col_created_at = td_created_at, col_deleted_at = td_deleted_at,
     col_tenant_id = td_tenant_id, col_texts = (\<lambda>r. [td_title r, td_description r])\<rparr>"

definition todo_cursor :: "libs \<Rightarrow> todo \<Rightarrow> string" where
  "todo_cursor L t = encode_cursor L (e_created_at t) (e_id t)"

definition todo_create :: "todo \<Rightarrow> (world, unit) gop" where
  "todo_create t = wrapM ''insert todo'' (sql_create_todo t)"

definition todo_get_by_id :: "uuid \<Rightarrow> (world, todo) gop" where
  "todo_get_by_id i = bindM (norowsM (Errorf ''todo not found'') ''get todo'' (sql_get_todo_by_id i))
     (\<lambda>r. retM (todo_of_row r))"

definition todo_get_all :: "libs \<Rightarrow> bool \<Rightarrow> ctx \<Rightarrow> string option \<Rightarrow> int \<Rightarrow> (world, todo page) gop" where
  "todo_get_all L tenantEnabled cx cursorArg limit =
     list_page L todo_columns todos ''query todos'' todo_of_row
       (tenant_filter tenantEnabled (get_tenant_id cx) ([DeletedIsNull], []))
       cursorArg limit (todo_cursor L)"

definition todo_repo_update :: "todo \<Rightarrow> (world, unit) gop" where
  "todo_repo_update t = bindM (wrapM ''update todo'' (sql_update_todo t))
     (\<lambda>n. if n = 0 then errM (Errorf ''todo not found'') else retM ())"

definition todo_delete :: "uuid \<Rightarrow> (world, unit) gop" where
  "todo_delete i = bindM (wrapM ''delete todo'' (sql_soft_delete_todo i))
     (\<lambda>n. if n = 0 then errM (Errorf ''todo not found'') else retM ())"

text \<open>\<open>strings.NewReplacer\<close> escapes the two wildcards, and only them.\<close>

definition escape_like_char :: "char \<Rightarrow> string" where
  "escape_like_char c = (if c = CHR ''%'' then [backslash, CHR ''%'']
     else if c = CHR ''_'' then [backslash, CHR ''_''] else [c])"

definition search_pattern :: "string \<Rightarrow> string" where
  "search_pattern q = ''%'' @ concat (map escape_like_char q) @ ''%''"

definition todo_search :: "libs \<Rightarrow> bool \<Rightarrow> ctx \<Rightarrow> string \<Rightarrow> string option \<Rightarrow> int \<Rightarrow> (world, todo page) gop" where
  "todo_search L tenantEnabled cx q cursorArg limit =
     list_page L todo_columns todos ''search todos'' todo_of_row
       (tenant_filter tenantEnabled (get_tenant_id cx)
          ([DeletedIsNull, AnyILike 1], [VText (search_pattern q)]))
       cursorArg limit (todo_cursor L)"

definition pg_todo_repo :: "libs \<Rightarrow> bool \<Rightarrow> todo_repo" where
  "pg_todo_repo L tenantEnabled =
     \<lparr>repo_create = todo_create, repo_get_by_id = todo_get_by_id,
      repo_get_all = todo_get_all L tenantEnabled, repo_update = todo_repo_update,
      repo_delete = todo_delete, repo_search = todo_search L tenantEnabled\<rparr>"

lemma pg_todo_repo_sel [simp]:
  "repo_create (pg_todo_repo L te) = todo_create" "repo_get_by_id (pg_todo_repo L te) = todo_get_by_id"
  "repo_get_all (pg_todo_repo L te) = todo_get_all L te" "repo_update (pg_todo_repo L te) = todo_repo_update"
  "repo_delete (pg_todo_repo L te) = todo_delete" "repo_search (pg_todo_repo L te) = todo_search L te"
  by (simp_all add: pg_todo_repo_def)

section \<open>Command and query handlers\<close>

record todo_response =
  tr_id :: uuid
  tr_title :: string
  tr_description :: string
  tr_completed :: bool
  tr_created_at :: time
  tr_updated_at :: time

definition to_todo_response :: "todo \<Rightarrow> todo_response" where
  "to_todo_response t = \<lparr>tr_id = e_id t, tr_title = t_title t, tr_description = t_description t,
     tr_completed = t_completed t, tr_created_at = e_created_at t, tr_updated_at = e_updated_at t\<rparr>"

record todo_list_response =
  tlr_todos :: "todo_response list"
  tlr_total :: int
  tlr_page :: int
  tlr_limit :: int

definition to_todo_list_response :: "todo list \<Rightarrow> int \<Rightarrow> int \<Rightarrow> int \<Rightarrow> todo_list_response" where
  "to_todo_list_response ts tot pag limit =
     \<lparr>tlr_todos = map to_todo_response ts, tlr_total = tot, tlr_page = pag, tlr_limit = limit\<rparr>"

definition handle_create_todo :: "todo_repo \<Rightarrow> publisher \<Rightarrow> string \<Rightarrow> string \<Rightarrow> (world, todo_response) gop" where
  "handle_create_todo repo pub title desc = bindM (svc_create repo title desc) (\<lambda>t.
     bindM (ignoreM (pub \<lparr>ev_type = TodoCreatedEvent,
        ev_payload = ByValue (TodoCreated (e_id t) (t_title t) (e_created_at t))\<rparr>)) (\<lambda>_.
     retM (to_todo_response t)))"

definition handle_update_todo ::
  "todo_repo \<Rightarrow> publisher \<Rightarrow> uuid \<Rightarrow> string \<Rightarrow> string \<Rightarrow> (world, todo_response) gop" where
  "handle_update_todo repo pub i title desc = bindM (svc_update repo i title desc) (\<lambda>t.
     bindM (ignoreM (pub \<lparr>ev_type = TodoUpdatedEvent,
        ev_payload = ByValue (TodoUpdated (e_id t) (t_title t) (e_updated_at t))\<rparr>)) (\<lambda>_.
     retM (to_todo_response t)))"

definition handle_delete_todo :: "todo_repo \<Rightarrow> publisher \<Rightarrow> uuid \<Rightarrow> (world, unit) gop" where
  "handle_delete_todo repo pub i = bindM (svc_delete repo i) (\<lambda>_. bindM nowM (\<lambda>now.
     ignoreM (pub \<lparr>ev_type = TodoDeletedEvent, ev_payload = ByValue (TodoDeleted i now)\<rparr>)))"

definition handle_complete_todo :: "todo_repo \<Rightarrow> publisher \<Rightarrow> uuid \<Rightarrow> (world, todo_response) gop" where
  "handle_complete_todo repo pub i = bindM (svc_complete repo i) (\<lambda>t.
     bindM (ignoreM (pub \<lparr>ev_type = TodoCompletedEvent,
        ev_payload = ByValue (TodoCompleted (e_id t) (t_title t) (e_updated_at t))\<rparr>)) (\<lambda>_.
     retM (to_todo_response t)))"

definition handle_get_todo :: "todo_repo \<Rightarrow> uuid \<Rightarrow> (world, todo_response) gop" where
  "handle_get_todo repo i = bindM (svc_get repo i) (\<lambda>t. retM (to_todo_response t))"

text \<open>The listing handlers return the page with the limit that was asked for.\<close>

definition handle_list_todos :: "todo_repo \<Rightarrow> ctx \<Rightarrow> string option \<Rightarrow> int \<Rightarrow> (world, todo page \<times> int) gop" where
  "handle_list_todos repo cx c limit = bindM (svc_list repo cx c limit) (\<lambda>pg. retM (pg, limit))"

definition handle_search_todos ::
  "todo_repo \<Rightarrow> ctx \<Rightarrow> string \<Rightarrow> string option \<Rightarrow> int \<Rightarrow> (world, todo page \<times> int) gop" where
  "handle_search_todos repo cx q c limit =
     bindM (svc_search repo cx q c limit) (\<lambda>pg. retM (pg, limit))"

section \<open>The repository contract\<close>

text \<open>
  What the domain service needs of a repository: in a state \<open>ok\<close>, the live todos form a map, and
  each operation is the map operation. \<open>fresh\<close> says that an identifier is not in use, by a live
  todo or by a deleted one. Reading the clock and drawing identifiers changes none of this.
\<close>

locale todo_repository =
  fixes repo :: todo_repo
    and ok :: "world \<Rightarrow> bool"
    and live :: "world \<Rightarrow> uuid \<Rightarrow> todo option"
    and fresh :: "world \<Rightarrow> uuid \<Rightarrow> bool"
  assumes ok_env: "ok (w\<lparr>ticks := n\<rparr>) = ok w" "ok (w\<lparr>drawn := n\<rparr>) = ok w" "ok (w\<lparr>logs := ls\<rparr>) = ok w"
    and live_env: "live (w\<lparr>ticks := n\<rparr>) = live w" "live (w\<lparr>drawn := n\<rparr>) = live w"
      "live (w\<lparr>logs := ls\<rparr>) = live w"
    and fresh_env: "fresh (w\<lparr>ticks := n\<rparr>) = fresh w" "fresh (w\<lparr>drawn := n\<rparr>) = fresh w"
    and live_id: "live w i = Some t \<Longrightarrow> e_id t = i"
    and get_found: "ok w \<Longrightarrow> live w i = Some t \<Longrightarrow> repo_get_by_id repo i w = (Ok t, w)"
    and get_missing: "ok w \<Longrightarrow> live w i = None \<Longrightarrow> \<exists>e. repo_get_by_id repo i w = (Err e, w)"
    and create_fresh: "ok w \<Longrightarrow> fresh w (e_id t) \<Longrightarrow> e_deleted_at t = None \<Longrightarrow>
      \<exists>w'. repo_create repo t w = (Ok (), w') \<and> ok w' \<and> live w' = (live w)(e_id t \<mapsto> t)"
    and update_live: "ok w \<Longrightarrow> live w (e_id t) = Some t0 \<Longrightarrow> e_created_at t = e_created_at t0 \<Longrightarrow>
      e_deleted_at t = e_deleted_at t0 \<Longrightarrow>
      \<exists>w'. repo_update repo t w = (Ok (), w') \<and> ok w' \<and> live w' = (live w)(e_id t \<mapsto> t)"
    and delete_live: "ok w \<Longrightarrow> live w i = Some t \<Longrightarrow>
      \<exists>w'. repo_delete repo i w = (Ok (), w') \<and> ok w' \<and> live w' = (live w)(i := None)"
begin

lemmas env = ok_env live_env fresh_env

lemma find_found: "ok w \<Longrightarrow> live w i = Some t \<Longrightarrow> svc_find repo i w = (Ok t, w)"
  by (simp add: svc_find_def op_defs get_found)

lemma find_missing: "ok w \<Longrightarrow> live w i = None \<Longrightarrow> svc_find repo i w = (Err (Sentinel ErrTodoNotFound), w)"
  using get_missing [of w i] by (auto simp: svc_find_def op_defs)

lemma create_ok:
  assumes "ok w" "fresh w (uuids w (drawn w))" "title \<noteq> ''''"
    and t: "t = make_todo \<lparr>e_id = uuids w (drawn w), e_created_at = clock w (ticks w),
      e_updated_at = clock w (ticks w), e_deleted_at = None\<rparr> title desc False"
  shows "\<exists>w'. svc_create repo title desc w = (Ok t, w') \<and> ok w' \<and> live w' = (live w)(e_id t \<mapsto> t)"
proof -
  let ?w = "w\<lparr>ticks := Suc (ticks w), drawn := Suc (drawn w)\<rparr>"
  have "e_id t = uuids w (drawn w)" "e_deleted_at t = None" by (simp_all add: t make_todo_def)
  then obtain w' where "repo_create repo t ?w = (Ok (), w')" "ok w'" "live w' = (live w)(e_id t \<mapsto> t)"
    using create_fresh [of ?w t] assms(1,2) by (auto simp: env)
  then show ?thesis
    using assms(3) by (simp add: svc_create_def new_todo_def new_entity_def op_defs t)
qed

lemma update_ok:
  assumes "ok w" "live w i = Some t"
    and t': "t' = t\<lparr>t_title := if title \<noteq> '''' then title else t_title t,
      t_description := if desc \<noteq> '''' then desc else t_description t, e_updated_at := clock w (ticks w)\<rparr>"
  shows "\<exists>w'. svc_update repo i title desc w = (Ok t', w') \<and> ok w' \<and> live w' = (live w)(i \<mapsto> t')"
proof -
  have i: "e_id t = i" using live_id assms(2) .
  have "(todo_update t title desc :: (world, todo) gop) w = (Ok t', w\<lparr>ticks := Suc (ticks w)\<rparr>)"
    by (simp add: todo_update_def touch_def op_defs t' Let_def)
  moreover obtain w' where "repo_update repo t' (w\<lparr>ticks := Suc (ticks w)\<rparr>) = (Ok (), w')" "ok w'"
      "live w' = (live w)(i \<mapsto> t')"
    using update_live [of "w\<lparr>ticks := Suc (ticks w)\<rparr>" t' t] assms i by (auto simp: env)
  ultimately show ?thesis
    using find_found [OF assms(1,2)] by (simp add: svc_update_def op_defs)
qed

lemma complete_ok:
  assumes "ok w" "live w i = Some t" "\<not> t_completed t"
    and t': "t' = t\<lparr>t_completed := True, e_updated_at := clock w (ticks w)\<rparr>"
  shows "\<exists>w'. svc_complete repo i w = (Ok t', w') \<and> ok w' \<and> live w' = (live w)(i \<mapsto> t')"
proof -
  have i: "e_id t = i" using live_id assms(2) .
  obtain w' where "repo_update repo t' (w\<lparr>ticks := Suc (ticks w)\<rparr>) = (Ok (), w')" "ok w'"
      "live w' = (live w)(i \<mapsto> t')"
    using update_live [of "w\<lparr>ticks := Suc (ticks w)\<rparr>" t' t] assms i by (auto simp: env)
  then show ?thesis
    using find_found assms by (simp add: svc_complete_def todo_complete_def touch_def op_defs t')
qed

lemma complete_done:
  "ok w \<Longrightarrow> live w i = Some t \<Longrightarrow> t_completed t \<Longrightarrow>
    svc_complete repo i w = (Err (Sentinel ErrTodoAlreadyDone), w)"
  by (simp add: svc_complete_def op_defs find_found)

lemma delete_ok:
  "ok w \<Longrightarrow> live w i = Some t \<Longrightarrow>
    \<exists>w'. svc_delete repo i w = (Ok (), w') \<and> ok w' \<and> live w' = (live w)(i := None)"
  using delete_live [of w i t] by (auto simp: svc_delete_def op_defs find_found)

lemma missing:
  assumes "ok w" "live w i = None"
  shows "svc_get repo i w = (Err (Sentinel ErrTodoNotFound), w)"
    "svc_update repo i title desc w = (Err (Sentinel ErrTodoNotFound), w)"
    "svc_complete repo i w = (Err (Sentinel ErrTodoNotFound), w)"
    "svc_delete repo i w = (Err (Sentinel ErrTodoNotFound), w)"
  using find_missing [OF assms]
  by (simp_all add: svc_get_def svc_update_def svc_complete_def svc_delete_def op_defs)

lemma get_ok: "ok w \<Longrightarrow> live w i = Some t \<Longrightarrow> svc_get repo i w = (Ok t, w)"
  by (simp add: svc_get_def find_found)

end

section \<open>The PostgreSQL repository meets the contract\<close>

definition todos_ok :: "world \<Rightarrow> bool" where
  "todos_ok w \<longleftrightarrow> faults w = [] \<and> distinct (map td_id (todos (db w)))"

definition todo_map :: "world \<Rightarrow> uuid \<Rightarrow> todo option" where
  "todo_map w i = map_option todo_of_row (find (live_todo i) (todos (db w)))"

definition todo_fresh :: "world \<Rightarrow> uuid \<Rightarrow> bool" where
  "todo_fresh w i \<longleftrightarrow> i \<notin> td_id ` set (todos (db w))"

lemma todo_of_row_sel [simp]:
  "e_id (todo_of_row r) = td_id r" "e_created_at (todo_of_row r) = td_created_at r"
  "e_updated_at (todo_of_row r) = td_updated_at r" "e_deleted_at (todo_of_row r) = td_deleted_at r"
  "t_title (todo_of_row r) = td_title r" "t_description (todo_of_row r) = td_description r"
  "t_completed (todo_of_row r) = td_completed r"
  by (simp_all add: todo_of_row_def)

lemma find_live_append:
  "i \<notin> td_id ` set rows \<Longrightarrow> td_id r = i \<Longrightarrow> td_deleted_at r = None \<Longrightarrow>
    find (live_todo j) (rows @ [r]) = (if j = i then Some r else find (live_todo j) rows)"
  by (induction rows) (auto simp: live_todo_def)

lemma find_live_update:
  assumes "\<And>r. td_id (f r) = td_id r" "\<And>r. td_deleted_at (f r) = td_deleted_at r"
  shows "find (live_todo j) (update_where (live_todo i) f rows) =
    (if j = i then map_option f (find (live_todo i) rows) else find (live_todo j) rows)"
proof (cases "j = i")
  case True
  then show ?thesis using assms by (auto simp: live_todo_def intro!: find_update_same)
next
  case False
  then show ?thesis using assms by (auto simp: live_todo_def intro!: find_update_other)
qed

lemma find_live_delete:
  assumes "\<And>r. td_deleted_at (f r) \<noteq> None" "\<And>r. td_id (f r) = td_id r"
  shows "find (live_todo j) (update_where (live_todo i) f rows) = (if j = i then None else find (live_todo j) rows)"
proof (cases "j = i")
  case True
  then show ?thesis using assms by (auto simp: find_None_all live_todo_def set_update_where)
next
  case False
  then show ?thesis using assms by (auto simp: live_todo_def intro!: find_update_other)
qed

lemma pg_get_found: "todos_ok w \<Longrightarrow> todo_map w i = Some t \<Longrightarrow> todo_get_by_id i w = (Ok t, w)"
  by (auto simp: todos_ok_def todo_map_def todo_get_by_id_def sql_get_todo_by_id_def op_defs)

lemma pg_get_missing:
  "todos_ok w \<Longrightarrow> todo_map w i = None \<Longrightarrow> todo_get_by_id i w = (Err (Errorf ''todo not found''), w)"
  by (auto simp: todos_ok_def todo_map_def todo_get_by_id_def sql_get_todo_by_id_def op_defs is_no_rows_def)

lemma pg_create:
  assumes "todos_ok w" "todo_fresh w (e_id t)" "e_deleted_at t = None"
  shows "\<exists>w'. todo_create t w = (Ok (), w') \<and> todos_ok w' \<and> todo_map w' = (todo_map w)(e_id t \<mapsto> t)"
  using assms
  by (auto simp: todo_create_def sql_create_todo_def op_defs wrapM_def todos_ok_def todo_fresh_def
      todo_map_def fun_eq_iff find_live_append todo_of_row_def)

lemma pg_update:
  assumes "todos_ok w" "todo_map w (e_id t) = Some t0" "e_created_at t = e_created_at t0"
    "e_deleted_at t = e_deleted_at t0"
  shows "\<exists>w'. todo_repo_update t w = (Ok (), w') \<and> todos_ok w' \<and> todo_map w' = (todo_map w)(e_id t \<mapsto> t)"
proof -
  obtain r where r: "find (live_todo (e_id t)) (todos (db w)) = Some r" "t0 = todo_of_row r"
    using assms(2) by (auto simp: todo_map_def)
  then have "td_id r = e_id t" using find_SomeD by (fastforce simp: live_todo_def)
  then show ?thesis
    using assms r find_count [OF r(1)]
    by (auto simp: todo_repo_update_def sql_update_todo_def op_defs wrapM_def todos_ok_def
        todo_map_def fun_eq_iff find_live_update todo_of_row_def map_key_update_where)
qed

lemma pg_delete:
  assumes "todos_ok w" "todo_map w i = Some t"
  shows "\<exists>w'. todo_delete i w = (Ok (), w') \<and> todos_ok w' \<and> todo_map w' = (todo_map w)(i := None)"
proof -
  obtain r where r: "find (live_todo i) (todos (db w)) = Some r"
    using assms(2) by (auto simp: todo_map_def)
  show ?thesis
    using assms find_count [OF r]
    by (auto simp: todo_delete_def sql_soft_delete_todo_def op_defs wrapM_def todos_ok_def
        todo_map_def fun_eq_iff find_live_delete map_key_update_where)
qed

lemma todo_map_id: "todo_map w i = Some t \<Longrightarrow> e_id t = i"
  by (auto simp: todo_map_def live_todo_def dest: find_SomeD)

interpretation pg_todo: todo_repository "pg_todo_repo L tenantEnabled" todos_ok todo_map todo_fresh
  for L tenantEnabled
proof
  note R = pg_get_found pg_get_missing pg_create pg_update pg_delete
  fix w i t t0
  let ?repo = "pg_todo_repo L tenantEnabled"
  show "todos_ok w \<Longrightarrow> todo_map w i = None \<Longrightarrow> \<exists>e. repo_get_by_id ?repo i w = (Err e, w)"
    and "todos_ok w \<Longrightarrow> todo_map w i = Some t \<Longrightarrow> repo_get_by_id ?repo i w = (Ok t, w)"
    and "todos_ok w \<Longrightarrow> todo_map w i = Some t \<Longrightarrow>
      \<exists>w'. repo_delete ?repo i w = (Ok (), w') \<and> todos_ok w' \<and> todo_map w' = (todo_map w)(i := None)"
    and "todos_ok w \<Longrightarrow> todo_fresh w (e_id t) \<Longrightarrow> e_deleted_at t = None \<Longrightarrow>
      \<exists>w'. repo_create ?repo t w = (Ok (), w') \<and> todos_ok w' \<and> todo_map w' = (todo_map w)(e_id t \<mapsto> t)"
    and "todos_ok w \<Longrightarrow> todo_map w (e_id t) = Some t0 \<Longrightarrow> e_created_at t = e_created_at t0 \<Longrightarrow>
      e_deleted_at t = e_deleted_at t0 \<Longrightarrow>
      \<exists>w'. repo_update ?repo t w = (Ok (), w') \<and> todos_ok w' \<and> todo_map w' = (todo_map w)(e_id t \<mapsto> t)"
    by (simp_all add: R)
qed (auto simp: todo_map_id todos_ok_def todo_map_def todo_fresh_def fun_eq_iff dest: todo_map_id)

section \<open>The commands against their specification\<close>

datatype todo_command =
    CreateTodo string string
  | UpdateTodo uuid string string
  | DeleteTodo uuid
  | CompleteTodo uuid

fun run_todo_command ::
  "todo_repo \<Rightarrow> publisher \<Rightarrow> todo_command \<Rightarrow> (world, todo_response option) gop" where
  "run_todo_command repo pub (CreateTodo title desc) =
     bindM (handle_create_todo repo pub title desc) (\<lambda>r. retM (Some r))"
| "run_todo_command repo pub (UpdateTodo i title desc) =
     bindM (handle_update_todo repo pub i title desc) (\<lambda>r. retM (Some r))"
| "run_todo_command repo pub (DeleteTodo i) =
     bindM (handle_delete_todo repo pub i) (\<lambda>_. retM None)"
| "run_todo_command repo pub (CompleteTodo i) =
     bindM (handle_complete_todo repo pub i) (\<lambda>r. retM (Some r))"

text \<open>
  The store the commands promise: a map from identifiers to todos. \<open>now\<close> is the time of the
  request, \<open>new\<close> the identifier a creation takes.
\<close>

fun spec_todo :: "time \<Rightarrow> uuid \<Rightarrow> todo_command \<Rightarrow> (uuid \<Rightarrow> todo option) \<Rightarrow>
    todo_response option result \<times> (uuid \<Rightarrow> todo option)" where
  "spec_todo now new (CreateTodo title desc) m =
     (if title = '''' then (Err (Sentinel ErrInvalidTitle), m)
      else (let t = \<lparr>e_id = new, e_created_at = now, e_updated_at = now, e_deleted_at = None,
                     t_title = title, t_description = desc, t_completed = False\<rparr>
            in (Ok (Some (to_todo_response t)), m(new \<mapsto> t))))"
| "spec_todo now new (UpdateTodo i title desc) m = (case m i of
      None \<Rightarrow> (Err (Sentinel ErrTodoNotFound), m)
    | Some t \<Rightarrow> (let t' = t\<lparr>t_title := if title \<noteq> '''' then title else t_title t,
          t_description := if desc \<noteq> '''' then desc else t_description t, e_updated_at := now\<rparr>
        in (Ok (Some (to_todo_response t')), m(i \<mapsto> t'))))"
| "spec_todo now new (DeleteTodo i) m = (case m i of
      None \<Rightarrow> (Err (Sentinel ErrTodoNotFound), m)
    | Some t \<Rightarrow> (Ok None, m(i := None)))"
| "spec_todo now new (CompleteTodo i) m = (case m i of
      None \<Rightarrow> (Err (Sentinel ErrTodoNotFound), m)
    | Some t \<Rightarrow>
        if t_completed t then (Err (Sentinel ErrTodoAlreadyDone), m)
        else (let t' = t\<lparr>t_completed := True, e_updated_at := now\<rparr>
              in (Ok (Some (to_todo_response t')), m(i \<mapsto> t'))))"

lemma todo_env [simp]:
  "todos_ok (w\<lparr>logs := ls\<rparr>) = todos_ok w" "todo_map (w\<lparr>logs := ls\<rparr>) = todo_map w"
  "todos_ok (w\<lparr>ticks := n\<rparr>) = todos_ok w" "todo_map (w\<lparr>ticks := n\<rparr>) = todo_map w"
  by (auto simp: todos_ok_def todo_map_def)

text \<open>The commands on the PostgreSQL repository, publishing on the bus of the application.\<close>

definition exec_todo :: "libs \<Rightarrow> bool \<Rightarrow> emailer \<Rightarrow> todo_command \<Rightarrow> (world, todo_response option) gop" where
  "exec_todo L te m cmd = run_todo_command (pg_todo_repo L te) (app_publish L m) cmd"

definition matches_spec :: "todo_response option result \<times> world \<Rightarrow>
    todo_response option result \<times> (uuid \<Rightarrow> todo option) \<Rightarrow> bool" where
  "matches_spec rw sp \<longleftrightarrow> fst rw = fst sp \<and> todo_map (snd rw) = snd sp \<and> todos_ok (snd rw)"

lemma exec_create:
  assumes "todos_ok w" "todo_fresh w (uuids w (drawn w))"
  shows "matches_spec (exec_todo L te m (CreateTodo title desc) w)
    (spec_todo (clock w (ticks w)) (uuids w (drawn w)) (CreateTodo title desc) (todo_map w))"
proof (cases "title = ''''")
  case True
  then show ?thesis
    using assms by (simp add: matches_spec_def exec_todo_def handle_create_todo_def svc_create_def op_defs)
next
  case False
  from pg_todo.create_ok [OF assms False refl, where L = L and tenantEnabled = te and desc = desc]
  show ?thesis
    using False by (auto simp: matches_spec_def exec_todo_def handle_create_todo_def op_defs make_todo_def Let_def)
qed

lemma exec_update:
  assumes "todos_ok w"
  shows "matches_spec (exec_todo L te m (UpdateTodo i title desc) w)
    (spec_todo (clock w (ticks w)) new (UpdateTodo i title desc) (todo_map w))"
proof (cases "todo_map w i")
  case None
  then show ?thesis
    using assms by (simp add: matches_spec_def exec_todo_def handle_update_todo_def op_defs pg_todo.missing)
next
  case (Some t)
  from pg_todo.update_ok [OF assms Some refl, where L = L and tenantEnabled = te and title = title and desc = desc]
  show ?thesis
    using Some by (auto simp: matches_spec_def exec_todo_def handle_update_todo_def op_defs Let_def)
qed

lemma exec_delete:
  assumes "todos_ok w"
  shows "matches_spec (exec_todo L te m (DeleteTodo i) w) (spec_todo now new (DeleteTodo i) (todo_map w))"
proof (cases "todo_map w i")
  case None
  then show ?thesis
    using assms by (simp add: matches_spec_def exec_todo_def handle_delete_todo_def op_defs pg_todo.missing)
next
  case (Some t)
  from pg_todo.delete_ok [OF assms Some, where L = L and tenantEnabled = te]
  show ?thesis
    using Some by (auto simp: matches_spec_def exec_todo_def handle_delete_todo_def op_defs)
qed

lemma exec_complete:
  assumes "todos_ok w"
  shows "matches_spec (exec_todo L te m (CompleteTodo i) w)
    (spec_todo (clock w (ticks w)) new (CompleteTodo i) (todo_map w))"
proof (cases "todo_map w i")
  case None
  then show ?thesis
    using assms by (simp add: matches_spec_def exec_todo_def handle_complete_todo_def op_defs pg_todo.missing)
next
  case (Some t)
  show ?thesis
  proof (cases "t_completed t")
    case True
    then show ?thesis
      using assms Some
      by (simp add: matches_spec_def exec_todo_def handle_complete_todo_def op_defs pg_todo.complete_done)
  next
    case False
    from pg_todo.complete_ok [OF assms Some False refl, where L = L and tenantEnabled = te]
    show ?thesis
      using Some False by (auto simp: matches_spec_def exec_todo_def handle_complete_todo_def op_defs Let_def)
  qed
qed

text \<open>
  C6: On a fault-free database whose todo identifiers are distinct, each todo command (create,
  update, delete, complete, published on the in-memory bus of the application) returns exactly
  the response or the error that the specification \<open>spec_todo\<close> gives, and the map of live todos
  it leaves is the specified one; identifiers stay distinct.
\<close>

theorem todo_commands_refine:
  assumes "todos_ok w" and "todo_fresh w (uuids w (drawn w))"
  shows "matches_spec (exec_todo L te m cmd w)
    (spec_todo (clock w (ticks w)) (uuids w (drawn w)) cmd (todo_map w))"
  using assms by (cases cmd) (simp_all add: exec_create exec_update exec_delete exec_complete del: spec_todo.simps)

theorem todo_commands_refine_witness:
  "matches_spec (exec_todo toy_libs True toy_mailer (CreateTodo ''a'' ''b'') init_world)
    (spec_todo 0 1 (CreateTodo ''a'' ''b'') (\<lambda>_. None))"
proof -
  have "todo_map init_world = (\<lambda>_. None)"
    by (rule ext) (simp add: todo_map_def init_world_def empty_db_def)
  then show ?thesis
    using todo_commands_refine [of init_world toy_libs True toy_mailer "CreateTodo ''a'' ''b''"]
    by (simp add: todos_ok_def todo_fresh_def init_world_def empty_db_def)
qed

section \<open>What holds under faults too\<close>

definition todo_ids_distinct :: "database \<Rightarrow> bool" where
  "todo_ids_distinct d \<longleftrightarrow> distinct (map td_id (todos d))"

lemma keeps_todo_create [keeps_rules]: "keeps (on_db todo_ids_distinct) (todo_create t)"
  unfolding todo_create_def sql_create_todo_def
  by (intro keeps_rules) (auto simp: todo_ids_distinct_def split: if_splits)

lemma keeps_todo_repo_update [keeps_rules]: "keeps (on_db todo_ids_distinct) (todo_repo_update t)"
  unfolding todo_repo_update_def sql_update_todo_def
  by (intro keeps_rules) (auto simp: todo_ids_distinct_def map_key_update_where)

lemma keeps_todo_delete [keeps_rules]: "keeps (on_db todo_ids_distinct) (todo_delete i)"
  unfolding todo_delete_def sql_soft_delete_todo_def
  by (intro keeps_rules) (auto simp: todo_ids_distinct_def map_key_update_where)

lemma keeps_todo_get_by_id [keeps_rules]: "keeps (on_db P) (todo_get_by_id i)"
  unfolding todo_get_by_id_def sql_get_todo_by_id_def by (intro keeps_rules)

lemma keeps_todo_entity [keeps_rules]:
  "keeps (on_db P) (new_todo title desc)" "keeps (on_db P) (todo_complete t)"
  "keeps (on_db P) (todo_update t title desc)"
  unfolding new_todo_def todo_complete_def todo_update_def Let_def by (intro keeps_rules)+

lemma keeps_svc_find [keeps_rules]: "keeps (on_db P) (svc_find (pg_todo_repo L te) i)"
  unfolding svc_find_def pg_todo_repo_sel by (intro keeps_rules)

text \<open>Publishing a todo event writes the log only.\<close>

lemma keeps_app_publish_todo [keeps_rules]:
  "keeps (on_db P) (app_publish L m \<lparr>ev_type = TodoCreatedEvent, ev_payload = ByValue (TodoCreated i s t)\<rparr>)"
  "keeps (on_db P) (app_publish L m \<lparr>ev_type = TodoUpdatedEvent, ev_payload = ByValue (TodoUpdated i s t)\<rparr>)"
  "keeps (on_db P) (app_publish L m \<lparr>ev_type = TodoCompletedEvent, ev_payload = ByValue (TodoCompleted i s t)\<rparr>)"
  "keeps (on_db P) (app_publish L m \<lparr>ev_type = TodoDeletedEvent, ev_payload = ByValue (TodoDeleted i t)\<rparr>)"
  by (simp_all add: keeps_def on_db_def)

text \<open>What the three writes of the repository keep, every command keeps.\<close>

lemma keeps_exec_todo:
  assumes "\<And>t. keeps (on_db P) (todo_create t)" "\<And>t. keeps (on_db P) (todo_repo_update t)"
    "\<And>i. keeps (on_db P) (todo_delete i)"
  shows "keeps (on_db P) (exec_todo L te m cmd)"
proof -
  have "keeps (on_db P) (svc_create (pg_todo_repo L te) title desc)"
    "keeps (on_db P) (svc_update (pg_todo_repo L te) i title desc)"
    "keeps (on_db P) (svc_delete (pg_todo_repo L te) i)"
    "keeps (on_db P) (svc_complete (pg_todo_repo L te) i)" for title desc i
    unfolding svc_create_def svc_update_def svc_delete_def svc_complete_def pg_todo_repo_sel
    by (intro keeps_rules assms)+
  then show ?thesis
    unfolding exec_todo_def
    by (cases cmd) (auto simp: handle_create_todo_def handle_update_todo_def handle_delete_todo_def
        handle_complete_todo_def intro!: keeps_rules)
qed

lemma todo_ids_keep: "keeps (on_db todo_ids_distinct) (exec_todo L te m cmd)"
  by (rule keeps_exec_todo) (rule keeps_rules)+

section \<open>The life of a todo\<close>

text \<open>
  \<open>todo_history rows rows'\<close>: every row of \<open>rows\<close> is still there, with its identifier, creation
  time and tenant; a completed one is still completed, a deleted one has not changed at all.
\<close>

definition todo_later :: "todos_row \<Rightarrow> todos_row \<Rightarrow> bool" where
  "todo_later r r' \<longleftrightarrow> td_id r' = td_id r \<and> td_created_at r' = td_created_at r
     \<and> td_tenant_id r' = td_tenant_id r \<and> (td_completed r \<longrightarrow> td_completed r')
     \<and> (td_deleted_at r \<noteq> None \<longrightarrow> r' = r)"

definition todo_history :: "database \<Rightarrow> database \<Rightarrow> bool" where
  "todo_history d d' \<longleftrightarrow> (\<forall>r \<in> set (todos d). \<exists>r' \<in> set (todos d'). todo_later r r')"

lemma todo_later_refl [simp]: "todo_later r r"
  by (simp add: todo_later_def)

lemma todo_later_trans: "todo_later a b \<Longrightarrow> todo_later b c \<Longrightarrow> todo_later a c"
  by (auto simp: todo_later_def)

lemma todo_history_refl [simp]: "todo_history d d"
  by (auto simp: todo_history_def intro: todo_later_refl)

lemma todo_history_trans: "todo_history a b \<Longrightarrow> todo_history b c \<Longrightarrow> todo_history a c"
  unfolding todo_history_def by (meson todo_later_trans)

lemma todo_history_bind:
  assumes "todo_history (db w) (db (snd (m w)))"
    and "\<And>x w1. m w = (Ok x, w1) \<Longrightarrow> todo_history (db w1) (db (snd (f x w1)))"
  shows "todo_history (db w) (db (snd (bindM m f w)))"
  by (rule bindM_rel [where R = todo_history]) (use assms todo_history_trans in blast)+

lemma todo_history_update:
  assumes "\<And>r. r \<in> set (todos d) \<Longrightarrow> live_todo i r \<Longrightarrow> todo_later r (f r)"
    and "todos d' = update_where (live_todo i) f (todos d)"
  shows "todo_history d d'"
  unfolding todo_history_def
proof
  fix r
  assume "r \<in> set (todos d)"
  then show "\<exists>r' \<in> set (todos d'). todo_later r r'"
    using assms by (intro bexI [of _ "if live_todo i r then f r else r"]) (auto simp: set_update_where)
qed

text \<open>The update writes back the completed flag of the row it read.\<close>

lemma svc_find_pg:
  assumes "svc_find (pg_todo_repo L te) i w = (r, w')"
  shows "db w' = db w \<and> (\<forall>t. r = Ok t \<longrightarrow> (\<exists>row. find (live_todo i) (todos (db w)) = Some row \<and> t = todo_of_row row))"
  using assms query_rowM_cases [of "\<lambda>d. find (live_todo i) (todos d)" w]
  by (fastforce simp: svc_find_def todo_get_by_id_def sql_get_todo_by_id_def op_defs
      split: prod.splits outcome.splits if_splits)

lemma todo_repo_update_history:
  assumes "distinct (map td_id (todos d))" "find (live_todo i) (todos d) = Some row" "db w = d"
    and "e_id t = td_id row" "td_completed row \<longrightarrow> t_completed t"
  shows "todo_history d (db (snd (todo_repo_update t w)))"
proof -
  have row: "row \<in> set (todos d)" "live_todo i row" using find_SomeD [OF assms(2)] by auto
  have i: "e_id t = i" using row assms(4) by (simp add: live_todo_def)
  have later: "todo_history d (d\<lparr>todos := update_where (live_todo i)
        (\<lambda>r. r\<lparr>td_title := t_title t, td_description := t_description t,
               td_completed := t_completed t, td_updated_at := e_updated_at t\<rparr>) (todos d)\<rparr>)"
    using assms(1,5) row
    by (intro todo_history_update [where i = i]) (auto simp: live_todo_def todo_later_def dest: distinct_key_unique)
  have "todo_history d (db w')" if "sql_update_todo t w = (q, w')" for q w'
    using exec_rowsM_cases [OF that [unfolded sql_update_todo_def]] assms(3) later by (auto simp: i)
  then show ?thesis
    by (auto simp: todo_repo_update_def op_defs wrapM_def split: prod.splits outcome.splits sum.splits)
qed

lemma todo_create_history: "todo_history (db w) (db (snd (todo_create t w)))"
proof -
  have "todo_history (db w) (db w')" if "sql_create_todo t w = (q, w')" for q w'
    using insertM_cases [OF that [unfolded sql_create_todo_def]]
    by (auto simp: todo_history_def intro: todo_later_refl)
  then show ?thesis
    by (auto simp: todo_create_def op_defs wrapM_def split: prod.splits outcome.splits sum.splits)
qed

lemma todo_delete_history: "todo_history (db w) (db (snd (todo_delete i w)))"
proof -
  have "todo_history (db w) (db w')" if "sql_soft_delete_todo i w = (q, w')" for q w'
  proof -
    define now where "now = clock w (ticks w)"
    have "exec_rowsM (\<lambda>d. count_where (live_todo i) (todos d))
        (\<lambda>d. d\<lparr>todos := update_where (live_todo i)
          (\<lambda>r. r\<lparr>td_deleted_at := Some now, td_updated_at := now\<rparr>) (todos d)\<rparr>)
        (w\<lparr>ticks := Suc (ticks w)\<rparr>) = (q, w')"
      using that by (simp add: sql_soft_delete_todo_def op_defs now_def)
    then have "db w' = db w \<or> todos (db w') = update_where (live_todo i)
        (\<lambda>r. r\<lparr>td_deleted_at := Some now, td_updated_at := now\<rparr>) (todos (db w))"
      by (auto dest: exec_rowsM_cases)
    moreover have "todo_later r (r\<lparr>td_deleted_at := Some now, td_updated_at := now\<rparr>)" if "live_todo i r" for r
      using that by (simp add: live_todo_def todo_later_def)
    ultimately show ?thesis
      using todo_history_update [of "db w" i] by fastforce
  qed
  then show ?thesis
    by (auto simp: todo_delete_def op_defs wrapM_def split: prod.splits outcome.splits sum.splits)
qed

lemma svc_history:
  assumes d: "distinct (map td_id (todos (db w)))"
  shows "todo_history (db w) (db (snd (svc_create (pg_todo_repo L te) title desc w)))"
    and "todo_history (db w) (db (snd (svc_update (pg_todo_repo L te) i title desc w)))"
    and "todo_history (db w) (db (snd (svc_delete (pg_todo_repo L te) i w)))"
    and "todo_history (db w) (db (snd (svc_complete (pg_todo_repo L te) i w)))"
proof -
  note rel = todo_history_bind
  have c: "db (snd (bindM (todo_create t) (\<lambda>_. retM t) w)) = db (snd (todo_create t w))" for t w
    by (rule bindM_frame) (rule keeps_rules)
  have u: "db (snd (bindM (todo_repo_update t) (\<lambda>_. retM t) w)) = db (snd (todo_repo_update t w))" for t w
    by (rule bindM_frame) (rule keeps_rules)
  have new: "db (snd ((new_todo title desc :: (world, todo) gop) w)) = db w"
    by (rule keeps_db_eq) (rule keeps_rules)
  show "todo_history (db w) (db (snd (svc_create (pg_todo_repo L te) title desc w)))"
    by (auto simp: svc_create_def new c todo_create_history retM_def errM_def intro!: rel)
  note F = svc_find_pg [of L te i w]
  have fnd: "db (snd (svc_find (pg_todo_repo L te) i w)) = db w"
    by (rule keeps_db_eq) (rule keeps_rules)
  show "todo_history (db w) (db (snd (svc_update (pg_todo_repo L te) i title desc w)))"
    unfolding svc_update_def
  proof (rule rel)
    fix t w1
    assume f: "svc_find (pg_todo_repo L te) i w = (Ok t, w1)"
    from F [OF this] obtain row where r: "db w1 = db w" "find (live_todo i) (todos (db w)) = Some row" "t = todo_of_row row"
      by auto
    have upd: "db (snd ((todo_update t title desc :: (world, todo) gop) w1)) = db w1"
      by (rule keeps_db_eq) (rule keeps_rules)
    have "(todo_update t title desc :: (world, todo) gop) w1 = (Ok t', w2) \<Longrightarrow>
        db w2 = db w \<and> e_id t' = td_id row \<and> (td_completed row \<longrightarrow> t_completed t')" for t' w2
      by (auto simp: todo_update_def touch_def op_defs Let_def r(1,3))
    then show "todo_history (db w1) (db (snd (bindM (todo_update t title desc)
        (\<lambda>t'. bindM (repo_update (pg_todo_repo L te) t') (\<lambda>_. retM t')) w1)))"
      using todo_repo_update_history [OF d r(2)]
      by - (rule rel, auto simp: u r(1) upd)
  qed (simp add: fnd)
  show "todo_history (db w) (db (snd (svc_delete (pg_todo_repo L te) i w)))"
    unfolding svc_delete_def
    by (rule rel) (simp_all add: fnd todo_delete_history)
  show "todo_history (db w) (db (snd (svc_complete (pg_todo_repo L te) i w)))"
    unfolding svc_complete_def
  proof (rule rel)
    fix t w1
    assume f: "svc_find (pg_todo_repo L te) i w = (Ok t, w1)"
    from F [OF this] obtain row where r: "db w1 = db w" "find (live_todo i) (todos (db w)) = Some row" "t = todo_of_row row"
      by auto
    have upd: "db (snd ((todo_complete t :: (world, todo) gop) w1)) = db w1"
      by (rule keeps_db_eq) (rule keeps_rules)
    have "(todo_complete t :: (world, todo) gop) w1 = (Ok t', w2) \<Longrightarrow>
        db w2 = db w \<and> e_id t' = td_id row \<and> t_completed t'" for t' w2
      by (auto simp: todo_complete_def touch_def op_defs r(1,3))
    then show "todo_history (db w1) (db (snd ((if t_completed t then errM (Sentinel ErrTodoAlreadyDone)
        else bindM (todo_complete t) (\<lambda>t'. bindM (repo_update (pg_todo_repo L te) t') (\<lambda>_. retM t'))) w1)))"
      using todo_repo_update_history [OF d r(2)]
      by - (cases "t_completed t", simp add: errM_def, simp, rule rel, auto simp: u r(1) upd)
  qed (simp add: fnd)

qed

lemma exec_todo_history:
  assumes "distinct (map td_id (todos (db w)))"
  shows "todo_history (db w) (db (snd (exec_todo L te m cmd w)))"
  by (cases cmd) (simp_all add: exec_todo_def handle_create_todo_def handle_update_todo_def
      handle_delete_todo_def handle_complete_todo_def bindM_assoc bindM_frame keeps_rules svc_history [OF assms])

text \<open>Requests one after another, whatever each of them returned.\<close>

fun exec_todos :: "libs \<Rightarrow> bool \<Rightarrow> emailer \<Rightarrow> todo_command list \<Rightarrow> world \<Rightarrow> world" where
  "exec_todos L te m [] w = w"
| "exec_todos L te m (c # cs) w = exec_todos L te m cs (snd (exec_todo L te m c w))"

lemma exec_todo_distinct:
  "distinct (map td_id (todos (db w))) \<Longrightarrow> distinct (map td_id (todos (db (snd (exec_todo L te m cmd w)))))"
  using keepsD [OF todo_ids_keep, of w] by (simp add: on_db_def todo_ids_distinct_def)

text \<open>
  C19: Along any sequence of todo commands, with any faults, no todo row is lost or re-dated: a
  completed todo stays completed and a deleted todo never changes again.
\<close>

theorem todo_lifecycle:
  assumes "distinct (map td_id (todos (db w)))"
  shows "todo_history (db w) (db (exec_todos L te m cmds w))"
  using assms
proof (induction cmds arbitrary: w)
  case (Cons c cs)
  show ?case
    using todo_history_trans [OF exec_todo_history Cons.IH [OF exec_todo_distinct], OF Cons.prems Cons.prems]
    by simp
qed simp

theorem todo_lifecycle_witness:
  "todo_history empty_db (db (exec_todos toy_libs False toy_mailer [CreateTodo ''a'' '''', CompleteTodo 1] init_world))"
  using todo_lifecycle [of init_world toy_libs False toy_mailer "[CreateTodo ''a'' '''', CompleteTodo 1]"]
  by (simp add: init_world_def empty_db_def)

section \<open>A concurrent update\<close>

text \<open>The two halves of \<open>UpdateTodo\<close>: the read, and what follows it.\<close>

definition update_write :: "todo_repo \<Rightarrow> string \<Rightarrow> string \<Rightarrow> todo \<Rightarrow> (world, todo) gop" where
  "update_write repo title desc t =
     bindM (todo_update t title desc) (\<lambda>t'. bindM (repo_update repo t') (\<lambda>_. retM t'))"

lemma svc_update_split: "svc_update repo i title desc = bindM (svc_find repo i) (update_write repo title desc)"
  by (rule ext) (simp add: svc_update_def update_write_def [abs_def])

lemma update_write_ok:
  assumes "todos_ok w" "todo_map w i = Some t0" "e_id t = i" "e_created_at t = e_created_at t0"
    "e_deleted_at t = e_deleted_at t0"
  shows "\<exists>t' w'. update_write (pg_todo_repo L te) title desc t w = (Ok t', w') \<and>
    todo_map w' = (todo_map w)(i \<mapsto> t') \<and> t_completed t' = t_completed t"
proof -
  define t' where "t' = t\<lparr>t_title := if title \<noteq> '''' then title else t_title t,
      t_description := if desc \<noteq> '''' then desc else t_description t, e_updated_at := clock w (ticks w)\<rparr>"
  have u: "(todo_update t title desc :: (world, todo) gop) w = (Ok t', w\<lparr>ticks := Suc (ticks w)\<rparr>)"
    by (simp add: todo_update_def touch_def op_defs t'_def Let_def)
  obtain w' where "todo_repo_update t' (w\<lparr>ticks := Suc (ticks w)\<rparr>) = (Ok (), w')"
      "todo_map w' = (todo_map w)(i \<mapsto> t')"
    using pg_update [of "w\<lparr>ticks := Suc (ticks w)\<rparr>" t' t0] assms by (auto simp: t'_def)
  then show ?thesis
    by (intro exI [of _ t'] exI [of _ w']) (simp add: update_write_def op_defs u t'_def)
qed

text \<open>
  C36: \<open>UpdateTodo\<close> reads the row and later writes all of it back without a lock or a version
  check. When another request completes the todo between the two, the completion succeeds and is
  then undone: the todo is pending again.
\<close>

theorem concurrent_update_loses_completion:
  assumes "todos_ok w" "todo_map w i = Some t" "\<not> t_completed t"
    and read: "svc_find (pg_todo_repo L te) i w = (Ok read_todo, w1)"
    and other: "svc_complete (pg_todo_repo L te) i w1 = (r, w2)"
  shows "(\<exists>t'. r = Ok t' \<and> t_completed t') \<and>
    (\<exists>t'. todo_map (snd (update_write (pg_todo_repo L te) title desc read_todo w2)) i = Some t'
       \<and> \<not> t_completed t')"
proof -
  have r: "read_todo = t" "w1 = w"
    using read pg_todo.find_found [OF assms(1,2)] by auto
  obtain t2 where t2: "r = Ok t2" "t_completed t2" "todos_ok w2" "todo_map w2 i = Some t2"
      "e_created_at t2 = e_created_at t" "e_deleted_at t2 = e_deleted_at t"
    using pg_todo.complete_ok [OF assms(1,2,3) refl, where L = L and tenantEnabled = te] other r by auto
  with update_write_ok [of w2 i t2 t L te title desc] todo_map_id [OF assms(2)] assms(3) r show ?thesis
    by auto
qed

section \<open>Listing and searching\<close>

definition todo_visible :: "bool \<Rightarrow> string \<Rightarrow> todos_row \<Rightarrow> bool" where
  "todo_visible te tid r \<longleftrightarrow> td_deleted_at r = None \<and> (te \<and> tid \<noteq> '''' \<longrightarrow> td_tenant_id r = tid)"

definition contains_ci :: "string \<Rightarrow> string \<Rightarrow> bool" where
  "contains_ci s q \<longleftrightarrow> sublist (to_lower q) (to_lower s)"

definition newest_first :: "todos_row list \<Rightarrow> todos_row list" where
  "newest_first rows = order_desc (row_key todo_columns) rows"

declare like.simps(2) [simp del]

lemma like_percent: "like (CHR ''%'' # p) s \<longleftrightarrow> (\<exists>a b. s = a @ b \<and> like p b)"
proof (induction s)
  case (Cons c s)
  have "(\<exists>a b. c # s = a @ b \<and> like p b) \<longleftrightarrow> like p (c # s) \<or> (\<exists>a b. s = a @ b \<and> like p b)"
    by (metis append_Cons append_Nil list.inject neq_Nil_conv)
  then show ?case using Cons by (simp add: like.simps(2))
qed (simp add: like.simps(2))

lemma like_escaped: "like (backslash # q # p) s \<longleftrightarrow> (\<exists>t. s = q # t \<and> like p t)"
  by (cases s) (auto simp: like.simps(2))

lemma like_literal:
  "c \<noteq> CHR ''%'' \<Longrightarrow> c \<noteq> CHR ''_'' \<Longrightarrow> c \<noteq> backslash \<Longrightarrow> like (c # p) s \<longleftrightarrow> (\<exists>t. s = c # t \<and> like p t)"
  by (cases s) (auto simp: like.simps(2))

lemma like_escape:
  "backslash \<notin> set q \<Longrightarrow> like (concat (map escape_like_char q) @ p) s \<longleftrightarrow> (\<exists>t. s = q @ t \<and> like p t)"
proof (induction q arbitrary: s)
  case (Cons c q)
  then show ?case
    by (cases "c = CHR ''%'' \<or> c = CHR ''_''")
      (auto simp: escape_like_char_def like_escaped like_literal)
qed simp

lemma lower_char_fixed:
  "lower_char c = CHR ''%'' \<longleftrightarrow> c = CHR ''%''" "lower_char c = CHR ''_'' \<longleftrightarrow> c = CHR ''_''"
  "lower_char c = backslash \<longleftrightarrow> c = backslash"
  by (auto simp: lower_char_def dest!: arg_cong [where f = "of_char :: char \<Rightarrow> nat"])

lemma to_lower_pattern: "to_lower (search_pattern q) = search_pattern (to_lower q)"
proof -
  have "map lower_char (escape_like_char c) = escape_like_char (lower_char c)" for c
    using lower_char_fixed [of c] lower_char_fixed [of "CHR ''%''"] lower_char_fixed [of "CHR ''_''"]
      lower_char_fixed [of backslash] by (simp add: escape_like_char_def)
  moreover have "lower_char (CHR ''%'') = CHR ''%''"
    using lower_char_fixed [of "CHR ''%''"] by simp
  ultimately show ?thesis
    by (simp add: to_lower_def search_pattern_def map_concat comp_def)
qed

lemma search_pattern_matches:
  assumes "backslash \<notin> set q"
  shows "ilike s (search_pattern q) \<longleftrightarrow> contains_ci s q"
proof -
  have b: "backslash \<notin> set (to_lower q)"
  proof
    assume "backslash \<in> set (to_lower q)"
    then obtain c where "c \<in> set q" "lower_char c = backslash" unfolding to_lower_def by fastforce
    moreover from this have "c = backslash" by (simp only: lower_char_fixed)
    ultimately show False using assms by simp
  qed
  let ?q = "to_lower q"

  have "ilike s (search_pattern q) = like (''%'' @ concat (map escape_like_char ?q) @ ''%'') (to_lower s)"
    by (simp only: ilike_def to_lower_pattern) (simp only: search_pattern_def)
  also have "\<dots> = (\<exists>a b. to_lower s = a @ b \<and> (\<exists>t. b = ?q @ t))"
    by (simp add: like_percent like_escape [OF b])
  also have "\<dots> = contains_ci s q"
    by (auto simp: contains_ci_def sublist_def)
  finally show ?thesis .
qed

lemma visible_base:
  "list_all (params_ok (snd (tenant_filter te tid ([DeletedIsNull], []))))
     (fst (tenant_filter te tid ([DeletedIsNull], [])))"
  "sql_holds todo_columns (snd (tenant_filter te tid ([DeletedIsNull], [])))
     (fst (tenant_filter te tid ([DeletedIsNull], []))) = todo_visible te tid"
  by (auto simp: tenant_filter_def params_ok_def arg_def sql_holds_def todo_columns_def
      todo_visible_def fun_eq_iff)

lemma search_base:
  "list_all (params_ok (snd (tenant_filter te tid ([DeletedIsNull, AnyILike 1], [VText p]))))
     (fst (tenant_filter te tid ([DeletedIsNull, AnyILike 1], [VText p])))"
  "sql_holds todo_columns (snd (tenant_filter te tid ([DeletedIsNull, AnyILike 1], [VText p])))
     (fst (tenant_filter te tid ([DeletedIsNull, AnyILike 1], [VText p])))
   = (\<lambda>r. todo_visible te tid r \<and> (ilike (td_title r) p \<or> ilike (td_description r) p))"
  by (auto simp: tenant_filter_def params_ok_def arg_def sql_holds_def todo_columns_def
      todo_visible_def fun_eq_iff)

lemma todo_columns_sel [simp]:
  "col_id todo_columns = td_id" "col_created_at todo_columns = td_created_at"
  by (simp_all add: todo_columns_def)

lemma row_key_todo: "row_key todo_columns r = (td_created_at r, td_id r)"
  by (simp add: row_key_def todo_columns_def)

lemma distinct_todo_keys: "distinct (map td_id rows) \<Longrightarrow> distinct (map (row_key todo_columns) rows)"
  by (auto simp: row_key_todo distinct_map inj_on_def)

lemma todo_cursor_row: "todo_cursor L (todo_of_row r) = encode_cursor L (col_created_at todo_columns r) (col_id todo_columns r)"
  by (simp add: todo_cursor_def todo_columns_def)

text \<open>
  C17: A client that lists todos with a positive page size and follows \<open>next_cursor\<close> while
  \<open>has_next\<close> holds gets every todo that is not deleted and visible to its tenant exactly once,
  newest first, after at most as many pages as there are rows, and then stops.
\<close>

theorem todo_list_walk:
  assumes "todos_ok w" "uuid_law L" "1 \<le> limit"
    and "\<forall>r \<in> set (todos (db w)). year_ok (td_created_at r)"
  shows "walk (fetch (\<lambda>c. todo_get_all L te cx c limit) w) (Suc (length (todos (db w)))) None =
    Some (map todo_of_row (newest_first (filter (todo_visible te (get_tenant_id cx)) (todos (db w)))))"
  using list_page_walk [where w = w and L = L and limit = limit and tab = todos and C = todo_columns
      and conv = todo_of_row and cu = "todo_cursor L" and msg = "''query todos''"
      and base = "tenant_filter te (get_tenant_id cx) ([DeletedIsNull], [])"] assms
  by (simp add: todo_get_all_def [abs_def] todos_ok_def distinct_todo_keys todo_cursor_row visible_base
      listing_def newest_first_def del: walk.simps cong: filter_cong)

text \<open>
  C18: Searching with a query that has no backslash and walking the pages gives exactly the
  visible todos whose title or description contains the query as a substring, without regard to
  case; \<open>%\<close> and \<open>_\<close> in the query stand for themselves.
\<close>

theorem todo_search_walk:
  assumes "todos_ok w" "uuid_law L" "1 \<le> limit" "backslash \<notin> set q"
    and "\<forall>r \<in> set (todos (db w)). year_ok (td_created_at r)"
  shows "walk (fetch (\<lambda>c. todo_search L te cx q c limit) w) (Suc (length (todos (db w)))) None =
    Some (map todo_of_row (newest_first (filter (\<lambda>r. todo_visible te (get_tenant_id cx) r \<and>
      (contains_ci (td_title r) q \<or> contains_ci (td_description r) q)) (todos (db w)))))"
  using list_page_walk [where w = w and L = L and limit = limit and tab = todos and C = todo_columns
      and conv = todo_of_row and cu = "todo_cursor L" and msg = "''search todos''"
      and base = "tenant_filter te (get_tenant_id cx) ([DeletedIsNull, AnyILike 1], [VText (search_pattern q)])"] assms
  by (simp add: todo_search_def [abs_def] todos_ok_def distinct_todo_keys todo_cursor_row search_base
      search_pattern_matches listing_def newest_first_def del: walk.simps One_nat_def cong: filter_cong)

section \<open>A sample state\<close>

definition sample_row :: "uuid \<Rightarrow> string \<Rightarrow> time \<Rightarrow> todos_row" where
  "sample_row i title at = \<lparr>td_id = i, td_title = title, td_description = '''', td_completed = False,
     td_created_at = at, td_updated_at = at, td_deleted_at = None, td_tenant_id = ''''\<rparr>"

definition sample_world :: world where
  "sample_world = init_world\<lparr>db := empty_db\<lparr>todos := [sample_row 1 ''Buy milk'' 0, sample_row 2 ''call'' 5]\<rparr>\<rparr>"

lemma sample_world_facts:
  "todos_ok sample_world" "\<forall>r \<in> set (todos (db sample_world)). year_ok (td_created_at r)"
  "todo_map sample_world 1 = Some (todo_of_row (sample_row 1 ''Buy milk'' 0))"
  "length (todos (db sample_world)) = 2"
proof -
  have "year_ok 0" "year_ok 5" by code_simp+
  then show "\<forall>r \<in> set (todos (db sample_world)). year_ok (td_created_at r)"
    by (simp add: sample_world_def sample_row_def)
qed (simp_all add: sample_world_def todos_ok_def init_world_def todo_map_def live_todo_def sample_row_def)

theorem todo_list_walk_witness:
  "walk (fetch (\<lambda>c. todo_get_all toy_libs False background c 1) sample_world) 3 None =
    Some (map todo_of_row (newest_first (filter (todo_visible False (get_tenant_id background))
      (todos (db sample_world)))))"
  using todo_list_walk [of sample_world toy_libs 1 False background] sample_world_facts uuid_law_toy
  by (simp add: numeral_3_eq_3 del: walk.simps)

theorem todo_search_walk_witness:
  "walk (fetch (\<lambda>c. todo_search toy_libs False background ''MILK'' c 1) sample_world) 3 None =
    Some (map todo_of_row (newest_first (filter (\<lambda>r. todo_visible False (get_tenant_id background) r \<and>
      (contains_ci (td_title r) ''MILK'' \<or> contains_ci (td_description r) ''MILK'')) (todos (db sample_world)))))"
  using todo_search_walk [of sample_world toy_libs 1 "''MILK''" False background] sample_world_facts uuid_law_toy
  by (simp add: numeral_3_eq_3 del: walk.simps)

theorem concurrent_update_loses_completion_witness:
  "\<exists>t' w1 r w2. svc_find (pg_todo_repo toy_libs False) 1 sample_world = (Ok t', w1) \<and>
     svc_complete (pg_todo_repo toy_libs False) 1 w1 = (r, w2) \<and> (\<exists>t''. r = Ok t'' \<and> t_completed t'') \<and>
     (\<exists>t''. todo_map (snd (update_write (pg_todo_repo toy_libs False) ''x'' '''' t' w2)) 1 = Some t''
        \<and> \<not> t_completed t'')"
proof -
  let ?t = "todo_of_row (sample_row 1 ''Buy milk'' 0)"
  have nc: "\<not> t_completed ?t" by (simp add: sample_row_def)
  have f: "svc_find (pg_todo_repo toy_libs False) 1 sample_world = (Ok ?t, sample_world)"
    by (rule pg_todo.find_found) (simp_all add: sample_world_facts)
  obtain r w2 where c: "svc_complete (pg_todo_repo toy_libs False) 1 sample_world = (r, w2)"
    by fastforce
  show ?thesis
    by (intro exI, rule conjI [OF f], rule conjI [OF c],
        rule concurrent_update_loses_completion [OF sample_world_facts(1,3) nc f c])
qed

section \<open>Tenants\<close>

definition untagged :: "database \<Rightarrow> bool" where
  "untagged d \<longleftrightarrow> (\<forall>r \<in> set (todos d). td_tenant_id r = '''')"

lemma keeps_untagged [keeps_rules]:
  "keeps (on_db untagged) (todo_create t)" "keeps (on_db untagged) (todo_repo_update t)"
  "keeps (on_db untagged) (todo_delete i)"
  unfolding todo_create_def sql_create_todo_def todo_repo_update_def sql_update_todo_def
    todo_delete_def sql_soft_delete_todo_def
  by (intro keeps_rules; auto simp: untagged_def set_update_where)+

lemma exec_untagged: "keeps (on_db untagged) (exec_todo L te m cmd)"
  by (rule keeps_exec_todo) (rule keeps_untagged)+

lemma exec_todos_untagged: "untagged (db w) \<Longrightarrow> untagged (db (exec_todos L te m cmds w))"
  by (induction cmds arbitrary: w) (use keepsD [OF exec_untagged] in \<open>auto simp: on_db_def\<close>)

text \<open>
  No command writes the tenant column. With tenancy on, a tenant that lists its todos gets
  an empty first page, whatever todos it has created before (here from an empty table).
\<close>

theorem tenant_never_sees_todos:
  assumes "get_tenant_id cx \<noteq> ''''" "todos (db w) = []" "0 \<le> limit"
    and "faults (exec_todos L True m cmds w) = []"
  shows "\<exists>pg. fst (todo_get_all L True cx None limit (exec_todos L True m cmds w)) = Ok pg \<and> pg_items pg = []"
proof -
  let ?w = "exec_todos L True m cmds w"
  have "untagged (db ?w)"
    by (rule exec_todos_untagged) (simp add: untagged_def assms(2))
  then have "filter (todo_visible True (get_tenant_id cx)) (todos (db ?w)) = []"
    using assms(1) by (auto simp: untagged_def todo_visible_def filter_empty_conv)
  then have e: "listing todo_columns (tenant_filter True (get_tenant_id cx) ([DeletedIsNull], [])) (todos (db ?w)) = []"
    by (simp add: listing_def visible_base)
  show ?thesis
    using assms(3) list_page_ok [OF assms(4) visible_base(1) [of True "get_tenant_id cx"], where L = L
        and cursorArg = None and limit = limit and C = todo_columns and tab = todos and conv = todo_of_row
        and msg = "''query todos''" and cu = "todo_cursor L"]
    by (simp add: todo_get_all_def cursor_ok_def e after_cursor_def page_of_def)
qed

theorem tenant_never_sees_todos_witness:
  "\<exists>pg. fst (todo_get_all toy_libs True (background\<lparr>cx_tenant_id := Some ''acme''\<rparr>) None 20
      (exec_todos toy_libs True toy_mailer [CreateTodo ''a'' ''''] init_world)) = Ok pg \<and> pg_items pg = []"
proof -
  have "faults (exec_todos toy_libs True toy_mailer [CreateTodo ''a'' ''''] init_world) = []"
    using exec_create [of init_world toy_libs True toy_mailer "''a''" "''''"]
    by (simp add: matches_spec_def todos_ok_def todo_fresh_def init_world_def empty_db_def)
  then show ?thesis
    by (intro tenant_never_sees_todos) (simp_all add: get_tenant_id_def or_empty_def init_world_def empty_db_def)
qed

end
