(* ===== verification/Auth_Store.thy ===== *)
theory Auth_Store
  imports Events
begin

text \<open>
  The data of the authentication module: the entities \<open>User\<close> and \<open>RefreshToken\<close>, the two
  repository interfaces, and their PostgreSQL implementations over the tables users,
  user_credentials, user_security, user_tokens and refresh_tokens. The last sections hold the
  invariant of these tables and what a stored account looks like after each repository operation.
\<close>

section \<open>Entities\<close>

text \<open>
  \<open>FailedLoginAttempts\<close> is a Go \<open>int\<close> in a column of type \<open>INTEGER\<close>; here it has no bound. The fifth failure
  locks the account, so the column is not left before some two thousand million failures without a success.
\<close>

record user = entity +
  u_email :: string
  u_password :: string
  u_name :: string
  u_is_active :: bool
  u_failed_attempts :: int
  u_locked_until :: "time option"
  u_email_verified :: bool
  u_verify_token :: "string option"
  u_verify_expires :: "time option"
  u_reset_token :: "string option"
  u_reset_expires :: "time option"

definition new_user :: "string \<Rightarrow> string \<Rightarrow> string \<Rightarrow> (world, 'e, user) op" where
  "new_user email password name = bindM new_entity (\<lambda>e.
     retM \<lparr>e_id = e_id e, e_created_at = e_created_at e, e_updated_at = e_updated_at e,
       e_deleted_at = e_deleted_at e, u_email = email, u_password = password, u_name = name,
       u_is_active = True, u_failed_attempts = 0, u_locked_until = None, u_email_verified = False,
       u_verify_token = None, u_verify_expires = None, u_reset_token = None, u_reset_expires = None\<rparr>)"

text \<open>The clock is read only when the account has a lock.\<close>

definition is_locked :: "user \<Rightarrow> (world, 'e, bool) op" where
  "is_locked u = (case u_locked_until u of
      None \<Rightarrow> retM False
    | Some t \<Rightarrow> bindM nowM (\<lambda>now. retM (now < t)))"

definition lock_user :: "user \<Rightarrow> time \<Rightarrow> (world, 'e, user) op" where
  "lock_user u duration = bindM nowM (\<lambda>now.
     retM (u\<lparr>u_failed_attempts := u_failed_attempts u + 1, u_locked_until := Some (now + duration)\<rparr>))"

definition unlock_user :: "user \<Rightarrow> user" where
  "unlock_user u = u\<lparr>u_failed_attempts := 0, u_locked_until := None\<rparr>"

record refresh_token = entity +
  k_user_id :: uuid
  k_token :: string
  k_expires_at :: time
  k_revoked_at :: "time option"

definition new_refresh_token :: "uuid \<Rightarrow> string \<Rightarrow> time \<Rightarrow> (world, 'e, refresh_token) op" where
  "new_refresh_token uid tok exp = bindM new_entity (\<lambda>e.
     retM \<lparr>e_id = e_id e, e_created_at = e_created_at e, e_updated_at = e_updated_at e,
       e_deleted_at = e_deleted_at e, k_user_id = uid, k_token = tok, k_expires_at = exp,
       k_revoked_at = None\<rparr>)"

definition is_expired :: "refresh_token \<Rightarrow> (world, 'e, bool) op" where
  "is_expired k = bindM nowM (\<lambda>now. retM (k_expires_at k < now))"

definition is_revoked :: "refresh_token \<Rightarrow> bool" where
  "is_revoked k \<longleftrightarrow> k_revoked_at k \<noteq> None"

definition revoke :: "refresh_token \<Rightarrow> (world, 'e, refresh_token) op" where
  "revoke k = bindM nowM (\<lambda>now. touch (k\<lparr>k_revoked_at := Some now\<rparr>))"

section \<open>The repository interfaces\<close>

record user_repo =
  user_create :: "user \<Rightarrow> (world, unit) gop"
  user_get_by_id :: "uuid \<Rightarrow> (world, user) gop"
  user_get_by_email :: "string \<Rightarrow> (world, user) gop"
  user_get_by_verify_token :: "string \<Rightarrow> (world, user) gop"
  user_get_by_reset_token :: "string \<Rightarrow> (world, user) gop"
  user_update :: "user \<Rightarrow> (world, unit) gop"

record refresh_repo =
  refresh_create :: "refresh_token \<Rightarrow> (world, unit) gop"
  refresh_get_by_token :: "string \<Rightarrow> (world, refresh_token) gop"
  refresh_get_by_user_id :: "uuid \<Rightarrow> (world, refresh_token list) gop"
  refresh_revoke :: "string \<Rightarrow> (world, unit) gop"
  refresh_revoke_all :: "uuid \<Rightarrow> (world, unit) gop"
  refresh_delete_expired :: "(world, unit) gop"

section \<open>The user repository\<close>

definition live_user :: "users_row \<Rightarrow> bool" where
  "live_user r \<longleftrightarrow> us_deleted_at r = None"

text \<open>
  One row of the joined SELECT: the user, the left joins with credentials and security, and the
  four token columns. A missing joined row gives NULLs, which the mapping reads as zero values.
\<close>

record user_row =
  uw_id :: uuid
  uw_email :: string
  uw_name :: string
  uw_is_active :: bool
  uw_email_verified_at :: "time option"
  uw_created_at :: time
  uw_updated_at :: time
  uw_deleted_at :: "time option"
  uw_password_hash :: "string option"
  uw_last_login_at :: "time option"
  uw_login_attempts :: "int option"
  uw_locked_until :: "time option"
  uw_verify_token :: "string option"
  uw_verify_expires :: "time option"
  uw_reset_token :: "string option"
  uw_reset_expires :: "time option"

definition scan_user :: "database \<Rightarrow> users_row \<Rightarrow>
    (string option \<times> time option) \<times> (string option \<times> time option) \<Rightarrow> user_row" where
  "scan_user d r toks =
     (let cred = find (\<lambda>c. uc_user_id c = us_id r) (user_credentials d);
          sec = find (\<lambda>s. se_user_id s = us_id r) (user_security d)
      in \<lparr>uw_id = us_id r, uw_email = us_email r, uw_name = us_name r, uw_is_active = us_is_active r,
          uw_email_verified_at = us_email_verified_at r, uw_created_at = us_created_at r,
          uw_updated_at = us_updated_at r, uw_deleted_at = us_deleted_at r,
          uw_password_hash = map_option uc_password_hash cred, uw_last_login_at = Option.bind cred uc_last_login_at,
          uw_login_attempts = map_option se_login_attempts sec, uw_locked_until = Option.bind sec se_locked_until,
          uw_verify_token = fst (fst toks), uw_verify_expires = snd (fst toks),
          uw_reset_token = fst (snd toks), uw_reset_expires = snd (snd toks)\<rparr>)"

definition map_row_to_entity :: "user_row \<Rightarrow> user" where
  "map_row_to_entity row =
     \<lparr>e_id = uw_id row, e_created_at = uw_created_at row, e_updated_at = uw_updated_at row,
      e_deleted_at = uw_deleted_at row, u_email = uw_email row,
      u_password = (case uw_password_hash row of None \<Rightarrow> '''' | Some h \<Rightarrow> h), u_name = uw_name row,
      u_is_active = uw_is_active row,
      u_failed_attempts = (case uw_login_attempts row of None \<Rightarrow> 0 | Some n \<Rightarrow> n),
      u_locked_until = uw_locked_until row, u_email_verified = (uw_email_verified_at row \<noteq> None),
      u_verify_token = uw_verify_token row, u_verify_expires = uw_verify_expires row,
      u_reset_token = uw_reset_token row, u_reset_expires = uw_reset_expires row\<rparr>"

definition user_of_row :: "database \<Rightarrow> users_row \<Rightarrow>
    (string option \<times> time option) \<times> (string option \<times> time option) \<Rightarrow> user" where
  "user_of_row d r toks = map_row_to_entity (scan_user d r toks)"

lemma user_of_row_fields:
  "user_of_row d r toks =
     (let cred = find (\<lambda>c. uc_user_id c = us_id r) (user_credentials d);
          sec = find (\<lambda>s. se_user_id s = us_id r) (user_security d)
      in \<lparr>e_id = us_id r, e_created_at = us_created_at r, e_updated_at = us_updated_at r,
          e_deleted_at = us_deleted_at r, u_email = us_email r,
          u_password = (case cred of None \<Rightarrow> '''' | Some c \<Rightarrow> uc_password_hash c),
          u_name = us_name r, u_is_active = us_is_active r,
          u_failed_attempts = (case sec of None \<Rightarrow> 0 | Some s \<Rightarrow> se_login_attempts s),
          u_locked_until = (case sec of None \<Rightarrow> None | Some s \<Rightarrow> se_locked_until s),
          u_email_verified = (us_email_verified_at r \<noteq> None),
          u_verify_token = fst (fst toks), u_verify_expires = snd (fst toks),
          u_reset_token = fst (snd toks), u_reset_expires = snd (snd toks)\<rparr>)"
  by (auto simp: user_of_row_def map_row_to_entity_def scan_user_def Let_def split: option.split)

definition no_tokens :: "(string option \<times> time option) \<times> (string option \<times> time option)" where
  "no_tokens = ((None, None), (None, None))"

definition pg_user_get_by_id :: "uuid \<Rightarrow> (world, user) gop" where
  "pg_user_get_by_id i = norowsM (Errorf ''user not found'') ''get user'' (query_rowM (\<lambda>d.
     map_option (\<lambda>r. user_of_row d r no_tokens) (find (\<lambda>r. us_id r = i \<and> live_user r) (users d))))"

definition pg_user_get_by_email :: "string \<Rightarrow> (world, user) gop" where
  "pg_user_get_by_email email = norowsM (Errorf ''user not found'') ''get user by email'' (query_rowM (\<lambda>d.
     map_option (\<lambda>r. user_of_row d r no_tokens) (find (\<lambda>r. us_email r = email \<and> live_user r) (users d))))"

text \<open>
  The INNER JOIN with user_tokens: a token of the type with this hash that is not consumed and
  not expired. Several rows may join; the order is the database's, here that of the tables.
\<close>

definition token_matches :: "string \<Rightarrow> string \<Rightarrow> time \<Rightarrow> user_tokens_row \<Rightarrow> bool" where
  "token_matches ty h now t \<longleftrightarrow> ut_token_hash t = Some h \<and> ut_token_type t = ty \<and> ut_consumed_at t = None \<and>
     (ut_expires_at t = None \<or> (case ut_expires_at t of Some x \<Rightarrow> now < x | None \<Rightarrow> False))"

definition token_join :: "string \<Rightarrow> string \<Rightarrow> time \<Rightarrow> database \<Rightarrow> (users_row \<times> user_tokens_row) option" where
  "token_join ty h now d = find (\<lambda>(r, t). ut_user_id t = us_id r \<and> token_matches ty h now t \<and> live_user r)
     (List.product (users d) (user_tokens d))"

definition pg_user_get_by_verify_token :: "string \<Rightarrow> (world, user) gop" where
  "pg_user_get_by_verify_token h = norowsM (Errorf ''user not found'') ''get user by verify token''
     (bindM nowM (\<lambda>now. query_rowM (\<lambda>d.
       map_option (\<lambda>(r, t). user_of_row d r ((ut_token_hash t, ut_expires_at t), (None, None)))
         (token_join ''email_verification'' h now d))))"

definition pg_user_get_by_reset_token :: "string \<Rightarrow> (world, user) gop" where
  "pg_user_get_by_reset_token h = norowsM (Errorf ''user not found'') ''get user by reset token''
     (bindM nowM (\<lambda>now. query_rowM (\<lambda>d.
       map_option (\<lambda>(r, t). user_of_row d r ((None, None), (ut_token_hash t, ut_expires_at t)))
         (token_join ''password_reset'' h now d))))"

text \<open>The statements of \<open>Create\<close> and \<open>Update\<close>.\<close>

definition sql_insert_user :: "user \<Rightarrow> time option \<Rightarrow> (world, unit) gop" where
  "sql_insert_user u verified_at = insertM
     (\<lambda>d. [(e_id u \<notin> us_id ` set (users d), unique_violation ''users_pkey''),
           (u_email u \<notin> us_email ` set (users d), unique_violation ''users_email_key'')])
     (\<lambda>d. d\<lparr>users := users d @
        [\<lparr>us_id = e_id u, us_email = u_email u, us_password = u_password u, us_name = u_name u,
          us_is_active = u_is_active u, us_created_at = e_created_at u, us_updated_at = e_updated_at u,
          us_deleted_at = None, us_tenant_id = '''', us_email_verified_at = verified_at\<rparr>]\<rparr>)"

definition sql_insert_credentials :: "user \<Rightarrow> (world, unit) gop" where
  "sql_insert_credentials u = insertM
     (\<lambda>d. [(e_id u \<notin> uc_user_id ` set (user_credentials d), unique_violation ''user_credentials_pkey''),
           (e_id u \<in> us_id ` set (users d), fk_violation ''user_credentials_user_id_fkey'')])
     (\<lambda>d. d\<lparr>user_credentials := user_credentials d @
        [\<lparr>uc_user_id = e_id u, uc_password_hash = u_password u, uc_last_login_at = None\<rparr>]\<rparr>)"

definition sql_insert_security :: "user \<Rightarrow> (world, unit) gop" where
  "sql_insert_security u = insertM
     (\<lambda>d. [(e_id u \<notin> se_user_id ` set (user_security d), unique_violation ''user_security_pkey''),
           (e_id u \<in> us_id ` set (users d), fk_violation ''user_security_user_id_fkey'')])
     (\<lambda>d. d\<lparr>user_security := user_security d @
        [\<lparr>se_user_id = e_id u, se_login_attempts = u_failed_attempts u, se_locked_until = u_locked_until u\<rparr>]\<rparr>)"

definition sql_insert_token :: "uuid \<Rightarrow> string \<Rightarrow> string \<Rightarrow> time option \<Rightarrow> (world, unit) gop" where
  "sql_insert_token i ty h exp = bindM nowM (\<lambda>now. insertM
     (\<lambda>d. [(i \<in> us_id ` set (users d), fk_violation ''user_tokens_user_id_fkey'')])
     (\<lambda>d. d\<lparr>user_tokens := user_tokens d @
        [\<lparr>ut_user_id = i, ut_token_type = ty, ut_token_hash = Some h, ut_expires_at = exp,
          ut_consumed_at = None, ut_created_at = now\<rparr>]\<rparr>))"

definition insert_tokens :: "user \<Rightarrow> (world, unit) gop" where
  "insert_tokens u =
     bindM (case u_verify_token u of
         None \<Rightarrow> retM ()
       | Some h \<Rightarrow> wrapM ''insert email verify token''
           (sql_insert_token (e_id u) ''email_verification'' h (u_verify_expires u))) (\<lambda>_.
     case u_reset_token u of
         None \<Rightarrow> retM ()
       | Some h \<Rightarrow> wrapM ''insert password reset token''
           (sql_insert_token (e_id u) ''password_reset'' h (u_reset_expires u)))"

definition pg_user_create :: "user \<Rightarrow> (world, unit) gop" where
  "pg_user_create u = txM (Wrapf ''begin tx'') id
     (bindM (if u_email_verified u then bindM nowM (\<lambda>now. retM (Some now)) else retM None) (\<lambda>verified_at.
      bindM (wrapM ''insert user'' (sql_insert_user u verified_at)) (\<lambda>_.
      bindM (wrapM ''insert user credentials'' (sql_insert_credentials u)) (\<lambda>_.
      bindM (wrapM ''insert user security'' (sql_insert_security u)) (\<lambda>_.
      insert_tokens u)))))"

definition sql_update_user :: "user \<Rightarrow> (world, nat) gop" where
  "sql_update_user u = bindM nowM (\<lambda>now. sqlM (\<lambda>d.
     let sel = (\<lambda>r. us_id r = e_id u \<and> live_user r) in
     if list_ex sel (users d) \<and> list_ex (\<lambda>r. us_id r \<noteq> e_id u \<and> us_email r = u_email u) (users d)
     then Inl (unique_violation ''users_email_key'')
     else Inr (count_where sel (users d), d\<lparr>users := update_where sel
       (\<lambda>r. r\<lparr>us_email := u_email u, us_name := u_name u, us_is_active := u_is_active u,
          us_email_verified_at := (if u_email_verified u
            then (case us_email_verified_at r of None \<Rightarrow> Some now | Some t \<Rightarrow> Some t) else None),
          us_updated_at := now\<rparr>) (users d)\<rparr>)))"

text \<open>\<open>INSERT ... ON CONFLICT (user_id) DO UPDATE\<close>\<close>

definition upsert :: "('r \<Rightarrow> bool) \<Rightarrow> 'r \<Rightarrow> 'r list \<Rightarrow> 'r list" where
  "upsert P r rows = (if list_ex P rows then update_where P (\<lambda>_. r) rows else rows @ [r])"

definition sql_upsert_credentials :: "user \<Rightarrow> (world, unit) gop" where
  "sql_upsert_credentials u = insertM
     (\<lambda>d. [(e_id u \<in> us_id ` set (users d), fk_violation ''user_credentials_user_id_fkey'')])
     (\<lambda>d. d\<lparr>user_credentials := upsert (\<lambda>c. uc_user_id c = e_id u)
        \<lparr>uc_user_id = e_id u, uc_password_hash = u_password u, uc_last_login_at = None\<rparr> (user_credentials d)\<rparr>)"

definition sql_upsert_security :: "user \<Rightarrow> (world, unit) gop" where
  "sql_upsert_security u = insertM
     (\<lambda>d. [(e_id u \<in> us_id ` set (users d), fk_violation ''user_security_user_id_fkey'')])
     (\<lambda>d. d\<lparr>user_security := upsert (\<lambda>s. se_user_id s = e_id u)
        \<lparr>se_user_id = e_id u, se_login_attempts = u_failed_attempts u, se_locked_until = u_locked_until u\<rparr>
        (user_security d)\<rparr>)"

definition pg_user_update :: "user \<Rightarrow> (world, unit) gop" where
  "pg_user_update u = txM (Wrapf ''begin tx'') id
     (bindM (wrapM ''update user'' (sql_update_user u)) (\<lambda>n.
      if n = 0 then errM (Errorf ''user not found'')
      else bindM (wrapM ''upsert user credentials'' (sql_upsert_credentials u)) (\<lambda>_.
           bindM (wrapM ''upsert user security'' (sql_upsert_security u)) (\<lambda>_.
           insert_tokens u))))"

definition pg_user_repo :: user_repo where
  "pg_user_repo = \<lparr>user_create = pg_user_create, user_get_by_id = pg_user_get_by_id,
     user_get_by_email = pg_user_get_by_email, user_get_by_verify_token = pg_user_get_by_verify_token,
     user_get_by_reset_token = pg_user_get_by_reset_token, user_update = pg_user_update\<rparr>"

lemma pg_user_repo_sel [simp]:
  "user_create pg_user_repo = pg_user_create" "user_get_by_id pg_user_repo = pg_user_get_by_id"
  "user_get_by_email pg_user_repo = pg_user_get_by_email"
  "user_get_by_verify_token pg_user_repo = pg_user_get_by_verify_token"
  "user_get_by_reset_token pg_user_repo = pg_user_get_by_reset_token"
  "user_update pg_user_repo = pg_user_update"
  by (simp_all add: pg_user_repo_def)

section \<open>The refresh token repository\<close>

definition refresh_of_row :: "refresh_tokens_row \<Rightarrow> refresh_token" where
  "refresh_of_row r = \<lparr>e_id = rt_id r, e_created_at = rt_created_at r, e_updated_at = rt_updated_at r,
     e_deleted_at = rt_deleted_at r, k_user_id = rt_user_id r, k_token = rt_token r,
     k_expires_at = rt_expires_at r, k_revoked_at = rt_revoked_at r\<rparr>"

definition pg_refresh_create :: "refresh_token \<Rightarrow> (world, unit) gop" where
  "pg_refresh_create k = wrapM ''insert refresh token'' (insertM
     (\<lambda>d. [(e_id k \<notin> rt_id ` set (refresh_tokens d), unique_violation ''refresh_tokens_pkey''),
           (k_token k \<notin> rt_token ` set (refresh_tokens d), unique_violation ''refresh_tokens_token_key''),
           (k_user_id k \<in> us_id ` set (users d), fk_violation ''refresh_tokens_user_id_fkey'')])
     (\<lambda>d. d\<lparr>refresh_tokens := refresh_tokens d @
        [\<lparr>rt_id = e_id k, rt_user_id = k_user_id k, rt_token = k_token k, rt_expires_at = k_expires_at k,
          rt_revoked_at = None, rt_created_at = e_created_at k, rt_updated_at = e_updated_at k,
          rt_deleted_at = None\<rparr>]\<rparr>))"

definition pg_refresh_get_by_token :: "string \<Rightarrow> (world, refresh_token) gop" where
  "pg_refresh_get_by_token s = norowsM (Errorf ''refresh token not found'') ''get refresh token'' (query_rowM (\<lambda>d.
     map_option refresh_of_row (find (\<lambda>r. rt_token r = s \<and> rt_deleted_at r = None) (refresh_tokens d))))"

definition pg_refresh_get_by_user_id :: "uuid \<Rightarrow> (world, refresh_token list) gop" where
  "pg_refresh_get_by_user_id i = wrapM ''get refresh tokens'' (queryM (\<lambda>d.
     map refresh_of_row (rev (sort_key rt_created_at
       (filter (\<lambda>r. rt_user_id r = i \<and> rt_deleted_at r = None) (refresh_tokens d))))))"

definition revoke_where :: "(refresh_tokens_row \<Rightarrow> bool) \<Rightarrow> (world, unit) gop" where
  "revoke_where P = bindM nowM (\<lambda>now. execM (\<lambda>d. d\<lparr>refresh_tokens := update_where
     (\<lambda>r. P r \<and> rt_deleted_at r = None \<and> rt_revoked_at r = None)
     (\<lambda>r. r\<lparr>rt_revoked_at := Some now, rt_updated_at := now\<rparr>) (refresh_tokens d)\<rparr>))"

definition pg_refresh_revoke :: "string \<Rightarrow> (world, unit) gop" where
  "pg_refresh_revoke s = wrapM ''revoke refresh token'' (revoke_where (\<lambda>r. rt_token r = s))"

definition pg_refresh_revoke_all :: "uuid \<Rightarrow> (world, unit) gop" where
  "pg_refresh_revoke_all i = wrapM ''revoke all refresh tokens'' (revoke_where (\<lambda>r. rt_user_id r = i))"

definition pg_refresh_delete_expired :: "(world, unit) gop" where
  "pg_refresh_delete_expired = wrapM ''delete expired tokens'' (bindM nowM (\<lambda>now. execM (\<lambda>d.
     d\<lparr>refresh_tokens := update_where (\<lambda>r. rt_expires_at r < now \<and> rt_deleted_at r = None)
        (\<lambda>r. r\<lparr>rt_deleted_at := Some now\<rparr>) (refresh_tokens d)\<rparr>)))"

definition pg_refresh_repo :: refresh_repo where
  "pg_refresh_repo = \<lparr>refresh_create = pg_refresh_create, refresh_get_by_token = pg_refresh_get_by_token,
     refresh_get_by_user_id = pg_refresh_get_by_user_id, refresh_revoke = pg_refresh_revoke,
     refresh_revoke_all = pg_refresh_revoke_all, refresh_delete_expired = pg_refresh_delete_expired\<rparr>"

lemma pg_refresh_repo_sel [simp]:
  "refresh_create pg_refresh_repo = pg_refresh_create"
  "refresh_get_by_token pg_refresh_repo = pg_refresh_get_by_token"
  "refresh_get_by_user_id pg_refresh_repo = pg_refresh_get_by_user_id"
  "refresh_revoke pg_refresh_repo = pg_refresh_revoke"
  "refresh_revoke_all pg_refresh_repo = pg_refresh_revoke_all"
  "refresh_delete_expired pg_refresh_repo = pg_refresh_delete_expired"
  by (simp_all add: pg_refresh_repo_def)


section \<open>The invariant of the account tables\<close>

definition accounts_ok :: "database \<Rightarrow> bool" where
  "accounts_ok d \<longleftrightarrow> distinct (map us_id (users d)) \<and> distinct (map us_email (users d)) \<and>
     distinct (map uc_user_id (user_credentials d)) \<and> distinct (map se_user_id (user_security d)) \<and>
     distinct (map rt_token (refresh_tokens d)) \<and>
     uc_user_id ` set (user_credentials d) \<subseteq> us_id ` set (users d) \<and>
     se_user_id ` set (user_security d) \<subseteq> us_id ` set (users d) \<and>
     ut_user_id ` set (user_tokens d) \<subseteq> us_id ` set (users d) \<and>
     rt_user_id ` set (refresh_tokens d) \<subseteq> us_id ` set (users d)"

text \<open>A refresh token with the text \<open>s\<close> exists and is revoked.\<close>

definition spent :: "string \<Rightarrow> database \<Rightarrow> bool" where
  "spent s d \<longleftrightarrow> distinct (map rt_token (refresh_tokens d)) \<and>
     (\<exists>r \<in> set (refresh_tokens d). rt_token r = s \<and> rt_revoked_at r \<noteq> None)"

lemma image_key_update_where: "(\<And>r. k (f r) = k r) \<Longrightarrow> k ` set (update_where P f rows) = k ` set rows"
  by (metis image_set map_key_update_where)

lemma map_key_upsert:
  "(\<And>q. P q \<longleftrightarrow> k q = k r) \<Longrightarrow> map k (upsert P r rows) = (if k r \<in> k ` set rows then map k rows else map k rows @ [k r])"
proof -
  assume P: "\<And>q. P q \<longleftrightarrow> k q = k r"
  have "map k (update_where P (\<lambda>_. r) rows) = map k rows"
    by (induction rows) (auto simp: P)
  moreover have "list_ex P rows \<longleftrightarrow> k r \<in> k ` set rows"
    by (auto simp: list_ex_iff P image_iff eq_commute)
  ultimately show ?thesis by (simp add: upsert_def)
qed

lemma find_upsert_same: "P r \<Longrightarrow> find P (upsert P r rows) = Some r"
  by (induction rows) (auto simp: upsert_def find_append)

lemma find_upsert_other:
  assumes "\<And>q. P q \<Longrightarrow> \<not> Q q" "\<not> Q r"
  shows "find Q (upsert P r rows) = find Q rows"
proof -
  have "find Q (update_where P (\<lambda>_. r) rows) = find Q rows"
    using assms by (induction rows) auto
  then show ?thesis using assms(2) by (simp add: upsert_def find_append split: option.splits)
qed

lemma distinct_map_update_email:
  assumes "distinct (map us_id rows)" "distinct (map us_email rows)"
    "\<not> list_ex (\<lambda>r. us_id r \<noteq> i \<and> us_email r = em) rows"
    "\<And>r. us_id (f r) = us_id r" "\<And>r. us_email (f r) = em"
  shows "distinct (map us_email (update_where (\<lambda>r. us_id r = i \<and> live_user r) f rows))"
proof -
  have u: "r = q" if "r \<in> set rows" "q \<in> set rows" "us_id r = us_id q" for r q
    using distinct_key_unique [OF assms(1) that] .
  have "distinct rows" using assms(1) by (simp add: distinct_map)
  moreover have "inj_on (\<lambda>r. us_email (if us_id r = i \<and> live_user r then f r else r)) (set rows)"
  proof (rule inj_onI)
    fix r q
    assume *: "r \<in> set rows" "q \<in> set rows"
      "us_email (if us_id r = i \<and> live_user r then f r else r) = us_email (if us_id q = i \<and> live_user q then f q else q)"
    have "us_id r = i" if "us_email r = em" "r \<in> set rows" for r
      using assms(3) that by (auto simp: list_ex_iff)
    then show "r = q"
      using * u [OF *(1,2)] assms(2,5) distinct_key_unique [of us_email rows r q] by (auto split: if_splits)
  qed
  ultimately show ?thesis by (simp add: update_where_def distinct_map comp_def inj_on_def)
qed

subsection \<open>Each operation keeps it\<close>

lemma keeps_new_user [keeps_rules]: "keeps (on_db P) (new_user e p n)"
  unfolding new_user_def by (intro keeps_rules)

lemma keeps_is_locked [keeps_rules]: "keeps (on_db P) (is_locked u)"
  unfolding is_locked_def by (auto intro!: keeps_rules)

lemma keeps_lock_user [keeps_rules]: "keeps (on_db P) (lock_user u t)"
  unfolding lock_user_def by (intro keeps_rules)

lemma keeps_new_refresh_token [keeps_rules]: "keeps (on_db P) (new_refresh_token i s t)"
  unfolding new_refresh_token_def by (intro keeps_rules)

lemma keeps_is_expired [keeps_rules]: "keeps (on_db P) (is_expired k)"
  unfolding is_expired_def by (intro keeps_rules)

lemma keeps_user_reads [keeps_rules]:
  "keeps (on_db P) (pg_user_get_by_id i)" "keeps (on_db P) (pg_user_get_by_email e)"
  "keeps (on_db P) (pg_user_get_by_verify_token h)" "keeps (on_db P) (pg_user_get_by_reset_token h)"
  unfolding pg_user_get_by_id_def pg_user_get_by_email_def pg_user_get_by_verify_token_def
    pg_user_get_by_reset_token_def
  by (intro keeps_rules)+

lemma keeps_refresh_reads [keeps_rules]:
  "keeps (on_db P) (pg_refresh_get_by_token s)" "keeps (on_db P) (pg_refresh_get_by_user_id i)"
  unfolding pg_refresh_get_by_token_def pg_refresh_get_by_user_id_def by (intro keeps_rules)+

lemma keeps_insert_tokens [keeps_rules]: "keeps (on_db accounts_ok) (insert_tokens u)"
  unfolding insert_tokens_def sql_insert_token_def
  by (auto intro!: keeps_rules simp: accounts_ok_def split: option.split if_splits)

lemma keeps_user_create [keeps_rules]: "keeps (on_db accounts_ok) (pg_user_create u)"
  unfolding pg_user_create_def sql_insert_user_def sql_insert_credentials_def sql_insert_security_def
  by (intro keeps_rules) (auto simp: accounts_ok_def split: if_splits)

lemma accounts_ok_update_user:
  assumes "accounts_ok d" "\<not> list_ex (\<lambda>r. us_id r \<noteq> i \<and> us_email r = em) (users d)"
    "\<And>r. us_id (f r) = us_id r" "\<And>r. us_email (f r) = em"
  shows "accounts_ok (d\<lparr>users := update_where (\<lambda>r. us_id r = i \<and> live_user r) f (users d)\<rparr>)"
  using assms distinct_map_update_email [of "users d" i em f]
  by (simp add: accounts_ok_def map_key_update_where image_key_update_where)

lemma update_where_none: "\<not> list_ex P rows \<Longrightarrow> update_where P f rows = rows"
  by (rule update_where_id) (auto simp: list_ex_iff)

lemma keeps_sql_update_user [keeps_rules]: "keeps (on_db accounts_ok) (sql_update_user u)"
  unfolding sql_update_user_def Let_def
proof (intro keeps_rules, goal_cases)
  case (1 now d x d')
  show ?case
  proof (cases "list_ex (\<lambda>r. us_id r = e_id u \<and> live_user r) (users d)")
    case True
    with 1 show ?thesis by (auto intro!: accounts_ok_update_user [where em = "u_email u"] split: if_splits)
  next
    case False
    with 1 show ?thesis by (simp add: update_where_none)
  qed
qed

lemma upsert_keys:
  assumes "\<And>q. P q \<longleftrightarrow> k q = k r" "distinct (map k rows)" "k ` set rows \<subseteq> S" "k r \<in> S"
  shows "distinct (map k (upsert P r rows)) \<and> k ` set (upsert P r rows) \<subseteq> S"
proof -
  have "k ` set (upsert P r rows) = set (map k (upsert P r rows))" by simp
  then show ?thesis using assms map_key_upsert [of P k r rows, OF assms(1)] by auto
qed

lemma keeps_sql_upsert_credentials [keeps_rules]: "keeps (on_db accounts_ok) (sql_upsert_credentials u)"
  unfolding sql_upsert_credentials_def
proof (intro keeps_rules, goal_cases)
  case (1 d)
  then show ?case
    using upsert_keys [where k = uc_user_id and rows = "user_credentials d" and S = "us_id ` set (users d)"
        and r = "\<lparr>uc_user_id = e_id u, uc_password_hash = u_password u, uc_last_login_at = None\<rparr>"
        and P = "\<lambda>c. uc_user_id c = e_id u"]
    by (simp add: accounts_ok_def split: if_splits)
qed

lemma keeps_sql_upsert_security [keeps_rules]: "keeps (on_db accounts_ok) (sql_upsert_security u)"
  unfolding sql_upsert_security_def
proof (intro keeps_rules, goal_cases)
  case (1 d)
  then show ?case
    using upsert_keys [where k = se_user_id and rows = "user_security d" and S = "us_id ` set (users d)"
        and r = "\<lparr>se_user_id = e_id u, se_login_attempts = u_failed_attempts u, se_locked_until = u_locked_until u\<rparr>"
        and P = "\<lambda>s. se_user_id s = e_id u"]
    by (simp add: accounts_ok_def split: if_splits)
qed

lemma keeps_user_update [keeps_rules]: "keeps (on_db accounts_ok) (pg_user_update u)"
  unfolding pg_user_update_def by (intro keeps_rules)

lemma keeps_refresh_create [keeps_rules]: "keeps (on_db accounts_ok) (pg_refresh_create k)"
  unfolding pg_refresh_create_def
  by (intro keeps_rules) (auto simp: accounts_ok_def split: if_splits)

lemma keeps_revoke_where: "keeps (on_db accounts_ok) (revoke_where P)"
  unfolding revoke_where_def
  by (intro keeps_rules) (simp add: accounts_ok_def map_key_update_where image_key_update_where)

lemma keeps_refresh_writes [keeps_rules]:
  "keeps (on_db accounts_ok) (pg_refresh_revoke s)" "keeps (on_db accounts_ok) (pg_refresh_revoke_all i)"
  "keeps (on_db accounts_ok) pg_refresh_delete_expired"
  unfolding pg_refresh_revoke_def pg_refresh_revoke_all_def pg_refresh_delete_expired_def
  by (intro keeps_rules keeps_revoke_where; simp add: accounts_ok_def map_key_update_where image_key_update_where)+


subsection \<open>A spent refresh token stays spent\<close>

lemma keeps_spent_insert_tokens [keeps_rules]: "keeps (on_db (spent s)) (insert_tokens u)"
  unfolding insert_tokens_def sql_insert_token_def
  by (auto intro!: keeps_rules simp: spent_def split: option.split if_splits)

lemma keeps_spent_user_create [keeps_rules]: "keeps (on_db (spent s)) (pg_user_create u)"
  unfolding pg_user_create_def sql_insert_user_def sql_insert_credentials_def sql_insert_security_def
  by (intro keeps_rules) (auto simp: spent_def split: if_splits)

lemma keeps_spent_user_update [keeps_rules]: "keeps (on_db (spent s)) (pg_user_update u)"
  unfolding pg_user_update_def sql_update_user_def sql_upsert_credentials_def sql_upsert_security_def Let_def
  by (intro keeps_rules) (auto simp: spent_def split: if_splits)

lemma keeps_spent_refresh_create [keeps_rules]: "keeps (on_db (spent s)) (pg_refresh_create k)"
  unfolding pg_refresh_create_def
  by (intro keeps_rules) (auto simp: spent_def split: if_splits)

lemma spent_update:
  assumes "\<And>r. rt_token (f r) = rt_token r" "\<And>r. P r \<Longrightarrow> rt_revoked_at r \<noteq> None \<Longrightarrow> rt_revoked_at (f r) \<noteq> None"
    "spent s d"
  shows "spent s (d\<lparr>refresh_tokens := update_where P f (refresh_tokens d)\<rparr>)"
proof -
  obtain r where r: "r \<in> set (refresh_tokens d)" "rt_token r = s" "rt_revoked_at r \<noteq> None"
    using assms(3) by (auto simp: spent_def)
  obtain q where q: "q = (if P r then f r else r)" by simp
  have "q \<in> set (update_where P f (refresh_tokens d))"
    using r(1) q by (auto simp: set_update_where)
  moreover have "rt_token q = s" "rt_revoked_at q \<noteq> None"
    using r(2,3) assms(1,2) q by simp_all
  moreover have "map rt_token (update_where P f (refresh_tokens d)) = map rt_token (refresh_tokens d)"
    using assms(1) by (rule map_key_update_where)
  ultimately show ?thesis using assms(3) by (simp add: spent_def) blast
qed

lemma keeps_spent_refresh_writes [keeps_rules]:
  "keeps (on_db (spent s)) (pg_refresh_revoke s')" "keeps (on_db (spent s)) (pg_refresh_revoke_all i)"
  "keeps (on_db (spent s)) pg_refresh_delete_expired"
  unfolding pg_refresh_revoke_def pg_refresh_revoke_all_def pg_refresh_delete_expired_def revoke_where_def
  by (intro keeps_rules; rule spent_update; simp)+

text \<open>What the repository says of a token that is spent, whatever fails.\<close>

lemma spent_lookup:
  assumes "spent s (db w)" "pg_refresh_get_by_token s w = (r, w')"
  shows "db w' = db w \<and> (\<forall>k. r = Ok k \<longrightarrow> is_revoked k)"
proof -
  from assms(2) obtain r0 where q: "query_rowM (\<lambda>d. map_option refresh_of_row
      (find (\<lambda>r. rt_token r = s \<and> rt_deleted_at r = None) (refresh_tokens d))) w = (r0, w')"
    "\<forall>k. r = Ok k \<longrightarrow> r0 = Ok k"
    unfolding pg_refresh_get_by_token_def by (auto simp: op_defs split: prod.splits outcome.splits if_splits)
  from query_rowM_cases [OF q(1)] have "db w' = db w"
    and f: "\<And>k. r = Ok k \<Longrightarrow> \<exists>x. find (\<lambda>r. rt_token r = s \<and> rt_deleted_at r = None) (refresh_tokens (db w)) = Some x
        \<and> k = refresh_of_row x"
    using q(2) by auto
  moreover have "is_revoked k" if "r = Ok k" for k
  proof -
    from f [OF that] obtain x
      where x: "find (\<lambda>r. rt_token r = s \<and> rt_deleted_at r = None) (refresh_tokens (db w)) = Some x"
        "k = refresh_of_row x" by blast
    from find_SomeD [OF x(1)] have m: "x \<in> set (refresh_tokens (db w))" "rt_token x = s" by auto
    obtain y where y: "y \<in> set (refresh_tokens (db w))" "rt_token y = s" "rt_revoked_at y \<noteq> None"
      and d: "distinct (map rt_token (refresh_tokens (db w)))"
      using assms(1) by (auto simp: spent_def)
    have "x = y" using distinct_key_unique [OF d m(1) y(1)] m(2) y(2) by simp
    then show ?thesis using y(3) x(2) by (simp add: is_revoked_def refresh_of_row_def)
  qed
  ultimately show ?thesis by blast
qed

section \<open>Accounts by e-mail\<close>

definition accounts_ready :: "world \<Rightarrow> bool" where
  "accounts_ready w \<longleftrightarrow> faults w = [] \<and> accounts_ok (db w)"

definition account :: "world \<Rightarrow> string \<Rightarrow> user option" where
  "account w e = map_option (\<lambda>r. user_of_row (db w) r no_tokens)
     (find (\<lambda>r. us_email r = e \<and> live_user r) (users (db w)))"

lemma user_of_row_sel [simp]:
  "e_id (user_of_row d r ts) = us_id r" "u_email (user_of_row d r ts) = us_email r"
  "e_deleted_at (user_of_row d r ts) = us_deleted_at r" "e_created_at (user_of_row d r ts) = us_created_at r"
  "u_verify_token (user_of_row d r ts) = fst (fst ts)" "u_reset_token (user_of_row d r ts) = fst (snd ts)"
  "u_verify_expires (user_of_row d r ts) = snd (fst ts)" "u_reset_expires (user_of_row d r ts) = snd (snd ts)"
  "u_name (user_of_row d r ts) = us_name r" "u_is_active (user_of_row d r ts) = us_is_active r"
  "u_email_verified (user_of_row d r ts) = (us_email_verified_at r \<noteq> None)"
  by (simp_all add: user_of_row_fields Let_def)

lemma account_row:
  "account w e = Some u \<longleftrightarrow> (\<exists>r. find (\<lambda>r. us_email r = e \<and> live_user r) (users (db w)) = Some r
     \<and> u = user_of_row (db w) r no_tokens)"
  unfolding account_def map_option_eq_Some by blast

lemma account_same:
  assumes "account w e = Some u"
  shows "u_email u = e" "u_verify_token u = None" "u_reset_token u = None" "e_deleted_at u = None"
proof -
  obtain r where r: "find (\<lambda>r. us_email r = e \<and> live_user r) (users (db w)) = Some r"
    and u: "u = user_of_row (db w) r no_tokens"
    using assms unfolding account_row by blast
  from find_SomeD [OF r] have "us_email r = e" "us_deleted_at r = None" by (auto simp: live_user_def)
  with u show "u_email u = e" "u_verify_token u = None" "u_reset_token u = None" "e_deleted_at u = None"
    by (simp_all add: no_tokens_def)
qed


subsection \<open>What an update writes\<close>

text \<open>The token rows an entity carries: owner, type, hash, expiry, and not consumed.\<close>

definition token_key :: "user_tokens_row \<Rightarrow> uuid \<times> string \<times> string option \<times> time option \<times> time option" where
  "token_key t = (ut_user_id t, ut_token_type t, ut_token_hash t, ut_expires_at t, ut_consumed_at t)"

definition new_token_keys :: "user \<Rightarrow> (uuid \<times> string \<times> string option \<times> time option \<times> time option) list" where
  "new_token_keys u =
     (case u_verify_token u of None \<Rightarrow> []
      | Some h \<Rightarrow> [(e_id u, ''email_verification'', Some h, u_verify_expires u, None)]) @
     (case u_reset_token u of None \<Rightarrow> []
      | Some h \<Rightarrow> [(e_id u, ''password_reset'', Some h, u_reset_expires u, None)])"

definition user_written :: "user \<Rightarrow> time \<Rightarrow> database \<Rightarrow> database" where
  "user_written u now d = d\<lparr>
     users := update_where (\<lambda>r. us_id r = e_id u \<and> live_user r)
       (\<lambda>r. r\<lparr>us_email := u_email u, us_name := u_name u, us_is_active := u_is_active u,
          us_email_verified_at := (if u_email_verified u
            then (case us_email_verified_at r of None \<Rightarrow> Some now | Some t \<Rightarrow> Some t) else None),
          us_updated_at := now\<rparr>) (users d),
     user_credentials := upsert (\<lambda>c. uc_user_id c = e_id u)
       \<lparr>uc_user_id = e_id u, uc_password_hash = u_password u, uc_last_login_at = None\<rparr> (user_credentials d),
     user_security := upsert (\<lambda>s. se_user_id s = e_id u)
       \<lparr>se_user_id = e_id u, se_login_attempts = u_failed_attempts u, se_locked_until = u_locked_until u\<rparr>
       (user_security d)\<rparr>"

lemma insert_tokens_nofault:
  assumes "faults w = []" "e_id u \<in> us_id ` set (users (db w))"
  shows "\<exists>n ts. insert_tokens u w = (Ok (), w\<lparr>ticks := n, db := db w\<lparr>user_tokens := user_tokens (db w) @ ts\<rparr>\<rparr>)
    \<and> ticks w \<le> n \<and> map token_key ts = new_token_keys u"
proof -
  define t1 where "t1 = (case u_verify_token u of None \<Rightarrow> [] | Some h \<Rightarrow>
    [\<lparr>ut_user_id = e_id u, ut_token_type = ''email_verification'', ut_token_hash = Some h,
      ut_expires_at = u_verify_expires u, ut_consumed_at = None, ut_created_at = clock w (ticks w)\<rparr>])"
  define n1 where "n1 = (case u_verify_token u of None \<Rightarrow> ticks w | Some h \<Rightarrow> Suc (ticks w))"
  define t2 where "t2 = (case u_reset_token u of None \<Rightarrow> [] | Some h \<Rightarrow>
    [\<lparr>ut_user_id = e_id u, ut_token_type = ''password_reset'', ut_token_hash = Some h,
      ut_expires_at = u_reset_expires u, ut_consumed_at = None, ut_created_at = clock w n1\<rparr>])"
  define n2 where "n2 = (case u_reset_token u of None \<Rightarrow> n1 | Some h \<Rightarrow> Suc n1)"
  have "insert_tokens u w = (Ok (), w\<lparr>ticks := n2, db := db w\<lparr>user_tokens := user_tokens (db w) @ (t1 @ t2)\<rparr>\<rparr>)"
    using assms
    by (simp add: insert_tokens_def sql_insert_token_def op_defs t1_def t2_def n1_def n2_def split: option.splits)
  moreover have "ticks w \<le> n2" "map token_key (t1 @ t2) = new_token_keys u"
    by (simp_all add: n1_def n2_def t1_def t2_def token_key_def new_token_keys_def split: option.splits)
  ultimately show ?thesis by blast
qed

lemma no_email_conflict:
  assumes "accounts_ok d" "r \<in> set (users d)" "us_id r = i" "us_email r = em"
  shows "\<not> list_ex (\<lambda>q. us_id q \<noteq> i \<and> us_email q = em) (users d)"
proof
  assume "list_ex (\<lambda>q. us_id q \<noteq> i \<and> us_email q = em) (users d)"
  then obtain q where q: "q \<in> set (users d)" "us_id q \<noteq> i" "us_email q = em" by (auto simp: list_ex_iff)
  have "distinct (map us_email (users d))" using assms(1) by (simp add: accounts_ok_def)
  from distinct_key_unique [OF this q(1) assms(2)] q assms(3,4) show False by simp
qed

lemma user_update_nofault:
  assumes "accounts_ready w" "r \<in> set (users (db w))" "live_user r" "us_id r = e_id u" "us_email r = u_email u"
  shows "\<exists>n ts. pg_user_update u w = (Ok (), w\<lparr>ticks := n,
      db := (user_written u (clock w (ticks w)) (db w))\<lparr>user_tokens := user_tokens (db w) @ ts\<rparr>\<rparr>)
    \<and> ticks w < n \<and> map token_key ts = new_token_keys u"
proof -
  let ?d = "user_written u (clock w (ticks w)) (db w)"
  let ?w = "w\<lparr>ticks := Suc (ticks w), db := ?d\<rparr>"
  have f: "faults w = []" and ok: "accounts_ok (db w)" using assms(1) by (simp_all add: accounts_ready_def)
  have m: "e_id u \<in> us_id ` set (users (db w))" using assms(2,4) by force
  have ids: "us_id ` set (update_where P f rows) = us_id ` set rows" if "\<And>r. us_id (f r) = us_id r" for P f rows
    using that by (rule image_key_update_where)
  have c: "count_where (\<lambda>r. us_id r = e_id u \<and> live_user r) (users (db w)) \<noteq> 0"
    using assms(2-4) by auto
  obtain n ts where t: "insert_tokens u ?w =
      (Ok (), ?w\<lparr>ticks := n, db := ?d\<lparr>user_tokens := user_tokens ?d @ ts\<rparr>\<rparr>)" "Suc (ticks w) \<le> n"
      "map token_key ts = new_token_keys u"
    using insert_tokens_nofault [of ?w u] f m by (auto simp: user_written_def ids)
  have "user_tokens ?d = user_tokens (db w)" by (simp add: user_written_def)
  moreover have "pg_user_update u w = (Ok (), w\<lparr>ticks := n,
      db := ?d\<lparr>user_tokens := user_tokens ?d @ ts\<rparr>\<rparr>)"
    using t(1) f m c no_email_conflict [OF ok assms(2,4,5)]
    by (simp add: pg_user_update_def txM_def op_defs sql_update_user_def sqlM_nofault
        sql_upsert_credentials_def sql_upsert_security_def ids user_written_def Let_def del: count_where_0_iff)
  ultimately show ?thesis
    using t(2,3) by (intro exI [of _ n] exI [of _ ts]) simp
qed

text \<open>The accounts after an update: the one that was written, and the others as before.\<close>

lemma account_after_update:
  assumes "accounts_ok (db w)" "account w (u_email u) = Some u0" "e_id u = e_id u0"
    "e_created_at u = e_created_at u0" "e_deleted_at u = e_deleted_at u0"
    and db: "db w' = (user_written u now (db w))\<lparr>user_tokens := ts\<rparr>"
  shows "account w' = (account w)(u_email u \<mapsto> u\<lparr>e_updated_at := now, u_verify_token := None,
    u_verify_expires := None, u_reset_token := None, u_reset_expires := None\<rparr>)"
proof (rule ext)
  fix e
  let ?sel = "\<lambda>r. us_id r = e_id u \<and> live_user r"
  let ?f = "\<lambda>r. r\<lparr>us_email := u_email u, us_name := u_name u, us_is_active := u_is_active u,
          us_email_verified_at := (if u_email_verified u
            then (case us_email_verified_at r of None \<Rightarrow> Some now | Some t \<Rightarrow> Some t) else None),
          us_updated_at := now\<rparr>"
  obtain r where r: "find (\<lambda>r. us_email r = u_email u \<and> live_user r) (users (db w)) = Some r"
      "u0 = user_of_row (db w) r no_tokens"
    using assms(2) unfolding account_row by blast
  note rm = find_SomeD [OF r(1)]
  have id: "us_id r = e_id u" using assms(3) r(2) by simp
  have U: "q = r" if "q \<in> set (users (db w))" "us_id q = e_id u" for q
    using distinct_key_unique [of us_id "users (db w)" q r] that id rm assms(1) by (auto simp: accounts_ok_def)
  have E: "q = r" if "q \<in> set (users (db w))" "us_email q = u_email u" for q
    using distinct_key_unique [of us_email "users (db w)" q r] that rm assms(1) by (auto simp: accounts_ok_def)
  have users': "users (db w') = update_where ?sel ?f (users (db w))" by (simp add: db user_written_def)
  show "account w' e = ((account w)(u_email u \<mapsto> u\<lparr>e_updated_at := now, u_verify_token := None,
    u_verify_expires := None, u_reset_token := None, u_reset_expires := None\<rparr>)) e"
  proof (cases "e = u_email u")
    case True
    have "find (\<lambda>r. us_email r = e \<and> live_user r) (update_where ?sel ?f (users (db w)))
        = map_option ?f (find ?sel (users (db w)))"
    proof (rule find_update_same)
      show "us_email (?f q) = e \<and> live_user (?f q)" if "?sel q" for q
        using that True by (simp add: live_user_def)
      show "\<not> (us_email q = e \<and> live_user q)" if "q \<in> set (users (db w))" "\<not> ?sel q" for q
      proof
        assume l: "us_email q = e \<and> live_user q"
        have "q = r" by (rule E [OF that(1)]) (use l True in simp)
        then show False using that(2) id l by simp
      qed
    qed
    moreover have "find ?sel (users (db w)) = Some r"
    proof (cases "find ?sel (users (db w))")
      case None
      then have "\<not> ?sel r" using rm unfolding find_None_all by blast
      then show ?thesis using rm id by blast
    next
      case (Some q)
      from find_SomeD [OF Some] have "q = r" by (intro U) simp_all
      with Some show ?thesis by simp
    qed
    ultimately have "find (\<lambda>r. us_email r = e \<and> live_user r) (users (db w')) = Some (?f r)"
      by (simp add: users')
    moreover have "user_of_row (db w') (?f r) no_tokens = u\<lparr>e_updated_at := now, u_verify_token := None,
        u_verify_expires := None, u_reset_token := None, u_reset_expires := None\<rparr>"
      using assms(3-5) r(2) id rm
      by (simp add: user_of_row_fields Let_def db user_written_def find_upsert_same no_tokens_def split: option.splits)
    ultimately show ?thesis by (simp add: account_def True)
  next
    case False
    have fe: "find (\<lambda>r. us_email r = e \<and> live_user r) (users (db w')) =
        find (\<lambda>r. us_email r = e \<and> live_user r) (users (db w))"
      unfolding users' by (rule find_update_other) (use False U rm in auto)
    have "user_of_row (db w') q no_tokens = user_of_row (db w) q no_tokens"
      if "find (\<lambda>r. us_email r = e \<and> live_user r) (users (db w)) = Some q" for q
    proof -
      have "us_id q \<noteq> e_id u" using find_SomeD [OF that] U rm False by auto
      then show ?thesis
        by (simp add: user_of_row_fields Let_def db user_written_def find_upsert_other)
    qed
    then show ?thesis using False
      by (cases "find (\<lambda>r. us_email r = e \<and> live_user r) (users (db w))") (simp_all add: account_def fe)
  qed
qed


section \<open>The contract of the user repository\<close>

text \<open>
  What login relies on: in a state \<open>ok\<close> the repository finds the accounts by e-mail, and an update
  of an account that was found replaces it and leaves the others alone. The clock is not touched
  except that it may be read.
\<close>

locale account_store =
  fixes repo :: user_repo
    and ok :: "world \<Rightarrow> bool"
    and acct :: "world \<Rightarrow> string \<Rightarrow> user option"
  assumes ok_ticks: "ok (w\<lparr>ticks := n\<rparr>) = ok w"
    and acct_ticks: "acct (w\<lparr>ticks := n\<rparr>) = acct w"
    and by_email_found: "ok w \<Longrightarrow> acct w e = Some u \<Longrightarrow> user_get_by_email repo e w = (Ok u, w)"
    and by_email_missing: "ok w \<Longrightarrow> acct w e = None \<Longrightarrow> \<exists>err. user_get_by_email repo e w = (Err err, w)"
    and update_account: "ok w \<Longrightarrow> acct w e = Some u0 \<Longrightarrow> u_email u = e \<Longrightarrow> e_id u = e_id u0 \<Longrightarrow>
      e_created_at u = e_created_at u0 \<Longrightarrow> e_deleted_at u = e_deleted_at u0 \<Longrightarrow>
      \<exists>w' t. user_update repo u w = (Ok (), w') \<and> ok w' \<and> clock w' = clock w \<and>
        acct w' = (acct w)(e \<mapsto> u\<lparr>e_updated_at := t, u_verify_token := None, u_verify_expires := None,
          u_reset_token := None, u_reset_expires := None\<rparr>)"
    and acct_plain: "acct w e = Some u \<Longrightarrow> u_email u = e \<and> u_verify_token u = None \<and> u_verify_expires u = None \<and>
      u_reset_token u = None \<and> u_reset_expires u = None"

lemma keeps_faults_free:
  "accounts_ready w \<Longrightarrow> pg_user_update u w = (Ok (), w') \<Longrightarrow> faults w' = faults w \<Longrightarrow> accounts_ready w'"
  using keepsE [OF keeps_user_update, of w u] by (simp add: accounts_ready_def on_db_def)

lemma pg_update_account:
  assumes "accounts_ready w" "account w (u_email u) = Some u0" "e_id u = e_id u0"
    "e_created_at u = e_created_at u0" "e_deleted_at u = e_deleted_at u0"
  shows "\<exists>n ts now. let w' = w\<lparr>ticks := n,
        db := (user_written u now (db w))\<lparr>user_tokens := user_tokens (db w) @ ts\<rparr>\<rparr>
      in pg_user_update u w = (Ok (), w') \<and> accounts_ready w' \<and> ticks w < n \<and> map token_key ts = new_token_keys u \<and>
        account w' = (account w)(u_email u \<mapsto> u\<lparr>e_updated_at := now, u_verify_token := None,
          u_verify_expires := None, u_reset_token := None, u_reset_expires := None\<rparr>)"
proof -
  obtain r where r: "find (\<lambda>r. us_email r = u_email u \<and> live_user r) (users (db w)) = Some r"
      "u0 = user_of_row (db w) r no_tokens"
    using assms(2) unfolding account_row by blast
  note rm = find_SomeD [OF r(1)]
  have ok: "accounts_ok (db w)" using assms(1) by (simp add: accounts_ready_def)
  obtain n ts where p: "pg_user_update u w = (Ok (), w\<lparr>ticks := n,
      db := (user_written u (clock w (ticks w)) (db w))\<lparr>user_tokens := user_tokens (db w) @ ts\<rparr>\<rparr>)"
    and n: "ticks w < n" "map token_key ts = new_token_keys u"
    using user_update_nofault [OF assms(1), of r u] rm r(2) assms(3) by auto
  let ?w = "w\<lparr>ticks := n, db := (user_written u (clock w (ticks w)) (db w))\<lparr>user_tokens := user_tokens (db w) @ ts\<rparr>\<rparr>"
  have "accounts_ready ?w" using keeps_faults_free [OF assms(1) p] by simp
  moreover have "account ?w = (account w)(u_email u \<mapsto> u\<lparr>e_updated_at := clock w (ticks w), u_verify_token := None,
          u_verify_expires := None, u_reset_token := None, u_reset_expires := None\<rparr>)"
    by (rule account_after_update [OF ok assms(2-5)]) simp
  ultimately show ?thesis
    using p n by (intro exI [of _ n] exI [of _ ts] exI [of _ "clock w (ticks w)"]) (simp add: Let_def)
qed

lemma account_found: "accounts_ready w \<Longrightarrow> account w e = Some u \<Longrightarrow> pg_user_get_by_email e w = (Ok u, w)"
  by (auto simp: accounts_ready_def account_def pg_user_get_by_email_def op_defs)

lemma account_missing:
  "accounts_ready w \<Longrightarrow> account w e = None \<Longrightarrow> pg_user_get_by_email e w = (Err (Errorf ''user not found''), w)"
  by (simp add: accounts_ready_def account_def pg_user_get_by_email_def op_defs is_no_rows_def)

interpretation pg_accounts: account_store pg_user_repo accounts_ready account
proof
  fix w e and u u0 :: user
  assume *: "accounts_ready w" "account w e = Some u0" "u_email u = e" "e_id u = e_id u0"
    "e_created_at u = e_created_at u0" "e_deleted_at u = e_deleted_at u0"
  show "\<exists>w' t. user_update pg_user_repo u w = (Ok (), w') \<and> accounts_ready w' \<and> clock w' = clock w \<and>
        account w' = (account w)(e \<mapsto> u\<lparr>e_updated_at := t, u_verify_token := None, u_verify_expires := None,
          u_reset_token := None, u_reset_expires := None\<rparr>)"
    using pg_update_account [OF *(1) *(2) [folded *(3)] *(4-6)] *(3) by (force simp: Let_def)
next
  show "account w e = Some u \<Longrightarrow> u_email u = e \<and> u_verify_token u = None \<and> u_verify_expires u = None \<and>
      u_reset_token u = None \<and> u_reset_expires u = None" for w e u
    using account_same [of w e u] unfolding account_row by (auto simp: no_tokens_def)
qed (auto simp: accounts_ready_def account_def account_found account_missing intro!: ext)

end
