(* ===== verification/Token_Service.thy ===== *)
theory Token_Service
  imports Core_Domain
begin

text \<open>
  \<open>internal/infrastructure/auth/jwt.go\<close>, behind the interface \<open>TokenService\<close>, and
  \<open>pkg/password\<close>. Signing and parsing are \<open>golang-jwt\<close>'s, hashing is bcrypt's: functions of
  \<open>libs\<close>, with their documented laws as hypotheses. The locale is the contract of the interface:
  a token validates to the claims it was made from, until it expires.
\<close>

section \<open>The laws of the libraries\<close>

text \<open>
  A signed token parses exactly with a key function that gives its key for HS256 and before its
  expiry, to the signed claims; without a key for its algorithm nothing parses.
\<close>

definition jwt_law :: "libs \<Rightarrow> bool" where
  "jwt_law L \<longleftrightarrow> (\<forall>k c s. jwt_sign L k c = Some s \<longrightarrow> (\<forall>kf now.
     jwt_parse L kf s now = (if kf ''HS256'' = Some k \<and> now < jc_exp c then Some c else None)))"

text \<open>\<open>CompareHashAndPassword\<close> accepts what \<open>GenerateFromPassword\<close> made of the password.\<close>

definition bcrypt_law :: "libs \<Rightarrow> bool" where
  "bcrypt_law L \<longleftrightarrow> (\<forall>p s h. bcrypt_hash L p s = Some h \<longrightarrow> bcrypt_check L h p)"

lemma bcrypt_law_toy: "bcrypt_law toy_libs"
  by (simp add: bcrypt_law_def toy_libs_def)

section \<open>Passwords\<close>

text \<open>\<open>bcrypt.GenerateFromPassword\<close> draws a salt and refuses a password over 72 bytes.\<close>

definition bcrypt_generate :: "libs \<Rightarrow> string \<Rightarrow> (world, string) gop" where
  "bcrypt_generate L pw = extM (\<lambda>w. case bcrypt_hash L pw (rands w (rolled w)) of
      None \<Rightarrow> (Inl (ExtErr ''bcrypt: password length exceeds 72 bytes''), w)
    | Some h \<Rightarrow> (Inr h, w\<lparr>rolled := Suc (rolled w)\<rparr>))"

definition password_hash :: "libs \<Rightarrow> string \<Rightarrow> (world, string) gop" where
  "password_hash L pw = bcrypt_generate L pw"

definition password_check :: "libs \<Rightarrow> string \<Rightarrow> string \<Rightarrow> bool" where
  "password_check L pw h = bcrypt_check L h pw"

lemma bcrypt_generate_nofault [simp]:
  "faults w = [] \<Longrightarrow> bcrypt_generate L pw w = (case bcrypt_hash L pw (rands w (rolled w)) of
      None \<Rightarrow> (Err (ExtErr ''bcrypt: password length exceeds 72 bytes''), w)
    | Some h \<Rightarrow> (Ok h, w\<lparr>rolled := Suc (rolled w)\<rparr>))"
  by (simp add: bcrypt_generate_def extM_nofault split: option.splits)

lemma keeps_bcrypt_generate [keeps_rules]: "keeps (on_db P) (bcrypt_generate L pw)"
  unfolding bcrypt_generate_def by (rule extM_db) (simp split: option.splits)

lemma bcrypt_generate_Ok:
  "bcrypt_law L \<Longrightarrow> bcrypt_generate L pw w = (Ok h, w') \<Longrightarrow> bcrypt_check L h pw \<and> db w' = db w"
  unfolding bcrypt_generate_def by (drule extM_Ok) (auto simp: bcrypt_law_def split: option.splits)

section \<open>The JWT service\<close>

record token_service =
  ts_generate_token :: "token_claims \<Rightarrow> (world, string) gop"
  ts_validate_token :: "string \<Rightarrow> (world, token_claims) gop"

record jwt_service =
  js_secret :: string
  js_expiration :: time

text \<open>\<open>jwt.NewNumericDate\<close> truncates to seconds.\<close>

definition numeric_date :: "time \<Rightarrow> time" where
  "numeric_date t = t div second * second"

definition generate_token :: "libs \<Rightarrow> jwt_service \<Rightarrow> token_claims \<Rightarrow> (world, string) gop" where
  "generate_token L s tc = bindM nowM (\<lambda>t1. bindM nowM (\<lambda>t2.
     case jwt_sign L (js_secret s)
       \<lparr>jc_user_id = tc_user_id tc, jc_email = tc_email tc, jc_role = tc_role tc,
        jc_tenant_id = tc_tenant_id tc, jc_exp = numeric_date (t1 + js_expiration s),
        jc_iat = numeric_date t2, jc_sub = tc_user_id tc, jc_id = tc_jti tc\<rparr> of
       None \<Rightarrow> errM (Wrapf ''sign token'' (ExtErr ''key is of invalid type''))
     | Some tok \<Rightarrow> retM tok))"

text \<open>The key function refuses every method that is not an HMAC.\<close>

definition hmac_algs :: "string list" where
  "hmac_algs = [''HS256'', ''HS384'', ''HS512'']"

definition jwt_key :: "jwt_service \<Rightarrow> string \<Rightarrow> string option" where
  "jwt_key s alg = (if alg \<in> set hmac_algs then Some (js_secret s) else None)"

definition claims_of_jwt :: "jwt_claims \<Rightarrow> token_claims" where
  "claims_of_jwt c = \<lparr>tc_user_id = jc_user_id c, tc_email = jc_email c, tc_role = jc_role c,
     tc_jti = jc_id c, tc_tenant_id = jc_tenant_id c\<rparr>"

definition validate_token :: "libs \<Rightarrow> jwt_service \<Rightarrow> string \<Rightarrow> (world, token_claims) gop" where
  "validate_token L s tok = bindM nowM (\<lambda>now.
     case jwt_parse L (jwt_key s) tok now of
       None \<Rightarrow> errM (Wrapf ''parse token'' (ExtErr ''token is not valid''))
     | Some c \<Rightarrow> retM (claims_of_jwt c))"

definition new_jwt_token_service :: "libs \<Rightarrow> string \<Rightarrow> int \<Rightarrow> token_service" where
  "new_jwt_token_service L secret expiration =
     (let s = \<lparr>js_secret = secret, js_expiration = expiration * second\<rparr>
      in \<lparr>ts_generate_token = generate_token L s, ts_validate_token = validate_token L s\<rparr>)"

lemma keeps_generate_token [keeps_rules]: "keeps (on_db P) (generate_token L s tc)"
  unfolding generate_token_def by (intro keeps_rules)

lemma keeps_validate_token [keeps_rules]: "keeps (on_db P) (validate_token L s tok)"
  unfolding validate_token_def by (intro keeps_rules)

section \<open>The contract\<close>

text \<open>
  \<open>good t now\<close>: a token made at the clock reading \<open>t\<close> is still good at \<open>now\<close>. \<open>lawful\<close> is what the
  implementation needs of its libraries.
\<close>

locale token_contract =
  fixes svc :: token_service
    and good :: "time \<Rightarrow> time \<Rightarrow> bool"
    and lawful :: bool
  assumes generated: "lawful \<Longrightarrow> ts_generate_token svc tc w = (Ok tok, w1) \<Longrightarrow>
      ts_validate_token svc tok w2 =
        (if good (clock w (ticks w)) (clock w2 (ticks w2)) then Ok tc
         else Err (Wrapf ''parse token'' (ExtErr ''token is not valid'')),
         w2\<lparr>ticks := Suc (ticks w2)\<rparr>)"
    and good_mono: "good t now \<Longrightarrow> now' \<le> now \<Longrightarrow> good t now'"
begin

lemma expired_for_good:
  assumes "lawful" "ts_generate_token svc tc w = (Ok tok, w1)" "ts_validate_token svc tok w2 = (Err e, w3)"
    "clock w2 (ticks w2) \<le> clock w4 (ticks w4)"
  shows "\<exists>e. fst (ts_validate_token svc tok w4) = Err e"
  using generated [OF assms(1,2), of w2] generated [OF assms(1,2), of w4] assms(3,4) good_mono
  by (auto split: if_splits)

lemma validated_claims:
  assumes "lawful" "ts_generate_token svc tc w = (Ok tok, w1)" "ts_validate_token svc tok w2 = (Ok tc', w3)"
  shows "tc' = tc"
  using generated [OF assms(1,2), of w2] assms(3) by (auto split: if_splits)

end

lemma generate_token_Ok:
  assumes "generate_token L s tc w = (Ok tok, w1)"
  shows "\<exists>c. jwt_sign L (js_secret s) c = Some tok \<and> claims_of_jwt c = tc \<and>
    jc_exp c = numeric_date (clock w (ticks w) + js_expiration s)"
  using assms
  by (auto simp: generate_token_def op_defs claims_of_jwt_def split: option.splits intro!: exI)

lemma jwt_generated:
  assumes "jwt_law L" "generate_token L s tc w = (Ok tok, w1)"
  shows "validate_token L s tok w2 =
    (if clock w2 (ticks w2) < numeric_date (clock w (ticks w) + js_expiration s) then Ok tc
     else Err (Wrapf ''parse token'' (ExtErr ''token is not valid'')), w2\<lparr>ticks := Suc (ticks w2)\<rparr>)"
proof -
  obtain c where c: "jwt_sign L (js_secret s) c = Some tok" "claims_of_jwt c = tc"
      "jc_exp c = numeric_date (clock w (ticks w) + js_expiration s)"
    using generate_token_Ok [OF assms(2)] by blast
  have "jwt_parse L (jwt_key s) tok now = (if now < jc_exp c then Some c else None)" for now
    using assms(1) c(1) by (simp add: jwt_law_def jwt_key_def hmac_algs_def)
  then show ?thesis using c by (simp add: validate_token_def op_defs)
qed

text \<open>A library whose JWT part is a table with one token, for the interpretation and the witnesses.\<close>

definition sample_claims :: jwt_claims where
  "sample_claims = \<lparr>jc_user_id = ''u'', jc_email = ''e'', jc_role = ''user'', jc_tenant_id = '''',
     jc_exp = 3600 * second, jc_iat = second, jc_sub = ''u'', jc_id = ''j''\<rparr>"

definition one_token_libs :: libs where
  "one_token_libs = toy_libs\<lparr>jwt_sign := (\<lambda>k c. if c = sample_claims then Some k else None),
     jwt_parse := (\<lambda>kf s now. if kf ''HS256'' = Some s \<and> now < jc_exp sample_claims
       then Some sample_claims else None)\<rparr>"

lemma jwt_law_one_token: "jwt_law one_token_libs"
  by (auto simp: jwt_law_def one_token_libs_def split: if_splits)


section \<open>The JWT service meets the contract\<close>

definition jwt_good :: "int \<Rightarrow> time \<Rightarrow> time \<Rightarrow> bool" where
  "jwt_good expiration t now \<longleftrightarrow> now < numeric_date (t + expiration * second)"

interpretation jwt_tokens: token_contract "new_jwt_token_service L secret expiration" "jwt_good expiration" "jwt_law L"
  for L secret expiration
proof
  show "jwt_law L \<Longrightarrow> ts_generate_token (new_jwt_token_service L secret expiration) tc w = (Ok tok, w1) \<Longrightarrow>
      ts_validate_token (new_jwt_token_service L secret expiration) tok w2 =
        (if jwt_good expiration (clock w (ticks w)) (clock w2 (ticks w2)) then Ok tc
         else Err (Wrapf ''parse token'' (ExtErr ''token is not valid'')),
         w2\<lparr>ticks := Suc (ticks w2)\<rparr>)" for tc w tok w1 w2
    using jwt_generated [of L "\<lparr>js_secret = secret, js_expiration = expiration * second\<rparr>" tc w tok w1 w2]
    by (simp add: new_jwt_token_service_def jwt_good_def Let_def)
qed (simp add: jwt_good_def)

text \<open>
  C16: A token the service generates validates to exactly the claims it was generated from while
  the clock is before the expiry, which is the moment of generation plus the configured number of
  seconds cut to whole seconds; from then on validation fails.
\<close>

theorem jwt_round_trip:
  assumes "jwt_law L"
    and "ts_generate_token (new_jwt_token_service L secret expiration) tc w = (Ok tok, w1)"
  shows "fst (ts_validate_token (new_jwt_token_service L secret expiration) tok w2) =
    (if clock w2 (ticks w2) < numeric_date (clock w (ticks w) + expiration * second) then Ok tc
     else Err (Wrapf ''parse token'' (ExtErr ''token is not valid'')))"
  using jwt_tokens.generated [OF assms] by (simp add: jwt_good_def)

theorem jwt_round_trip_witness:
  "fst (ts_validate_token (new_jwt_token_service one_token_libs ''k'' 3600) ''k'' init_world) =
     Ok \<lparr>tc_user_id = ''u'', tc_email = ''e'', tc_role = ''user'', tc_jti = ''j'', tc_tenant_id = ''''\<rparr>"
proof -
  let ?tc = "\<lparr>tc_user_id = ''u'', tc_email = ''e'', tc_role = ''user'', tc_jti = ''j'', tc_tenant_id = ''''\<rparr>"
  obtain w1 where "ts_generate_token (new_jwt_token_service one_token_libs ''k'' 3600) ?tc init_world = (Ok ''k'', w1)"
    by (simp add: new_jwt_token_service_def generate_token_def op_defs one_token_libs_def sample_claims_def
        init_world_def numeric_date_def Let_def)
  from jwt_round_trip [OF jwt_law_one_token this, of init_world] show ?thesis
    by (simp add: init_world_def numeric_date_def)
qed

end
