(* ===== verification/Authentication.thy ===== *)
theory Authentication
  imports Auth_Store Token_Service
begin

text \<open>
  The command and query handlers of the authentication module, over the repository interfaces,
  the token service and the event bus; then what they promise about accounts, refresh tokens and
  the tokens sent by mail.
\<close>

section \<open>Tokens\<close>

definition random_token :: "(world, string) gop" where
  "random_token = bindM rand32M (\<lambda>b. retM (hex_encode b))"

definition hash_token :: "libs \<Rightarrow> string \<Rightarrow> string" where
  "hash_token L tok = hex_encode (sha256_sum L tok)"

section \<open>Registration and verification\<close>

text \<open>\<open>existing, _ := GetByEmail\<close>: an error of the lookup counts as "no such user".\<close>

definition handle_register :: "libs \<Rightarrow> user_repo \<Rightarrow> publisher \<Rightarrow> string \<Rightarrow> string \<Rightarrow> string \<Rightarrow> (world, user) gop" where
  "handle_register L repo pub email password name =
     tryM (user_get_by_email repo email) (\<lambda>existing.
     case existing of
       Inr _ \<Rightarrow> errM (Sentinel ErrEmailAlreadyExists)
     | Inl _ \<Rightarrow>
         bindM (wrapM ''hash password'' (bcrypt_generate L password)) (\<lambda>hashed.
         bindM (new_user email hashed name) (\<lambda>u.
         bindM (user_create repo u) (\<lambda>_.
         bindM (wrapM ''generate verification token'' random_token) (\<lambda>tok.
         bindM nowM (\<lambda>now.
         let u' = u\<lparr>u_verify_token := Some (hash_token L tok), u_verify_expires := Some (now + 24 * hour)\<rparr> in
         bindM (user_update repo u') (\<lambda>_.
         bindM (ignoreM (pub \<lparr>ev_type = UserRegisteredEvent,
            ev_payload = ByValue (UserRegistered (u_email u') (u_name u') tok)\<rparr>)) (\<lambda>_.
         retM u'))))))))"

definition handle_resend_verification :: "libs \<Rightarrow> user_repo \<Rightarrow> publisher \<Rightarrow> string \<Rightarrow> (world, unit) gop" where
  "handle_resend_verification L repo pub email =
     tryM (user_get_by_email repo email) (\<lambda>r.
     case r of
       Inl _ \<Rightarrow> retM ()
     | Inr u \<Rightarrow>
         if u_email_verified u then retM ()
         else bindM random_token (\<lambda>tok. bindM nowM (\<lambda>now.
           let u' = u\<lparr>u_verify_token := Some (hash_token L tok), u_verify_expires := Some (now + 24 * hour)\<rparr> in
           bindM (user_update repo u') (\<lambda>_.
           ignoreM (pub \<lparr>ev_type = UserRegisteredEvent,
             ev_payload = ByValue (UserRegistered (u_email u') (u_name u') tok)\<rparr>)))))"

text \<open>\<open>expires != nil && time.Now().After(*expires)\<close>\<close>

definition past :: "time option \<Rightarrow> (world, 'e, bool) op" where
  "past t = (case t of None \<Rightarrow> retM False | Some x \<Rightarrow> bindM nowM (\<lambda>now. retM (x < now)))"

definition handle_verify_email ::
  "libs \<Rightarrow> user_repo \<Rightarrow> publisher \<Rightarrow> string \<Rightarrow> (world, (string \<times> string) list) gop" where
  "handle_verify_email L repo pub tok =
     tryM (user_get_by_verify_token repo (hash_token L tok)) (\<lambda>r.
     case r of
       Inl _ \<Rightarrow> errM (Sentinel ErrInvalidVerifyToken)
     | Inr u \<Rightarrow> bindM (past (u_verify_expires u)) (\<lambda>expired.
         if expired then errM (Sentinel ErrVerifyTokenExpired)
         else (let u' = u\<lparr>u_email_verified := True, u_verify_token := None, u_verify_expires := None\<rparr> in
           bindM (user_update repo u') (\<lambda>_.
           bindM (ignoreM (pub \<lparr>ev_type = EmailVerifiedEvent,
             ev_payload = ByValue (EmailVerified (uuid_string L (e_id u')) (u_email u') (u_name u'))\<rparr>)) (\<lambda>_.
           retM [(''message'', ''email verified successfully'')])))))"

section \<open>Passwords\<close>

definition handle_forgot_password :: "libs \<Rightarrow> user_repo \<Rightarrow> publisher \<Rightarrow> string \<Rightarrow> (world, unit) gop" where
  "handle_forgot_password L repo pub email =
     tryM (user_get_by_email repo email) (\<lambda>r.
     case r of
       Inl _ \<Rightarrow> retM ()
     | Inr u \<Rightarrow> bindM random_token (\<lambda>tok. bindM nowM (\<lambda>now.
         let u' = u\<lparr>u_reset_token := Some (hash_token L tok), u_reset_expires := Some (now + hour)\<rparr> in
         bindM (user_update repo u') (\<lambda>_.
         ignoreM (pub \<lparr>ev_type = PasswordResetRequestedEvent,
           ev_payload = ByValue (PasswordResetRequested (u_email u') (u_name u') tok)\<rparr>)))))"

definition handle_reset_password ::
  "libs \<Rightarrow> user_repo \<Rightarrow> refresh_repo \<Rightarrow> string \<Rightarrow> string \<Rightarrow> (world, unit) gop" where
  "handle_reset_password L repo refresh tok newPassword =
     tryM (user_get_by_reset_token repo (hash_token L tok)) (\<lambda>r.
     case r of
       Inl _ \<Rightarrow> errM (Sentinel ErrInvalidResetToken)
     | Inr u \<Rightarrow> bindM (past (u_reset_expires u)) (\<lambda>expired.
         if expired then errM (Sentinel ErrResetTokenExpired)
         else bindM (bcrypt_generate L newPassword) (\<lambda>hashed.
           let u' = u\<lparr>u_password := hashed, u_reset_token := None, u_reset_expires := None\<rparr> in
           bindM (ignoreM (refresh_revoke_all refresh (e_id u'))) (\<lambda>_. user_update repo u'))))"

section \<open>Sessions\<close>

definition max_login_attempts :: int where
  "max_login_attempts = 5"

definition lockout_duration :: time where
  "lockout_duration = 15 * minute"

definition handle_login :: "libs \<Rightarrow> user_repo \<Rightarrow> string \<Rightarrow> string \<Rightarrow> (world, user) gop" where
  "handle_login L repo email password =
     tryM (user_get_by_email repo email) (\<lambda>r.
     case r of
       Inl _ \<Rightarrow> errM (Sentinel Query_ErrInvalidCredentials)
     | Inr u \<Rightarrow>
         if \<not> u_is_active u then errM (Sentinel Query_ErrAccountDisabled)
         else bindM (is_locked u) (\<lambda>locked.
           if locked then errM (Sentinel Query_ErrAccountLocked)
           else if \<not> u_email_verified u then errM (Sentinel Query_ErrEmailNotVerified)
           else if \<not> bcrypt_check L (u_password u) password then
             (let u1 = u\<lparr>u_failed_attempts := u_failed_attempts u + 1\<rparr> in
              bindM (if max_login_attempts \<le> u_failed_attempts u1 then lock_user u1 lockout_duration else retM u1)
                (\<lambda>u2. bindM (ignoreM (user_update repo u2)) (\<lambda>_. errM (Sentinel Query_ErrInvalidCredentials))))
           else (let u1 = unlock_user u in bindM (ignoreM (user_update repo u1)) (\<lambda>_. retM u1))))"

record token_pair =
  tp_access_token :: string
  tp_refresh_token :: string
  tp_expires_in :: int

definition handle_generate_tokens ::
  "libs \<Rightarrow> refresh_repo \<Rightarrow> token_service \<Rightarrow> ctx \<Rightarrow> user \<Rightarrow> time \<Rightarrow> (world, token_pair) gop" where
  "handle_generate_tokens L refresh svc cx u tokenTTL =
     (let ttl = (if 0 < tokenTTL then tokenTTL else 7 * 24 * hour); accessTTL = 15 * minute in
     bindM new_uuidM (\<lambda>jti.
     bindM (wrapM ''generate access token'' (ts_generate_token svc
       \<lparr>tc_user_id = uuid_string L (e_id u), tc_email = u_email u, tc_role = ''user'',
        tc_jti = uuid_string L jti, tc_tenant_id = get_tenant_id cx\<rparr>)) (\<lambda>access.
     bindM (wrapM ''generate refresh token'' random_token) (\<lambda>s.
     bindM nowM (\<lambda>now.
     bindM (new_refresh_token (e_id u) s (now + ttl)) (\<lambda>k.
     bindM (refresh_create refresh k) (\<lambda>_.
     retM \<lparr>tp_access_token = access, tp_refresh_token = s, tp_expires_in = accessTTL div second\<rparr>)))))))"

definition handle_refresh ::
  "libs \<Rightarrow> user_repo \<Rightarrow> refresh_repo \<Rightarrow> token_service \<Rightarrow> ctx \<Rightarrow> string \<Rightarrow> time \<Rightarrow> (world, token_pair) gop" where
  "handle_refresh L repo refresh svc cx s tokenTTL =
     tryM (refresh_get_by_token refresh s) (\<lambda>r.
     case r of
       Inl _ \<Rightarrow> errM (Sentinel ErrInvalidRefreshToken)
     | Inr k \<Rightarrow> bindM (is_expired k) (\<lambda>expired.
         if expired \<or> is_revoked k then errM (Sentinel ErrInvalidRefreshToken)
         else tryM (user_get_by_id repo (k_user_id k)) (\<lambda>r2.
           case r2 of
             Inl _ \<Rightarrow> errM (Sentinel ErrUserNotFound)
           | Inr u \<Rightarrow>
               if \<not> u_is_active u then errM (Sentinel Cmd_ErrAccountDisabled)
               else if \<not> u_email_verified u then errM (Sentinel Cmd_ErrEmailNotVerified)
               else bindM (refresh_revoke refresh s) (\<lambda>_.
                 handle_generate_tokens L refresh svc cx u tokenTTL))))"

text \<open>\<open>Denylist\<close> is a function of the command that may be nil; its error is dropped.\<close>

definition handle_logout ::
  "refresh_repo \<Rightarrow> string \<Rightarrow> string \<Rightarrow> time \<Rightarrow> (string \<Rightarrow> time \<Rightarrow> (world, unit) gop) option \<Rightarrow> (world, unit) gop" where
  "handle_logout refresh s jti ttl denylist =
     bindM (case denylist of
        Some f \<Rightarrow> if jti \<noteq> '''' then ignoreM (f jti ttl) else retM ()
      | None \<Rightarrow> retM ()) (\<lambda>_. refresh_revoke refresh s)"

definition handle_logout_all :: "refresh_repo \<Rightarrow> uuid \<Rightarrow> (world, unit) gop" where
  "handle_logout_all refresh uid = refresh_revoke_all refresh uid"


section \<open>Login\<close>

definition lock_passed :: "world \<Rightarrow> user \<Rightarrow> bool" where
  "lock_passed w u = (case u_locked_until u of None \<Rightarrow> True | Some t \<Rightarrow> t \<le> clock w (ticks w))"

text \<open>What a wrong password leaves of the account; \<open>now\<close> is when it is locked.\<close>

definition after_wrong_password :: "time \<Rightarrow> user \<Rightarrow> user" where
  "after_wrong_password now u =
     (if max_login_attempts \<le> u_failed_attempts u + 1
      then u\<lparr>u_failed_attempts := u_failed_attempts u + 2, u_locked_until := Some (now + lockout_duration)\<rparr>
      else u\<lparr>u_failed_attempts := u_failed_attempts u + 1\<rparr>)"

definition login_verdict :: "libs \<Rightarrow> world \<Rightarrow> string \<Rightarrow> user option \<Rightarrow> (goerr, user) outcome" where
  "login_verdict L w password acc = (case acc of
      None \<Rightarrow> Err (Sentinel Query_ErrInvalidCredentials)
    | Some u \<Rightarrow>
        if \<not> u_is_active u then Err (Sentinel Query_ErrAccountDisabled)
        else if \<not> lock_passed w u then Err (Sentinel Query_ErrAccountLocked)
        else if \<not> u_email_verified u then Err (Sentinel Query_ErrEmailNotVerified)
        else if bcrypt_check L (u_password u) password then Ok (unlock_user u)
        else Err (Sentinel Query_ErrInvalidCredentials))"

lemma is_locked_run:
  "is_locked u w = (Ok (\<not> lock_passed w u),
     w\<lparr>ticks := (if u_locked_until u = None then ticks w else Suc (ticks w))\<rparr>)"
  by (auto simp: is_locked_def lock_passed_def op_defs split: option.splits)

lemma plain_user:
  fixes u :: user
  assumes "u_verify_token u = None" "u_verify_expires u = None" "u_reset_token u = None" "u_reset_expires u = None"
  shows "u\<lparr>e_updated_at := t, u_verify_token := None, u_verify_expires := None,
    u_reset_token := None, u_reset_expires := None\<rparr> = u\<lparr>e_updated_at := t\<rparr>"
  using assms by (cases u) simp

context account_store
begin

lemma login_refused:
  assumes "ok w" "case acct w e of None \<Rightarrow> True | Some u \<Rightarrow> \<not> u_is_active u \<or> \<not> lock_passed w u \<or> \<not> u_email_verified u"
  shows "\<exists>n. handle_login L repo e p w = (login_verdict L w p (acct w e), w\<lparr>ticks := n\<rparr>)"
proof (cases "acct w e")
  case None
  then obtain err where "user_get_by_email repo e w = (Err err, w)" using by_email_missing assms(1) by blast
  then show ?thesis using None
    by (auto simp: handle_login_def op_defs login_verdict_def intro!: exI [of _ "ticks w"])
next
  case (Some u)
  let ?n = "if u_is_active u \<and> u_locked_until u \<noteq> None then Suc (ticks w) else ticks w"
  from assms Some have "handle_login L repo e p w = (login_verdict L w p (acct w e), w\<lparr>ticks := ?n\<rparr>)"
    using by_email_found [OF assms(1) Some]
    by (auto simp: handle_login_def tryM_def bindM_def errM_def is_locked_run login_verdict_def)
  then show ?thesis by blast
qed

lemma login_right:
  assumes "ok w" "acct w e = Some u" "u_is_active u" "lock_passed w u" "u_email_verified u"
    "bcrypt_check L (u_password u) p"
  shows "\<exists>w' t. handle_login L repo e p w = (Ok (unlock_user u), w') \<and> ok w' \<and> clock w' = clock w \<and>
    acct w' = (acct w)(e \<mapsto> (unlock_user u)\<lparr>e_updated_at := t\<rparr>)"
proof -
  define w1 where "w1 = w\<lparr>ticks := (if u_locked_until u = None then ticks w else Suc (ticks w))\<rparr>"
  have w1: "ok w1" "acct w1 e = Some u" "acct w1 = acct w" "clock w1 = clock w"
    using assms(1,2) by (simp_all add: w1_def ok_ticks acct_ticks)
  obtain w' t where w': "user_update repo (unlock_user u) w1 = (Ok (), w')" "ok w'" "clock w' = clock w1"
      "acct w' = (acct w1)(e \<mapsto> (unlock_user u)\<lparr>e_updated_at := t, u_verify_token := None, u_verify_expires := None,
          u_reset_token := None, u_reset_expires := None\<rparr>)"
    using update_account [OF w1(1,2), of "unlock_user u"] acct_plain [OF assms(2)] by (auto simp: unlock_user_def)
  have "(unlock_user u)\<lparr>e_updated_at := t, u_verify_token := None, u_verify_expires := None,
      u_reset_token := None, u_reset_expires := None\<rparr> = (unlock_user u)\<lparr>e_updated_at := t\<rparr>"
    by (rule plain_user) (use acct_plain [OF assms(2)] in \<open>simp_all add: unlock_user_def\<close>)
  then have "acct w' = (acct w)(e \<mapsto> (unlock_user u)\<lparr>e_updated_at := t\<rparr>)"
    using w'(4) by (simp add: w1)
  moreover have "handle_login L repo e p w = (Ok (unlock_user u), w')"
    using assms by_email_found [OF assms(1,2)] w'(1)
    by (simp add: handle_login_def tryM_def bindM_def is_locked_run Let_def ignoreM_def retM_def w1_def)
  ultimately show ?thesis using w'(2,3) w1(4) by auto
qed

lemma login_wrong:
  assumes "ok w" "acct w e = Some u" "u_is_active u" "lock_passed w u" "u_email_verified u"
    "\<not> bcrypt_check L (u_password u) p"
  shows "\<exists>w' t n. handle_login L repo e p w = (Err (Sentinel Query_ErrInvalidCredentials), w') \<and> ok w' \<and>
    clock w' = clock w \<and> acct w' = (acct w)(e \<mapsto> (after_wrong_password (clock w n) u)\<lparr>e_updated_at := t\<rparr>)"
proof -
  define n where "n = (if u_locked_until u = None then ticks w else Suc (ticks w))"
  define u2 where "u2 = after_wrong_password (clock w n) u"
  define w1 where "w1 = w\<lparr>ticks := (if max_login_attempts \<le> u_failed_attempts u + 1 then Suc n else n)\<rparr>"
  have w1: "ok w1" "acct w1 e = Some u" "acct w1 = acct w" "clock w1 = clock w"
    using assms(1,2) by (simp_all add: w1_def ok_ticks acct_ticks)
  have u2: "u_email u2 = u_email u" "e_id u2 = e_id u" "e_created_at u2 = e_created_at u"
      "e_deleted_at u2 = e_deleted_at u" "u_verify_token u2 = u_verify_token u" "u_verify_expires u2 = u_verify_expires u"
      "u_reset_token u2 = u_reset_token u" "u_reset_expires u2 = u_reset_expires u"
    by (simp_all add: u2_def after_wrong_password_def)
  obtain w' t where w': "user_update repo u2 w1 = (Ok (), w')" "ok w'" "clock w' = clock w1"
      "acct w' = (acct w1)(e \<mapsto> u2\<lparr>e_updated_at := t, u_verify_token := None, u_verify_expires := None,
          u_reset_token := None, u_reset_expires := None\<rparr>)"
    using update_account [OF w1(1,2), of u2] acct_plain [OF assms(2)] u2(1-4) by auto
  have "u2\<lparr>e_updated_at := t, u_verify_token := None, u_verify_expires := None,
          u_reset_token := None, u_reset_expires := None\<rparr> = u2\<lparr>e_updated_at := t\<rparr>"
    by (rule plain_user) (use u2 acct_plain [OF assms(2)] in simp_all)
  then have "acct w' = (acct w)(e \<mapsto> u2\<lparr>e_updated_at := t\<rparr>)" using w'(4) by (simp add: w1)
  moreover have "handle_login L repo e p w = (Err (Sentinel Query_ErrInvalidCredentials), w')"
    using assms by_email_found [OF assms(1,2)] w'(1)
    by (cases "max_login_attempts \<le> u_failed_attempts u + 1"; cases "u_locked_until u")
      (simp_all add: handle_login_def tryM_def bindM_def is_locked_run Let_def ignoreM_def retM_def errM_def
        w1_def u2_def n_def after_wrong_password_def lock_user_def nowM_def add.commute)
  ultimately show ?thesis
    using w'(2,3) w1(4) unfolding u2_def by (intro exI [of _ w'] exI [of _ t] exI [of _ n]) simp
qed

end


text \<open>A run of logins for one account.\<close>

fun logins :: "libs \<Rightarrow> user_repo \<Rightarrow> string \<Rightarrow> string list \<Rightarrow> world \<Rightarrow> world" where
  "logins L repo e [] w = w"
| "logins L repo e (p # ps) w = logins L repo e ps (snd (handle_login L repo e p w))"

lemma logins_append: "logins L repo e (ps @ qs) w = logins L repo e qs (logins L repo e ps w)"
  by (induction ps arbitrary: w) auto

definition may_login :: "user \<Rightarrow> bool" where
  "may_login u \<longleftrightarrow> u_is_active u \<and> u_email_verified u"

text \<open>The account after a login attempt.\<close>

definition login_effect :: "libs \<Rightarrow> world \<Rightarrow> nat \<Rightarrow> time \<Rightarrow> string \<Rightarrow> string \<Rightarrow> (string \<Rightarrow> user option) \<Rightarrow> string \<Rightarrow> user option" where
  "login_effect L w n t e p accs = (case accs e of
      None \<Rightarrow> accs
    | Some u \<Rightarrow>
        if may_login u \<and> lock_passed w u
        then accs(e \<mapsto> (if bcrypt_check L (u_password u) p then unlock_user u
                        else after_wrong_password (clock w n) u)\<lparr>e_updated_at := t\<rparr>)
        else accs)"

lemma after_wrong_password_sel [simp]:
  "u_password (after_wrong_password t u) = u_password u" "u_is_active (after_wrong_password t u) = u_is_active u"
  "u_email_verified (after_wrong_password t u) = u_email_verified u"
  by (simp_all add: after_wrong_password_def)

context account_store
begin

lemma login_run:
  assumes "ok w"
  shows "\<exists>w' n t. handle_login L repo e p w = (login_verdict L w p (acct w e), w') \<and> ok w' \<and>
    clock w' = clock w \<and> acct w' = login_effect L w n t e p (acct w)"
proof (cases "case acct w e of None \<Rightarrow> False | Some u \<Rightarrow> may_login u \<and> lock_passed w u")
  case False
  then obtain n where "handle_login L repo e p w = (login_verdict L w p (acct w e), w\<lparr>ticks := n\<rparr>)"
    using login_refused [OF assms, of e L p] by (auto simp: may_login_def split: option.splits)
  moreover have "login_effect L w 0 0 e p (acct w) = acct w"
    using False by (auto simp: login_effect_def split: option.splits)
  ultimately show ?thesis using assms
    by (intro exI [of _ "w\<lparr>ticks := n\<rparr>"] exI [of _ 0]) (simp add: ok_ticks acct_ticks)
next
  case True
  then obtain u where u: "acct w e = Some u" "u_is_active u" "u_email_verified u" "lock_passed w u"
    by (auto simp: may_login_def split: option.splits)
  show ?thesis
  proof (cases "bcrypt_check L (u_password u) p")
    case True
    with login_right [OF assms u(1,2,4,3)] u show ?thesis
      by (fastforce simp: login_verdict_def login_effect_def may_login_def)
  next
    case False
    with login_wrong [OF assms u(1,2,4,3)] u show ?thesis
      by (fastforce simp: login_verdict_def login_effect_def may_login_def)
  qed
qed

lemma failing_run:
  assumes "ok w" "acct w e = Some u" "may_login u" "u_locked_until u = None"
    "\<forall>p \<in> set ps. \<not> bcrypt_check L (u_password u) p" "u_failed_attempts u + int (length ps) < max_login_attempts"
  shows "\<exists>u'. ok (logins L repo e ps w) \<and> clock (logins L repo e ps w) = clock w \<and>
    acct (logins L repo e ps w) e = Some u' \<and> may_login u' \<and> u_locked_until u' = None \<and>
    u_password u' = u_password u \<and> u_failed_attempts u' = u_failed_attempts u + int (length ps)"
  using assms
proof (induction ps arbitrary: w u)
  case (Cons p ps)
  have lp: "lock_passed w u" using Cons.prems(4) by (simp add: lock_passed_def)
  have b: "\<not> bcrypt_check L (u_password u) p" using Cons.prems(5) by simp
  obtain w' n t where w': "handle_login L repo e p w = (login_verdict L w p (acct w e), w')" "ok w'"
      "clock w' = clock w" "acct w' = login_effect L w n t e p (acct w)"
    using login_run [OF Cons.prems(1)] by blast
  let ?u = "(after_wrong_password (clock w n) u)\<lparr>e_updated_at := t\<rparr>"
  have u': "acct w' e = Some ?u" using w'(4) Cons.prems(2,3) lp b by (simp add: login_effect_def)
  have s: "may_login ?u" "u_locked_until ?u = None" "u_password ?u = u_password u"
      "u_failed_attempts ?u = u_failed_attempts u + 1"
    using Cons.prems(3,4,6) by (auto simp: may_login_def after_wrong_password_def)
  have "\<exists>u'. ok (logins L repo e ps w') \<and> clock (logins L repo e ps w') = clock w' \<and>
    acct (logins L repo e ps w') e = Some u' \<and> may_login u' \<and> u_locked_until u' = None \<and>
    u_password u' = u_password ?u \<and> u_failed_attempts u' = u_failed_attempts ?u + int (length ps)"
    using Cons.prems(5,6) s by (intro Cons.IH [OF w'(2) u']) auto
  then show ?case using w'(1,3) s by (auto simp: add.assoc)
qed simp

lemma lock_after_failures:
  assumes "ok w" "acct w e = Some u" "may_login u" "u_locked_until u = None"
    "\<forall>p \<in> set ps. \<not> bcrypt_check L (u_password u) p"
    "u_failed_attempts u + int (length ps) = max_login_attempts" "ps \<noteq> []"
    and window: "\<And>m n. clock w m < clock w n + lockout_duration"
  shows "fst (handle_login L repo e p (logins L repo e ps w)) = Err (Sentinel Query_ErrAccountLocked)"
proof -
  obtain qs q where ps: "ps = qs @ [q]" using assms(7) by (metis append_butlast_last_id)
  let ?w = "logins L repo e qs w"
  obtain u1 where u1: "ok ?w" "clock ?w = clock w" "acct ?w e = Some u1" "may_login u1"
      "u_locked_until u1 = None" "u_password u1 = u_password u"
      "u_failed_attempts u1 = u_failed_attempts u + int (length qs)"
    using failing_run [OF assms(1-4), of qs L] assms(5,6) ps by auto
  obtain w' n t where w': "handle_login L repo e q ?w = (login_verdict L ?w q (acct ?w e), w')" "ok w'"
      "clock w' = clock ?w" "acct w' = login_effect L ?w n t e q (acct ?w)"
    using login_run [OF u1(1)] by blast
  let ?u = "(after_wrong_password (clock ?w n) u1)\<lparr>e_updated_at := t\<rparr>"
  have "lock_passed ?w u1" using u1(5) by (simp add: lock_passed_def)
  then have "acct w' e = Some ?u" using w'(4) u1(3,4,6) assms(5) ps by (simp add: login_effect_def)
  moreover have "u_is_active ?u" using u1(4) by (simp add: may_login_def)
  moreover have "u_locked_until ?u = Some (clock w n + lockout_duration)"
    using u1(2,7) assms(6) ps by (simp add: after_wrong_password_def)
  then have "\<not> lock_passed w' ?u" using window w'(3) u1(2) by (simp add: lock_passed_def not_le)
  moreover obtain w'' n' t' where "handle_login L repo e p w' = (login_verdict L w' p (acct w' e), w'')"
    using login_run [OF w'(2)] by blast
  ultimately show ?thesis using w'(1) by (simp add: ps logins_append login_verdict_def)
qed

text \<open>After a lock has passed the counter is still above the limit, so one wrong password locks again.\<close>

lemma relock:
  assumes "ok w" "acct w e = Some u" "may_login u" "lock_passed w u" "max_login_attempts \<le> u_failed_attempts u"
    "\<not> bcrypt_check L (u_password u) q" "\<And>m n. clock w m < clock w n + lockout_duration"
  shows "fst (handle_login L repo e p (snd (handle_login L repo e q w))) = Err (Sentinel Query_ErrAccountLocked)"
proof -
  obtain w' n t where w': "handle_login L repo e q w = (login_verdict L w q (acct w e), w')" "ok w'"
      "clock w' = clock w" "acct w' = login_effect L w n t e q (acct w)"
    using login_run [OF assms(1)] by blast
  let ?u = "(after_wrong_password (clock w n) u)\<lparr>e_updated_at := t\<rparr>"
  have "acct w' e = Some ?u" using w'(4) assms(2-4,6) by (simp add: login_effect_def)
  moreover have "u_is_active ?u" using assms(3) by (simp add: may_login_def)
  moreover have "u_locked_until ?u = Some (clock w n + lockout_duration)"
    using assms(5) by (simp add: after_wrong_password_def)
  then have "\<not> lock_passed w' ?u" using assms(7) w'(3) by (simp add: lock_passed_def not_le)
  moreover obtain w'' n' t' where "handle_login L repo e p w' = (login_verdict L w' p (acct w' e), w'')"
    using login_run [OF w'(2)] by blast
  ultimately show ?thesis using w'(1) by (simp add: login_verdict_def)
qed

end


section \<open>What login promises\<close>

text \<open>A database with one verified account, for the witnesses; its clock stands still.\<close>

definition one_account :: world where
  "one_account = init_world\<lparr>clock := (\<lambda>_. 0), db := empty_db\<lparr>
     users := [\<lparr>us_id = 7, us_email = ''a'', us_password = ''$pw'', us_name = ''A'', us_is_active = True,
       us_created_at = 0, us_updated_at = 0, us_deleted_at = None, us_tenant_id = '''', us_email_verified_at = Some 0\<rparr>],
     user_credentials := [\<lparr>uc_user_id = 7, uc_password_hash = ''$pw'', uc_last_login_at = None\<rparr>],
     user_security := [\<lparr>se_user_id = 7, se_login_attempts = 0, se_locked_until = None\<rparr>],
     refresh_tokens := [\<lparr>rt_id = 1, rt_user_id = 7, rt_token = ''r'', rt_expires_at = second, rt_revoked_at = None,
       rt_created_at = 0, rt_updated_at = 0, rt_deleted_at = None\<rparr>]\<rparr>\<rparr>"

definition sample_user :: user where
  "sample_user = \<lparr>e_id = 7, e_created_at = 0, e_updated_at = 0, e_deleted_at = None, u_email = ''a'',
     u_password = ''$pw'', u_name = ''A'', u_is_active = True, u_failed_attempts = 0, u_locked_until = None,
     u_email_verified = True, u_verify_token = None, u_verify_expires = None, u_reset_token = None,
     u_reset_expires = None\<rparr>"

lemma one_account_facts:
  "accounts_ready one_account" "account one_account ''a'' = Some sample_user" "clock one_account n = 0"
  by (simp_all add: one_account_def init_world_def empty_db_def accounts_ready_def accounts_ok_def
      account_def live_user_def user_of_row_fields no_tokens_def sample_user_def Let_def)

text \<open>
  C8: On a fault-free database a login succeeds exactly for a live account that is active, not
  under an unexpired lock and verified, with a password the stored hash accepts; the other cases
  give the four errors in this order of precedence. A login that reaches the password check
  resets the failure counter or advances it (locking the account at the fifth failure); any other
  login leaves every account as it was.
\<close>

theorem login_decides:
  assumes "accounts_ready w"
  shows "\<exists>w' n t. handle_login L pg_user_repo e p w = (login_verdict L w p (account w e), w') \<and>
    accounts_ready w' \<and> clock w' = clock w \<and> account w' = login_effect L w n t e p (account w)"
  using pg_accounts.login_run [OF assms] .

theorem login_decides_witness:
  "\<exists>u. fst (handle_login toy_libs pg_user_repo ''a'' ''pw'' one_account) = Ok u \<and> u_email u = ''a''"
  using login_decides [OF one_account_facts(1), of toy_libs "''a''" "''pw''"] one_account_facts(2)
  by (auto simp: login_verdict_def lock_passed_def sample_user_def toy_libs_def unlock_user_def)

text \<open>
  C28: Five wrong passwords in a row lock an account whose counter is zero: for the next fifteen
  minutes every login is refused, the one with the right password included.
\<close>

theorem five_failures_lock:
  assumes "accounts_ready w" "account w e = Some u" "u_is_active u" "u_email_verified u"
    "u_locked_until u = None" "u_failed_attempts u = 0"
    "length ps = 5" "\<forall>q \<in> set ps. \<not> bcrypt_check L (u_password u) q"
    "\<And>m n. clock w m < clock w n + 15 * minute"
  shows "fst (handle_login L pg_user_repo e p (logins L pg_user_repo e ps w)) = Err (Sentinel Query_ErrAccountLocked)"
  using assms
  by (intro pg_accounts.lock_after_failures [where u = u])
    (auto simp: may_login_def max_login_attempts_def lockout_duration_def)

theorem five_failures_lock_witness:
  "fst (handle_login toy_libs pg_user_repo ''a'' ''pw''
     (logins toy_libs pg_user_repo ''a'' [''1'', ''2'', ''3'', ''4'', ''5''] one_account)) = Err (Sentinel Query_ErrAccountLocked)"
  by (rule five_failures_lock [OF one_account_facts(1,2)])
    (auto simp: sample_user_def toy_libs_def one_account_facts)

text \<open>
  The counter is not reset when a lock runs out: with five or more recorded failures one more
  wrong password locks the account again.
\<close>

theorem expired_lock_relocks:
  assumes "accounts_ready w" "account w e = Some u" "u_is_active u" "u_email_verified u"
    "u_locked_until u = Some t" "t \<le> clock w (ticks w)" "5 \<le> u_failed_attempts u"
    "\<not> bcrypt_check L (u_password u) q" "\<And>m n. clock w m < clock w n + 15 * minute"
  shows "fst (handle_login L pg_user_repo e p (snd (handle_login L pg_user_repo e q w))) =
    Err (Sentinel Query_ErrAccountLocked)"
  using assms
  by (intro pg_accounts.relock [where u = u])
    (auto simp: may_login_def max_login_attempts_def lockout_duration_def lock_passed_def)

definition relock_world :: world where
  "relock_world = one_account\<lparr>db := (db one_account)\<lparr>
     user_security := [\<lparr>se_user_id = 7, se_login_attempts = 6, se_locked_until = Some 0\<rparr>]\<rparr>\<rparr>"

theorem expired_lock_relocks_witness:
  "fst (handle_login toy_libs pg_user_repo ''a'' ''pw''
     (snd (handle_login toy_libs pg_user_repo ''a'' ''x'' relock_world))) = Err (Sentinel Query_ErrAccountLocked)"
proof (rule expired_lock_relocks [where t = 0])
  show "accounts_ready relock_world"
    by (simp add: relock_world_def one_account_def init_world_def empty_db_def accounts_ready_def accounts_ok_def)
  show "account relock_world ''a'' = Some (sample_user\<lparr>u_failed_attempts := 6, u_locked_until := Some 0\<rparr>)"
    by (simp add: relock_world_def one_account_def init_world_def empty_db_def account_def live_user_def
        user_of_row_fields no_tokens_def sample_user_def Let_def)
qed (simp_all add: sample_user_def toy_libs_def relock_world_def one_account_def)

end
