(* ===== verification/Auth_Sessions.thy ===== *)
theory Auth_Sessions
  imports Authentication
begin

text \<open>
  The authentication commands as one transition function on the world, with the PostgreSQL
  repositories, the JWT service and any event bus that leaves the tables alone; what every command
  keeps, and what a refresh token is good for.
\<close>

section \<open>The commands\<close>

text \<open>
  The messages of the module on the buses. \<open>SignIn\<close> is what the login endpoint does: the query, then
  the command that issues tokens for the user it returned.
\<close>

datatype auth_command =
    RegisterUser string string string
  | VerifyEmail string
  | ResendVerification string
  | ForgotPassword string
  | ResetPassword string string
  | SignIn string string time
  | RefreshToken string time
  | Logout string
  | LogoutAll uuid

record auth_env =
  ae_libs :: libs
  ae_secret :: string
  ae_expiration :: int
  ae_publish :: publisher
  ae_ctx :: ctx

definition ae_tokens :: "auth_env \<Rightarrow> token_service" where
  "ae_tokens E = new_jwt_token_service (ae_libs E) (ae_secret E) (ae_expiration E)"

definition sign_in :: "auth_env \<Rightarrow> string \<Rightarrow> string \<Rightarrow> time \<Rightarrow> (world, token_pair) gop" where
  "sign_in E email password ttl = bindM (handle_login (ae_libs E) pg_user_repo email password) (\<lambda>u.
     handle_generate_tokens (ae_libs E) pg_refresh_repo (ae_tokens E) (ae_ctx E) u ttl)"

definition refresh_session :: "auth_env \<Rightarrow> string \<Rightarrow> time \<Rightarrow> (world, token_pair) gop" where
  "refresh_session E s ttl =
     handle_refresh (ae_libs E) pg_user_repo pg_refresh_repo (ae_tokens E) (ae_ctx E) s ttl"

definition dropM :: "('s, 'a) gop \<Rightarrow> ('s, unit) gop" where
  "dropM m = bindM m (\<lambda>_. retM ())"

fun run_auth_command :: "auth_env \<Rightarrow> auth_command \<Rightarrow> (world, unit) gop" where
  "run_auth_command E (RegisterUser email pw name) =
     dropM (handle_register (ae_libs E) pg_user_repo (ae_publish E) email pw name)"
| "run_auth_command E (VerifyEmail tok) = dropM (handle_verify_email (ae_libs E) pg_user_repo (ae_publish E) tok)"
| "run_auth_command E (ResendVerification email) =
     handle_resend_verification (ae_libs E) pg_user_repo (ae_publish E) email"
| "run_auth_command E (ForgotPassword email) =
     handle_forgot_password (ae_libs E) pg_user_repo (ae_publish E) email"
| "run_auth_command E (ResetPassword tok pw) =
     handle_reset_password (ae_libs E) pg_user_repo pg_refresh_repo tok pw"
| "run_auth_command E (SignIn email pw ttl) = dropM (sign_in E email pw ttl)"
| "run_auth_command E (RefreshToken s ttl) = dropM (refresh_session E s ttl)"
| "run_auth_command E (Logout s) = handle_logout pg_refresh_repo s '''' 0 None"
| "run_auth_command E (LogoutAll uid) = handle_logout_all pg_refresh_repo uid"

fun run_auth :: "auth_env \<Rightarrow> auth_command list \<Rightarrow> world \<Rightarrow> world" where
  "run_auth E [] w = w"
| "run_auth E (c # cs) w = run_auth E cs (snd (run_auth_command E c w))"

section \<open>What the handlers keep\<close>

text \<open>
  A predicate on the tables that the writing operations of the two repositories keep is kept by
  every handler: each is built from these operations, reads, the clock and the bus.
\<close>

locale auth_invariant =
  fixes P :: "database \<Rightarrow> bool" and users_repo :: user_repo and tokens_repo :: refresh_repo
  assumes create: "keeps (on_db P) (user_create users_repo u)"
    and update: "keeps (on_db P) (user_update users_repo u)"
    and by_id: "keeps (on_db P) (user_get_by_id users_repo i)"
    and by_email: "keeps (on_db P) (user_get_by_email users_repo e)"
    and by_verify_token: "keeps (on_db P) (user_get_by_verify_token users_repo h)"
    and by_reset_token: "keeps (on_db P) (user_get_by_reset_token users_repo h)"
    and new_token: "keeps (on_db P) (refresh_create tokens_repo k)"
    and by_token: "keeps (on_db P) (refresh_get_by_token tokens_repo s)"
    and revoke_token: "keeps (on_db P) (refresh_revoke tokens_repo s)"
    and revoke_tokens: "keeps (on_db P) (refresh_revoke_all tokens_repo i)"
begin

lemmas repo_keeps = create update by_id by_email by_verify_token by_reset_token new_token by_token
  revoke_token revoke_tokens

lemma keeps_random_token: "keeps (on_db P) random_token"
  unfolding random_token_def by (intro keeps_rules)

lemma keeps_past: "keeps (on_db P) (past t)"
  unfolding past_def by (auto intro!: keeps_rules)

lemmas handler_keeps = keeps_rules repo_keeps keeps_random_token keeps_past

lemma keeps_login: "keeps (on_db P) (handle_login L users_repo e p)"
  unfolding handle_login_def Let_def by (intro handler_keeps)

lemma keeps_generate:
  "(\<And>tc. keeps (on_db P) (ts_generate_token svc tc)) \<Longrightarrow> keeps (on_db P) (handle_generate_tokens L tokens_repo svc cx u t)"
  unfolding handle_generate_tokens_def Let_def by (auto intro!: handler_keeps)

lemma keeps_refresh:
  "(\<And>tc. keeps (on_db P) (ts_generate_token svc tc)) \<Longrightarrow>
    keeps (on_db P) (handle_refresh L users_repo tokens_repo svc cx s t)"
  unfolding handle_refresh_def by (auto intro!: handler_keeps keeps_generate split: sum.split)

lemma keeps_reset: "keeps (on_db P) (handle_reset_password L users_repo tokens_repo tok pw)"
  unfolding handle_reset_password_def Let_def by (intro handler_keeps)

lemma keeps_publishing:
  assumes "\<And>ev. keeps (on_db P) (pub ev)"
  shows "keeps (on_db P) (handle_register L users_repo pub e pw n)"
    "keeps (on_db P) (handle_verify_email L users_repo pub tok)"
    "keeps (on_db P) (handle_resend_verification L users_repo pub e)"
    "keeps (on_db P) (handle_forgot_password L users_repo pub e)"
  unfolding handle_register_def handle_verify_email_def handle_resend_verification_def
    handle_forgot_password_def Let_def
  by (intro handler_keeps assms)+

end

interpretation pg_accounts_ok: auth_invariant accounts_ok pg_user_repo pg_refresh_repo
  by unfold_locales (simp_all add: keeps_rules)

interpretation pg_spent: auth_invariant "spent s" pg_user_repo pg_refresh_repo for s
  by unfold_locales (simp_all add: keeps_rules)

lemma keeps_jwt [keeps_rules]: "keeps (on_db P) (ts_generate_token (ae_tokens E) tc)"
  by (simp add: ae_tokens_def new_jwt_token_service_def Let_def keeps_generate_token)

lemma keeps_dropM [keeps_rules]: "keeps I m \<Longrightarrow> keeps I (dropM m)"
  unfolding dropM_def by (intro keeps_rules)

definition quiet :: "auth_env \<Rightarrow> (database \<Rightarrow> bool) \<Rightarrow> bool" where
  "quiet E P \<longleftrightarrow> (\<forall>ev. keeps (on_db P) (ae_publish E ev))"

lemma run_auth_command_keeps:
  assumes "auth_invariant P pg_user_repo pg_refresh_repo" "quiet E P"
  shows "keeps (on_db P) (run_auth_command E c)"
proof -
  note k = auth_invariant.keeps_publishing [OF assms(1), of "ae_publish E"]
    auth_invariant.keeps_login [OF assms(1)] auth_invariant.keeps_generate [OF assms(1)]
    auth_invariant.keeps_refresh [OF assms(1)] auth_invariant.keeps_reset [OF assms(1)]
    auth_invariant.repo_keeps [OF assms(1)]
  have p: "keeps (on_db P) (ae_publish E ev)" for ev using assms(2) by (simp add: quiet_def)
  show ?thesis
    by (cases c) (auto intro!: keeps_rules k p simp: sign_in_def refresh_session_def handle_logout_def
      handle_logout_all_def simp del: pg_user_repo_sel pg_refresh_repo_sel)
qed

lemma run_auth_keeps:
  assumes "auth_invariant P pg_user_repo pg_refresh_repo" "quiet E P" "P (db w)"
  shows "P (db (run_auth E cs w))"
  using assms(3)
proof (induction cs arbitrary: w)
  case (Cons c cs)
  have "P (db (snd (run_auth_command E c w)))"
    using keepsD [OF run_auth_command_keeps [OF assms(1,2), of c], of w] Cons.prems by (simp add: on_db_def)
  then show ?case by (simp add: Cons.IH)
qed simp


text \<open>An environment whose bus delivers nothing, for the witnesses.\<close>

definition toy_env :: auth_env where
  "toy_env = \<lparr>ae_libs = toy_libs, ae_secret = ''k'', ae_expiration = 900, ae_publish = (\<lambda>ev. retM ()),
     ae_ctx = background\<rparr>"

lemma quiet_toy_env: "quiet toy_env P"
  by (simp add: quiet_def toy_env_def keeps_retM)

section \<open>Refresh tokens\<close>

lemma revoke_where_spent:
  assumes "revoke_where P w = (Ok (), w')" "distinct (map rt_token (refresh_tokens (db w)))"
    "r \<in> set (refresh_tokens (db w))" "P r" "rt_deleted_at r = None"
  shows "spent (rt_token r) (db w')"
proof -
  obtain now where e: "db w' = (db w)\<lparr>refresh_tokens := update_where
     (\<lambda>r. P r \<and> rt_deleted_at r = None \<and> rt_revoked_at r = None)
     (\<lambda>r. r\<lparr>rt_revoked_at := Some now, rt_updated_at := now\<rparr>) (refresh_tokens (db w))\<rparr>"
    using assms(1) execM_Ok by (fastforce simp: revoke_where_def bindM_Ok nowM_def)
  obtain q where q: "q = (if P r \<and> rt_deleted_at r = None \<and> rt_revoked_at r = None
      then r\<lparr>rt_revoked_at := Some now, rt_updated_at := now\<rparr> else r)" by simp
  have "q \<in> set (refresh_tokens (db w'))" using assms(3) by (auto simp: e set_update_where q)
  moreover have "rt_token q = rt_token r" "rt_revoked_at q \<noteq> None" using assms(4,5) by (simp_all add: q)
  ultimately show ?thesis using assms(2) by (simp add: spent_def e map_key_update_where) blast
qed

text \<open>The part of the refresh handler before its first write, and the part that writes.\<close>

definition refresh_check :: "user_repo \<Rightarrow> refresh_repo \<Rightarrow> string \<Rightarrow> (world, user) gop" where
  "refresh_check repo refresh s =
     tryM (refresh_get_by_token refresh s) (\<lambda>r.
     case r of
       Inl _ \<Rightarrow> errM (Sentinel ErrInvalidRefreshToken)
     | Inr k \<Rightarrow> bindM (is_expired k) (\<lambda>expired.
         if expired \<or> is_revoked k then errM (Sentinel ErrInvalidRefreshToken)
         else tryM (user_get_by_id repo (k_user_id k)) (\<lambda>r2.
           case r2 of
             Inl _ \<Rightarrow> errM (Sentinel ErrUserNotFound)
           | Inr u \<Rightarrow>
               if \<not> u_is_active u then errM (Sentinel Cmd_ErrAccountDisabled)
               else if \<not> u_email_verified u then errM (Sentinel Cmd_ErrEmailNotVerified)
               else retM u)))"

definition refresh_finish :: "auth_env \<Rightarrow> string \<Rightarrow> time \<Rightarrow> user \<Rightarrow> (world, token_pair) gop" where
  "refresh_finish E s ttl u = bindM (refresh_revoke pg_refresh_repo s) (\<lambda>_.
     handle_generate_tokens (ae_libs E) pg_refresh_repo (ae_tokens E) (ae_ctx E) u ttl)"

lemma tryM_bind: "bindM (tryM m f) g = tryM m (\<lambda>x. bindM (f x) g)"
  by (rule ext) (auto simp: bindM_def tryM_def split: prod.splits outcome.splits)

lemma refresh_session_split:
  "refresh_session E s ttl = bindM (refresh_check pg_user_repo pg_refresh_repo s) (refresh_finish E s ttl)"
  unfolding refresh_session_def handle_refresh_def refresh_check_def refresh_finish_def [abs_def]
  by (rule ext) (auto simp: tryM_def bindM_def retM_def errM_def split: prod.splits outcome.splits sum.splits)

lemma refresh_check_Ok:
  assumes "refresh_check repo pg_refresh_repo s w = (Ok u, w')"
  shows "\<exists>r \<in> set (refresh_tokens (db w)). rt_token r = s \<and> rt_deleted_at r = None \<and> rt_revoked_at r = None"
proof -
  from assms obtain k w1 where "pg_refresh_get_by_token s w = (Ok k, w1)" "\<not> is_revoked k"
    by (auto simp: refresh_check_def tryM_Ok bindM_Ok errM_def split: if_splits)
  then obtain r where "find (\<lambda>r. rt_token r = s \<and> rt_deleted_at r = None) (refresh_tokens (db w)) = Some r"
      "k = refresh_of_row r" "rt_revoked_at r = None"
    unfolding pg_refresh_get_by_token_def norowsM_Ok
    by (auto dest!: query_rowM_Ok simp: is_revoked_def refresh_of_row_def)
  then show ?thesis using find_SomeD by fastforce
qed

lemma refresh_check_db:
  assumes "refresh_check pg_user_repo pg_refresh_repo s w = (r, w')"
  shows "db w' = db w"
proof -
  have "keeps (on_db (\<lambda>d. d = db w)) (refresh_check pg_user_repo pg_refresh_repo s)"
    unfolding refresh_check_def pg_user_repo_sel pg_refresh_repo_sel by (intro keeps_rules)
  from keeps_db_eq [OF this] assms show ?thesis by simp
qed

lemma refresh_Ok_spent:
  assumes "distinct (map rt_token (refresh_tokens (db w)))" "refresh_session E s ttl w = (Ok tp, w')"
  shows "spent s (db w')"
proof -
  obtain u w1 where c: "refresh_check pg_user_repo pg_refresh_repo s w = (Ok u, w1)"
      "refresh_finish E s ttl u w1 = (Ok tp, w')"
    using assms(2) unfolding refresh_session_split bindM_Ok by blast
  note d = refresh_check_db [OF c(1)]
  obtain w2 where r: "revoke_where (\<lambda>r. rt_token r = s) w1 = (Ok (), w2)"
      "handle_generate_tokens (ae_libs E) pg_refresh_repo (ae_tokens E) (ae_ctx E) u ttl w2 = (Ok tp, w')"
    using c(2) by (auto simp: refresh_finish_def bindM_Ok pg_refresh_revoke_def wrapM_Ok)
  obtain q where "q \<in> set (refresh_tokens (db w1))" "rt_token q = s" "rt_deleted_at q = None"
    using refresh_check_Ok [OF c(1)] by (auto simp: d)
  then have "spent s (db w2)" using revoke_where_spent [OF r(1)] assms(1) by (auto simp: d)
  have "keeps (on_db (spent s)) (handle_generate_tokens (ae_libs E) pg_refresh_repo (ae_tokens E) (ae_ctx E) u ttl)"
    by (intro pg_spent.keeps_generate keeps_jwt)
  from keepsD [OF this, of w2] show ?thesis using \<open>spent s (db w2)\<close> r(2) by (simp add: on_db_def)
qed

lemma spent_refused:
  assumes "spent s (db w)"
  shows "fst (refresh_session E s ttl w) = Err (Sentinel ErrInvalidRefreshToken)"
proof (cases "pg_refresh_get_by_token s w")
  case (Pair r w1)
  have np: "\<forall>p. r \<noteq> Panic p"
    using Pair by (auto simp: pg_refresh_get_by_token_def norowsM_def tryM_def query_rowM_def sqlM_def extM_def
        errM_def retM_def split: prod.splits outcome.splits list.splits option.splits sum.splits if_splits)
  show ?thesis
    using Pair spent_lookup [OF assms Pair] np
    by (cases r) (auto simp: refresh_session_def handle_refresh_def tryM_def bindM_def is_expired_def nowM_def
        errM_def retM_def)
qed

lemma run_auth_spent: "spent s (db w) \<Longrightarrow> quiet E (spent s) \<Longrightarrow> spent s (db (run_auth E cs w))"
  using run_auth_keeps [OF pg_spent.auth_invariant_axioms] .

text \<open>
  C7: A refresh token is good for one refresh: once a refresh with it has succeeded, every later
  refresh with it is refused, whatever commands and faults come between.
\<close>

theorem refresh_single_use:
  assumes "distinct (map rt_token (refresh_tokens (db w)))" "quiet E (spent s)"
    "refresh_session E s ttl w = (Ok tp, w')"
  shows "fst (refresh_session E s ttl' (run_auth E cs w')) = Err (Sentinel ErrInvalidRefreshToken)"
  using spent_refused [OF run_auth_spent [OF refresh_Ok_spent [OF assms(1,3)] assms(2)]] .

text \<open>
  C15: Logging a user out everywhere ends all sessions: each refresh token the user had is refused
  from then on.
\<close>

theorem logout_all_ends_sessions:
  assumes "distinct (map rt_token (refresh_tokens (db w)))" "quiet E (spent (rt_token r))"
    "r \<in> set (refresh_tokens (db w))" "rt_user_id r = uid" "rt_deleted_at r = None"
    "run_auth_command E (LogoutAll uid) w = (Ok (), w')"
  shows "fst (refresh_session E (rt_token r) ttl (run_auth E cs w')) = Err (Sentinel ErrInvalidRefreshToken)"
proof -
  have "revoke_where (\<lambda>r. rt_user_id r = uid) w = (Ok (), w')"
    using assms(6) by (simp add: handle_logout_all_def pg_refresh_revoke_all_def wrapM_Ok)
  from revoke_where_spent [OF this assms(1,3,4,5)] show ?thesis
    by (intro spent_refused run_auth_spent assms(2))
qed


fun is_Ok :: "('e, 'a) outcome \<Rightarrow> bool" where
  "is_Ok (Ok x) = True"
| "is_Ok _ = False"

lemma is_Ok_fst: "is_Ok (fst r) \<Longrightarrow> \<exists>x w. r = (Ok x, w)"
  by (cases r; cases "fst r") auto

lemma first_random_token: "hex_encode (replicate 32 (char_of (0 :: nat))) \<noteq> ''r''"
  by code_simp

lemma one_account_refresh: "is_Ok (fst (refresh_session toy_env ''r'' 0 one_account))"
  using first_random_token
  by (simp add: refresh_session_def handle_refresh_def op_defs pg_refresh_get_by_token_def
      pg_user_get_by_id_def pg_refresh_revoke_def revoke_where_def handle_generate_tokens_def
      ae_tokens_def new_jwt_token_service_def generate_token_def random_token_def new_refresh_token_def
      new_entity_def pg_refresh_create_def toy_env_def toy_libs_def one_account_def init_world_def
      empty_db_def is_expired_def is_revoked_def refresh_of_row_def user_of_row_fields live_user_def no_tokens_def Let_def)


theorem refresh_single_use_witness:
  "\<exists>w'. fst (refresh_session toy_env ''r'' 0 (run_auth toy_env [Logout ''x'', SignIn ''a'' ''pw'' 0] w')) =
    Err (Sentinel ErrInvalidRefreshToken) \<and> w' = snd (refresh_session toy_env ''r'' 0 one_account)"
proof -
  have d: "distinct (map rt_token (refresh_tokens (db one_account)))"
    by (simp add: one_account_def)
  obtain tp w' where "refresh_session toy_env ''r'' 0 one_account = (Ok tp, w')"
    using is_Ok_fst [OF one_account_refresh] by blast
  with refresh_single_use [OF d quiet_toy_env this] show ?thesis
    by (simp del: run_auth.simps run_auth_command.simps)
qed

theorem logout_all_ends_sessions_witness:
  "\<exists>w'. run_auth_command toy_env (LogoutAll 7) one_account = (Ok (), w') \<and>
    fst (refresh_session toy_env ''r'' 0 (run_auth toy_env [ForgotPassword ''a''] w')) = Err (Sentinel ErrInvalidRefreshToken)"
proof -
  let ?r = "\<lparr>rt_id = 1, rt_user_id = 7, rt_token = ''r'', rt_expires_at = second, rt_revoked_at = None,
       rt_created_at = 0, rt_updated_at = 0, rt_deleted_at = None\<rparr>"
  have "fst (run_auth_command toy_env (LogoutAll 7) one_account) = Ok ()"
    by (simp add: handle_logout_all_def pg_refresh_revoke_all_def revoke_where_def op_defs one_account_def init_world_def)
  then obtain w' where w': "run_auth_command toy_env (LogoutAll 7) one_account = (Ok (), w')"
    by (metis prod.collapse)
  have "distinct (map rt_token (refresh_tokens (db one_account)))" "?r \<in> set (refresh_tokens (db one_account))"
    by (simp_all add: one_account_def)
  from logout_all_ends_sessions [OF this(1) quiet_toy_env this(2) _ _ w'] show ?thesis
    using w' by (simp del: run_auth.simps run_auth_command.simps)
qed

section \<open>A race between two refreshes\<close>

text \<open>
  \<open>Revoke\<close> does not look at the number of rows it changed, so nothing ties the check of a refresh
  to its revocation.
\<close>

definition token_fresh :: "world \<Rightarrow> bool" where
  "token_fresh w \<longleftrightarrow> uuids w (Suc (drawn w)) \<notin> rt_id ` set (refresh_tokens (db w)) \<and>
     hex_encode (rands w (rolled w)) \<notin> rt_token ` set (refresh_tokens (db w))"

lemma refresh_finish_nofault:
  assumes "faults w = []" "e_id u \<in> us_id ` set (users (db w))" "token_fresh w"
    "\<And>c. jwt_sign (ae_libs E) (ae_secret E) c \<noteq> None"
  shows "\<exists>tp w'. refresh_finish E s ttl u w = (Ok tp, w') \<and> tp_refresh_token tp = hex_encode (rands w (rolled w)) \<and>
    faults w' = [] \<and> users (db w') = users (db w) \<and> rands w' = rands w \<and> uuids w' = uuids w \<and>
    rolled w' = Suc (rolled w) \<and> drawn w' = Suc (Suc (drawn w)) \<and>
    rt_id ` set (refresh_tokens (db w')) = insert (uuids w (Suc (drawn w))) (rt_id ` set (refresh_tokens (db w))) \<and>
    rt_token ` set (refresh_tokens (db w')) =
      insert (hex_encode (rands w (rolled w))) (rt_token ` set (refresh_tokens (db w)))"
  using assms
  by (auto simp: refresh_finish_def pg_refresh_revoke_def revoke_where_def handle_generate_tokens_def op_defs
      ae_tokens_def new_jwt_token_service_def generate_token_def random_token_def new_refresh_token_def
      new_entity_def pg_refresh_create_def Let_def token_fresh_def image_key_update_where
      split: option.split)

lemma refresh_check_nofault:
  assumes "faults w = []" "refresh_check pg_user_repo pg_refresh_repo s w = (Ok u, w')"
  shows "w' = w\<lparr>ticks := Suc (ticks w)\<rparr>" "e_id u \<in> us_id ` set (users (db w))"
proof -
  have "w' = w\<lparr>ticks := Suc (ticks w)\<rparr> \<and> e_id u \<in> us_id ` set (users (db w))"
    using assms
    by (auto simp: refresh_check_def op_defs pg_refresh_get_by_token_def pg_user_get_by_id_def is_expired_def
        split: option.splits if_splits dest: find_SomeD)
  then show "w' = w\<lparr>ticks := Suc (ticks w)\<rparr>" "e_id u \<in> us_id ` set (users (db w))" by simp_all
qed

text \<open>The values the next two refreshes draw are new.\<close>

definition draws_fresh :: "world \<Rightarrow> bool" where
  "draws_fresh w \<longleftrightarrow> distinct [uuids w (drawn w + 1), uuids w (drawn w + 3)] \<and>
     {uuids w (drawn w + 1), uuids w (drawn w + 3)} \<inter> rt_id ` set (refresh_tokens (db w)) = {} \<and>
     distinct [hex_encode (rands w (rolled w)), hex_encode (rands w (rolled w + 1))] \<and>
     {hex_encode (rands w (rolled w)), hex_encode (rands w (rolled w + 1))} \<inter>
       rt_token ` set (refresh_tokens (db w)) = {}"

text \<open>
  C37: Two refreshes with the same token that both pass the check before either revokes the token
  both succeed: one refresh token yields two new ones.
\<close>

theorem refresh_race:
  assumes "faults w = []" "refresh_check pg_user_repo pg_refresh_repo s w = (Ok u, w1)"
    "refresh_check pg_user_repo pg_refresh_repo s w1 = (Ok u', w2)" "draws_fresh w"
    "\<And>c. jwt_sign (ae_libs E) (ae_secret E) c \<noteq> None"
  shows "\<exists>tp tp' w3 w4. refresh_finish E s ttl u w2 = (Ok tp, w3) \<and> refresh_finish E s ttl u' w3 = (Ok tp', w4) \<and>
    tp_refresh_token tp \<noteq> tp_refresh_token tp'"
proof -
  have w1: "w1 = w\<lparr>ticks := Suc (ticks w)\<rparr>" "e_id u \<in> us_id ` set (users (db w))"
    using refresh_check_nofault [OF assms(1,2)] by auto
  then have f: "faults w1 = []" using assms(1) by simp
  have w2: "w2 = w\<lparr>ticks := Suc (Suc (ticks w))\<rparr>" "e_id u' \<in> us_id ` set (users (db w))"
    using refresh_check_nofault [OF f assms(3)] w1(1) by auto
  have t: "token_fresh w2" "faults w2 = []" "e_id u \<in> us_id ` set (users (db w2))"
    using assms(1,4) w1(2) by (auto simp: w2(1) draws_fresh_def token_fresh_def)
  obtain tp w3 where A: "refresh_finish E s ttl u w2 = (Ok tp, w3)" "tp_refresh_token tp = hex_encode (rands w (rolled w))"
      "faults w3 = []" "users (db w3) = users (db w)" "rands w3 = rands w" "uuids w3 = uuids w"
      "rolled w3 = Suc (rolled w)" "drawn w3 = Suc (Suc (drawn w))"
      "rt_id ` set (refresh_tokens (db w3)) = insert (uuids w (Suc (drawn w))) (rt_id ` set (refresh_tokens (db w)))"
      "rt_token ` set (refresh_tokens (db w3)) = insert (hex_encode (rands w (rolled w))) (rt_token ` set (refresh_tokens (db w)))"
    using refresh_finish_nofault [OF t(2,3,1) assms(5), of s ttl] by (auto simp: w2(1))
  have "uuids w (drawn w + 3) = uuids w (Suc (Suc (Suc (drawn w))))" by (simp add: numeral_3_eq_3)
  then have t': "token_fresh w3" using assms(4) A(5-10) by (auto simp: draws_fresh_def token_fresh_def)
  have u': "e_id u' \<in> us_id ` set (users (db w3))" using w2(2) A(4) by simp
  obtain tp' w4 where "refresh_finish E s ttl u' w3 = (Ok tp', w4)" "tp_refresh_token tp' = hex_encode (rands w (Suc (rolled w)))"
    using refresh_finish_nofault [OF A(3) u' t' assms(5), of s ttl] A(5,7) by auto
  then show ?thesis using A(1,2) assms(4) by (auto simp: draws_fresh_def)
qed


lemma second_random_token: "hex_encode (replicate 32 (char_of (1 :: nat))) \<noteq> ''r''"
  "hex_encode (replicate 32 (char_of (0 :: nat))) \<noteq> hex_encode (replicate 32 (char_of (1 :: nat)))"
  by code_simp+

theorem refresh_race_witness:
  "\<exists>u u' w1 w2 tp tp' w3 w4. refresh_check pg_user_repo pg_refresh_repo ''r'' one_account = (Ok u, w1) \<and>
     refresh_check pg_user_repo pg_refresh_repo ''r'' w1 = (Ok u', w2) \<and>
     refresh_finish toy_env ''r'' 0 u w2 = (Ok tp, w3) \<and> refresh_finish toy_env ''r'' 0 u' w3 = (Ok tp', w4) \<and>
     tp_refresh_token tp \<noteq> tp_refresh_token tp'"
proof -
  note run = refresh_check_def op_defs pg_refresh_get_by_token_def pg_user_get_by_id_def is_expired_def
    is_revoked_def refresh_of_row_def one_account_def init_world_def empty_db_def live_user_def
  obtain u w1 where a: "refresh_check pg_user_repo pg_refresh_repo ''r'' one_account = (Ok u, w1)"
    by (simp add: run)
  have f: "faults one_account = []" by (simp add: one_account_def init_world_def)
  obtain u' w2 where b: "refresh_check pg_user_repo pg_refresh_repo ''r'' w1 = (Ok u', w2)"
    unfolding refresh_check_nofault(1) [OF f a] by (simp add: run)
  have d: "draws_fresh one_account"
    using first_random_token second_random_token
    by (simp add: draws_fresh_def one_account_def init_world_def)
  have j: "jwt_sign (ae_libs toy_env) (ae_secret toy_env) c \<noteq> None" for c
    by (simp add: toy_env_def toy_libs_def)
  from refresh_race [OF f a b d j, of 0] a b show ?thesis by blast
qed

end
