(* ===== verification/Auth_Recovery.thy ===== *)
theory Auth_Recovery
  imports Auth_Sessions
begin

text \<open>
  The two mails of the authentication module: the verification token a registration sends and the
  reset token a forgotten password sends. What a stored token is good for, and what the endpoints
  reveal about which addresses have an account.
\<close>

section \<open>A bus that only sends mail\<close>

text \<open>Mail, log lines and notes on the span of the request, with or without an error.\<close>

definition mailing :: "(world, unit) gop \<Rightarrow> bool" where
  "mailing m \<longleftrightarrow> (\<forall>w. \<exists>r ms ls sp. m w = (r, w\<lparr>outbox := ms, logs := ls, active_span := sp\<rparr>) \<and> (\<forall>p. r \<noteq> Panic p))"

definition mail_only :: "publisher \<Rightarrow> bool" where
  "mail_only pub \<longleftrightarrow> (\<forall>ev. mailing (pub ev))"

lemma mailingI:
  "(\<And>w. \<exists>r ms ls sp. m w = (r, w\<lparr>outbox := ms, logs := ls, active_span := sp\<rparr>) \<and> (\<forall>p. r \<noteq> Panic p)) \<Longrightarrow> mailing m"
  by (simp add: mailing_def)

lemma mailing_basic: "mailing (retM ())" "mailing (errM e)" "mailing (logM lv msg fs)" "mailing (spanM f)"
proof -
  have w: "w = w\<lparr>outbox := outbox w, logs := logs w, active_span := active_span w\<rparr>" for w :: world by simp
  show "mailing (retM ())" "mailing (errM e)"
    unfolding mailing_def retM_def errM_def using w by blast+
  have "w\<lparr>logs := ls\<rparr> = w\<lparr>outbox := outbox w, logs := ls, active_span := active_span w\<rparr>"
    "w\<lparr>active_span := sp\<rparr> = w\<lparr>outbox := outbox w, logs := logs w, active_span := sp\<rparr>" for w :: world and ls sp by simp_all
  then show "mailing (logM lv msg fs)" "mailing (spanM f)"
    unfolding mailing_def logM_def spanM_def modifyM_def by blast+
qed

lemma mailing_try:
  assumes "mailing m" "\<And>r. mailing (f r)"
  shows "mailing (tryM m f)"
proof (rule mailingI)
  fix w
  obtain r ms ls sp where m: "m w = (r, w\<lparr>outbox := ms, logs := ls, active_span := sp\<rparr>)" "\<forall>p. r \<noteq> Panic p"
    using assms(1) unfolding mailing_def by blast
  obtain r' ms' ls' sp' where f: "f x (w\<lparr>outbox := ms, logs := ls, active_span := sp\<rparr>) =
      (r', w\<lparr>outbox := ms', logs := ls', active_span := sp'\<rparr>)" "\<forall>p. r' \<noteq> Panic p"
    if "x = (case r of Ok a \<Rightarrow> Inr a | Err e \<Rightarrow> Inl e | Panic p \<Rightarrow> Inr ())" for x
    using assms(2) [of "case r of Ok a \<Rightarrow> Inr a | Err e \<Rightarrow> Inl e | Panic p \<Rightarrow> Inr ()"] unfolding mailing_def
    by (auto dest: spec [of _ "w\<lparr>outbox := ms, logs := ls, active_span := sp\<rparr>"])
  show "\<exists>r ms ls sp. tryM m f w = (r, w\<lparr>outbox := ms, logs := ls, active_span := sp\<rparr>) \<and> (\<forall>p. r \<noteq> Panic p)"
    using m f by (cases r) (auto simp: tryM_def)
qed

lemma mailing_bind: "mailing m \<Longrightarrow> (\<And>u. mailing (f u)) \<Longrightarrow> mailing (bindM m f)"
proof -
  assume "mailing m" "\<And>u. mailing (f u)"
  then have "mailing (tryM m (\<lambda>r. case r of Inl e \<Rightarrow> errM e | Inr u \<Rightarrow> f u))"
    by (intro mailing_try) (simp_all add: mailing_basic split: sum.split)
  moreover have "tryM m (\<lambda>r. case r of Inl e \<Rightarrow> errM e | Inr u \<Rightarrow> f u) = bindM m f"
    by (rule ext) (simp add: tryM_def bindM_def errM_def split: prod.split outcome.split)
  ultimately show "mailing (bindM m f)" by simp
qed

text \<open>The bus in memory with the handlers of the service and a mailer that only sends mail.\<close>

definition mailer_only :: "emailer \<Rightarrow> bool" where
  "mailer_only m \<longleftrightarrow> (\<forall>e n t. mailing (send_verification m e n t)) \<and> (\<forall>e n t. mailing (send_password_reset m e n t)) \<and>
     (\<forall>e n. mailing (send_welcome m e n))"

lemma mail_only_app:
  assumes "mailer_only m"
  shows "mail_only (app_publish L m)"
proof -
  have h: "mailing (h ev)" if "h \<in> set (app_handlers L m ty)" for h ev ty
    using that assms
    by (auto simp: app_handlers_def register_email_handlers_def register_todo_handlers_def subscribe_def new_bus_def
        on_created_def on_updated_def on_completed_def on_deleted_def on_user_registered_def on_email_verified_def
        on_password_reset_requested_def mailer_only_def mailing_basic
        split: if_splits payload_ref.splits payload.splits)
  have "mailing (forM hs (\<lambda>h. h ev))" if "\<forall>h \<in> set hs. mailing (h ev)" for hs :: "handler list" and ev
    using that by (induction hs) (auto simp: mailing_basic intro!: mailing_bind)
  then have "mailing (publish_memory (app_handlers L m) ev)" for ev
    using h unfolding publish_memory_def by blast
  then show ?thesis
    unfolding mail_only_def app_publish_def publish_logged_def
    by (intro allI mailing_try) (auto intro!: mailing_bind mailing_basic split: sum.split)
qed

lemma mail_only_ignore:
  assumes "mail_only pub"
  shows "\<exists>ms ls sp. ignoreM (pub ev) w = (Ok (), w\<lparr>outbox := ms, logs := ls, active_span := sp\<rparr>)"
proof -
  obtain r ms ls sp where "pub ev w = (r, w\<lparr>outbox := ms, logs := ls, active_span := sp\<rparr>)" "\<forall>p. r \<noteq> Panic p"
    using assms unfolding mail_only_def mailing_def by blast
  then show ?thesis by (cases r) (auto simp: ignoreM_def tryM_def retM_def)
qed

lemma ready_env [simp]:
  "accounts_ready (w\<lparr>outbox := ms, logs := ls, active_span := sp\<rparr>) = accounts_ready w" "accounts_ready (w\<lparr>ticks := n\<rparr>) = accounts_ready w"
  "accounts_ready (w\<lparr>rolled := n\<rparr>) = accounts_ready w" "accounts_ready (w\<lparr>drawn := n\<rparr>) = accounts_ready w"
  by (simp_all add: accounts_ready_def)

lemma account_env [simp]:
  "account (w\<lparr>outbox := ms, logs := ls, active_span := sp\<rparr>) = account w" "account (w\<lparr>ticks := n\<rparr>) = account w"
  "account (w\<lparr>rolled := n\<rparr>) = account w" "account (w\<lparr>drawn := n\<rparr>) = account w"
  by (simp_all add: account_def fun_eq_iff)

section \<open>Stored tokens\<close>

text \<open>The tokens of type \<open>ty\<close> with hash \<open>h\<close> are one token of the user \<open>i\<close>, good until \<open>exp\<close>.\<close>

definition token_for :: "database \<Rightarrow> string \<Rightarrow> string \<Rightarrow> uuid \<Rightarrow> time \<Rightarrow> bool" where
  "token_for d ty h i exp \<longleftrightarrow>
     (i, ty, Some h, Some exp, None) \<in> token_key ` set (user_tokens d) \<and>
     (\<forall>t \<in> set (user_tokens d). ut_token_type t = ty \<and> ut_token_hash t = Some h \<longrightarrow>
        token_key t = (i, ty, Some h, Some exp, None))"

definition token_unused :: "database \<Rightarrow> string \<Rightarrow> string \<Rightarrow> bool" where
  "token_unused d ty h \<longleftrightarrow> (\<forall>t \<in> set (user_tokens d). \<not> (ut_token_type t = ty \<and> ut_token_hash t = Some h))"

lemma token_for_append:
  assumes "map token_key ts = [(i, ty, Some h, Some exp, None)]" "token_unused d ty h"
    "user_tokens d' = user_tokens d @ ts"
  shows "token_for d' ty h i exp"
proof -
  obtain t where t: "ts = [t]" "token_key t = (i, ty, Some h, Some exp, None)"
    using assms(1) by (auto simp: map_eq_Cons_conv)
  then have "(i, ty, Some h, Some exp, None) \<in> token_key ` set (user_tokens d')"
    using assms(3) by (metis image_eqI in_set_conv_decomp append_assoc)
  then show ?thesis using assms(2,3) t by (auto simp: token_for_def token_unused_def)
qed

lemma token_join_found:
  assumes "accounts_ok d" "token_for d ty h i exp" "now < exp"
    "r \<in> set (users d)" "us_id r = i" "live_user r"
  shows "\<exists>t. token_join ty h now d = Some (r, t) \<and> ut_token_hash t = Some h \<and> ut_expires_at t = Some exp"
proof -
  let ?P = "\<lambda>(r, t). ut_user_id t = us_id r \<and> token_matches ty h now t \<and> live_user r"
  obtain t where t: "t \<in> set (user_tokens d)" "token_key t = (i, ty, Some h, Some exp, None)"
    using assms(2) by (auto simp: token_for_def)
  then have "?P (r, t)" using assms(3,5,6) by (simp add: token_matches_def token_key_def)
  moreover have "(r, t) \<in> set (List.product (users d) (user_tokens d))" using t(1) assms(4) by simp
  ultimately have "find ?P (List.product (users d) (user_tokens d)) \<noteq> None"
    unfolding find_None_all by blast
  then obtain q s where f: "find ?P (List.product (users d) (user_tokens d)) = Some (q, s)" by fastforce
  have m: "q \<in> set (users d)" "s \<in> set (user_tokens d)" "ut_user_id s = us_id q" "token_matches ty h now s"
    using find_SomeD [OF f] by auto
  have s: "token_key s = (i, ty, Some h, Some exp, None)"
    using m(2,4) assms(2) by (auto simp: token_for_def token_matches_def)
  then have "us_id q = us_id r" using m(3) assms(5) by (simp add: token_key_def)
  moreover have "distinct (map us_id (users d))" using assms(1) by (simp add: accounts_ok_def)
  ultimately have "q = r" using distinct_key_unique m(1) assms(4) by metis
  then show ?thesis using f s by (auto simp: token_join_def token_key_def)
qed

lemma get_by_reset_token:
  assumes "accounts_ready w" "account w e = Some u" "token_for (db w) ''password_reset'' h (e_id u) exp"
    "clock w (ticks w) < exp"
  shows "pg_user_get_by_reset_token h w =
    (Ok (u\<lparr>u_reset_token := Some h, u_reset_expires := Some exp\<rparr>), w\<lparr>ticks := Suc (ticks w)\<rparr>)"
proof -
  obtain r where r: "find (\<lambda>r. us_email r = e \<and> live_user r) (users (db w)) = Some r"
      "u = user_of_row (db w) r no_tokens"
    using assms(2) unfolding account_row by blast
  note rm = find_SomeD [OF r(1)]
  obtain t where "token_join ''password_reset'' h (clock w (ticks w)) (db w) = Some (r, t)"
      "ut_token_hash t = Some h" "ut_expires_at t = Some exp"
    using token_join_found [OF _ assms(3,4), of r] rm r(2) assms(1) by (auto simp: accounts_ready_def)
  then show ?thesis using assms(1) r(2)
    by (simp add: pg_user_get_by_reset_token_def op_defs accounts_ready_def user_of_row_fields no_tokens_def Let_def)
qed

lemma get_by_verify_token:
  assumes "accounts_ready w" "account w e = Some u" "token_for (db w) ''email_verification'' h (e_id u) exp"
    "clock w (ticks w) < exp"
  shows "pg_user_get_by_verify_token h w =
    (Ok (u\<lparr>u_verify_token := Some h, u_verify_expires := Some exp\<rparr>), w\<lparr>ticks := Suc (ticks w)\<rparr>)"
proof -
  obtain r where r: "find (\<lambda>r. us_email r = e \<and> live_user r) (users (db w)) = Some r"
      "u = user_of_row (db w) r no_tokens"
    using assms(2) unfolding account_row by blast
  note rm = find_SomeD [OF r(1)]
  obtain t where "token_join ''email_verification'' h (clock w (ticks w)) (db w) = Some (r, t)"
      "ut_token_hash t = Some h" "ut_expires_at t = Some exp"
    using token_join_found [OF _ assms(3,4), of r] rm r(2) assms(1) by (auto simp: accounts_ready_def)
  then show ?thesis using assms(1) r(2)
    by (simp add: pg_user_get_by_verify_token_def op_defs accounts_ready_def user_of_row_fields no_tokens_def Let_def)
qed

text \<open>An update of a stored account, in the form the handlers use it.\<close>

lemma update_run:
  assumes "accounts_ready w" "account w e = Some u0" "u_email u = e" "e_id u = e_id u0"
    "e_created_at u = e_created_at u0" "e_deleted_at u = e_deleted_at u0"
  shows "\<exists>w' ts now. pg_user_update u w = (Ok (), w') \<and> accounts_ready w' \<and> clock w' = clock w \<and>
    rands w' = rands w \<and> rolled w' = rolled w \<and> outbox w' = outbox w \<and> map token_key ts = new_token_keys u \<and>
    user_tokens (db w') = user_tokens (db w) @ ts \<and> refresh_tokens (db w') = refresh_tokens (db w) \<and>
    account w' = (account w)(e \<mapsto> u\<lparr>e_updated_at := now, u_verify_token := None,
          u_verify_expires := None, u_reset_token := None, u_reset_expires := None\<rparr>)"
proof -
  from pg_update_account [OF assms(1) assms(2) [folded assms(3)] assms(4-6)]
  obtain n ts now where "let w' = w\<lparr>ticks := n,
        db := (user_written u now (db w))\<lparr>user_tokens := user_tokens (db w) @ ts\<rparr>\<rparr>
      in pg_user_update u w = (Ok (), w') \<and> accounts_ready w' \<and> ticks w < n \<and> map token_key ts = new_token_keys u \<and>
        account w' = (account w)(u_email u \<mapsto> u\<lparr>e_updated_at := now, u_verify_token := None,
          u_verify_expires := None, u_reset_token := None, u_reset_expires := None\<rparr>)" by blast
  then show ?thesis
    using assms(3) unfolding Let_def
    by (intro exI [of _ "w\<lparr>ticks := n,
        db := (user_written u now (db w))\<lparr>user_tokens := user_tokens (db w) @ ts\<rparr>\<rparr>"] exI [of _ ts] exI [of _ now])
      (simp add: user_written_def)
qed


section \<open>Resetting a password\<close>

lemma revoke_all_run:
  assumes "accounts_ready w"
  shows "\<exists>w'. pg_refresh_revoke_all i w = (Ok (), w') \<and> accounts_ready w' \<and> clock w' = clock w \<and>
    rands w' = rands w \<and> account w' = account w \<and> user_tokens (db w') = user_tokens (db w) \<and>
    (\<forall>r \<in> set (refresh_tokens (db w')). rt_user_id r = i \<and> rt_deleted_at r = None \<longrightarrow> rt_revoked_at r \<noteq> None)"
proof -
  let ?f = "\<lambda>r. r\<lparr>rt_revoked_at := Some (clock w (ticks w)), rt_updated_at := clock w (ticks w)\<rparr>"
  let ?P = "\<lambda>r. rt_user_id r = i \<and> rt_deleted_at r = None \<and> rt_revoked_at r = None"
  let ?w = "w\<lparr>ticks := Suc (ticks w), db := (db w)\<lparr>refresh_tokens := update_where ?P ?f (refresh_tokens (db w))\<rparr>\<rparr>"
  have run: "pg_refresh_revoke_all i w = (Ok (), ?w)"
    using assms by (simp add: pg_refresh_revoke_all_def revoke_where_def op_defs accounts_ready_def)
  have "accounts_ok (db (snd (pg_refresh_revoke_all i w)))"
    using keepsD [OF keeps_refresh_writes(2), of w i] assms by (simp add: on_db_def accounts_ready_def)
  then have "accounts_ready ?w" using assms unfolding run by (simp add: accounts_ready_def)
  moreover have "account ?w = account w"
    by (simp add: account_def user_of_row_fields Let_def fun_eq_iff)
  moreover have "\<forall>r \<in> set (refresh_tokens (db ?w)). rt_user_id r = i \<and> rt_deleted_at r = None \<longrightarrow> rt_revoked_at r \<noteq> None"
  proof
    fix r
    assume r: "r \<in> set (refresh_tokens (db ?w))"
    have e: "refresh_tokens (db ?w) = update_where ?P ?f (refresh_tokens (db w))" by simp
    from r [unfolded e set_update_where] obtain q where "r = (if ?P q then ?f q else q)" by (rule imageE)
    then show "rt_user_id r = i \<and> rt_deleted_at r = None \<longrightarrow> rt_revoked_at r \<noteq> None" by (cases "?P q") auto
  qed
  ultimately show ?thesis by (intro exI [of _ ?w]) (simp add: run)
qed

lemma reset_run:
  assumes "accounts_ready w" "account w e = Some u"
    "token_for (db w) ''password_reset'' (hash_token L tok) (e_id u) exp" "\<And>m. clock w m < exp"
    "bcrypt_hash L pw (rands w (rolled w)) = Some hsh"
  shows "\<exists>w' now. handle_reset_password L pg_user_repo pg_refresh_repo tok pw w = (Ok (), w') \<and>
    accounts_ready w' \<and> clock w' = clock w \<and> rands w' = rands w \<and> user_tokens (db w') = user_tokens (db w) \<and>
    account w' = (account w)(e \<mapsto> u\<lparr>u_password := hsh, e_updated_at := now\<rparr>) \<and>
    (\<forall>r \<in> set (refresh_tokens (db w')). rt_user_id r = e_id u \<and> rt_deleted_at r = None \<longrightarrow> rt_revoked_at r \<noteq> None)"
proof -
  define w1 where "w1 = w\<lparr>ticks := Suc (Suc (ticks w)), rolled := Suc (rolled w)\<rparr>"
  have w1: "accounts_ready w1" "account w1 = account w" "clock w1 = clock w" "rands w1 = rands w" "db w1 = db w"
    using assms(1) by (simp_all add: w1_def accounts_ready_def account_def fun_eq_iff)
  obtain w2 where w2: "pg_refresh_revoke_all (e_id u) w1 = (Ok (), w2)" "accounts_ready w2" "clock w2 = clock w1"
      "rands w2 = rands w1" "account w2 = account w1" "user_tokens (db w2) = user_tokens (db w1)"
      "\<forall>r \<in> set (refresh_tokens (db w2)). rt_user_id r = e_id u \<and> rt_deleted_at r = None \<longrightarrow> rt_revoked_at r \<noteq> None"
    using revoke_all_run [OF w1(1)] by blast
  note same = account_same [OF assms(2)]
  have ex: "u_verify_expires u = None" "u_reset_expires u = None"
    using pg_accounts.acct_plain [OF assms(2)] by simp_all
  let ?u = "u\<lparr>u_password := hsh, u_reset_token := None, u_reset_expires := None\<rparr>"
  have a2: "account w2 e = Some u" using w2(5) w1(2) assms(2) by simp
  obtain w3 ts now where w3: "pg_user_update ?u w2 = (Ok (), w3)" "accounts_ready w3" "clock w3 = clock w2"
      "rands w3 = rands w2" "map token_key ts = new_token_keys ?u" "user_tokens (db w3) = user_tokens (db w2) @ ts"
      "refresh_tokens (db w3) = refresh_tokens (db w2)"
      "account w3 = (account w2)(e \<mapsto> ?u\<lparr>e_updated_at := now, u_verify_token := None,
          u_verify_expires := None, u_reset_token := None, u_reset_expires := None\<rparr>)"
    using update_run [OF w2(2) a2, of ?u] same by auto
  have ts: "ts = []" using w3(5) same(2) by (simp add: new_token_keys_def)
  have eq: "?u\<lparr>e_updated_at := now, u_verify_token := None, u_verify_expires := None,
      u_reset_token := None, u_reset_expires := None\<rparr> = u\<lparr>u_password := hsh, e_updated_at := now\<rparr>"
    using same ex by (cases u) simp
  have "account w3 = (account w)(e \<mapsto> u\<lparr>u_password := hsh, e_updated_at := now\<rparr>)"
    using w3(8) [unfolded eq] w2(5) w1(2) by simp
  moreover have "handle_reset_password L pg_user_repo pg_refresh_repo tok pw w = (Ok (), w3)"
    using get_by_reset_token [OF assms(1-3) assms(4)] assms(1,5) w2(1) w3(1)
      assms(4) [of "Suc (ticks w)", THEN less_imp_le, THEN leD]
    by (simp add: handle_reset_password_def tryM_def bindM_def past_def nowM_def retM_def ignoreM_def
        accounts_ready_def w1_def Let_def not_less less_imp_le)
  ultimately show ?thesis using w3 w2 w1 ts by (intro exI [of _ w3] exI [of _ now]) simp
qed

text \<open>
  C14: A reset with a stored, unexpired token sets the password: login with the new password
  succeeds for an active, verified account that is not locked, and every refresh token of the user
  is revoked.
\<close>

theorem reset_sets_password:
  assumes "accounts_ready w" "account w e = Some u" "bcrypt_law L"
    "token_for (db w) ''password_reset'' (hash_token L tok) (e_id u) exp" "\<And>m. clock w m < exp"
    "bcrypt_hash L pw (rands w (rolled w)) \<noteq> None"
    "u_is_active u" "u_email_verified u" "u_locked_until u = None"
  shows "\<exists>w' u'. handle_reset_password L pg_user_repo pg_refresh_repo tok pw w = (Ok (), w') \<and>
    fst (handle_login L pg_user_repo e pw w') = Ok u' \<and> e_id u' = e_id u \<and>
    (\<forall>r \<in> set (refresh_tokens (db w')). rt_user_id r = e_id u \<and> rt_deleted_at r = None \<longrightarrow> rt_revoked_at r \<noteq> None)"
proof -
  obtain hsh where h: "bcrypt_hash L pw (rands w (rolled w)) = Some hsh" using assms(6) by auto
  then have c: "bcrypt_check L hsh pw" using assms(3) by (simp add: bcrypt_law_def)
  obtain w' now where w': "handle_reset_password L pg_user_repo pg_refresh_repo tok pw w = (Ok (), w')"
      "accounts_ready w'" "account w' = (account w)(e \<mapsto> u\<lparr>u_password := hsh, e_updated_at := now\<rparr>)"
      "\<forall>r \<in> set (refresh_tokens (db w')). rt_user_id r = e_id u \<and> rt_deleted_at r = None \<longrightarrow> rt_revoked_at r \<noteq> None"
    using reset_run [OF assms(1,2,4,5) h] by blast
  obtain w'' n t where "handle_login L pg_user_repo e pw w' = (login_verdict L w' pw (account w' e), w'')"
    using pg_accounts.login_run [OF w'(2)] by blast
  then have "fst (handle_login L pg_user_repo e pw w') = Ok (unlock_user (u\<lparr>u_password := hsh, e_updated_at := now\<rparr>))"
    using w'(3) c assms(7-9) by (simp add: login_verdict_def lock_passed_def)
  then show ?thesis using w'(1,4) by (auto simp: unlock_user_def)
qed

text \<open>
  C38: No reset consumes its token: until it expires the same token resets the password again and
  again.
\<close>

theorem reset_token_reusable:
  assumes "accounts_ready w" "account w e = Some u"
    "token_for (db w) ''password_reset'' (hash_token L tok) (e_id u) exp" "\<And>m. clock w m < exp"
    "\<And>p s. bcrypt_hash L p s \<noteq> None"
  shows "\<exists>w1 w2. handle_reset_password L pg_user_repo pg_refresh_repo tok pw1 w = (Ok (), w1) \<and>
    handle_reset_password L pg_user_repo pg_refresh_repo tok pw2 w1 = (Ok (), w2) \<and>
    token_for (db w2) ''password_reset'' (hash_token L tok) (e_id u) exp"
proof -
  obtain h1 where h1: "bcrypt_hash L pw1 (rands w (rolled w)) = Some h1" using assms(5) by blast
  obtain w1 now where w1: "handle_reset_password L pg_user_repo pg_refresh_repo tok pw1 w = (Ok (), w1)"
      "accounts_ready w1" "clock w1 = clock w" "user_tokens (db w1) = user_tokens (db w)"
      "account w1 = (account w)(e \<mapsto> u\<lparr>u_password := h1, e_updated_at := now\<rparr>)"
    using reset_run [OF assms(1-4) h1] by blast
  let ?u = "u\<lparr>u_password := h1, e_updated_at := now\<rparr>"
  have a: "account w1 e = Some ?u" "token_for (db w1) ''password_reset'' (hash_token L tok) (e_id ?u) exp"
    using w1(4,5) assms(3) by (simp_all add: token_for_def)
  obtain h2 where h2: "bcrypt_hash L pw2 (rands w1 (rolled w1)) = Some h2" using assms(5) by blast
  obtain w2 where "handle_reset_password L pg_user_repo pg_refresh_repo tok pw2 w1 = (Ok (), w2)"
      "user_tokens (db w2) = user_tokens (db w1)"
    using reset_run [OF w1(2) a _ h2] w1(3) assms(4) by auto
  then show ?thesis using w1(1,4) assms(3) by (auto simp: token_for_def)
qed


section \<open>A forgotten password\<close>

lemma mail_env [simp]:
  "faults (w\<lparr>outbox := ms, logs := ls, active_span := sp\<rparr>) = faults w" "db (w\<lparr>outbox := ms, logs := ls, active_span := sp\<rparr>) = db w"
  by simp_all

definition reset_requested :: "user \<Rightarrow> string \<Rightarrow> event" where
  "reset_requested u tok = \<lparr>ev_type = PasswordResetRequestedEvent,
     ev_payload = ByValue (PasswordResetRequested (u_email u) (u_name u) tok)\<rparr>"

text \<open>The run up to the event, which carries the token, and the event as the last thing it does.\<close>

lemma forgot_run:
  assumes "accounts_ready w" "account w e = Some u" "mail_only pub"
  shows "\<exists>w' ts now. handle_forgot_password L pg_user_repo pub e w = (Ok (), w') \<and> accounts_ready w' \<and>
    clock w' = clock w \<and> rands w' = rands w \<and> rolled w' = Suc (rolled w) \<and>
    user_tokens (db w') = user_tokens (db w) @ ts \<and>
    map token_key ts = [(e_id u, ''password_reset'', Some (hash_token L (hex_encode (rands w (rolled w)))),
      Some (clock w (ticks w) + hour), None)] \<and>
    account w' = (account w)(e \<mapsto> u\<lparr>e_updated_at := now\<rparr>) \<and>
    (\<exists>v. outbox v = outbox w \<and> ignoreM (pub (reset_requested u (hex_encode (rands w (rolled w))))) v = (Ok (), w'))"
proof -
  define w1 where "w1 = w\<lparr>rolled := Suc (rolled w), ticks := Suc (ticks w)\<rparr>"
  have w1: "accounts_ready w1" "account w1 = account w" "clock w1 = clock w" "rands w1 = rands w" "db w1 = db w"
      "rolled w1 = Suc (rolled w)" "outbox w1 = outbox w"
    using assms(1) by (simp_all add: w1_def accounts_ready_def account_def fun_eq_iff)
  note same = account_same [OF assms(2)]
  note plain = pg_accounts.acct_plain [OF assms(2)]
  let ?h = "hash_token L (hex_encode (rands w (rolled w)))" and ?x = "clock w (ticks w) + hour"
  let ?u = "u\<lparr>u_reset_token := Some ?h, u_reset_expires := Some ?x\<rparr>"
  have a1: "account w1 e = Some u" using w1(2) assms(2) by simp
  obtain w2 ts now where w2: "pg_user_update ?u w1 = (Ok (), w2)" "accounts_ready w2" "clock w2 = clock w1"
      "rands w2 = rands w1" "rolled w2 = rolled w1" "outbox w2 = outbox w1" "map token_key ts = new_token_keys ?u"
      "user_tokens (db w2) = user_tokens (db w1) @ ts"
      "account w2 = (account w1)(e \<mapsto> ?u\<lparr>e_updated_at := now, u_verify_token := None,
          u_verify_expires := None, u_reset_token := None, u_reset_expires := None\<rparr>)"
    using update_run [OF w1(1) a1, of ?u] same by auto
  have eq: "?u\<lparr>e_updated_at := now, u_verify_token := None, u_verify_expires := None,
      u_reset_token := None, u_reset_expires := None\<rparr> = u\<lparr>e_updated_at := now\<rparr>"
    using same plain by (cases u) simp
  let ?ev = "\<lparr>ev_type = PasswordResetRequestedEvent,
     ev_payload = ByValue (PasswordResetRequested (u_email u) (u_name u) (hex_encode (rands w (rolled w))))\<rparr>"
  obtain ms ls sp where p: "ignoreM (pub ?ev) w2 = (Ok (), w2\<lparr>outbox := ms, logs := ls, active_span := sp\<rparr>)"
    using mail_only_ignore [OF assms(3)] by blast
  have "handle_forgot_password L pg_user_repo pub e w = (Ok (), w2\<lparr>outbox := ms, logs := ls, active_span := sp\<rparr>)"
    using account_found [OF assms(1,2)] assms(1) w2(1) p
    by (simp add: handle_forgot_password_def tryM_def bindM_def random_token_def retM_def nowM_def
        accounts_ready_def Let_def w1_def)
  moreover have "map token_key ts = [(e_id u, ''password_reset'', Some ?h, Some ?x, None)]"
    using w2(7) same(2) by (simp add: new_token_keys_def)
  moreover have "account w2 = (account w)(e \<mapsto> u\<lparr>e_updated_at := now\<rparr>)"
    using w2(9) [unfolded eq] w1(2) by simp
  moreover have "\<exists>v. outbox v = outbox w \<and> ignoreM (pub ?ev) v = (Ok (), w2\<lparr>outbox := ms, logs := ls, active_span := sp\<rparr>)"
    using p w2(6) w1(7) by (intro exI [of _ w2]) simp
  ultimately show ?thesis
    using w2(2-5,8) w1 unfolding reset_requested_def
    by (intro exI [of _ "w2\<lparr>outbox := ms, logs := ls, active_span := sp\<rparr>"] exI [of _ ts] exI [of _ now]) simp
qed

text \<open>
  C29: The answer to a forgotten password does not depend on whether the address has an account:
  without faults it is a success with no data, whatever the delivery of the mail does.
\<close>

theorem forgot_password_reveals_nothing:
  assumes "accounts_ready w" "mail_only pub"
  shows "fst (handle_forgot_password L pg_user_repo pub e w) = Ok ()"
proof (cases "account w e")
  case None
  then show ?thesis using account_missing [OF assms(1)]
    by (simp add: handle_forgot_password_def tryM_def retM_def)
next
  case (Some u)
  obtain w' where "handle_forgot_password L pg_user_repo pub e w = (Ok (), w')"
    using forgot_run [OF assms(1) Some assms(2), of L] by blast
  then show ?thesis by simp
qed

text \<open>A bus for the witnesses, and an environment in which nothing is delivered.\<close>

lemma mail_only_silent: "mail_only (\<lambda>ev. retM ())"
  by (simp add: mail_only_def mailing_basic)

text \<open>The account of \<open>one_account\<close> after it asked for a reset token with the hash of \<open>t\<close>.\<close>

definition reset_pending :: world where
  "reset_pending = one_account\<lparr>db := (db one_account)\<lparr>user_tokens :=
     [\<lparr>ut_user_id = 7, ut_token_type = ''password_reset'', ut_token_hash = Some (hash_token toy_libs ''t''),
       ut_expires_at = Some second, ut_consumed_at = None, ut_created_at = 0\<rparr>]\<rparr>\<rparr>"

lemma reset_pending_facts:
  "accounts_ready reset_pending" "account reset_pending ''a'' = Some sample_user"
  "token_for (db reset_pending) ''password_reset'' (hash_token toy_libs ''t'') (e_id sample_user) second"
  "clock reset_pending m < second"
  by (simp_all add: reset_pending_def one_account_def init_world_def empty_db_def accounts_ready_def accounts_ok_def
      account_def live_user_def user_of_row_fields no_tokens_def sample_user_def Let_def token_for_def token_key_def)

theorem reset_sets_password_witness:
  "\<exists>w'. handle_reset_password toy_libs pg_user_repo pg_refresh_repo ''t'' ''new'' reset_pending = (Ok (), w') \<and>
    (\<exists>u'. fst (handle_login toy_libs pg_user_repo ''a'' ''new'' w') = Ok u')"
proof -
  have "bcrypt_hash toy_libs ''new'' (rands reset_pending (rolled reset_pending)) \<noteq> None"
    "u_is_active sample_user" "u_email_verified sample_user" "u_locked_until sample_user = None"
    by (simp_all add: toy_libs_def sample_user_def)
  from reset_sets_password [OF reset_pending_facts(1,2) bcrypt_law_toy reset_pending_facts(3,4) this]
  show ?thesis by blast
qed

theorem reset_token_reusable_witness:
  "\<exists>w1 w2. handle_reset_password toy_libs pg_user_repo pg_refresh_repo ''t'' ''x'' reset_pending = (Ok (), w1) \<and>
    handle_reset_password toy_libs pg_user_repo pg_refresh_repo ''t'' ''y'' w1 = (Ok (), w2)"
proof -
  have "bcrypt_hash toy_libs p s \<noteq> None" for p s by (simp add: toy_libs_def)
  from reset_token_reusable [OF reset_pending_facts this] show ?thesis by blast
qed

theorem forgot_password_reveals_nothing_witness:
  "fst (handle_forgot_password toy_libs pg_user_repo (\<lambda>ev. retM ()) ''a'' one_account) =
   fst (handle_forgot_password toy_libs pg_user_repo (\<lambda>ev. retM ()) ''nobody'' one_account)"
  using forgot_password_reveals_nothing [OF one_account_facts(1) mail_only_silent] by simp

section \<open>Registration\<close>

lemma user_create_nofault:
  assumes "accounts_ready w" "e_id u \<notin> us_id ` set (users (db w))" "u_email u \<notin> us_email ` set (users (db w))"
    "\<not> u_email_verified u" "u_verify_token u = None" "u_reset_token u = None"
  shows "\<exists>d. pg_user_create u w = (Ok (), w\<lparr>db := d\<rparr>) \<and> accounts_ok d \<and> user_tokens d = user_tokens (db w) \<and>
    us_email ` set (users d) = insert (u_email u) (us_email ` set (users (db w))) \<and>
    account (w\<lparr>db := d\<rparr>) (u_email u) = Some (u\<lparr>e_deleted_at := None, u_verify_token := None,
      u_verify_expires := None, u_reset_token := None, u_reset_expires := None\<rparr>)"
proof -
  define d where "d = (db w)\<lparr>
     users := users (db w) @ [\<lparr>us_id = e_id u, us_email = u_email u, us_password = u_password u, us_name = u_name u,
          us_is_active = u_is_active u, us_created_at = e_created_at u, us_updated_at = e_updated_at u,
          us_deleted_at = None, us_tenant_id = '''', us_email_verified_at = None\<rparr>],
     user_credentials := user_credentials (db w) @
        [\<lparr>uc_user_id = e_id u, uc_password_hash = u_password u, uc_last_login_at = None\<rparr>],
     user_security := user_security (db w) @
        [\<lparr>se_user_id = e_id u, se_login_attempts = u_failed_attempts u, se_locked_until = u_locked_until u\<rparr>]\<rparr>"
  have f: "faults w = []" and ok: "accounts_ok (db w)" using assms(1) by (simp_all add: accounts_ready_def)
  have fk: "e_id u \<notin> uc_user_id ` set (user_credentials (db w))" "e_id u \<notin> se_user_id ` set (user_security (db w))"
    using ok assms(2) by (auto simp: accounts_ok_def)
  have run: "pg_user_create u w = (Ok (), w\<lparr>db := d\<rparr>)"
    using f assms fk
    by (simp add: pg_user_create_def txM_def op_defs sql_insert_user_def sql_insert_credentials_def
        sql_insert_security_def insert_tokens_def d_def)
  have "accounts_ok d"
    using keepsD [OF keeps_user_create, of w u] ok unfolding run by (simp add: on_db_def)
  moreover have n: "find (\<lambda>r. us_email r = u_email u \<and> live_user r) (users (db w)) = None"
    using assms(3) by (force simp: find_None_all)
  moreover have "find (\<lambda>c. uc_user_id c = e_id u) (user_credentials (db w)) = None"
      "find (\<lambda>s. se_user_id s = e_id u) (user_security (db w)) = None"
    using fk by (force simp: find_None_all)+
  then have "account (w\<lparr>db := d\<rparr>) (u_email u) = Some (u\<lparr>e_deleted_at := None, u_verify_token := None,
      u_verify_expires := None, u_reset_token := None, u_reset_expires := None\<rparr>)"
    using n assms(4) by (simp add: account_def d_def find_append live_user_def user_of_row_fields Let_def no_tokens_def)
  ultimately show ?thesis using run by (intro exI [of _ d]) (simp add: d_def)
qed


definition user_registered :: "string \<Rightarrow> string \<Rightarrow> string \<Rightarrow> event" where
  "user_registered e n tok = \<lparr>ev_type = UserRegisteredEvent, ev_payload = ByValue (UserRegistered e n tok)\<rparr>"

lemma register_run:
  assumes "accounts_ready w" "e \<notin> us_email ` set (users (db w))" "uuids w (drawn w) \<notin> us_id ` set (users (db w))"
    "mail_only pub" "bcrypt_hash L pw (rands w (rolled w)) = Some h"
  shows "\<exists>u' w' ts k a. handle_register L pg_user_repo pub e pw n w = (Ok u', w') \<and> accounts_ready w' \<and>
    clock w' = clock w \<and> rands w' = rands w \<and> user_tokens (db w') = user_tokens (db w) @ ts \<and>
    map token_key ts = [(uuids w (drawn w), ''email_verification'',
      Some (hash_token L (hex_encode (rands w (Suc (rolled w))))), Some (clock w k + 24 * hour), None)] \<and>
    account w' e = Some a \<and> e_id a = uuids w (drawn w) \<and> u_password a = h \<and> u_is_active a \<and>
    \<not> u_email_verified a \<and> u_locked_until a = None \<and> u_failed_attempts a = 0 \<and>
    (\<exists>v. outbox v = outbox w \<and>
       ignoreM (pub (user_registered e n (hex_encode (rands w (Suc (rolled w)))))) v = (Ok (), w'))"
proof -
  have f: "faults w = []" using assms(1) by (simp add: accounts_ready_def)
  have none: "account w e = None" using assms(2) by (force simp: account_def find_None_all)
  define u where "u = \<lparr>e_id = uuids w (drawn w), e_created_at = clock w (ticks w), e_updated_at = clock w (ticks w),
       e_deleted_at = None, u_email = e, u_password = h, u_name = n,
       u_is_active = True, u_failed_attempts = 0, u_locked_until = None, u_email_verified = False,
       u_verify_token = None, u_verify_expires = None, u_reset_token = None, u_reset_expires = None\<rparr>"
  define w1 where "w1 = w\<lparr>rolled := Suc (rolled w), ticks := Suc (ticks w), drawn := Suc (drawn w)\<rparr>"
  have w1: "accounts_ready w1" using assms(1) by (simp add: w1_def accounts_ready_def)
  obtain d where d: "pg_user_create u w1 = (Ok (), w1\<lparr>db := d\<rparr>)" "accounts_ok d" "user_tokens d = user_tokens (db w)"
      "account (w1\<lparr>db := d\<rparr>) e = Some u"
    using user_create_nofault [OF w1, of u] assms(2,3) by (auto simp: u_def w1_def)
  let ?tok = "hex_encode (rands w (Suc (rolled w)))" and ?x = "clock w (Suc (ticks w)) + 24 * hour"
  define w2 where "w2 = w1\<lparr>db := d, rolled := Suc (Suc (rolled w)), ticks := Suc (Suc (ticks w))\<rparr>"
  have w2: "accounts_ready w2" "account w2 e = Some u" "clock w2 = clock w" "rands w2 = rands w"
    using d(2,4) f by (simp_all add: w2_def w1_def accounts_ready_def account_def)
  define u' where "u' = u\<lparr>u_verify_token := Some (hash_token L ?tok), u_verify_expires := Some ?x\<rparr>"
  obtain w3 ts now where w3: "pg_user_update u' w2 = (Ok (), w3)" "accounts_ready w3" "clock w3 = clock w2"
      "rands w3 = rands w2" "map token_key ts = new_token_keys u'" "user_tokens (db w3) = user_tokens (db w2) @ ts"
      "outbox w3 = outbox w2" "account w3 = (account w2)(e \<mapsto> u'\<lparr>e_updated_at := now, u_verify_token := None,
          u_verify_expires := None, u_reset_token := None, u_reset_expires := None\<rparr>)"
    using update_run [OF w2(1,2), of u'] by (auto simp: u'_def u_def)
  let ?ev = "\<lparr>ev_type = UserRegisteredEvent, ev_payload = ByValue (UserRegistered e n ?tok)\<rparr>"
  obtain ms ls sp where p: "ignoreM (pub ?ev) w3 = (Ok (), w3\<lparr>outbox := ms, logs := ls, active_span := sp\<rparr>)"
    using mail_only_ignore [OF assms(4)] by blast
  have usel: "u_email u = e" "u_name u = n" by (simp_all add: u_def)
  have new: "(new_user e h n :: (world, goerr, user) op) (w\<lparr>rolled := Suc (rolled w)\<rparr>) = (Ok u, w1)"
    by (simp add: new_user_def new_entity_def op_defs u_def w1_def)
  have tok: "random_token (w1\<lparr>db := d\<rparr>) = (Ok ?tok, w1\<lparr>db := d, rolled := Suc (Suc (rolled w))\<rparr>)"
    using f by (simp add: random_token_def op_defs w1_def)
  have "handle_register L pg_user_repo pub e pw n w = (Ok u', w3\<lparr>outbox := ms, logs := ls, active_span := sp\<rparr>)"
    using account_missing [OF assms(1) none] f assms(5) new d(1) tok w3(1) p
    by (simp add: handle_register_def tryM_def bindM_def wrapM_def nowM_def retM_def Let_def
        w2_def w1_def u'_def usel)
  moreover have "map token_key ts = [(uuids w (drawn w), ''email_verification'', Some (hash_token L ?tok), Some ?x, None)]"
    using w3(5) by (simp add: new_token_keys_def u'_def u_def)
  moreover have "user_tokens (db w3) = user_tokens (db w) @ ts" using w3(6) d(3) by (simp add: w2_def)
  moreover obtain a where "account w3 e = Some a" "e_id a = uuids w (drawn w)" "u_password a = h" "u_is_active a"
      "\<not> u_email_verified a" "u_locked_until a = None" "u_failed_attempts a = 0"
    using w3(8) by (simp add: u'_def u_def)
  moreover have "\<exists>v. outbox v = outbox w \<and> ignoreM (pub ?ev) v = (Ok (), w3\<lparr>outbox := ms, logs := ls, active_span := sp\<rparr>)"
    using p w3(7) by (intro exI [of _ w3]) (simp add: w2_def w1_def)
  ultimately show ?thesis
    using w3(2-4) w2(3,4) unfolding user_registered_def
    by (intro exI [of _ u'] exI [of _ "w3\<lparr>outbox := ms, logs := ls, active_span := sp\<rparr>"] exI [of _ ts] exI [of _ "Suc (ticks w)"] exI [of _ a]) simp
qed


lemma verify_run:
  assumes "accounts_ready w" "account w e = Some u" "mail_only pub"
    "token_for (db w) ''email_verification'' (hash_token L tok) (e_id u) exp" "\<And>m. clock w m < exp"
  shows "\<exists>w' now. handle_verify_email L pg_user_repo pub tok w = (Ok [(''message'', ''email verified successfully'')], w') \<and>
    accounts_ready w' \<and> clock w' = clock w \<and>
    account w' = (account w)(e \<mapsto> u\<lparr>u_email_verified := True, e_updated_at := now\<rparr>)"
proof -
  define w1 where "w1 = w\<lparr>ticks := Suc (Suc (ticks w))\<rparr>"
  have w1: "accounts_ready w1" "account w1 = account w" "clock w1 = clock w"
    using assms(1) by (simp_all add: w1_def)
  note same = account_same [OF assms(2)]
  note plain = pg_accounts.acct_plain [OF assms(2)]
  let ?u = "u\<lparr>u_email_verified := True, u_verify_token := None, u_verify_expires := None\<rparr>"
  have a1: "account w1 e = Some u" using w1(2) assms(2) by simp
  obtain w2 ts now where w2: "pg_user_update ?u w1 = (Ok (), w2)" "accounts_ready w2" "clock w2 = clock w1"
      "account w2 = (account w1)(e \<mapsto> ?u\<lparr>e_updated_at := now, u_verify_token := None,
          u_verify_expires := None, u_reset_token := None, u_reset_expires := None\<rparr>)"
    using update_run [OF w1(1) a1, of ?u] same by auto
  have eq: "?u\<lparr>e_updated_at := now, u_verify_token := None, u_verify_expires := None,
      u_reset_token := None, u_reset_expires := None\<rparr> = u\<lparr>u_email_verified := True, e_updated_at := now\<rparr>"
    using same plain by (cases u) simp
  let ?ev = "\<lparr>ev_type = EmailVerifiedEvent, ev_payload = ByValue (EmailVerified (uuid_string L (e_id u)) (u_email u) (u_name u))\<rparr>"
  obtain ms ls sp where p: "ignoreM (pub ?ev) w2 = (Ok (), w2\<lparr>outbox := ms, logs := ls, active_span := sp\<rparr>)"
    using mail_only_ignore [OF assms(3)] by blast
  have "handle_verify_email L pg_user_repo pub tok w =
      (Ok [(''message'', ''email verified successfully'')], w2\<lparr>outbox := ms, logs := ls, active_span := sp\<rparr>)"
    using get_by_verify_token [OF assms(1,2,4) assms(5)] w2(1) p
      assms(5) [of "Suc (ticks w)", THEN less_imp_le, THEN leD]
    by (simp add: handle_verify_email_def tryM_def bindM_def past_def nowM_def retM_def w1_def Let_def)
  moreover have "account w2 = (account w)(e \<mapsto> u\<lparr>u_email_verified := True, e_updated_at := now\<rparr>)"
    using w2(4) [unfolded eq] w1(2) by simp
  ultimately show ?thesis
    using w2(2,3) w1(3) by (intro exI [of _ "w2\<lparr>outbox := ms, logs := ls, active_span := sp\<rparr>"] exI [of _ now]) simp
qed

section \<open>A registration that fails halfway\<close>

lemma extM_None:
  "faults w = None # fs \<Longrightarrow> extM f w = (case f (w\<lparr>faults := fs\<rparr>) of (Inl e, w') \<Rightarrow> (Err e, w') | (Inr x, w') \<Rightarrow> (Ok x, w'))"
  by (simp add: extM_def)

lemma extM_Some: "faults w = Some e # fs \<Longrightarrow> extM f w = (Err (ExtErr e), w\<lparr>faults := fs\<rparr>)"
  by (simp add: extM_def)

text \<open>
  The account is committed before its verification token is made. When drawing the token
  fails, the registration reports an error but the account exists, so that registering again is
  refused as a duplicate.
\<close>

theorem failed_registration_blocks_retry:
  assumes "accounts_ok (db w)" "faults w = replicate 7 None @ [Some err]" "e \<notin> us_email ` set (users (db w))"
    "uuids w (drawn w) \<notin> us_id ` set (users (db w))" "bcrypt_hash L pw (rands w (rolled w)) \<noteq> None"
  shows "\<exists>w'. handle_register L pg_user_repo pub e pw n w =
      (Err (Wrapf ''generate verification token'' (ExtErr err)), w') \<and>
    fst (handle_register L pg_user_repo pub e pw' n' w') = Err (Sentinel ErrEmailAlreadyExists)"
proof -
  obtain h where h: "bcrypt_hash L pw (rands w (rolled w)) = Some h" using assms(5) by blast
  have none: "find (\<lambda>r. us_email r = e \<and> live_user r) (users (db w)) = None"
    using assms(3) by (force simp: find_None_all)
  have fk: "uuids w (drawn w) \<notin> uc_user_id ` set (user_credentials (db w))"
      "uuids w (drawn w) \<notin> se_user_id ` set (user_security (db w))"
    using assms(1,4) by (auto simp: accounts_ok_def)
  have f: "faults w = [None, None, None, None, None, None, None, Some err]"
    using assms(2) by (simp add: numeral_eq_Suc)
  show ?thesis
    using f h none fk assms(3,4)
    by (simp add: handle_register_def op_defs pg_user_get_by_email_def query_rowM_def sqlM_def extM_None extM_Some
        bcrypt_generate_def new_user_def new_entity_def pg_user_create_def txM_def noopM_def sql_insert_user_def
        sql_insert_credentials_def sql_insert_security_def insertM_def insert_tokens_def is_no_rows_def
        random_token_def rand32M_def extM_nofault find_append live_user_def)
qed

theorem failed_registration_blocks_retry_witness:
  "\<exists>w w'. handle_register toy_libs pg_user_repo (\<lambda>ev. retM ()) ''b'' ''pw'' ''B'' w =
      (Err (Wrapf ''generate verification token'' (ExtErr ''entropy'')), w') \<and>
    fst (handle_register toy_libs pg_user_repo (\<lambda>ev. retM ()) ''b'' ''pw'' ''B'' w') = Err (Sentinel ErrEmailAlreadyExists)"
proof -
  let ?w = "one_account\<lparr>faults := replicate 7 None @ [Some ''entropy'']\<rparr>"
  have "accounts_ok (db ?w)" using one_account_facts(1) by (simp add: accounts_ready_def)
  moreover have "faults ?w = replicate 7 None @ [Some ''entropy'']" by simp
  moreover have "''b'' \<notin> us_email ` set (users (db ?w))" "uuids ?w (drawn ?w) \<notin> us_id ` set (users (db ?w))"
    "bcrypt_hash toy_libs ''pw'' (rands ?w (rolled ?w)) \<noteq> None"
    by (simp_all add: one_account_def init_world_def toy_libs_def)
  ultimately show ?thesis
    using failed_registration_blocks_retry [of ?w "''entropy''" "''b''" toy_libs "''pw''" "\<lambda>ev. retM ()" "''B''" "''pw''" "''B''"] by blast
qed

end
