(* ===== verification/Rbac_Store.thy ===== *)
theory Rbac_Store
  imports Pagination
begin

text \<open>
  Roles, permissions and their assignments (\<open>internal/authorization\<close>): the entities, the SQL
  statements of \<open>sqlc/queries.sql.go\<close> over the tables, and the four PostgreSQL repositories with the
  errors they make of the statements' errors. The last section says what a fault-free statement does
  and when the tables satisfy the schema's keys.
\<close>

section \<open>Entities\<close>

record role = entity +
  rl_name :: string
  rl_description :: string

record permission = entity +
  pm_name :: string
  pm_description :: string
  pm_resource :: string
  pm_action :: string

definition make_role :: "entity \<Rightarrow> string \<Rightarrow> string \<Rightarrow> role" where
  "make_role e name desc =
     \<lparr>e_id = e_id e, e_created_at = e_created_at e, e_updated_at = e_updated_at e,
      e_deleted_at = e_deleted_at e, rl_name = name, rl_description = desc\<rparr>"

definition new_role :: "string \<Rightarrow> string \<Rightarrow> (world, 'e, role) op" where
  "new_role name desc = bindM new_entity (\<lambda>e. retM (make_role e name desc))"

definition make_permission :: "entity \<Rightarrow> string \<Rightarrow> string \<Rightarrow> string \<Rightarrow> string \<Rightarrow> permission" where
  "make_permission e name desc resource action =
     \<lparr>e_id = e_id e, e_created_at = e_created_at e, e_updated_at = e_updated_at e,
      e_deleted_at = e_deleted_at e, pm_name = name, pm_description = desc,
      pm_resource = resource, pm_action = action\<rparr>"

definition new_permission :: "string \<Rightarrow> string \<Rightarrow> string \<Rightarrow> string \<Rightarrow> (world, 'e, permission) op" where
  "new_permission name desc resource action =
     bindM new_entity (\<lambda>e. retM (make_permission e name desc resource action))"

text \<open>The two assignments are pairs of identifiers.\<close>

record user_role =
  asg_user_id :: uuid
  asg_role_id :: uuid

record role_permission =
  grt_role_id :: uuid
  grt_permission_id :: uuid

definition new_user_role :: "uuid \<Rightarrow> uuid \<Rightarrow> user_role" where
  "new_user_role userID roleID = \<lparr>asg_user_id = userID, asg_role_id = roleID\<rparr>"

definition new_role_permission :: "uuid \<Rightarrow> uuid \<Rightarrow> role_permission" where
  "new_role_permission roleID permissionID = \<lparr>grt_role_id = roleID, grt_permission_id = permissionID\<rparr>"

definition role_of_row :: "roles_row \<Rightarrow> role" where
  "role_of_row r =
     \<lparr>e_id = ro_id r, e_created_at = ro_created_at r, e_updated_at = ro_updated_at r,
      e_deleted_at = ro_deleted_at r, rl_name = ro_name r, rl_description = ro_description r\<rparr>"

definition permission_of_row :: "permissions_row \<Rightarrow> permission" where
  "permission_of_row r =
     \<lparr>e_id = pe_id r, e_created_at = pe_created_at r, e_updated_at = pe_updated_at r,
      e_deleted_at = pe_deleted_at r, pm_name = pe_name r, pm_description = pe_description r,
      pm_resource = pe_resource r, pm_action = pe_action r\<rparr>"

section \<open>Statements\<close>

definition live_role :: "uuid \<Rightarrow> roles_row \<Rightarrow> bool" where
  "live_role i r \<longleftrightarrow> ro_id r = i \<and> ro_deleted_at r = None"

definition live_permission :: "uuid \<Rightarrow> permissions_row \<Rightarrow> bool" where
  "live_permission i r \<longleftrightarrow> pe_id r = i \<and> pe_deleted_at r = None"

text \<open>
  An update under a unique constraint: the statement fails when a constraint on the tables does,
  otherwise it gives the number of rows it changed.
\<close>

definition exec_checkedM ::
  "(database \<Rightarrow> (bool \<times> goerr) list) \<Rightarrow> (database \<Rightarrow> nat) \<Rightarrow> (database \<Rightarrow> database) \<Rightarrow> (world, nat) gop" where
  "exec_checkedM cs n f = sqlM (\<lambda>d. case check_constraints (cs d) of
      Some e \<Rightarrow> Inl e | None \<Rightarrow> Inr (n d, f d))"

text \<open>The names are unique among all rows, the deleted ones included.\<close>

definition sql_create_role :: "role \<Rightarrow> (world, unit) gop" where
  "sql_create_role r = insertM
     (\<lambda>d. [(e_id r \<notin> ro_id ` set (roles d), unique_violation ''roles_pkey''),
           (rl_name r \<notin> ro_name ` set (roles d), unique_violation ''roles_name_key'')])
     (\<lambda>d. d\<lparr>roles := roles d @
        [\<lparr>ro_id = e_id r, ro_name = rl_name r, ro_description = rl_description r,
          ro_created_at = e_created_at r, ro_updated_at = e_updated_at r,
          ro_deleted_at = None, ro_tenant_id = ''''\<rparr>]\<rparr>)"

definition sql_create_permission :: "permission \<Rightarrow> (world, unit) gop" where
  "sql_create_permission p = insertM
     (\<lambda>d. [(e_id p \<notin> pe_id ` set (permissions d), unique_violation ''permissions_pkey''),
           (pm_name p \<notin> pe_name ` set (permissions d), unique_violation ''permissions_name_key'')])
     (\<lambda>d. d\<lparr>permissions := permissions d @
        [\<lparr>pe_id = e_id p, pe_name = pm_name p, pe_description = pm_description p,
          pe_resource = pm_resource p, pe_action = pm_action p,
          pe_created_at = e_created_at p, pe_updated_at = e_updated_at p,
          pe_deleted_at = None, pe_tenant_id = ''''\<rparr>]\<rparr>)"

definition sql_get_role_by_id :: "uuid \<Rightarrow> (world, roles_row) gop" where
  "sql_get_role_by_id i = query_rowM (\<lambda>d. find (live_role i) (roles d))"

definition sql_get_role_by_name :: "string \<Rightarrow> (world, roles_row) gop" where
  "sql_get_role_by_name name =
     query_rowM (\<lambda>d. find (\<lambda>r. ro_name r = name \<and> ro_deleted_at r = None) (roles d))"

definition sql_get_permission_by_id :: "uuid \<Rightarrow> (world, permissions_row) gop" where
  "sql_get_permission_by_id i = query_rowM (\<lambda>d. find (live_permission i) (permissions d))"

definition sql_get_permission_by_name :: "string \<Rightarrow> (world, permissions_row) gop" where
  "sql_get_permission_by_name name =
     query_rowM (\<lambda>d. find (\<lambda>r. pe_name r = name \<and> pe_deleted_at r = None) (permissions d))"

definition sql_update_role :: "role \<Rightarrow> (world, nat) gop" where
  "sql_update_role u = exec_checkedM
     (\<lambda>d. [(list_ex (live_role (e_id u)) (roles d) \<longrightarrow>
              list_all (\<lambda>r. ro_name r = rl_name u \<longrightarrow> ro_id r = e_id u) (roles d),
            unique_violation ''roles_name_key'')])
     (\<lambda>d. count_where (live_role (e_id u)) (roles d))
     (\<lambda>d. d\<lparr>roles := update_where (live_role (e_id u))
        (\<lambda>r. r\<lparr>ro_name := rl_name u, ro_description := rl_description u,
               ro_updated_at := e_updated_at u\<rparr>) (roles d)\<rparr>)"

definition sql_update_permission :: "permission \<Rightarrow> (world, nat) gop" where
  "sql_update_permission u = exec_checkedM
     (\<lambda>d. [(list_ex (live_permission (e_id u)) (permissions d) \<longrightarrow>
              list_all (\<lambda>r. pe_name r = pm_name u \<longrightarrow> pe_id r = e_id u) (permissions d),
            unique_violation ''permissions_name_key'')])
     (\<lambda>d. count_where (live_permission (e_id u)) (permissions d))
     (\<lambda>d. d\<lparr>permissions := update_where (live_permission (e_id u))
        (\<lambda>r. r\<lparr>pe_name := pm_name u, pe_description := pm_description u, pe_resource := pm_resource u,
               pe_action := pm_action u, pe_updated_at := e_updated_at u\<rparr>) (permissions d)\<rparr>)"

definition sql_delete_role :: "uuid \<Rightarrow> (world, nat) gop" where
  "sql_delete_role i = bindM nowM (\<lambda>now.
     exec_rowsM (\<lambda>d. count_where (live_role i) (roles d))
     (\<lambda>d. d\<lparr>roles := update_where (live_role i)
        (\<lambda>r. r\<lparr>ro_updated_at := now, ro_deleted_at := Some now\<rparr>) (roles d)\<rparr>))"

definition sql_delete_permission :: "uuid \<Rightarrow> (world, nat) gop" where
  "sql_delete_permission i = bindM nowM (\<lambda>now.
     exec_rowsM (\<lambda>d. count_where (live_permission i) (permissions d))
     (\<lambda>d. d\<lparr>permissions := update_where (live_permission i)
        (\<lambda>r. r\<lparr>pe_updated_at := now, pe_deleted_at := Some now\<rparr>) (permissions d)\<rparr>))"

text \<open>
  \<open>ON CONFLICT DO NOTHING\<close>: a pair that is there already is no error and no change; a new pair has
  to refer to a role, and to a permission, that exist, deleted or not. Users are not referred to.
\<close>

definition sql_assign_user_role :: "uuid \<Rightarrow> uuid \<Rightarrow> (world, unit) gop" where
  "sql_assign_user_role u r = bindM nowM (\<lambda>now. insertM
     (\<lambda>d. [((u, r) \<in> (\<lambda>x. (ur_user_id x, ur_role_id x)) ` set (user_roles d) \<or> r \<in> ro_id ` set (roles d),
            fk_violation ''user_roles_role_id_fkey'')])
     (\<lambda>d. if (u, r) \<in> (\<lambda>x. (ur_user_id x, ur_role_id x)) ` set (user_roles d) then d
          else d\<lparr>user_roles := user_roles d @
            [\<lparr>ur_user_id = u, ur_role_id = r, ur_created_at = now, ur_tenant_id = ''''\<rparr>]\<rparr>))"

definition sql_assign_role_permission :: "uuid \<Rightarrow> uuid \<Rightarrow> (world, unit) gop" where
  "sql_assign_role_permission r p = bindM nowM (\<lambda>now. insertM
     (\<lambda>d. [((r, p) \<in> (\<lambda>x. (rp_role_id x, rp_permission_id x)) ` set (role_permissions d) \<or> r \<in> ro_id ` set (roles d),
            fk_violation ''role_permissions_role_id_fkey''),
           ((r, p) \<in> (\<lambda>x. (rp_role_id x, rp_permission_id x)) ` set (role_permissions d) \<or> p \<in> pe_id ` set (permissions d),
            fk_violation ''role_permissions_permission_id_fkey'')])
     (\<lambda>d. if (r, p) \<in> (\<lambda>x. (rp_role_id x, rp_permission_id x)) ` set (role_permissions d) then d
          else d\<lparr>role_permissions := role_permissions d @
            [\<lparr>rp_role_id = r, rp_permission_id = p, rp_created_at = now, rp_tenant_id = ''''\<rparr>]\<rparr>))"

definition sql_remove_user_role :: "uuid \<Rightarrow> uuid \<Rightarrow> (world, unit) gop" where
  "sql_remove_user_role u r = execM (\<lambda>d. d\<lparr>user_roles :=
     filter (\<lambda>x. \<not> (ur_user_id x = u \<and> ur_role_id x = r)) (user_roles d)\<rparr>)"

definition sql_remove_role_permission :: "uuid \<Rightarrow> uuid \<Rightarrow> (world, unit) gop" where
  "sql_remove_role_permission r p = execM (\<lambda>d. d\<lparr>role_permissions :=
     filter (\<lambda>x. \<not> (rp_role_id x = r \<and> rp_permission_id x = p)) (role_permissions d)\<rparr>)"

definition sql_user_roles_of :: "uuid \<Rightarrow> (world, user_roles_row list) gop" where
  "sql_user_roles_of u = queryM (\<lambda>d. filter (\<lambda>x. ur_user_id x = u) (user_roles d))"

definition sql_role_permissions_of :: "uuid \<Rightarrow> (world, role_permissions_row list) gop" where
  "sql_role_permissions_of r = queryM (\<lambda>d. filter (\<lambda>x. rp_role_id x = r) (role_permissions d))"

text \<open>
  The joins, newest first. PostgreSQL leaves the order of rows of one instant open; here it is the
  reverse of the insertion order.
\<close>

definition sql_roles_of_user :: "uuid \<Rightarrow> (world, roles_row list) gop" where
  "sql_roles_of_user u = queryM (\<lambda>d. rev (sort_key ro_created_at
     (concat (map (\<lambda>r. map (\<lambda>x. r) (filter (\<lambda>x. ur_role_id x = ro_id r \<and> ur_user_id x = u) (user_roles d)))
        (filter (\<lambda>r. ro_deleted_at r = None) (roles d))))))"

definition sql_permissions_of_role :: "uuid \<Rightarrow> (world, permissions_row list) gop" where
  "sql_permissions_of_role i = queryM (\<lambda>d. rev (sort_key pe_created_at
     (concat (map (\<lambda>p. map (\<lambda>x. p) (filter (\<lambda>x. rp_permission_id x = pe_id p \<and> rp_role_id x = i) (role_permissions d)))
        (filter (\<lambda>p. pe_deleted_at p = None) (permissions d))))))"

section \<open>Repositories\<close>

definition role_columns :: "roles_row columns" where
  "role_columns = \<lparr>col_id = ro_id, col_created_at = ro_created_at, col_deleted_at = ro_deleted_at,
     col_tenant_id = ro_tenant_id, col_texts = (\<lambda>r. [])\<rparr>"

definition permission_columns :: "permissions_row columns" where
  "permission_columns = \<lparr>col_id = pe_id, col_created_at = pe_created_at, col_deleted_at = pe_deleted_at,
     col_tenant_id = pe_tenant_id, col_texts = (\<lambda>r. [])\<rparr>"

definition role_create :: "role \<Rightarrow> (world, unit) gop" where
  "role_create r = wrapM ''insert role'' (sql_create_role r)"

definition role_get_by_id :: "uuid \<Rightarrow> (world, role) gop" where
  "role_get_by_id i = bindM (norowsM (Errorf ''role not found'') ''get role'' (sql_get_role_by_id i))
     (\<lambda>r. retM (role_of_row r))"

definition role_get_by_name :: "string \<Rightarrow> (world, role) gop" where
  "role_get_by_name name =
     bindM (norowsM (Errorf ''role not found'') ''get role by name'' (sql_get_role_by_name name))
       (\<lambda>r. retM (role_of_row r))"

definition role_get_all :: "libs \<Rightarrow> bool \<Rightarrow> ctx \<Rightarrow> string option \<Rightarrow> int \<Rightarrow> (world, role page) gop" where
  "role_get_all L tenantEnabled cx cursorArg limit =
     list_page L role_columns roles ''query roles'' role_of_row
       (tenant_filter tenantEnabled (get_tenant_id cx) ([DeletedIsNull], []))
       cursorArg limit (\<lambda>r. encode_cursor L (e_created_at r) (e_id r))"

definition role_repo_update :: "role \<Rightarrow> (world, unit) gop" where
  "role_repo_update r = bindM (wrapM ''update role'' (sql_update_role r))
     (\<lambda>n. if n = 0 then errM (Errorf ''role not found'') else retM ())"

definition role_delete :: "uuid \<Rightarrow> (world, unit) gop" where
  "role_delete i = bindM (wrapM ''delete role'' (sql_delete_role i))
     (\<lambda>n. if n = 0 then errM (Errorf ''role not found'') else retM ())"

definition permission_create :: "permission \<Rightarrow> (world, unit) gop" where
  "permission_create p = wrapM ''insert permission'' (sql_create_permission p)"

definition permission_get_by_id :: "uuid \<Rightarrow> (world, permission) gop" where
  "permission_get_by_id i =
     bindM (norowsM (Errorf ''permission not found'') ''get permission'' (sql_get_permission_by_id i))
       (\<lambda>r. retM (permission_of_row r))"

definition permission_get_by_name :: "string \<Rightarrow> (world, permission) gop" where
  "permission_get_by_name name =
     bindM (norowsM (Errorf ''permission not found'') ''get permission by name'' (sql_get_permission_by_name name))
       (\<lambda>r. retM (permission_of_row r))"

definition permission_get_all :: "libs \<Rightarrow> bool \<Rightarrow> ctx \<Rightarrow> string option \<Rightarrow> int \<Rightarrow> (world, permission page) gop" where
  "permission_get_all L tenantEnabled cx cursorArg limit =
     list_page L permission_columns permissions ''query permissions'' permission_of_row
       (tenant_filter tenantEnabled (get_tenant_id cx) ([DeletedIsNull], []))
       cursorArg limit (\<lambda>r. encode_cursor L (e_created_at r) (e_id r))"

definition permission_repo_update :: "permission \<Rightarrow> (world, unit) gop" where
  "permission_repo_update p = bindM (wrapM ''update permission'' (sql_update_permission p))
     (\<lambda>n. if n = 0 then errM (Errorf ''permission not found'') else retM ())"

definition permission_delete :: "uuid \<Rightarrow> (world, unit) gop" where
  "permission_delete i = bindM (wrapM ''delete permission'' (sql_delete_permission i))
     (\<lambda>n. if n = 0 then errM (Errorf ''permission not found'') else retM ())"

definition user_role_assign :: "user_role \<Rightarrow> (world, unit) gop" where
  "user_role_assign a = wrapM ''assign role'' (sql_assign_user_role (asg_user_id a) (asg_role_id a))"

definition user_role_remove :: "uuid \<Rightarrow> uuid \<Rightarrow> (world, unit) gop" where
  "user_role_remove u r = wrapM ''remove role'' (sql_remove_user_role u r)"

definition user_role_get_by_user_id :: "uuid \<Rightarrow> (world, user_role list) gop" where
  "user_role_get_by_user_id u = bindM (wrapM ''get user roles'' (sql_user_roles_of u))
     (\<lambda>rows. retM (map (\<lambda>x. \<lparr>asg_user_id = ur_user_id x, asg_role_id = ur_role_id x\<rparr>) rows))"

definition roles_by_user_id :: "uuid \<Rightarrow> (world, role list) gop" where
  "roles_by_user_id u = bindM (wrapM ''get roles by user'' (sql_roles_of_user u))
     (\<lambda>rows. retM (map role_of_row rows))"

definition role_permission_assign :: "role_permission \<Rightarrow> (world, unit) gop" where
  "role_permission_assign a =
     wrapM ''assign permission'' (sql_assign_role_permission (grt_role_id a) (grt_permission_id a))"

definition role_permission_remove :: "uuid \<Rightarrow> uuid \<Rightarrow> (world, unit) gop" where
  "role_permission_remove r p = wrapM ''remove permission'' (sql_remove_role_permission r p)"

definition role_permission_get_by_role_id :: "uuid \<Rightarrow> (world, role_permission list) gop" where
  "role_permission_get_by_role_id r = bindM (wrapM ''get role permissions'' (sql_role_permissions_of r))
     (\<lambda>rows. retM (map (\<lambda>x. \<lparr>grt_role_id = rp_role_id x, grt_permission_id = rp_permission_id x\<rparr>) rows))"

definition permissions_by_role_id :: "uuid \<Rightarrow> (world, permission list) gop" where
  "permissions_by_role_id i = bindM (wrapM ''get permissions by role'' (sql_permissions_of_role i))
     (\<lambda>rows. retM (map permission_of_row rows))"

section \<open>The keys of the tables\<close>

definition assigned :: "database \<Rightarrow> uuid \<Rightarrow> uuid \<Rightarrow> bool" where
  "assigned d u r \<longleftrightarrow> (u, r) \<in> (\<lambda>x. (ur_user_id x, ur_role_id x)) ` set (user_roles d)"

definition granted :: "database \<Rightarrow> uuid \<Rightarrow> uuid \<Rightarrow> bool" where
  "granted d r p \<longleftrightarrow> (r, p) \<in> (\<lambda>x. (rp_role_id x, rp_permission_id x)) ` set (role_permissions d)"

definition rbac_ok :: "database \<Rightarrow> bool" where
  "rbac_ok d \<longleftrightarrow>
     distinct (map ro_id (roles d)) \<and> distinct (map ro_name (roles d)) \<and>
     distinct (map pe_id (permissions d)) \<and> distinct (map pe_name (permissions d)) \<and>
     distinct (map (\<lambda>x. (ur_user_id x, ur_role_id x)) (user_roles d)) \<and>
     distinct (map (\<lambda>x. (rp_role_id x, rp_permission_id x)) (role_permissions d)) \<and>
     ur_role_id ` set (user_roles d) \<subseteq> ro_id ` set (roles d) \<and>
     rp_role_id ` set (role_permissions d) \<subseteq> ro_id ` set (roles d) \<and>
     rp_permission_id ` set (role_permissions d) \<subseteq> pe_id ` set (permissions d)"

text \<open>
  A rename that keeps a key unique: the rows that are renamed have one identifier, and no other row
  has the new name.
\<close>

lemma distinct_rename:
  assumes "distinct (map idf rows)" "distinct (map nm rows)"
    and "\<And>r. P r \<Longrightarrow> idf r = i" and "\<And>r. r \<in> set rows \<Longrightarrow> nm r = x \<Longrightarrow> idf r = i" and "\<And>r. nm (f r) = x"
  shows "distinct (map nm (update_where P f rows))"
  using assms
proof (induction rows)
  case (Cons r rows)

  show ?case
  proof (cases "P r")
    case True
    then have "idf q \<noteq> i" if "q \<in> set rows" for q using that Cons.prems(1,3) by force
    then have n: "\<not> P q" "nm q \<noteq> x" if "q \<in> set rows" for q
      using that Cons.prems(3,4) by auto
    then have "update_where P f rows = rows" by (intro update_where_id) auto
    then show ?thesis using n(2) Cons.prems(2,5) True by auto
  next
    case False
    have "nm r \<notin> nm ` set (update_where P f rows)"
    proof
      assume "nm r \<in> nm ` set (update_where P f rows)"
      then obtain q where q: "q \<in> set rows" "nm r = nm (if P q then f q else q)"
        by (auto simp: set_update_where)
      show False
      proof (cases "P q")
        case True
        then have "idf q = idf r" using q Cons.prems(3,4,5) by auto
        then show False using q(1) Cons.prems(1) by simp (metis image_eqI)
      next
        case False
        then show False using q Cons.prems(2) by force
      qed
    qed
    then show ?thesis using Cons False by auto
  qed
qed simp

lemma keeps_exec_checkedM [keeps_rules]:
  "(\<And>d. P d \<Longrightarrow> check_constraints (cs d) = None \<Longrightarrow> P (f d)) \<Longrightarrow> keeps (on_db P) (exec_checkedM cs n f)"
  unfolding exec_checkedM_def by (rule keeps_sqlM) (auto split: option.splits)

lemma keeps_rbac_create_role [keeps_rules]: "keeps (on_db rbac_ok) (sql_create_role r)"
  unfolding sql_create_role_def
  by (rule keeps_insertM) (simp add: rbac_ok_def subset_insertI2 split: if_splits)

lemma keeps_rbac_create_permission [keeps_rules]: "keeps (on_db rbac_ok) (sql_create_permission r)"
  unfolding sql_create_permission_def
  by (rule keeps_insertM) (simp add: rbac_ok_def subset_insertI2 split: if_splits)

lemma update_keys:
  assumes "\<And>r. key (f r) = key r"
  shows "map key (update_where P f rows) = map key rows" "key ` set (update_where P f rows) = key ` set rows"
proof -
  show "map key (update_where P f rows) = map key rows" by (rule map_key_update_where) (rule assms)
  then show "key ` set (update_where P f rows) = key ` set rows" by (metis list.set_map)
qed

lemma keeps_rbac_update_role [keeps_rules]: "keeps (on_db rbac_ok) (sql_update_role u)"
  unfolding sql_update_role_def
proof (rule keeps_exec_checkedM)
  fix d
  let ?f = "\<lambda>r. r\<lparr>ro_name := rl_name u, ro_description := rl_description u, ro_updated_at := e_updated_at u\<rparr>"
  assume d: "rbac_ok d" and c: "check_constraints [(list_ex (live_role (e_id u)) (roles d) \<longrightarrow>
      list_all (\<lambda>r. ro_name r = rl_name u \<longrightarrow> ro_id r = e_id u) (roles d), unique_violation ''roles_name_key'')] = None"
  have "distinct (map ro_name (update_where (live_role (e_id u)) ?f (roles d)))"
  proof (cases "list_ex (live_role (e_id u)) (roles d)")
    case True
    then show ?thesis
      using c d by (intro distinct_rename [of ro_id _ _ _ "e_id u" "rl_name u"])
        (auto simp: rbac_ok_def live_role_def list_all_iff split: if_splits)
  next
    case False
    then have "update_where (live_role (e_id u)) ?f (roles d) = roles d"
      by (intro update_where_id) (auto simp: list_ex_iff)
    then show ?thesis using d by (simp add: rbac_ok_def)
  qed
  then show "rbac_ok (d\<lparr>roles := update_where (live_role (e_id u)) ?f (roles d)\<rparr>)"
    using d by (simp add: rbac_ok_def update_keys)
qed

lemma keeps_rbac_update_permission [keeps_rules]: "keeps (on_db rbac_ok) (sql_update_permission u)"
  unfolding sql_update_permission_def
proof (rule keeps_exec_checkedM)
  fix d
  let ?f = "\<lambda>r. r\<lparr>pe_name := pm_name u, pe_description := pm_description u, pe_resource := pm_resource u,
               pe_action := pm_action u, pe_updated_at := e_updated_at u\<rparr>"
  assume d: "rbac_ok d" and c: "check_constraints [(list_ex (live_permission (e_id u)) (permissions d) \<longrightarrow>
      list_all (\<lambda>r. pe_name r = pm_name u \<longrightarrow> pe_id r = e_id u) (permissions d), unique_violation ''permissions_name_key'')] = None"
  have "distinct (map pe_name (update_where (live_permission (e_id u)) ?f (permissions d)))"
  proof (cases "list_ex (live_permission (e_id u)) (permissions d)")
    case True
    then show ?thesis
      using c d by (intro distinct_rename [of pe_id _ _ _ "e_id u" "pm_name u"])
        (auto simp: rbac_ok_def live_permission_def list_all_iff split: if_splits)
  next
    case False
    then have "update_where (live_permission (e_id u)) ?f (permissions d) = permissions d"
      by (intro update_where_id) (auto simp: list_ex_iff)
    then show ?thesis using d by (simp add: rbac_ok_def)
  qed
  then show "rbac_ok (d\<lparr>permissions := update_where (live_permission (e_id u)) ?f (permissions d)\<rparr>)"
    using d by (simp add: rbac_ok_def update_keys)
qed

lemma keeps_rbac_delete_role [keeps_rules]: "keeps (on_db rbac_ok) (sql_delete_role i)"
  unfolding sql_delete_role_def
  by (intro keeps_rules) (simp add: rbac_ok_def update_keys)

lemma keeps_rbac_delete_permission [keeps_rules]: "keeps (on_db rbac_ok) (sql_delete_permission i)"
  unfolding sql_delete_permission_def
  by (intro keeps_rules) (simp add: rbac_ok_def update_keys)

lemma keeps_rbac_assign_user_role [keeps_rules]: "keeps (on_db rbac_ok) (sql_assign_user_role u r)"
  unfolding sql_assign_user_role_def
  by (intro keeps_bindM keeps_nowM keeps_insertM) (simp add: rbac_ok_def split: if_splits, blast)

lemma keeps_rbac_assign_role_permission [keeps_rules]: "keeps (on_db rbac_ok) (sql_assign_role_permission r p)"
  unfolding sql_assign_role_permission_def
  by (intro keeps_bindM keeps_nowM keeps_insertM) (simp add: rbac_ok_def split: if_splits, blast)

lemma keeps_rbac_remove_user_role [keeps_rules]: "keeps (on_db rbac_ok) (sql_remove_user_role u r)"
  unfolding sql_remove_user_role_def
  by (rule keeps_execM) (auto simp: rbac_ok_def intro: distinct_map_filterI)

lemma keeps_rbac_remove_role_permission [keeps_rules]: "keeps (on_db rbac_ok) (sql_remove_role_permission r p)"
  unfolding sql_remove_role_permission_def
  by (rule keeps_execM) (auto simp: rbac_ok_def intro: distinct_map_filterI)

lemma rbac_refs:
  "rbac_ok d \<Longrightarrow> x \<in> set (user_roles d) \<Longrightarrow> ur_role_id x \<in> ro_id ` set (roles d)"
  "rbac_ok d \<Longrightarrow> y \<in> set (role_permissions d) \<Longrightarrow> rp_role_id y \<in> ro_id ` set (roles d)"
  "rbac_ok d \<Longrightarrow> y \<in> set (role_permissions d) \<Longrightarrow> rp_permission_id y \<in> pe_id ` set (permissions d)"
  unfolding rbac_ok_def by blast+

end
