(* ===== verification/Casbin.thy ===== *)
theory Casbin
  imports Rbac_Store
begin

text \<open>
  The policy enforcer (\<open>internal/authorization/infrastructure/casbin\<close>): the adapter that reads and
  writes the table \<open>casbin_rule\<close>, the synchronisation of that table with the role and permission
  tables, and the enforcer with its policies in memory. A policy is the list of its type and its
  fields; the field \<open>policies\<close> of the world holds what the last \<open>LoadPolicy\<close> read. The engine itself
  is a library: the reader of policy lines and the role function are parameters.
\<close>

section \<open>The adapter\<close>

definition pad6 :: "string list \<Rightarrow> string list" where
  "pad6 vs = vs @ replicate (6 - length vs) ''''"

text \<open>\<open>INSERT INTO casbin_rule (ptype, v0, ..., v5) VALUES ($1, ..., $7)\<close> with a list of arguments.\<close>

definition insert_rule :: "string list \<Rightarrow> (world, unit) gop" where
  "insert_rule args = sqlM (\<lambda>d.
     if length args \<noteq> 7 then Inl (PqErr ''08P01'' ''bind message does not match the statement'')
     else Inr ((), d\<lparr>casbin_rule := casbin_rule d @ [\<lparr>cb_ptype = hd args, cb_values = tl args\<rparr>]\<rparr>))"

definition policy_text :: "casbin_row \<Rightarrow> string" where
  "policy_text r = trim_right (cb_ptype r @ concat (map (\<lambda>v. '', '' @ v) (cb_values r))) '', ''"

text \<open>\<open>persist.LoadPolicyLine\<close> adds the rule to the model unless the model has it.\<close>

definition load_policy_line :: "libs \<Rightarrow> string \<Rightarrow> string list list \<Rightarrow> goerr + string list list" where
  "load_policy_line L line m =
     (if line = '''' \<or> hd line = CHR ''#'' then Inr m
      else case policy_line L line of
        None \<Rightarrow> Inl (ExtErr ''invalid policy rule'')
      | Some (ptype, vs) \<Rightarrow> Inr (if ptype # vs \<in> set m then m else m @ [ptype # vs]))"

fun load_rows :: "libs \<Rightarrow> casbin_row list \<Rightarrow> string list list \<Rightarrow> goerr + string list list" where
  "load_rows L [] m = Inr m"
| "load_rows L (r # rs) m = (case load_policy_line L (policy_text r) m of
      Inl e \<Rightarrow> Inl (Wrapf ''load policy line'' e)
    | Inr m' \<Rightarrow> load_rows L rs m')"

definition adapter_load_policy :: "libs \<Rightarrow> string list list \<Rightarrow> (world, string list list) gop" where
  "adapter_load_policy L m = bindM (wrapM ''load policy'' (queryM casbin_rule)) (\<lambda>rows.
     case load_rows L rows m of Inl e \<Rightarrow> errM e | Inr m' \<Rightarrow> retM m')"

text \<open>The two sections of the model; the type of a rule starts with the name of its section.\<close>

definition in_section :: "char \<Rightarrow> string list \<Rightarrow> bool" where
  "in_section c rule \<longleftrightarrow> rule \<noteq> [] \<and> hd rule \<noteq> '''' \<and> hd (hd rule) = c"

definition adapter_save_policy :: "string list list \<Rightarrow> (world, unit) gop" where
  "adapter_save_policy m = txM (Wrapf ''save policy begin tx'') id
     (bindM (wrapM ''save policy delete'' (execM (\<lambda>d. d\<lparr>casbin_rule := []\<rparr>))) (\<lambda>_.
      bindM (wrapM ''save policy prepare'' noopM) (\<lambda>_.
      bindM (forM (filter (in_section (CHR ''p'')) m)
        (\<lambda>rule. wrapM ''save policy insert'' (insert_rule (hd rule # pad6 (tl rule))))) (\<lambda>_.
      forM (filter (in_section (CHR ''g'')) m)
        (\<lambda>rule. wrapM ''save policy insert g'' (insert_rule (hd rule # pad6 (tl rule))))))))"

text \<open>The values are padded to eight for a statement with seven parameters.\<close>

definition adapter_add_policy :: "string \<Rightarrow> string \<Rightarrow> string list \<Rightarrow> (world, unit) gop" where
  "adapter_add_policy sec ptype rule =
     (let values = ptype # rule;
          values = values @ replicate (8 - length values) ''''
      in wrapM ''add policy'' (insert_rule values))"

text \<open>
  A deletion by column values: \<open>(i, v)\<close> asks for the value \<open>v\<close> in the column \<open>v<i>\<close>, and there are
  six columns.
\<close>

definition delete_rules :: "string \<Rightarrow> (nat \<times> string) list \<Rightarrow> (world, unit) gop" where
  "delete_rules ptype conds = sqlM (\<lambda>d.
     if list_ex (\<lambda>(i, v). 6 \<le> i) conds then Inl (PqErr ''42703'' ''column does not exist'')
     else Inr ((), d\<lparr>casbin_rule := filter
       (\<lambda>r. \<not> (cb_ptype r = ptype \<and> list_all (\<lambda>(i, v). cb_values r ! i = v) conds)) (casbin_rule d)\<rparr>))"

definition adapter_remove_policy :: "string \<Rightarrow> string \<Rightarrow> string list \<Rightarrow> (world, unit) gop" where
  "adapter_remove_policy sec ptype rule =
     wrapM ''remove policy'' (delete_rules ptype (zip [0..<length rule] rule))"

definition adapter_remove_filtered_policy ::
  "string \<Rightarrow> string \<Rightarrow> nat \<Rightarrow> string list \<Rightarrow> (world, unit) gop" where
  "adapter_remove_filtered_policy sec ptype fieldIndex fieldValues =
     wrapM ''remove filtered policy'' (delete_rules ptype
       (filter (\<lambda>(i, v). v \<noteq> '''') (zip [fieldIndex..<fieldIndex + length fieldValues] fieldValues)))"

section \<open>Flattened policies\<close>

text \<open>
  The join of the two sync queries, restricted to users that satisfy \<open>P\<close>; \<open>GROUP BY\<close> on the three
  columns makes the rows distinct, in an order the query leaves open.
\<close>

definition flattened :: "libs \<Rightarrow> (uuid \<Rightarrow> bool) \<Rightarrow> database \<Rightarrow> string list list" where
  "flattened L P d = remdups
     [[uuid_string L (ur_user_id ur), pe_resource p, pe_action p].
        ur \<leftarrow> user_roles d, rp \<leftarrow> role_permissions d, p \<leftarrow> permissions d, r \<leftarrow> roles d,
        ur_role_id ur = rp_role_id rp \<and> rp_permission_id rp = pe_id p \<and> ur_role_id ur = ro_id r \<and>
        P (ur_user_id ur) \<and> ro_deleted_at r = None \<and> pe_deleted_at p = None]"

definition load_user_flattened_policies :: "libs \<Rightarrow> uuid \<Rightarrow> (world, string list list) gop" where
  "load_user_flattened_policies L u = wrapM ''query user policies'' (queryM (flattened L (\<lambda>v. v = u)))"

definition load_all_flattened_policies :: "libs \<Rightarrow> (world, string list list) gop" where
  "load_all_flattened_policies L = wrapM ''query all policies'' (queryM (flattened L (\<lambda>v. True)))"

definition insert_flat :: "string list \<Rightarrow> (world, unit) gop" where
  "insert_flat p = insertM (\<lambda>d. [])
     (\<lambda>d. d\<lparr>casbin_rule := casbin_rule d @
        [\<lparr>cb_ptype = ''p'', cb_values = pad6 [p ! 0, p ! 1, p ! 2]\<rparr>]\<rparr>)"

text \<open>\<open>LoadPolicy\<close> of the library: a new model is filled, and replaces the old one on success.\<close>

definition engine_load_policy :: "libs \<Rightarrow> (world, unit) gop" where
  "engine_load_policy L = bindM (adapter_load_policy L []) (\<lambda>m. modifyM (\<lambda>w. w\<lparr>policies := m\<rparr>))"

definition sync_user_policies :: "libs \<Rightarrow> uuid \<Rightarrow> (world, unit) gop" where
  "sync_user_policies L u =
     bindM (wrapM ''load flattened policies'' (load_user_flattened_policies L u)) (\<lambda>ps.
     bindM (txM (Wrapf ''begin tx'') (Wrapf ''commit'')
       (bindM (wrapM ''delete existing policies'' (execM (\<lambda>d. d\<lparr>casbin_rule := filter
          (\<lambda>r. \<not> (cb_ptype r = ''p'' \<and> cb_values r ! 0 = uuid_string L u)) (casbin_rule d)\<rparr>))) (\<lambda>_.
        bindM (wrapM ''prepare insert'' noopM) (\<lambda>_.
        forM ps (\<lambda>p. wrapM ''insert policy'' (insert_flat p)))))) (\<lambda>_.
     wrapM ''load policy'' (engine_load_policy L)))"

definition sync_all_policies :: "libs \<Rightarrow> (world, unit) gop" where
  "sync_all_policies L =
     bindM (wrapM ''load all flattened policies'' (load_all_flattened_policies L)) (\<lambda>ps.
     bindM (txM (Wrapf ''begin tx'') (Wrapf ''commit'')
       (bindM (wrapM ''delete existing policies'' (execM (\<lambda>d. d\<lparr>casbin_rule := filter
          (\<lambda>r. \<not> cb_ptype r = ''p'') (casbin_rule d)\<rparr>))) (\<lambda>_.
        bindM (wrapM ''prepare insert'' noopM) (\<lambda>_.
        forM ps (\<lambda>p. wrapM ''insert policy'' (insert_flat p)))))) (\<lambda>_.
     engine_load_policy L))"

section \<open>The enforcer\<close>

text \<open>
  \<open>model.conf\<close>: a request (sub, obj, act) is allowed when some policy has
  \<open>g(r.sub, p.sub) && r.obj == p.obj && r.act == p.act\<close>. The results of the engine are cached; the
  cache is cleared by \<open>LoadPolicy\<close>, so it does not show.
\<close>

definition grouping :: "string list list \<Rightarrow> string list list" where
  "grouping m = map tl (filter (\<lambda>rule. rule \<noteq> [] \<and> hd rule = ''g'') m)"

definition matches_model :: "libs \<Rightarrow> string list list \<Rightarrow> string \<Rightarrow> string \<Rightarrow> string \<Rightarrow> bool" where
  "matches_model L m sub obj act = list_ex (\<lambda>rule. case rule of
      [ptype, s, ob, a] \<Rightarrow> ptype = ''p'' \<and> casbin_g L (grouping m) sub s \<and> obj = ob \<and> act = a
    | _ \<Rightarrow> False) m"

record enforcer =
  en_reload :: "(world, unit) gop"
  en_reload_user :: "uuid \<Rightarrow> (world, unit) gop"
  en_enforce :: "uuid \<Rightarrow> string \<Rightarrow> string \<Rightarrow> (world, bool) gop"

definition enforcer_reload_policies :: "libs \<Rightarrow> (world, unit) gop" where
  "enforcer_reload_policies L = wrapM ''reload policies'' (sync_all_policies L)"

definition enforcer_reload_user_policies :: "libs \<Rightarrow> uuid \<Rightarrow> (world, unit) gop" where
  "enforcer_reload_user_policies L u = wrapM ''reload user policies'' (sync_user_policies L u)"

definition enforcer_enforce :: "libs \<Rightarrow> uuid \<Rightarrow> string \<Rightarrow> string \<Rightarrow> (world, bool) gop" where
  "enforcer_enforce L u resource action =
     readM (\<lambda>w. matches_model L (policies w) (uuid_string L u) resource action)"

definition casbin_enforcer :: "libs \<Rightarrow> enforcer" where
  "casbin_enforcer L = \<lparr>en_reload = enforcer_reload_policies L,
     en_reload_user = enforcer_reload_user_policies L, en_enforce = enforcer_enforce L\<rparr>"

text \<open>\<open>casbin.NewCachedEnforcer\<close> loads the policies from the adapter, before they are reloaded.\<close>

definition new_enforcer :: "libs \<Rightarrow> (world, enforcer) gop" where
  "new_enforcer L = bindM (wrapM ''create casbin enforcer'' (engine_load_policy L)) (\<lambda>_.
     bindM (wrapM ''load initial policies'' (enforcer_reload_policies L)) (\<lambda>_. retM (casbin_enforcer L)))"

lemma casbin_enforcer_sel [simp]:
  "en_reload (casbin_enforcer L) = enforcer_reload_policies L"
  "en_reload_user (casbin_enforcer L) = enforcer_reload_user_policies L"
  "en_enforce (casbin_enforcer L) = enforcer_enforce L"
  by (simp_all add: casbin_enforcer_def)

section \<open>What the library promises\<close>

text \<open>A field that a policy line carries as it is: printable, without blanks, commas and quotes.\<close>

definition plain :: "string \<Rightarrow> bool" where
  "plain s \<longleftrightarrow> s \<noteq> '''' \<and>
     list_all (\<lambda>c. 33 \<le> (of_char c :: nat) \<and> (of_char c :: nat) \<le> 126 \<and> c \<noteq> CHR '','' \<and> c \<noteq> CHR 0x22) s"

definition line_of :: "(bool \<times> string) list \<Rightarrow> string" where
  "line_of fs = ''p'' @ concat (map (\<lambda>(blank, v). (if blank then '', '' else '','') @ v) fs)"

text \<open>
  A line is split at the commas, blanks after a comma are dropped, and a policy of type \<open>p\<close> must
  have the three fields of \<open>policy_definition\<close>. Without grouping rules a subject has only its own
  role. Identifiers are written in hexadecimal digits and hyphens.
\<close>

definition casbin_law :: "libs \<Rightarrow> bool" where
  "casbin_law L \<longleftrightarrow> uuid_law L \<and> (\<forall>u. plain (uuid_string L u)) \<and> (\<forall>s t. casbin_g L [] s t \<longleftrightarrow> s = t) \<and>
     (\<forall>fs. list_all (\<lambda>f. plain (snd f)) fs \<longrightarrow>
        policy_line L (line_of fs) = (if length fs = 3 then Some (''p'', map snd fs) else None))"

lemma split_comma_field: "CHR '','' \<notin> set v \<Longrightarrow> split_comma (v @ CHR '','' # s) = v # split_comma s"
  by (induction v) auto

lemma split_comma_single: "CHR '','' \<notin> set v \<Longrightarrow> split_comma v = [v]"
  by (induction v) auto

lemma plain_no_comma: "plain v \<Longrightarrow> CHR '','' \<notin> set v"
  by (auto simp: plain_def list_all_iff)

lemma plain_no_blank: "plain v \<Longrightarrow> CHR '' '' \<notin> set v"
proof
  assume "plain v" "CHR '' '' \<in> set v"
  then have "33 \<le> (of_char (CHR '' '') :: nat)" unfolding plain_def list_all_iff by blast
  then show False by simp
qed

lemma dropWhile_none: "(\<And>x. x \<in> set xs \<Longrightarrow> \<not> P x) \<Longrightarrow> dropWhile P xs = xs"
  by (cases xs) auto

lemma split_line_aux:
  "list_all (\<lambda>f. plain (snd f)) fs \<Longrightarrow> CHR '','' \<notin> set v \<Longrightarrow>
    split_comma (v @ concat (map (\<lambda>(blank, v). (if blank then '', '' else '','') @ v) fs)) =
      v # map (\<lambda>(blank, v). (if blank then '' '' else '''') @ v) fs"
proof (induction fs arbitrary: v)
  case (Cons f fs)
  obtain b u where f: "f = (b, u)" by (cases f)
  have "CHR '','' \<notin> set ((if b then '' '' else '''') @ u)" using Cons.prems(1) f plain_no_comma by auto
  note IH = Cons.IH [OF _ this]
  show ?case using Cons.prems IH f by (cases b) (auto simp: split_comma_field)
qed (simp add: split_comma_single)

lemma split_line:
  assumes "list_all (\<lambda>f. plain (snd f)) fs"
  shows "map (dropWhile (\<lambda>c. c = CHR '' '')) (split_comma (line_of fs)) = ''p'' # map snd fs"
proof -
  have "dropWhile (\<lambda>c. c = CHR '' '') v = v" if "plain v" for v
    using plain_no_blank [OF that] by (auto intro!: dropWhile_none)
  then have "dropWhile (\<lambda>c. c = CHR '' '') (case f of (blank, v) \<Rightarrow> (if blank then '' '' else '''') @ v) = snd f"
    if "f \<in> set fs" for f
    using that assms by (cases f) (auto simp: list_all_iff)
  then show ?thesis
    using split_line_aux [OF assms, of "''p''"] by (simp add: line_of_def o_def)
qed

lemma casbin_law_toy: "casbin_law toy_libs"
proof -
  have "toy_policy_line (line_of fs) = (if length fs = 3 then Some (''p'', map snd fs) else None)"
    if "list_all (\<lambda>f. plain (snd f)) fs" for fs
    using split_line [OF that] by (simp add: toy_policy_line_def)
  moreover have "plain (unary_string u)" for u
    by (simp add: plain_def unary_string_def list_all_iff)
  ultimately show ?thesis
    using uuid_law_toy by (simp add: casbin_law_def toy_libs_def)
qed

section \<open>Rows of the policy table\<close>

definition flat_row :: "string list \<Rightarrow> casbin_row" where
  "flat_row p = \<lparr>cb_ptype = ''p'', cb_values = pad6 [p ! 0, p ! 1, p ! 2]\<rparr>"

definition good_row :: "casbin_row \<Rightarrow> bool" where
  "good_row r \<longleftrightarrow> (let vs = take 3 (cb_values r) in
     r = flat_row vs \<and> length vs = 3 \<and> list_all plain vs)"

definition row_rule :: "casbin_row \<Rightarrow> string list" where
  "row_rule r = cb_ptype r # take 3 (cb_values r)"

lemma pad6_three [simp]: "pad6 [s, ob, a] = [s, ob, a, '''', '''', '''']"
  by (simp add: pad6_def numeral_eq_Suc)

lemma good_flat_row: "good_row (flat_row [s, ob, a]) \<longleftrightarrow> plain s \<and> plain ob \<and> plain a"
  by (simp add: good_row_def flat_row_def)

lemma row_rule_flat [simp]: "row_rule (flat_row [s, ob, a]) = [''p'', s, ob, a]"
  by (simp add: row_rule_def flat_row_def)

lemma good_rowE:
  assumes "good_row r"
  obtains s ob a where "r = flat_row [s, ob, a]" "plain s" "plain ob" "plain a"
proof -
  obtain s ob a where "take 3 (cb_values r) = [s, ob, a]"
    using assms by (auto simp: good_row_def Let_def numeral_eq_Suc length_Suc_conv)
  then show ?thesis using assms by (intro that [of s ob a]) (auto simp: good_row_def)
qed

lemma trim_right_append:
  assumes "\<And>c. c \<in> set t \<Longrightarrow> c \<in> set cs" and "v \<noteq> []" and "last v \<notin> set cs"
  shows "trim_right (v @ t) cs = v"
proof -
  obtain u x where v: "v = u @ [x]" using assms(2) by (cases v rule: rev_cases) auto
  have "dropWhile (\<lambda>c. c \<in> set cs) (rev t @ rev v) = dropWhile (\<lambda>c. c \<in> set cs) (rev v)"
    using assms(1) by (intro dropWhile_append2) auto
  then show ?thesis using assms(3) v by (simp add: trim_right_def)
qed

lemma policy_text_flat:
  assumes "plain a"
  shows "policy_text (flat_row [s, ob, a]) = line_of [(True, s), (True, ob), (True, a)]"
proof -
  have "last a \<in> set a" using assms by (simp add: plain_def)
  then have "last a \<notin> set '', ''" using plain_no_comma plain_no_blank assms by auto
  then have "trim_right (line_of [(True, s), (True, ob), (True, a)] @ '', , , '') '', '' =
      line_of [(True, s), (True, ob), (True, a)]"
    using assms by (intro trim_right_append) (auto simp: line_of_def plain_def)
  then show ?thesis by (simp add: policy_text_def flat_row_def line_of_def)
qed

lemma load_flat:
  assumes "casbin_law L" "plain s" "plain ob" "plain a"
  shows "load_policy_line L (policy_text (flat_row [s, ob, a])) m =
    Inr (if [''p'', s, ob, a] \<in> set m then m else m @ [[''p'', s, ob, a]])"
proof -
  have "policy_line L (line_of [(True, s), (True, ob), (True, a)]) = Some (''p'', [s, ob, a])"
    using assms by (simp add: casbin_law_def)
  then show ?thesis
    using assms by (simp add: load_policy_line_def policy_text_flat) (simp add: line_of_def)
qed

text \<open>One line that the reader refuses makes the whole load fail.\<close>

lemma load_rows_bad:
  assumes "r \<in> set rows" "policy_text r \<noteq> ''''" "hd (policy_text r) \<noteq> CHR ''#''" "policy_line L (policy_text r) = None"
  shows "\<exists>e. load_rows L rows m = Inl e"
  using assms(1)
proof (induction rows arbitrary: m)
  case (Cons q rows)
  then show ?case
    using assms(2-) by (cases "q = r") (auto simp: load_policy_line_def split: sum.splits)
qed simp

lemma load_rows_good:
  assumes "casbin_law L"
  shows "list_all good_row rows \<Longrightarrow>
    \<exists>m'. load_rows L rows m = Inr m' \<and> set m' = set m \<union> row_rule ` set rows"
proof (induction rows arbitrary: m)
  case (Cons r rows)
  then obtain s ob a where r: "r = flat_row [s, ob, a]" "plain s" "plain ob" "plain a"
    by (auto elim: good_rowE)
  let ?m = "if [''p'', s, ob, a] \<in> set m then m else m @ [[''p'', s, ob, a]]"
  obtain m' where m': "load_rows L rows ?m = Inr m'" "set m' = set ?m \<union> row_rule ` set rows"
    using Cons.IH [of ?m] Cons.prems by auto
  have "set ?m = insert [''p'', s, ob, a] (set m)" by auto
  then show ?case using m' r load_flat [OF assms r(2-4), of m] by simp
qed simp

section \<open>Grants, recorded policies and loaded policies\<close>

text \<open>
  What the role and permission tables grant; what the table \<open>casbin_rule\<close> records; what the policies
  in memory allow.
\<close>

definition grants :: "database \<Rightarrow> uuid \<Rightarrow> string \<Rightarrow> string \<Rightarrow> bool" where
  "grants d u resource action \<longleftrightarrow> (\<exists>ur \<in> set (user_roles d). \<exists>rp \<in> set (role_permissions d).
     \<exists>p \<in> set (permissions d). \<exists>r \<in> set (roles d).
       ur_user_id ur = u \<and> ur_role_id ur = rp_role_id rp \<and> rp_permission_id rp = pe_id p \<and>
       ur_role_id ur = ro_id r \<and> ro_deleted_at r = None \<and> pe_deleted_at p = None \<and>
       pe_resource p = resource \<and> pe_action p = action)"

definition records :: "libs \<Rightarrow> database \<Rightarrow> uuid \<Rightarrow> string \<Rightarrow> string \<Rightarrow> bool" where
  "records L d u resource action \<longleftrightarrow>
     (\<exists>r \<in> set (casbin_rule d). row_rule r = [''p'', uuid_string L u, resource, action])"

definition allows :: "libs \<Rightarrow> world \<Rightarrow> uuid \<Rightarrow> string \<Rightarrow> string \<Rightarrow> bool" where
  "allows L w u resource action \<longleftrightarrow> matches_model L (policies w) (uuid_string L u) resource action"

definition fields_plain :: "database \<Rightarrow> bool" where
  "fields_plain d \<longleftrightarrow>
     list_all (\<lambda>p. pe_deleted_at p = None \<longrightarrow> plain (pe_resource p) \<and> plain (pe_action p)) (permissions d)"

definition policy_tables_ok :: "database \<Rightarrow> bool" where
  "policy_tables_ok d \<longleftrightarrow> fields_plain d \<and> list_all good_row (casbin_rule d)"

definition enforcer_ready :: "world \<Rightarrow> bool" where
  "enforcer_ready w \<longleftrightarrow> faults w = [] \<and> policy_tables_ok (db w)"

definition synced :: "libs \<Rightarrow> world \<Rightarrow> bool" where
  "synced L w \<longleftrightarrow> (\<forall>u resource action. records L (db w) u resource action = grants (db w) u resource action) \<and>
     (\<forall>u resource action. allows L w u resource action = grants (db w) u resource action)"

lemma set_flattened:
  "set (flattened L P d) =
     {[uuid_string L u, resource, action] | u resource action. P u \<and> grants d u resource action}"
  unfolding flattened_def grants_def by fastforce

lemma matches_loaded:
  assumes "casbin_law L" and "\<forall>rule \<in> set m. \<exists>s ob a. rule = [''p'', s, ob, a]"
  shows "matches_model L m s ob a \<longleftrightarrow> [''p'', s, ob, a] \<in> set m"
proof -
  have "filter (\<lambda>rule. rule \<noteq> [] \<and> hd rule = ''g'') m = []"
    using assms(2) by (fastforce simp: filter_empty_conv)
  then have g: "casbin_g L (grouping m) s t \<longleftrightarrow> s = t" for s t
    using assms(1) by (simp add: grouping_def casbin_law_def)
  show ?thesis
  proof
    assume "matches_model L m s ob a"
    then obtain rule where "rule \<in> set m" "case rule of
        [ptype, s', ob', a'] \<Rightarrow> ptype = ''p'' \<and> casbin_g L (grouping m) s s' \<and> ob = ob' \<and> a = a'
      | _ \<Rightarrow> False"
      unfolding matches_model_def list_ex_iff by blast
    then show "[''p'', s, ob, a] \<in> set m" using assms(2) g by fastforce
  next
    assume "[''p'', s, ob, a] \<in> set m"
    then show "matches_model L m s ob a"
      unfolding matches_model_def list_ex_iff by (intro bexI [of _ "[''p'', s, ob, a]"]) (simp_all add: g)
  qed
qed

text \<open>Loading the table puts what it records in memory.\<close>

lemma engine_load:
  assumes "casbin_law L" "faults w = []" "list_all good_row (casbin_rule (db w))"
  shows "\<exists>m. engine_load_policy L w = (Ok (), w\<lparr>policies := m\<rparr>) \<and>
    (\<forall>u resource action. allows L (w\<lparr>policies := m\<rparr>) u resource action = records L (db w) u resource action)"
proof -
  obtain m where m: "load_rows L (casbin_rule (db w)) [] = Inr m" "set m = row_rule ` set (casbin_rule (db w))"
    using load_rows_good [OF assms(1,3), of "[]"] by auto
  have "\<forall>rule \<in> set m. \<exists>s ob a. rule = [''p'', s, ob, a]"
    using m(2) assms(3) by (auto simp: list_all_iff elim!: good_rowE)
  note * = matches_loaded [OF assms(1) this]
  have "allows L (w\<lparr>policies := m\<rparr>) u resource action = records L (db w) u resource action" for u resource action
    unfolding allows_def records_def by (simp add: * m(2) image_iff eq_commute)
  moreover have "engine_load_policy L w = (Ok (), w\<lparr>policies := m\<rparr>)"
    using assms(2) m(1) by (simp add: engine_load_policy_def adapter_load_policy_def op_defs)
  ultimately show ?thesis by blast
qed

lemma txM_nofault:
  assumes "faults w = []" "body w = (Ok x, w')" "faults w' = []"
  shows "txM b c body w = (Ok x, w')"
  using assms by (simp add: txM_def op_defs)

lemma wrapM_run: "m w = (Ok x, w') \<Longrightarrow> wrapM msg m w = (Ok x, w')"
  by (simp add: wrapM_Ok)

lemma insert_flats:
  "faults w = [] \<Longrightarrow> forM ps (\<lambda>p. wrapM msg (insert_flat p)) w =
    (Ok (), w\<lparr>db := db w\<lparr>casbin_rule := casbin_rule (db w) @ map flat_row ps\<rparr>\<rparr>)"
proof (induction ps arbitrary: w)
  case (Cons p ps)
  let ?w = "w\<lparr>db := db w\<lparr>casbin_rule := casbin_rule (db w) @ [flat_row p]\<rparr>\<rparr>"
  have "wrapM msg (insert_flat p) w = (Ok (), ?w)"
    using Cons.prems by (simp add: insert_flat_def op_defs flat_row_def)
  then have "forM (p # ps) (\<lambda>p. wrapM msg (insert_flat p)) w = forM ps (\<lambda>p. wrapM msg (insert_flat p)) ?w"
    by (simp add: bindM_def)
  also have "\<dots> = (Ok (), ?w\<lparr>db := db ?w\<lparr>casbin_rule := casbin_rule (db ?w) @ map flat_row ps\<rparr>\<rparr>)"
    using Cons.prems by (intro Cons.IH) simp
  finally show ?case by simp
qed (simp add: op_defs)

definition rewritten :: "(casbin_row \<Rightarrow> bool) \<Rightarrow> string list list \<Rightarrow> world \<Rightarrow> world" where
  "rewritten doomed ps w =
     w\<lparr>db := db w\<lparr>casbin_rule := filter (\<lambda>r. \<not> doomed r) (casbin_rule (db w)) @ map flat_row ps\<rparr>\<rparr>"

lemma rewrite_nofault:
  assumes "faults w = []"
  shows "txM (Wrapf ''begin tx'') (Wrapf ''commit'')
    (bindM (wrapM ''delete existing policies'' (execM (\<lambda>d. d\<lparr>casbin_rule := filter (\<lambda>r. \<not> doomed r) (casbin_rule d)\<rparr>))) (\<lambda>_.
     bindM (wrapM ''prepare insert'' noopM) (\<lambda>_. forM ps (\<lambda>p. wrapM ''insert policy'' (insert_flat p))))) w =
    (Ok (), rewritten doomed ps w)"
  using assms
  by (intro txM_nofault) (simp_all add: rewritten_def bindM_def wrapM_run insert_flats)

lemma sync_all_run:
  assumes "faults w = []"
  shows "sync_all_policies L w =
    engine_load_policy L (rewritten (\<lambda>r. cb_ptype r = ''p'') (flattened L (\<lambda>v. True) (db w)) w)"
  using assms rewrite_nofault [OF assms, of "\<lambda>r. cb_ptype r = ''p''"]
  by (simp add: sync_all_policies_def load_all_flattened_policies_def bindM_def wrapM_run)

lemma grants_plain:
  "fields_plain d \<Longrightarrow> grants d u resource action \<Longrightarrow> plain resource \<and> plain action"
  unfolding grants_def fields_plain_def list_all_iff by blast

lemma flattened_rows:
  assumes "casbin_law L" "fields_plain d"
  shows "list_all good_row (map flat_row (flattened L P d))"
    "(\<exists>r \<in> set (map flat_row (flattened L P d)). row_rule r = [''p'', uuid_string L u, ob, a]) \<longleftrightarrow> P u \<and> grants d u ob a"
proof -
  have pl: "plain (uuid_string L u)" for u using assms(1) by (simp add: casbin_law_def)
  show "list_all good_row (map flat_row (flattened L P d))"
    by (auto simp: list_all_iff set_flattened good_flat_row pl dest: grants_plain [OF assms(2)])
  have inj: "uuid_string L v = uuid_string L u \<longleftrightarrow> v = u" for v
    using assms(1) by (simp add: casbin_law_def uuid_string_inj)
  show "(\<exists>r \<in> set (map flat_row (flattened L P d)). row_rule r = [''p'', uuid_string L u, ob, a]) \<longleftrightarrow> P u \<and> grants d u ob a"
    by (auto simp: set_flattened inj) (use inj in fastforce)
qed

lemma grants_rewritten [simp]: "grants (db (rewritten doomed ps w)) = grants (db w)"
  by (simp add: rewritten_def grants_def fun_eq_iff)

lemma fields_plain_rewritten [simp]: "fields_plain (db (rewritten doomed ps w)) = fields_plain (db w)"
  by (simp add: rewritten_def fields_plain_def)

lemma faults_rewritten [simp]: "faults (rewritten doomed ps w) = faults w"
  by (simp add: rewritten_def)

lemma records_rewritten:
  assumes "casbin_law L" "policy_tables_ok (db w)"
  shows "policy_tables_ok (db (rewritten doomed (flattened L P (db w)) w))"
    "records L (db (rewritten doomed (flattened L P (db w)) w)) u ob a \<longleftrightarrow>
      (\<exists>r \<in> set (casbin_rule (db w)). \<not> doomed r \<and> row_rule r = [''p'', uuid_string L u, ob, a]) \<or>
      P u \<and> grants (db w) u ob a"
proof -
  have f: "fields_plain (db w)" using assms(2) by (simp add: policy_tables_ok_def)
  note rows = flattened_rows [OF assms(1) f]
  show "policy_tables_ok (db (rewritten doomed (flattened L P (db w)) w))"
    using assms(2) rows(1) [of P]
    by (auto simp: policy_tables_ok_def rewritten_def list_all_iff fields_plain_def)
  show "records L (db (rewritten doomed (flattened L P (db w)) w)) u ob a \<longleftrightarrow>
      (\<exists>r \<in> set (casbin_rule (db w)). \<not> doomed r \<and> row_rule r = [''p'', uuid_string L u, ob, a]) \<or>
      P u \<and> grants (db w) u ob a"
    unfolding rows(2) [of P u ob a, symmetric] by (simp add: records_def rewritten_def bex_Un) blast
qed

lemma good_row_values: "good_row r \<Longrightarrow> cb_ptype r = ''p'' \<and> cb_values r ! 0 = row_rule r ! 1"
  by (auto elim!: good_rowE simp: row_rule_def flat_row_def)

text \<open>The two synchronisations on fault-free tables.\<close>

definition reloaded :: "libs \<Rightarrow> world \<Rightarrow> world \<Rightarrow> bool" where
  "reloaded L w w' \<longleftrightarrow> enforcer_ready w' \<and> grants (db w') = grants (db w) \<and> allows L w' = records L (db w')"

lemma reload_all:
  assumes "casbin_law L" "enforcer_ready w"
  shows "\<exists>w'. enforcer_reload_policies L w = (Ok (), w') \<and> reloaded L w w' \<and> records L (db w') = grants (db w)"
proof -
  have w: "faults w = []" "policy_tables_ok (db w)" using assms(2) by (simp_all add: enforcer_ready_def)
  let ?w = "rewritten (\<lambda>r. cb_ptype r = ''p'') (flattened L (\<lambda>v. True) (db w)) w"
  note rec = records_rewritten [OF assms(1) w(2), of "\<lambda>r. cb_ptype r = ''p''" "\<lambda>v. True"]
  obtain m where m: "engine_load_policy L ?w = (Ok (), ?w\<lparr>policies := m\<rparr>)"
      "\<And>u ob a. allows L (?w\<lparr>policies := m\<rparr>) u ob a = records L (db ?w) u ob a"
    using engine_load [OF assms(1), of ?w] rec(1) w(1) by (auto simp: policy_tables_ok_def)
  have "enforcer_reload_policies L w = (Ok (), ?w\<lparr>policies := m\<rparr>)"
    using sync_all_run [OF w(1), of L] m(1) by (simp add: enforcer_reload_policies_def wrapM_Ok)
  moreover have "records L (db ?w) = grants (db w)"
  proof (intro ext)
    fix u ob a
    show "records L (db ?w) u ob a = grants (db w) u ob a"
      using w(2) by (auto simp: rec(2) policy_tables_ok_def list_all_iff dest: good_row_values)
  qed
  ultimately show ?thesis
    using m(2) rec(1) w(1) by (auto simp: reloaded_def enforcer_ready_def fun_eq_iff)
qed

lemma reload_one:
  assumes "casbin_law L" "enforcer_ready w"
  shows "\<exists>w'. enforcer_reload_user_policies L u w = (Ok (), w') \<and> reloaded L w w' \<and>
    records L (db w') = (records L (db w))(u := grants (db w) u)"
proof -
  have w: "faults w = []" "policy_tables_ok (db w)" using assms(2) by (simp_all add: enforcer_ready_def)
  let ?doomed = "\<lambda>r. cb_ptype r = ''p'' \<and> cb_values r ! 0 = uuid_string L u"
  let ?w = "rewritten ?doomed (flattened L (\<lambda>v. v = u) (db w)) w"
  note rec = records_rewritten [OF assms(1) w(2), of ?doomed "\<lambda>v. v = u"]
  obtain m where m: "engine_load_policy L ?w = (Ok (), ?w\<lparr>policies := m\<rparr>)"
      "\<And>u ob a. allows L (?w\<lparr>policies := m\<rparr>) u ob a = records L (db ?w) u ob a"
    using engine_load [OF assms(1), of ?w] rec(1) w(1) by (auto simp: policy_tables_ok_def)
  have "enforcer_reload_user_policies L u w = (Ok (), ?w\<lparr>policies := m\<rparr>)"
    unfolding enforcer_reload_user_policies_def sync_user_policies_def load_user_flattened_policies_def
    using w(1) rewrite_nofault [OF w(1), of ?doomed] m(1)
    by (simp add: wrapM_Ok bindM_Ok)
  moreover have "records L (db ?w) = (records L (db w))(u := grants (db w) u)"
  proof (intro ext)
    fix v ob a
    have g: "\<And>r. r \<in> set (casbin_rule (db w)) \<Longrightarrow> good_row r"
      using w(2) by (simp add: policy_tables_ok_def list_all_iff)
    have inj: "uuid_string L v = uuid_string L u \<longleftrightarrow> v = u"
      using assms(1) by (simp add: casbin_law_def uuid_string_inj)
    have "?doomed r \<longleftrightarrow> v = u" if "r \<in> set (casbin_rule (db w))" "row_rule r = [''p'', uuid_string L v, ob, a]" for r
      using good_row_values [OF g [OF that(1)]] that(2) inj by simp
    then have "(\<exists>r \<in> set (casbin_rule (db w)). \<not> ?doomed r \<and> row_rule r = [''p'', uuid_string L v, ob, a]) \<longleftrightarrow>
        records L (db w) v ob a \<and> v \<noteq> u"
      unfolding records_def by blast
    then show "records L (db ?w) v ob a = ((records L (db w))(u := grants (db w) u)) v ob a"
      unfolding rec(2) by auto
  qed
  ultimately show ?thesis
    using m(2) rec(1) w(1) by (auto simp: reloaded_def enforcer_ready_def fun_eq_iff)
qed

section \<open>The contract of an enforcer\<close>

text \<open>
  What the command handlers rely on: the answers are those of the policies in memory; a reload
  records and loads what the role tables grant, for everybody or for one user; neither reload
  changes the role tables.
\<close>

locale policy_enforcer =
  fixes en :: enforcer
    and ready :: "world \<Rightarrow> bool"
    and may :: "world \<Rightarrow> uuid \<Rightarrow> string \<Rightarrow> string \<Rightarrow> bool"
    and recorded :: "world \<Rightarrow> uuid \<Rightarrow> string \<Rightarrow> string \<Rightarrow> bool"
    and loaded :: "world \<Rightarrow> uuid \<Rightarrow> string \<Rightarrow> string \<Rightarrow> bool"
  assumes enforce_loaded: "en_enforce en u ob a w = (Ok (loaded w u ob a), w)"
    and reload_law: "ready w \<Longrightarrow> \<exists>w'. en_reload en w = (Ok (), w') \<and> ready w' \<and> may w' = may w \<and>
      loaded w' = recorded w' \<and> recorded w' = may w"
    and reload_user_law: "ready w \<Longrightarrow> \<exists>w'. en_reload_user en u w = (Ok (), w') \<and> ready w' \<and> may w' = may w \<and>
      loaded w' = recorded w' \<and> recorded w' = (recorded w)(u := may w u)"
begin

lemma reload_syncs:
  "ready w \<Longrightarrow> \<exists>w'. en_reload en w = (Ok (), w') \<and> ready w' \<and> may w' = may w \<and> recorded w' = may w' \<and> loaded w' = may w'"
  using reload_law [of w] by auto

lemma user_reload_syncs:
  assumes "ready w" "\<And>v. v \<noteq> u \<Longrightarrow> recorded w v = may w v"
  shows "\<exists>w'. en_reload_user en u w = (Ok (), w') \<and> ready w' \<and> may w' = may w \<and> recorded w' = may w' \<and> loaded w' = may w'"
proof -
  have "(recorded w)(u := may w u) = may w" using assms(2) by (auto simp: fun_eq_iff)
  then show ?thesis using reload_user_law [OF assms(1), of u] by auto
qed

lemma synced_answers: "loaded w = may w \<Longrightarrow> en_enforce en u ob a w = (Ok (may w u ob a), w)"
  by (simp add: enforce_loaded)

end

text \<open>The casbin enforcer meets it, for libraries that keep their promises.\<close>

interpretation casbin: policy_enforcer "casbin_enforcer L" "\<lambda>w. casbin_law L \<and> enforcer_ready w"
    "\<lambda>w. grants (db w)" "\<lambda>w. records L (db w)" "allows L" for L
proof (unfold_locales, goal_cases)
  case (1 u ob a w)
  then show ?case by (simp add: enforcer_enforce_def allows_def op_defs)
next
  case (2 w)
  then show ?case using reload_all [of L w] by (auto simp: reloaded_def)
next
  case (3 w u)
  then show ?case using reload_one [of L w u] by (auto simp: reloaded_def)
qed

end
