(* ===== verification/Authorization.thy ===== *)
theory Authorization
  imports Casbin
begin

text \<open>
  The command and query handlers of \<open>internal/authorization\<close> over the repository interfaces and the
  enforcer, and what they keep: the keys of the tables under any faults, the agreement of the
  enforcer with the role tables under the commands that reload it, and what the commands that do
  not reload leave behind. What each command does is in \<open>Authz_Refine\<close>.
\<close>

section \<open>Interfaces\<close>

record role_repo =
  rr_create :: "role \<Rightarrow> (world, unit) gop"
  rr_get_by_id :: "uuid \<Rightarrow> (world, role) gop"
  rr_get_by_name :: "string \<Rightarrow> (world, role) gop"
  rr_get_all :: "ctx \<Rightarrow> string option \<Rightarrow> int \<Rightarrow> (world, role page) gop"
  rr_update :: "role \<Rightarrow> (world, unit) gop"
  rr_delete :: "uuid \<Rightarrow> (world, unit) gop"

record permission_repo =
  pr_create :: "permission \<Rightarrow> (world, unit) gop"
  pr_get_by_id :: "uuid \<Rightarrow> (world, permission) gop"
  pr_get_by_name :: "string \<Rightarrow> (world, permission) gop"
  pr_get_all :: "ctx \<Rightarrow> string option \<Rightarrow> int \<Rightarrow> (world, permission page) gop"
  pr_update :: "permission \<Rightarrow> (world, unit) gop"
  pr_delete :: "uuid \<Rightarrow> (world, unit) gop"

record user_role_repo =
  ur_assign :: "user_role \<Rightarrow> (world, unit) gop"
  ur_remove :: "uuid \<Rightarrow> uuid \<Rightarrow> (world, unit) gop"
  ur_get_by_user_id :: "uuid \<Rightarrow> (world, user_role list) gop"
  ur_get_roles_by_user_id :: "uuid \<Rightarrow> (world, role list) gop"

record role_permission_repo =
  rp_assign :: "role_permission \<Rightarrow> (world, unit) gop"
  rp_remove :: "uuid \<Rightarrow> uuid \<Rightarrow> (world, unit) gop"
  rp_get_by_role_id :: "uuid \<Rightarrow> (world, role_permission list) gop"
  rp_get_permissions_by_role_id :: "uuid \<Rightarrow> (world, permission list) gop"

definition pg_role_repo :: "libs \<Rightarrow> bool \<Rightarrow> role_repo" where
  "pg_role_repo L tenantEnabled =
     \<lparr>rr_create = role_create, rr_get_by_id = role_get_by_id, rr_get_by_name = role_get_by_name,
      rr_get_all = role_get_all L tenantEnabled, rr_update = role_repo_update, rr_delete = role_delete\<rparr>"

definition pg_permission_repo :: "libs \<Rightarrow> bool \<Rightarrow> permission_repo" where
  "pg_permission_repo L tenantEnabled =
     \<lparr>pr_create = permission_create, pr_get_by_id = permission_get_by_id,
      pr_get_by_name = permission_get_by_name, pr_get_all = permission_get_all L tenantEnabled,
      pr_update = permission_repo_update, pr_delete = permission_delete\<rparr>"

definition pg_user_role_repo :: user_role_repo where
  "pg_user_role_repo = \<lparr>ur_assign = user_role_assign, ur_remove = user_role_remove,
     ur_get_by_user_id = user_role_get_by_user_id, ur_get_roles_by_user_id = roles_by_user_id\<rparr>"

definition pg_role_permission_repo :: role_permission_repo where
  "pg_role_permission_repo = \<lparr>rp_assign = role_permission_assign, rp_remove = role_permission_remove,
     rp_get_by_role_id = role_permission_get_by_role_id,
     rp_get_permissions_by_role_id = permissions_by_role_id\<rparr>"

lemma pg_repo_sel [simp]:
  "rr_create (pg_role_repo L te) = role_create" "rr_get_by_id (pg_role_repo L te) = role_get_by_id"
  "rr_get_by_name (pg_role_repo L te) = role_get_by_name" "rr_get_all (pg_role_repo L te) = role_get_all L te"
  "rr_update (pg_role_repo L te) = role_repo_update" "rr_delete (pg_role_repo L te) = role_delete"
  "pr_create (pg_permission_repo L te) = permission_create" "pr_get_by_id (pg_permission_repo L te) = permission_get_by_id"
  "pr_get_by_name (pg_permission_repo L te) = permission_get_by_name"
  "pr_get_all (pg_permission_repo L te) = permission_get_all L te"
  "pr_update (pg_permission_repo L te) = permission_repo_update" "pr_delete (pg_permission_repo L te) = permission_delete"
  "ur_assign pg_user_role_repo = user_role_assign" "ur_remove pg_user_role_repo = user_role_remove"
  "ur_get_by_user_id pg_user_role_repo = user_role_get_by_user_id"
  "ur_get_roles_by_user_id pg_user_role_repo = roles_by_user_id"
  "rp_assign pg_role_permission_repo = role_permission_assign" "rp_remove pg_role_permission_repo = role_permission_remove"
  "rp_get_by_role_id pg_role_permission_repo = role_permission_get_by_role_id"
  "rp_get_permissions_by_role_id pg_role_permission_repo = permissions_by_role_id"
  by (simp_all add: pg_role_repo_def pg_permission_repo_def pg_user_role_repo_def pg_role_permission_repo_def)

section \<open>Commands\<close>

text \<open>Any error of the lookup by name, not only a missing row, lets the creation go on.\<close>

definition handle_create_role :: "role_repo \<Rightarrow> string \<Rightarrow> string \<Rightarrow> (world, role) gop" where
  "handle_create_role repo name desc = tryM (rr_get_by_name repo name) (\<lambda>r. case r of
      Inr existing \<Rightarrow> errM (Sentinel ErrConflict)
    | Inl _ \<Rightarrow> bindM (new_role name desc) (\<lambda>x. bindM (rr_create repo x) (\<lambda>_. retM x)))"

definition handle_create_permission ::
  "permission_repo \<Rightarrow> string \<Rightarrow> string \<Rightarrow> string \<Rightarrow> string \<Rightarrow> (world, permission) gop" where
  "handle_create_permission repo name desc resource action = tryM (pr_get_by_name repo name) (\<lambda>r. case r of
      Inr existing \<Rightarrow> errM (Sentinel ErrConflict)
    | Inl _ \<Rightarrow> bindM (new_permission name desc resource action) (\<lambda>x. bindM (pr_create repo x) (\<lambda>_. retM x)))"

definition handle_update_role :: "role_repo \<Rightarrow> uuid \<Rightarrow> string \<Rightarrow> string \<Rightarrow> (world, role) gop" where
  "handle_update_role repo i name desc = bindM (rr_get_by_id repo i) (\<lambda>r.
     let r1 = (if name \<noteq> '''' then r\<lparr>rl_name := name\<rparr> else r);
         r2 = (if desc \<noteq> '''' then r1\<lparr>rl_description := desc\<rparr> else r1)
     in bindM (touch r2) (\<lambda>x. bindM (rr_update repo x) (\<lambda>_. retM x)))"

definition handle_update_permission ::
  "permission_repo \<Rightarrow> uuid \<Rightarrow> string \<Rightarrow> string \<Rightarrow> string \<Rightarrow> string \<Rightarrow> (world, permission) gop" where
  "handle_update_permission repo i name desc resource action = bindM (pr_get_by_id repo i) (\<lambda>p.
     let p1 = (if name \<noteq> '''' then p\<lparr>pm_name := name\<rparr> else p);
         p2 = (if desc \<noteq> '''' then p1\<lparr>pm_description := desc\<rparr> else p1);
         p3 = (if resource \<noteq> '''' then p2\<lparr>pm_resource := resource\<rparr> else p2);
         p4 = (if action \<noteq> '''' then p3\<lparr>pm_action := action\<rparr> else p3)
     in bindM (touch p4) (\<lambda>x. bindM (pr_update repo x) (\<lambda>_. retM x)))"

definition handle_delete_role :: "role_repo \<Rightarrow> uuid \<Rightarrow> (world, unit) gop" where
  "handle_delete_role repo i = rr_delete repo i"

definition handle_delete_permission :: "permission_repo \<Rightarrow> uuid \<Rightarrow> (world, unit) gop" where
  "handle_delete_permission repo i = pr_delete repo i"

definition handle_assign_role :: "role_repo \<Rightarrow> user_role_repo \<Rightarrow> enforcer \<Rightarrow> uuid \<Rightarrow> uuid \<Rightarrow> (world, unit) gop" where
  "handle_assign_role roleRepo userRoleRepo en u r = bindM (rr_get_by_id roleRepo r) (\<lambda>_.
     bindM (ur_assign userRoleRepo (new_user_role u r)) (\<lambda>_. en_reload_user en u))"

definition handle_unassign_role :: "user_role_repo \<Rightarrow> enforcer \<Rightarrow> uuid \<Rightarrow> uuid \<Rightarrow> (world, unit) gop" where
  "handle_unassign_role userRoleRepo en u r =
     bindM (ur_remove userRoleRepo u r) (\<lambda>_. en_reload_user en u)"

definition handle_assign_permission ::
  "role_repo \<Rightarrow> permission_repo \<Rightarrow> role_permission_repo \<Rightarrow> enforcer \<Rightarrow> uuid \<Rightarrow> uuid \<Rightarrow> (world, unit) gop" where
  "handle_assign_permission roleRepo permRepo rolePermRepo en r p = bindM (rr_get_by_id roleRepo r) (\<lambda>_.
     bindM (pr_get_by_id permRepo p) (\<lambda>_.
     bindM (rp_assign rolePermRepo (new_role_permission r p)) (\<lambda>_. en_reload en)))"

definition handle_unassign_permission :: "role_permission_repo \<Rightarrow> enforcer \<Rightarrow> uuid \<Rightarrow> uuid \<Rightarrow> (world, unit) gop" where
  "handle_unassign_permission rolePermRepo en r p =
     bindM (rp_remove rolePermRepo r p) (\<lambda>_. en_reload en)"

section \<open>Queries and the provider\<close>

definition handle_get_role :: "role_repo \<Rightarrow> uuid \<Rightarrow> (world, role) gop" where
  "handle_get_role repo i = rr_get_by_id repo i"

definition handle_get_permission :: "permission_repo \<Rightarrow> uuid \<Rightarrow> (world, permission) gop" where
  "handle_get_permission repo i = pr_get_by_id repo i"

definition handle_list_roles :: "role_repo \<Rightarrow> ctx \<Rightarrow> string option \<Rightarrow> int \<Rightarrow> (world, role page) gop" where
  "handle_list_roles repo cx c limit = rr_get_all repo cx c limit"

definition handle_list_permissions :: "permission_repo \<Rightarrow> ctx \<Rightarrow> string option \<Rightarrow> int \<Rightarrow> (world, permission page) gop" where
  "handle_list_permissions repo cx c limit = pr_get_all repo cx c limit"

definition handle_get_user_roles :: "user_role_repo \<Rightarrow> uuid \<Rightarrow> (world, role list) gop" where
  "handle_get_user_roles repo u = ur_get_roles_by_user_id repo u"

definition handle_get_role_permissions :: "role_permission_repo \<Rightarrow> uuid \<Rightarrow> (world, permission list) gop" where
  "handle_get_role_permissions repo r = rp_get_permissions_by_role_id repo r"

definition handle_check_permission :: "enforcer \<Rightarrow> uuid \<Rightarrow> string \<Rightarrow> string \<Rightarrow> (world, bool) gop" where
  "handle_check_permission en u resource action = en_enforce en u resource action"

definition provider_get_user_roles :: "user_role_repo \<Rightarrow> uuid \<Rightarrow> (world, string list) gop" where
  "provider_get_user_roles repo u = bindM (ur_get_roles_by_user_id repo u) (\<lambda>rs. retM (map rl_name rs))"

section \<open>Sequences of commands\<close>

datatype authz_command =
    CreateRole string string
  | UpdateRole uuid string string
  | DeleteRole uuid
  | CreatePermission string string string string
  | UpdatePermission uuid string string string string
  | DeletePermission uuid
  | AssignRole uuid uuid
  | UnassignRole uuid uuid
  | AssignPermission uuid uuid
  | UnassignPermission uuid uuid

text \<open>The handlers as the module registers them, their results dropped.\<close>

fun run_authz_command :: "libs \<Rightarrow> authz_command \<Rightarrow> (world, unit) gop" where
  "run_authz_command L (CreateRole name desc) =
     bindM (handle_create_role (pg_role_repo L False) name desc) (\<lambda>_. retM ())"
| "run_authz_command L (UpdateRole i name desc) =
     bindM (handle_update_role (pg_role_repo L False) i name desc) (\<lambda>_. retM ())"
| "run_authz_command L (DeleteRole i) = handle_delete_role (pg_role_repo L False) i"
| "run_authz_command L (CreatePermission name desc resource action) =
     bindM (handle_create_permission (pg_permission_repo L False) name desc resource action) (\<lambda>_. retM ())"
| "run_authz_command L (UpdatePermission i name desc resource action) =
     bindM (handle_update_permission (pg_permission_repo L False) i name desc resource action) (\<lambda>_. retM ())"
| "run_authz_command L (DeletePermission i) = handle_delete_permission (pg_permission_repo L False) i"
| "run_authz_command L (AssignRole u r) =
     handle_assign_role (pg_role_repo L False) pg_user_role_repo (casbin_enforcer L) u r"
| "run_authz_command L (UnassignRole u r) = handle_unassign_role pg_user_role_repo (casbin_enforcer L) u r"
| "run_authz_command L (AssignPermission r p) =
     handle_assign_permission (pg_role_repo L False) (pg_permission_repo L False) pg_role_permission_repo
       (casbin_enforcer L) r p"
| "run_authz_command L (UnassignPermission r p) =
     handle_unassign_permission pg_role_permission_repo (casbin_enforcer L) r p"

fun run_authz :: "libs \<Rightarrow> authz_command list \<Rightarrow> world \<Rightarrow> world" where
  "run_authz L [] w = w"
| "run_authz L (c # cs) w = run_authz L cs (snd (run_authz_command L c w))"

section \<open>The tables keep their keys\<close>

lemmas authz_repo_defs =
  role_create_def role_get_by_id_def role_get_by_name_def role_repo_update_def role_delete_def
  permission_create_def permission_get_by_id_def permission_get_by_name_def permission_repo_update_def
  permission_delete_def user_role_assign_def user_role_remove_def role_permission_assign_def
  role_permission_remove_def

lemmas authz_query_defs =
  sql_get_role_by_id_def sql_get_role_by_name_def sql_get_permission_by_id_def sql_get_permission_by_name_def

lemmas authz_handler_defs =
  handle_create_role_def handle_create_permission_def handle_update_role_def handle_update_permission_def
  handle_delete_role_def handle_delete_permission_def handle_assign_role_def handle_unassign_role_def
  handle_assign_permission_def handle_unassign_permission_def new_role_def new_permission_def

lemma rbac_ok_casbin [simp]: "rbac_ok (d\<lparr>casbin_rule := rows\<rparr>) = rbac_ok d"
  by (simp add: rbac_ok_def)

lemma keeps_policies [keeps_rules]: "keeps (on_db P) (modifyM (\<lambda>w. w\<lparr>policies := m\<rparr>))"
  by (simp add: keeps_def op_defs on_db_def)

lemma keeps_engine_load [keeps_rules]: "keeps (on_db P) (engine_load_policy L)"
  unfolding engine_load_policy_def adapter_load_policy_def by (intro keeps_rules)

lemma keeps_reload [keeps_rules]:
  "keeps (on_db rbac_ok) (enforcer_reload_policies L)"
  "keeps (on_db rbac_ok) (enforcer_reload_user_policies L u)"
  unfolding enforcer_reload_policies_def sync_all_policies_def load_all_flattened_policies_def
    enforcer_reload_user_policies_def sync_user_policies_def load_user_flattened_policies_def insert_flat_def
  by (intro keeps_rules; simp)+

lemma keeps_run_authz_command: "keeps (on_db rbac_ok) (run_authz_command L c)"
  by (cases c; simp; unfold authz_handler_defs authz_repo_defs authz_query_defs Let_def casbin_enforcer_sel pg_repo_sel;
      intro keeps_rules)

section \<open>The enforcer agrees with the role tables\<close>

text \<open>
  \<open>calm w w1\<close>: the recorded and the loaded policies are as they were, and no live permission got a
  field that a policy line cannot carry.
\<close>

definition calm :: "world \<Rightarrow> world \<Rightarrow> bool" where
  "calm w w1 \<longleftrightarrow> faults w1 = [] \<and> casbin_rule (db w1) = casbin_rule (db w) \<and> policies w1 = policies w \<and>
     (fields_plain (db w) \<longrightarrow> fields_plain (db w1))"

lemma calm_facts:
  assumes "calm w w1"
  shows "records L (db w1) = records L (db w)" "allows L w1 = allows L w"
    "enforcer_ready w \<Longrightarrow> enforcer_ready w1"
  using assms by (simp_all add: calm_def records_def allows_def fun_eq_iff enforcer_ready_def policy_tables_ok_def)

lemma synced_alt:
  "synced L w \<longleftrightarrow> records L (db w) = grants (db w) \<and> allows L w = grants (db w)"
  by (auto simp: synced_def fun_eq_iff)

definition in_step :: "libs \<Rightarrow> world \<Rightarrow> bool" where
  "in_step L w \<longleftrightarrow> enforcer_ready w \<and> synced L w"

lemma quiet_step:
  "in_step L w \<Longrightarrow> calm w w1 \<Longrightarrow> grants (db w1) = grants (db w) \<Longrightarrow> in_step L w1"
  by (simp add: in_step_def synced_alt calm_facts)

lemma user_step:
  assumes "casbin_law L" "in_step L w" "calm w w1" "\<And>v. v \<noteq> u \<Longrightarrow> grants (db w1) v = grants (db w) v"
  shows "\<exists>w'. enforcer_reload_user_policies L u w1 = (Ok (), w') \<and> in_step L w' \<and> grants (db w') = grants (db w1)"
  using casbin.user_reload_syncs [of L w1 u] assms
  by (simp add: in_step_def synced_alt calm_facts) metis

lemma all_step:
  assumes "casbin_law L" "in_step L w" "calm w w1"
  shows "\<exists>w'. enforcer_reload_policies L w1 = (Ok (), w') \<and> in_step L w' \<and> grants (db w') = grants (db w1)"
  using casbin.reload_syncs [of L w1] assms
  by (simp add: in_step_def synced_alt calm_facts) metis

text \<open>Lookups change nothing.\<close>

lemma lookups_calm:
  assumes "faults w = []"
  shows "snd (role_get_by_id i w) = w" "snd (role_get_by_name nm w) = w"
    "snd (permission_get_by_id i w) = w" "snd (permission_get_by_name nm w) = w"
  using assms
  by (simp_all add: authz_repo_defs authz_query_defs op_defs split: option.splits)

lemma calm_refl: "in_step L w \<Longrightarrow> calm w w"
  by (simp add: calm_def in_step_def enforcer_ready_def)

lemma lookup_then:
  assumes "faults w = []" "snd (m w) = w" "\<And>x. m w = (Ok x, w) \<Longrightarrow> P (snd (f x w))" "P w"
  shows "P (snd (bindM m f w))"
  using assms by (cases "m w"; cases "fst (m w)") (auto simp: bindM_def)

text \<open>What the writes do to the grants.\<close>

definition role_live :: "database \<Rightarrow> uuid \<Rightarrow> bool" where
  "role_live d i \<longleftrightarrow> (\<exists>r \<in> set (roles d). ro_id r = i \<and> ro_deleted_at r = None)"

definition role_allows :: "database \<Rightarrow> uuid \<Rightarrow> string \<Rightarrow> string \<Rightarrow> bool" where
  "role_allows d i resource action \<longleftrightarrow> role_live d i \<and>
     (\<exists>rp \<in> set (role_permissions d). \<exists>p \<in> set (permissions d).
        rp_role_id rp = i \<and> pe_id p = rp_permission_id rp \<and> pe_deleted_at p = None \<and>
        pe_resource p = resource \<and> pe_action p = action)"

lemma grants_by_role: "grants d u resource action \<longleftrightarrow> (\<exists>i. assigned d u i \<and> role_allows d i resource action)"
proof
  assume "grants d u resource action"
  then show "\<exists>i. assigned d u i \<and> role_allows d i resource action"
    unfolding grants_def assigned_def role_allows_def role_live_def image_iff by (elim bexE conjE) (intro exI conjI bexI, auto)
next
  assume "\<exists>i. assigned d u i \<and> role_allows d i resource action"
  then obtain i ur rp p r where "ur \<in> set (user_roles d)" "u = ur_user_id ur" "i = ur_role_id ur"
      "r \<in> set (roles d)" "ro_id r = i" "ro_deleted_at r = None" "rp \<in> set (role_permissions d)"
      "p \<in> set (permissions d)" "rp_role_id rp = i" "pe_id p = rp_permission_id rp" "pe_deleted_at p = None"
      "pe_resource p = resource" "pe_action p = action"
    unfolding assigned_def role_allows_def role_live_def by auto
  then show "grants d u resource action"
    unfolding grants_def by (intro bexI [of _ ur] bexI [of _ rp] bexI [of _ p] bexI [of _ r]) auto
qed

lemma grants_other_user:
  assumes "\<And>i. assigned d' v i = assigned d v i" and "role_permissions d' = role_permissions d"
    "permissions d' = permissions d" "roles d' = roles d"
  shows "grants d' v = grants d v"
  using assms(2-4) unfolding fun_eq_iff grants_by_role assms(1) by (simp add: role_allows_def role_live_def)

lemma user_role_assign_calm:
  assumes "faults w = []"
  shows "(\<exists>e w1. user_role_assign (new_user_role u r) w = (Err e, w1) \<and> calm w w1 \<and> grants (db w1) = grants (db w)) \<or>
    (\<exists>w1. user_role_assign (new_user_role u r) w = (Ok (), w1) \<and> calm w w1 \<and>
       (\<forall>v. v \<noteq> u \<longrightarrow> grants (db w1) v = grants (db w) v))"
  using assms
  by (simp add: user_role_assign_def new_user_role_def sql_assign_user_role_def op_defs calm_def fields_plain_def
      split: if_splits) (auto intro!: grants_other_user simp: assigned_def)

lemma user_role_remove_calm:
  assumes "faults w = []"
  shows "\<exists>w1. user_role_remove u r w = (Ok (), w1) \<and> calm w w1 \<and> (\<forall>v. v \<noteq> u \<longrightarrow> grants (db w1) v = grants (db w) v)"
  using assms
  by (simp add: user_role_remove_def sql_remove_user_role_def op_defs calm_def fields_plain_def)
    (auto intro!: grants_other_user simp: assigned_def)

lemma role_permission_assign_calm:
  assumes "faults w = []"
  shows "(\<exists>e w1. role_permission_assign (new_role_permission r p) w = (Err e, w1) \<and> calm w w1 \<and> grants (db w1) = grants (db w)) \<or>
    (\<exists>w1. role_permission_assign (new_role_permission r p) w = (Ok (), w1) \<and> calm w w1)"
  using assms
  by (simp add: role_permission_assign_def new_role_permission_def sql_assign_role_permission_def op_defs calm_def
      fields_plain_def grants_def fun_eq_iff split: if_splits)

lemma role_permission_remove_calm:
  assumes "faults w = []"
  shows "\<exists>w1. role_permission_remove r p w = (Ok (), w1) \<and> calm w w1"
  using assms
  by (simp add: role_permission_remove_def sql_remove_role_permission_def op_defs calm_def fields_plain_def)

text \<open>A new role or permission is not referred to yet; a rename changes no grant.\<close>

lemma grants_new_role:
  assumes "rbac_ok d" "ro_id r \<notin> ro_id ` set (roles d)"
  shows "grants (d\<lparr>roles := roles d @ [r]\<rparr>) = grants d"
proof -
  have "i \<noteq> ro_id r" if "assigned d u i" for u i
    using that assms(2) rbac_refs(1) [OF assms(1)] by (auto simp: assigned_def) (metis rev_image_eqI)
  then have "role_live (d\<lparr>roles := roles d @ [r]\<rparr>) i = role_live d i" if "assigned d u i" for u i
    using that by (simp add: role_live_def) metis
  then have "assigned d u i \<and> role_allows (d\<lparr>roles := roles d @ [r]\<rparr>) i ob a \<longleftrightarrow> assigned d u i \<and> role_allows d i ob a" for u i ob a
    unfolding role_allows_def by auto
  then show ?thesis unfolding grants_by_role fun_eq_iff by (simp add: assigned_def)
qed

lemma grants_new_permission:
  assumes "rbac_ok d" "pe_id p \<notin> pe_id ` set (permissions d)"
  shows "grants (d\<lparr>permissions := permissions d @ [p]\<rparr>) = grants d"
proof -
  have "rp_permission_id rp \<noteq> pe_id p" if "rp \<in> set (role_permissions d)" for rp
    using rbac_refs(3) [OF assms(1) that] assms(2) by auto
  then have "role_allows (d\<lparr>permissions := permissions d @ [p]\<rparr>) i ob a = role_allows d i ob a" for i ob a
    unfolding role_allows_def role_live_def by fastforce
  then show ?thesis unfolding grants_by_role fun_eq_iff by (simp add: assigned_def)
qed

lemma grants_renamed_role:
  assumes "\<And>r. ro_id (f r) = ro_id r" "\<And>r. ro_deleted_at (f r) = ro_deleted_at r"
  shows "grants (d\<lparr>roles := update_where P f (roles d)\<rparr>) = grants d"
proof -
  have "role_live (d\<lparr>roles := update_where P f (roles d)\<rparr>) i = role_live d i" for i
    using assms by (auto simp: role_live_def set_update_where bex_Un)
  then have "role_allows (d\<lparr>roles := update_where P f (roles d)\<rparr>) i ob a = role_allows d i ob a" for i ob a
    by (simp add: role_allows_def)
  then show ?thesis unfolding grants_by_role fun_eq_iff by (simp add: assigned_def)
qed

lemma new_role_calm:
  assumes "faults w = []" "rbac_ok (db w)"
  shows "calm w (snd (handle_create_role (pg_role_repo L te) name desc w)) \<and>
    grants (db (snd (handle_create_role (pg_role_repo L te) name desc w))) = grants (db w)"
  using assms
  by (simp add: handle_create_role_def authz_repo_defs authz_query_defs sql_create_role_def new_role_def
      new_entity_def make_role_def op_defs calm_def fields_plain_def grants_new_role split: option.splits if_splits)

lemma new_permission_calm:
  assumes "faults w = []" "rbac_ok (db w)" "plain resource" "plain action"
  shows "calm w (snd (handle_create_permission (pg_permission_repo L te) name desc resource action w)) \<and>
    grants (db (snd (handle_create_permission (pg_permission_repo L te) name desc resource action w))) = grants (db w)"
  using assms
  by (simp add: handle_create_permission_def authz_repo_defs authz_query_defs sql_create_permission_def new_permission_def
      new_entity_def make_permission_def op_defs calm_def fields_plain_def grants_new_permission
      split: option.splits if_splits)

lemma rename_calm:
  assumes "faults w = []"
  shows "calm w (snd (role_repo_update r w)) \<and> grants (db (snd (role_repo_update r w))) = grants (db w)"
  using assms
  by (simp add: role_repo_update_def sql_update_role_def exec_checkedM_def sqlM_nofault op_defs calm_def
      fields_plain_def grants_renamed_role split: option.splits if_splits)

lemma update_role_calm:
  assumes "faults w = []"
  shows "calm w (snd (handle_update_role (pg_role_repo L te) i name desc w)) \<and>
    grants (db (snd (handle_update_role (pg_role_repo L te) i name desc w))) = grants (db w)"
  unfolding handle_update_role_def pg_repo_sel
proof (rule lookup_then [of w "role_get_by_id i" "\<lambda>w1. calm w w1 \<and> grants (db w1) = grants (db w)"])
  show "faults w = []" "snd (role_get_by_id i w) = w" by (simp_all add: assms lookups_calm)
next
  fix r :: role
  let ?x = "\<lambda>t. (let r1 = if name \<noteq> '''' then r\<lparr>rl_name := name\<rparr> else r;
      r2 = if desc \<noteq> '''' then r1\<lparr>rl_description := desc\<rparr> else r1 in r2)\<lparr>e_updated_at := t\<rparr>"
  let ?w = "w\<lparr>ticks := Suc (ticks w)\<rparr>" and ?P = "\<lambda>w1. calm w w1 \<and> grants (db w1) = grants (db w)"
  have "?P (snd (role_repo_update (?x (clock w (ticks w))) ?w))"
    using rename_calm [of ?w] assms by (simp add: calm_def)
  then have "?P (snd (bindM (touch (?x 0)) (\<lambda>x. bindM (role_repo_update x) (\<lambda>_. retM x)) w))"
    by (cases "role_repo_update (?x (clock w (ticks w))) ?w"; cases "fst (role_repo_update (?x (clock w (ticks w))) ?w)")
      (auto simp: touch_def op_defs)
  then show "?P (snd ((let r1 = if name \<noteq> '''' then r\<lparr>rl_name := name\<rparr> else r;
      r2 = if desc \<noteq> '''' then r1\<lparr>rl_description := desc\<rparr> else r1
     in bindM (touch r2) (\<lambda>x. bindM (role_repo_update x) (\<lambda>_. retM x))) w))"
    by (simp add: Let_def touch_def)
qed (simp add: calm_def assms)

definition keeps_sync :: "authz_command \<Rightarrow> bool" where
  "keeps_sync c = (case c of
      DeleteRole i \<Rightarrow> False
    | DeletePermission i \<Rightarrow> False
    | UpdatePermission i name desc resource action \<Rightarrow> False
    | CreatePermission name desc resource action \<Rightarrow> plain resource \<and> plain action
    | _ \<Rightarrow> True)"

lemma snd_bind_ret [simp]: "snd (bindM m (\<lambda>_. retM ()) w) = snd (m w)"
  by (simp add: op_defs split: prod.splits outcome.splits)

lemma write_then:
  "(\<exists>e w1. m w = (Err e, w1) \<and> P w1) \<or> (\<exists>x w1 w'. m w = (Ok x, w1) \<and> f x w1 = (Ok (), w') \<and> P w') \<Longrightarrow>
    P (snd (bindM m f w))"
  by (auto simp: bindM_def)

lemma command_in_step:
  assumes L: "casbin_law L" and w: "in_step L w" "rbac_ok (db w)" and c: "keeps_sync c"
  shows "in_step L (snd (run_authz_command L c w))"
proof -
  have f: "faults w = []" using w by (simp add: in_step_def enforcer_ready_def)
  note calm0 = calm_refl [OF w(1)] and quiet = quiet_step [OF w(1)]
  show ?thesis
  proof (cases c)
    case (AssignRole u r)
    have "in_step L (snd (bindM (user_role_assign (new_user_role u r)) (\<lambda>_. enforcer_reload_user_policies L u) w))"
      using user_role_assign_calm [OF f, of u r] quiet user_step [OF L w(1), of _ u] by - (rule write_then, blast)
    then show ?thesis using f w(1) lookups_calm(1) [OF f]
      by (simp add: AssignRole handle_assign_role_def lookup_then)
  next
    case (UnassignRole u r)
    have "in_step L (snd (bindM (user_role_remove u r) (\<lambda>_. enforcer_reload_user_policies L u) w))"
      using user_role_remove_calm [OF f, of u r] user_step [OF L w(1), of _ u] by - (rule write_then, blast)
    then show ?thesis by (simp add: UnassignRole handle_unassign_role_def)
  next
    case (AssignPermission r p)
    have "in_step L (snd (bindM (role_permission_assign (new_role_permission r p)) (\<lambda>_. enforcer_reload_policies L) w))"
      using role_permission_assign_calm [OF f, of r p] quiet all_step [OF L w(1)] by - (rule write_then, blast)
    then show ?thesis using f w(1) lookups_calm [OF f]
      by (simp add: AssignPermission handle_assign_permission_def lookup_then)
  next
    case (UnassignPermission r p)
    have "in_step L (snd (bindM (role_permission_remove r p) (\<lambda>_. enforcer_reload_policies L) w))"
      using role_permission_remove_calm [OF f, of r p] all_step [OF L w(1)] by - (rule write_then, blast)
    then show ?thesis by (simp add: UnassignPermission handle_unassign_permission_def)
  next
    case (CreateRole name desc)
    then show ?thesis using quiet new_role_calm [OF f w(2)] by simp
  next
    case (UpdateRole i name desc)
    then show ?thesis using quiet update_role_calm [OF f] by simp
  next
    case (CreatePermission name desc resource action)
    then show ?thesis using quiet new_permission_calm [OF f w(2)] c by (simp add: keeps_sync_def)
  qed (use c in \<open>simp_all add: keeps_sync_def\<close>)
qed

lemma run_in_step:
  "casbin_law L \<Longrightarrow> in_step L w \<Longrightarrow> rbac_ok (db w) \<Longrightarrow> list_all keeps_sync cs \<Longrightarrow> in_step L (run_authz L cs w)"
proof (induction cs arbitrary: w)
  case (Cons c cs)
  have "rbac_ok (db (snd (run_authz_command L c w)))"
    using keepsD [OF keeps_run_authz_command, of w] Cons.prems(3) by (simp add: on_db_def)
  then show ?case using Cons command_in_step by simp
qed simp

lemma enforcer_starts:
  assumes "casbin_law L" "enforcer_ready w"
  shows "\<exists>w'. new_enforcer L w = (Ok (casbin_enforcer L), w') \<and> in_step L w' \<and> (rbac_ok (db w) \<longrightarrow> rbac_ok (db w'))"
proof -
  obtain m where m: "engine_load_policy L w = (Ok (), w\<lparr>policies := m\<rparr>)"
    using engine_load [OF assms(1), of w] assms(2) by (auto simp: enforcer_ready_def policy_tables_ok_def)
  let ?w = "w\<lparr>policies := m\<rparr>"
  have "enforcer_ready ?w" using assms(2) by (simp add: enforcer_ready_def)
  then obtain w' where w': "enforcer_reload_policies L ?w = (Ok (), w')" "in_step L w'"
    using casbin.reload_syncs [of L ?w] assms(1) by (auto simp: in_step_def synced_alt)
  have "new_enforcer L w = (Ok (casbin_enforcer L), w')"
    using m w'(1) by (simp add: new_enforcer_def bindM_def wrapM_run op_defs)
  moreover have "rbac_ok (db w')" if "rbac_ok (db w)"
    using keepsD [OF keeps_reload(1), of ?w L] that w'(1) by (simp add: on_db_def)
  ultimately show ?thesis using w'(2) by blast
qed

text \<open>
  C1: Access control is what the tables say. Start the enforcer on fault-free tables, and run any
  commands that create or rename roles, create permissions with ordinary resource and action
  names, and assign and unassign roles and permissions, whether they succeed or not. Then the
  permission check allows a user an action on a resource exactly when the user has a live role with
  a live permission for it.
\<close>

theorem check_permission_is_rbac:
  assumes "casbin_law L" "enforcer_ready w" "rbac_ok (db w)" "list_all keeps_sync cs"
  shows "\<exists>en w1. new_enforcer L w = (Ok en, w1) \<and>
    fst (handle_check_permission en u resource action (run_authz L cs w1)) =
      Ok (grants (db (run_authz L cs w1)) u resource action)"
proof -
  obtain w1 where w1: "new_enforcer L w = (Ok (casbin_enforcer L), w1)" "in_step L w1" "rbac_ok (db w1)"
    using enforcer_starts [OF assms(1,2)] assms(3) by blast
  then have "in_step L (run_authz L cs w1)" using run_in_step assms(1,4) by blast
  then have "fst (handle_check_permission (casbin_enforcer L) u resource action (run_authz L cs w1)) =
      Ok (grants (db (run_authz L cs w1)) u resource action)"
    using casbin.synced_answers [of L "run_authz L cs w1" u resource action]
    by (simp add: in_step_def synced_alt handle_check_permission_def)
  with w1(1) show ?thesis by blast
qed

definition granting_commands :: "authz_command list" where
  "granting_commands = [CreateRole ''editor'' ''edits'', CreatePermission ''todo:read'' ''reads'' ''todo'' ''read'',
     AssignPermission 1 2, AssignRole 9 1]"

lemma check_permission_is_rbac_witness:
  "\<exists>en w1. new_enforcer toy_libs init_world = (Ok en, w1) \<and>
    fst (handle_check_permission en 9 ''todo'' ''read''
      (run_authz toy_libs granting_commands w1)) =
    Ok (grants (db (run_authz toy_libs granting_commands w1)) 9 ''todo'' ''read'')"
proof -
  have "plain ''todo''" "plain ''read''" by code_simp+
  then show ?thesis
    using check_permission_is_rbac [OF casbin_law_toy, of init_world
        granting_commands
        9 "''todo''" "''read''"]
    by (simp add: granting_commands_def keeps_sync_def enforcer_ready_def policy_tables_ok_def fields_plain_def init_world_def
        empty_db_def rbac_ok_def)
qed

section \<open>Changes that do not reach the enforcer\<close>

text \<open>
  C39: Deleting a role does not take its permissions away: the command succeeds, the tables grant
  the users that had only this role nothing any more, and the check still allows what it did.
\<close>

theorem deleted_role_still_allows:
  assumes "faults w = []" "synced L w" "grants (db w) u resource action"
    and "\<And>j. assigned (db w) u j \<Longrightarrow> j = i"
  shows "\<exists>w'. handle_delete_role (pg_role_repo L te) i w = (Ok (), w') \<and> \<not> grants (db w') u resource action \<and>
    fst (handle_check_permission (casbin_enforcer L) u resource action w') = Ok True"
proof -
  have live: "role_live (db w) i" using assms(3,4) by (auto simp: grants_by_role role_allows_def)
  let ?t = "clock w (ticks w)"
  let ?rows = "update_where (live_role i) (\<lambda>r. r\<lparr>ro_updated_at := ?t, ro_deleted_at := Some ?t\<rparr>) (roles (db w))"
  let ?w = "w\<lparr>ticks := Suc (ticks w), db := db w\<lparr>roles := ?rows\<rparr>\<rparr>"
  have "handle_delete_role (pg_role_repo L te) i w = (Ok (), ?w)"
    using assms(1) live
    by (simp add: handle_delete_role_def role_delete_def sql_delete_role_def op_defs)
      (auto simp: role_live_def live_role_def)
  moreover have "\<not> role_live (db ?w) i" by (simp add: role_live_def set_update_where live_role_def ball_Un)
  then have "\<not> grants (db ?w) u resource action"
    using assms(4) by (auto simp: grants_by_role assigned_def role_allows_def)
  moreover have "allows L ?w u resource action" using assms(2,3) by (simp add: synced_def allows_def)
  then have "fst (handle_check_permission (casbin_enforcer L) u resource action ?w) = Ok True"
    by (simp add: handle_check_permission_def enforcer_enforce_def allows_def op_defs)
  ultimately show ?thesis by blast
qed

text \<open>A user with one role that has one permission, recorded and loaded.\<close>

definition one_grant :: world where
  "one_grant = init_world\<lparr>db := empty_db\<lparr>
     roles := [\<lparr>ro_id = 1, ro_name = ''editor'', ro_description = ''d'', ro_created_at = 0, ro_updated_at = 0,
       ro_deleted_at = None, ro_tenant_id = ''t''\<rparr>],
     permissions := [\<lparr>pe_id = 2, pe_name = ''todo:read'', pe_description = ''d'', pe_resource = ''todo'',
       pe_action = ''read'', pe_created_at = 0, pe_updated_at = 0, pe_deleted_at = None, pe_tenant_id = ''t''\<rparr>],
     user_roles := [\<lparr>ur_user_id = 9, ur_role_id = 1, ur_created_at = 0, ur_tenant_id = ''t''\<rparr>],
     role_permissions := [\<lparr>rp_role_id = 1, rp_permission_id = 2, rp_created_at = 0, rp_tenant_id = ''t''\<rparr>],
     casbin_rule := [flat_row [unary_string 9, ''todo'', ''read'']]\<rparr>,
     policies := [[''p'', unary_string 9, ''todo'', ''read'']]\<rparr>"

lemma unary_string_inj: "unary_string u = unary_string v \<longleftrightarrow> u = v"
  using uuid_string_inj [OF uuid_law_toy] by (simp add: toy_libs_def)

lemma one_grant_facts:
  "faults one_grant = []" "in_step toy_libs one_grant"
  "grants (db one_grant) u resource action \<longleftrightarrow> u = 9 \<and> resource = ''todo'' \<and> action = ''read''"
  "assigned (db one_grant) u i \<longleftrightarrow> u = 9 \<and> i = 1"
proof -
  show "faults one_grant = []" by (simp add: one_grant_def init_world_def)
  show g: "grants (db one_grant) u resource action \<longleftrightarrow> u = 9 \<and> resource = ''todo'' \<and> action = ''read''" for u resource action
    by (auto simp: grants_def one_grant_def)
  show "assigned (db one_grant) u i \<longleftrightarrow> u = 9 \<and> i = 1" by (auto simp: assigned_def one_grant_def)
  have "plain ''todo''" "plain ''read''" by code_simp+
  moreover have "plain (unary_string 9)" using casbin_law_toy by (simp add: casbin_law_def toy_libs_def)
  moreover have "matches_model toy_libs (policies one_grant) (unary_string u) ob a \<longleftrightarrow> u = 9 \<and> ob = ''todo'' \<and> a = ''read''" for u ob a
    using matches_loaded [OF casbin_law_toy, of "policies one_grant" "unary_string u" ob a]
    by (simp add: one_grant_def unary_string_inj)
  moreover have "records toy_libs (db one_grant) u ob a \<longleftrightarrow> u = 9 \<and> ob = ''todo'' \<and> a = ''read''" for u ob a
    by (auto simp: records_def one_grant_def toy_libs_def unary_string_inj)
  moreover have "uuid_string toy_libs = unary_string" by (simp add: toy_libs_def)
  moreover have "enforcer_ready one_grant \<longleftrightarrow> plain ''todo'' \<and> plain ''read'' \<and> plain (unary_string 9)"
    by (auto simp: enforcer_ready_def policy_tables_ok_def fields_plain_def one_grant_def good_flat_row init_world_def)
  ultimately show "in_step toy_libs one_grant"
    by (simp add: in_step_def synced_def g allows_def)
qed

lemma deleted_role_still_allows_witness:
  "\<exists>w'. handle_delete_role (pg_role_repo toy_libs True) 1 one_grant = (Ok (), w') \<and>
    \<not> grants (db w') 9 ''todo'' ''read'' \<and>
    fst (handle_check_permission (casbin_enforcer toy_libs) 9 ''todo'' ''read'' w') = Ok True"
  using deleted_role_still_allows [of one_grant toy_libs 9 "''todo''" "''read''" 1 True] one_grant_facts
  by (simp add: in_step_def)

lemma engine_load_fails:
  assumes "faults w = []" "r \<in> set (casbin_rule (db w))" "policy_text r \<noteq> ''''" "hd (policy_text r) \<noteq> CHR ''#''"
    "policy_line L (policy_text r) = None"
  shows "\<exists>e. engine_load_policy L w = (Err e, w)"
proof -
  obtain e where "load_rows L (casbin_rule (db w)) [] = Inl e" using load_rows_bad [OF assms(2-)] by blast
  then show ?thesis
    using assms(1) by (simp add: engine_load_policy_def adapter_load_policy_def op_defs)
qed

lemma comma_line:
  assumes "casbin_law L" "plain x" "plain y" "plain a"
  shows "policy_text (flat_row [uuid_string L u, x @ '','' @ y, a]) \<noteq> ''''"
    "hd (policy_text (flat_row [uuid_string L u, x @ '','' @ y, a])) \<noteq> CHR ''#''"
    "policy_line L (policy_text (flat_row [uuid_string L u, x @ '','' @ y, a])) = None"
proof -
  let ?line = "policy_text (flat_row [uuid_string L u, x @ '','' @ y, a])"
  have line: "?line = line_of [(True, uuid_string L u), (True, x), (False, y), (True, a)]"
    using assms(4) by (simp add: policy_text_flat) (simp add: line_of_def)
  show "?line \<noteq> ''''" "hd ?line \<noteq> CHR ''#''" unfolding line line_of_def by simp_all
  show "policy_line L ?line = None" unfolding line using assms by (simp add: casbin_law_def)
qed

lemma assign_then_reload:
  assumes f: "faults w = []" and r: "role_live (db w) r"
    and p: "q \<in> set (permissions (db w))" "live_permission p q"
  shows "\<exists>w1. handle_assign_permission (pg_role_repo L te) (pg_permission_repo L te) pg_role_permission_repo en r p w =
      en_reload en w1 \<and> faults w1 = [] \<and> policies w1 = policies w \<and> granted (db w1) r p \<and>
      user_roles (db w1) = user_roles (db w) \<and> roles (db w1) = roles (db w) \<and> permissions (db w1) = permissions (db w)"
proof -
  obtain x where x: "role_get_by_id r w = (Ok x, w)"
    using f r by (fastforce simp: role_get_by_id_def sql_get_role_by_id_def op_defs role_live_def live_role_def
        find_None_all split: option.splits)
  obtain y where y: "permission_get_by_id p w = (Ok y, w)"
    using f p by (fastforce simp: permission_get_by_id_def sql_get_permission_by_id_def op_defs find_None_all split: option.splits)
  have ids: "r \<in> ro_id ` set (roles (db w))" "p \<in> pe_id ` set (permissions (db w))"
    using r p by (auto simp: role_live_def live_permission_def)
  obtain w1 where w1: "role_permission_assign (new_role_permission r p) w = (Ok (), w1)" "faults w1 = []"
      "policies w1 = policies w" "granted (db w1) r p" "user_roles (db w1) = user_roles (db w)"
      "roles (db w1) = roles (db w)" "permissions (db w1) = permissions (db w)"
    using f ids by (simp add: role_permission_assign_def new_role_permission_def sql_assign_role_permission_def
        op_defs granted_def)
  then show ?thesis using x y by (intro exI [of _ w1]) (simp add: handle_assign_permission_def bindM_def)
qed

text \<open>
  C40: A resource name with a comma stops the enforcer. When a permission for such a resource is
  assigned to a role somebody has, the command reports an error although the assignment is in the
  tables, the policies in memory stay the old ones, and with the tables it leaves behind the
  enforcer cannot be started again.
\<close>

theorem comma_in_resource_blocks_startup:
  assumes "casbin_law L" "faults w = []" "role_live (db w) r" "assigned (db w) u r"
    and "q \<in> set (permissions (db w))" "live_permission p q" "pe_resource q = x @ '','' @ y"
    and "plain x" "plain y" "plain (pe_action q)"
  shows "\<exists>e w' e'. handle_assign_permission (pg_role_repo L te) (pg_permission_repo L te) pg_role_permission_repo
      (casbin_enforcer L) r p w = (Err e, w') \<and>
    grants (db w') u (pe_resource q) (pe_action q) \<and> policies w' = policies w \<and>
    fst (new_enforcer L w') = Err e'"
proof -
  obtain w1 where w1: "handle_assign_permission (pg_role_repo L te) (pg_permission_repo L te) pg_role_permission_repo
      (casbin_enforcer L) r p w = enforcer_reload_policies L w1" "faults w1 = []" "policies w1 = policies w"
      "granted (db w1) r p" "user_roles (db w1) = user_roles (db w)" "roles (db w1) = roles (db w)"
      "permissions (db w1) = permissions (db w)"
    using assign_then_reload [OF assms(2,3,5,6), of L te "casbin_enforcer L"] by auto
  have "role_allows (db w1) r (pe_resource q) (pe_action q)"
    using assms(3,5,6) w1(4,6,7) by (auto simp: role_allows_def role_live_def granted_def live_permission_def)
  moreover have "assigned (db w1) u r" using assms(4) w1(5) by (simp add: assigned_def)
  ultimately have g: "grants (db w1) u (pe_resource q) (pe_action q)" by (auto simp: grants_by_role)
  let ?row = "flat_row [uuid_string L u, x @ '','' @ y, pe_action q]"
  let ?w = "rewritten (\<lambda>r. cb_ptype r = ''p'') (flattened L (\<lambda>v. True) (db w1)) w1"
  have "[uuid_string L u, pe_resource q, pe_action q] \<in> set (flattened L (\<lambda>v. True) (db w1))"
    using g by (auto simp: set_flattened)
  then have row: "?row \<in> set (casbin_rule (db ?w))" by (simp add: rewritten_def assms(7))
  note bad = comma_line [OF assms(1,8-10), of u]
  obtain e where e: "engine_load_policy L ?w = (Err e, ?w)"
    using engine_load_fails [OF _ row bad] w1(2) by auto
  have "enforcer_reload_policies L w1 = (Err (Wrapf ''reload policies'' e), ?w)"
    using sync_all_run [OF w1(2), of L] e by (simp add: enforcer_reload_policies_def wrapM_def tryM_def errM_def)
  moreover have "fst (new_enforcer L ?w) = Err (Wrapf ''create casbin enforcer'' e)"
    using e by (simp add: new_enforcer_def op_defs)
  moreover have "policies ?w = policies w" using w1(3) by (simp add: rewritten_def)
  ultimately show ?thesis using w1(1) g by auto
qed

definition comma_permission :: permissions_row where
  "comma_permission = \<lparr>pe_id = 3, pe_name = ''n'', pe_description = ''d'', pe_resource = ''a,b'', pe_action = ''read'',
     pe_created_at = 0, pe_updated_at = 0, pe_deleted_at = None, pe_tenant_id = ''t''\<rparr>"

lemma comma_in_resource_blocks_startup_witness:
  "\<exists>e w' e'. handle_assign_permission (pg_role_repo toy_libs False) (pg_permission_repo toy_libs False)
      pg_role_permission_repo (casbin_enforcer toy_libs) 1 3
      (one_grant\<lparr>db := db one_grant\<lparr>permissions := [comma_permission]\<rparr>\<rparr>) = (Err e, w') \<and>
    grants (db w') 9 ''a,b'' ''read'' \<and> policies w' = policies one_grant \<and> fst (new_enforcer toy_libs w') = Err e'"
proof -
  let ?w = "one_grant\<lparr>db := db one_grant\<lparr>permissions := [comma_permission]\<rparr>\<rparr>"
  have "plain ''a''" "plain ''b''" "plain ''read''" by code_simp+
  moreover have "role_live (db ?w) 1" "assigned (db ?w) 9 1"
    using one_grant_facts(4) by (simp_all add: role_live_def one_grant_def assigned_def)
  ultimately show ?thesis
    using comma_in_resource_blocks_startup [OF casbin_law_toy, of ?w 1 9 comma_permission 3 "''a''" "''b''" False]
      one_grant_facts(1)
    by (simp add: comma_permission_def live_permission_def)
qed

text \<open>
  \<open>AddPolicy\<close> of the adapter never stores a policy: whatever it is given, it reports an error
  and the tables stay as they were.
\<close>

lemma add_policy_never_stores:
  "\<exists>e w'. adapter_add_policy sec ptype rule w = (Err e, w') \<and> db w' = db w"
proof -
  let ?vs = "(ptype # rule) @ replicate (8 - length (ptype # rule)) ''''"
  have "length ?vs \<noteq> 7" by simp
  then have "\<exists>e w'. insert_rule ?vs w = (Err e, w') \<and> db w' = db w"
    unfolding insert_rule_def using sqlM_cases by (cases "insert_rule ?vs w") (fastforce simp: insert_rule_def)
  then show ?thesis unfolding adapter_add_policy_def Let_def by (auto simp: op_defs)
qed

section \<open>Saving and loading policies\<close>

lemma insert_rules:
  "faults w = [] \<Longrightarrow> list_all (\<lambda>rule. length rule = 4) rules \<Longrightarrow>
    forM rules (\<lambda>rule. wrapM msg (insert_rule (hd rule # pad6 (tl rule)))) w =
    (Ok (), w\<lparr>db := db w\<lparr>casbin_rule := casbin_rule (db w) @
       map (\<lambda>rule. \<lparr>cb_ptype = hd rule, cb_values = pad6 (tl rule)\<rparr>) rules\<rparr>\<rparr>)"
proof (induction rules arbitrary: w)
  case (Cons rule rules)
  let ?row = "\<lparr>cb_ptype = hd rule, cb_values = pad6 (tl rule)\<rparr>"
  let ?w = "w\<lparr>db := db w\<lparr>casbin_rule := casbin_rule (db w) @ [?row]\<rparr>\<rparr>"
  have "length (hd rule # pad6 (tl rule)) = 7" using Cons.prems(2) by (simp add: pad6_def)
  then have "wrapM msg (insert_rule (hd rule # pad6 (tl rule))) w = (Ok (), ?w)"
    using Cons.prems(1) by (intro wrapM_run) (simp add: insert_rule_def sqlM_nofault)
  then have "forM (rule # rules) (\<lambda>rule. wrapM msg (insert_rule (hd rule # pad6 (tl rule)))) w =
      forM rules (\<lambda>rule. wrapM msg (insert_rule (hd rule # pad6 (tl rule)))) ?w"
    by (simp add: bindM_def)
  also have "\<dots> = (Ok (), ?w\<lparr>db := db ?w\<lparr>casbin_rule := casbin_rule (db ?w) @
       map (\<lambda>rule. \<lparr>cb_ptype = hd rule, cb_values = pad6 (tl rule)\<rparr>) rules\<rparr>\<rparr>)"
    using Cons.prems by (intro Cons.IH) simp_all
  finally show ?case by simp
qed (simp add: op_defs)

definition plain_policy :: "string list \<Rightarrow> bool" where
  "plain_policy rule \<longleftrightarrow> length rule = 4 \<and> hd rule = ''p'' \<and> list_all plain (tl rule)"

lemma plain_policyE:
  assumes "plain_policy rule"
  obtains s ob a where "rule = [''p'', s, ob, a]" "plain s" "plain ob" "plain a"
  using assms that unfolding plain_policy_def by (auto simp: numeral_eq_Suc length_Suc_conv)

lemma load_rows_exact:
  assumes "casbin_law L"
  shows "list_all plain_policy rules \<Longrightarrow> distinct (m @ rules) \<Longrightarrow>
    load_rows L (map (\<lambda>rule. flat_row (tl rule)) rules) m = Inr (m @ rules)"
proof (induction rules arbitrary: m)
  case (Cons rule rules)
  obtain s ob a where r: "rule = [''p'', s, ob, a]" "plain s" "plain ob" "plain a"
    using Cons.prems(1) by (auto elim: plain_policyE)
  have "load_policy_line L (policy_text (flat_row [s, ob, a])) m = Inr (m @ [rule])"
    using load_flat [OF assms r(2-4), of m] Cons.prems(2) r(1) by simp
  then show ?case using Cons.IH [of "m @ [rule]"] Cons.prems r(1) by simp
qed simp

text \<open>
  C31: Policies survive a save and a load: a set of ordinary three-field policies that \<open>SavePolicy\<close>
  writes replaces whatever the table held, and \<open>LoadPolicy\<close> reads back exactly these policies.
\<close>

theorem save_load_round_trip:
  assumes "casbin_law L" "faults w = []" "list_all plain_policy rules" "distinct rules"
  shows "\<exists>w'. adapter_save_policy rules w = (Ok (), w') \<and> adapter_load_policy L [] w' = (Ok rules, w')"
proof -
  have len: "list_all (\<lambda>rule. length rule = 4) rules"
    using assms(3) by (auto simp: list_all_iff plain_policy_def)
  have p: "filter (in_section (CHR ''p'')) rules = rules" "filter (in_section (CHR ''g'')) rules = []"
    using assms(3) by (auto simp: list_all_iff filter_id_conv filter_empty_conv in_section_def plain_policy_def)
  have rows: "map (\<lambda>rule. \<lparr>cb_ptype = hd rule, cb_values = pad6 (tl rule)\<rparr>) rules = map (\<lambda>rule. flat_row (tl rule)) rules"
    using assms(3) by (auto simp: list_all_iff flat_row_def elim!: plain_policyE)
  let ?w = "w\<lparr>db := db w\<lparr>casbin_rule := map (\<lambda>rule. flat_row (tl rule)) rules\<rparr>\<rparr>"
  have "adapter_save_policy rules w = (Ok (), ?w)"
    unfolding adapter_save_policy_def
    using assms(2) len by (intro txM_nofault) (simp_all add: bindM_def wrapM_run insert_rules p rows retM_def)
  moreover have "adapter_load_policy L [] ?w = (Ok rules, ?w)"
    using load_rows_exact [OF assms(1,3), of "[]"] assms(2,4) by (simp add: adapter_load_policy_def op_defs)
  ultimately show ?thesis by blast
qed

lemma save_load_round_trip_witness:
  "\<exists>w'. adapter_save_policy [[''p'', ''u'', ''todo'', ''read''], [''p'', ''u'', ''todo'', ''list'']] one_grant = (Ok (), w') \<and>
    adapter_load_policy toy_libs [] w' = (Ok [[''p'', ''u'', ''todo'', ''read''], [''p'', ''u'', ''todo'', ''list'']], w')"
proof -
  have "plain_policy [''p'', ''u'', ''todo'', ''read'']" "plain_policy [''p'', ''u'', ''todo'', ''list'']"
    by code_simp+
  then show ?thesis
    using save_load_round_trip [OF casbin_law_toy one_grant_facts(1),
        of "[[''p'', ''u'', ''todo'', ''read''], [''p'', ''u'', ''todo'', ''list'']]"] by simp
qed

end
