(* ===== verification/User_Module.thy ===== *)
theory User_Module
  imports Authentication Authorization
begin

text \<open>
  The user module (\<open>internal/user\<close>): the repository over the table users, which it shares with the
  authentication module, the command and query handlers and the profile provider. The last section
  says what the commands do to an account.
\<close>

section \<open>The repository\<close>

record profile_repo =
  uo_create :: "user \<Rightarrow> (world, unit) gop"
  uo_list :: "ctx \<Rightarrow> string option \<Rightarrow> int \<Rightarrow> (world, user page) gop"
  uo_get_by_id :: "uuid \<Rightarrow> (world, user) gop"
  uo_update :: "user \<Rightarrow> (world, unit) gop"
  uo_delete :: "uuid \<Rightarrow> (world, unit) gop"

definition with_id :: "uuid \<Rightarrow> users_row \<Rightarrow> bool" where
  "with_id i r \<longleftrightarrow> us_id r = i \<and> us_deleted_at r = None"

text \<open>The columns the module selects; the other fields of \<open>entity.User\<close> keep their zero values.\<close>

definition profile_of_row :: "users_row \<Rightarrow> user" where
  "profile_of_row r = \<lparr>e_id = us_id r, e_created_at = us_created_at r, e_updated_at = us_updated_at r,
     e_deleted_at = us_deleted_at r, u_email = us_email r, u_password = '''', u_name = us_name r,
     u_is_active = us_is_active r, u_failed_attempts = 0, u_locked_until = None, u_email_verified = False,
     u_verify_token = None, u_verify_expires = None, u_reset_token = None, u_reset_expires = None\<rparr>"

definition user_columns :: "users_row columns" where
  "user_columns = \<lparr>col_id = us_id, col_created_at = us_created_at, col_deleted_at = us_deleted_at,
     col_tenant_id = us_tenant_id, col_texts = (\<lambda>r. [])\<rparr>"

definition profile_list :: "libs \<Rightarrow> bool \<Rightarrow> ctx \<Rightarrow> string option \<Rightarrow> int \<Rightarrow> (world, user page) gop" where
  "profile_list L tenantEnabled cx cursorArg limit =
     list_page L user_columns users ''list users'' profile_of_row
       (tenant_filter tenantEnabled (get_tenant_id cx) ([DeletedIsNull], []))
       cursorArg limit (\<lambda>u. encode_cursor L (e_created_at u) (e_id u))"

definition sql_get_user_by_id :: "uuid \<Rightarrow> (world, users_row) gop" where
  "sql_get_user_by_id i = query_rowM (\<lambda>d. find (with_id i) (users d))"

text \<open>The statement fails when another row, deleted or not, has the address.\<close>

definition sql_update_profile :: "user \<Rightarrow> time \<Rightarrow> (world, nat) gop" where
  "sql_update_profile u now = exec_checkedM
     (\<lambda>d. [(list_ex (with_id (e_id u)) (users d) \<longrightarrow>
              list_all (\<lambda>r. us_email r = u_email u \<longrightarrow> us_id r = e_id u) (users d),
            unique_violation ''users_email_key'')])
     (\<lambda>d. count_where (with_id (e_id u)) (users d))
     (\<lambda>d. d\<lparr>users := update_where (with_id (e_id u))
        (\<lambda>r. r\<lparr>us_email := u_email u, us_name := u_name u, us_is_active := u_is_active u, us_updated_at := now\<rparr>)
        (users d)\<rparr>)"

definition sql_delete_user :: "uuid \<Rightarrow> (world, nat) gop" where
  "sql_delete_user i = bindM nowM (\<lambda>now.
     exec_rowsM (\<lambda>d. count_where (with_id i) (users d))
     (\<lambda>d. d\<lparr>users := update_where (with_id i)
        (\<lambda>r. r\<lparr>us_updated_at := now, us_deleted_at := Some now\<rparr>) (users d)\<rparr>))"

definition profile_get_by_id :: "uuid \<Rightarrow> (world, user) gop" where
  "profile_get_by_id i =
     bindM (norowsM (Wrapf ''user not found'' (Sentinel ErrNotFound)) ''get user'' (sql_get_user_by_id i))
       (\<lambda>r. retM (profile_of_row r))"

fun is_unique_violation :: "goerr \<Rightarrow> bool" where
  "is_unique_violation (PqErr c msg) = (c = ''23505'')"
| "is_unique_violation e = False"

definition profile_create :: "user \<Rightarrow> (world, unit) gop" where
  "profile_create u = tryM (insertM
     (\<lambda>d. [(e_id u \<notin> us_id ` set (users d), unique_violation ''users_pkey''),
           (u_email u \<notin> us_email ` set (users d), unique_violation ''users_email_key'')])
     (\<lambda>d. d\<lparr>users := users d @
        [\<lparr>us_id = e_id u, us_email = u_email u, us_password = '''', us_name = u_name u,
          us_is_active = u_is_active u, us_created_at = e_created_at u, us_updated_at = e_updated_at u,
          us_deleted_at = None, us_tenant_id = '''', us_email_verified_at = None\<rparr>]\<rparr>))
     (\<lambda>r. case r of
        Inr x \<Rightarrow> retM ()
      | Inl e \<Rightarrow> if is_unique_violation e then errM (Wrapf ''create user'' (Sentinel ErrAlreadyExists))
               else errM (Wrapf ''create user'' e))"

definition profile_update :: "user \<Rightarrow> (world, unit) gop" where
  "profile_update u = bindM nowM (\<lambda>now. bindM (wrapM ''update user'' (sql_update_profile u now)) (\<lambda>n.
     if n = 0 then errM (Wrapf ''user not found'' (Sentinel ErrNotFound)) else retM ()))"

definition profile_delete :: "uuid \<Rightarrow> (world, unit) gop" where
  "profile_delete i = bindM (wrapM ''delete user'' (sql_delete_user i)) (\<lambda>n.
     if n = 0 then errM (Wrapf ''user not found'' (Sentinel ErrNotFound)) else retM ())"

definition pg_profile_repo :: "libs \<Rightarrow> bool \<Rightarrow> profile_repo" where
  "pg_profile_repo L tenantEnabled = \<lparr>uo_create = profile_create, uo_list = profile_list L tenantEnabled,
     uo_get_by_id = profile_get_by_id, uo_update = profile_update, uo_delete = profile_delete\<rparr>"

lemma pg_profile_repo_sel [simp]:
  "uo_create (pg_profile_repo L te) = profile_create" "uo_list (pg_profile_repo L te) = profile_list L te"
  "uo_get_by_id (pg_profile_repo L te) = profile_get_by_id" "uo_update (pg_profile_repo L te) = profile_update"
  "uo_delete (pg_profile_repo L te) = profile_delete"
  by (simp_all add: pg_profile_repo_def)

section \<open>Handlers\<close>

definition handle_create_user :: "profile_repo \<Rightarrow> string \<Rightarrow> string \<Rightarrow> bool \<Rightarrow> (world, user) gop" where
  "handle_create_user repo email name active = bindM nowM (\<lambda>now. bindM new_uuidM (\<lambda>i.
     let u = \<lparr>e_id = i, e_created_at = now, e_updated_at = now, e_deleted_at = None, u_email = email,
        u_password = '''', u_name = name, u_is_active = active, u_failed_attempts = 0, u_locked_until = None,
        u_email_verified = False, u_verify_token = None, u_verify_expires = None, u_reset_token = None,
        u_reset_expires = None\<rparr>
     in bindM (uo_create repo u) (\<lambda>_. retM u)))"

definition handle_update_user :: "profile_repo \<Rightarrow> uuid \<Rightarrow> string \<Rightarrow> string \<Rightarrow> bool \<Rightarrow> (world, user) gop" where
  "handle_update_user repo i name email active = bindM (uo_get_by_id repo i) (\<lambda>u.
     let u1 = (if name \<noteq> '''' then u\<lparr>u_name := name\<rparr> else u);
         u2 = (if email \<noteq> '''' then u1\<lparr>u_email := email\<rparr> else u1);
         u3 = u2\<lparr>u_is_active := active\<rparr>
     in bindM (touch u3) (\<lambda>u4. bindM (uo_update repo u4) (\<lambda>_. retM u4)))"

text \<open>The user is marked as deleted in memory and then written with \<open>Update\<close>.\<close>

definition handle_delete_user :: "profile_repo \<Rightarrow> uuid \<Rightarrow> (world, unit) gop" where
  "handle_delete_user repo i = bindM (uo_get_by_id repo i) (\<lambda>u.
     bindM (soft_delete u) (\<lambda>u'. uo_update repo u'))"

definition handle_get_user :: "profile_repo \<Rightarrow> uuid \<Rightarrow> (world, user) gop" where
  "handle_get_user repo i = uo_get_by_id repo i"

definition handle_list_users :: "profile_repo \<Rightarrow> ctx \<Rightarrow> string option \<Rightarrow> int \<Rightarrow> (world, user page \<times> int) gop" where
  "handle_list_users repo cx c limit = bindM (uo_list repo cx c limit) (\<lambda>pg. retM (pg, limit))"

record user_profile =
  up_id :: string
  up_email :: string
  up_name :: string
  up_roles :: "string list"
  up_is_active :: bool
  up_created_at :: string
  up_updated_at :: string

text \<open>A failure to read the roles is not an error: the profile then has none.\<close>

definition get_profile :: "libs \<Rightarrow> profile_repo \<Rightarrow> user_role_repo \<Rightarrow> uuid \<Rightarrow> (world, user_profile) gop" where
  "get_profile L repo userRoleRepo i = bindM (handle_get_user repo i) (\<lambda>u.
     let p = \<lparr>up_id = uuid_string L (e_id u), up_email = u_email u, up_name = u_name u, up_roles = [],
        up_is_active = u_is_active u, up_created_at = rfc3339 (e_created_at u),
        up_updated_at = rfc3339 (e_updated_at u)\<rparr>
     in tryM (provider_get_user_roles userRoleRepo i) (\<lambda>r. case r of
          Inl e \<Rightarrow> retM p
        | Inr names \<Rightarrow> retM (p\<lparr>up_roles := names\<rparr>)))"

section \<open>What the commands do to the table\<close>

definition person :: "world \<Rightarrow> uuid \<Rightarrow> user option" where
  "person w i = map_option profile_of_row (find (with_id i) (users (db w)))"

definition people_ok :: "world \<Rightarrow> bool" where
  "people_ok w \<longleftrightarrow> faults w = [] \<and> distinct (map us_id (users (db w))) \<and> distinct (map us_email (users (db w)))"

lemma profile_of_row_sel [simp]:
  "e_id (profile_of_row r) = us_id r" "u_email (profile_of_row r) = us_email r" "u_name (profile_of_row r) = us_name r"
  "u_is_active (profile_of_row r) = us_is_active r" "e_created_at (profile_of_row r) = us_created_at r"
  "e_updated_at (profile_of_row r) = us_updated_at r" "e_deleted_at (profile_of_row r) = us_deleted_at r"
  by (simp_all add: profile_of_row_def)

lemma person_id: "person w i = Some u \<Longrightarrow> e_id u = i \<and> e_deleted_at u = None"
  unfolding person_def using find_SomeD by (fastforce simp: with_id_def)

lemma get_person:
  "faults w = [] \<Longrightarrow> profile_get_by_id i w = (case person w i of
      Some u \<Rightarrow> (Ok u, w) | None \<Rightarrow> (Err (Wrapf ''user not found'' (Sentinel ErrNotFound)), w))"
  by (auto simp: profile_get_by_id_def sql_get_user_by_id_def person_def op_defs is_no_rows_def split: option.splits)

text \<open>The address is free for the user \<open>i\<close>: no other row has it.\<close>

definition email_free :: "world \<Rightarrow> uuid \<Rightarrow> string \<Rightarrow> bool" where
  "email_free w i email \<longleftrightarrow> (\<forall>r \<in> set (users (db w)). us_email r = email \<longrightarrow> us_id r = i)"

lemma find_with_id_update:
  assumes "\<And>r. us_id (f r) = us_id r" "\<And>r. us_deleted_at (f r) = us_deleted_at r"
  shows "find (with_id j) (update_where (with_id i) f rows) =
    (if j = i then map_option f (find (with_id i) rows) else find (with_id j) rows)"
  using assms by (induction rows) (auto simp: with_id_def)

lemma update_person:
  assumes "people_ok w" "person w (e_id u) = Some u0"
  shows "\<exists>r w'. profile_update u w = (r, w') \<and>
    (if email_free w (e_id u) (u_email u)
     then r = Ok () \<and> people_ok w' \<and> person w' = (person w)(e_id u \<mapsto> u0\<lparr>e_updated_at := clock w (ticks w),
       u_email := u_email u, u_name := u_name u, u_is_active := u_is_active u\<rparr>) \<and>
       db w' = db w\<lparr>users := update_where (with_id (e_id u)) (\<lambda>r. r\<lparr>us_email := u_email u, us_name := u_name u,
         us_is_active := u_is_active u, us_updated_at := clock w (ticks w)\<rparr>) (users (db w))\<rparr>
     else r = Err (Wrapf ''update user'' (unique_violation ''users_email_key'')) \<and> person w' = person w \<and> people_ok w')"
proof -
  obtain r where r: "find (with_id (e_id u)) (users (db w)) = Some r" "u0 = profile_of_row r"
    using assms(2) by (auto simp: person_def)
  have f: "faults w = []" "distinct (map us_id (users (db w)))" "distinct (map us_email (users (db w)))"
    using assms(1) by (auto simp: people_ok_def)
  have ex: "list_ex (with_id (e_id u)) (users (db w))" using r(1) find_SomeD by (fastforce simp: list_ex_iff)
  let ?f = "\<lambda>r. r\<lparr>us_email := u_email u, us_name := u_name u, us_is_active := u_is_active u,
      us_updated_at := clock w (ticks w)\<rparr>"
  let ?w = "w\<lparr>ticks := Suc (ticks w)\<rparr>"
  let ?w' = "?w\<lparr>db := db w\<lparr>users := update_where (with_id (e_id u)) ?f (users (db w))\<rparr>\<rparr>"
  show ?thesis
  proof (cases "email_free w (e_id u) (u_email u)")
    case True
    then have "profile_update u w = (Ok (), ?w')"
      using f(1) find_count [OF r(1)]
      by (simp add: profile_update_def sql_update_profile_def exec_checkedM_def sqlM_nofault op_defs email_free_def
          list_all_iff)
    moreover have "distinct (map us_email (update_where (with_id (e_id u)) ?f (users (db w))))"
      using True f by (intro distinct_rename [of us_id _ _ _ "e_id u" "u_email u"])
        (auto simp: with_id_def email_free_def)
    then have "people_ok ?w'" using f by (simp add: people_ok_def map_key_update_where)
    moreover have "person ?w' = (person w)(e_id u \<mapsto> u0\<lparr>e_updated_at := clock w (ticks w),
       u_email := u_email u, u_name := u_name u, u_is_active := u_is_active u\<rparr>)"
      using r by (auto simp: person_def find_with_id_update fun_eq_iff profile_of_row_def)
    ultimately show ?thesis using True by auto
  next
    case False
    then have "profile_update u w = (Err (Wrapf ''update user'' (unique_violation ''users_email_key'')), ?w)"
      using f(1) ex
      by (auto simp: profile_update_def sql_update_profile_def exec_checkedM_def sqlM_nofault op_defs email_free_def
          list_all_iff)
    then show ?thesis using False f by (auto simp: person_def people_ok_def)
  qed
qed

lemma own_email_free:
  assumes "people_ok w" "person w i = Some u"
  shows "email_free w i (u_email u)"
proof -
  obtain r where r: "find (with_id i) (users (db w)) = Some r" "u = profile_of_row r"
    using assms(2) by (auto simp: person_def)
  have "us_id q = i" if "q \<in> set (users (db w))" "us_email q = us_email r" for q
    using distinct_key_unique [of us_email "users (db w)" q r] that assms(1) find_SomeD [OF r(1)]
    by (auto simp: people_ok_def with_id_def)
  then show ?thesis using r(2) by (simp add: email_free_def)
qed


text \<open>
  C30: \<open>UpdateUser\<close> writes the fields it is given: an empty name or address leaves the stored one,
  the active flag is always written, the update time is the time of the write, and nobody else
  changes. An address that another user has, deleted or not, makes it fail and change nothing.
\<close>

theorem update_user_effect:
  assumes "people_ok w" "person w i = Some u"
    and "target = (if email \<noteq> '''' then email else u_email u)"
  shows "\<exists>r w'. handle_update_user (pg_profile_repo L te) i name email active w = (r, w') \<and> people_ok w' \<and>
    (if email_free w i target
     then (\<exists>u'. r = Ok u') \<and> person w' = (person w)(i \<mapsto> u\<lparr>e_updated_at := clock w (Suc (ticks w)), u_email := target,
        u_name := (if name \<noteq> '''' then name else u_name u), u_is_active := active\<rparr>)
     else (\<exists>e. r = Err e) \<and> person w' = person w)"
proof -
  let ?name = "if name \<noteq> '''' then name else u_name u"
  let ?u = "u\<lparr>e_updated_at := clock w (ticks w), u_email := target, u_name := ?name, u_is_active := active\<rparr>"
  let ?w = "w\<lparr>ticks := Suc (ticks w)\<rparr>"
  have w: "people_ok ?w" "person ?w = person w" "email_free ?w = email_free w"
    using assms(1) by (auto simp: people_ok_def person_def email_free_def fun_eq_iff)
  have i: "e_id u = i" using person_id [OF assms(2)] by simp
  let ?m = "(let u1 = (if name \<noteq> '''' then u\<lparr>u_name := name\<rparr> else u);
        u2 = (if email \<noteq> '''' then u1\<lparr>u_email := email\<rparr> else u1)
    in u2\<lparr>u_is_active := active\<rparr>)\<lparr>e_updated_at := clock w (ticks w)\<rparr>"
  have "handle_update_user (pg_profile_repo L te) i name email active w = bindM (profile_update ?m) (\<lambda>_. retM ?m) ?w"
    using assms(1,2)
    by (simp add: handle_update_user_def bindM_def get_person people_ok_def touch_def nowM_def retM_def Let_def)
  moreover have "?m = ?u" by (cases u) (simp add: Let_def assms(3))
  ultimately have "handle_update_user (pg_profile_repo L te) i name email active w = bindM (profile_update ?u) (\<lambda>_. retM ?u) ?w"
    by simp
  then show ?thesis
    using update_person [of ?w ?u u] w i assms(2)
    by (cases "email_free w i target") (auto simp: op_defs)
qed

lemma account_touched:
  assumes "db w' = db w\<lparr>users := update_where P (\<lambda>q. q\<lparr>us_updated_at := t\<rparr>) (users (db w))\<rparr>"
    and "account w email = Some a"
  shows "\<exists>t'. account w' email = Some (a\<lparr>e_updated_at := t'\<rparr>)"
proof -
  let ?f = "\<lambda>q. if P q then q\<lparr>us_updated_at := t\<rparr> else q"
  obtain q where q: "find (\<lambda>r. us_email r = email \<and> live_user r) (users (db w)) = Some q"
      "a = user_of_row (db w) q no_tokens"
    using assms(2) by (auto simp: account_def)
  have "find (\<lambda>r. us_email r = email \<and> live_user r) (map ?f rows) =
      map_option ?f (find (\<lambda>r. us_email r = email \<and> live_user r) rows)" for rows
    by (induction rows) (auto simp: live_user_def)
  then have "account w' email = Some (user_of_row (db w') (?f q) no_tokens)"
    using q(1) assms(1) by (simp add: account_def update_where_def)
  moreover have "user_of_row (db w') (?f q) no_tokens = a\<lparr>e_updated_at := us_updated_at (?f q)\<rparr>"
    using q(2) assms(1) by (simp add: user_of_row_fields Let_def)
  ultimately show ?thesis by (intro exI) (rule trans, assumption, simp)
qed

text \<open>
  \<open>DeleteUser\<close> deletes nobody: the command succeeds, but the user is still there with a new
  update time, and the authentication module finds every account with the credentials it had.
\<close>

theorem delete_user_keeps_user:
  assumes "people_ok w" "person w i = Some u"
  shows "\<exists>w'. handle_delete_user (pg_profile_repo L te) i w = (Ok (), w') \<and>
    person w' = (person w)(i \<mapsto> u\<lparr>e_updated_at := clock w (Suc (ticks w))\<rparr>) \<and>
    (\<forall>email a. account w email = Some a \<longrightarrow> (\<exists>t. account w' email = Some (a\<lparr>e_updated_at := t\<rparr>)))"
proof -
  obtain r where r: "find (with_id i) (users (db w)) = Some r" "u = profile_of_row r"
    using assms(2) by (auto simp: person_def)
  have f: "faults w = []" "distinct (map us_id (users (db w)))" using assms(1) by (auto simp: people_ok_def)
  let ?t = "clock w (Suc (ticks w))" and ?w = "w\<lparr>ticks := Suc (ticks w)\<rparr>"
  let ?u = "u\<lparr>e_deleted_at := Some (clock w (ticks w)), e_updated_at := clock w (ticks w)\<rparr>"
  let ?f = "\<lambda>q. q\<lparr>us_email := us_email r, us_name := us_name r, us_is_active := us_is_active r, us_updated_at := ?t\<rparr>"
  have r': "r \<in> set (users (db w))" "with_id i r" using find_SomeD [OF r(1)] by auto
  have only: "q = r" if "q \<in> set (users (db w))" "with_id i q" for q
    using distinct_key_unique [OF f(2) that(1) r'(1)] that r' by (simp add: with_id_def)
  then have touched: "update_where (with_id i) ?f (users (db w)) =
      update_where (with_id i) (\<lambda>q. q\<lparr>us_updated_at := ?t\<rparr>) (users (db w))"
    by (auto simp: update_where_def)
  have run: "handle_delete_user (pg_profile_repo L te) i w = profile_update ?u ?w"
    using assms f(1) by (simp add: handle_delete_user_def get_person op_defs soft_delete_def)
  have w: "people_ok ?w" "person ?w = person w" "email_free ?w i (u_email u)"
    using assms own_email_free [OF assms] by (auto simp: people_ok_def person_def email_free_def fun_eq_iff)
  have i: "e_id u = i" using person_id [OF assms(2)] by simp
  obtain w' where w': "profile_update ?u ?w = (Ok (), w')"
      "person w' = (person w)(i \<mapsto> u\<lparr>e_updated_at := ?t, u_email := u_email u, u_name := u_name u, u_is_active := u_is_active u\<rparr>)"
      "db w' = db w\<lparr>users := update_where (with_id i) ?f (users (db w))\<rparr>"
    using update_person [of ?w ?u u] w i r(2) assms(2) by auto
  have "\<exists>t. account w' email = Some (a\<lparr>e_updated_at := t\<rparr>)" if "account w email = Some a" for email a
    using that account_touched [where w = w and w' = w' and P = "with_id i" and t = ?t] w'(3) touched by simp
  moreover have "u\<lparr>e_updated_at := ?t, u_email := u_email u, u_name := u_name u, u_is_active := u_is_active u\<rparr> =
      u\<lparr>e_updated_at := ?t\<rparr>" by (cases u) simp
  ultimately show ?thesis using run w'(1,2) by auto
qed

lemma one_person:
  "people_ok one_account" "person one_account 7 = Some (sample_user\<lparr>u_password := '''', u_email_verified := False\<rparr>)"
  "\<And>email. email_free one_account 7 email \<longleftrightarrow> True"
  by (simp_all add: people_ok_def person_def one_account_def init_world_def with_id_def profile_of_row_def
      sample_user_def email_free_def)

lemma delete_user_keeps_user_witness:
  "\<exists>w'. handle_delete_user (pg_profile_repo toy_libs True) 7 one_account = (Ok (), w') \<and> person w' 7 \<noteq> None \<and>
    (\<exists>t. account w' ''a'' = Some (sample_user\<lparr>e_updated_at := t\<rparr>))"
proof -
  obtain w' where "handle_delete_user (pg_profile_repo toy_libs True) 7 one_account = (Ok (), w')" "person w' 7 \<noteq> None"
      "\<forall>email a. account one_account email = Some a \<longrightarrow> (\<exists>t. account w' email = Some (a\<lparr>e_updated_at := t\<rparr>))"
    using delete_user_keeps_user [OF one_person(1,2), of toy_libs True] by auto
  then show ?thesis using one_account_facts(2) by blast
qed

lemma update_user_effect_witness:
  "\<exists>r w'. handle_update_user (pg_profile_repo toy_libs True) 7 ''B'' '''' False one_account = (r, w') \<and> people_ok w' \<and>
    (\<exists>u'. r = Ok u') \<and> (\<exists>u. person w' 7 = Some u \<and> u_name u = ''B'' \<and> u_email u = ''a'' \<and> \<not> u_is_active u)"
  using update_user_effect [OF one_person(1,2), of "''a''" "''''" toy_libs True "''B''" False] one_person(3)
  by (auto simp: sample_user_def)

end
