(* ===== verification/Tenant_Module.thy ===== *)
theory Tenant_Module
  imports Rbac_Store
begin

text \<open>
  The tenant module (\<open>internal/tenant\<close>): repository, commands and queries, and the slug of
  \<open>pkg/slug\<close>. The last sections prove that the commands implement a map of tenants with unique
  slugs, and what a slug looks like.
\<close>

section \<open>Entity and repository\<close>

record tenant =
  tt_id :: uuid
  tt_name :: string
  tt_slug :: string
  tt_domain :: "string option"
  tt_settings :: string
  tt_is_active :: bool
  tt_created_at :: time
  tt_updated_at :: time

record tenant_repo =
  te_create :: "tenant \<Rightarrow> (world, unit) gop"
  te_get_by_id :: "uuid \<Rightarrow> (world, tenant) gop"
  te_get_by_slug :: "string \<Rightarrow> (world, tenant) gop"
  te_list :: "string option \<Rightarrow> int \<Rightarrow> (world, tenant page) gop"
  te_update :: "tenant \<Rightarrow> (world, unit) gop"
  te_delete :: "uuid \<Rightarrow> (world, unit) gop"

definition tenant_of_row :: "tenants_row \<Rightarrow> tenant" where
  "tenant_of_row r = \<lparr>tt_id = tn_id r, tt_name = tn_name r, tt_slug = tn_slug r, tt_domain = tn_domain r,
     tt_settings = tn_settings r, tt_is_active = tn_is_active r, tt_created_at = tn_created_at r,
     tt_updated_at = tn_updated_at r\<rparr>"

text \<open>A text that is no JSON is refused by the column.\<close>

definition bad_json :: goerr where
  "bad_json = PqErr ''22P02'' ''invalid input syntax for type json''"

definition stored_settings :: "libs \<Rightarrow> tenant \<Rightarrow> string" where
  "stored_settings L t = or_empty (jsonb L (tt_settings t))"

definition sql_create_tenant :: "libs \<Rightarrow> tenant \<Rightarrow> (world, unit) gop" where
  "sql_create_tenant L t = insertM
     (\<lambda>d. [(jsonb L (tt_settings t) \<noteq> None, bad_json),
           (tt_id t \<notin> tn_id ` set (tenants d), unique_violation ''tenants_pkey''),
           (tt_slug t \<notin> tn_slug ` set (tenants d), unique_violation ''tenants_slug_key'')])
     (\<lambda>d. d\<lparr>tenants := tenants d @
        [\<lparr>tn_id = tt_id t, tn_name = tt_name t, tn_slug = tt_slug t, tn_domain = tt_domain t,
          tn_settings = stored_settings L t, tn_is_active = tt_is_active t,
          tn_created_at = tt_created_at t, tn_updated_at = tt_updated_at t\<rparr>]\<rparr>)"

definition sql_get_tenant_by_id :: "uuid \<Rightarrow> (world, tenants_row) gop" where
  "sql_get_tenant_by_id i = query_rowM (\<lambda>d. find (\<lambda>r. tn_id r = i) (tenants d))"

definition sql_get_tenant_by_slug :: "string \<Rightarrow> (world, tenants_row) gop" where
  "sql_get_tenant_by_slug slug = query_rowM (\<lambda>d. find (\<lambda>r. tn_slug r = slug) (tenants d))"

definition sql_update_tenant :: "libs \<Rightarrow> tenant \<Rightarrow> (world, nat) gop" where
  "sql_update_tenant L t = exec_checkedM
     (\<lambda>d. [(jsonb L (tt_settings t) \<noteq> None, bad_json)])
     (\<lambda>d. count_where (\<lambda>r. tn_id r = tt_id t) (tenants d))
     (\<lambda>d. d\<lparr>tenants := update_where (\<lambda>r. tn_id r = tt_id t)
        (\<lambda>r. r\<lparr>tn_name := tt_name t, tn_domain := tt_domain t, tn_settings := stored_settings L t,
               tn_is_active := tt_is_active t, tn_updated_at := tt_updated_at t\<rparr>) (tenants d)\<rparr>)"

definition sql_delete_tenant :: "uuid \<Rightarrow> (world, nat) gop" where
  "sql_delete_tenant i = exec_rowsM (\<lambda>d. count_where (\<lambda>r. tn_id r = i) (tenants d))
     (\<lambda>d. d\<lparr>tenants := filter (\<lambda>r. tn_id r \<noteq> i) (tenants d)\<rparr>)"

definition tenant_columns :: "tenants_row columns" where
  "tenant_columns = \<lparr>col_id = tn_id, col_created_at = tn_created_at, col_deleted_at = (\<lambda>r. None),
     col_tenant_id = (\<lambda>r. ''''), col_texts = (\<lambda>r. [])\<rparr>"

definition tenant_create :: "libs \<Rightarrow> tenant \<Rightarrow> (world, unit) gop" where
  "tenant_create L t = wrapM ''insert tenant'' (sql_create_tenant L t)"

definition tenant_get_by_id :: "uuid \<Rightarrow> (world, tenant) gop" where
  "tenant_get_by_id i = bindM (norowsM (Errorf ''tenant not found'') ''get tenant'' (sql_get_tenant_by_id i))
     (\<lambda>r. retM (tenant_of_row r))"

definition tenant_get_by_slug :: "string \<Rightarrow> (world, tenant) gop" where
  "tenant_get_by_slug slug =
     bindM (norowsM (Errorf ''tenant not found'') ''get tenant by slug'' (sql_get_tenant_by_slug slug))
       (\<lambda>r. retM (tenant_of_row r))"

definition tenant_list :: "libs \<Rightarrow> string option \<Rightarrow> int \<Rightarrow> (world, tenant page) gop" where
  "tenant_list L cursorArg limit = list_page L tenant_columns tenants ''list tenants'' tenant_of_row
     ([], []) cursorArg limit (\<lambda>t. encode_cursor L (tt_created_at t) (tt_id t))"

definition tenant_update :: "libs \<Rightarrow> tenant \<Rightarrow> (world, unit) gop" where
  "tenant_update L t = bindM (wrapM ''update tenant'' (sql_update_tenant L t))
     (\<lambda>n. if n = 0 then errM (Errorf ''tenant not found'') else retM ())"

definition tenant_delete :: "uuid \<Rightarrow> (world, unit) gop" where
  "tenant_delete i = bindM (wrapM ''delete tenant'' (sql_delete_tenant i))
     (\<lambda>n. if n = 0 then errM (Errorf ''tenant not found'') else retM ())"

definition pg_tenant_repo :: "libs \<Rightarrow> tenant_repo" where
  "pg_tenant_repo L = \<lparr>te_create = tenant_create L, te_get_by_id = tenant_get_by_id,
     te_get_by_slug = tenant_get_by_slug, te_list = tenant_list L, te_update = tenant_update L,
     te_delete = tenant_delete\<rparr>"

lemma pg_tenant_repo_sel [simp]:
  "te_create (pg_tenant_repo L) = tenant_create L" "te_get_by_id (pg_tenant_repo L) = tenant_get_by_id"
  "te_get_by_slug (pg_tenant_repo L) = tenant_get_by_slug" "te_list (pg_tenant_repo L) = tenant_list L"
  "te_update (pg_tenant_repo L) = tenant_update L" "te_delete (pg_tenant_repo L) = tenant_delete"
  by (simp_all add: pg_tenant_repo_def)

section \<open>Handlers\<close>

record tenant_response =
  ts_id :: string
  ts_name :: string
  ts_slug :: string
  ts_domain :: "string option"
  ts_settings :: string
  ts_is_active :: bool
  ts_created_at :: string
  ts_updated_at :: string

definition tenant_to_response :: "libs \<Rightarrow> (time \<Rightarrow> string) \<Rightarrow> tenant \<Rightarrow> tenant_response" where
  "tenant_to_response L fmt t = \<lparr>ts_id = uuid_string L (tt_id t), ts_name = tt_name t, ts_slug = tt_slug t,
     ts_domain = tt_domain t, ts_settings = tt_settings t, ts_is_active = tt_is_active t,
     ts_created_at = fmt (tt_created_at t), ts_updated_at = fmt (tt_updated_at t)\<rparr>"

definition tenant_exists :: goerr where
  "tenant_exists = DomainError (Sentinel ErrAlreadyExists) ''TENANT_EXISTS'' ''tenant with this slug already exists''"

definition tenant_not_found :: goerr where
  "tenant_not_found = DomainError (Sentinel ErrNotFound) ''TENANT_NOT_FOUND'' ''tenant not found''"

definition handle_create_tenant ::
  "libs \<Rightarrow> tenant_repo \<Rightarrow> string \<Rightarrow> string \<Rightarrow> string option \<Rightarrow> string option \<Rightarrow> (world, tenant_response) gop" where
  "handle_create_tenant L repo name slug domain settings = tryM (te_get_by_slug repo slug) (\<lambda>r. case r of
      Inr existing \<Rightarrow> errM tenant_exists
    | Inl _ \<Rightarrow> bindM nowM (\<lambda>now. bindM new_uuidM (\<lambda>i.
        let t = \<lparr>tt_id = i, tt_name = name, tt_slug = slug, tt_domain = domain,
          tt_settings = (case settings of None \<Rightarrow> ''{}'' | Some s \<Rightarrow> s), tt_is_active = True,
          tt_created_at = now, tt_updated_at = now\<rparr>
        in bindM (te_create repo t) (\<lambda>_. retM (tenant_to_response L rfc3339nano t)))))"

definition tenant_lookup :: "tenant_repo \<Rightarrow> uuid \<Rightarrow> (world, tenant) gop" where
  "tenant_lookup repo i = tryM (te_get_by_id repo i) (\<lambda>r. case r of
      Inl e \<Rightarrow> errM tenant_not_found | Inr t \<Rightarrow> retM t)"

definition handle_update_tenant ::
  "libs \<Rightarrow> tenant_repo \<Rightarrow> uuid \<Rightarrow> string option \<Rightarrow> string option \<Rightarrow> string option \<Rightarrow> bool option \<Rightarrow>
   (world, tenant_response) gop" where
  "handle_update_tenant L repo i name domain settings active = bindM (tenant_lookup repo i) (\<lambda>t.
     let t1 = (case name of None \<Rightarrow> t | Some n \<Rightarrow> t\<lparr>tt_name := n\<rparr>);
         t2 = (case domain of None \<Rightarrow> t1 | Some d \<Rightarrow> t1\<lparr>tt_domain := Some d\<rparr>);
         t3 = (case settings of None \<Rightarrow> t2 | Some s \<Rightarrow> t2\<lparr>tt_settings := s\<rparr>);
         t4 = (case active of None \<Rightarrow> t3 | Some a \<Rightarrow> t3\<lparr>tt_is_active := a\<rparr>)
     in bindM nowM (\<lambda>now. let t5 = t4\<lparr>tt_updated_at := now\<rparr> in
        bindM (te_update repo t5) (\<lambda>_. retM (tenant_to_response L rfc3339nano t5))))"

definition handle_delete_tenant :: "tenant_repo \<Rightarrow> uuid \<Rightarrow> (world, unit) gop" where
  "handle_delete_tenant repo i = bindM (tenant_lookup repo i) (\<lambda>_. te_delete repo i)"

definition handle_get_tenant :: "libs \<Rightarrow> tenant_repo \<Rightarrow> uuid \<Rightarrow> (world, tenant_response) gop" where
  "handle_get_tenant L repo i =
     bindM (tenant_lookup repo i) (\<lambda>t. retM (tenant_to_response L rfc3339nano t))"

text \<open>The listing writes its times without fractions of a second.\<close>

definition handle_list_tenants ::
  "libs \<Rightarrow> tenant_repo \<Rightarrow> string option \<Rightarrow> int \<Rightarrow> (world, tenant_response list \<times> tenant page \<times> int) gop" where
  "handle_list_tenants L repo c limit = bindM (te_list repo c limit) (\<lambda>pg.
     retM (map (tenant_to_response L rfc3339) (pg_items pg), pg, limit))"

section \<open>pkg/slug\<close>

definition is_alnum :: "char \<Rightarrow> bool" where
  "is_alnum c \<longleftrightarrow> (97 \<le> (of_char c :: nat) \<and> (of_char c :: nat) \<le> 122) \<or> is_digit c"

text \<open>
  \<open>regexp.ReplaceAllString\<close> for a pattern \<open>[...]+\<close>: every maximal run becomes one dash. The flag
  says that the previous character was part of a run.
\<close>

fun replace_runs :: "(char \<Rightarrow> bool) \<Rightarrow> bool \<Rightarrow> string \<Rightarrow> string" where
  "replace_runs P inside [] = []"
| "replace_runs P inside (c # cs) =
     (if P c then (if inside then replace_runs P True cs else CHR ''-'' # replace_runs P True cs)
      else c # replace_runs P False cs)"

text \<open>The pattern \<open>-{2,}\<close>: two or more dashes become one, and a single dash stays.\<close>

definition make_slug :: "string \<Rightarrow> string" where
  "make_slug s =
     (let lower = to_lower s;
          dashed = replace_runs (\<lambda>c. \<not> is_alnum c) False lower;
          trimmed = trim_right (trim_left dashed ''-'') ''-''
      in replace_runs (\<lambda>c. c = CHR ''-'') False trimmed)"

section \<open>The commands implement a map of tenants\<close>

definition tenant_map :: "world \<Rightarrow> uuid \<Rightarrow> tenant option" where
  "tenant_map w i = map_option tenant_of_row (find (\<lambda>r. tn_id r = i) (tenants (db w)))"

definition tenants_ok :: "world \<Rightarrow> bool" where
  "tenants_ok w \<longleftrightarrow> faults w = [] \<and> distinct (map tn_id (tenants (db w))) \<and> distinct (map tn_slug (tenants (db w)))"

datatype tenant_command =
    CreateTenant string string "string option" "string option"
  | UpdateTenant uuid "string option" "string option" "string option" "bool option"
  | DeleteTenant uuid

fun run_tenant :: "libs \<Rightarrow> tenant_command \<Rightarrow> (world, unit) gop" where
  "run_tenant L (CreateTenant name slug domain settings) =
     bindM (handle_create_tenant L (pg_tenant_repo L) name slug domain settings) (\<lambda>_. retM ())"
| "run_tenant L (UpdateTenant i name domain settings active) =
     bindM (handle_update_tenant L (pg_tenant_repo L) i name domain settings active) (\<lambda>_. retM ())"
| "run_tenant L (DeleteTenant i) = handle_delete_tenant (pg_tenant_repo L) i"

definition slug_taken :: "(uuid \<Rightarrow> tenant option) \<Rightarrow> string \<Rightarrow> bool" where
  "slug_taken m slug \<longleftrightarrow> (\<exists>i t. m i = Some t \<and> tt_slug t = slug)"

definition or_else :: "'a option \<Rightarrow> 'a \<Rightarrow> 'a" where
  "or_else v d = (case v of None \<Rightarrow> d | Some x \<Rightarrow> x)"

text \<open>
  The specification: the error, if any, and the next map, from the identifier and the instant the
  command would use.
\<close>

fun tenant_spec ::
  "libs \<Rightarrow> uuid \<Rightarrow> time \<Rightarrow> tenant_command \<Rightarrow> (uuid \<Rightarrow> tenant option) \<Rightarrow> goerr option \<times> (uuid \<Rightarrow> tenant option)" where
  "tenant_spec L new now (CreateTenant name slug domain settings) m =
     (if slug_taken m slug then (Some tenant_exists, m)
      else case jsonb L (or_else settings ''{}'') of
        None \<Rightarrow> (Some (Wrapf ''insert tenant'' bad_json), m)
      | Some s \<Rightarrow> (None, m(new \<mapsto> \<lparr>tt_id = new, tt_name = name, tt_slug = slug, tt_domain = domain, tt_settings = s,
          tt_is_active = True, tt_created_at = now, tt_updated_at = now\<rparr>)))"
| "tenant_spec L new now (UpdateTenant i name domain settings active) m =
     (case m i of
        None \<Rightarrow> (Some tenant_not_found, m)
      | Some t \<Rightarrow> (case jsonb L (or_else settings (tt_settings t)) of
          None \<Rightarrow> (Some (Wrapf ''update tenant'' bad_json), m)
        | Some s \<Rightarrow> (None, m(i \<mapsto> \<lparr>tt_id = i, tt_name = or_else name (tt_name t), tt_slug = tt_slug t,
            tt_domain = (case domain of None \<Rightarrow> tt_domain t | Some d \<Rightarrow> Some d), tt_settings = s,
            tt_is_active = or_else active (tt_is_active t), tt_created_at = tt_created_at t, tt_updated_at = now\<rparr>))))"
| "tenant_spec L new now (DeleteTenant i) m =
     (case m i of None \<Rightarrow> (Some tenant_not_found, m) | Some t \<Rightarrow> (None, m(i := None)))"

definition finished :: "goerr option \<Rightarrow> unit result" where
  "finished e = (case e of None \<Rightarrow> Ok () | Some x \<Rightarrow> Err x)"

lemma tenant_of_row_sel [simp]:
  "tt_id (tenant_of_row r) = tn_id r" "tt_slug (tenant_of_row r) = tn_slug r"
  by (simp_all add: tenant_of_row_def)

lemma lookup_run:
  "faults w = [] \<Longrightarrow> tenant_lookup (pg_tenant_repo L) i w =
     (case tenant_map w i of None \<Rightarrow> (Err tenant_not_found, w) | Some t \<Rightarrow> (Ok t, w))"
  by (simp add: tenant_lookup_def tenant_get_by_id_def sql_get_tenant_by_id_def tenant_map_def op_defs split: option.splits)

lemma slug_lookup_run:
  assumes "faults w = []" "distinct (map tn_id (tenants (db w)))"
  shows "if slug_taken (tenant_map w) slug then \<exists>t. tenant_get_by_slug slug w = (Ok t, w)
    else (\<exists>e. tenant_get_by_slug slug w = (Err e, w)) \<and> slug \<notin> tn_slug ` set (tenants (db w))"
proof (cases "find (\<lambda>r. tn_slug r = slug) (tenants (db w))")
  case (Some r)
  then have "r \<in> set (tenants (db w))" "tn_slug r = slug" using find_SomeD by fastforce+
  then have "tenant_map w (tn_id r) = Some (tenant_of_row r)"
    using assms(2) by (simp add: tenant_map_def find_key)
  then have "slug_taken (tenant_map w) slug" using \<open>tn_slug r = slug\<close> by (force simp: slug_taken_def)
  then show ?thesis using Some assms(1) by (simp add: tenant_get_by_slug_def sql_get_tenant_by_slug_def op_defs)
next
  case None
  then have n: "slug \<notin> tn_slug ` set (tenants (db w))" by (auto simp: find_None_all)
  then have "\<not> slug_taken (tenant_map w) slug"
    using find_SomeD by (fastforce simp: slug_taken_def tenant_map_def)
  then show ?thesis using None n assms(1)
    by (simp add: tenant_get_by_slug_def sql_get_tenant_by_slug_def op_defs is_no_rows_def)
qed

lemma find_by_id_update:
  "(\<And>r. tn_id (f r) = tn_id r) \<Longrightarrow> find (\<lambda>r. tn_id r = j) (update_where (\<lambda>r. tn_id r = i) f rows) =
    (if j = i then map_option f (find (\<lambda>r. tn_id r = i) rows) else find (\<lambda>r. tn_id r = j) rows)"
  by (induction rows) auto

lemma find_by_id_delete:
  "find (\<lambda>r. tn_id r = j) (filter (\<lambda>r. tn_id r \<noteq> i) rows) = (if j = i then None else find (\<lambda>r. tn_id r = j) rows)"
  by (induction rows) auto

lemma tenant_create_run:
  assumes "tenants_ok w" "tt_slug t \<notin> tn_slug ` set (tenants (db w))" "tenant_map w (tt_id t) = None"
  shows "\<exists>w'. tenant_create L t w = (case jsonb L (tt_settings t) of
        None \<Rightarrow> (Err (Wrapf ''insert tenant'' bad_json), w) | Some s \<Rightarrow> (Ok (), w')) \<and>
    (\<forall>s. jsonb L (tt_settings t) = Some s \<longrightarrow> tenants_ok w' \<and> tenant_map w' = (tenant_map w)(tt_id t \<mapsto> t\<lparr>tt_settings := s\<rparr>))"
proof -
  have f: "tt_id t \<notin> tn_id ` set (tenants (db w))" using assms(3) by (auto simp: tenant_map_def find_None_all)
  then have n: "find (\<lambda>r. tn_id r = tt_id t) (tenants (db w)) = None" unfolding find_None_all by (metis image_eqI)
  let ?row = "\<lparr>tn_id = tt_id t, tn_name = tt_name t, tn_slug = tt_slug t, tn_domain = tt_domain t,
          tn_settings = stored_settings L t, tn_is_active = tt_is_active t,
          tn_created_at = tt_created_at t, tn_updated_at = tt_updated_at t\<rparr>"
  let ?w' = "w\<lparr>db := db w\<lparr>tenants := tenants (db w) @ [?row]\<rparr>\<rparr>"
  have "tenant_create L t w = (case jsonb L (tt_settings t) of
        None \<Rightarrow> (Err (Wrapf ''insert tenant'' bad_json), w) | Some s \<Rightarrow> (Ok (), ?w'))"
    using assms(1,2) f
    by (simp add: tenant_create_def sql_create_tenant_def op_defs tenants_ok_def split: option.splits)
  moreover have "tenants_ok ?w'" using assms(1,2) f by (simp add: tenants_ok_def)
  moreover have "tenant_map ?w' = (tenant_map w)(tt_id t \<mapsto> t\<lparr>tt_settings := s\<rparr>)" if "jsonb L (tt_settings t) = Some s" for s
    using that n
    by (cases t) (simp add: tenant_map_def fun_eq_iff find_append tenant_of_row_def stored_settings_def or_empty_def
        split: option.splits)
  ultimately show ?thesis by blast
qed

lemma tenant_update_run:
  assumes "tenants_ok w" "tenant_map w (tt_id t) = Some t0" "tt_slug t = tt_slug t0" "tt_created_at t = tt_created_at t0"
  shows "\<exists>w'. tenant_update L t w = (case jsonb L (tt_settings t) of
        None \<Rightarrow> (Err (Wrapf ''update tenant'' bad_json), w) | Some s \<Rightarrow> (Ok (), w')) \<and>
    (\<forall>s. jsonb L (tt_settings t) = Some s \<longrightarrow> tenants_ok w' \<and> tenant_map w' = (tenant_map w)(tt_id t \<mapsto> t\<lparr>tt_settings := s\<rparr>))"
proof -
  obtain r where r: "find (\<lambda>r. tn_id r = tt_id t) (tenants (db w)) = Some r" "t0 = tenant_of_row r"
    using assms(2) by (auto simp: tenant_map_def)
  let ?f = "\<lambda>r. r\<lparr>tn_name := tt_name t, tn_domain := tt_domain t, tn_settings := stored_settings L t,
      tn_is_active := tt_is_active t, tn_updated_at := tt_updated_at t\<rparr>"
  let ?w' = "w\<lparr>db := db w\<lparr>tenants := update_where (\<lambda>r. tn_id r = tt_id t) ?f (tenants (db w))\<rparr>\<rparr>"
  have c: "count_where (\<lambda>r. tn_id r = tt_id t) (tenants (db w)) \<noteq> 0" using find_count [OF r(1)] .
  have id: "tn_id r = tt_id t" using find_SomeD [OF r(1)] by simp
  have "tenant_update L t w = (case jsonb L (tt_settings t) of
        None \<Rightarrow> (Err (Wrapf ''update tenant'' bad_json), w) | Some s \<Rightarrow> (Ok (), ?w'))"
    using assms(1) c
    by (simp add: tenant_update_def sql_update_tenant_def exec_checkedM_def sqlM_nofault op_defs tenants_ok_def
        split: option.splits)
  moreover have "tenants_ok ?w'" using assms(1) by (simp add: tenants_ok_def map_key_update_where)
  moreover have "tenant_map ?w' = (tenant_map w)(tt_id t \<mapsto> t\<lparr>tt_settings := s\<rparr>)" if "jsonb L (tt_settings t) = Some s" for s
    using that r assms(3,4) id
    by (cases t) (simp add: tenant_map_def fun_eq_iff find_by_id_update tenant_of_row_def stored_settings_def or_empty_def)
  ultimately show ?thesis by blast
qed

lemma tenant_delete_run:
  assumes "tenants_ok w" "tenant_map w i = Some t"
  shows "\<exists>w'. tenant_delete i w = (Ok (), w') \<and> tenants_ok w' \<and> tenant_map w' = (tenant_map w)(i := None)"
proof -
  obtain r where r: "find (\<lambda>r. tn_id r = i) (tenants (db w)) = Some r"
    using assms(2) by (auto simp: tenant_map_def)
  have c: "count_where (\<lambda>r. tn_id r = i) (tenants (db w)) \<noteq> 0" using find_count [OF r] .
  then show ?thesis
    using assms
    by (simp add: tenant_delete_def sql_delete_tenant_def op_defs tenants_ok_def tenant_map_def fun_eq_iff
        find_by_id_delete distinct_map_filterI)
qed

text \<open>\<open>follows_spec\<close>: on \<open>w\<close> the command ends with the outcome and the map the specification gives.\<close>

definition follows_spec :: "libs \<Rightarrow> tenant_command \<Rightarrow> world \<Rightarrow> bool" where
  "follows_spec L c w \<longleftrightarrow> (let s = tenant_spec L (uuids w (drawn w)) (clock w (ticks w)) c (tenant_map w) in
     \<exists>w'. run_tenant L c w = (finished (fst s), w') \<and> tenants_ok w' \<and> tenant_map w' = snd s)"

lemma create_follows:
  assumes "tenants_ok w" "tenant_map w (uuids w (drawn w)) = None"
  shows "follows_spec L (CreateTenant name slug domain settings) w"
proof -
  have w: "faults w = []" "distinct (map tn_id (tenants (db w)))" using assms(1) by (auto simp: tenants_ok_def)
  let ?t = "\<lparr>tt_id = uuids w (drawn w), tt_name = name, tt_slug = slug, tt_domain = domain,
      tt_settings = or_else settings ''{}'', tt_is_active = True, tt_created_at = clock w (ticks w),
      tt_updated_at = clock w (ticks w)\<rparr>"
  let ?w = "w\<lparr>ticks := Suc (ticks w), drawn := Suc (drawn w)\<rparr>"
  have w1: "tenants_ok ?w" "tenant_map ?w = tenant_map w" "tenants (db ?w) = tenants (db w)"
    using assms(1) by (auto simp: tenants_ok_def tenant_map_def fun_eq_iff)
  show ?thesis
  proof (cases "slug_taken (tenant_map w) slug")
    case True
    then show ?thesis
      using slug_lookup_run [OF w, of slug] assms(1)
      by (auto simp: follows_spec_def handle_create_tenant_def op_defs finished_def)
  next
    case False
    then obtain e where e: "tenant_get_by_slug slug w = (Err e, w)" "slug \<notin> tn_slug ` set (tenants (db w))"
      using slug_lookup_run [OF w, of slug] by auto
    have "run_tenant L (CreateTenant name slug domain settings) w = bindM (tenant_create L ?t) (\<lambda>_. retM ()) ?w"
      using e(1) by (simp add: follows_spec_def handle_create_tenant_def op_defs or_else_def Let_def split: prod.splits outcome.splits)
    then show ?thesis
      using tenant_create_run [of ?w ?t L] w1 e(2) assms(2) False
      by (auto simp: follows_spec_def finished_def bindM_def retM_def split: option.splits)
  qed
qed

lemma update_follows:
  assumes "tenants_ok w"
  shows "follows_spec L (UpdateTenant i name domain settings active) w"
proof -
  have f: "faults w = []" using assms(1) by (simp add: tenants_ok_def)
  show ?thesis
  proof (cases "tenant_map w i")
    case None
    then show ?thesis
      using lookup_run [OF f, of L i] assms(1) by (simp add: follows_spec_def handle_update_tenant_def bindM_def finished_def)
  next
    case (Some t)
    then have i: "tt_id t = i" using find_SomeD by (fastforce simp: tenant_map_def)
    let ?t = "\<lparr>tt_id = i, tt_name = or_else name (tt_name t), tt_slug = tt_slug t,
      tt_domain = (case domain of None \<Rightarrow> tt_domain t | Some d \<Rightarrow> Some d), tt_settings = or_else settings (tt_settings t),
      tt_is_active = or_else active (tt_is_active t), tt_created_at = tt_created_at t, tt_updated_at = clock w (ticks w)\<rparr>"
    let ?w = "w\<lparr>ticks := Suc (ticks w)\<rparr>"
    have w1: "tenants_ok ?w" "tenant_map ?w = tenant_map w"
      using assms(1) by (auto simp: tenants_ok_def tenant_map_def fun_eq_iff)
    have "run_tenant L (UpdateTenant i name domain settings active) w = bindM (tenant_update L ?t) (\<lambda>_. retM ()) ?w"
      using lookup_run [OF f, of L i] Some i
      by (cases t) (simp add: follows_spec_def handle_update_tenant_def op_defs or_else_def Let_def split: prod.splits outcome.splits option.splits)
    then show ?thesis
      using tenant_update_run [of ?w ?t t L] w1 Some
      by (auto simp: follows_spec_def finished_def bindM_def retM_def split: option.splits)
  qed
qed

lemma delete_follows:
  assumes "tenants_ok w"
  shows "follows_spec L (DeleteTenant i) w"
proof -
  have f: "faults w = []" using assms by (simp add: tenants_ok_def)
  show ?thesis
  proof (cases "tenant_map w i")
    case None
    then show ?thesis
      using lookup_run [OF f, of L i] assms by (simp add: follows_spec_def handle_delete_tenant_def bindM_def finished_def)
  next
    case (Some t)
    then show ?thesis
      using lookup_run [OF f, of L i] tenant_delete_run [OF assms Some]
      by (auto simp: follows_spec_def handle_delete_tenant_def bindM_def finished_def)
  qed
qed

text \<open>
  C9: The tenant commands over PostgreSQL implement a map from identifiers to tenants. On a database
  without faults each of them ends with the error and the map that the specification gives: a slug
  that is taken, a missing tenant and settings that are no JSON are refused and change nothing; the
  slug and the creation time of a tenant never change; slugs stay unique.
\<close>

theorem tenant_commands_refine:
  assumes "tenants_ok w" "tenant_map w (uuids w (drawn w)) = None"
  shows "\<exists>w'. run_tenant L c w = (finished (fst (tenant_spec L (uuids w (drawn w)) (clock w (ticks w)) c (tenant_map w))), w') \<and>
    tenants_ok w' \<and> tenant_map w' = snd (tenant_spec L (uuids w (drawn w)) (clock w (ticks w)) c (tenant_map w))"
proof -
  have "follows_spec L c w"
    using create_follows [OF assms] update_follows [OF assms(1)] delete_follows [OF assms(1)] by (cases c) auto
  then show ?thesis by (simp only: follows_spec_def Let_def)
qed

lemma tenant_commands_refine_witness:
  "\<exists>w'. run_tenant toy_libs (CreateTenant ''Acme'' ''acme'' None None) init_world = (Ok (), w') \<and> tenants_ok w' \<and>
    map_option tt_slug (tenant_map w' 1) = Some ''acme''"
proof -
  have w: "tenants_ok init_world" "tenant_map init_world = (\<lambda>_. None)" "uuids init_world (drawn init_world) = 1"
    by (simp_all add: tenants_ok_def tenant_map_def init_world_def empty_db_def fun_eq_iff)
  then show ?thesis
    using tenant_commands_refine [of init_world toy_libs "CreateTenant ''Acme'' ''acme'' None None"]
    by (auto simp: finished_def slug_taken_def toy_libs_def)
qed

section \<open>Slugs\<close>

text \<open>Lower-case letters and digits in groups that single dashes separate.\<close>

fun no_double_dash :: "string \<Rightarrow> bool" where
  "no_double_dash (a # b # s) = (\<not> (a = CHR ''-'' \<and> b = CHR ''-'') \<and> no_double_dash (b # s))"
| "no_double_dash s = True"

definition is_slug :: "string \<Rightarrow> bool" where
  "is_slug s \<longleftrightarrow> list_all (\<lambda>c. is_alnum c \<or> c = CHR ''-'') s \<and> no_double_dash s \<and>
     (s \<noteq> [] \<longrightarrow> hd s \<noteq> CHR ''-'' \<and> last s \<noteq> CHR ''-'')"

lemma dash_not_alnum [simp]: "\<not> is_alnum (CHR ''-'')"
  by (simp add: is_alnum_def is_digit_def)

lemma no_double_dash_Cons:
  "no_double_dash (c # s) \<longleftrightarrow> no_double_dash s \<and> \<not> (c = CHR ''-'' \<and> s \<noteq> [] \<and> hd s = CHR ''-'')"
  by (cases s) auto

lemma no_double_dash_append: "no_double_dash (a @ b) \<Longrightarrow> no_double_dash a \<and> no_double_dash b"
  by (induction a) (auto simp: no_double_dash_Cons hd_append split: if_splits)

lemma replace_runs_chars: "c \<in> set (replace_runs P b s) \<Longrightarrow> (c \<in> set s \<and> \<not> P c) \<or> c = CHR ''-''"
  by (induction P b s rule: replace_runs.induct) (auto split: if_splits)

lemma replace_runs_no_double:
  "P (CHR ''-'') \<Longrightarrow> no_double_dash (replace_runs P b s) \<and> (b \<longrightarrow> replace_runs P b s = [] \<or> hd (replace_runs P b s) \<noteq> CHR ''-'')"
  by (induction P b s rule: replace_runs.induct) (auto simp: no_double_dash_Cons)

lemma replace_runs_id:
  "no_double_dash s \<Longrightarrow> (b \<longrightarrow> s = [] \<or> hd s \<noteq> CHR ''-'') \<Longrightarrow> (\<And>c. c \<in> set s \<Longrightarrow> P c \<longleftrightarrow> c = CHR ''-'') \<Longrightarrow>
    replace_runs P b s = s"
  by (induction P b s rule: replace_runs.induct) (auto simp: no_double_dash_Cons)

lemma trim_left_split: "\<exists>u. s = u @ trim_left s cs"
  unfolding trim_left_def by (metis takeWhile_dropWhile_id)

lemma trim_right_split: "\<exists>u. s = trim_right s cs @ u"
proof -
  have "rev (rev s) = rev (dropWhile (\<lambda>c. c \<in> set cs) (rev s)) @ rev (takeWhile (\<lambda>c. c \<in> set cs) (rev s))"
    by (metis rev_append takeWhile_dropWhile_id)
  then show ?thesis unfolding trim_right_def by auto
qed

lemma trim_left_hd: "trim_left s cs \<noteq> [] \<Longrightarrow> hd (trim_left s cs) \<notin> set cs"
  unfolding trim_left_def by (rule hd_dropWhile)

lemma trim_right_last: "trim_right s cs \<noteq> [] \<Longrightarrow> last (trim_right s cs) \<notin> set cs"
  unfolding trim_right_def using hd_dropWhile [of "\<lambda>c. c \<in> set cs" "rev s"] by (simp add: last_rev)

lemma lower_alnum: "is_alnum c \<Longrightarrow> lower_char c = c"
  by (auto simp: is_alnum_def is_digit_def lower_char_def)

lemma lower_dash: "lower_char (CHR ''-'') = CHR ''-''"
  by (simp add: lower_char_def)

text \<open>
  \<open>slug.Make\<close> makes a slug of every text, and leaves a slug as it is, so applying it twice is
  applying it once.
\<close>

theorem make_slug_normal_form:
  "is_slug (make_slug s) \<and> (is_slug s \<longrightarrow> make_slug s = s) \<and> make_slug (make_slug s) = make_slug s"
proof -
  have fix_point: "make_slug t = t" if t: "is_slug t" for t
  proof -
    have lower: "to_lower t = t"
      using t lower_alnum unfolding to_lower_def is_slug_def list_all_iff
      by (intro map_idI) (metis lower_dash)
    have "\<not> is_alnum c \<longleftrightarrow> c = CHR ''-''" if "c \<in> set t" for c
      using t that by (auto simp: is_slug_def list_all_iff)
    then have runs: "replace_runs (\<lambda>c. \<not> is_alnum c) False t = t"
      using t by (intro replace_runs_id) (auto simp: is_slug_def)
    have "trim_left t ''-'' = t" using t by (cases t) (auto simp: is_slug_def trim_left_def)
    moreover have "trim_right t ''-'' = t"
      using t by (cases t rule: rev_cases) (auto simp: is_slug_def trim_right_def)
    moreover have "replace_runs (\<lambda>c. c = CHR ''-'') False t = t"
      using t by (intro replace_runs_id) (auto simp: is_slug_def)
    ultimately show ?thesis by (simp add: make_slug_def lower runs Let_def)
  qed
  have "is_slug (make_slug s)"
  proof -
    let ?d = "replace_runs (\<lambda>c. \<not> is_alnum c) False (to_lower s)"
    let ?l = "trim_left ?d ''-''" and ?t = "trim_right (trim_left ?d ''-'') ''-''"
    have d: "no_double_dash ?d" "\<And>c. c \<in> set ?d \<Longrightarrow> is_alnum c \<or> c = CHR ''-''"
      using replace_runs_no_double [of "\<lambda>c. \<not> is_alnum c"] replace_runs_chars by fastforce+
    obtain u v where uv: "?d = u @ ?l" "?l = ?t @ v" using trim_left_split trim_right_split by blast
    have nd: "no_double_dash ?t" using d(1) uv no_double_dash_append by metis
    have chars: "set ?t \<subseteq> set ?d" using uv by (metis Un_subset_iff set_append subset_refl)
    have "hd ?t = hd ?l" if "?t \<noteq> []" using that uv(2) by (metis hd_append2)
    then have "?t \<noteq> [] \<Longrightarrow> hd ?t \<noteq> CHR ''-''" using trim_left_hd [of ?d "''-''"] uv(2) by force
    then have "is_slug ?t"
      using nd chars d(2) trim_right_last [of ?l "''-''"] by (auto simp: is_slug_def list_all_iff)
    moreover have "make_slug s = ?t"
      using nd by (simp add: make_slug_def Let_def replace_runs_id)
    ultimately show ?thesis by simp
  qed
  then show ?thesis using fix_point by blast
qed

lemma make_slug_normal_form_witness:
  "is_slug (make_slug ''Hello,  World!'') \<and> make_slug ''hello-world'' = ''hello-world''"
proof -
  have "is_slug ''hello-world''" by code_simp
  then show ?thesis using make_slug_normal_form [of "''Hello,  World!''"] make_slug_normal_form [of "''hello-world''"] by blast
qed

end
