(* ===== verification/Cqrs.thy ===== *)
theory Cqrs
  imports Todo Auth_Recovery Authorization User_Module Tenant_Module
begin

text \<open>
  The command and query buses of \<open>internal/shared/cqrs\<close> and what the modules register on them.
  The Go type \<open>any\<close> of a message is the sum of the command structs (of the query structs); a handler
  asserts the struct it was written for and panics on another. The key of a message is what
  \<open>reflect.TypeOf(m).String()\<close> gives, the package name with the struct name. The mutex of a bus is
  not modelled: registration happens before the first request.
\<close>

section \<open>Messages\<close>

datatype command =
    CreateTodoCommand string string
  | UpdateTodoCommand uuid string string
  | DeleteTodoCommand uuid
  | CompleteTodoCommand uuid
  | RegisterUserCommand string string string
  | GenerateTokensCommand user time
  | RefreshTokenCommand string time
  | LogoutCommand string string time "(string \<Rightarrow> time \<Rightarrow> (world, unit) gop) option"
  | LogoutAllCommand uuid
  | VerifyEmailCommand string
  | ForgotPasswordCommand string
  | ResetPasswordCommand string string
  | ResendVerificationCommand string
  | CreateRoleCommand string string
  | UpdateRoleCommand uuid string string
  | DeleteRoleCommand uuid
  | CreatePermissionCommand string string string string
  | UpdatePermissionCommand uuid string string string string
  | DeletePermissionCommand uuid
  | AssignRoleCommand uuid uuid
  | UnassignRoleCommand uuid uuid
  | AssignPermissionCommand uuid uuid
  | UnassignPermissionCommand uuid uuid
  | CreateUserCommand string string bool
  | UpdateUserCommand uuid string string bool
  | DeleteUserCommand uuid
  | CreateTenantCommand string string "string option" "string option"
  | UpdateTenantCommand uuid "string option" "string option" "string option" "bool option"
  | DeleteTenantCommand uuid

datatype query =
    GetTodoQuery uuid
  | ListTodosQuery "string option" int
  | SearchTodosQuery string "string option" int
  | LoginQuery string string
  | GetRoleQuery uuid
  | ListRolesQuery "string option" int
  | GetPermissionQuery uuid
  | ListPermissionsQuery "string option" int
  | GetUserRolesQuery uuid
  | GetRolePermissionsQuery uuid
  | CheckPermissionQuery uuid string string
  | ListUsersQuery "string option" int
  | GetUserQuery uuid
  | GetTenantQuery uuid
  | ListTenantsQuery "string option" int

text \<open>What the handlers return as \<open>any\<close>; \<open>NilReply\<close> is the nil interface.\<close>

datatype reply_value =
    NilReply
  | TodoReply todo_response
  | TodosReply "todo page" int
  | UserReply user
  | UsersReply "user page" int
  | TokensReply token_pair
  | MapReply "(string \<times> string) list"
  | RoleReply role
  | RolesReply "role page"
  | RoleListReply "role list"
  | PermissionReply permission
  | PermissionsReply "permission page"
  | PermissionListReply "permission list"
  | BoolReply bool
  | TenantReply tenant_response
  | TenantsReply "tenant_response list" "tenant page" int

fun command_type :: "command \<Rightarrow> string" where
  "command_type (CreateTodoCommand _ _) = ''command.CreateTodoCommand''"
| "command_type (UpdateTodoCommand _ _ _) = ''command.UpdateTodoCommand''"
| "command_type (DeleteTodoCommand _) = ''command.DeleteTodoCommand''"
| "command_type (CompleteTodoCommand _) = ''command.CompleteTodoCommand''"
| "command_type (RegisterUserCommand _ _ _) = ''command.RegisterUserCommand''"
| "command_type (GenerateTokensCommand _ _) = ''command.GenerateTokensCommand''"
| "command_type (RefreshTokenCommand _ _) = ''command.RefreshTokenCommand''"
| "command_type (LogoutCommand _ _ _ _) = ''command.LogoutCommand''"
| "command_type (LogoutAllCommand _) = ''command.LogoutAllCommand''"
| "command_type (VerifyEmailCommand _) = ''command.VerifyEmailCommand''"
| "command_type (ForgotPasswordCommand _) = ''command.ForgotPasswordCommand''"
| "command_type (ResetPasswordCommand _ _) = ''command.ResetPasswordCommand''"
| "command_type (ResendVerificationCommand _) = ''command.ResendVerificationCommand''"
| "command_type (CreateRoleCommand _ _) = ''command.CreateRoleCommand''"
| "command_type (UpdateRoleCommand _ _ _) = ''command.UpdateRoleCommand''"
| "command_type (DeleteRoleCommand _) = ''command.DeleteRoleCommand''"
| "command_type (CreatePermissionCommand _ _ _ _) = ''command.CreatePermissionCommand''"
| "command_type (UpdatePermissionCommand _ _ _ _ _) = ''command.UpdatePermissionCommand''"
| "command_type (DeletePermissionCommand _) = ''command.DeletePermissionCommand''"
| "command_type (AssignRoleCommand _ _) = ''command.AssignRoleCommand''"
| "command_type (UnassignRoleCommand _ _) = ''command.UnassignRoleCommand''"
| "command_type (AssignPermissionCommand _ _) = ''command.AssignPermissionCommand''"
| "command_type (UnassignPermissionCommand _ _) = ''command.UnassignPermissionCommand''"
| "command_type (CreateUserCommand _ _ _) = ''command.CreateUserCommand''"
| "command_type (UpdateUserCommand _ _ _ _) = ''command.UpdateUserCommand''"
| "command_type (DeleteUserCommand _) = ''command.DeleteUserCommand''"
| "command_type (CreateTenantCommand _ _ _ _) = ''command.CreateTenantCommand''"
| "command_type (UpdateTenantCommand _ _ _ _ _) = ''command.UpdateTenantCommand''"
| "command_type (DeleteTenantCommand _) = ''command.DeleteTenantCommand''"

fun query_type :: "query \<Rightarrow> string" where
  "query_type (GetTodoQuery _) = ''query.GetTodoQuery''"
| "query_type (ListTodosQuery _ _) = ''query.ListTodosQuery''"
| "query_type (SearchTodosQuery _ _ _) = ''query.SearchTodosQuery''"
| "query_type (LoginQuery _ _) = ''query.LoginQuery''"
| "query_type (GetRoleQuery _) = ''query.GetRoleQuery''"
| "query_type (ListRolesQuery _ _) = ''query.ListRolesQuery''"
| "query_type (GetPermissionQuery _) = ''query.GetPermissionQuery''"
| "query_type (ListPermissionsQuery _ _) = ''query.ListPermissionsQuery''"
| "query_type (GetUserRolesQuery _) = ''query.GetUserRolesQuery''"
| "query_type (GetRolePermissionsQuery _) = ''query.GetRolePermissionsQuery''"
| "query_type (CheckPermissionQuery _ _ _) = ''query.CheckPermissionQuery''"
| "query_type (ListUsersQuery _ _) = ''query.ListUsersQuery''"
| "query_type (GetUserQuery _) = ''query.GetUserQuery''"
| "query_type (GetTenantQuery _) = ''query.GetTenantQuery''"
| "query_type (ListTenantsQuery _ _) = ''query.ListTenantsQuery''"

section \<open>The buses\<close>

type_synonym 'm message_handler = "ctx \<Rightarrow> 'm \<Rightarrow> (world, reply_value) gop"
type_synonym 'm bus = "string \<Rightarrow> 'm message_handler option"

definition empty_bus :: "'m bus" where
  "empty_bus = (\<lambda>_. None)"

definition register_handler :: "'m bus \<Rightarrow> string \<Rightarrow> 'm message_handler \<Rightarrow> 'm bus" where
  "register_handler b key h = b(key \<mapsto> h)"

definition dispatch :: "command bus \<Rightarrow> command message_handler" where
  "dispatch b cx cmd = (case b (command_type cmd) of
      None \<Rightarrow> errM (Errorf (''no handler registered for command: '' @ command_type cmd))
    | Some h \<Rightarrow> h cx cmd)"

definition ask :: "query bus \<Rightarrow> query message_handler" where
  "ask b cx q = (case b (query_type q) of
      None \<Rightarrow> errM (Errorf (''no handler registered for query: '' @ query_type q))
    | Some h \<Rightarrow> h cx q)"

text \<open>\<open>c := cmd.(T)\<close> panics when the message is of another type.\<close>

definition bad_assertion :: "(world, 'a) gop" where
  "bad_assertion = panicM ''interface conversion''"

definition replyM :: "('a \<Rightarrow> reply_value) \<Rightarrow> (world, 'a) gop \<Rightarrow> (world, reply_value) gop" where
  "replyM f m = bindM m (\<lambda>x. retM (f x))"

section \<open>What the modules register\<close>

text \<open>What dependency injection builds for the handlers: libraries, configuration and the event bus.\<close>

record app_env =
  ap_libs :: libs
  ap_tenant_enabled :: bool
  ap_secret :: string
  ap_expiration :: int
  ap_publish :: publisher

definition ap_todos :: "app_env \<Rightarrow> todo_repo" where
  "ap_todos A = pg_todo_repo (ap_libs A) (ap_tenant_enabled A)"

definition ap_roles :: "app_env \<Rightarrow> role_repo" where
  "ap_roles A = pg_role_repo (ap_libs A) (ap_tenant_enabled A)"

definition ap_permissions :: "app_env \<Rightarrow> permission_repo" where
  "ap_permissions A = pg_permission_repo (ap_libs A) (ap_tenant_enabled A)"

definition ap_profiles :: "app_env \<Rightarrow> profile_repo" where
  "ap_profiles A = pg_profile_repo (ap_libs A) (ap_tenant_enabled A)"

definition ap_tokens :: "app_env \<Rightarrow> token_service" where
  "ap_tokens A = new_jwt_token_service (ap_libs A) (ap_secret A) (ap_expiration A)"

definition ap_enforcer :: "app_env \<Rightarrow> enforcer" where
  "ap_enforcer A = casbin_enforcer (ap_libs A)"

definition register_todo_commands :: "app_env \<Rightarrow> command bus \<Rightarrow> command bus" where
  "register_todo_commands A b =
     register_handler (register_handler (register_handler (register_handler b
       ''command.CreateTodoCommand'' (\<lambda>cx cmd. case cmd of
          CreateTodoCommand title desc \<Rightarrow> replyM TodoReply (handle_create_todo (ap_todos A) (ap_publish A) title desc)
        | _ \<Rightarrow> bad_assertion))
       ''command.UpdateTodoCommand'' (\<lambda>cx cmd. case cmd of
          UpdateTodoCommand i title desc \<Rightarrow>
            replyM TodoReply (handle_update_todo (ap_todos A) (ap_publish A) i title desc)
        | _ \<Rightarrow> bad_assertion))
       ''command.DeleteTodoCommand'' (\<lambda>cx cmd. case cmd of
          DeleteTodoCommand i \<Rightarrow> replyM (\<lambda>_. NilReply) (handle_delete_todo (ap_todos A) (ap_publish A) i)
        | _ \<Rightarrow> bad_assertion))
       ''command.CompleteTodoCommand'' (\<lambda>cx cmd. case cmd of
          CompleteTodoCommand i \<Rightarrow> replyM TodoReply (handle_complete_todo (ap_todos A) (ap_publish A) i)
        | _ \<Rightarrow> bad_assertion)"

definition register_todo_queries :: "app_env \<Rightarrow> query bus \<Rightarrow> query bus" where
  "register_todo_queries A b =
     register_handler (register_handler (register_handler b
       ''query.GetTodoQuery'' (\<lambda>cx q. case q of
          GetTodoQuery i \<Rightarrow> replyM TodoReply (handle_get_todo (ap_todos A) i) | _ \<Rightarrow> bad_assertion))
       ''query.ListTodosQuery'' (\<lambda>cx q. case q of
          ListTodosQuery c n \<Rightarrow> replyM (\<lambda>(pg, l). TodosReply pg l) (handle_list_todos (ap_todos A) cx c n)
        | _ \<Rightarrow> bad_assertion))
       ''query.SearchTodosQuery'' (\<lambda>cx q. case q of
          SearchTodosQuery s c n \<Rightarrow>
            replyM (\<lambda>(pg, l). TodosReply pg l) (handle_search_todos (ap_todos A) cx s c n)
        | _ \<Rightarrow> bad_assertion)"

definition register_auth_commands :: "app_env \<Rightarrow> command bus \<Rightarrow> command bus" where
  "register_auth_commands A b =
     (let L = ap_libs A; pub = ap_publish A; toks = ap_tokens A in
     register_handler (register_handler (register_handler (register_handler (register_handler
     (register_handler (register_handler (register_handler (register_handler b
       ''command.RegisterUserCommand'' (\<lambda>cx cmd. case cmd of
          RegisterUserCommand em pw name \<Rightarrow> replyM UserReply (handle_register L pg_user_repo pub em pw name)
        | _ \<Rightarrow> bad_assertion))
       ''command.GenerateTokensCommand'' (\<lambda>cx cmd. case cmd of
          GenerateTokensCommand u ttl \<Rightarrow>
            replyM TokensReply (handle_generate_tokens L pg_refresh_repo toks cx u ttl)
        | _ \<Rightarrow> bad_assertion))
       ''command.RefreshTokenCommand'' (\<lambda>cx cmd. case cmd of
          RefreshTokenCommand s ttl \<Rightarrow>
            replyM TokensReply (handle_refresh L pg_user_repo pg_refresh_repo toks cx s ttl)
        | _ \<Rightarrow> bad_assertion))
       ''command.LogoutCommand'' (\<lambda>cx cmd. case cmd of
          LogoutCommand s jti ttl deny \<Rightarrow> replyM (\<lambda>_. NilReply) (handle_logout pg_refresh_repo s jti ttl deny)
        | _ \<Rightarrow> bad_assertion))
       ''command.LogoutAllCommand'' (\<lambda>cx cmd. case cmd of
          LogoutAllCommand u \<Rightarrow> replyM (\<lambda>_. NilReply) (handle_logout_all pg_refresh_repo u)
        | _ \<Rightarrow> bad_assertion))
       ''command.VerifyEmailCommand'' (\<lambda>cx cmd. case cmd of
          VerifyEmailCommand tok \<Rightarrow> replyM MapReply (handle_verify_email L pg_user_repo pub tok)
        | _ \<Rightarrow> bad_assertion))
       ''command.ForgotPasswordCommand'' (\<lambda>cx cmd. case cmd of
          ForgotPasswordCommand em \<Rightarrow> replyM (\<lambda>_. NilReply) (handle_forgot_password L pg_user_repo pub em)
        | _ \<Rightarrow> bad_assertion))
       ''command.ResetPasswordCommand'' (\<lambda>cx cmd. case cmd of
          ResetPasswordCommand tok pw \<Rightarrow>
            replyM (\<lambda>_. NilReply) (handle_reset_password L pg_user_repo pg_refresh_repo tok pw)
        | _ \<Rightarrow> bad_assertion))
       ''command.ResendVerificationCommand'' (\<lambda>cx cmd. case cmd of
          ResendVerificationCommand em \<Rightarrow>
            replyM (\<lambda>_. NilReply) (handle_resend_verification L pg_user_repo pub em)
        | _ \<Rightarrow> bad_assertion))"

definition register_auth_queries :: "app_env \<Rightarrow> query bus \<Rightarrow> query bus" where
  "register_auth_queries A b = register_handler b ''query.LoginQuery'' (\<lambda>cx q. case q of
      LoginQuery em pw \<Rightarrow> replyM UserReply (handle_login (ap_libs A) pg_user_repo em pw)
    | _ \<Rightarrow> bad_assertion)"

definition register_authz_commands :: "app_env \<Rightarrow> command bus \<Rightarrow> command bus" where
  "register_authz_commands A b =
     (let en = ap_enforcer A in
     register_handler (register_handler (register_handler (register_handler (register_handler
     (register_handler (register_handler (register_handler (register_handler (register_handler b
       ''command.CreateRoleCommand'' (\<lambda>cx cmd. case cmd of
          CreateRoleCommand name desc \<Rightarrow> replyM RoleReply (handle_create_role (ap_roles A) name desc)
        | _ \<Rightarrow> bad_assertion))
       ''command.UpdateRoleCommand'' (\<lambda>cx cmd. case cmd of
          UpdateRoleCommand i name desc \<Rightarrow> replyM RoleReply (handle_update_role (ap_roles A) i name desc)
        | _ \<Rightarrow> bad_assertion))
       ''command.DeleteRoleCommand'' (\<lambda>cx cmd. case cmd of
          DeleteRoleCommand i \<Rightarrow> replyM (\<lambda>_. NilReply) (handle_delete_role (ap_roles A) i)
        | _ \<Rightarrow> bad_assertion))
       ''command.CreatePermissionCommand'' (\<lambda>cx cmd. case cmd of
          CreatePermissionCommand name desc res act \<Rightarrow>
            replyM PermissionReply (handle_create_permission (ap_permissions A) name desc res act)
        | _ \<Rightarrow> bad_assertion))
       ''command.UpdatePermissionCommand'' (\<lambda>cx cmd. case cmd of
          UpdatePermissionCommand i name desc res act \<Rightarrow>
            replyM PermissionReply (handle_update_permission (ap_permissions A) i name desc res act)
        | _ \<Rightarrow> bad_assertion))
       ''command.DeletePermissionCommand'' (\<lambda>cx cmd. case cmd of
          DeletePermissionCommand i \<Rightarrow> replyM (\<lambda>_. NilReply) (handle_delete_permission (ap_permissions A) i)
        | _ \<Rightarrow> bad_assertion))
       ''command.AssignRoleCommand'' (\<lambda>cx cmd. case cmd of
          AssignRoleCommand u r \<Rightarrow>
            replyM (\<lambda>_. NilReply) (handle_assign_role (ap_roles A) pg_user_role_repo en u r)
        | _ \<Rightarrow> bad_assertion))
       ''command.UnassignRoleCommand'' (\<lambda>cx cmd. case cmd of
          UnassignRoleCommand u r \<Rightarrow> replyM (\<lambda>_. NilReply) (handle_unassign_role pg_user_role_repo en u r)
        | _ \<Rightarrow> bad_assertion))
       ''command.AssignPermissionCommand'' (\<lambda>cx cmd. case cmd of
          AssignPermissionCommand r p \<Rightarrow> replyM (\<lambda>_. NilReply)
            (handle_assign_permission (ap_roles A) (ap_permissions A) pg_role_permission_repo en r p)
        | _ \<Rightarrow> bad_assertion))
       ''command.UnassignPermissionCommand'' (\<lambda>cx cmd. case cmd of
          UnassignPermissionCommand r p \<Rightarrow>
            replyM (\<lambda>_. NilReply) (handle_unassign_permission pg_role_permission_repo en r p)
        | _ \<Rightarrow> bad_assertion))"

definition register_authz_queries :: "app_env \<Rightarrow> query bus \<Rightarrow> query bus" where
  "register_authz_queries A b =
     register_handler (register_handler (register_handler (register_handler (register_handler
     (register_handler (register_handler b
       ''query.GetRoleQuery'' (\<lambda>cx q. case q of
          GetRoleQuery i \<Rightarrow> replyM RoleReply (handle_get_role (ap_roles A) i) | _ \<Rightarrow> bad_assertion))
       ''query.ListRolesQuery'' (\<lambda>cx q. case q of
          ListRolesQuery c n \<Rightarrow> replyM RolesReply (handle_list_roles (ap_roles A) cx c n) | _ \<Rightarrow> bad_assertion))
       ''query.GetPermissionQuery'' (\<lambda>cx q. case q of
          GetPermissionQuery i \<Rightarrow> replyM PermissionReply (handle_get_permission (ap_permissions A) i)
        | _ \<Rightarrow> bad_assertion))
       ''query.ListPermissionsQuery'' (\<lambda>cx q. case q of
          ListPermissionsQuery c n \<Rightarrow>
            replyM PermissionsReply (handle_list_permissions (ap_permissions A) cx c n)
        | _ \<Rightarrow> bad_assertion))
       ''query.GetUserRolesQuery'' (\<lambda>cx q. case q of
          GetUserRolesQuery u \<Rightarrow> replyM RoleListReply (handle_get_user_roles pg_user_role_repo u)
        | _ \<Rightarrow> bad_assertion))
       ''query.GetRolePermissionsQuery'' (\<lambda>cx q. case q of
          GetRolePermissionsQuery r \<Rightarrow>
            replyM PermissionListReply (handle_get_role_permissions pg_role_permission_repo r)
        | _ \<Rightarrow> bad_assertion))
       ''query.CheckPermissionQuery'' (\<lambda>cx q. case q of
          CheckPermissionQuery u res act \<Rightarrow> replyM BoolReply (handle_check_permission (ap_enforcer A) u res act)
        | _ \<Rightarrow> bad_assertion)"

definition register_user_commands :: "app_env \<Rightarrow> command bus \<Rightarrow> command bus" where
  "register_user_commands A b =
     register_handler (register_handler (register_handler b
       ''command.CreateUserCommand'' (\<lambda>cx cmd. case cmd of
          CreateUserCommand em name act \<Rightarrow> replyM UserReply (handle_create_user (ap_profiles A) em name act)
        | _ \<Rightarrow> bad_assertion))
       ''command.UpdateUserCommand'' (\<lambda>cx cmd. case cmd of
          UpdateUserCommand i name em act \<Rightarrow>
            replyM UserReply (handle_update_user (ap_profiles A) i name em act)
        | _ \<Rightarrow> bad_assertion))
       ''command.DeleteUserCommand'' (\<lambda>cx cmd. case cmd of
          DeleteUserCommand i \<Rightarrow> replyM (\<lambda>_. NilReply) (handle_delete_user (ap_profiles A) i)
        | _ \<Rightarrow> bad_assertion)"

definition register_user_queries :: "app_env \<Rightarrow> query bus \<Rightarrow> query bus" where
  "register_user_queries A b =
     register_handler (register_handler b
       ''query.ListUsersQuery'' (\<lambda>cx q. case q of
          ListUsersQuery c n \<Rightarrow> replyM (\<lambda>(pg, l). UsersReply pg l) (handle_list_users (ap_profiles A) cx c n)
        | _ \<Rightarrow> bad_assertion))
       ''query.GetUserQuery'' (\<lambda>cx q. case q of
          GetUserQuery i \<Rightarrow> replyM UserReply (handle_get_user (ap_profiles A) i) | _ \<Rightarrow> bad_assertion)"

definition register_tenant_commands :: "app_env \<Rightarrow> command bus \<Rightarrow> command bus" where
  "register_tenant_commands A b =
     (let L = ap_libs A; repo = pg_tenant_repo L in
     register_handler (register_handler (register_handler b
       ''command.CreateTenantCommand'' (\<lambda>cx cmd. case cmd of
          CreateTenantCommand name slg dm st \<Rightarrow> replyM TenantReply (handle_create_tenant L repo name slg dm st)
        | _ \<Rightarrow> bad_assertion))
       ''command.UpdateTenantCommand'' (\<lambda>cx cmd. case cmd of
          UpdateTenantCommand i name dm st act \<Rightarrow>
            replyM TenantReply (handle_update_tenant L repo i name dm st act)
        | _ \<Rightarrow> bad_assertion))
       ''command.DeleteTenantCommand'' (\<lambda>cx cmd. case cmd of
          DeleteTenantCommand i \<Rightarrow> replyM (\<lambda>_. NilReply) (handle_delete_tenant repo i)
        | _ \<Rightarrow> bad_assertion))"

definition register_tenant_queries :: "app_env \<Rightarrow> query bus \<Rightarrow> query bus" where
  "register_tenant_queries A b =
     (let L = ap_libs A; repo = pg_tenant_repo L in
     register_handler (register_handler b
       ''query.GetTenantQuery'' (\<lambda>cx q. case q of
          GetTenantQuery i \<Rightarrow> replyM TenantReply (handle_get_tenant L repo i) | _ \<Rightarrow> bad_assertion))
       ''query.ListTenantsQuery'' (\<lambda>cx q. case q of
          ListTenantsQuery c n \<Rightarrow> replyM (\<lambda>(ts, pg, l). TenantsReply ts pg l) (handle_list_tenants L repo c n)
        | _ \<Rightarrow> bad_assertion))"

text \<open>The modules in the order of \<open>main.go\<close>.\<close>

definition app_commands :: "app_env \<Rightarrow> command bus" where
  "app_commands A =
     register_tenant_commands A (register_user_commands A (register_todo_commands A
       (register_authz_commands A (register_auth_commands A empty_bus))))"

definition app_queries :: "app_env \<Rightarrow> query bus" where
  "app_queries A =
     register_tenant_queries A (register_user_queries A (register_todo_queries A
       (register_authz_queries A (register_auth_queries A empty_bus))))"

section \<open>Every message reaches its handler\<close>

text \<open>What the service does with a message, without the buses.\<close>

fun run_command :: "app_env \<Rightarrow> command message_handler" where
  "run_command A cx (CreateTodoCommand title desc) =
     replyM TodoReply (handle_create_todo (ap_todos A) (ap_publish A) title desc)"
| "run_command A cx (UpdateTodoCommand i title desc) =
     replyM TodoReply (handle_update_todo (ap_todos A) (ap_publish A) i title desc)"
| "run_command A cx (DeleteTodoCommand i) =
     replyM (\<lambda>_. NilReply) (handle_delete_todo (ap_todos A) (ap_publish A) i)"
| "run_command A cx (CompleteTodoCommand i) =
     replyM TodoReply (handle_complete_todo (ap_todos A) (ap_publish A) i)"
| "run_command A cx (RegisterUserCommand em pw name) =
     replyM UserReply (handle_register (ap_libs A) pg_user_repo (ap_publish A) em pw name)"
| "run_command A cx (GenerateTokensCommand u ttl) =
     replyM TokensReply (handle_generate_tokens (ap_libs A) pg_refresh_repo (ap_tokens A) cx u ttl)"
| "run_command A cx (RefreshTokenCommand s ttl) =
     replyM TokensReply (handle_refresh (ap_libs A) pg_user_repo pg_refresh_repo (ap_tokens A) cx s ttl)"
| "run_command A cx (LogoutCommand s jti ttl deny) =
     replyM (\<lambda>_. NilReply) (handle_logout pg_refresh_repo s jti ttl deny)"
| "run_command A cx (LogoutAllCommand u) = replyM (\<lambda>_. NilReply) (handle_logout_all pg_refresh_repo u)"
| "run_command A cx (VerifyEmailCommand tok) =
     replyM MapReply (handle_verify_email (ap_libs A) pg_user_repo (ap_publish A) tok)"
| "run_command A cx (ForgotPasswordCommand em) =
     replyM (\<lambda>_. NilReply) (handle_forgot_password (ap_libs A) pg_user_repo (ap_publish A) em)"
| "run_command A cx (ResetPasswordCommand tok pw) =
     replyM (\<lambda>_. NilReply) (handle_reset_password (ap_libs A) pg_user_repo pg_refresh_repo tok pw)"
| "run_command A cx (ResendVerificationCommand em) =
     replyM (\<lambda>_. NilReply) (handle_resend_verification (ap_libs A) pg_user_repo (ap_publish A) em)"
| "run_command A cx (CreateRoleCommand name desc) = replyM RoleReply (handle_create_role (ap_roles A) name desc)"
| "run_command A cx (UpdateRoleCommand i name desc) =
     replyM RoleReply (handle_update_role (ap_roles A) i name desc)"
| "run_command A cx (DeleteRoleCommand i) = replyM (\<lambda>_. NilReply) (handle_delete_role (ap_roles A) i)"
| "run_command A cx (CreatePermissionCommand name desc res act) =
     replyM PermissionReply (handle_create_permission (ap_permissions A) name desc res act)"
| "run_command A cx (UpdatePermissionCommand i name desc res act) =
     replyM PermissionReply (handle_update_permission (ap_permissions A) i name desc res act)"
| "run_command A cx (DeletePermissionCommand i) =
     replyM (\<lambda>_. NilReply) (handle_delete_permission (ap_permissions A) i)"
| "run_command A cx (AssignRoleCommand u r) =
     replyM (\<lambda>_. NilReply) (handle_assign_role (ap_roles A) pg_user_role_repo (ap_enforcer A) u r)"
| "run_command A cx (UnassignRoleCommand u r) =
     replyM (\<lambda>_. NilReply) (handle_unassign_role pg_user_role_repo (ap_enforcer A) u r)"
| "run_command A cx (AssignPermissionCommand r p) = replyM (\<lambda>_. NilReply)
     (handle_assign_permission (ap_roles A) (ap_permissions A) pg_role_permission_repo (ap_enforcer A) r p)"
| "run_command A cx (UnassignPermissionCommand r p) =
     replyM (\<lambda>_. NilReply) (handle_unassign_permission pg_role_permission_repo (ap_enforcer A) r p)"
| "run_command A cx (CreateUserCommand em name act) =
     replyM UserReply (handle_create_user (ap_profiles A) em name act)"
| "run_command A cx (UpdateUserCommand i name em act) =
     replyM UserReply (handle_update_user (ap_profiles A) i name em act)"
| "run_command A cx (DeleteUserCommand i) = replyM (\<lambda>_. NilReply) (handle_delete_user (ap_profiles A) i)"
| "run_command A cx (CreateTenantCommand name slg dm st) =
     replyM TenantReply (handle_create_tenant (ap_libs A) (pg_tenant_repo (ap_libs A)) name slg dm st)"
| "run_command A cx (UpdateTenantCommand i name dm st act) =
     replyM TenantReply (handle_update_tenant (ap_libs A) (pg_tenant_repo (ap_libs A)) i name dm st act)"
| "run_command A cx (DeleteTenantCommand i) =
     replyM (\<lambda>_. NilReply) (handle_delete_tenant (pg_tenant_repo (ap_libs A)) i)"

fun run_query :: "app_env \<Rightarrow> query message_handler" where
  "run_query A cx (GetTodoQuery i) = replyM TodoReply (handle_get_todo (ap_todos A) i)"
| "run_query A cx (ListTodosQuery c n) =
     replyM (\<lambda>(pg, l). TodosReply pg l) (handle_list_todos (ap_todos A) cx c n)"
| "run_query A cx (SearchTodosQuery s c n) =
     replyM (\<lambda>(pg, l). TodosReply pg l) (handle_search_todos (ap_todos A) cx s c n)"
| "run_query A cx (LoginQuery em pw) = replyM UserReply (handle_login (ap_libs A) pg_user_repo em pw)"
| "run_query A cx (GetRoleQuery i) = replyM RoleReply (handle_get_role (ap_roles A) i)"
| "run_query A cx (ListRolesQuery c n) = replyM RolesReply (handle_list_roles (ap_roles A) cx c n)"
| "run_query A cx (GetPermissionQuery i) = replyM PermissionReply (handle_get_permission (ap_permissions A) i)"
| "run_query A cx (ListPermissionsQuery c n) =
     replyM PermissionsReply (handle_list_permissions (ap_permissions A) cx c n)"
| "run_query A cx (GetUserRolesQuery u) = replyM RoleListReply (handle_get_user_roles pg_user_role_repo u)"
| "run_query A cx (GetRolePermissionsQuery r) =
     replyM PermissionListReply (handle_get_role_permissions pg_role_permission_repo r)"
| "run_query A cx (CheckPermissionQuery u res act) =
     replyM BoolReply (handle_check_permission (ap_enforcer A) u res act)"
| "run_query A cx (ListUsersQuery c n) =
     replyM (\<lambda>(pg, l). UsersReply pg l) (handle_list_users (ap_profiles A) cx c n)"
| "run_query A cx (GetUserQuery i) = replyM UserReply (handle_get_user (ap_profiles A) i)"
| "run_query A cx (GetTenantQuery i) =
     replyM TenantReply (handle_get_tenant (ap_libs A) (pg_tenant_repo (ap_libs A)) i)"
| "run_query A cx (ListTenantsQuery c n) = replyM (\<lambda>(ts, pg, l). TenantsReply ts pg l)
     (handle_list_tenants (ap_libs A) (pg_tenant_repo (ap_libs A)) c n)"

lemmas command_bus_defs = app_commands_def register_tenant_commands_def register_user_commands_def
  register_todo_commands_def register_authz_commands_def register_auth_commands_def
  register_handler_def empty_bus_def Let_def

lemmas query_bus_defs = app_queries_def register_tenant_queries_def register_user_queries_def
  register_todo_queries_def register_authz_queries_def register_auth_queries_def
  register_handler_def empty_bus_def Let_def

lemma app_dispatch: "dispatch (app_commands A) cx cmd = run_command A cx cmd"
  by (cases cmd) (simp_all add: dispatch_def command_bus_defs)

lemma app_ask: "ask (app_queries A) cx q = run_query A cx q"
  by (cases q) (simp_all add: ask_def query_bus_defs)

text \<open>
  C24: after the modules have registered, every command and every query that is dispatched reaches
  the handler written for it, with its arguments; no registration overwrites another, no message is
  unknown and no type assertion panics. A message whose type nobody registered is the error that
  names the type.
\<close>

theorem buses_route_messages:
  "dispatch (app_commands A) cx cmd = run_command A cx cmd \<and>
   ask (app_queries A) cx q = run_query A cx q \<and>
   dispatch empty_bus cx cmd =
     errM (Errorf (''no handler registered for command: '' @ command_type cmd)) \<and>
   ask empty_bus cx q = errM (Errorf (''no handler registered for query: '' @ query_type q))"
  unfolding app_dispatch app_ask by (simp add: dispatch_def ask_def empty_bus_def)

end
