(* ===== verification/Config.thy ===== *)
theory Config
  imports Core_Domain Complex_Main
begin

text \<open>
  \<open>internal/shared/config/config.go\<close>. What koanf reads from the file and the environment is a parameter,
  a configuration or the error of unmarshalling; the overrides from the environment, the defaults and
  the check for production are translated field by field. A float is a rational, its parser a parameter.
\<close>

section \<open>The configuration\<close>

record app_config =
  app_env :: string

record server_config =
  srv_port :: int
  srv_read_timeout :: int
  srv_write_timeout :: int
  srv_idle_timeout :: int
  srv_max_request_body_size :: int

record database_config =
  dbc_host :: string
  dbc_port :: int
  dbc_user :: string
  dbc_password :: string
  dbc_name :: string
  dbc_ssl_mode :: string
  dbc_max_open_conns :: int
  dbc_max_idle_conns :: int
  dbc_conn_max_lifetime :: int

record redis_config =
  rdc_addr :: string
  rdc_password :: string
  rdc_db :: int
  rdc_pool_size :: int

record stream_config =
  stc_name :: string
  stc_subjects :: "string list"
  stc_storage :: string
  stc_retention :: string

record consumer_config =
  cnc_durable_name :: string
  cnc_deliver_group :: string
  cnc_ack_policy :: string
  cnc_max_deliver :: int
  cnc_ack_wait :: int

record nats_config =
  ntc_url :: string
  ntc_debug_endpoint :: bool
  ntc_stream :: stream_config
  ntc_consumer :: consumer_config

record auth_config =
  atc_jwt_secret :: string
  atc_jwt_expiration :: int
  atc_max_login_attempts :: int
  atc_lockout_duration :: int
  atc_token_denylist :: bool

record rate_limit_config =
  rlc_requests :: int
  rlc_window :: int

text \<open>A nil slice is \<open>None\<close>.\<close>

record cors_config =
  crc_allowed_origins :: "string list option"
  crc_allowed_methods :: "string list option"
  crc_allowed_headers :: "string list option"
  crc_allow_credentials :: bool
  crc_max_age :: int

record idempotency_config =
  idc_enabled :: bool
  idc_ttl :: int

record log_config =
  lgc_level :: string
  lgc_format :: string

record telemetry_config =
  tlc_service_name :: string
  tlc_exporter_endpoint :: string
  tlc_sample_rate :: rat

record tenant_config =
  tf_enabled :: bool
  tf_header :: string
  tf_jwt_claim :: string
  tf_domain :: string

record smtp_config =
  smc_host :: string
  smc_port :: int
  smc_username :: string
  smc_password :: string
  smc_use_tls :: bool

record email_config =
  emc_provider :: string
  emc_from :: string
  emc_from_name :: string
  emc_frontend_url :: string
  emc_smtp :: smtp_config
  emc_sendgrid_api_key :: string

record config =
  cf_app :: app_config
  cf_server :: server_config
  cf_database :: database_config
  cf_redis :: redis_config
  cf_nats :: nats_config
  cf_auth :: auth_config
  cf_rate_limit :: rate_limit_config
  cf_cors :: cors_config
  cf_idempotency :: idempotency_config
  cf_log :: log_config
  cf_telemetry :: telemetry_config
  cf_asynq_redis_addr :: string
  cf_email :: email_config
  cf_tenant :: tenant_config
  cf_events_driver :: string

section \<open>Defaults\<close>

definition or_int :: "int \<Rightarrow> int \<Rightarrow> int" where
  "or_int dflt v = (if v = 0 then dflt else v)"

definition or_string :: "string \<Rightarrow> string \<Rightarrow> string" where
  "or_string dflt v = (if v = '''' then dflt else v)"

definition or_slice :: "string list \<Rightarrow> string list option \<Rightarrow> string list option" where
  "or_slice dflt v = (if v = None then Some dflt else v)"

definition default_server :: "server_config \<Rightarrow> server_config" where
  "default_server c = c\<lparr>srv_port := or_int 8080 (srv_port c), srv_read_timeout := or_int 30 (srv_read_timeout c),
     srv_write_timeout := or_int 30 (srv_write_timeout c), srv_idle_timeout := or_int 120 (srv_idle_timeout c),
     srv_max_request_body_size := or_int (10 * 1024 * 1024) (srv_max_request_body_size c)\<rparr>"

definition default_database :: "database_config \<Rightarrow> database_config" where
  "default_database c = c\<lparr>dbc_port := or_int 5432 (dbc_port c), dbc_max_open_conns := or_int 25 (dbc_max_open_conns c),
     dbc_max_idle_conns := or_int 5 (dbc_max_idle_conns c),
     dbc_conn_max_lifetime := or_int 300 (dbc_conn_max_lifetime c)\<rparr>"

definition default_auth :: "auth_config \<Rightarrow> auth_config" where
  "default_auth c = c\<lparr>atc_jwt_expiration := or_int 3600 (atc_jwt_expiration c),
     atc_max_login_attempts := or_int 5 (atc_max_login_attempts c),
     atc_lockout_duration := or_int 900 (atc_lockout_duration c), atc_token_denylist := True\<rparr>"

definition default_rate_limit :: "rate_limit_config \<Rightarrow> rate_limit_config" where
  "default_rate_limit c = c\<lparr>rlc_requests := or_int 100 (rlc_requests c), rlc_window := or_int 60 (rlc_window c)\<rparr>"

definition default_cors :: "cors_config \<Rightarrow> cors_config" where
  "default_cors c = c\<lparr>crc_allowed_origins := or_slice [''*''] (crc_allowed_origins c),
     crc_allowed_methods := or_slice [''GET'', ''POST'', ''PUT'', ''PATCH'', ''DELETE'', ''OPTIONS''] (crc_allowed_methods c),
     crc_allowed_headers := or_slice [''Accept'', ''Authorization'', ''Content-Type'', ''X-Request-ID''] (crc_allowed_headers c),
     crc_max_age := or_int 300 (crc_max_age c)\<rparr>"

definition default_smtp :: "smtp_config \<Rightarrow> smtp_config" where
  "default_smtp c = (let host = or_string ''localhost'' (smc_host c) in
     c\<lparr>smc_host := host, smc_port := or_int 587 (smc_port c),
       smc_use_tls := (if \<not> smc_use_tls c \<and> host = ''localhost'' then True else smc_use_tls c)\<rparr>)"

definition default_email :: "email_config \<Rightarrow> email_config" where
  "default_email c = c\<lparr>emc_provider := or_string ''console'' (emc_provider c),
     emc_from := or_string ''no-reply@example.com'' (emc_from c), emc_from_name := or_string ''App'' (emc_from_name c),
     emc_frontend_url := or_string ''http://localhost:3000'' (emc_frontend_url c),
     emc_smtp := default_smtp (emc_smtp c)\<rparr>"

definition default_nats :: "nats_config \<Rightarrow> nats_config" where
  "default_nats c = (let s = ntc_stream c; k = ntc_consumer c in
     c\<lparr>ntc_stream := s\<lparr>stc_name := or_string ''events'' (stc_name s), stc_storage := or_string ''file'' (stc_storage s),
          stc_retention := or_string ''interest'' (stc_retention s)\<rparr>,
       ntc_consumer := k\<lparr>cnc_durable_name := or_string ''event-bus'' (cnc_durable_name k),
          cnc_deliver_group := or_string ''event-bus'' (cnc_deliver_group k),
          cnc_ack_policy := or_string ''explicit'' (cnc_ack_policy k),
          cnc_max_deliver := or_int (- 1) (cnc_max_deliver k), cnc_ack_wait := or_int 30 (cnc_ack_wait k)\<rparr>\<rparr>)"

definition default_tenant :: "tenant_config \<Rightarrow> tenant_config" where
  "default_tenant c = c\<lparr>tf_header := or_string ''X-Tenant-ID'' (tf_header c),
     tf_jwt_claim := or_string ''tenant_id'' (tf_jwt_claim c), tf_domain := or_string ''app.com'' (tf_domain c)\<rparr>"

definition set_defaults :: "config \<Rightarrow> config" where
  "set_defaults c = c\<lparr>cf_app := (cf_app c)\<lparr>app_env := or_string ''development'' (app_env (cf_app c))\<rparr>,
     cf_server := default_server (cf_server c), cf_database := default_database (cf_database c),
     cf_auth := default_auth (cf_auth c), cf_rate_limit := default_rate_limit (cf_rate_limit c),
     cf_cors := default_cors (cf_cors c),
     cf_idempotency := (cf_idempotency c)\<lparr>idc_ttl := or_int 86400 (idc_ttl (cf_idempotency c))\<rparr>,
     cf_telemetry := (cf_telemetry c)\<lparr>tlc_sample_rate :=
       (if tlc_sample_rate (cf_telemetry c) = 0 then 1 else tlc_sample_rate (cf_telemetry c))\<rparr>,
     cf_email := default_email (cf_email c), cf_events_driver := or_string ''memory'' (cf_events_driver c),
     cf_nats := default_nats (cf_nats c), cf_tenant := default_tenant (cf_tenant c)\<rparr>"

section \<open>Overrides from the environment\<close>

type_synonym environment = "string \<Rightarrow> string"

text \<open>\<open>if v := os.Getenv(k); v != "" { ... }\<close>, with a number or a boolean read from \<open>v\<close>.\<close>

definition env_string :: "environment \<Rightarrow> string \<Rightarrow> string \<Rightarrow> string" where
  "env_string env k old = (if env k \<noteq> '''' then env k else old)"

definition env_int :: "environment \<Rightarrow> string \<Rightarrow> int \<Rightarrow> int" where
  "env_int env k old = (if env k \<noteq> '''' then (case atoi (env k) of Some n \<Rightarrow> n | None \<Rightarrow> old) else old)"

definition env_bool :: "environment \<Rightarrow> string \<Rightarrow> bool \<Rightarrow> bool" where
  "env_bool env k old = (if env k \<noteq> '''' then env k = ''true'' \<or> env k = ''1'' else old)"

definition override_server :: "environment \<Rightarrow> server_config \<Rightarrow> server_config" where
  "override_server env c = c\<lparr>srv_port := env_int env ''SERVER_PORT'' (srv_port c),
     srv_read_timeout := env_int env ''SERVER_READ_TIMEOUT'' (srv_read_timeout c),
     srv_write_timeout := env_int env ''SERVER_WRITE_TIMEOUT'' (srv_write_timeout c),
     srv_idle_timeout := env_int env ''SERVER_IDLE_TIMEOUT'' (srv_idle_timeout c),
     srv_max_request_body_size := env_int env ''MAX_REQUEST_BODY_SIZE'' (srv_max_request_body_size c)\<rparr>"

definition override_database :: "environment \<Rightarrow> database_config \<Rightarrow> database_config" where
  "override_database env c = c\<lparr>dbc_host := env_string env ''DB_HOST'' (dbc_host c),
     dbc_port := env_int env ''DB_PORT'' (dbc_port c), dbc_user := env_string env ''DB_USER'' (dbc_user c),
     dbc_password := env_string env ''DB_PASSWORD'' (dbc_password c), dbc_name := env_string env ''DB_NAME'' (dbc_name c),
     dbc_ssl_mode := env_string env ''DB_SSLMODE'' (dbc_ssl_mode c),
     dbc_max_open_conns := env_int env ''DB_MAX_OPEN_CONNS'' (dbc_max_open_conns c),
     dbc_max_idle_conns := env_int env ''DB_MAX_IDLE_CONNS'' (dbc_max_idle_conns c),
     dbc_conn_max_lifetime := env_int env ''DB_CONN_MAX_LIFETIME'' (dbc_conn_max_lifetime c)\<rparr>"

definition override_redis :: "environment \<Rightarrow> redis_config \<Rightarrow> redis_config" where
  "override_redis env c = c\<lparr>rdc_addr := env_string env ''REDIS_ADDR'' (rdc_addr c),
     rdc_password := env_string env ''REDIS_PASSWORD'' (rdc_password c), rdc_db := env_int env ''REDIS_DB'' (rdc_db c),
     rdc_pool_size := env_int env ''REDIS_POOL_SIZE'' (rdc_pool_size c)\<rparr>"

definition override_nats :: "environment \<Rightarrow> nats_config \<Rightarrow> nats_config" where
  "override_nats env c = c\<lparr>ntc_url := env_string env ''NATS_URL'' (ntc_url c),
     ntc_debug_endpoint := env_bool env ''NATS_DEBUG_ENDPOINT'' (ntc_debug_endpoint c)\<rparr>"

definition override_auth :: "environment \<Rightarrow> auth_config \<Rightarrow> auth_config" where
  "override_auth env c = c\<lparr>atc_jwt_secret := env_string env ''JWT_SECRET'' (atc_jwt_secret c),
     atc_jwt_expiration := env_int env ''JWT_EXPIRATION'' (atc_jwt_expiration c),
     atc_max_login_attempts := env_int env ''MAX_LOGIN_ATTEMPTS'' (atc_max_login_attempts c),
     atc_lockout_duration := env_int env ''LOCKOUT_DURATION'' (atc_lockout_duration c),
     atc_token_denylist := env_bool env ''TOKEN_DENYLIST'' (atc_token_denylist c)\<rparr>"

definition override_cors :: "environment \<Rightarrow> cors_config \<Rightarrow> cors_config" where
  "override_cors env c = c\<lparr>crc_allowed_origins :=
       (if env ''CORS_ORIGINS'' \<noteq> '''' then Some (split_comma (env ''CORS_ORIGINS'')) else crc_allowed_origins c),
     crc_allow_credentials := env_bool env ''CORS_ALLOW_CREDENTIALS'' (crc_allow_credentials c),
     crc_max_age := env_int env ''CORS_MAX_AGE'' (crc_max_age c)\<rparr>"

definition override_rate_limit :: "environment \<Rightarrow> rate_limit_config \<Rightarrow> rate_limit_config" where
  "override_rate_limit env c = c\<lparr>rlc_requests := env_int env ''RATE_LIMIT_REQUESTS'' (rlc_requests c),
     rlc_window := env_int env ''RATE_LIMIT_WINDOW'' (rlc_window c)\<rparr>"

definition override_idempotency :: "environment \<Rightarrow> idempotency_config \<Rightarrow> idempotency_config" where
  "override_idempotency env c = c\<lparr>idc_enabled := env_bool env ''IDEMPOTENCY_ENABLED'' (idc_enabled c),
     idc_ttl := env_int env ''IDEMPOTENCY_TTL'' (idc_ttl c)\<rparr>"

definition override_log :: "environment \<Rightarrow> log_config \<Rightarrow> log_config" where
  "override_log env c = c\<lparr>lgc_level := env_string env ''LOG_LEVEL'' (lgc_level c),
     lgc_format := env_string env ''LOG_FORMAT'' (lgc_format c)\<rparr>"

definition override_telemetry ::
  "(string \<Rightarrow> rat option) \<Rightarrow> environment \<Rightarrow> telemetry_config \<Rightarrow> telemetry_config" where
  "override_telemetry parse_float env c = c\<lparr>tlc_service_name := env_string env ''OTEL_SERVICE_NAME'' (tlc_service_name c),
     tlc_exporter_endpoint := env_string env ''OTEL_EXPORTER_ENDPOINT'' (tlc_exporter_endpoint c),
     tlc_sample_rate := (if env ''OTEL_SAMPLE_RATE'' \<noteq> '''' then
       (case parse_float (env ''OTEL_SAMPLE_RATE'') of Some f \<Rightarrow> f | None \<Rightarrow> tlc_sample_rate c)
       else tlc_sample_rate c)\<rparr>"

definition override_smtp :: "environment \<Rightarrow> smtp_config \<Rightarrow> smtp_config" where
  "override_smtp env c = c\<lparr>smc_host := env_string env ''SMTP_HOST'' (smc_host c),
     smc_port := env_int env ''SMTP_PORT'' (smc_port c), smc_username := env_string env ''SMTP_USERNAME'' (smc_username c),
     smc_password := env_string env ''SMTP_PASSWORD'' (smc_password c),
     smc_use_tls := env_bool env ''SMTP_USE_TLS'' (smc_use_tls c)\<rparr>"

definition override_email :: "environment \<Rightarrow> email_config \<Rightarrow> email_config" where
  "override_email env c = c\<lparr>emc_provider := env_string env ''EMAIL_PROVIDER'' (emc_provider c),
     emc_from := env_string env ''EMAIL_FROM'' (emc_from c), emc_from_name := env_string env ''EMAIL_FROM_NAME'' (emc_from_name c),
     emc_frontend_url := env_string env ''FRONTEND_URL'' (emc_frontend_url c),
     emc_smtp := override_smtp env (emc_smtp c),
     emc_sendgrid_api_key := env_string env ''SENDGRID_API_KEY'' (emc_sendgrid_api_key c)\<rparr>"

definition override_tenant :: "environment \<Rightarrow> tenant_config \<Rightarrow> tenant_config" where
  "override_tenant env c = c\<lparr>tf_enabled := env_bool env ''MULTITENANCY_ENABLED'' (tf_enabled c),
     tf_header := env_string env ''MULTITENANCY_TENANT_HEADER'' (tf_header c),
     tf_domain := env_string env ''MULTITENANCY_DOMAIN'' (tf_domain c)\<rparr>"

definition apply_env_overrides :: "(string \<Rightarrow> rat option) \<Rightarrow> environment \<Rightarrow> config \<Rightarrow> config" where
  "apply_env_overrides parse_float env c = c\<lparr>
     cf_app := (cf_app c)\<lparr>app_env := env_string env ''APP_ENV'' (app_env (cf_app c))\<rparr>,
     cf_server := override_server env (cf_server c), cf_database := override_database env (cf_database c),
     cf_redis := override_redis env (cf_redis c), cf_nats := override_nats env (cf_nats c),
     cf_auth := override_auth env (cf_auth c), cf_cors := override_cors env (cf_cors c),
     cf_rate_limit := override_rate_limit env (cf_rate_limit c),
     cf_idempotency := override_idempotency env (cf_idempotency c), cf_log := override_log env (cf_log c),
     cf_telemetry := override_telemetry parse_float env (cf_telemetry c),
     cf_email := override_email env (cf_email c), cf_tenant := override_tenant env (cf_tenant c)\<rparr>"

definition default_secret :: string where
  "default_secret = ''your-secret-key-change-in-production''"

definition new_config :: "(string \<Rightarrow> rat option) \<Rightarrow> environment \<Rightarrow> goerr + config \<Rightarrow> goerr + config" where
  "new_config parse_float env loaded = (case loaded of
      Inl e \<Rightarrow> Inl (Wrapf ''unmarshal config'' e)
    | Inr c \<Rightarrow> (let cfg = set_defaults (apply_env_overrides parse_float env c) in
        if app_env (cf_app cfg) = ''production'' \<and> atc_jwt_secret (cf_auth cfg) = default_secret
        then Inl (Errorf ''JWT_SECRET must be changed in production'') else Inr cfg))"

section \<open>What a configuration satisfies\<close>

lemma or_int_nonzero: "dflt \<noteq> 0 \<Longrightarrow> or_int dflt v \<noteq> 0"
  by (simp add: or_int_def)

lemmas default_defs = set_defaults_def default_server_def default_database_def default_auth_def
  default_rate_limit_def default_cors_def default_email_def default_smtp_def default_nats_def default_tenant_def
  or_int_def or_string_def or_slice_def

lemma set_defaults_idem: "set_defaults (set_defaults c) = set_defaults c"
  by (simp add: default_defs Let_def)

lemma denylist_stays_on: "atc_token_denylist (cf_auth (set_defaults c))"
  by (simp add: set_defaults_def default_auth_def)

text \<open>
  The settings as a table: the variable that overrides the file, if there is one, the value that is taken
  where the file and the environment say nothing, and where the configuration keeps it. A setting without
  a default has the zero value of its type in the table.
\<close>

definition int_settings :: "(string option \<times> int \<times> (config \<Rightarrow> int)) list" where
  "int_settings =
     [(Some ''SERVER_PORT'', 8080, srv_port \<circ> cf_server),
      (Some ''SERVER_READ_TIMEOUT'', 30, srv_read_timeout \<circ> cf_server),
      (Some ''SERVER_WRITE_TIMEOUT'', 30, srv_write_timeout \<circ> cf_server),
      (Some ''SERVER_IDLE_TIMEOUT'', 120, srv_idle_timeout \<circ> cf_server),
      (Some ''MAX_REQUEST_BODY_SIZE'', 10485760, srv_max_request_body_size \<circ> cf_server),
      (Some ''DB_PORT'', 5432, dbc_port \<circ> cf_database),
      (Some ''DB_MAX_OPEN_CONNS'', 25, dbc_max_open_conns \<circ> cf_database),
      (Some ''DB_MAX_IDLE_CONNS'', 5, dbc_max_idle_conns \<circ> cf_database),
      (Some ''DB_CONN_MAX_LIFETIME'', 300, dbc_conn_max_lifetime \<circ> cf_database),
      (Some ''REDIS_DB'', 0, rdc_db \<circ> cf_redis),
      (Some ''REDIS_POOL_SIZE'', 0, rdc_pool_size \<circ> cf_redis),
      (Some ''JWT_EXPIRATION'', 3600, atc_jwt_expiration \<circ> cf_auth),
      (Some ''MAX_LOGIN_ATTEMPTS'', 5, atc_max_login_attempts \<circ> cf_auth),
      (Some ''LOCKOUT_DURATION'', 900, atc_lockout_duration \<circ> cf_auth),
      (Some ''RATE_LIMIT_REQUESTS'', 100, rlc_requests \<circ> cf_rate_limit),
      (Some ''RATE_LIMIT_WINDOW'', 60, rlc_window \<circ> cf_rate_limit),
      (Some ''CORS_MAX_AGE'', 300, crc_max_age \<circ> cf_cors),
      (Some ''IDEMPOTENCY_TTL'', 86400, idc_ttl \<circ> cf_idempotency),
      (Some ''SMTP_PORT'', 587, smc_port \<circ> emc_smtp \<circ> cf_email),
      (None, - 1, cnc_max_deliver \<circ> ntc_consumer \<circ> cf_nats),
      (None, 30, cnc_ack_wait \<circ> ntc_consumer \<circ> cf_nats)]"

definition string_settings :: "(string option \<times> string \<times> (config \<Rightarrow> string)) list" where
  "string_settings =
     [(Some ''APP_ENV'', ''development'', app_env \<circ> cf_app),
      (Some ''DB_HOST'', '''', dbc_host \<circ> cf_database), (Some ''DB_USER'', '''', dbc_user \<circ> cf_database),
      (Some ''DB_PASSWORD'', '''', dbc_password \<circ> cf_database), (Some ''DB_NAME'', '''', dbc_name \<circ> cf_database),
      (Some ''DB_SSLMODE'', '''', dbc_ssl_mode \<circ> cf_database),
      (Some ''REDIS_ADDR'', '''', rdc_addr \<circ> cf_redis), (Some ''REDIS_PASSWORD'', '''', rdc_password \<circ> cf_redis),
      (Some ''NATS_URL'', '''', ntc_url \<circ> cf_nats),
      (None, ''events'', stc_name \<circ> ntc_stream \<circ> cf_nats), (None, ''file'', stc_storage \<circ> ntc_stream \<circ> cf_nats),
      (None, ''interest'', stc_retention \<circ> ntc_stream \<circ> cf_nats),
      (None, ''event-bus'', cnc_durable_name \<circ> ntc_consumer \<circ> cf_nats),
      (None, ''event-bus'', cnc_deliver_group \<circ> ntc_consumer \<circ> cf_nats),
      (None, ''explicit'', cnc_ack_policy \<circ> ntc_consumer \<circ> cf_nats),
      (None, ''memory'', cf_events_driver),
      (Some ''JWT_SECRET'', '''', atc_jwt_secret \<circ> cf_auth),
      (Some ''LOG_LEVEL'', '''', lgc_level \<circ> cf_log), (Some ''LOG_FORMAT'', '''', lgc_format \<circ> cf_log),
      (Some ''OTEL_SERVICE_NAME'', '''', tlc_service_name \<circ> cf_telemetry),
      (Some ''OTEL_EXPORTER_ENDPOINT'', '''', tlc_exporter_endpoint \<circ> cf_telemetry),
      (Some ''EMAIL_PROVIDER'', ''console'', emc_provider \<circ> cf_email),
      (Some ''EMAIL_FROM'', ''no-reply@example.com'', emc_from \<circ> cf_email),
      (Some ''EMAIL_FROM_NAME'', ''App'', emc_from_name \<circ> cf_email),
      (Some ''FRONTEND_URL'', ''http://localhost:3000'', emc_frontend_url \<circ> cf_email),
      (Some ''SENDGRID_API_KEY'', '''', emc_sendgrid_api_key \<circ> cf_email),
      (Some ''SMTP_HOST'', ''localhost'', smc_host \<circ> emc_smtp \<circ> cf_email),
      (Some ''SMTP_USERNAME'', '''', smc_username \<circ> emc_smtp \<circ> cf_email),
      (Some ''SMTP_PASSWORD'', '''', smc_password \<circ> emc_smtp \<circ> cf_email),
      (Some ''MULTITENANCY_TENANT_HEADER'', ''X-Tenant-ID'', tf_header \<circ> cf_tenant),
      (None, ''tenant_id'', tf_jwt_claim \<circ> cf_tenant),
      (Some ''MULTITENANCY_DOMAIN'', ''app.com'', tf_domain \<circ> cf_tenant)]"

definition bool_settings :: "(string \<times> (config \<Rightarrow> bool)) list" where
  "bool_settings =
     [(''NATS_DEBUG_ENDPOINT'', ntc_debug_endpoint \<circ> cf_nats),
      (''CORS_ALLOW_CREDENTIALS'', crc_allow_credentials \<circ> cf_cors),
      (''IDEMPOTENCY_ENABLED'', idc_enabled \<circ> cf_idempotency), (''MULTITENANCY_ENABLED'', tf_enabled \<circ> cf_tenant)]"

text \<open>
  A value in the environment goes before the one of the file; a value that is missing, or is the zero of
  its type, is the default.
\<close>

definition env_value :: "environment \<Rightarrow> (string \<Rightarrow> 'a option) \<Rightarrow> string option \<Rightarrow> 'a option" where
  "env_value env read k = (case k of None \<Rightarrow> None | Some k \<Rightarrow> if env k = '''' then None else read (env k))"

definition setting :: "'a \<Rightarrow> 'a \<Rightarrow> 'a option \<Rightarrow> 'a \<Rightarrow> 'a" where
  "setting zero dflt from_env from_file =
     (let v = (case from_env of Some v \<Rightarrow> v | None \<Rightarrow> from_file) in if v = zero then dflt else v)"

definition list_settings :: "(string option \<times> string list \<times> (config \<Rightarrow> string list option)) list" where
  "list_settings =
     [(Some ''CORS_ORIGINS'', [''*''], crc_allowed_origins \<circ> cf_cors),
      (None, [''GET'', ''POST'', ''PUT'', ''PATCH'', ''DELETE'', ''OPTIONS''], crc_allowed_methods \<circ> cf_cors),
      (None, [''Accept'', ''Authorization'', ''Content-Type'', ''X-Request-ID''], crc_allowed_headers \<circ> cf_cors)]"

definition as_documented :: "(string \<Rightarrow> rat option) \<Rightarrow> environment \<Rightarrow> config \<Rightarrow> config \<Rightarrow> bool" where
  "as_documented parse_float env c cfg \<longleftrightarrow>
     list_all (\<lambda>(k, d, get). get cfg = setting 0 d (env_value env atoi k) (get c)) int_settings \<and>
     list_all (\<lambda>(k, d, get). get cfg = setting '''' d (env_value env Some k) (get c)) string_settings \<and>
     list_all (\<lambda>(k, get). get cfg = (if env k = '''' then get c else env k \<in> {''true'', ''1''})) bool_settings \<and>
     list_all (\<lambda>(k, d, get). get cfg = setting None (Some d) (env_value env (Some \<circ> Some \<circ> split_comma) k) (get c))
       list_settings \<and>
     tlc_sample_rate (cf_telemetry cfg) =
       setting 0 1 (env_value env parse_float (Some ''OTEL_SAMPLE_RATE'')) (tlc_sample_rate (cf_telemetry c)) \<and>
     smc_use_tls (emc_smtp (cf_email cfg)) = ((if env ''SMTP_USE_TLS'' = '''' then smc_use_tls (emc_smtp (cf_email c))
       else env ''SMTP_USE_TLS'' \<in> {''true'', ''1''}) \<or> smc_host (emc_smtp (cf_email cfg)) = ''localhost'') \<and>
     atc_token_denylist (cf_auth cfg) \<and> stc_subjects (ntc_stream (cf_nats cfg)) = stc_subjects (ntc_stream (cf_nats c)) \<and>
     cf_asynq_redis_addr cfg = cf_asynq_redis_addr c"

lemma settings_simps:
  "setting 0 d (env_value env atoi (Some k)) v = or_int d (env_int env k v)"
  "setting 0 d (env_value env atoi None) v = or_int d v"
  "setting '''' t (env_value env Some (Some k)) s = or_string t (env_string env k s)"
  "setting '''' t (env_value env Some None) s = or_string t s"
  "or_int 0 v = v" "or_string '''' s = s"
  by (auto simp: setting_def env_value_def env_int_def env_string_def or_int_def or_string_def split: option.splits)

lemmas part_defs = set_defaults_def default_server_def default_database_def default_auth_def
  default_rate_limit_def default_cors_def default_email_def default_smtp_def default_nats_def default_tenant_def
  apply_env_overrides_def override_server_def override_database_def override_redis_def
  override_nats_def override_auth_def override_cors_def override_rate_limit_def override_idempotency_def
  override_log_def override_telemetry_def override_smtp_def override_email_def override_tenant_def

lemma list_settings_simps:
  "setting None (Some d) (env_value env (Some \<circ> Some \<circ> f) (Some k)) v = or_slice d (if env k = '''' then v else Some (f (env k)))"
  "setting None (Some d) (env_value env g None) v = or_slice d v"
  by (simp_all add: setting_def env_value_def or_slice_def)

lemma new_as_documented: "as_documented parse_float env c (set_defaults (apply_env_overrides parse_float env c))"
proof -
  let ?cfg = "set_defaults (apply_env_overrides parse_float env c)"
  have "list_all (\<lambda>(k, d, get). get ?cfg = setting 0 d (env_value env atoi k) (get c)) int_settings"
    by (simp add: int_settings_def part_defs settings_simps Let_def)
  moreover have "list_all (\<lambda>(k, d, get). get ?cfg = setting '''' d (env_value env Some k) (get c)) string_settings"
    by (simp add: string_settings_def part_defs settings_simps Let_def)
  moreover have "list_all (\<lambda>(k, get). get ?cfg = (if env k = '''' then get c else env k \<in> {''true'', ''1''})) bool_settings"
    by (simp add: bool_settings_def part_defs env_bool_def Let_def)
  moreover have "list_all (\<lambda>(k, d, get). get ?cfg = setting None (Some d) (env_value env (Some \<circ> Some \<circ> split_comma) k) (get c))
      list_settings"
    by (simp add: list_settings_def part_defs list_settings_simps)
  moreover have "tlc_sample_rate (cf_telemetry ?cfg) =
      setting 0 1 (env_value env parse_float (Some ''OTEL_SAMPLE_RATE'')) (tlc_sample_rate (cf_telemetry c))"
    by (simp add: part_defs setting_def env_value_def split: option.split)
  moreover have "smc_use_tls (emc_smtp (cf_email ?cfg)) = ((if env ''SMTP_USE_TLS'' = '''' then smc_use_tls (emc_smtp (cf_email c))
       else env ''SMTP_USE_TLS'' \<in> {''true'', ''1''}) \<or> smc_host (emc_smtp (cf_email ?cfg)) = ''localhost'')"
    by (simp add: part_defs env_bool_def Let_def)
  moreover have "stc_subjects (ntc_stream (cf_nats ?cfg)) = stc_subjects (ntc_stream (cf_nats c))"
    "cf_asynq_redis_addr ?cfg = cf_asynq_redis_addr c"
    by (simp_all add: part_defs Let_def)
  ultimately show ?thesis unfolding as_documented_def using denylist_stays_on by blast
qed


end
