(* ===== verification/Mailers.thy ===== *)
theory Mailers
  imports Config Events
begin

text \<open>
  The three mailers of \<open>internal/infrastructure/email\<close> and the choice among them, the choice of the event
  bus of \<open>internal/shared/events/module.go\<close> and the publishing side of the NATS messenger. Rendering a
  template (\<open>html/template\<close> over the embedded files), the SMTP client and SendGrid are parameters.
\<close>

section \<open>Templates\<close>

record template_data =
  td_name :: string
  td_verify_url :: string
  td_reset_url :: string
  td_invite_url :: string
  td_inviter_name :: string

definition no_data :: template_data where
  "no_data = \<lparr>td_name = '''', td_verify_url = '''', td_reset_url = '''', td_invite_url = '''', td_inviter_name = ''''\<rparr>"

text \<open>
  The client side of SMTP: each call is an operation of the world; the client and the authentication
  value are what the calls get. \<open>ml_close_data\<close> ends the message, which is where the server takes it.
\<close>

record smtp_auth =
  sa_username :: string
  sa_password :: string
  sa_host :: string

record mail_lib =
  ml_execute :: "string \<Rightarrow> template_data \<Rightarrow> goerr + string"
  ml_send_mail :: "string \<Rightarrow> smtp_auth \<Rightarrow> string \<Rightarrow> string \<Rightarrow> string \<Rightarrow> (world, unit) gop"
  ml_dial_tls :: "string \<Rightarrow> string \<Rightarrow> (world, unit) gop"
  ml_new_client :: "string \<Rightarrow> (world, unit) gop"
  ml_dial :: "string \<Rightarrow> (world, unit) gop"
  ml_start_tls :: "string \<Rightarrow> (world, unit) gop"
  ml_auth :: "smtp_auth \<Rightarrow> (world, unit) gop"
  ml_mail :: "string \<Rightarrow> (world, unit) gop"
  ml_rcpt :: "string \<Rightarrow> (world, unit) gop"
  ml_data :: "(world, unit) gop"
  ml_write :: "string \<Rightarrow> (world, unit) gop"
  ml_close_data :: "(world, unit) gop"
  ml_quit :: "(world, unit) gop"
  ml_sendgrid :: "string \<Rightarrow> string \<times> string \<Rightarrow> string \<Rightarrow> string \<Rightarrow> string \<Rightarrow> (world, unit) gop"

definition render_template :: "mail_lib \<Rightarrow> string \<Rightarrow> template_data \<Rightarrow> (world, string) gop" where
  "render_template M name d = (case ml_execute M (name @ ''.html'') d of Inl e \<Rightarrow> errM e | Inr s \<Rightarrow> retM s)"

definition verify_url :: "string \<Rightarrow> string \<Rightarrow> string" where
  "verify_url frontend tok = frontend @ ''/verify-email?token='' @ tok"

definition reset_url :: "string \<Rightarrow> string \<Rightarrow> string" where
  "reset_url frontend tok = frontend @ ''/reset-password?token='' @ tok"

section \<open>The console mailer\<close>

definition log_email :: "string \<Rightarrow> string \<Rightarrow> string \<Rightarrow> string \<Rightarrow> (world, unit) gop" where
  "log_email what to subject content =
     in_background (logM ''info'' (''[EMAIL] '' @ what) [(''to'', to), (''subject'', subject), (''content'', content)])"

definition console_mailer :: "mail_lib \<Rightarrow> string \<Rightarrow> emailer" where
  "console_mailer M frontend =
     \<lparr>send_verification = (\<lambda>to name tok. bindM (render_template M ''verification''
          (no_data\<lparr>td_name := name, td_verify_url := verify_url frontend tok\<rparr>)) (\<lambda>content.
        log_email ''verification'' to ''Verify your email'' content)),
      send_password_reset = (\<lambda>to name tok. bindM (render_template M ''password_reset''
          (no_data\<lparr>td_name := name, td_reset_url := reset_url frontend tok\<rparr>)) (\<lambda>content.
        log_email ''password reset'' to ''Reset your password'' content)),
      send_welcome = (\<lambda>to name. bindM (render_template M ''welcome'' (no_data\<lparr>td_name := name\<rparr>)) (\<lambda>content.
        log_email ''welcome'' to (''Welcome '' @ name @ ''!'') content)),
      send_invite = (\<lambda>to name inviter. bindM (render_template M ''invite''
          (no_data\<lparr>td_name := name, td_inviter_name := inviter\<rparr>)) (\<lambda>content.
        log_email ''invite'' to (inviter @ '' invited you'') content))\<rparr>"

section \<open>SMTP\<close>

record smtp_mailer =
  sm_host :: string
  sm_port :: int
  sm_username :: string
  sm_password :: string
  sm_use_tls :: bool
  sm_from :: string
  sm_from_name :: string
  sm_frontend_url :: string

definition crlf :: string where
  "crlf = [CHR 0x0D, CHR 0x0A]"

definition smtp_message :: "smtp_mailer \<Rightarrow> string \<Rightarrow> string \<Rightarrow> string \<Rightarrow> string" where
  "smtp_message m to subject body =
     ''From: '' @ sm_from_name m @ '' <'' @ sm_from m @ ''>'' @ crlf @ ''To: '' @ to @ crlf @
     ''Subject: '' @ subject @ crlf @ ''MIME-Version: 1.0'' @ crlf @
     ''Content-Type: text/html; charset=UTF-8'' @ crlf @ crlf @ body"

definition smtp_deliver :: "mail_lib \<Rightarrow> smtp_mailer \<Rightarrow> smtp_auth \<Rightarrow> string \<Rightarrow> string \<Rightarrow> (world, unit) gop" where
  "smtp_deliver M m auth to msg =
     bindM (wrapM ''smtp auth'' (ml_auth M auth)) (\<lambda>_.
     bindM (wrapM ''smtp MAIL FROM'' (ml_mail M (sm_from m))) (\<lambda>_.
     bindM (wrapM ''smtp RCPT TO'' (ml_rcpt M to)) (\<lambda>_.
     bindM (wrapM ''smtp DATA'' (ml_data M)) (\<lambda>_.
     bindM (wrapM ''smtp write body'' (ml_write M msg)) (\<lambda>_.
     bindM (wrapM ''smtp close data'' (ml_close_data M)) (\<lambda>_. ml_quit M))))))"

definition send_with_implicit_tls ::
  "mail_lib \<Rightarrow> smtp_mailer \<Rightarrow> string \<Rightarrow> smtp_auth \<Rightarrow> string \<Rightarrow> string \<Rightarrow> (world, unit) gop" where
  "send_with_implicit_tls M m addr auth to msg =
     bindM (wrapM ''smtp implicit TLS dial'' (ml_dial_tls M addr (sm_host m))) (\<lambda>_.
     bindM (wrapM ''smtp client'' (ml_new_client M (sm_host m))) (\<lambda>_. smtp_deliver M m auth to msg))"

definition send_with_starttls ::
  "mail_lib \<Rightarrow> smtp_mailer \<Rightarrow> string \<Rightarrow> smtp_auth \<Rightarrow> string \<Rightarrow> string \<Rightarrow> (world, unit) gop" where
  "send_with_starttls M m addr auth to msg =
     bindM (wrapM ''smtp dial'' (ml_dial M addr)) (\<lambda>_.
     bindM (wrapM ''smtp STARTTLS'' (ml_start_tls M (sm_host m))) (\<lambda>_. smtp_deliver M m auth to msg))"

definition smtp_send :: "mail_lib \<Rightarrow> smtp_mailer \<Rightarrow> string \<Rightarrow> string \<Rightarrow> string \<Rightarrow> (world, unit) gop" where
  "smtp_send M m to subject body =
     (let addr = sm_host m @ '':'' @ itoa (sm_port m);
          auth = \<lparr>sa_username = sm_username m, sa_password = sm_password m, sa_host = sm_host m\<rparr>;
          msg = smtp_message m to subject body in
      if \<not> sm_use_tls m then ml_send_mail M addr auth (sm_from m) to msg
      else if sm_port m = 465 then send_with_implicit_tls M m addr auth to msg
      else send_with_starttls M m addr auth to msg)"

text \<open>The SMTP and the SendGrid mailer differ in how they send.\<close>

definition mailer_with :: "mail_lib \<Rightarrow> string \<Rightarrow> (string \<Rightarrow> string \<Rightarrow> string \<Rightarrow> (world, unit) gop) \<Rightarrow> emailer" where
  "mailer_with M frontend send =
     \<lparr>send_verification = (\<lambda>to name tok. bindM (render_template M ''verification''
          (no_data\<lparr>td_name := name, td_verify_url := verify_url frontend tok\<rparr>)) (send to ''Verify your email address'')),
      send_password_reset = (\<lambda>to name tok. bindM (render_template M ''password_reset''
          (no_data\<lparr>td_name := name, td_reset_url := reset_url frontend tok\<rparr>)) (send to ''Reset your password'')),
      send_welcome = (\<lambda>to name. bindM (render_template M ''welcome'' (no_data\<lparr>td_name := name\<rparr>))
        (send to (''Welcome '' @ name @ ''!''))),
      send_invite = (\<lambda>to name inviter. bindM (render_template M ''invite''
          (no_data\<lparr>td_name := name, td_inviter_name := inviter\<rparr>)) (send to (inviter @ '' invited you to join'')))\<rparr>"

definition smtp_emailer :: "mail_lib \<Rightarrow> smtp_mailer \<Rightarrow> emailer" where
  "smtp_emailer M m = mailer_with M (sm_frontend_url m) (smtp_send M m)"

section \<open>SendGrid and the choice\<close>

definition sendgrid_send ::
  "mail_lib \<Rightarrow> string \<Rightarrow> string \<Rightarrow> string \<Rightarrow> string \<Rightarrow> string \<Rightarrow> string \<Rightarrow> (world, unit) gop" where
  "sendgrid_send M apiKey from fromName to subject content =
     wrapM ''sendgrid: send email'' (ml_sendgrid M apiKey (fromName, from) to subject content)"

definition sendgrid_emailer :: "mail_lib \<Rightarrow> string \<Rightarrow> string \<Rightarrow> string \<Rightarrow> string \<Rightarrow> emailer" where
  "sendgrid_emailer M apiKey from fromName frontend =
     mailer_with M frontend (sendgrid_send M apiKey from fromName)"

definition new_emailer :: "mail_lib \<Rightarrow> email_config \<Rightarrow> emailer" where
  "new_emailer M c =
     (if emc_provider c = ''smtp'' then
        smtp_emailer M \<lparr>sm_host = smc_host (emc_smtp c), sm_port = smc_port (emc_smtp c),
          sm_username = smc_username (emc_smtp c), sm_password = smc_password (emc_smtp c),
          sm_use_tls = smc_use_tls (emc_smtp c), sm_from = emc_from c, sm_from_name = emc_from_name c,
          sm_frontend_url = emc_frontend_url c\<rparr>
      else if emc_provider c = ''sendgrid'' then
        sendgrid_emailer M (emc_sendgrid_api_key c) (emc_from c) (emc_from_name c) (emc_frontend_url c)
      else console_mailer M (emc_frontend_url c))"

text \<open>
  \<open>provideEventBus\<close>: over NATS the handlers run in the consumers (\<open>nats_deliver\<close>), so publishing only
  hands the event to JetStream.
\<close>

definition provide_event_bus :: "libs \<Rightarrow> mail_lib \<Rightarrow> config \<Rightarrow> publisher" where
  "provide_event_bus L M cfg = publish_logged
     (if cf_events_driver cfg = ''nats'' then publish_nats L
      else publish_memory (app_handlers L (new_emailer M (cf_email cfg))))"

section \<open>What the mailers do\<close>

text \<open>The tables are out of reach of a mailer whose library leaves them alone.\<close>

definition mail_lib_keeps :: "(world \<Rightarrow> bool) \<Rightarrow> mail_lib \<Rightarrow> bool" where
  "mail_lib_keeps I M \<longleftrightarrow> (\<forall>a u f t s. keeps I (ml_send_mail M a u f t s)) \<and> (\<forall>a h. keeps I (ml_dial_tls M a h)) \<and>
     (\<forall>h. keeps I (ml_new_client M h)) \<and> (\<forall>a. keeps I (ml_dial M a)) \<and> (\<forall>h. keeps I (ml_start_tls M h)) \<and>
     (\<forall>u. keeps I (ml_auth M u)) \<and> (\<forall>f. keeps I (ml_mail M f)) \<and> (\<forall>t. keeps I (ml_rcpt M t)) \<and>
     keeps I (ml_data M) \<and> (\<forall>s. keeps I (ml_write M s)) \<and> keeps I (ml_close_data M) \<and> keeps I (ml_quit M) \<and>
     (\<forall>k f t s c. keeps I (ml_sendgrid M k f t s c))"

lemma keeps_render [keeps_rules]: "keeps I (render_template M name d)"
  unfolding render_template_def by (intro keeps_rules)

lemma keeps_smtp_send: "mail_lib_keeps I M \<Longrightarrow> keeps I (smtp_send M m to subject body)"
  unfolding smtp_send_def send_with_implicit_tls_def send_with_starttls_def smtp_deliver_def mail_lib_keeps_def Let_def
  by (intro keeps_rules) blast+

lemma keeps_mailer_with:
  assumes "\<And>to s c. keeps I (send to s c)"
  shows "keeps I (send_verification (mailer_with M f send) a b c)" "keeps I (send_password_reset (mailer_with M f send) a b c)"
    "keeps I (send_welcome (mailer_with M f send) a b)" "keeps I (send_invite (mailer_with M f send) a b c)"
  unfolding mailer_with_def emailer.simps by (intro keeps_rules assms)+

text \<open>
  A message is taken when the data is closed; a \<open>QUIT\<close> that fails after that is reported as an error, so
  an event delivered at least once may be mailed twice.
\<close>

lemma smtp_quit_after_delivery:
  assumes "bindM (wrapM ''smtp auth'' (ml_auth M auth)) (\<lambda>_. bindM (wrapM ''smtp MAIL FROM'' (ml_mail M (sm_from m))) (\<lambda>_.
      bindM (wrapM ''smtp RCPT TO'' (ml_rcpt M to)) (\<lambda>_. bindM (wrapM ''smtp DATA'' (ml_data M)) (\<lambda>_.
      bindM (wrapM ''smtp write body'' (ml_write M msg)) (\<lambda>_. wrapM ''smtp close data'' (ml_close_data M)))))) w = (Ok (), w1)"
  shows "smtp_deliver M m auth to msg w = ml_quit M w1"
proof -
  have "smtp_deliver M m auth to msg = bindM (bindM (wrapM ''smtp auth'' (ml_auth M auth)) (\<lambda>_.
      bindM (wrapM ''smtp MAIL FROM'' (ml_mail M (sm_from m))) (\<lambda>_.
      bindM (wrapM ''smtp RCPT TO'' (ml_rcpt M to)) (\<lambda>_. bindM (wrapM ''smtp DATA'' (ml_data M)) (\<lambda>_.
      bindM (wrapM ''smtp write body'' (ml_write M msg)) (\<lambda>_. wrapM ''smtp close data'' (ml_close_data M)))))))
      (\<lambda>_. ml_quit M)"
    by (simp add: smtp_deliver_def bindM_assoc)
  then show ?thesis using assms by (simp add: bindM_def)
qed

text \<open>A name with a line break puts a header of its own into the message.\<close>

lemma smtp_subject_injection:
  "\<exists>before after. smtp_message m to (''Welcome '' @ (name @ crlf @ header) @ ''!'') body =
     before @ crlf @ header @ ''!'' @ crlf @ after"
  by (intro exI [of _ "''From: '' @ sm_from_name m @ '' <'' @ sm_from m @ ''>'' @ crlf @ ''To: '' @ to @ crlf @
      ''Subject: Welcome '' @ name"]
    exI [of _ "''MIME-Version: 1.0'' @ crlf @ ''Content-Type: text/html; charset=UTF-8'' @ crlf @ crlf @ body"])
    (simp add: smtp_message_def)

end
