(* ===== verification/Service_Tables.thy ===== *)
theory Service_Tables
  imports Cqrs Mailers
begin

text \<open>
  The tables of all modules together: their keys and references, what of their past is never undone, and that
  every message on the buses, every event handler and the start of the enforcer keep both. Each module is looked
  at twice: for the tables it writes, and for predicates on the other tables.
\<close>

section \<open>The invariant\<close>

definition tenant_keys_ok :: "database \<Rightarrow> bool" where
  "tenant_keys_ok d \<longleftrightarrow> distinct (map tn_id (tenants d)) \<and> distinct (map tn_slug (tenants d))"

definition service_ok :: "database \<Rightarrow> bool" where
  "service_ok d \<longleftrightarrow> todo_ids_distinct d \<and> accounts_ok d \<and> rbac_ok d \<and> tenant_keys_ok d"

lemma service_ok_empty: "service_ok empty_db"
  by (simp add: service_ok_def todo_ids_distinct_def accounts_ok_def rbac_ok_def tenant_keys_ok_def empty_db_def)

text \<open>Which updates leave which part alone.\<close>

lemma other_tables [simp]:
  "accounts_ok (d\<lparr>todos := xs\<rparr>) = accounts_ok d" "rbac_ok (d\<lparr>todos := xs\<rparr>) = rbac_ok d"
  "tenant_keys_ok (d\<lparr>todos := xs\<rparr>) = tenant_keys_ok d"
  "todo_ids_distinct (d\<lparr>tenants := ts\<rparr>) = todo_ids_distinct d" "accounts_ok (d\<lparr>tenants := ts\<rparr>) = accounts_ok d"
  "rbac_ok (d\<lparr>tenants := ts\<rparr>) = rbac_ok d"
  by (simp_all add: accounts_ok_def rbac_ok_def tenant_keys_ok_def todo_ids_distinct_def)

lemma service_ok_logs [simp]:
  "service_ok (d\<lparr>audit_logs := as\<rparr>) = service_ok d" "service_ok (d\<lparr>error_logs := es\<rparr>) = service_ok d"
  by (simp_all add: service_ok_def accounts_ok_def rbac_ok_def tenant_keys_ok_def todo_ids_distinct_def)

definition without_accounts :: "database \<Rightarrow> bool" where
  "without_accounts d \<longleftrightarrow> todo_ids_distinct d \<and> rbac_ok d \<and> tenant_keys_ok d"

definition without_rbac :: "database \<Rightarrow> bool" where
  "without_rbac d \<longleftrightarrow> todo_ids_distinct d \<and> accounts_ok d \<and> tenant_keys_ok d"

lemma keeps_both:
  assumes "keeps (on_db P) m" "keeps (on_db Q) m" and "\<And>d. R d \<longleftrightarrow> P d \<and> Q d"
  shows "keeps (on_db R) m"
  using assms by (simp add: keeps_def on_db_def)

lemma service_ok_split:
  "service_ok d \<longleftrightarrow> accounts_ok d \<and> without_accounts d" "service_ok d \<longleftrightarrow> rbac_ok d \<and> without_rbac d"
  by (auto simp: service_ok_def without_accounts_def without_rbac_def)

lemmas service_by_accounts = keeps_both [OF _ _ service_ok_split(1)]
lemmas service_by_rbac = keeps_both [OF _ _ service_ok_split(2)]

lemma without_accounts_writes [simp]:
  "without_accounts (d\<lparr>users := us\<rparr>) = without_accounts d"
  "without_accounts (d\<lparr>user_credentials := cs\<rparr>) = without_accounts d"
  "without_accounts (d\<lparr>user_security := ss\<rparr>) = without_accounts d"
  "without_accounts (d\<lparr>user_tokens := ts\<rparr>) = without_accounts d"
  "without_accounts (d\<lparr>refresh_tokens := rs\<rparr>) = without_accounts d"
  by (simp_all add: without_accounts_def rbac_ok_def tenant_keys_ok_def todo_ids_distinct_def)

lemma without_rbac_writes [simp]:
  "without_rbac (d\<lparr>roles := rs\<rparr>) = without_rbac d" "without_rbac (d\<lparr>permissions := ps\<rparr>) = without_rbac d"
  "without_rbac (d\<lparr>user_roles := us\<rparr>) = without_rbac d" "without_rbac (d\<lparr>role_permissions := qs\<rparr>) = without_rbac d"
  "without_rbac (d\<lparr>casbin_rule := cs\<rparr>) = without_rbac d"
  by (simp_all add: without_rbac_def accounts_ok_def tenant_keys_ok_def todo_ids_distinct_def)

section \<open>Todos and tenants\<close>

lemma service_todos: "service_ok d \<Longrightarrow> distinct (map td_id xs) \<Longrightarrow> service_ok (d\<lparr>todos := xs\<rparr>)"
  by (simp add: service_ok_def todo_ids_distinct_def)

lemma service_tenants:
  "service_ok d \<Longrightarrow> distinct (map tn_id ts) \<Longrightarrow> distinct (map tn_slug ts) \<Longrightarrow> service_ok (d\<lparr>tenants := ts\<rparr>)"
  by (simp add: service_ok_def tenant_keys_ok_def)

lemma service_keys:
  "service_ok d \<Longrightarrow> distinct (map td_id (todos d))" "service_ok d \<Longrightarrow> distinct (map tn_id (tenants d))"
  "service_ok d \<Longrightarrow> distinct (map tn_slug (tenants d))"
  by (simp_all add: service_ok_def tenant_keys_ok_def todo_ids_distinct_def)

lemma keeps_service_todo [keeps_rules]:
  "keeps (on_db service_ok) (todo_create t)" "keeps (on_db service_ok) (todo_repo_update t)"
  "keeps (on_db service_ok) (todo_delete i)"
  unfolding todo_create_def sql_create_todo_def todo_repo_update_def sql_update_todo_def todo_delete_def
    sql_soft_delete_todo_def
  by (intro keeps_rules service_todos; assumption?; auto simp: map_key_update_where service_keys split: if_splits)+

lemma keeps_service_tenant [keeps_rules]:
  "keeps (on_db service_ok) (tenant_create L t)" "keeps (on_db service_ok) (tenant_update L t)"
  "keeps (on_db service_ok) (tenant_delete i)"
  unfolding tenant_create_def sql_create_tenant_def tenant_update_def sql_update_tenant_def tenant_delete_def
    sql_delete_tenant_def
  by (intro keeps_rules service_tenants; assumption?;
      auto simp: map_key_update_where service_keys distinct_map_filterI split: if_splits)+

section \<open>Accounts and roles\<close>

lemma keeps_others_auth:
  "keeps (on_db without_accounts) (pg_user_create u)" "keeps (on_db without_accounts) (pg_user_update u)"
  "keeps (on_db without_accounts) (pg_refresh_create k)" "keeps (on_db without_accounts) (pg_refresh_revoke s)"
  "keeps (on_db without_accounts) (pg_refresh_revoke_all i)"
  unfolding pg_user_create_def pg_user_update_def insert_tokens_def sql_insert_user_def sql_insert_credentials_def
    sql_insert_security_def sql_insert_token_def sql_update_user_def sql_upsert_credentials_def
    sql_upsert_security_def pg_refresh_create_def pg_refresh_revoke_def pg_refresh_revoke_all_def revoke_where_def Let_def
  by (intro keeps_rules; auto split: if_splits)+

lemma keeps_others_users:
  "keeps (on_db without_accounts) (profile_create u)" "keeps (on_db without_accounts) (profile_update u)"
  unfolding profile_create_def profile_update_def sql_update_profile_def
  by (intro keeps_rules; simp)+

lemma keeps_accounts_profile_create: "keeps (on_db accounts_ok) (profile_create u)"
  unfolding profile_create_def
  by (intro keeps_rules) (auto simp: accounts_ok_def split: if_splits)

lemma keeps_accounts_profile_update: "keeps (on_db accounts_ok) (profile_update u)"
  unfolding profile_update_def sql_update_profile_def
proof (intro keeps_rules, goal_cases)
  case (1 now d)
  let ?f = "\<lambda>r. r\<lparr>us_email := u_email u, us_name := u_name u, us_is_active := u_is_active u, us_updated_at := now\<rparr>"
  have "distinct (map us_email (update_where (with_id (e_id u)) ?f (users d)))"
  proof (cases "list_ex (with_id (e_id u)) (users d)")
    case True
    then show ?thesis
      using 1 by (intro distinct_rename [of us_id _ _ _ "e_id u" "u_email u"])
        (auto simp: accounts_ok_def with_id_def list_all_iff split: if_splits)
  next
    case False
    then show ?thesis using 1(1) by (simp add: update_where_none accounts_ok_def)
  qed
  then show ?case using 1(1) by (simp add: accounts_ok_def update_keys)
qed

lemma keeps_service_accounts [keeps_rules]:
  "keeps (on_db service_ok) (pg_user_create u)" "keeps (on_db service_ok) (pg_user_update u)"
  "keeps (on_db service_ok) (pg_refresh_create k)" "keeps (on_db service_ok) (pg_refresh_revoke s)"
  "keeps (on_db service_ok) (pg_refresh_revoke_all i)"
  "keeps (on_db service_ok) (profile_create u)" "keeps (on_db service_ok) (profile_update u)"
  by (rule service_by_accounts; intro keeps_user_create keeps_user_update keeps_refresh_create keeps_refresh_writes
      keeps_others_auth keeps_others_users keeps_accounts_profile_create keeps_accounts_profile_update)+


lemma service_ok_casbin [simp]: "service_ok (d\<lparr>casbin_rule := rows\<rparr>) = service_ok d"
  by (simp add: service_ok_split(2))

lemma keeps_others_rbac:
  "keeps (on_db without_rbac) (sql_create_role r)" "keeps (on_db without_rbac) (sql_create_permission p)"
  "keeps (on_db without_rbac) (sql_update_role r)" "keeps (on_db without_rbac) (sql_update_permission p)"
  "keeps (on_db without_rbac) (sql_delete_role i)" "keeps (on_db without_rbac) (sql_delete_permission i)"
  "keeps (on_db without_rbac) (sql_assign_user_role u i)" "keeps (on_db without_rbac) (sql_assign_role_permission i j)"
  "keeps (on_db without_rbac) (sql_remove_user_role u i)" "keeps (on_db without_rbac) (sql_remove_role_permission i j)"
  unfolding sql_create_role_def sql_create_permission_def sql_update_role_def sql_update_permission_def
    sql_delete_role_def sql_delete_permission_def sql_assign_user_role_def sql_assign_role_permission_def
    sql_remove_user_role_def sql_remove_role_permission_def
  by (intro keeps_rules; simp)+

lemma keeps_service_rbac [keeps_rules]:
  "keeps (on_db service_ok) (sql_create_role r)" "keeps (on_db service_ok) (sql_create_permission p)"
  "keeps (on_db service_ok) (sql_update_role r)" "keeps (on_db service_ok) (sql_update_permission p)"
  "keeps (on_db service_ok) (sql_delete_role i)" "keeps (on_db service_ok) (sql_delete_permission i)"
  "keeps (on_db service_ok) (sql_assign_user_role u i)" "keeps (on_db service_ok) (sql_assign_role_permission i j)"
  "keeps (on_db service_ok) (sql_remove_user_role u i)" "keeps (on_db service_ok) (sql_remove_role_permission i j)"
  by (rule service_by_rbac; intro keeps_others_rbac keeps_rules)+

section \<open>The past\<close>

text \<open>
  What is never undone: \<open>service_history d0 d\<close> says that every user, role, permission, refresh token and todo of
  \<open>d0\<close> is still in \<open>d\<close>, with its identifier and its creation time; that a deleted row and a revoked token have
  not changed at all since; that a todo that was completed is; and that tokens sent by mail and both logs only
  got new rows at the end.
\<close>

definition user_later :: "users_row \<Rightarrow> users_row \<Rightarrow> bool" where
  "user_later r r' \<longleftrightarrow> us_id r' = us_id r \<and> us_created_at r' = us_created_at r \<and> us_tenant_id r' = us_tenant_id r \<and>
     (us_deleted_at r \<noteq> None \<longrightarrow> r' = r)"

definition role_later :: "roles_row \<Rightarrow> roles_row \<Rightarrow> bool" where
  "role_later r r' \<longleftrightarrow> ro_id r' = ro_id r \<and> ro_created_at r' = ro_created_at r \<and> ro_tenant_id r' = ro_tenant_id r \<and>
     (ro_deleted_at r \<noteq> None \<longrightarrow> r' = r)"

definition permission_later :: "permissions_row \<Rightarrow> permissions_row \<Rightarrow> bool" where
  "permission_later r r' \<longleftrightarrow> pe_id r' = pe_id r \<and> pe_created_at r' = pe_created_at r \<and> pe_tenant_id r' = pe_tenant_id r \<and>
     (pe_deleted_at r \<noteq> None \<longrightarrow> r' = r)"

definition token_later :: "refresh_tokens_row \<Rightarrow> refresh_tokens_row \<Rightarrow> bool" where
  "token_later r r' \<longleftrightarrow> rt_id r' = rt_id r \<and> rt_user_id r' = rt_user_id r \<and> rt_token r' = rt_token r \<and>
     rt_expires_at r' = rt_expires_at r \<and> rt_created_at r' = rt_created_at r \<and> (rt_revoked_at r \<noteq> None \<longrightarrow> r' = r)"

definition still_there :: "('r \<Rightarrow> 'r \<Rightarrow> bool) \<Rightarrow> 'r list \<Rightarrow> 'r list \<Rightarrow> bool" where
  "still_there later rows rows' \<longleftrightarrow> (\<forall>r \<in> set rows. \<exists>r' \<in> set rows'. later r r')"

definition service_history :: "database \<Rightarrow> database \<Rightarrow> bool" where
  "service_history d0 d \<longleftrightarrow> todo_history d0 d \<and> still_there user_later (users d0) (users d) \<and>
     still_there role_later (roles d0) (roles d) \<and> still_there permission_later (permissions d0) (permissions d) \<and>
     still_there token_later (refresh_tokens d0) (refresh_tokens d) \<and>
     prefix (user_tokens d0) (user_tokens d) \<and> prefix (audit_logs d0) (audit_logs d) \<and> prefix (error_logs d0) (error_logs d)"

lemma still_there_refl: "(\<And>r. later r r) \<Longrightarrow> still_there later rows rows"
  by (auto simp: still_there_def)

lemma still_there_append: "still_there later rows rows' \<Longrightarrow> still_there later rows (rows' @ new)"
  unfolding still_there_def by fastforce

lemma still_there_update:
  assumes "still_there later rows rows'" "\<And>r r'. later r r' \<Longrightarrow> P r' \<Longrightarrow> later r (f r')"
  shows "still_there later rows (update_where P f rows')"
  unfolding still_there_def
proof
  fix r
  assume "r \<in> set rows"
  then obtain r' where "r' \<in> set rows'" "later r r'" using assms(1) by (auto simp: still_there_def)
  then show "\<exists>q \<in> set (update_where P f rows'). later r q"
    using assms(2) by (intro bexI [of _ "if P r' then f r' else r'"]) (auto simp: set_update_where)
qed

lemma service_history_refl: "service_history d d"
  by (simp add: service_history_def still_there_refl user_later_def role_later_def permission_later_def token_later_def)

lemma todo_history_writes [simp]:
  "todo_history d0 (d\<lparr>users := us\<rparr>) = todo_history d0 d" "todo_history d0 (d\<lparr>user_credentials := cs\<rparr>) = todo_history d0 d"
  "todo_history d0 (d\<lparr>user_security := ss\<rparr>) = todo_history d0 d" "todo_history d0 (d\<lparr>user_tokens := ks\<rparr>) = todo_history d0 d"
  "todo_history d0 (d\<lparr>refresh_tokens := ts\<rparr>) = todo_history d0 d" "todo_history d0 (d\<lparr>tenants := ns\<rparr>) = todo_history d0 d"
  "todo_history d0 (d\<lparr>roles := rs\<rparr>) = todo_history d0 d" "todo_history d0 (d\<lparr>permissions := ps\<rparr>) = todo_history d0 d"
  "todo_history d0 (d\<lparr>user_roles := vs\<rparr>) = todo_history d0 d" "todo_history d0 (d\<lparr>role_permissions := qs\<rparr>) = todo_history d0 d"
  "todo_history d0 (d\<lparr>casbin_rule := bs\<rparr>) = todo_history d0 d" "todo_history d0 (d\<lparr>audit_logs := as\<rparr>) = todo_history d0 d"
  "todo_history d0 (d\<lparr>error_logs := es\<rparr>) = todo_history d0 d" "todo_history d0 (d\<lparr>todos := todos d0\<rparr>)"
  by (auto simp: todo_history_def intro: todo_later_refl)

lemma history_writes [simp]:
  "service_history d0 (d\<lparr>user_credentials := cs\<rparr>) = service_history d0 d"
  "service_history d0 (d\<lparr>user_security := ss\<rparr>) = service_history d0 d"
  "service_history d0 (d\<lparr>tenants := ts\<rparr>) = service_history d0 d"
  "service_history d0 (d\<lparr>user_roles := us\<rparr>) = service_history d0 d"
  "service_history d0 (d\<lparr>role_permissions := qs\<rparr>) = service_history d0 d"
  "service_history d0 (d\<lparr>casbin_rule := rows\<rparr>) = service_history d0 d"
  by (simp_all add: service_history_def)

lemma history_appends [simp]:
  assumes "service_history d0 d"
  shows "service_history d0 (d\<lparr>users := users d @ us\<rparr>)" "service_history d0 (d\<lparr>roles := roles d @ rs\<rparr>)"
    "service_history d0 (d\<lparr>permissions := permissions d @ ps\<rparr>)"
    "service_history d0 (d\<lparr>refresh_tokens := refresh_tokens d @ ts\<rparr>)"
    "service_history d0 (d\<lparr>user_tokens := user_tokens d @ ks\<rparr>)"
    "service_history d0 (d\<lparr>audit_logs := audit_logs d @ as\<rparr>)" "service_history d0 (d\<lparr>error_logs := error_logs d @ es\<rparr>)"
  using assms by (simp_all add: service_history_def still_there_append)

lemma history_updates:
  assumes "service_history d0 d"
  shows "(\<And>r r'. user_later r r' \<Longrightarrow> P r' \<Longrightarrow> user_later r (f r')) \<Longrightarrow>
      service_history d0 (d\<lparr>users := update_where P f (users d)\<rparr>)"
    "(\<And>r r'. role_later r r' \<Longrightarrow> P2 r' \<Longrightarrow> role_later r (f2 r')) \<Longrightarrow>
      service_history d0 (d\<lparr>roles := update_where P2 f2 (roles d)\<rparr>)"
    "(\<And>r r'. permission_later r r' \<Longrightarrow> P3 r' \<Longrightarrow> permission_later r (f3 r')) \<Longrightarrow>
      service_history d0 (d\<lparr>permissions := update_where P3 f3 (permissions d)\<rparr>)"
    "(\<And>r r'. token_later r r' \<Longrightarrow> P4 r' \<Longrightarrow> token_later r (f4 r')) \<Longrightarrow>
      service_history d0 (d\<lparr>refresh_tokens := update_where P4 f4 (refresh_tokens d)\<rparr>)"
  using assms by (simp_all add: service_history_def still_there_update)

text \<open>The tables in order, and nothing of \<open>d0\<close> undone: what every operation of the service keeps.\<close>

definition service_since :: "database \<Rightarrow> database \<Rightarrow> bool" where
  "service_since d0 d \<longleftrightarrow> service_ok d \<and> service_history d0 d"

lemmas service_by_history = keeps_both [OF _ _ service_since_def]

lemmas later_defs = user_later_def role_later_def permission_later_def token_later_def
  live_user_def with_id_def live_role_def live_permission_def

lemma keeps_history_users:
  "keeps (on_db (service_history d0)) (pg_user_create u)" "keeps (on_db (service_history d0)) (pg_user_update u)"
  "keeps (on_db (service_history d0)) (profile_create u)" "keeps (on_db (service_history d0)) (profile_update u)"
  unfolding pg_user_create_def pg_user_update_def insert_tokens_def sql_insert_user_def sql_insert_credentials_def
    sql_insert_security_def sql_insert_token_def sql_update_user_def sql_upsert_credentials_def
    sql_upsert_security_def profile_create_def profile_update_def sql_update_profile_def Let_def
  by (intro keeps_rules; auto intro!: history_updates simp: later_defs split: if_splits)+

lemma keeps_history_tokens:
  "keeps (on_db (service_history d0)) (pg_refresh_create k)" "keeps (on_db (service_history d0)) (pg_refresh_revoke s)"
  "keeps (on_db (service_history d0)) (pg_refresh_revoke_all i)"
  unfolding pg_refresh_create_def pg_refresh_revoke_def pg_refresh_revoke_all_def revoke_where_def
  by (intro keeps_rules; auto intro!: history_updates simp: later_defs)+

lemma keeps_history_rbac:
  "keeps (on_db (service_history d0)) (sql_create_role r)" "keeps (on_db (service_history d0)) (sql_create_permission p)"
  "keeps (on_db (service_history d0)) (sql_update_role r)" "keeps (on_db (service_history d0)) (sql_update_permission p)"
  "keeps (on_db (service_history d0)) (sql_delete_role i)" "keeps (on_db (service_history d0)) (sql_delete_permission i)"
  "keeps (on_db (service_history d0)) (sql_assign_user_role u i)"
  "keeps (on_db (service_history d0)) (sql_assign_role_permission i j)"
  "keeps (on_db (service_history d0)) (sql_remove_user_role u i)"
  "keeps (on_db (service_history d0)) (sql_remove_role_permission i j)"
  unfolding sql_create_role_def sql_create_permission_def sql_update_role_def sql_update_permission_def
    sql_delete_role_def sql_delete_permission_def sql_assign_user_role_def sql_assign_role_permission_def
    sql_remove_user_role_def sql_remove_role_permission_def
  by (intro keeps_rules; auto intro!: history_updates simp: later_defs)+

lemma keeps_history_tenants:
  "keeps (on_db (service_history d0)) (tenant_create L t)" "keeps (on_db (service_history d0)) (tenant_update L t)"
  "keeps (on_db (service_history d0)) (tenant_delete i)"
  unfolding tenant_create_def sql_create_tenant_def tenant_update_def sql_update_tenant_def tenant_delete_def
    sql_delete_tenant_def
  by (intro keeps_rules; simp)+

text \<open>A todo is loaded, changed and stored: the single statement could undo a completion, the operation does not.\<close>

definition rest_history :: "database \<Rightarrow> database \<Rightarrow> bool" where
  "rest_history d0 d \<longleftrightarrow> service_history d0 (d\<lparr>todos := todos d0\<rparr>)"

lemma service_history_split: "service_history d0 d \<longleftrightarrow> todo_history d0 d \<and> rest_history d0 d"
  by (simp add: service_history_def rest_history_def)

lemma keeps_rest_todo:
  "keeps (on_db (rest_history d0)) (todo_create t)" "keeps (on_db (rest_history d0)) (todo_repo_update t)"
  "keeps (on_db (rest_history d0)) (todo_delete i)"
  unfolding todo_create_def sql_create_todo_def todo_repo_update_def sql_update_todo_def todo_delete_def
    sql_soft_delete_todo_def
  by (intro keeps_rules; simp add: rest_history_def)+

lemma keeps_since_todo:
  assumes "keeps (on_db service_ok) m" "keeps (on_db (rest_history d0)) m"
    and "\<And>w. distinct (map td_id (todos (db w))) \<Longrightarrow> todo_history (db w) (db (snd (m w)))"
  shows "keeps (on_db (service_since d0)) m"
proof (rule keepsI)
  fix w
  assume w: "on_db (service_since d0) w"
  have "todo_history (db w) (db (snd (m w)))"
    using w by (intro assms(3) service_keys) (simp add: on_db_def service_since_def)
  then have "todo_history d0 (db (snd (m w)))"
    using w todo_history_trans by (auto simp: on_db_def service_since_def service_history_split)
  then show "on_db (service_since d0) (snd (m w))"
    using keepsD [OF assms(1), of w] keepsD [OF assms(2), of w] w
    by (simp add: on_db_def service_since_def service_history_split)
qed

lemmas todo_service_defs = svc_create_def svc_update_def svc_delete_def svc_complete_def pg_todo_repo_sel

lemma keeps_ok_todo:
  "keeps (on_db service_ok) (svc_create (pg_todo_repo L te) title desc)"
  "keeps (on_db service_ok) (svc_update (pg_todo_repo L te) i title desc)"
  "keeps (on_db service_ok) (svc_delete (pg_todo_repo L te) i)"
  "keeps (on_db service_ok) (svc_complete (pg_todo_repo L te) i)"
  unfolding todo_service_defs by (intro keeps_rules)+

lemma keeps_rest_svc:
  "keeps (on_db (rest_history d0)) (svc_create (pg_todo_repo L te) title desc)"
  "keeps (on_db (rest_history d0)) (svc_update (pg_todo_repo L te) i title desc)"
  "keeps (on_db (rest_history d0)) (svc_delete (pg_todo_repo L te) i)"
  "keeps (on_db (rest_history d0)) (svc_complete (pg_todo_repo L te) i)"
  unfolding todo_service_defs by (intro keeps_rules keeps_rest_todo)+

lemma keeps_since_svc [keeps_rules]:
  "keeps (on_db (service_since d0)) (svc_create (pg_todo_repo L te) title desc)"
  "keeps (on_db (service_since d0)) (svc_update (pg_todo_repo L te) i title desc)"
  "keeps (on_db (service_since d0)) (svc_delete (pg_todo_repo L te) i)"
  "keeps (on_db (service_since d0)) (svc_complete (pg_todo_repo L te) i)"
  by (rule keeps_since_todo, rule keeps_ok_todo, rule keeps_rest_svc, erule svc_history)+

lemma keeps_since [keeps_rules]:
  "keeps (on_db (service_since d0)) (pg_user_create u)" "keeps (on_db (service_since d0)) (pg_user_update u)"
  "keeps (on_db (service_since d0)) (pg_refresh_create k)" "keeps (on_db (service_since d0)) (pg_refresh_revoke s)"
  "keeps (on_db (service_since d0)) (pg_refresh_revoke_all i)"
  "keeps (on_db (service_since d0)) (profile_create u)" "keeps (on_db (service_since d0)) (profile_update u)"
  "keeps (on_db (service_since d0)) (tenant_create L t)" "keeps (on_db (service_since d0)) (tenant_update L t)"
  "keeps (on_db (service_since d0)) (tenant_delete i)"
  "keeps (on_db (service_since d0)) (sql_create_role r)" "keeps (on_db (service_since d0)) (sql_create_permission p)"
  "keeps (on_db (service_since d0)) (sql_update_role r)" "keeps (on_db (service_since d0)) (sql_update_permission p)"
  "keeps (on_db (service_since d0)) (sql_delete_role i)" "keeps (on_db (service_since d0)) (sql_delete_permission i)"
  "keeps (on_db (service_since d0)) (sql_assign_user_role v i)"
  "keeps (on_db (service_since d0)) (sql_assign_role_permission i j)"
  "keeps (on_db (service_since d0)) (sql_remove_user_role v i)"
  "keeps (on_db (service_since d0)) (sql_remove_role_permission i j)"
  by (rule service_by_history; intro keeps_rules keeps_history_users keeps_history_tokens keeps_history_rbac
      keeps_history_tenants)+

interpretation service: auth_invariant "service_since d0" pg_user_repo pg_refresh_repo for d0
  by unfold_locales (simp_all add: keeps_rules)

lemma service_since_writes [simp]:
  "service_since d0 (d\<lparr>casbin_rule := rows\<rparr>) = service_since d0 d"
  "service_since d0 d \<Longrightarrow> service_since d0 (d\<lparr>audit_logs := audit_logs d @ as\<rparr>)"
  "service_since d0 d \<Longrightarrow> service_since d0 (d\<lparr>error_logs := error_logs d @ es\<rparr>)"
  by (simp_all add: service_since_def)

lemma keeps_service_reload [keeps_rules]:
  "keeps (on_db (service_since d0)) (enforcer_reload_policies L)"
  "keeps (on_db (service_since d0)) (enforcer_reload_user_policies L u)"
  unfolding enforcer_reload_policies_def sync_all_policies_def load_all_flattened_policies_def
    enforcer_reload_user_policies_def sync_user_policies_def load_user_flattened_policies_def insert_flat_def
  by (intro keeps_rules; simp)+

lemma keeps_new_enforcer: "keeps (on_db (service_since d0)) (new_enforcer L)"
  unfolding new_enforcer_def by (intro keeps_rules)

section \<open>Every message\<close>

text \<open>A logout that names a denylist function runs that function, which can be anything; the service never does.\<close>

fun own_code :: "command \<Rightarrow> bool" where
  "own_code (LogoutCommand s jti ttl deny) = (deny = None)"
| "own_code _ = True"

lemma keeps_replyM [keeps_rules]: "keeps I m \<Longrightarrow> keeps I (replyM f m)"
  unfolding replyM_def by (intro keeps_rules)

lemma keeps_tenant_reads [keeps_rules]:
  "keeps (on_db P) (tenant_get_by_id i)" "keeps (on_db P) (tenant_get_by_slug s)" "keeps (on_db P) (tenant_list L c n)"
  unfolding tenant_get_by_id_def tenant_get_by_slug_def tenant_list_def sql_get_tenant_by_id_def
    sql_get_tenant_by_slug_def
  by (intro keeps_rules)+

lemma keeps_profile_reads [keeps_rules]:
  "keeps (on_db P) (profile_get_by_id i)" "keeps (on_db P) (profile_list L te cx c n)"
  unfolding profile_get_by_id_def sql_get_user_by_id_def profile_list_def by (intro keeps_rules)+

lemmas rbac_read_defs = role_get_all_def permission_get_all_def roles_by_user_id_def permissions_by_role_id_def
  sql_roles_of_user_def sql_permissions_of_role_def enforcer_enforce_def

lemma keeps_tokens [keeps_rules]: "keeps (on_db P) (ts_generate_token (ap_tokens A) tc)"
  by (simp add: ap_tokens_def new_jwt_token_service_def Let_def keeps_generate_token)

lemmas user_tenant_handler_defs = handle_create_user_def handle_update_user_def handle_delete_user_def
  handle_create_tenant_def handle_update_tenant_def handle_delete_tenant_def tenant_lookup_def ap_profiles_def

lemma keeps_run_command:
  assumes "\<And>ev. keeps (on_db (service_since d0)) (ap_publish A ev)" "own_code cmd"
  shows "keeps (on_db (service_since d0)) (run_command A cx cmd)"
proof -
  note todo = handle_create_todo_def
    handle_update_todo_def handle_delete_todo_def handle_complete_todo_def ap_todos_def
  note rbac = authz_handler_defs authz_repo_defs authz_query_defs casbin_enforcer_sel pg_repo_sel
    ap_roles_def ap_permissions_def ap_enforcer_def
  note auth = service.keeps_publishing service.keeps_generate service.keeps_refresh service.keeps_reset
  show ?thesis
    using assms(2)
    by (cases cmd; simp only: run_command.simps own_code.simps; intro keeps_replyM;
        (unfold todo rbac user_tenant_handler_defs pg_profile_repo_sel pg_tenant_repo_sel handle_logout_def
          handle_logout_all_def pg_refresh_repo_sel Let_def)?;
        (simp only: option.case)?; intro keeps_rules auth assms(1))
qed


lemma keeps_run_query: "keeps (on_db (service_since d0)) (run_query A cx q)"
  by (cases q; simp only: run_query.simps; intro keeps_replyM;
      (unfold handle_get_todo_def handle_list_todos_def handle_search_todos_def handle_get_role_def
        handle_list_roles_def handle_get_permission_def handle_list_permissions_def handle_get_user_roles_def
        handle_get_role_permissions_def handle_check_permission_def handle_list_users_def handle_get_user_def
        handle_get_tenant_def handle_list_tenants_def tenant_lookup_def ap_todos_def ap_roles_def
        ap_permissions_def ap_enforcer_def ap_profiles_def pg_todo_repo_sel pg_repo_sel pg_profile_repo_sel
        pg_tenant_repo_sel casbin_enforcer_sel role_get_by_id_def permission_get_by_id_def
        sql_get_role_by_id_def sql_get_permission_by_id_def svc_get_def svc_list_def svc_search_def todo_get_all_def todo_search_def rbac_read_defs)?;
      intro keeps_rules service.keeps_login)

section \<open>Events\<close>

text \<open>Publishing an event and delivering one write mail and log, not tables.\<close>

definition quiet_mail :: "mail_lib \<Rightarrow> bool" where
  "quiet_mail M \<longleftrightarrow> (\<forall>P. mail_lib_keeps (on_db P) M)"

lemma keeps_emailer:
  assumes "quiet_mail M"
  shows "keeps (on_db P) (send_verification (new_emailer M c) a b t)"
    "keeps (on_db P) (send_password_reset (new_emailer M c) a b t)"
    "keeps (on_db P) (send_welcome (new_emailer M c) a b)"
proof -
  have m: "mail_lib_keeps (on_db P) M" using assms by (simp add: quiet_mail_def)
  have grid: "keeps (on_db P) (ml_sendgrid M k f t s c)" for k f t s c
    using m unfolding mail_lib_keeps_def by blast
  have "keeps (on_db P) (send_verification (console_mailer M f) a b t)"
    "keeps (on_db P) (send_password_reset (console_mailer M f) a b t)"
    "keeps (on_db P) (send_welcome (console_mailer M f) a b)" for f
    unfolding console_mailer_def emailer.simps log_email_def by (intro keeps_rules)+
  then show "keeps (on_db P) (send_verification (new_emailer M c) a b t)"
    "keeps (on_db P) (send_password_reset (new_emailer M c) a b t)"
    "keeps (on_db P) (send_welcome (new_emailer M c) a b)"
    unfolding new_emailer_def smtp_emailer_def sendgrid_emailer_def sendgrid_send_def
    by (auto intro!: keeps_mailer_with keeps_smtp_send keeps_wrapM m grid)
qed

lemma keeps_todo_events:
  "keeps (on_db P) (on_created L ev)" "keeps (on_db P) (on_updated L ev)"
  "keeps (on_db P) (on_completed L ev)" "keeps (on_db P) (on_deleted L ev)"
  unfolding on_created_def on_updated_def on_completed_def on_deleted_def
  by (simp_all add: keeps_retM keeps_logM split: payload_ref.split payload.split)

lemma keeps_mail_events:
  assumes "quiet_mail M"
  shows "keeps (on_db P) (on_user_registered (new_emailer M c) ev)"
    "keeps (on_db P) (on_email_verified (new_emailer M c) ev)"
    "keeps (on_db P) (on_password_reset_requested (new_emailer M c) ev)"
  unfolding on_user_registered_def on_email_verified_def on_password_reset_requested_def
  by (simp_all add: keeps_errM keeps_emailer [OF assms] split: payload_ref.split payload.split)

lemma keeps_event_handlers:
  assumes "quiet_mail M" "h \<in> set (app_handlers L (new_emailer M c) ty)"
  shows "keeps (on_db P) (h ev)"
proof -
  have "h \<in> {on_created L, on_updated L, on_completed L, on_deleted L, on_user_registered (new_emailer M c),
      on_email_verified (new_emailer M c), on_password_reset_requested (new_emailer M c)}"
    using assms(2) by (auto simp: app_handlers_def register_email_handlers_def register_todo_handlers_def
        subscribe_def new_bus_def split: if_splits)
  then show ?thesis
    by (elim insertE emptyE; hypsubst; intro keeps_todo_events keeps_mail_events assms(1))
qed

lemma keeps_event_bus:
  assumes "quiet_mail M"
  shows "keeps (on_db P) (provide_event_bus L M cfg ev)"
proof -
  have "keeps (on_db P) (publish_nats L ev)"
    unfolding publish_nats_def js_publish_def by (intro keeps_rules extM_db) simp
  moreover have "keeps (on_db P) (publish_memory (app_handlers L (new_emailer M c)) ev)" for c
    unfolding publish_memory_def by (intro keeps_forM keeps_event_handlers [OF assms])
  ultimately show ?thesis
    unfolding provide_event_bus_def publish_logged_def by (auto intro!: keeps_rules split: sum.split)
qed

lemma keeps_deliver_to: "(\<And>h. h \<in> set hs \<Longrightarrow> keeps I (h ev)) \<Longrightarrow> keeps I (deliver_to hs ev)"
  by (induction hs) (auto intro!: keeps_rules split: sum.split)

lemma keeps_delivery:
  assumes "quiet_mail M"
  shows "keeps (on_db P) (nats_deliver L R (app_handlers L (new_emailer M c)) ty data)"
  unfolding nats_deliver_def
  by (intro keeps_rules keeps_deliver_to keeps_event_handlers [OF assms])

end
