(* ===== verification/Http_Core.thy ===== *)
theory Http_Core
  imports Core_Domain
begin

text \<open>
  Requests, responses and the response helpers: \<open>net/http\<close> as the service uses it,
  \<open>internal/shared/utils\<close>, \<open>internal/shared/httpadapter\<close>, \<open>internal/shared/validator\<close>, the query
  parameters of the listings and \<open>internal/shared/pagination\<close>. A Go \<open>http.Handler\<close> is an operation on
  an exchange, the outside world with the response that is being written; it returns nothing and may
  panic. The span of the request's context is part of the world.
\<close>

section \<open>Requests\<close>

text \<open>
  Header names are compared without regard to case, so they are kept in lower case. \<open>rq_params\<close> are
  the path parameters the router extracts, \<open>rq_max_body\<close> the limit of \<open>http.MaxBytesReader\<close>.
\<close>

record request =
  rq_method :: string
  rq_path :: string
  rq_raw_query :: string
  rq_query :: "(string \<times> string) list"
  rq_headers :: "string \<Rightarrow> string option"
  rq_params :: "(string \<times> string) list"
  rq_body :: string
  rq_max_body :: "int option"
  rq_remote_addr :: string
  rq_host :: string
  rq_content_length :: int
  rq_ctx :: ctx

definition query_get :: "request \<Rightarrow> string \<Rightarrow> string" where
  "query_get r k = or_empty (map_of (rq_query r) k)"

definition header_get :: "request \<Rightarrow> string \<Rightarrow> string" where
  "header_get r k = or_empty (rq_headers r (to_lower k))"

definition url_param :: "request \<Rightarrow> string \<Rightarrow> string" where
  "url_param r k = or_empty (map_of (rq_params r) k)"

definition with_context :: "request \<Rightarrow> ctx \<Rightarrow> request" where
  "with_context r c = r\<lparr>rq_ctx := c\<rparr>"

section \<open>Responses\<close>

text \<open>
  The writer: the header map, the codes \<open>WriteHeader\<close> was called with, the bytes written, and what
  the client sees of status and headers, which the first \<open>WriteHeader\<close> or \<open>Write\<close> fixes (later ones
  are superfluous).
\<close>

type_synonym headers = "string \<Rightarrow> string option"

record response =
  rs_header :: headers
  rs_codes :: "int list"
  rs_body :: string
  rs_sent :: "(int \<times> headers) option"

definition new_response :: "headers \<Rightarrow> response" where
  "new_response h = \<lparr>rs_header = h, rs_codes = [], rs_body = [], rs_sent = None\<rparr>"

definition send_status :: "int \<Rightarrow> response \<Rightarrow> response" where
  "send_status c s = (case rs_sent s of None \<Rightarrow> s\<lparr>rs_sent := Some (c, rs_header s)\<rparr> | Some _ \<Rightarrow> s)"

definition do_write_header :: "int \<Rightarrow> response \<Rightarrow> response" where
  "do_write_header c s = send_status c (s\<lparr>rs_codes := rs_codes s @ [c]\<rparr>)"

definition do_write :: "string \<Rightarrow> response \<Rightarrow> response" where
  "do_write b s = send_status 200 (s\<lparr>rs_body := rs_body s @ b\<rparr>)"

definition do_set_header :: "string \<Rightarrow> string \<Rightarrow> response \<Rightarrow> response" where
  "do_set_header k v s = s\<lparr>rs_header := (rs_header s)(k \<mapsto> v)\<rparr>"

text \<open>A handler that returns without writing gives status 200.\<close>

definition status :: "response \<Rightarrow> int" where
  "status s = (case rs_sent s of Some (c, _) \<Rightarrow> c | None \<Rightarrow> 200)"

text \<open>\<open>statusCode\<close> of the writers that pass everything through: the last code, 200 before any.\<close>

definition last_code :: "int list \<Rightarrow> int" where
  "last_code cs = (if cs = [] then 200 else last cs)"

section \<open>Exchanges\<close>

record exchange =
  xc_world :: world
  xc_resp :: response

type_synonym http_handler = "request \<Rightarrow> (exchange, unit) gop"

definition worldM :: "(world, 'a) gop \<Rightarrow> (exchange, 'a) gop" where
  "worldM m x = (case m (xc_world x) of (r, w) \<Rightarrow> (r, x\<lparr>xc_world := w\<rparr>))"

definition writerM :: "(response \<Rightarrow> response) \<Rightarrow> (exchange, unit) gop" where
  "writerM f = modifyM (\<lambda>x. x\<lparr>xc_resp := f (xc_resp x)\<rparr>)"

definition write_header :: "int \<Rightarrow> (exchange, unit) gop" where
  "write_header c = writerM (do_write_header c)"

definition write_body :: "string \<Rightarrow> (exchange, unit) gop" where
  "write_body b = writerM (do_write b)"

definition set_header :: "string \<Rightarrow> string \<Rightarrow> (exchange, unit) gop" where
  "set_header k v = writerM (do_set_header k v)"

section \<open>utils.go\<close>

text \<open>
  A payload as \<open>encoding/json\<close> sees it: the nil interface, a value, or one that cannot be encoded (a
  time whose year has not four digits, a raw message that is no JSON).
\<close>

datatype go_any = Nil | Val json | Unencodable

definition any_of :: "json option \<Rightarrow> go_any" where
  "any_of v = (case v of None \<Rightarrow> Unencodable | Some j \<Rightarrow> Val j)"

record api_response =
  ar_success :: bool
  ar_data :: go_any
  ar_meta :: go_any
  ar_error :: "(string \<times> string) option"
  ar_stack :: string

definition error_body_json :: "string \<times> string \<Rightarrow> json" where
  "error_body_json e = JObj [(''code'', JStr (fst e)), (''message'', JStr (snd e))]"

fun any_member :: "string \<Rightarrow> go_any \<Rightarrow> (string \<times> json) list" where
  "any_member k (Val j) = [(k, j)]"
| "any_member k _ = []"

definition api_json :: "api_response \<Rightarrow> json option" where
  "api_json a =
     (if ar_data a = Unencodable \<or> ar_meta a = Unencodable then None
      else Some (JObj ((''success'', JBool (ar_success a)) # any_member ''data'' (ar_data a) @
        any_member ''meta'' (ar_meta a) @
        (case ar_error a of None \<Rightarrow> [] | Some e \<Rightarrow> [(''error'', error_body_json e)]) @
        (if ar_stack a = '''' then [] else [(''stack'', JStr (ar_stack a))]))))"

definition newline :: string where
  "newline = [CHR 0x0A]"

text \<open>\<open>Encode\<close> writes nothing when the value cannot be encoded.\<close>

definition encode_to :: "json option \<Rightarrow> (exchange, unit) gop" where
  "encode_to v = (case v of None \<Rightarrow> retM () | Some j \<Rightarrow> write_body (json_text j @ newline))"

definition respond_json :: "int \<Rightarrow> json option \<Rightarrow> (exchange, unit) gop" where
  "respond_json st payload = bindM (set_header ''Content-Type'' ''application/json'') (\<lambda>_.
     bindM (write_header st) (\<lambda>_. encode_to payload))"

definition success_response :: "go_any \<Rightarrow> go_any \<Rightarrow> api_response" where
  "success_response data meta =
     \<lparr>ar_success = True, ar_data = data, ar_meta = meta, ar_error = None, ar_stack = ''''\<rparr>"

definition error_response :: "string \<Rightarrow> string \<Rightarrow> string \<Rightarrow> api_response" where
  "error_response ec msg stack =
     \<lparr>ar_success = False, ar_data = Nil, ar_meta = Nil, ar_error = Some (ec, msg), ar_stack = stack\<rparr>"

definition respond_success :: "go_any \<Rightarrow> (exchange, unit) gop" where
  "respond_success data = respond_json 200 (api_json (success_response data Nil))"

definition respond_created :: "go_any \<Rightarrow> (exchange, unit) gop" where
  "respond_created data = respond_json 201 (api_json (success_response data Nil))"

text \<open>Go's integer division truncates towards zero.\<close>

definition go_quot :: "int \<Rightarrow> int \<Rightarrow> int" where
  "go_quot a b = sgn a * sgn b * (\<bar>a\<bar> div \<bar>b\<bar>)"

definition pagination_meta :: "int \<Rightarrow> int \<Rightarrow> int \<Rightarrow> int \<Rightarrow> json" where
  "pagination_meta pag perPage tot totalPages =
     JObj [(''page'', JNum (itoa pag)), (''per_page'', JNum (itoa perPage)), (''total'', JNum (itoa tot)),
       (''total_pages'', JNum (itoa totalPages))]"

definition respond_paginated :: "go_any \<Rightarrow> int \<Rightarrow> int \<Rightarrow> int \<Rightarrow> (exchange, unit) gop" where
  "respond_paginated data pag perPage tot =
     (if perPage = 0 then panicM ''integer divide by zero''
      else (let totalPages = go_quot (tot + perPage - 1) perPage in
        respond_json 200 (api_json (success_response data
          (Val (pagination_meta pag perPage tot (if totalPages < 0 then 0 else totalPages)))))))"

definition json_opt :: "string option \<Rightarrow> json" where
  "json_opt v = (case v of None \<Rightarrow> JNull | Some s \<Rightarrow> JStr s)"

definition cursor_meta :: "string option \<Rightarrow> string option \<Rightarrow> bool \<Rightarrow> bool \<Rightarrow> int \<Rightarrow> json" where
  "cursor_meta nxt prv hasNext hasPrev limit =
     JObj [(''next_cursor'', json_opt nxt), (''prev_cursor'', json_opt prv), (''has_next'', JBool hasNext),
       (''has_prev'', JBool hasPrev), (''limit'', JNum (itoa limit))]"

definition respond_cursor_paginated ::
  "go_any \<Rightarrow> string option \<Rightarrow> string option \<Rightarrow> bool \<Rightarrow> bool \<Rightarrow> int \<Rightarrow> (exchange, unit) gop" where
  "respond_cursor_paginated data nxt prv hasNext hasPrev limit =
     respond_json 200 (api_json (success_response data (Val (cursor_meta nxt prv hasNext hasPrev limit))))"

definition respond_error :: "int \<Rightarrow> string \<Rightarrow> string \<Rightarrow> (exchange, unit) gop" where
  "respond_error st ec msg = respond_json st (api_json (error_response ec msg ''''))"

definition respond_bad_request :: "string \<Rightarrow> (exchange, unit) gop" where
  "respond_bad_request msg = respond_error 400 ''VALIDATION_ERROR'' msg"

definition respond_unauthorized :: "string \<Rightarrow> (exchange, unit) gop" where
  "respond_unauthorized msg = respond_error 401 ''UNAUTHORIZED'' msg"

definition respond_forbidden :: "string \<Rightarrow> string \<Rightarrow> (exchange, unit) gop" where
  "respond_forbidden ec msg = respond_error 403 ec msg"

definition respond_not_found :: "string \<Rightarrow> (exchange, unit) gop" where
  "respond_not_found msg = respond_error 404 ''NOT_FOUND'' msg"

definition respond_conflict :: "string \<Rightarrow> (exchange, unit) gop" where
  "respond_conflict msg = respond_error 409 ''CONFLICT'' msg"

definition respond_internal_error :: "string \<Rightarrow> (exchange, unit) gop" where
  "respond_internal_error msg = respond_error 500 ''INTERNAL_ERROR'' msg"

text \<open>
  What the helpers take from the process: the global \<open>IsProduction\<close>, and the text \<open>debug.Stack()\<close>
  prints.
\<close>

record http_env =
  he_production :: bool
  he_stack :: string
  he_type :: "goerr \<Rightarrow> string"

definition respond_internal_from_request :: "http_env \<Rightarrow> request \<Rightarrow> string \<Rightarrow> (exchange, unit) gop" where
  "respond_internal_from_request E r msg =
     (if he_production E then respond_internal_error ''internal server error''
      else respond_json 500 (api_json (error_response ''INTERNAL_ERROR'' msg
        (case get_error_info (rq_ctx r) of None \<Rightarrow> '''' | Some info \<Rightarrow> ei_stack info))))"

definition map_error_from_request :: "http_env \<Rightarrow> request \<Rightarrow> goerr \<Rightarrow> (exchange, unit) gop" where
  "map_error_from_request E r e =
     (if err_is e ErrNotFound then respond_not_found (err_text e)
      else if err_is e ErrAlreadyExists \<or> err_is e ErrConflict then respond_conflict (err_text e)
      else if err_is e ErrValidation then respond_bad_request (err_text e)
      else if err_is e ErrForbidden then respond_forbidden ''FORBIDDEN'' (err_text e)
      else if err_is e ErrUnauthorized then respond_unauthorized (err_text e)
      else bindM (worldM (spanM (span_add_event ''exception''
          [(''exception.type'', AString (he_type E e)), (''exception.message'', AString (err_text e)),
           (''exception.stacktrace'', AString (he_stack E))] \<circ>
          span_record_error e \<circ> set_span_status (err_text e)))) (\<lambda>_.
        respond_internal_from_request E
        (with_context r (set_error_info (rq_ctx r) e (he_stack E)))
        (if he_production E then ''internal server error'' else err_text e)))"

section \<open>handler.go and the adapters\<close>

text \<open>The error of a call is \<open>None\<close> when it is nil.\<close>

definition handle_any :: "http_env \<Rightarrow> request \<Rightarrow> go_any \<Rightarrow> goerr option \<Rightarrow> (exchange, unit) gop" where
  "handle_any E r data err = (case err of
      Some e \<Rightarrow> map_error_from_request E r e | None \<Rightarrow> respond_success data)"

definition handle_created :: "http_env \<Rightarrow> request \<Rightarrow> go_any \<Rightarrow> goerr option \<Rightarrow> (exchange, unit) gop" where
  "handle_created E r data err = (case err of
      Some e \<Rightarrow> map_error_from_request E r e | None \<Rightarrow> respond_created data)"

definition handle_no_content :: "http_env \<Rightarrow> request \<Rightarrow> goerr option \<Rightarrow> (exchange, unit) gop" where
  "handle_no_content E r err = (case err of
      Some e \<Rightarrow> map_error_from_request E r e | None \<Rightarrow> respond_success Nil)"

definition handle_paginated ::
  "http_env \<Rightarrow> request \<Rightarrow> go_any \<Rightarrow> int \<Rightarrow> int \<Rightarrow> int \<Rightarrow> goerr option \<Rightarrow> (exchange, unit) gop" where
  "handle_paginated E r data pag perPage tot err = (case err of
      Some e \<Rightarrow> map_error_from_request E r e | None \<Rightarrow> respond_paginated data pag perPage tot)"

definition handle_cursor_paginated ::
  "http_env \<Rightarrow> request \<Rightarrow> go_any \<Rightarrow> string option \<Rightarrow> string option \<Rightarrow> bool \<Rightarrow> bool \<Rightarrow> int \<Rightarrow> goerr option \<Rightarrow>
   (exchange, unit) gop" where
  "handle_cursor_paginated E r data nxt prv hasNext hasPrev limit err = (case err of
      Some e \<Rightarrow> map_error_from_request E r e
    | None \<Rightarrow> respond_cursor_paginated data nxt prv hasNext hasPrev limit)"

text \<open>
  \<open>data, err := m()\<close>: the value is the zero value of its type when the call failed. \<open>resultM\<close> gives
  both to the continuation.
\<close>

definition resultM :: "'a \<Rightarrow> (exchange, 'a) gop \<Rightarrow> ('a \<Rightarrow> goerr option \<Rightarrow> (exchange, 'b) gop) \<Rightarrow> (exchange, 'b) gop" where
  "resultM zero m f = tryM m (\<lambda>r. case r of Inl e \<Rightarrow> f zero (Some e) | Inr v \<Rightarrow> f v None)"

definition adapt :: "(request \<Rightarrow> (exchange, go_any) gop) \<Rightarrow> http_env \<Rightarrow> http_handler" where
  "adapt fn E r = resultM Nil (fn r) (handle_any E r)"

definition adapt_created :: "(request \<Rightarrow> (exchange, go_any) gop) \<Rightarrow> http_env \<Rightarrow> http_handler" where
  "adapt_created fn E r = resultM Nil (fn r) (handle_created E r)"

definition adapt_no_content :: "(request \<Rightarrow> (exchange, unit) gop) \<Rightarrow> http_env \<Rightarrow> http_handler" where
  "adapt_no_content fn E r = resultM () (fn r) (\<lambda>_. handle_no_content E r)"

record paginated_result =
  pr_data :: go_any
  pr_page :: int
  pr_per_page :: int
  pr_total :: int

definition adapt_paginated :: "(request \<Rightarrow> (exchange, paginated_result) gop) \<Rightarrow> http_env \<Rightarrow> http_handler" where
  "adapt_paginated fn E r = resultM \<lparr>pr_data = Nil, pr_page = 0, pr_per_page = 0, pr_total = 0\<rparr> (fn r)
     (\<lambda>p. handle_paginated E r (pr_data p) (pr_page p) (pr_per_page p) (pr_total p))"

section \<open>Query parameters\<close>

text \<open>The two parameters of every listing.\<close>

definition limit_param :: "request \<Rightarrow> int" where
  "limit_param r = (let l = query_get r ''limit'' in
     if l \<noteq> '''' then (case atoi l of
         Some n \<Rightarrow> if 0 < n \<and> n \<le> 100 then n else 20
       | None \<Rightarrow> 20)
     else 20)"

definition cursor_param :: "request \<Rightarrow> string option" where
  "cursor_param r = (let s = query_get r ''cursor'' in if s \<noteq> '''' then Some s else None)"

text \<open>\<open>NewPagination\<close>\<close>

definition positive_param :: "request \<Rightarrow> string \<Rightarrow> int \<Rightarrow> int" where
  "positive_param r k dflt = (let p = query_get r k in
     if p \<noteq> '''' then (case atoi p of Some v \<Rightarrow> if 0 < v then v else dflt | None \<Rightarrow> dflt) else dflt)"

definition new_pagination :: "request \<Rightarrow> int \<Rightarrow> int \<Rightarrow> int \<times> int" where
  "new_pagination r defaultPerPage maxPerPage =
     (let perPage = positive_param r ''per_page'' defaultPerPage in
      (positive_param r ''page'' 1, if maxPerPage < perPage then maxPerPage else perPage))"

definition pagination_offset :: "int \<Rightarrow> int \<Rightarrow> int" where
  "pagination_offset pag perPage = (pag - 1) * perPage"

section \<open>Request bodies\<close>

text \<open>
  What \<open>json.NewDecoder(r.Body).Decode\<close> reads. Behind \<open>http.MaxBytesReader\<close> only the first bytes arrive
  before the error: an object or an array is complete with its bracket, any other value needs the
  byte after it.
\<close>

fun self_delimiting :: "json \<Rightarrow> bool" where
  "self_delimiting (JObj ms) = True"
| "self_delimiting (JArr vs) = True"
| "self_delimiting _ = False"

definition body_value :: "request \<Rightarrow> (json \<times> string) option" where
  "body_value r = (case rq_max_body r of
      Some n \<Rightarrow>
        if int (length (rq_body r)) \<le> n then pval (2 * length (rq_body r) + 2) (rq_body r)
        else (let s = take (nat n) (rq_body r) in
          case pval (2 * length s + 2) s of
            Some (v, rest) \<Rightarrow> if self_delimiting v \<or> rest \<noteq> [] then Some (v, rest) else None
          | None \<Rightarrow> None)
    | None \<Rightarrow> pval (2 * length (rq_body r) + 2) (rq_body r))"

text \<open>\<open>Decode(&req)\<close> into a struct, from the members of the object.\<close>

definition decode_body :: "request \<Rightarrow> ((string \<times> json) list \<Rightarrow> 'a option) \<Rightarrow> 'a option" where
  "decode_body r rd = Option.bind (body_value r) (\<lambda>(v, _). Option.bind (struct_members v) rd)"

text \<open>Fields of pointer type: \<open>null\<close> sets them to nil.\<close>

definition pointer_field :: "(json \<Rightarrow> 'a option) \<Rightarrow> string \<Rightarrow> (string \<times> json) list \<Rightarrow> 'a option option" where
  "pointer_field rd name ms =
     (let vs = map snd (filter (\<lambda>(k, v). key_matches name k) ms);
          ds = map (\<lambda>v. if v = JNull then Some None else map_option Some (rd v)) vs in
      if list_ex (\<lambda>d. d = None) ds then None else if ds = [] then Some None else last ds)"

text \<open>
  A field of type \<open>json.RawMessage\<close> keeps the bytes of its value. \<open>raw_members\<close> walks over the members
  of the object the body starts with, which the decoder has accepted.
\<close>

fun raw_members :: "nat \<Rightarrow> string \<Rightarrow> (string \<times> string) list" where
  "raw_members 0 s = []"
| "raw_members (Suc n) s = (case Option.bind (expect quote (skip_ws s)) str_body of
      None \<Rightarrow> []
    | Some (k, r) \<Rightarrow> (case expect (CHR '':'') (skip_ws r) of
        None \<Rightarrow> []
      | Some r1 \<Rightarrow> (let v = skip_ws r1 in case pval (2 * length v + 2) v of
          None \<Rightarrow> []
        | Some (_, r2) \<Rightarrow> (k, take (length v - length r2) v) #
            (case expect (CHR '','') (skip_ws r2) of None \<Rightarrow> [] | Some r3 \<Rightarrow> raw_members n r3))))"

definition raw_field :: "string \<Rightarrow> string \<Rightarrow> string option" where
  "raw_field name body = (case expect (CHR ''{'') (skip_ws body) of
      None \<Rightarrow> None
    | Some r \<Rightarrow> (let vs = map snd (filter (\<lambda>(k, v). key_matches name k) (raw_members (length r) r)) in
        if vs = [] then None else Some (last vs)))"

section \<open>The validator\<close>

text \<open>
  A struct as the validator sees it: the names, \<open>validate\<close> tags and values of its fields. Which of them
  fail is up to the library; the message is put together here.
\<close>

type_synonym validated = "(string \<times> string \<times> field_value) list"

fun join_with :: "string \<Rightarrow> string list \<Rightarrow> string" where
  "join_with sep [] = []"
| "join_with sep [x] = x"
| "join_with sep (x # y # xs) = x @ sep @ join_with sep (y # xs)"

definition validate_struct :: "libs \<Rightarrow> validated \<Rightarrow> goerr option" where
  "validate_struct L fs = (let errs = struct_errors L fs in
     if errs = [] then None
     else Some (Errorf (''validation failed: '' @ join_with '', '' (map (\<lambda>(f, tag). f @ '': '' @ tag) errs))))"

text \<open>
  The opening of the handlers that take a body: decode it into the request struct and validate it,
  answering 400 when either fails.
\<close>

definition with_body ::
  "request \<Rightarrow> ((string \<times> json) list \<Rightarrow> 'a option) \<Rightarrow> ('a \<Rightarrow> (exchange, unit) gop) \<Rightarrow> (exchange, unit) gop" where
  "with_body r rd f = (case decode_body r rd of
      None \<Rightarrow> respond_bad_request ''invalid request body''
    | Some req \<Rightarrow> f req)"

definition validated_then :: "libs \<Rightarrow> validated \<Rightarrow> (exchange, unit) gop \<Rightarrow> (exchange, unit) gop" where
  "validated_then L fs m = (case validate_struct L fs of
      Some e \<Rightarrow> respond_bad_request (err_text e) | None \<Rightarrow> m)"

definition with_uuid_param ::
  "libs \<Rightarrow> request \<Rightarrow> string \<Rightarrow> string \<Rightarrow> (uuid \<Rightarrow> (exchange, unit) gop) \<Rightarrow> (exchange, unit) gop" where
  "with_uuid_param L r k msg f = (case uuid_parse L (url_param r k) of
      None \<Rightarrow> respond_bad_request msg | Some i \<Rightarrow> f i)"

end
