(* ===== verification/Redis_Store.thy ===== *)
theory Redis_Store
  imports Todo
begin

text \<open>
  The Redis commands the service sends, \<open>internal/infrastructure/cache/redis.go\<close> and the todo cache.
  An entry is a string with the instant it expires; the server reads its own clock at every command,
  which is the next instant of the world's clock. Expiry is kept to the nanosecond where Redis keeps
  milliseconds.
\<close>

section \<open>Commands\<close>

type_synonym store = "string \<Rightarrow> (string \<times> time option) option"

definition live_at :: "time \<Rightarrow> store \<Rightarrow> store" where
  "live_at now m k = (case m k of
      Some (v, Some t) \<Rightarrow> if now < t then Some (v, Some t) else None
    | e \<Rightarrow> e)"

definition redisM :: "(time \<Rightarrow> store \<Rightarrow> (goerr + 'a) \<times> store) \<Rightarrow> (world, 'a) gop" where
  "redisM f = extM (\<lambda>w. case f (clock w (ticks w)) (redis w) of
      (r, m) \<Rightarrow> (r, w\<lparr>redis := m, ticks := Suc (ticks w)\<rparr>))"

definition redis_nil :: goerr where
  "redis_nil = ExtErr ''redis: nil''"

definition redis_get :: "string \<Rightarrow> (world, string) gop" where
  "redis_get k = redisM (\<lambda>now m. case live_at now m k of
      None \<Rightarrow> (Inl redis_nil, m) | Some (v, t) \<Rightarrow> (Inr v, m))"

text \<open>A duration that is not positive stores the value for good.\<close>

definition redis_set :: "string \<Rightarrow> string \<Rightarrow> time \<Rightarrow> (world, unit) gop" where
  "redis_set k v ttl = redisM (\<lambda>now m.
     (Inr (), m(k \<mapsto> (v, if 0 < ttl then Some (now + ttl) else None))))"

definition redis_del :: "string list \<Rightarrow> (world, unit) gop" where
  "redis_del ks = redisM (\<lambda>now m. (Inr (), \<lambda>k. if k \<in> set ks then None else m k))"

text \<open>\<open>INCR\<close> wants the canonical text of a 64-bit integer and keeps the expiry.\<close>

definition redis_int :: "string \<Rightarrow> int option" where
  "redis_int v = (case atoi v of Some n \<Rightarrow> if itoa n = v then Some n else None | None \<Rightarrow> None)"

definition redis_incr :: "string \<Rightarrow> (world, int) gop" where
  "redis_incr k = redisM (\<lambda>now m. case live_at now m k of
      None \<Rightarrow> (Inr 1, m(k \<mapsto> (itoa 1, None)))
    | Some (v, t) \<Rightarrow> (case redis_int v of
        Some n \<Rightarrow> if n + 1 < 2 ^ 63 then (Inr (n + 1), m(k \<mapsto> (itoa (n + 1), t)))
                  else (Inl (ExtErr ''ERR increment or decrement would overflow''), m)
      | None \<Rightarrow> (Inl (ExtErr ''ERR value is not an integer or out of range''), m)))"

definition redis_expire :: "string \<Rightarrow> time \<Rightarrow> (world, unit) gop" where
  "redis_expire k d = redisM (\<lambda>now m. case live_at now m k of
      None \<Rightarrow> (Inr (), m)
    | Some (v, t) \<Rightarrow> (Inr (), if 0 < d then m(k \<mapsto> (v, Some (now + d))) else m(k := None)))"

text \<open>\<open>TTL\<close> in seconds as a duration; the two special answers are not scaled.\<close>

definition redis_ttl :: "string \<Rightarrow> (world, time) gop" where
  "redis_ttl k = redisM (\<lambda>now m. case live_at now m k of
      None \<Rightarrow> (Inr (- 2), m)
    | Some (v, None) \<Rightarrow> (Inr (- 1), m)
    | Some (v, Some t) \<Rightarrow> (Inr (((t - now) div 1000000 + 500) div 1000 * second), m))"

lemma redisM_nofault:
  "faults w = [] \<Longrightarrow> redisM f w = (case f (clock w (ticks w)) (redis w) of
     (Inl e, m) \<Rightarrow> (Err e, w\<lparr>redis := m, ticks := Suc (ticks w)\<rparr>)
   | (Inr x, m) \<Rightarrow> (Ok x, w\<lparr>redis := m, ticks := Suc (ticks w)\<rparr>))"
  by (simp add: redisM_def extM_nofault split: prod.splits sum.splits)

lemma keeps_redisM [keeps_rules]: "keeps (on_db P) (redisM f)"
  unfolding redisM_def by (rule extM_db) (simp split: prod.splits)

lemma keeps_redis_ops [keeps_rules]:
  "keeps (on_db P) (redis_get k)" "keeps (on_db P) (redis_set k v ttl)" "keeps (on_db P) (redis_del ks)"
  "keeps (on_db P) (redis_incr k)" "keeps (on_db P) (redis_expire k d)" "keeps (on_db P) (redis_ttl k)"
  unfolding redis_get_def redis_set_def redis_del_def redis_incr_def redis_expire_def redis_ttl_def
  by (rule keeps_redisM)+

section \<open>Decimal text\<close>

lemma digits_val_snoc: "digits_val acc (s @ [c]) = digits_val acc s * 10 + (of_char c - 48)"
  by (induction s arbitrary: acc) simp_all


lemma nat_digits_val: "digits_val 0 (nat_digits n) = int n \<and> list_all is_digit (nat_digits n) \<and> nat_digits n \<noteq> []"
proof (induction n rule: nat_digits.induct)
  case (1 n)
  have c: "of_char (char_of (48 + m)) = (48 + int m)" if "m < 10" for m :: nat
  proof -
    have "(of_char (char_of (48 + m)) :: int) = int (of_char (char_of (48 + m)))"
      by (rule of_nat_of_char [symmetric])
    then show ?thesis using that by simp
  qed
  have d: "is_digit (char_of (48 + m))" if "m < 10" for m :: nat
    using that by (simp add: is_digit_def)
  show ?case
  proof (cases "n < 10")
    case True
    then show ?thesis using c [of n] d [of n] by (simp add: nat_digits.simps [of n])
  next
    case False
    have "int (n div 10) * 10 + int (n mod 10) = int n"
      by (simp only: zdiv_int zmod_int of_nat_numeral div_mult_mod_eq)
    with False show ?thesis
      using 1 c [of "n mod 10"] d [of "n mod 10"]
      by (simp add: nat_digits.simps [of n] digits_val_snoc)
  qed
qed

lemma not_sign_digits: "hd (nat_digits n) \<noteq> CHR ''-'' \<and> hd (nat_digits n) \<noteq> CHR ''+''"
proof -
  have "is_digit (hd (nat_digits n))" using nat_digits_val [of n] by (cases "nat_digits n") auto
  then show ?thesis by (auto simp: is_digit_def)
qed

lemma atoi_itoa: "- (2 ^ 63) \<le> i \<Longrightarrow> i < 2 ^ 63 \<Longrightarrow> atoi (itoa i) = Some i"
  using nat_digits_val [of "nat i"] nat_digits_val [of "nat (- i)"] not_sign_digits [of "nat i"]
  by (auto simp: itoa_def atoi_def Let_def)

lemma redis_int_itoa: "- (2 ^ 63) \<le> i \<Longrightarrow> i < 2 ^ 63 \<Longrightarrow> redis_int (itoa i) = Some i"
  by (simp add: redis_int_def atoi_itoa)

section \<open>redis.go\<close>

definition cache_get :: "string \<Rightarrow> (world, string) gop" where
  "cache_get k = wrapM ''redis get'' (redis_get k)"

text \<open>The \<open>ttl\<close> is an \<open>interface{}\<close>: without a duration in it the value is stored for good.\<close>

definition cache_set :: "string \<Rightarrow> string \<Rightarrow> time option \<Rightarrow> (world, unit) gop" where
  "cache_set k v ttl = wrapM ''redis set'' (redis_set k v (case ttl of Some d \<Rightarrow> d | None \<Rightarrow> 0))"

definition cache_del :: "string list \<Rightarrow> (world, unit) gop" where
  "cache_del ks = wrapM ''redis del'' (redis_del ks)"

record cache =
  ca_get :: "string \<Rightarrow> (world, string) gop"
  ca_set :: "string \<Rightarrow> string \<Rightarrow> time option \<Rightarrow> (world, unit) gop"
  ca_del :: "string list \<Rightarrow> (world, unit) gop"

definition redis_cache :: cache where
  "redis_cache = \<lparr>ca_get = cache_get, ca_set = cache_set, ca_del = cache_del\<rparr>"

text \<open>\<open>NewRedisCache\<close> pings the server first.\<close>

definition new_redis_cache :: "(world, cache) gop" where
  "new_redis_cache = bindM (wrapM ''connect redis'' noopM) (\<lambda>_. retM redis_cache)"

section \<open>todo_cache.go\<close>

definition todo_key :: "libs \<Rightarrow> uuid \<Rightarrow> string" where
  "todo_key L i = ''todo:'' @ uuid_string L i"

definition todo_cache_ttl :: time where
  "todo_cache_ttl = 10 * minute"

text \<open>\<open>entity.Todo\<close> as JSON: the fields of the embedded entity first.\<close>

definition entity_members :: "libs \<Rightarrow> 'a entity_scheme \<Rightarrow> (string \<times> json) list option" where
  "entity_members L e = Option.bind (time_json (e_created_at e)) (\<lambda>c.
     Option.bind (time_json (e_updated_at e)) (\<lambda>u.
     Option.bind (case e_deleted_at e of
         None \<Rightarrow> Some []
       | Some t \<Rightarrow> map_option (\<lambda>d. [(''deleted_at'', d)]) (time_json t)) (\<lambda>d.
     Some ([(''id'', JStr (uuid_string L (e_id e))), (''created_at'', c), (''updated_at'', u)] @ d))))"

definition todo_json :: "libs \<Rightarrow> todo \<Rightarrow> json option" where
  "todo_json L t = map_option (\<lambda>ms. JObj (ms @ [(''title'', JStr (t_title t)),
     (''description'', JStr (t_description t)), (''completed'', JBool (t_completed t))])) (entity_members L t)"

definition decode_todo :: "libs \<Rightarrow> string \<Rightarrow> todo option" where
  "decode_todo L s = Option.bind (json_parse s) (\<lambda>v. Option.bind (struct_members v) (\<lambda>ms.
     Option.bind (typed_field (read_uuid L) ''id'' ms 0) (\<lambda>i.
     Option.bind (typed_field read_time ''created_at'' ms zero_time) (\<lambda>c.
     Option.bind (typed_field read_time ''updated_at'' ms zero_time) (\<lambda>u.
     Option.bind (typed_field (\<lambda>j. map_option Some (read_time j)) ''deleted_at'' ms None) (\<lambda>d.
     Option.bind (string_field ''title'' ms '''') (\<lambda>tt.
     Option.bind (string_field ''description'' ms '''') (\<lambda>ds.
     Option.bind (bool_field ''completed'' ms False) (\<lambda>b.
     Some (make_todo \<lparr>e_id = i, e_created_at = c, e_updated_at = u, e_deleted_at = d\<rparr> tt ds b))))))))))"

definition todo_cache_get :: "libs \<Rightarrow> cache \<Rightarrow> uuid \<Rightarrow> (world, todo) gop" where
  "todo_cache_get L ca i = bindM (ca_get ca (todo_key L i)) (\<lambda>val.
     case decode_todo L val of
       None \<Rightarrow> errM (Wrapf ''unmarshal todo'' (ExtErr ''json: cannot unmarshal''))
     | Some t \<Rightarrow> retM t)"

definition todo_cache_set :: "libs \<Rightarrow> cache \<Rightarrow> todo \<Rightarrow> (world, unit) gop" where
  "todo_cache_set L ca t = (case todo_json L t of
      None \<Rightarrow> errM (Wrapf ''marshal todo'' (ExtErr ''Time.MarshalJSON: year outside of range [0,9999]''))
    | Some j \<Rightarrow> ca_set ca (todo_key L (e_id t)) (json_text j) (Some todo_cache_ttl))"

definition todo_cache_delete :: "libs \<Rightarrow> cache \<Rightarrow> uuid \<Rightarrow> (world, unit) gop" where
  "todo_cache_delete L ca i = ca_del ca [todo_key L i]"

lemma todo_field_names:
  "to_lower ''id'' = ''id''" "to_lower ''created_at'' = ''created_at''" "to_lower ''updated_at'' = ''updated_at''"
  "to_lower ''deleted_at'' = ''deleted_at''" "to_lower ''title'' = ''title''"
  "to_lower ''description'' = ''description''" "to_lower ''completed'' = ''completed''"
  by code_simp+

lemma decode_todo_json:
  assumes "uuid_law L" "todo_json L t = Some j"
  shows "decode_todo L (json_text j) = Some t"
proof -
  obtain c u d where j: "j = JObj ([(''id'', JStr (uuid_string L (e_id t))), (''created_at'', c), (''updated_at'', u)]
      @ d @ [(''title'', JStr (t_title t)), (''description'', JStr (t_description t)),
        (''completed'', JBool (t_completed t))])"
    and c: "c = JStr (rfc3339nano (e_created_at t))" "year_ok (e_created_at t)"
    and u: "u = JStr (rfc3339nano (e_updated_at t))" "year_ok (e_updated_at t)"
    and d: "e_deleted_at t = None \<and> d = [] \<or>
      (\<exists>x. e_deleted_at t = Some x \<and> year_ok x \<and> d = [(''deleted_at'', JStr (rfc3339nano x))])"
    using assms(2)
    by (auto simp: todo_json_def entity_members_def time_json_def Option.bind_eq_Some_conv
        split: if_splits option.splits)
  have wf: "wf_json j" using c u d by (auto simp: j)
  have i: "uuid_parse L (uuid_string L (e_id t)) = Some (e_id t)" using assms(1) by (simp add: uuid_law_def)
  show ?thesis
    using d
  proof (elim disjE exE conjE)
    assume "e_deleted_at t = None" "d = []"
    then show ?thesis
      unfolding decode_todo_def json_round_trip [OF wf]
      using c u i by (simp add: j typed_field_def string_field_def bool_field_def field_values_def
          key_matches_def todo_field_names rfc3339nano_round_trip make_todo_def Let_def)
  next
    fix x
    assume "e_deleted_at t = Some x" "year_ok x" "d = [(''deleted_at'', JStr (rfc3339nano x))]"
    then show ?thesis
      unfolding decode_todo_def json_round_trip [OF wf]
      using c u i by (simp add: j typed_field_def string_field_def bool_field_def field_values_def
          key_matches_def todo_field_names rfc3339nano_round_trip make_todo_def Let_def)
  qed
qed

text \<open>
  C32: a todo that is put into the cache comes back as it was, timestamps to the nanosecond and the
  deletion mark included, until ten minutes have passed on the server's clock; after that the cache
  reports a miss.
\<close>

theorem todo_cache_round_trip:
  assumes "uuid_law L" "faults w = []" "todo_json L t \<noteq> None"
  shows "fst (bindM (todo_cache_set L redis_cache t) (\<lambda>_. todo_cache_get L redis_cache (e_id t)) w) =
    (if clock w (Suc (ticks w)) < clock w (ticks w) + 10 * minute then Ok t
     else Err (Wrapf ''redis get'' redis_nil))"
proof -
  obtain j where j: "todo_json L t = Some j" using assms(3) by auto
  note defs = todo_cache_set_def todo_cache_get_def redis_cache_def cache_set_def cache_get_def
    redis_set_def redis_get_def redisM_nofault todo_cache_ttl_def live_at_def op_defs
  show ?thesis
    using assms(2) decode_todo_json [OF assms(1) j] by (simp add: defs j)
qed

lemma todo_cache_round_trip_witness:
  "fst (bindM (todo_cache_set toy_libs redis_cache (make_todo
       \<lparr>e_id = 1, e_created_at = 5, e_updated_at = 6, e_deleted_at = Some 7\<rparr> ''a'' ''b'' True))
     (\<lambda>_. todo_cache_get toy_libs redis_cache 1) init_world) =
   Ok (make_todo \<lparr>e_id = 1, e_created_at = 5, e_updated_at = 6, e_deleted_at = Some 7\<rparr> ''a'' ''b'' True)"
proof -
  let ?t = "make_todo \<lparr>e_id = 1, e_created_at = 5, e_updated_at = 6, e_deleted_at = Some 7\<rparr> ''a'' ''b'' True"
  have ok: "year_ok 5" "year_ok 6" "year_ok 7" by code_simp+
  then have "todo_json toy_libs ?t \<noteq> None"
    by (simp add: todo_json_def entity_members_def time_json_def make_todo_def)
  moreover have "faults init_world = []" "e_id ?t = 1" by (simp_all add: init_world_def make_todo_def)
  ultimately show ?thesis
    using todo_cache_round_trip [OF uuid_law_toy, of init_world ?t]
    by (simp add: init_world_def)
qed

end
