(* ===== verification/Http_Api.thy ===== *)
theory Http_Api
  imports Http_Core Cqrs Redis_Store
begin

text \<open>
  The HTTP handlers of the five modules (\<open>internal/*/interfaces/http\<close>): reading parameters and bodies,
  validation, the message on the bus, and the answer for every error. A reply of the bus is encoded the
  way \<open>encoding/json\<close> encodes the struct behind it; the slice of an empty listing is nil, so its JSON is
  \<open>null\<close>, except where the code makes a slice.
\<close>

record web_env =
  we_http :: http_env
  we_libs :: libs
  we_commands :: "command bus"
  we_queries :: "query bus"

section \<open>Replies as JSON\<close>

definition slice_json :: "('a \<Rightarrow> json option) \<Rightarrow> 'a list \<Rightarrow> json option" where
  "slice_json f xs = map_option JArr (those (map f xs))"

definition nil_slice_json :: "('a \<Rightarrow> json option) \<Rightarrow> 'a list \<Rightarrow> json option" where
  "nil_slice_json f xs = (if xs = [] then Some JNull else slice_json f xs)"

definition todo_response_json :: "libs \<Rightarrow> todo_response \<Rightarrow> json option" where
  "todo_response_json L t = Option.bind (time_json (tr_created_at t)) (\<lambda>c.
     Option.bind (time_json (tr_updated_at t)) (\<lambda>u.
     Some (JObj [(''id'', JStr (uuid_string L (tr_id t))), (''title'', JStr (tr_title t)),
       (''description'', JStr (tr_description t)), (''completed'', JBool (tr_completed t)),
       (''created_at'', c), (''updated_at'', u)])))"

definition role_json :: "libs \<Rightarrow> role \<Rightarrow> json option" where
  "role_json L x = map_option (\<lambda>ms. JObj (ms @ [(''name'', JStr (rl_name x)),
     (''description'', JStr (rl_description x))])) (entity_members L x)"

definition permission_json :: "libs \<Rightarrow> permission \<Rightarrow> json option" where
  "permission_json L p = map_option (\<lambda>ms. JObj (ms @ [(''name'', JStr (pm_name p)),
     (''description'', JStr (pm_description p)), (''resource'', JStr (pm_resource p)),
     (''action'', JStr (pm_action p))])) (entity_members L p)"

text \<open>A raw message that is empty is \<open>null\<close>; one that is no JSON cannot be encoded.\<close>

definition settings_json :: "string \<Rightarrow> json option" where
  "settings_json s = (if s = '''' then Some JNull else if json_parse s = None then None else Some (JRaw s))"

definition tenant_json :: "tenant_response \<Rightarrow> json option" where
  "tenant_json t = map_option (\<lambda>st. JObj ([(''id'', JStr (ts_id t)), (''name'', JStr (ts_name t)),
     (''slug'', JStr (ts_slug t))] @ (case ts_domain t of None \<Rightarrow> [] | Some d \<Rightarrow> [(''domain'', JStr d)]) @
     [(''settings'', st), (''is_active'', JBool (ts_is_active t)), (''created_at'', JStr (ts_created_at t)),
      (''updated_at'', JStr (ts_updated_at t))])) (settings_json (ts_settings t))"

text \<open>
  \<open>userToResponse\<close>; the roles are never filled in. Its layout ends in a literal \<open>Z\<close> whatever the zone of the
  time is; times are instants here and are written in UTC, which is what Go writes for a process that runs in UTC.
\<close>

definition user_to_response :: "libs \<Rightarrow> user \<Rightarrow> json" where
  "user_to_response L u = JObj [(''id'', JStr (uuid_string L (e_id u))), (''email'', JStr (u_email u)),
     (''name'', JStr (u_name u)), (''roles'', JNull), (''is_active'', JBool (u_is_active u)),
     (''created_at'', JStr (rfc3339 (e_created_at u))), (''updated_at'', JStr (rfc3339 (e_updated_at u)))]"

definition message_json :: "string \<Rightarrow> json" where
  "message_json m = JObj [(''message'', JStr m)]"

text \<open>The replies that handlers pass on as they are.\<close>

fun reply_any :: "libs \<Rightarrow> reply_value \<Rightarrow> go_any" where
  "reply_any L (TodoReply t) = any_of (todo_response_json L t)"
| "reply_any L (RoleReply x) = any_of (role_json L x)"
| "reply_any L (RoleListReply xs) = any_of (slice_json (role_json L) xs)"
| "reply_any L (PermissionReply p) = any_of (permission_json L p)"
| "reply_any L (PermissionListReply ps) = any_of (slice_json (permission_json L) ps)"
| "reply_any L (TenantReply t) = any_of (tenant_json t)"
| "reply_any L _ = Nil"

section \<open>Calls\<close>

definition dispatchM ::
  "web_env \<Rightarrow> request \<Rightarrow> command \<Rightarrow> (reply_value \<Rightarrow> goerr option \<Rightarrow> (exchange, unit) gop) \<Rightarrow> (exchange, unit) gop" where
  "dispatchM W r cmd f = resultM NilReply (worldM (dispatch (we_commands W) (rq_ctx r) cmd)) f"

definition askM ::
  "web_env \<Rightarrow> request \<Rightarrow> query \<Rightarrow> (reply_value \<Rightarrow> goerr option \<Rightarrow> (exchange, unit) gop) \<Rightarrow> (exchange, unit) gop" where
  "askM W r q f = resultM NilReply (worldM (ask (we_queries W) (rq_ctx r) q)) f"

definition failed_assertion :: "(exchange, unit) gop" where
  "failed_assertion = panicM ''interface conversion''"

text \<open>The page of a listing as the response helper gets it.\<close>

definition respond_page :: "go_any \<Rightarrow> 'a page \<Rightarrow> int \<Rightarrow> (exchange, unit) gop" where
  "respond_page data pg limit =
     respond_cursor_paginated data (pg_next pg) (pg_prev pg) (pg_has_next pg) (pg_has_prev pg) limit"

section \<open>Todos\<close>

definition read_todo_request :: "(string \<times> json) list \<Rightarrow> (string \<times> string) option" where
  "read_todo_request ms = Option.bind (string_field ''title'' ms '''') (\<lambda>t.
     map_option (\<lambda>d. (t, d)) (string_field ''description'' ms ''''))"

definition http_create_todo :: "web_env \<Rightarrow> http_handler" where
  "http_create_todo W r = (let E = we_http W; L = we_libs W in
     with_body r read_todo_request (\<lambda>(title, desc).
     validated_then L [(''Title'', ''required,min=1,max=255'', TextField title),
         (''Description'', ''max=1000'', TextField desc)]
       (dispatchM W r (CreateTodoCommand title desc) (\<lambda>resp err. case err of
          Some e \<Rightarrow> if err_is e ErrInvalidTitle then respond_bad_request (err_text e)
                   else handle_created E r (reply_any L resp) err
        | None \<Rightarrow> handle_created E r (reply_any L resp) err))))"

definition http_list_todos :: "web_env \<Rightarrow> http_handler" where
  "http_list_todos W r = askM W r (ListTodosQuery (cursor_param r) (limit_param r)) (\<lambda>resp err. case err of
      Some e \<Rightarrow> map_error_from_request (we_http W) r e
    | None \<Rightarrow> (case resp of
        TodosReply pg limit \<Rightarrow> respond_page (any_of (nil_slice_json (todo_json (we_libs W)) (pg_items pg))) pg limit
      | _ \<Rightarrow> failed_assertion))"

definition http_get_todo :: "web_env \<Rightarrow> http_handler" where
  "http_get_todo W r = with_uuid_param (we_libs W) r ''id'' ''invalid todo ID'' (\<lambda>i.
     askM W r (GetTodoQuery i) (\<lambda>resp err. case err of
       Some e \<Rightarrow> if err_is e ErrTodoNotFound then respond_not_found ''todo not found''
                else handle_any (we_http W) r Nil err
     | None \<Rightarrow> respond_success (reply_any (we_libs W) resp)))"

definition http_update_todo :: "web_env \<Rightarrow> http_handler" where
  "http_update_todo W r = with_uuid_param (we_libs W) r ''id'' ''invalid todo ID'' (\<lambda>i.
     with_body r read_todo_request (\<lambda>(title, desc).
     validated_then (we_libs W) [(''Title'', ''omitempty,min=1,max=255'', TextField title),
         (''Description'', ''omitempty,max=1000'', TextField desc)]
       (dispatchM W r (UpdateTodoCommand i title desc) (\<lambda>resp err. case err of
          Some e \<Rightarrow> if err_is e ErrTodoNotFound then respond_not_found ''todo not found''
                   else handle_any (we_http W) r Nil err
        | None \<Rightarrow> respond_success (reply_any (we_libs W) resp)))))"

definition http_delete_todo :: "web_env \<Rightarrow> http_handler" where
  "http_delete_todo W r = with_uuid_param (we_libs W) r ''id'' ''invalid todo ID'' (\<lambda>i.
     dispatchM W r (DeleteTodoCommand i) (\<lambda>resp err. case err of
       Some e \<Rightarrow> if err_is e ErrTodoNotFound then respond_not_found ''todo not found''
                else handle_any (we_http W) r Nil err
     | None \<Rightarrow> respond_success (Val (message_json ''todo deleted''))))"

definition http_complete_todo :: "web_env \<Rightarrow> http_handler" where
  "http_complete_todo W r = with_uuid_param (we_libs W) r ''id'' ''invalid todo ID'' (\<lambda>i.
     dispatchM W r (CompleteTodoCommand i) (\<lambda>resp err. case err of
       Some e \<Rightarrow> if err_is e ErrTodoNotFound then respond_not_found ''todo not found''
                else if err_is e ErrTodoAlreadyDone then respond_conflict ''todo is already completed''
                else map_error_from_request (we_http W) r e
     | None \<Rightarrow> respond_success (reply_any (we_libs W) resp)))"

definition http_search_todos :: "web_env \<Rightarrow> http_handler" where
  "http_search_todos W r =
     (if query_get r ''q'' = '''' then respond_bad_request ''search query is required''
      else askM W r (SearchTodosQuery (query_get r ''q'') (cursor_param r) (limit_param r)) (\<lambda>resp err. case err of
        Some e \<Rightarrow> map_error_from_request (we_http W) r e
      | None \<Rightarrow> (case resp of
          TodosReply pg limit \<Rightarrow> respond_page (any_of (nil_slice_json (todo_json (we_libs W)) (pg_items pg))) pg limit
        | _ \<Rightarrow> failed_assertion)))"

section \<open>Authentication\<close>

definition string_request :: "string \<Rightarrow> (string \<times> json) list \<Rightarrow> string option" where
  "string_request k ms = string_field k ms ''''"

definition two_strings :: "string \<Rightarrow> string \<Rightarrow> (string \<times> json) list \<Rightarrow> (string \<times> string) option" where
  "two_strings a b ms = Option.bind (string_field a ms '''') (\<lambda>x. map_option (\<lambda>y. (x, y)) (string_field b ms ''''))"

definition http_register :: "web_env \<Rightarrow> http_handler" where
  "http_register W r = with_body r (\<lambda>ms. Option.bind (two_strings ''email'' ''password'' ms) (\<lambda>(e, p).
       map_option (\<lambda>n. (e, p, n)) (string_field ''name'' ms ''''))) (\<lambda>(email, password, name).
     validated_then (we_libs W) [(''Email'', ''required,email'', TextField email),
         (''Password'', ''required,min=8,max=128'', TextField password),
         (''Name'', ''required,min=1,max=255'', TextField name)]
       (dispatchM W r (RegisterUserCommand email password name) (\<lambda>_ err. case err of
          Some e \<Rightarrow> if err_is e ErrEmailAlreadyExists then respond_conflict ''email already registered''
                   else handle_created (we_http W) r Nil err
        | None \<Rightarrow> handle_created (we_http W) r
            (Val (message_json ''user registered successfully. Check your email for verification.'')) err)))"

definition tokens_json :: "token_pair \<Rightarrow> json" where
  "tokens_json t = JObj [(''access_token'', JStr (tp_access_token t)), (''refresh_token'', JStr (tp_refresh_token t)),
     (''expires_in'', JNum (itoa (tp_expires_in t))), (''token_type'', JStr ''Bearer'')]"

definition login_error :: "goerr \<Rightarrow> (exchange, unit) gop" where
  "login_error e =
     (if err_is e Query_ErrInvalidCredentials then respond_unauthorized ''invalid email or password''
      else if err_is e Query_ErrAccountDisabled then respond_unauthorized ''account is disabled''
      else if err_is e Query_ErrAccountLocked
        then respond_forbidden ''ACCOUNT_LOCKED'' ''account is temporarily locked due to too many failed attempts''
      else if err_is e Query_ErrEmailNotVerified then respond_forbidden ''EMAIL_NOT_VERIFIED'' ''email is not verified''
      else respond_internal_error ''failed to login'')"

definition http_login :: "web_env \<Rightarrow> http_handler" where
  "http_login W r = with_body r (two_strings ''email'' ''password'') (\<lambda>(email, password).
     validated_then (we_libs W) [(''Email'', ''required,email'', TextField email),
         (''Password'', ''required'', TextField password)]
       (askM W r (LoginQuery email password) (\<lambda>resp err. case err of
          Some e \<Rightarrow> login_error e
        | None \<Rightarrow> (case resp of
            UserReply u \<Rightarrow> dispatchM W r (GenerateTokensCommand u 0) (\<lambda>resp2 err2. case err2 of
                Some e \<Rightarrow> respond_internal_error ''failed to generate tokens''
              | None \<Rightarrow> (case resp2 of
                  TokensReply t \<Rightarrow> handle_any (we_http W) r (Val (tokens_json t)) None
                | _ \<Rightarrow> failed_assertion))
          | _ \<Rightarrow> failed_assertion))))"

definition http_refresh_token :: "web_env \<Rightarrow> http_handler" where
  "http_refresh_token W r = with_body r (string_request ''refresh_token'') (\<lambda>s.
     validated_then (we_libs W) [(''RefreshToken'', ''required'', TextField s)]
       (dispatchM W r (RefreshTokenCommand s 0) (\<lambda>resp err. case err of
          Some e \<Rightarrow> if err_is e ErrInvalidRefreshToken then respond_unauthorized ''invalid or expired refresh token''
                   else respond_internal_error ''failed to refresh token''
        | None \<Rightarrow> (case resp of
            TokensReply t \<Rightarrow> handle_any (we_http W) r (Val (tokens_json t)) None
          | _ \<Rightarrow> failed_assertion))))"

text \<open>The context value with the identifier of the access token is never set.\<close>

definition http_logout :: "web_env \<Rightarrow> http_handler" where
  "http_logout W r = with_body r (string_request ''refresh_token'') (\<lambda>s.
     dispatchM W r (LogoutCommand s '''' (15 * minute) None) (\<lambda>_ err.
     handle_any (we_http W) r (Val (message_json ''logged out successfully'')) err))"

definition http_logout_all :: "web_env \<Rightarrow> http_handler" where
  "http_logout_all W r = (let userID = get_user_id (rq_ctx r) in
     if userID = '''' then respond_error 401 ''UNAUTHORIZED'' ''user not authenticated''
     else case uuid_parse (we_libs W) userID of
       None \<Rightarrow> respond_bad_request ''invalid user ID''
     | Some uid \<Rightarrow> dispatchM W r (LogoutAllCommand uid) (\<lambda>_ err.
         handle_any (we_http W) r (Val (message_json ''all sessions terminated'')) err))"

definition http_auth_me :: "web_env \<Rightarrow> http_handler" where
  "http_auth_me W r = (let userID = get_user_id (rq_ctx r) in
     if userID = '''' then respond_error 401 ''UNAUTHORIZED'' ''user not authenticated''
     else handle_any (we_http W) r (Val (JObj [(''id'', JStr userID), (''email'', JStr (get_user_email (rq_ctx r))),
       (''name'', JStr ''''), (''is_active'', JBool True)])) None)"

definition http_verify_email :: "web_env \<Rightarrow> http_handler" where
  "http_verify_email W r = (let tok = query_get r ''token'' in
     if tok = '''' then respond_bad_request ''token is required''
     else dispatchM W r (VerifyEmailCommand tok) (\<lambda>_ err. case err of
         Some e \<Rightarrow> if err_is e ErrInvalidVerifyToken \<or> err_is e ErrVerifyTokenExpired
                  then respond_bad_request (err_text e) else handle_any (we_http W) r Nil err
       | None \<Rightarrow> handle_any (we_http W) r (Val (message_json ''email verified successfully'')) err))"

definition http_forgot_password :: "web_env \<Rightarrow> http_handler" where
  "http_forgot_password W r = with_body r (string_request ''email'') (\<lambda>email.
     validated_then (we_libs W) [(''Email'', ''required,email'', TextField email)]
       (dispatchM W r (ForgotPasswordCommand email) (\<lambda>_ _.
         respond_success (Val (message_json ''if the email exists, a reset link has been sent'')))))"

definition http_reset_password :: "web_env \<Rightarrow> http_handler" where
  "http_reset_password W r = with_body r (two_strings ''token'' ''new_password'') (\<lambda>(tok, pw).
     validated_then (we_libs W) [(''Token'', ''required'', TextField tok),
         (''NewPassword'', ''required,min=8'', TextField pw)]
       (dispatchM W r (ResetPasswordCommand tok pw) (\<lambda>_ err. case err of
          Some e \<Rightarrow> if err_is e ErrInvalidResetToken \<or> err_is e ErrResetTokenExpired
                   then respond_bad_request (err_text e) else handle_any (we_http W) r Nil err
        | None \<Rightarrow> handle_any (we_http W) r (Val (message_json ''password reset successfully'')) err)))"

definition http_resend_verification :: "web_env \<Rightarrow> http_handler" where
  "http_resend_verification W r = with_body r (string_request ''email'') (\<lambda>email.
     validated_then (we_libs W) [(''Email'', ''required,email'', TextField email)]
       (dispatchM W r (ResendVerificationCommand email) (\<lambda>_ _.
         respond_success (Val (message_json ''if the email exists, a verification link has been sent'')))))"

section \<open>Authorization\<close>

definition http_create_role :: "web_env \<Rightarrow> http_handler" where
  "http_create_role W r = with_body r (two_strings ''name'' ''description'') (\<lambda>(name, desc).
     validated_then (we_libs W) [(''Name'', ''required,min=1,max=100'', TextField name),
         (''Description'', ''max=500'', TextField desc)]
       (dispatchM W r (CreateRoleCommand name desc) (\<lambda>resp err.
         handle_created (we_http W) r (reply_any (we_libs W) resp) err)))"

text \<open>The two listings answer 500 with the text of the error, in production too.\<close>

definition http_list_roles :: "web_env \<Rightarrow> http_handler" where
  "http_list_roles W r = askM W r (ListRolesQuery (cursor_param r) (limit_param r)) (\<lambda>resp err. case err of
      Some e \<Rightarrow> respond_error 500 ''INTERNAL_ERROR'' (err_text e)
    | None \<Rightarrow> (case resp of
        RolesReply pg \<Rightarrow> respond_page (any_of (nil_slice_json (role_json (we_libs W)) (pg_items pg))) pg (limit_param r)
      | _ \<Rightarrow> failed_assertion))"

definition http_get_role :: "web_env \<Rightarrow> http_handler" where
  "http_get_role W r = with_uuid_param (we_libs W) r ''id'' ''invalid role ID'' (\<lambda>i.
     askM W r (GetRoleQuery i) (\<lambda>resp err. handle_any (we_http W) r (reply_any (we_libs W) resp) err))"

definition http_update_role :: "web_env \<Rightarrow> http_handler" where
  "http_update_role W r = with_uuid_param (we_libs W) r ''id'' ''invalid role ID'' (\<lambda>i.
     with_body r (two_strings ''name'' ''description'') (\<lambda>(name, desc).
     dispatchM W r (UpdateRoleCommand i name desc) (\<lambda>resp err.
       handle_any (we_http W) r (reply_any (we_libs W) resp) err)))"

definition http_delete_role :: "web_env \<Rightarrow> http_handler" where
  "http_delete_role W r = with_uuid_param (we_libs W) r ''id'' ''invalid role ID'' (\<lambda>i.
     dispatchM W r (DeleteRoleCommand i) (\<lambda>_ err. handle_no_content (we_http W) r err))"

definition read_permission_request :: "(string \<times> json) list \<Rightarrow> (string \<times> string \<times> string \<times> string) option" where
  "read_permission_request ms = Option.bind (two_strings ''name'' ''description'' ms) (\<lambda>(n, d).
     map_option (\<lambda>(x, a). (n, d, x, a)) (two_strings ''resource'' ''action'' ms))"

definition http_create_permission :: "web_env \<Rightarrow> http_handler" where
  "http_create_permission W r = with_body r read_permission_request (\<lambda>(name, desc, resource, action).
     validated_then (we_libs W) [(''Name'', ''required,min=1,max=100'', TextField name),
         (''Description'', ''max=500'', TextField desc), (''Resource'', ''required,min=1,max=100'', TextField resource),
         (''Action'', ''required,min=1,max=50'', TextField action)]
       (dispatchM W r (CreatePermissionCommand name desc resource action) (\<lambda>resp err.
         handle_created (we_http W) r (reply_any (we_libs W) resp) err)))"

definition http_list_permissions :: "web_env \<Rightarrow> http_handler" where
  "http_list_permissions W r =
     askM W r (ListPermissionsQuery (cursor_param r) (limit_param r)) (\<lambda>resp err. case err of
      Some e \<Rightarrow> respond_error 500 ''INTERNAL_ERROR'' (err_text e)
    | None \<Rightarrow> (case resp of
        PermissionsReply pg \<Rightarrow>
          respond_page (any_of (nil_slice_json (permission_json (we_libs W)) (pg_items pg))) pg (limit_param r)
      | _ \<Rightarrow> failed_assertion))"

definition http_get_permission :: "web_env \<Rightarrow> http_handler" where
  "http_get_permission W r = with_uuid_param (we_libs W) r ''id'' ''invalid permission ID'' (\<lambda>i.
     askM W r (GetPermissionQuery i) (\<lambda>resp err. handle_any (we_http W) r (reply_any (we_libs W) resp) err))"

definition http_update_permission :: "web_env \<Rightarrow> http_handler" where
  "http_update_permission W r = with_uuid_param (we_libs W) r ''id'' ''invalid permission ID'' (\<lambda>i.
     with_body r read_permission_request (\<lambda>(name, desc, resource, action).
     dispatchM W r (UpdatePermissionCommand i name desc resource action) (\<lambda>resp err.
       handle_any (we_http W) r (reply_any (we_libs W) resp) err)))"

definition http_delete_permission :: "web_env \<Rightarrow> http_handler" where
  "http_delete_permission W r = with_uuid_param (we_libs W) r ''id'' ''invalid permission ID'' (\<lambda>i.
     dispatchM W r (DeletePermissionCommand i) (\<lambda>_ err. handle_no_content (we_http W) r err))"

definition two_uuids :: "libs \<Rightarrow> string \<Rightarrow> string \<Rightarrow> (string \<times> json) list \<Rightarrow> (uuid \<times> uuid) option" where
  "two_uuids L a b ms = Option.bind (typed_field (read_uuid L) a ms 0) (\<lambda>x.
     map_option (\<lambda>y. (x, y)) (typed_field (read_uuid L) b ms 0))"

text \<open>The assignments take both identifiers from the body; those of the path are not read.\<close>

definition http_assign_role :: "web_env \<Rightarrow> http_handler" where
  "http_assign_role W r = with_body r (two_uuids (we_libs W) ''user_id'' ''role_id'') (\<lambda>(u, x).
     validated_then (we_libs W) [(''UserID'', ''required'', UuidField u), (''RoleID'', ''required'', UuidField x)]
       (dispatchM W r (AssignRoleCommand u x) (\<lambda>_ err. handle_no_content (we_http W) r err)))"

definition http_remove_role :: "web_env \<Rightarrow> http_handler" where
  "http_remove_role W r = with_uuid_param (we_libs W) r ''userId'' ''invalid user ID'' (\<lambda>u.
     with_uuid_param (we_libs W) r ''roleId'' ''invalid role ID'' (\<lambda>x.
     dispatchM W r (UnassignRoleCommand u x) (\<lambda>_ err. handle_no_content (we_http W) r err)))"

definition http_get_user_roles :: "web_env \<Rightarrow> http_handler" where
  "http_get_user_roles W r = with_uuid_param (we_libs W) r ''userId'' ''invalid user ID'' (\<lambda>u.
     askM W r (GetUserRolesQuery u) (\<lambda>resp err. handle_any (we_http W) r (reply_any (we_libs W) resp) err))"

definition http_assign_permission :: "web_env \<Rightarrow> http_handler" where
  "http_assign_permission W r = with_body r (two_uuids (we_libs W) ''role_id'' ''permission_id'') (\<lambda>(x, p).
     validated_then (we_libs W) [(''RoleID'', ''required'', UuidField x), (''PermissionID'', ''required'', UuidField p)]
       (dispatchM W r (AssignPermissionCommand x p) (\<lambda>_ err. handle_no_content (we_http W) r err)))"

definition http_remove_permission :: "web_env \<Rightarrow> http_handler" where
  "http_remove_permission W r = with_uuid_param (we_libs W) r ''roleId'' ''invalid role ID'' (\<lambda>x.
     with_uuid_param (we_libs W) r ''permissionId'' ''invalid permission ID'' (\<lambda>p.
     dispatchM W r (UnassignPermissionCommand x p) (\<lambda>_ err. handle_no_content (we_http W) r err)))"

definition http_get_role_permissions :: "web_env \<Rightarrow> http_handler" where
  "http_get_role_permissions W r = with_uuid_param (we_libs W) r ''roleId'' ''invalid role ID'' (\<lambda>x.
     askM W r (GetRolePermissionsQuery x) (\<lambda>resp err. handle_any (we_http W) r (reply_any (we_libs W) resp) err))"

definition http_check_permission :: "web_env \<Rightarrow> http_handler" where
  "http_check_permission W r = (let userID = get_user_id (rq_ctx r) in
     if userID = '''' then respond_error 401 ''UNAUTHORIZED'' ''user not authenticated''
     else case uuid_parse (we_libs W) userID of
       None \<Rightarrow> respond_bad_request ''invalid user ID''
     | Some uid \<Rightarrow> with_body r (two_strings ''resource'' ''action'') (\<lambda>(resource, action).
         validated_then (we_libs W) [(''Resource'', ''required'', TextField resource),
             (''Action'', ''required'', TextField action)]
           (askM W r (CheckPermissionQuery uid resource action) (\<lambda>resp err.
             handle_any (we_http W) r (Val (JObj [(''allowed'', JBool (case resp of BoolReply b \<Rightarrow> b | _ \<Rightarrow> False))])) err))))"

section \<open>Users\<close>

definition http_list_users :: "web_env \<Rightarrow> http_handler" where
  "http_list_users W r = askM W r (ListUsersQuery (cursor_param r) (limit_param r)) (\<lambda>resp err. case err of
      Some e \<Rightarrow> map_error_from_request (we_http W) r e
    | None \<Rightarrow> (case resp of
        UsersReply pg limit \<Rightarrow> respond_page (Val (JArr (map (user_to_response (we_libs W)) (pg_items pg)))) pg limit
      | _ \<Rightarrow> failed_assertion))"

definition user_reply :: "web_env \<Rightarrow> (go_any \<Rightarrow> (exchange, unit) gop) \<Rightarrow> reply_value \<Rightarrow> (exchange, unit) gop" where
  "user_reply W f resp = (case resp of
      UserReply u \<Rightarrow> f (Val (user_to_response (we_libs W) u)) | _ \<Rightarrow> failed_assertion)"

text \<open>The tags of the request struct are never checked: this handler has no validator.\<close>

definition http_create_user :: "web_env \<Rightarrow> http_handler" where
  "http_create_user W r = with_body r (\<lambda>ms. Option.bind (two_strings ''email'' ''name'' ms) (\<lambda>(e, n).
       map_option (\<lambda>a. (e, n, a)) (bool_field ''is_active'' ms False))) (\<lambda>(email, name, active).
     dispatchM W r (CreateUserCommand email name active) (\<lambda>resp err. case err of
       Some e \<Rightarrow> handle_any (we_http W) r Nil err
     | None \<Rightarrow> user_reply W (\<lambda>d. handle_created (we_http W) r d None) resp))"

definition http_get_user :: "web_env \<Rightarrow> http_handler" where
  "http_get_user W r = with_uuid_param (we_libs W) r ''id'' ''invalid user ID'' (\<lambda>i.
     askM W r (GetUserQuery i) (\<lambda>resp err. case err of
       Some e \<Rightarrow> handle_any (we_http W) r Nil err
     | None \<Rightarrow> user_reply W respond_success resp))"

text \<open>\<open>NewHandler\<close> leaves \<open>profileProv\<close> nil, so the call on it panics.\<close>

definition http_user_me :: "web_env \<Rightarrow> http_handler" where
  "http_user_me W r = (let userID = get_user_id (rq_ctx r) in
     if userID = '''' then respond_unauthorized ''user not authenticated''
     else case uuid_parse (we_libs W) userID of
       None \<Rightarrow> respond_bad_request ''invalid user ID''
     | Some i \<Rightarrow> panicM ''runtime error: invalid memory address or nil pointer dereference'')"

text \<open>A missing \<open>is_active\<close> counts as true.\<close>

definition http_update_user :: "web_env \<Rightarrow> http_handler" where
  "http_update_user W r = with_uuid_param (we_libs W) r ''id'' ''invalid user ID'' (\<lambda>i.
     with_body r (\<lambda>ms. Option.bind (two_strings ''name'' ''email'' ms) (\<lambda>(n, e).
       map_option (\<lambda>a. (n, e, a)) (pointer_field read_bool ''is_active'' ms))) (\<lambda>(name, email, active).
     dispatchM W r (UpdateUserCommand i name email (case active of Some a \<Rightarrow> a | None \<Rightarrow> True)) (\<lambda>resp err. case err of
       Some e \<Rightarrow> handle_any (we_http W) r Nil err
     | None \<Rightarrow> user_reply W respond_success resp)))"

definition http_delete_user :: "web_env \<Rightarrow> http_handler" where
  "http_delete_user W r = with_uuid_param (we_libs W) r ''id'' ''invalid user ID'' (\<lambda>i.
     dispatchM W r (DeleteUserCommand i) (\<lambda>_ err.
       handle_any (we_http W) r (Val (message_json ''user deleted'')) err))"

section \<open>Tenants\<close>

definition http_create_tenant :: "web_env \<Rightarrow> http_handler" where
  "http_create_tenant W r = with_body r (\<lambda>ms. Option.bind (two_strings ''name'' ''slug'' ms) (\<lambda>(n, s).
       map_option (\<lambda>d. (n, s, d)) (pointer_field read_string ''domain'' ms))) (\<lambda>(name, slg, dm).
     validated_then (we_libs W) [(''Name'', ''required'', TextField name), (''Slug'', ''required'', TextField slg)]
       (dispatchM W r (CreateTenantCommand name slg dm (raw_field ''settings'' (rq_body r))) (\<lambda>resp err. case err of
          Some e \<Rightarrow> if err_is e ErrAlreadyExists then respond_conflict (err_text e)
                   else handle_created (we_http W) r (reply_any (we_libs W) resp) err
        | None \<Rightarrow> handle_created (we_http W) r (reply_any (we_libs W) resp) err)))"

definition http_list_tenants :: "web_env \<Rightarrow> http_handler" where
  "http_list_tenants W r = askM W r (ListTenantsQuery (cursor_param r) (limit_param r)) (\<lambda>resp err. case err of
      Some e \<Rightarrow> map_error_from_request (we_http W) r e
    | None \<Rightarrow> (case resp of
        TenantsReply ts pg limit \<Rightarrow> respond_page (any_of (slice_json tenant_json ts)) pg limit
      | _ \<Rightarrow> failed_assertion))"

definition tenant_answer :: "web_env \<Rightarrow> request \<Rightarrow> (exchange, unit) gop \<Rightarrow> goerr option \<Rightarrow> (exchange, unit) gop" where
  "tenant_answer W r f err = (case err of
      Some e \<Rightarrow> if err_is e ErrNotFound then respond_not_found ''tenant not found'' else f
    | None \<Rightarrow> f)"

definition http_get_tenant :: "web_env \<Rightarrow> http_handler" where
  "http_get_tenant W r = with_uuid_param (we_libs W) r ''id'' ''invalid tenant ID'' (\<lambda>i.
     askM W r (GetTenantQuery i) (\<lambda>resp err.
       tenant_answer W r (handle_any (we_http W) r (reply_any (we_libs W) resp) err) err))"

definition http_update_tenant :: "web_env \<Rightarrow> http_handler" where
  "http_update_tenant W r = with_uuid_param (we_libs W) r ''id'' ''invalid tenant ID'' (\<lambda>i.
     with_body r (\<lambda>ms. Option.bind (pointer_field read_string ''name'' ms) (\<lambda>n.
       Option.bind (pointer_field read_string ''domain'' ms) (\<lambda>d.
       map_option (\<lambda>a. (n, d, a)) (pointer_field read_bool ''is_active'' ms)))) (\<lambda>(name, dm, active).
     dispatchM W r (UpdateTenantCommand i name dm (raw_field ''settings'' (rq_body r)) active) (\<lambda>resp err.
       tenant_answer W r (handle_any (we_http W) r (reply_any (we_libs W) resp) err) err)))"

definition http_delete_tenant :: "web_env \<Rightarrow> http_handler" where
  "http_delete_tenant W r = with_uuid_param (we_libs W) r ''id'' ''invalid tenant ID'' (\<lambda>i.
     dispatchM W r (DeleteTenantCommand i) (\<lambda>_ err. tenant_answer W r (handle_no_content (we_http W) r err) err))"

end
