(* ===== verification/Audit_Log.thy ===== *)
theory Audit_Log
  imports Core_Domain
begin

text \<open>
  \<open>internal/shared/auditlog\<close>: the entries of the two log tables and their inserts. The widths of the
  \<open>VARCHAR\<close> columns of migrations 005 and 009 are part of the statements here, since the values come straight
  from the request; a width counts the code points of a text.
\<close>

section \<open>Entries\<close>

record audit_log =
  al_id :: string
  al_request_id :: string
  al_user_id :: "string option"
  al_user_email :: "string option"
  al_method :: string
  al_path :: string
  al_status_code :: int
  al_duration_ms :: int
  al_ip :: string
  al_user_agent :: string
  al_request_body :: "string option"
  al_response_size :: int
  al_tenant_id :: string
  al_created_at :: time

record error_log =
  el_id :: string
  el_request_id :: string
  el_user_id :: "string option"
  el_user_email :: "string option"
  el_level :: string
  el_message :: string
  el_error :: string
  el_stack_trace :: string
  el_method :: string
  el_path :: string
  el_status_code :: int
  el_ip :: string
  el_user_agent :: string
  el_request_body :: "string option"
  el_metadata :: string
  el_tenant_id :: string
  el_created_at :: time

section \<open>Statements\<close>

definition code_points :: "string \<Rightarrow> nat" where
  "code_points s = length (filter (\<lambda>c. \<not> (0x80 \<le> (of_char c :: nat) \<and> (of_char c :: nat) < 0xC0)) s)"

definition fits :: "nat \<Rightarrow> string \<Rightarrow> bool" where
  "fits n s \<longleftrightarrow> code_points s \<le> n"

definition too_long :: "nat \<Rightarrow> goerr" where
  "too_long n = PqErr ''22001'' (''value too long for type character varying('' @ itoa (int n) @ '')'')"

definition varchar :: "nat \<Rightarrow> string \<Rightarrow> bool \<times> goerr" where
  "varchar n s = (fits n s, too_long n)"

text \<open>\<open>int32(x)\<close> wraps.\<close>

definition to_int32 :: "int \<Rightarrow> int" where
  "to_int32 i = (i + 2 ^ 31) mod 2 ^ 32 - 2 ^ 31"

text \<open>An identifier of a user that is no UUID is stored as \<open>NULL\<close>.\<close>

definition ptr_string_to_null_uuid :: "libs \<Rightarrow> string option \<Rightarrow> uuid option" where
  "ptr_string_to_null_uuid L s = Option.bind s (uuid_parse L)"

definition audit_row :: "libs \<Rightarrow> uuid \<Rightarrow> audit_log \<Rightarrow> audit_logs_row" where
  "audit_row L i a = \<lparr>au_id = i, au_request_id = al_request_id a,
     au_user_id = ptr_string_to_null_uuid L (al_user_id a), au_user_email = al_user_email a,
     au_method = al_method a, au_path = al_path a, au_status_code = to_int32 (al_status_code a),
     au_duration_ms = al_duration_ms a, au_ip = al_ip a, au_user_agent = al_user_agent a,
     au_request_body = al_request_body a, au_response_size = to_int32 (al_response_size a),
     au_created_at = al_created_at a, au_tenant_id = al_tenant_id a\<rparr>"

definition insert_audit_log :: "libs \<Rightarrow> audit_log \<Rightarrow> (world, unit) gop" where
  "insert_audit_log L a = (case uuid_parse L (al_id a) of
      None \<Rightarrow> errM (ExtErr ''invalid UUID format'')
    | Some i \<Rightarrow> wrapM ''insert audit log'' (insertM
        (\<lambda>d. [varchar 100 (al_request_id a), varchar 255 (or_empty (al_user_email a)), varchar 10 (al_method a),
          varchar 500 (al_path a), varchar 45 (al_ip a), varchar 36 (al_tenant_id a),
          (i \<notin> au_id ` set (audit_logs d), unique_violation ''audit_logs_pkey'')])
        (\<lambda>d. d\<lparr>audit_logs := audit_logs d @ [audit_row L i a]\<rparr>)))"

definition error_row :: "libs \<Rightarrow> uuid \<Rightarrow> string \<Rightarrow> error_log \<Rightarrow> error_logs_row" where
  "error_row L i meta e = \<lparr>er_id = i, er_request_id = el_request_id e,
     er_user_id = ptr_string_to_null_uuid L (el_user_id e), er_user_email = el_user_email e,
     er_level = el_level e, er_message = el_message e, er_error = el_error e,
     er_stack_trace = el_stack_trace e, er_method = el_method e, er_path = el_path e,
     er_status_code = to_int32 (el_status_code e), er_ip = el_ip e, er_user_agent = el_user_agent e,
     er_request_body = el_request_body e, er_metadata = meta, er_created_at = el_created_at e,
     er_tenant_id = el_tenant_id e\<rparr>"

definition insert_error_log :: "libs \<Rightarrow> error_log \<Rightarrow> (world, unit) gop" where
  "insert_error_log L e = (case uuid_parse L (el_id e) of
      None \<Rightarrow> errM (ExtErr ''invalid UUID format'')
    | Some i \<Rightarrow> wrapM ''insert error log'' (insertM
        (\<lambda>d. [varchar 100 (el_request_id e), varchar 255 (or_empty (el_user_email e)), varchar 20 (el_level e),
          varchar 10 (el_method e), varchar 500 (el_path e), varchar 45 (el_ip e), varchar 36 (el_tenant_id e),
          (jsonb L (el_metadata e) \<noteq> None, PqErr ''22P02'' ''invalid input syntax for type json''),
          (i \<notin> er_id ` set (error_logs d), unique_violation ''error_logs_pkey'')])
        (\<lambda>d. d\<lparr>error_logs := error_logs d @ [error_row L i (or_empty (jsonb L (el_metadata e))) e]\<rparr>)))"

end
