(* ===== verification/Http_Middleware.thy ===== *)
theory Http_Middleware
  imports Http_Core Redis_Store Audit_Log Token_Service Config "HOL-Library.List_Lexorder"
begin

text \<open>
  \<open>internal/shared/middleware\<close>: a middleware maps a handler to a handler. The writers that some of them
  put around the response pass every call through, so what they captured is read off the response
  afterwards; only the formatting writer buffers, and gets a response of its own that shares the
  header map. CORS comes from a library and metrics only feed one; they are parameters where the chain is
  put together.
\<close>

type_synonym middleware = "http_handler \<Rightarrow> http_handler"

definition writes_body :: "request \<Rightarrow> bool" where
  "writes_body r \<longleftrightarrow> rq_method r = ''POST'' \<or> rq_method r = ''PUT'' \<or> rq_method r = ''PATCH''"

text \<open>
  The codes and the bytes that went through a transparent writer while a handler ran.
\<close>

definition observed :: "http_handler \<Rightarrow> request \<Rightarrow> (exchange, int list \<times> string) gop" where
  "observed next r x = bindM (next r) (\<lambda>_. readM (\<lambda>x'.
     (drop (length (rs_codes (xc_resp x))) (rs_codes (xc_resp x')),
      drop (length (rs_body (xc_resp x))) (rs_body (xc_resp x'))))) x"

section \<open>Errors\<close>

text \<open>
  Texts of the standard library and of the runtime that only show up in logs and responses:
  \<open>http.StatusText\<close>, the type of an error under \<open>%T\<close>, \<open>time.Duration.String\<close>, and what \<open>io.ReadAll\<close> still finds in a body a handler has
  decoded from, which depends on the read-ahead of the decoder.
\<close>

record go_texts =
  gt_status_text :: "int \<Rightarrow> string"
  gt_type :: "goerr \<Rightarrow> string"
  gt_duration :: "time \<Rightarrow> string"
  gt_unread :: "request \<Rightarrow> string"

definition non_empty :: "string \<Rightarrow> string option" where
  "non_empty s = (if s = '''' then None else Some s)"

definition persist_error ::
  "libs \<Rightarrow> go_texts \<Rightarrow> request \<Rightarrow> int \<Rightarrow> string \<Rightarrow> string \<Rightarrow> string \<Rightarrow> (world, unit) gop" where
  "persist_error L T r st msg errMsg stack = bindM new_uuidM (\<lambda>i. bindM nowM (\<lambda>now.
     let entry = \<lparr>el_id = uuid_string L i, el_request_id = get_request_id (rq_ctx r),
           el_user_id = non_empty (get_user_id (rq_ctx r)), el_user_email = non_empty (get_user_email (rq_ctx r)),
           el_level = ''error'', el_message = msg, el_error = errMsg, el_stack_trace = stack,
           el_method = rq_method r, el_path = rq_path r, el_status_code = st, el_ip = rq_remote_addr r,
           el_user_agent = header_get r ''User-Agent'',
           el_request_body = (if writes_body r then non_empty (gt_unread T r) else None),
           el_metadata = json_text (JObj [(''query'', JStr (rq_raw_query r))]),
           el_tenant_id = get_tenant_id (rq_ctx r), el_created_at = now\<rparr>
     in tryM (insert_error_log L entry) (\<lambda>res. case res of
          Inl e \<Rightarrow> logM ''error'' ''failed to persist error log'' [(''error'', err_text e)]
        | Inr _ \<Rightarrow> retM ())))"

definition error_handler :: "http_env \<Rightarrow> libs \<Rightarrow> go_texts \<Rightarrow> middleware" where
  "error_handler E L T next r x = (case next r x of
      (Panic p, x') \<Rightarrow>
        bindM (worldM (spanM (span_record_error (Errorf p) \<circ> set_span_status ''panic recovered''))) (\<lambda>_.
        bindM (worldM (logM ''error'' ''panic recovered'' [(''error'', p), (''stack'', he_stack E)])) (\<lambda>_.
        bindM (worldM (persist_error L T r 500 ''panic recovered'' p (he_stack E))) (\<lambda>_.
        respond_internal_from_request E
          (with_context r (set_error_info (rq_ctx r) (Errorf p) (he_stack E))) p))) x'
    | res \<Rightarrow> res)"

text \<open>The capturing writer's \<open>CaptureError\<close> is never called, so its message and stack stay empty.\<close>

definition error_recorder :: "libs \<Rightarrow> go_texts \<Rightarrow> middleware" where
  "error_recorder L T next r = bindM (observed next r) (\<lambda>(codes, _).
     let st = last_code codes in
     if 500 \<le> st then
       (let (msg, errMsg, stack) = (case get_error_info (rq_ctx r) of
              Some info \<Rightarrow> (err_text (ei_err info), err_text (ei_err info), ei_stack info)
            | None \<Rightarrow> (gt_status_text T st, '''', ''''))
        in bindM (worldM (spanM (span_add_event ''exception'' [(''exception.message'', AString errMsg)] \<circ>
             span_record_error (Errorf errMsg) \<circ> set_span_status msg))) (\<lambda>_.
           worldM (persist_error L T r st msg errMsg stack)))
     else retM ())"

section \<open>Tracing\<close>

text \<open>
  What OpenTelemetry and \<open>net/http\<close> decide: whether the span of a request is recorded, and with which
  identifiers (from the headers or new ones), and the texts of the URL, its scheme and the protocol.
\<close>

record otel =
  ot_start :: "request \<Rightarrow> world \<Rightarrow> (string \<times> string) option"
  ot_url :: "request \<Rightarrow> string"
  ot_scheme :: "request \<Rightarrow> string"
  ot_proto :: "request \<Rightarrow> string"

definition request_span :: "otel \<Rightarrow> request \<Rightarrow> string \<times> string \<Rightarrow> span" where
  "request_span ot r ids = \<lparr>sp_trace_id = fst ids, sp_span_id = snd ids, sp_name = rq_method r @ '' '' @ rq_path r,
     sp_attributes = [(''http.method'', AString (rq_method r)), (''http.path'', AString (rq_path r)),
       (''http.route'', AString (rq_path r)), (''http.target'', AString (ot_url ot r)),
       (''http.scheme'', AString (ot_scheme ot r)), (''http.flavor'', AString (ot_proto ot r)),
       (''net.host.name'', AString (rq_host r))],
     sp_status = None, sp_events = []\<rparr>"

definition finish_span :: "int \<Rightarrow> span \<Rightarrow> span" where
  "finish_span st s = (let s' = s\<lparr>sp_attributes := sp_attributes s @ [(''http.status_code'', AInt st)]\<rparr> in
     if 500 \<le> st then set_span_status (''server error: '' @ itoa st) s'
     else if 400 \<le> st then set_span_status (''client error: '' @ itoa st) s' else s')"

text \<open>\<open>span.End\<close>, also after a panic; the context outside has the span it had before.\<close>

definition end_span :: "span option \<Rightarrow> world \<Rightarrow> world" where
  "end_span outer w = w\<lparr>spans := spans w @ (case active_span w of None \<Rightarrow> [] | Some s \<Rightarrow> [s]), active_span := outer\<rparr>"

definition tracing :: "otel \<Rightarrow> middleware" where
  "tracing ot next r x =
     (let w = xc_world x; sp = map_option (request_span ot r) (ot_start ot r w) in
      case bindM (observed next r) (\<lambda>(codes, _). worldM (spanM (finish_span (last_code codes))))
          (x\<lparr>xc_world := w\<lparr>active_span := sp\<rparr>\<rparr>) of
        (res, x') \<Rightarrow> (res, x'\<lparr>xc_world := end_span (active_span w) (xc_world x')\<rparr>))"

section \<open>Request identifier, log and audit log\<close>

definition request_id :: "libs \<Rightarrow> middleware" where
  "request_id L next r =
     bindM (if header_get r ''X-Request-ID'' = '''' then bindM (worldM new_uuidM) (\<lambda>i. retM (uuid_string L i))
            else retM (header_get r ''X-Request-ID'')) (\<lambda>i.
     bindM (set_header ''X-Request-ID'' i) (\<lambda>_.
     next (with_context r ((rq_ctx r)\<lparr>cx_request_id := Some i\<rparr>))))"

definition logger :: "go_texts \<Rightarrow> middleware" where
  "logger T next r = bindM (worldM nowM) (\<lambda>start. bindM (observed next r) (\<lambda>(codes, _).
     bindM (worldM nowM) (\<lambda>now. worldM (logM ''info'' ''request''
       ([(''method'', rq_method r), (''path'', rq_path r), (''status'', itoa (last_code codes)),
         (''duration'', gt_duration T (now - start)), (''request_id'', get_request_id (rq_ctx r))] @
        (if get_user_id (rq_ctx r) \<noteq> '''' then [(''user_id'', get_user_id (rq_ctx r))] else []) @
        (if get_user_email (rq_ctx r) \<noteq> '''' then [(''user_email'', get_user_email (rq_ctx r))] else []))))))"

definition audit_log_mw :: "libs \<Rightarrow> middleware" where
  "audit_log_mw L next r = bindM (worldM nowM) (\<lambda>start. bindM (observed next r) (\<lambda>(codes, written).
     bindM (worldM nowM) (\<lambda>stop. bindM (worldM new_uuidM) (\<lambda>i. bindM (worldM nowM) (\<lambda>now.
     ignoreM (worldM (insert_audit_log L
       \<lparr>al_id = uuid_string L i, al_request_id = get_request_id (rq_ctx r),
        al_user_id = non_empty (get_user_id (rq_ctx r)), al_user_email = non_empty (get_user_email (rq_ctx r)),
        al_method = rq_method r, al_path = rq_path r, al_status_code = last_code codes,
        al_duration_ms = go_quot (stop - start) 1000000, al_ip = rq_remote_addr r,
        al_user_agent = header_get r ''User-Agent'',
        al_request_body = (if writes_body r then non_empty (rq_body r) else None),
        al_response_size = int (length written), al_tenant_id = get_tenant_id (rq_ctx r),
        al_created_at = now\<rparr>)))))))"

section \<open>Authentication and authorization\<close>

definition bearer_token :: "string \<Rightarrow> string" where
  "bearer_token s = (if 7 < length s \<and> take 7 s = ''Bearer '' then drop 7 s else s)"

definition claims_ctx :: "token_claims \<Rightarrow> ctx \<Rightarrow> ctx" where
  "claims_ctx c cx = cx\<lparr>cx_user_id := Some (tc_user_id c), cx_user_email := Some (tc_email c),
     cx_user_role := Some (tc_role c), cx_tenant_claim := Some (tc_tenant_id c)\<rparr>"

definition with_claims :: "token_service \<Rightarrow> request \<Rightarrow> (token_claims \<Rightarrow> (exchange, unit) gop) \<Rightarrow> (exchange, unit) gop" where
  "with_claims svc r f =
     (if header_get r ''Authorization'' = '''' then respond_unauthorized ''missing token''
      else tryM (worldM (ts_validate_token svc (bearer_token (header_get r ''Authorization'')))) (\<lambda>res.
        case res of
          Inl _ \<Rightarrow> respond_unauthorized ''invalid token''
        | Inr c \<Rightarrow> f c))"

definition authentication :: "token_service \<Rightarrow> middleware" where
  "authentication svc next r = with_claims svc r (\<lambda>c. next (with_context r (claims_ctx c (rq_ctx r))))"

definition authentication_with_denylist ::
  "token_service \<Rightarrow> (string \<Rightarrow> (world, bool) gop) \<Rightarrow> middleware" where
  "authentication_with_denylist svc denied next r = with_claims svc r (\<lambda>c.
     bindM (if tc_jti c \<noteq> '''' then worldM (denied (tc_jti c)) else retM False) (\<lambda>d.
     if d then respond_unauthorized ''token has been revoked''
     else next (with_context r (claims_ctx c (rq_ctx r)))))"

type_synonym authorizer = "uuid \<Rightarrow> string \<Rightarrow> string \<Rightarrow> (world, bool) gop"

definition authorization :: "libs \<Rightarrow> authorizer \<Rightarrow> string \<Rightarrow> string \<Rightarrow> middleware" where
  "authorization L enforce resource action next r =
     (if get_user_id (rq_ctx r) = '''' then respond_unauthorized ''user not authenticated''
      else case uuid_parse L (get_user_id (rq_ctx r)) of
        None \<Rightarrow> respond_unauthorized ''invalid user ID''
      | Some uid \<Rightarrow> tryM (worldM (enforce uid resource action)) (\<lambda>res. case res of
          Inl _ \<Rightarrow> respond_internal_error ''authorization check failed''
        | Inr allowed \<Rightarrow>
            if \<not> allowed then respond_forbidden ''FORBIDDEN'' ''insufficient permissions'' else next r))"

section \<open>Tenants\<close>

definition domain_from_host :: "string \<Rightarrow> string \<Rightarrow> string" where
  "domain_from_host host dm = (let h = split_first (CHR '':'') host; suf = CHR ''.'' # dm in
     if \<not> has_suffix h suf then '''' else trim_suffix h suf)"

definition resolve_tenant :: "request \<Rightarrow> tenant_config \<Rightarrow> string" where
  "resolve_tenant r cfg =
     (let tid = get_tenant_id_from_claims (rq_ctx r); h = header_get r (tf_header cfg);
          sub = domain_from_host (rq_host r) (tf_domain cfg)
      in if tid \<noteq> '''' then tid else if h \<noteq> '''' then h
         else if sub \<noteq> '''' \<and> sub \<noteq> ''www'' then sub else '''')"

definition tenant_resolver :: "tenant_config \<Rightarrow> middleware" where
  "tenant_resolver cfg next r = next (with_context r ((rq_ctx r)\<lparr>cx_tenant_id :=
     Some (if tf_enabled cfg then resolve_tenant r cfg else '''')\<rparr>))"

section \<open>Body size and headers\<close>

definition max_body_size :: "int \<Rightarrow> middleware" where
  "max_body_size maxBytes next r = next (if writes_body r then r\<lparr>rq_max_body := Some maxBytes\<rparr> else r)"

definition security_headers :: middleware where
  "security_headers next r =
     bindM (set_header ''X-Content-Type-Options'' ''nosniff'') (\<lambda>_.
     bindM (set_header ''X-Frame-Options'' ''DENY'') (\<lambda>_.
     bindM (set_header ''Content-Security-Policy'' (''frame-ancestors '' @ [CHR 0x27] @ ''none'' @ [CHR 0x27])) (\<lambda>_.
     bindM (set_header ''Referrer-Policy'' ''strict-origin-when-cross-origin'') (\<lambda>_.
     bindM (set_header ''Permissions-Policy'' ''camera=(), microphone=(), geolocation=()'') (\<lambda>_.
     next r)))))"

section \<open>Rate limit\<close>

definition rate_key :: "request \<Rightarrow> string" where
  "rate_key r = ''ratelimit:'' @ rq_remote_addr r"

text \<open>Redis being down lets every request through.\<close>

definition rate_limit :: "int \<Rightarrow> time \<Rightarrow> middleware" where
  "rate_limit limit window next r = tryM (worldM (redis_incr (rate_key r))) (\<lambda>res. case res of
      Inl _ \<Rightarrow> next r
    | Inr count \<Rightarrow>
        bindM (if count = 1 then ignoreM (worldM (redis_expire (rate_key r) window)) else retM ()) (\<lambda>_.
        tryM (worldM (redis_ttl (rate_key r))) (\<lambda>t.
        let ttl = (case t of Inl _ \<Rightarrow> 0 | Inr d \<Rightarrow> d) in
        bindM (set_header ''X-RateLimit-Limit'' (itoa limit)) (\<lambda>_.
        bindM (set_header ''X-RateLimit-Remaining'' (itoa (max 0 (limit - count)))) (\<lambda>_.
        bindM (worldM nowM) (\<lambda>now.
        bindM (set_header ''X-RateLimit-Reset'' (itoa ((now + ttl) div second))) (\<lambda>_.
        if limit < count then
          bindM (set_header ''Retry-After'' (itoa (go_quot ttl second + 1))) (\<lambda>_.
          respond_error 429 ''RATE_LIMITED'' ''too many requests'')
        else next r)))))))"

section \<open>Idempotency\<close>

text \<open>
  \<open>encoding/json\<close> writes bytes in standard base64, the alphabet of the URL encoding with two letters
  exchanged; no bytes at all are \<open>null\<close>.
\<close>

definition std_letter :: "char \<Rightarrow> char" where
  "std_letter c = (if c = CHR ''-'' then CHR ''+'' else if c = CHR ''_'' then CHR ''/'' else c)"

definition url_letter :: "char \<Rightarrow> char" where
  "url_letter c = (if c = CHR ''+'' then CHR ''-'' else if c = CHR ''/'' then CHR ''_'' else c)"

definition bytes_json :: "string \<Rightarrow> json" where
  "bytes_json s = (if s = [] then JNull else JStr (map std_letter (b64_encode s)))"

fun read_bytes :: "json \<Rightarrow> string option" where
  "read_bytes (JStr s) =
     (if CHR ''-'' \<in> set s \<or> CHR ''_'' \<in> set s then None else b64_decode (map url_letter s))"
| "read_bytes _ = None"

fun read_int :: "json \<Rightarrow> int option" where
  "read_int (JNum t) = atoi t"
| "read_int _ = None"

definition entry_json :: "int \<Rightarrow> string \<Rightarrow> json" where
  "entry_json st body = JObj [(''status_code'', JNum (itoa st)), (''body'', bytes_json body)]"

definition decode_entry :: "string \<Rightarrow> (int \<times> string) option" where
  "decode_entry s = Option.bind (json_parse s) (\<lambda>v. Option.bind (struct_members v) (\<lambda>ms.
     Option.bind (typed_field read_int ''status_code'' ms 0) (\<lambda>st.
     Option.bind (typed_field read_bytes ''body'' ms []) (\<lambda>b. Some (st, b)))))"

definition idempotency_key :: "string \<Rightarrow> string" where
  "idempotency_key key = ''idempotency:'' @ key"

definition replay_entry :: "string \<Rightarrow> int \<Rightarrow> string \<Rightarrow> (exchange, unit) gop" where
  "replay_entry key st body =
     bindM (set_header ''Content-Type'' ''application/json'') (\<lambda>_.
     bindM (set_header ''Idempotency-Key'' key) (\<lambda>_.
     bindM (write_header st) (\<lambda>_. write_body body)))"

definition capture_entry :: "time \<Rightarrow> string \<Rightarrow> middleware" where
  "capture_entry ttl key next r = bindM (observed next r) (\<lambda>(codes, body).
     let st = last_code codes in
     bindM (if 200 \<le> st \<and> st < 300
        then ignoreM (worldM (redis_set (idempotency_key key) (json_text (entry_json st body)) ttl))
        else retM ()) (\<lambda>_. set_header ''Idempotency-Key'' key))"

definition idempotency :: "time \<Rightarrow> middleware" where
  "idempotency ttl next r =
     (let key = header_get r ''Idempotency-Key'' in
      if rq_method r \<noteq> ''POST'' \<or> key = '''' then next r
      else tryM (worldM (redis_get (idempotency_key key))) (\<lambda>res.
        case (case res of Inl _ \<Rightarrow> None
              | Inr cached \<Rightarrow> if cached \<noteq> '''' then decode_entry cached else None) of
          Some (st, body) \<Rightarrow> replay_entry key st body
        | None \<Rightarrow> capture_entry ttl key next r))"

section \<open>Response formatter\<close>

definition is_envelope :: "string \<Rightarrow> bool" where
  "is_envelope body = (case Option.bind (json_parse body) struct_members of
      None \<Rightarrow> False
    | Some ms \<Rightarrow> (case pointer_field read_bool ''success'' ms of Some (Some _) \<Rightarrow> True | _ \<Rightarrow> False))"

text \<open>
  A value decoded into \<open>interface{}\<close> and encoded again: objects come back with sorted keys, the last of
  equal keys wins, and numbers go through \<open>float64\<close>; \<open>num\<close> is what that does to the text of a number,
  none when it is out of range, which leaves a nil and makes \<open>Unmarshal\<close> report an error.
\<close>

definition last_members :: "(string \<times> 'a) list \<Rightarrow> (string \<times> 'a) list" where
  "last_members ms = map (\<lambda>k. (k, the (map_of (rev ms) k)))
     (sort_key (map (of_char :: char \<Rightarrow> nat)) (remdups (map fst ms)))"

fun any_value :: "(string \<Rightarrow> string option) \<Rightarrow> json \<Rightarrow> json"
  and any_values :: "(string \<Rightarrow> string option) \<Rightarrow> json list \<Rightarrow> json list"
  and any_members :: "(string \<Rightarrow> string option) \<Rightarrow> (string \<times> json) list \<Rightarrow> (string \<times> json) list" where
  "any_value num (JNum t) = (case num t of Some u \<Rightarrow> JNum u | None \<Rightarrow> JNull)"
| "any_value num (JArr vs) = JArr (any_values num vs)"
| "any_value num (JObj ms) = JObj (last_members (any_members num ms))"
| "any_value num v = v"
| "any_values num [] = []"
| "any_values num (v # vs) = any_value num v # any_values num vs"
| "any_members num [] = []"
| "any_members num ((k, v) # ms) = (k, any_value num v) # any_members num ms"

fun any_ok :: "(string \<Rightarrow> string option) \<Rightarrow> json \<Rightarrow> bool"
  and any_oks :: "(string \<Rightarrow> string option) \<Rightarrow> json list \<Rightarrow> bool"
  and any_mems_ok :: "(string \<Rightarrow> string option) \<Rightarrow> (string \<times> json) list \<Rightarrow> bool" where
  "any_ok num (JNum t) = (num t \<noteq> None)"
| "any_ok num (JArr vs) = any_oks num vs"
| "any_ok num (JObj ms) = any_mems_ok num ms"
| "any_ok num v = True"
| "any_oks num [] = True"
| "any_oks num (v # vs) = (any_ok num v \<and> any_oks num vs)"
| "any_mems_ok num [] = True"
| "any_mems_ok num ((k, v) # ms) = (any_ok num v \<and> any_mems_ok num ms)"

text \<open>An \<open>interface{}\<close> field: \<open>null\<close> makes it nil.\<close>

definition any_field :: "(string \<Rightarrow> string option) \<Rightarrow> string \<Rightarrow> (string \<times> json) list \<Rightarrow> json option option" where
  "any_field num name ms =
     pointer_field (\<lambda>v. if any_ok num v then Some (any_value num v) else None) name ms"

text \<open>
  The metadata structs are filled from the encoded value with the error ignored: a field that does not
  fit keeps its zero value while the others are set.
\<close>

definition lenient_field :: "(json \<Rightarrow> 'a option) \<Rightarrow> string \<Rightarrow> (string \<times> json) list \<Rightarrow> 'a \<Rightarrow> 'a" where
  "lenient_field rd name ms dflt =
     (let vs = [x. v \<leftarrow> map snd (filter (\<lambda>(k, v). key_matches name k) ms), Some x \<leftarrow> [rd v]] in
      if vs = [] then dflt else last vs)"

fun object_members :: "json \<Rightarrow> (string \<times> json) list" where
  "object_members (JObj ms) = ms"
| "object_members _ = []"

definition page_meta_of :: "json \<Rightarrow> json" where
  "page_meta_of v = (let ms = object_members v; f = (\<lambda>k. lenient_field read_int k ms 0) in
     pagination_meta (f ''page'') (f ''per_page'') (f ''total'') (f ''total_pages''))"

fun read_string_ptr :: "json \<Rightarrow> string option option" where
  "read_string_ptr JNull = Some None"
| "read_string_ptr (JStr s) = Some (Some s)"
| "read_string_ptr _ = None"

definition cursor_meta_of :: "json \<Rightarrow> json" where
  "cursor_meta_of v = (let ms = object_members v in
     cursor_meta (lenient_field read_string_ptr ''next_cursor'' ms None)
       (lenient_field read_string_ptr ''prev_cursor'' ms None)
       (lenient_field read_bool ''has_next'' ms False) (lenient_field read_bool ''has_prev'' ms False)
       (lenient_field read_int ''limit'' ms 0))"

definition two_fields :: "(string \<Rightarrow> string option) \<Rightarrow> string \<Rightarrow> string \<Rightarrow> string \<Rightarrow> (json \<times> json) option" where
  "two_fields num a b body = Option.bind (json_parse body) (\<lambda>v. Option.bind (struct_members v) (\<lambda>ms.
     Option.bind (any_field num a ms) (\<lambda>x. Option.bind (any_field num b ms) (\<lambda>y.
     case (x, y) of (Some d, Some m) \<Rightarrow> Some (d, m) | _ \<Rightarrow> None))))"

definition error_fields :: "string \<Rightarrow> (string \<times> string) option" where
  "error_fields body = Option.bind (json_parse body) (\<lambda>v. Option.bind (struct_members v) (\<lambda>ms.
     Option.bind (string_field ''code'' ms '''') (\<lambda>c. Option.bind (string_field ''message'' ms '''') (\<lambda>m.
     if m \<noteq> '''' then Some (c, m) else None))))"

text \<open>\<open>bytes.TrimSpace\<close>; the spaces of Unicode outside ASCII are left alone here.\<close>

definition trim_space :: "string \<Rightarrow> string" where
  "trim_space s = (let ws = [CHR 0x09, CHR 0x0A, CHR 0x0B, CHR 0x0C, CHR 0x0D, CHR '' ''] in
     trim_right (trim_left s ws) ws)"

definition formatted :: "go_texts \<Rightarrow> (string \<Rightarrow> string option) \<Rightarrow> int \<Rightarrow> string \<Rightarrow> api_response" where
  "formatted T num st body =
     (if 400 \<le> st then
        (case error_fields body of
           Some (c, m) \<Rightarrow> error_response c m ''''
         | None \<Rightarrow> error_response (gt_status_text T st) (trim_space body) '''')
      else case two_fields num ''data'' ''pagination'' body of
        Some (d, m) \<Rightarrow> success_response (Val d) (Val (page_meta_of m))
      | None \<Rightarrow> (case two_fields num ''data'' ''meta'' body of
          Some (d, m) \<Rightarrow> success_response (Val d) (Val (cursor_meta_of m))
        | None \<Rightarrow> success_response (case map_option (any_value num) (json_parse body) of
              None \<Rightarrow> Nil | Some JNull \<Rightarrow> Nil | Some v \<Rightarrow> Val v) Nil))"

text \<open>The formatting writer keeps the first code it was given and gathers the body.\<close>

definition first_code :: "int list \<Rightarrow> int" where
  "first_code cs = (if cs = [] then 200 else hd cs)"

definition response_formatter :: "go_texts \<Rightarrow> (string \<Rightarrow> string option) \<Rightarrow> middleware" where
  "response_formatter T num next r x =
     (case next r (x\<lparr>xc_resp := new_response (rs_header (xc_resp x))\<rparr>) of
        (Ok _, x') \<Rightarrow>
          (let fw = xc_resp x'; st = first_code (rs_codes fw); body = rs_body fw;
               back = x'\<lparr>xc_resp := (xc_resp x)\<lparr>rs_header := rs_header fw\<rparr>\<rparr> in
           if body = [] then write_header st back
           else bindM (set_header ''Content-Type'' ''application/json'') (\<lambda>_.
             bindM (write_header st) (\<lambda>_.
             if is_envelope body then write_body body
             else encode_to (api_json (formatted T num st body)))) back)
      | (res, x') \<Rightarrow> (res, x'\<lparr>xc_resp := (xc_resp x)\<lparr>rs_header := rs_header (xc_resp x')\<rparr>\<rparr>))"

end
