(* ===== verification/Router.thy ===== *)
theory Router
  imports Http_Api Http_Middleware Mailers
begin

text \<open>
  How the service is put together: the middleware registry, the routers of the modules, the root router
  and what \<open>main\<close> builds from the configuration (\<open>internal/shared/middleware/registry.go\<close>,
  \<open>internal/shared/router\<close>, \<open>internal/*/interfaces/http/routes.go\<close>, \<open>cmd/api/main.go\<close>). The choice chi
  makes among the registered patterns is a parameter: nothing here depends on it.
\<close>

section \<open>Metrics\<close>

text \<open>
  The recorder of \<open>internal/monitoring\<close> hands its calls to Prometheus; a histogram gets a size or a
  duration.
\<close>

datatype measure = Bytes int | Elapsed time

record metrics_recorder =
  mr_increment :: "string \<Rightarrow> string list \<Rightarrow> (exchange, unit) gop"
  mr_observe :: "string \<Rightarrow> measure \<Rightarrow> string list \<Rightarrow> (exchange, unit) gop"

definition metric_labels :: "request \<Rightarrow> string \<Rightarrow> string list" where
  "metric_labels r st = [''method'', rq_method r, ''path'', rq_path r, ''status'', st]"

text \<open>The deferred increment also runs when the handler panics.\<close>

definition metrics :: "metrics_recorder \<Rightarrow> middleware" where
  "metrics R next r = bindM (worldM nowM) (\<lambda>start.
     bindM (mr_increment R ''http_requests_active'' (metric_labels r ''0'')) (\<lambda>_ x.
     case (bindM (if 0 < rq_content_length r
           then mr_observe R ''http_request_size_bytes'' (Bytes (rq_content_length r)) (metric_labels r ''0'')
           else retM ()) (\<lambda>_.
         bindM (observed next r) (\<lambda>(codes, body). bindM (worldM nowM) (\<lambda>now.
         let labels = metric_labels r (itoa (last_code codes)) in
         bindM (mr_increment R ''http_requests_total'' labels) (\<lambda>_.
         bindM (mr_observe R ''http_request_duration_seconds'' (Elapsed (now - start)) labels) (\<lambda>_.
         if 0 < length body then mr_observe R ''http_response_size_bytes'' (Bytes (int (length body))) labels
         else retM ())))))) x of
       (res, x') \<Rightarrow> (case mr_increment R ''http_requests_active'' (metric_labels r ''0'') x' of
           (Ok _, x'') \<Rightarrow> (res, x'')
         | (res', x'') \<Rightarrow> (res', x''))))"

text \<open>
  \<open>extractValues\<close> of the recorder: every second string of the pairs, which are the values of the labels.
\<close>

fun extract_values :: "string list \<Rightarrow> string list" where
  "extract_values (k # v # rest) = v # extract_values rest"
| "extract_values _ = []"

section \<open>The registry\<close>

text \<open>
  A deadline on the context only shows as failing external calls, which the fault schedule of the world
  has already.
\<close>

definition timeout :: "time \<Rightarrow> middleware" where
  "timeout d next r = next r"

record middlewares =
  mw_auth :: middleware
  mw_logger :: middleware
  mw_error_handler :: middleware
  mw_error_recorder :: middleware
  mw_audit_log :: middleware
  mw_rate_limit :: middleware
  mw_idempotency :: middleware
  mw_max_body_size :: middleware
  mw_tracing :: middleware
  mw_metrics :: middleware
  mw_authorizer :: authorizer

definition denylist_key :: "string \<Rightarrow> string" where
  "denylist_key jti = ''token:blacklist:'' @ jti"

definition denylisted :: "string \<Rightarrow> (world, bool) gop" where
  "denylisted jti = tryM (redis_get (denylist_key jti)) (\<lambda>res. case res of
      Inl _ \<Rightarrow> retM False | Inr v \<Rightarrow> retM (v = ''1''))"

definition new_registry ::
  "http_env \<Rightarrow> libs \<Rightarrow> go_texts \<Rightarrow> otel \<Rightarrow> token_service \<Rightarrow> config \<Rightarrow> authorizer \<Rightarrow> metrics_recorder \<Rightarrow> middlewares" where
  "new_registry E L T otel svc cfg enforce R =
     \<lparr>mw_auth = (if atc_token_denylist (cf_auth cfg) then authentication_with_denylist svc denylisted
        else authentication svc),
      mw_logger = logger T, mw_error_handler = error_handler E L T, mw_error_recorder = error_recorder L T,
      mw_audit_log = audit_log_mw L,
      mw_rate_limit = rate_limit (rlc_requests (cf_rate_limit cfg)) (rlc_window (cf_rate_limit cfg) * second),
      mw_idempotency = idempotency (idc_ttl (cf_idempotency cfg) * second),
      mw_max_body_size = max_body_size (srv_max_request_body_size (cf_server cfg)),
      mw_tracing = tracing otel, mw_metrics = metrics R, mw_authorizer = enforce\<rparr>"

section \<open>chi\<close>

text \<open>
  A router holds the middlewares of \<open>Use\<close> and its entries: routes with their method, none for \<open>Handle\<close>,
  and mounted routers, each behind the middlewares of the groups around it. What chi decides for a
  method, a path and the registered patterns is one of them, with the path parameters and the rest of the
  path for a mounted router, or that none fits.
\<close>

datatype router = Router "middleware list" "entry list"
  and entry = Route "string option" string http_handler | Mount string "middleware list" router

datatype pattern = Exact "string option" string | Subtree string

datatype routing = Found nat "(string \<times> string) list" string | Missing | BadMethod

record chi =
  ch_match :: "string \<Rightarrow> string \<Rightarrow> pattern list \<Rightarrow> routing"
  ch_not_found :: http_handler
  ch_method_not_allowed :: http_handler

fun pattern_of :: "entry \<Rightarrow> pattern" where
  "pattern_of (Route m p h) = Exact m p"
| "pattern_of (Mount p ms rt) = Subtree p"

definition use_all :: "middleware list \<Rightarrow> middleware" where
  "use_all ms h = foldr (\<lambda>m. m) ms h"

definition with_params :: "(string \<times> string) list \<Rightarrow> middleware" where
  "with_params ps next r = next (r\<lparr>rq_params := ps @ rq_params r\<rparr>)"

text \<open>The route a request ends at, none for the two refusals, and the handler that serves it.\<close>

fun route_in :: "chi \<Rightarrow> router \<Rightarrow> string \<Rightarrow> string \<Rightarrow> (string option \<times> string) option \<times> http_handler"
  and route_entry :: "chi \<Rightarrow> entry \<Rightarrow> string \<Rightarrow> string \<Rightarrow> (string option \<times> string) option \<times> http_handler" where
  "route_in C (Router ms es) m path =
     (let refuse = (\<lambda>h. (None, use_all ms h)) in
      case ch_match C m path (map pattern_of es) of
        Found i ps rest \<Rightarrow>
          if i < length es then
            (let (name, h) = (map (\<lambda>e. route_entry C e) es ! i) m rest in (name, use_all ms (with_params ps h)))
          else refuse (ch_not_found C)
      | Missing \<Rightarrow> refuse (ch_not_found C)
      | BadMethod \<Rightarrow> refuse (ch_method_not_allowed C))"
| "route_entry C (Route m p h) m' rest = (Some (m, p), h)"
| "route_entry C (Mount p ms rt) m' rest =
     (let (name, h) = route_in C rt m' rest in (map_option (\<lambda>(m, q). (m, p @ q)) name, use_all ms h))"

fun behind :: "middleware list \<Rightarrow> entry \<Rightarrow> entry" where
  "behind ms (Route m p h) = Route m p (use_all ms h)"
| "behind ms (Mount p ms' rt) = Mount p (ms @ ms') rt"

text \<open>\<open>r.Group\<close> with \<open>r.Use\<close>, \<open>r.Route\<close>, and the routes of a method.\<close>

definition group :: "middleware list \<Rightarrow> entry list \<Rightarrow> entry list" where
  "group ms es = map (behind ms) es"

definition route_group :: "string \<Rightarrow> entry list \<Rightarrow> entry" where
  "route_group p es = Mount p [] (Router [] es)"

definition r_get :: "string \<Rightarrow> http_handler \<Rightarrow> entry" where
  "r_get p h = Route (Some ''GET'') p h"

definition r_post :: "string \<Rightarrow> http_handler \<Rightarrow> entry" where
  "r_post p h = Route (Some ''POST'') p h"

definition r_put :: "string \<Rightarrow> http_handler \<Rightarrow> entry" where
  "r_put p h = Route (Some ''PUT'') p h"

definition r_patch :: "string \<Rightarrow> http_handler \<Rightarrow> entry" where
  "r_patch p h = Route (Some ''PATCH'') p h"

definition r_delete :: "string \<Rightarrow> http_handler \<Rightarrow> entry" where
  "r_delete p h = Route (Some ''DELETE'') p h"

section \<open>The routers of the modules\<close>

definition auth_router :: "web_env \<Rightarrow> middleware \<Rightarrow> router" where
  "auth_router W auth = Router []
     ([r_post ''/register'' (http_register W), r_post ''/login'' (http_login W),
       r_post ''/refresh'' (http_refresh_token W), r_post ''/logout'' (http_logout W),
       r_get ''/verify-email'' (http_verify_email W), r_post ''/forgot-password'' (http_forgot_password W),
       r_post ''/reset-password'' (http_reset_password W),
       r_post ''/resend-verification'' (http_resend_verification W)] @
      group [auth] [r_post ''/logout-all'' (http_logout_all W), r_get ''/me'' (http_auth_me W)])"

definition todo_router :: "web_env \<Rightarrow> middleware \<Rightarrow> authorizer \<Rightarrow> router" where
  "todo_router W auth az = (let may = authorization (we_libs W) az ''todo'' in Router [] (group [auth]
     (group [may ''create''] [r_post ''/'' (http_create_todo W)] @
      group [may ''list''] [r_get ''/'' (http_list_todos W), r_get ''/search'' (http_search_todos W)] @
      group [may ''read''] [r_get ''/{id}'' (http_get_todo W)] @
      group [may ''update''] [r_put ''/{id}'' (http_update_todo W), r_patch ''/{id}/complete'' (http_complete_todo W)] @
      group [may ''delete''] [r_delete ''/{id}'' (http_delete_todo W)])))"

definition authz_router :: "web_env \<Rightarrow> middleware \<Rightarrow> authorizer \<Rightarrow> router" where
  "authz_router W auth az = (let may = authorization (we_libs W) az in
     Router [] (group [auth, timeout (30 * second)]
      ([route_group ''/roles''
          (group [may ''role'' ''create''] [r_post ''/'' (http_create_role W)] @
           group [may ''role'' ''list''] [r_get ''/'' (http_list_roles W)] @
           group [may ''role'' ''read''] [r_get ''/{id}'' (http_get_role W)] @
           group [may ''role'' ''update''] [r_put ''/{id}'' (http_update_role W)] @
           group [may ''role'' ''delete''] [r_delete ''/{id}'' (http_delete_role W)] @
           [route_group ''/{roleId}/permissions''
             (group [may ''role_permission'' ''create''] [r_post ''/'' (http_assign_permission W)] @
              group [may ''role_permission'' ''delete''] [r_delete ''/{permissionId}'' (http_remove_permission W)] @
              group [may ''role_permission'' ''list''] [r_get ''/'' (http_get_role_permissions W)])]),
        route_group ''/permissions''
          (group [may ''permission'' ''create''] [r_post ''/'' (http_create_permission W)] @
           group [may ''permission'' ''list''] [r_get ''/'' (http_list_permissions W)] @
           group [may ''permission'' ''read''] [r_get ''/{id}'' (http_get_permission W)] @
           group [may ''permission'' ''update''] [r_put ''/{id}'' (http_update_permission W)] @
           group [may ''permission'' ''delete''] [r_delete ''/{id}'' (http_delete_permission W)]),
        route_group ''/users/{userId}/roles''
          (group [may ''user_role'' ''create''] [r_post ''/'' (http_assign_role W)] @
           group [may ''user_role'' ''delete''] [r_delete ''/{roleId}'' (http_remove_role W)] @
           group [may ''user_role'' ''list''] [r_get ''/'' (http_get_user_roles W)])] @
       group [may ''permission'' ''read''] [r_post ''/check-permission'' (http_check_permission W)])))"

definition user_router :: "web_env \<Rightarrow> middleware \<Rightarrow> authorizer \<Rightarrow> router" where
  "user_router W auth az = (let may = authorization (we_libs W) az ''user'' in Router [] (group [auth]
     (group [may ''create''] [r_post ''/'' (http_create_user W)] @
      group [may ''read''] [r_get ''/me'' (http_user_me W), r_get ''/'' (http_list_users W),
         r_get ''/{id}'' (http_get_user W)] @
      group [may ''update''] [r_put ''/{id}'' (http_update_user W)] @
      group [may ''delete''] [r_delete ''/{id}'' (http_delete_user W)])))"

definition tenant_router :: "web_env \<Rightarrow> middleware \<Rightarrow> authorizer \<Rightarrow> router" where
  "tenant_router W auth az = (let may = authorization (we_libs W) az ''tenant'' in Router [] (group [auth]
     (group [may ''create''] [r_post ''/'' (http_create_tenant W)] @
      group [may ''list''] [r_get ''/'' (http_list_tenants W)] @
      group [may ''read''] [r_get ''/{id}'' (http_get_tenant W)] @
      group [may ''update''] [r_put ''/{id}'' (http_update_tenant W)] @
      group [may ''delete''] [r_delete ''/{id}'' (http_delete_tenant W)])))"

section \<open>The root router\<close>

definition status_json :: "string \<Rightarrow> json option" where
  "status_json s = Some (JObj [(''status'', JStr s)])"

definition http_health :: http_handler where
  "http_health r = respond_json 200 (status_json ''ok'')"

text \<open>The ping is an external call without effect.\<close>

definition http_ready :: http_handler where
  "http_ready r = bindM (set_header ''Content-Type'' ''application/json'') (\<lambda>_.
     tryM (worldM noopM) (\<lambda>res. case res of
       Inl _ \<Rightarrow> bindM (write_header 503) (\<lambda>_. encode_to (status_json ''unhealthy''))
     | Inr _ \<Rightarrow> bindM (write_header 200) (\<lambda>_. encode_to (status_json ''ready''))))"

definition http_live :: http_handler where
  "http_live r = respond_json 200 (status_json ''alive'')"

text \<open>The handlers of swagger and Prometheus are the libraries'; that of the debug endpoint may be missing.\<close>

definition register_web :: "config \<Rightarrow> http_handler \<Rightarrow> entry list" where
  "register_web cfg swagger =
     [r_get ''/health'' http_health, r_get ''/ready'' http_ready, r_get ''/live'' http_live] @
     (if app_env (cf_app cfg) \<noteq> ''production'' then [r_get ''/swagger/*'' swagger] else [])"

record module_routers =
  hs_auth :: router
  hs_todo :: router
  hs_authz :: router
  hs_user :: router
  hs_tenant :: router
  hs_metrics :: "http_handler option"
  hs_debug_nats :: "http_handler option"

definition public_group :: "module_routers \<Rightarrow> middlewares \<Rightarrow> entry list" where
  "public_group H mw = group [mw_max_body_size mw, mw_idempotency mw] [Mount ''/auth'' [] (hs_auth H)]"

definition protected_group :: "module_routers \<Rightarrow> middlewares \<Rightarrow> config \<Rightarrow> entry list" where
  "protected_group H mw cfg = group [mw_auth mw, tenant_resolver (cf_tenant cfg), mw_max_body_size mw]
     [Mount ''/todos'' [] (hs_todo H), Mount ''/users'' [] (hs_user H), Mount ''/auth/sessions'' [] (hs_authz H),
      Mount ''/admin/tenants'' [] (hs_tenant H)]"

definition new_router ::
  "libs \<Rightarrow> go_texts \<Rightarrow> (string \<Rightarrow> string option) \<Rightarrow> (cors_config \<Rightarrow> middleware) \<Rightarrow> http_handler \<Rightarrow>
    module_routers \<Rightarrow> middlewares \<Rightarrow> config \<Rightarrow> router" where
  "new_router L T num cors swagger H mw cfg =
     Router [mw_tracing mw, request_id L, mw_error_handler mw, security_headers, cors (cf_cors cfg),
         mw_error_recorder mw, mw_audit_log mw, mw_rate_limit mw, mw_metrics mw, logger T]
       (register_web cfg swagger @
        (case hs_metrics H of None \<Rightarrow> [] | Some h \<Rightarrow> [Route None ''/metrics'' h]) @
        (case hs_debug_nats H of None \<Rightarrow> [] | Some h \<Rightarrow> [r_get ''/debug/nats'' h]) @
        [Mount ''/api/v1'' [] (Router [response_formatter T num] (public_group H mw @ protected_group H mw cfg))])"


section \<open>cmd/api/main.go\<close>

text \<open>
  What the service is linked with: the libraries of the model, the texts and number formats of the
  runtime, the handlers and middlewares that come from libraries, the mail library and the debug
  endpoint of the messaging driver.
\<close>

record linkage =
  ln_libs :: libs
  ln_texts :: go_texts
  ln_number :: "string \<Rightarrow> string option"
  ln_stack :: string
  ln_otel :: otel
  ln_cors :: "cors_config \<Rightarrow> middleware"
  ln_swagger :: http_handler
  ln_metrics_handler :: http_handler
  ln_debug_nats :: "http_handler option"
  ln_recorder :: metrics_recorder
  ln_mail :: mail_lib

definition main_env :: "linkage \<Rightarrow> config \<Rightarrow> app_env" where
  "main_env K cfg = \<lparr>ap_libs = ln_libs K, ap_tenant_enabled = tf_enabled (cf_tenant cfg),
     ap_secret = atc_jwt_secret (cf_auth cfg), ap_expiration = atc_jwt_expiration (cf_auth cfg),
     ap_publish = provide_event_bus (ln_libs K) (ln_mail K) cfg\<rparr>"

definition main_http_env :: "linkage \<Rightarrow> config \<Rightarrow> http_env" where
  "main_http_env K cfg = \<lparr>he_production = (app_env (cf_app cfg) = ''production''), he_stack = ln_stack K,
     he_type = gt_type (ln_texts K)\<rparr>"

definition main_web :: "linkage \<Rightarrow> config \<Rightarrow> web_env" where
  "main_web K cfg = \<lparr>we_http = main_http_env K cfg, we_libs = ln_libs K,
     we_commands = app_commands (main_env K cfg), we_queries = app_queries (main_env K cfg)\<rparr>"

definition main_registry :: "linkage \<Rightarrow> config \<Rightarrow> middlewares" where
  "main_registry K cfg = new_registry (main_http_env K cfg) (ln_libs K) (ln_texts K) (ln_otel K)
     (ap_tokens (main_env K cfg)) cfg (enforcer_enforce (ln_libs K)) (ln_recorder K)"

definition main_handlers :: "linkage \<Rightarrow> config \<Rightarrow> module_routers" where
  "main_handlers K cfg = (let W = main_web K cfg; auth = mw_auth (main_registry K cfg);
       az = enforcer_enforce (ln_libs K) in
     \<lparr>hs_auth = auth_router W auth, hs_todo = todo_router W auth az, hs_authz = authz_router W auth az,
      hs_user = user_router W auth az, hs_tenant = tenant_router W auth az,
      hs_metrics = Some (ln_metrics_handler K), hs_debug_nats = ln_debug_nats K\<rparr>)"

definition main_router :: "linkage \<Rightarrow> config \<Rightarrow> router" where
  "main_router K cfg = new_router (ln_libs K) (ln_texts K) (ln_number K) (ln_cors K) (ln_swagger K)
     (main_handlers K cfg) (main_registry K cfg) cfg"

text \<open>A request to the service: chi picks the route, the handler gets a fresh response.\<close>

definition serve_request :: "chi \<Rightarrow> linkage \<Rightarrow> config \<Rightarrow> http_handler" where
  "serve_request C K cfg r = snd (route_in C (main_router K cfg) (rq_method r) (rq_path r)) r"

end
