(* ===== verification/Middleware_Laws.thy ===== *)
theory Middleware_Laws
  imports Http_Middleware
begin

text \<open>
  What the middlewares guarantee: the bound of the rate limiter, the replay of the idempotency
  middleware, and that the response formatter leaves the answers of the response helpers alone.
\<close>

section \<open>Exchanges, step by step\<close>

lemma worldM_run: "m (xc_world x) = (r, w) \<Longrightarrow> worldM m x = (r, x\<lparr>xc_world := w\<rparr>)"
  by (simp add: worldM_def)

lemma writerM_run [simp]: "writerM f x = (Ok (), x\<lparr>xc_resp := f (xc_resp x)\<rparr>)"
  by (simp add: writerM_def op_defs)

lemma set_header_run: "set_header k v x = (Ok (), x\<lparr>xc_resp := do_set_header k v (xc_resp x)\<rparr>)"
  by (simp add: set_header_def)

lemma write_header_run: "write_header c x = (Ok (), x\<lparr>xc_resp := do_write_header c (xc_resp x)\<rparr>)"
  by (simp add: write_header_def)

lemma write_body_run: "write_body b x = (Ok (), x\<lparr>xc_resp := do_write b (xc_resp x)\<rparr>)"
  by (simp add: write_body_def)

lemmas exchange_run = set_header_run write_header_run write_body_run bindM_def retM_def

definition json_written :: "int \<Rightarrow> json \<Rightarrow> response \<Rightarrow> response" where
  "json_written st j s = do_write (json_text j @ newline)
     (do_write_header st (do_set_header ''Content-Type'' ''application/json'' s))"

lemma respond_json_run:
  "respond_json st (Some j) x = (Ok (), x\<lparr>xc_resp := json_written st j (xc_resp x)\<rparr>)"
  by (simp add: respond_json_def encode_to_def exchange_run json_written_def)

lemma api_json_error [simp]: "api_json (error_response ec msg stack) = Some (JObj
    ((''success'', JBool False) # (''error'', error_body_json (ec, msg)) #
      (if stack = '''' then [] else [(''stack'', JStr stack)])))"
  by (simp add: api_json_def error_response_def)

lemma respond_error_run: "respond_error st ec msg x = (Ok (), x\<lparr>xc_resp :=
    json_written st (JObj [(''success'', JBool False), (''error'', error_body_json (ec, msg))]) (xc_resp x)\<rparr>)"
  by (simp add: respond_error_def respond_json_run)

lemma status_written:
  "rs_sent s = None \<Longrightarrow> status (json_written st j s) = st"
  by (simp add: json_written_def do_write_def do_write_header_def do_set_header_def send_status_def status_def)

section \<open>Serving a sequence of requests\<close>

text \<open>Each request gets a response of its own.\<close>

fun serve :: "http_handler \<Rightarrow> request list \<Rightarrow> world \<Rightarrow> response list \<times> world" where
  "serve h [] w = ([], w)"
| "serve h (r # rs) w =
     (let x = snd (h r \<lparr>xc_world = w, xc_resp = new_response (\<lambda>_. None)\<rparr>);
          (ss, w') = serve h rs (xc_world x)
      in (xc_resp x # ss, w'))"

section \<open>The rate limit\<close>

text \<open>
  A handler the limiter can stand in front of: it leaves the counters, the fault schedule and the
  clock alone (time only moves on) and never answers 429 itself.
\<close>

definition addr_key :: "string \<Rightarrow> string" where
  "addr_key a = ''ratelimit:'' @ a"

lemma addr_key_inj [simp]: "addr_key a = addr_key b \<longleftrightarrow> a = b"
  by (simp add: addr_key_def)

definition unlimited :: "http_handler \<Rightarrow> bool" where
  "unlimited h \<longleftrightarrow> (\<forall>r x. let x' = snd (h r x) in
     (\<forall>a. redis (xc_world x') (addr_key a) = redis (xc_world x) (addr_key a)) \<and>
     faults (xc_world x') = faults (xc_world x) \<and> clock (xc_world x') = clock (xc_world x) \<and>
     ticks (xc_world x) \<le> ticks (xc_world x') \<and>
     (rs_sent (xc_resp x) = None \<longrightarrow> status (xc_resp x') \<noteq> 429))"

text \<open>The addresses seen so far have their counts in Redis, with an expiry that is not due before \<open>T\<close>.\<close>

definition counted :: "time \<Rightarrow> (string \<Rightarrow> nat) \<Rightarrow> world \<Rightarrow> bool" where
  "counted T cnt w \<longleftrightarrow> faults w = [] \<and> (\<forall>a.
     if cnt a = 0 then redis w (addr_key a) = None
     else \<exists>e. redis w (addr_key a) = Some (itoa (int (cnt a)), Some e) \<and> T \<le> e)"

lemma countedD:
  assumes "counted T cnt w"
  shows "faults w = []" "cnt a = 0 \<Longrightarrow> redis w (addr_key a) = None"
    "cnt a \<noteq> 0 \<Longrightarrow> \<exists>e. redis w (addr_key a) = Some (itoa (int (cnt a)), Some e) \<and> T \<le> e"
  using assms by (auto simp: counted_def split: if_splits)

lemma counted_ticks: "counted T cnt w \<Longrightarrow> counted T cnt (w\<lparr>ticks := n\<rparr>)"
  by (simp add: counted_def)

lemma redisM_moves:
  assumes "faults w = []" "redisM f w = (r, w')"
  shows "faults w' = []" "clock w' = clock w" "ticks w' = Suc (ticks w)"
  using assms by (auto simp: redisM_nofault split: prod.splits sum.splits)

lemma redis_expire_moves:
  "faults w = [] \<Longrightarrow> \<exists>w'. redis_expire k d w = (Ok (), w') \<and> faults w' = [] \<and> clock w' = clock w \<and> ticks w \<le> ticks w'"
  by (auto simp: redis_expire_def redisM_nofault split: option.splits)

lemma redis_incr_first:
  "faults w = [] \<Longrightarrow> redis w k = None \<Longrightarrow>
     redis_incr k w = (Ok 1, w\<lparr>redis := (redis w)(k \<mapsto> (itoa 1, None)), ticks := Suc (ticks w)\<rparr>)"
  by (simp add: redis_incr_def redisM_nofault live_at_def)

lemma redis_incr_next:
  "faults w = [] \<Longrightarrow> redis w k = Some (itoa (int n), Some e) \<Longrightarrow> clock w (ticks w) < e \<Longrightarrow> int n < 2 ^ 63 - 1 \<Longrightarrow>
     redis_incr k w = (Ok (int n + 1),
       w\<lparr>redis := (redis w)(k \<mapsto> (itoa (int n + 1), Some e)), ticks := Suc (ticks w)\<rparr>)"
  by (simp add: redis_incr_def redisM_nofault live_at_def redis_int_itoa)

lemma redis_expire_live:
  "faults w = [] \<Longrightarrow> redis w k = Some (v, None) \<Longrightarrow> 0 < d \<Longrightarrow>
     redis_expire k d w = (Ok (), w\<lparr>redis := (redis w)(k \<mapsto> (v, Some (clock w (ticks w) + d))),
       ticks := Suc (ticks w)\<rparr>)"
  by (simp add: redis_expire_def redisM_nofault live_at_def)

lemma redis_ttl_run:
  "faults w = [] \<Longrightarrow> \<exists>t. redis_ttl k w = (Ok t, w\<lparr>ticks := Suc (ticks w)\<rparr>)"
  by (auto simp: redis_ttl_def redisM_nofault split: option.splits)

text \<open>The headers of a counted request and the answer to one over the limit.\<close>

definition limit_headers :: "int \<Rightarrow> int \<Rightarrow> time \<Rightarrow> time \<Rightarrow> response \<Rightarrow> response" where
  "limit_headers limit n ttl now s =
     do_set_header ''X-RateLimit-Reset'' (itoa ((now + ttl) div second))
       (do_set_header ''X-RateLimit-Remaining'' (itoa (max 0 (limit - n)))
         (do_set_header ''X-RateLimit-Limit'' (itoa limit) s))"

definition refuse_limit :: "time \<Rightarrow> (exchange, unit) gop" where
  "refuse_limit ttl = bindM (set_header ''Retry-After'' (itoa (go_quot ttl second + 1))) (\<lambda>_.
     respond_error 429 ''RATE_LIMITED'' ''too many requests'')"

lemma limit_headers_sent [simp]: "rs_sent (limit_headers limit n ttl now s) = rs_sent s"
  by (simp add: limit_headers_def do_set_header_def)

lemma rate_limit_counted:
  assumes "redis_incr (rate_key r) (xc_world x) = (Ok n, w1)"
    and "(if n = 1 then ignoreM (redis_expire (rate_key r) window) else retM ()) w1 = (Ok (), w2)"
    and "redis_ttl (rate_key r) w2 = (Ok ttl, w3)"
  shows "rate_limit limit window nxt r x =
    (if limit < n then refuse_limit ttl else nxt r)
      (x\<lparr>xc_world := w3\<lparr>ticks := Suc (ticks w3)\<rparr>,
        xc_resp := limit_headers limit n ttl (clock w3 (ticks w3)) (xc_resp x)\<rparr>)"
proof -
  have "(if n = 1 then ignoreM (worldM (redis_expire (rate_key r) window)) else retM ()) (x\<lparr>xc_world := w1\<rparr>)
      = (Ok (), x\<lparr>xc_world := w2\<rparr>)"
    using assms(2) by (auto simp: op_defs worldM_def split: if_splits prod.splits outcome.splits)
  then show ?thesis
    using assms(1,3)
    by (simp add: rate_limit_def worldM_def tryM_def bindM_def set_header_run Let_def nowM_def
        limit_headers_def refuse_limit_def)
qed

lemma refuse_limit_run:
  "rs_sent (xc_resp x) = None \<Longrightarrow> \<exists>s. refuse_limit ttl x = (Ok (), x\<lparr>xc_resp := s\<rparr>) \<and> status s = 429"
  by (rule exI, rule conjI, simp add: refuse_limit_def bindM_def set_header_run respond_error_run,
      simp add: status_written do_set_header_def)

lemma counted_bump:
  assumes "counted T cnt w" "T \<le> e" "faults w' = []"
    and "redis w' = (redis w)(addr_key a \<mapsto> (itoa (int (Suc (cnt a))), Some e))"
  shows "counted T (cnt(a := Suc (cnt a))) w'"
  using assms by (auto simp: counted_def)

lemma rate_limit_step:
  assumes cnt: "counted T cnt (xc_world x)" and sent: "rs_sent (xc_resp x) = None"
    and mono: "mono (clock (xc_world x))" and win: "0 < window"
    and T: "clock (xc_world x) (Suc (ticks (xc_world x))) < T" "T \<le> clock (xc_world x) (ticks (xc_world x)) + window"
    and a: "a = rq_remote_addr r" and small: "int (cnt a) < 2 ^ 63 - 1"
  obtains y s where
    "rate_limit limit window nxt r x =
      (if limit < int (Suc (cnt a)) then (Ok (), y\<lparr>xc_resp := s\<rparr>) else nxt r y)"
    "status s = 429" "rs_sent (xc_resp y) = None" "counted T (cnt(a := Suc (cnt a))) (xc_world y)"
    "clock (xc_world y) = clock (xc_world x)" "ticks (xc_world x) < ticks (xc_world y)"
proof -
  let ?w = "xc_world x" and ?k = "addr_key a"
  have k: "rate_key r = ?k" by (simp add: rate_key_def addr_key_def a)
  have ok: "faults ?w = []" using cnt by (simp add: counted_def)
  have le: "clock ?w (ticks ?w) \<le> clock ?w (Suc (ticks ?w))" using mono by (simp add: monoD)
  obtain w2 ttl where run: "\<exists>w1. redis_incr ?k ?w = (Ok (int (Suc (cnt a))), w1) \<and>
      (if int (Suc (cnt a)) = 1 then ignoreM (redis_expire ?k window) else retM ()) w1 = (Ok (), w2)"
    and w2: "faults w2 = []" "clock w2 = clock ?w" "ticks ?w \<le> ticks w2" "counted T (cnt(a := Suc (cnt a))) w2"
    and ttl: "redis_ttl ?k w2 = (Ok ttl, w2\<lparr>ticks := Suc (ticks w2)\<rparr>)"
  proof (cases "cnt a = 0")
    case True
    then have none: "redis ?w ?k = None" using countedD(2) [OF cnt] by simp
    let ?w2 = "?w\<lparr>redis := (redis ?w)(?k \<mapsto> (itoa 1, Some (clock ?w (Suc (ticks ?w)) + window))),
      ticks := Suc (Suc (ticks ?w))\<rparr>"
    have "counted T (cnt(a := Suc (cnt a))) ?w2"
      using T(2) le ok True by (intro counted_bump [OF cnt]) auto
    moreover obtain t where "redis_ttl ?k ?w2 = (Ok t, ?w2\<lparr>ticks := Suc (ticks ?w2)\<rparr>)"
      using redis_ttl_run [of ?w2 ?k] ok by auto
    ultimately show ?thesis
      using redis_incr_first [OF ok none] redis_expire_live [of "?w\<lparr>redis := (redis ?w)(?k \<mapsto> (itoa 1, None)),
          ticks := Suc (ticks ?w)\<rparr>" ?k "itoa 1" window] ok win True
      by (intro that [of ?w2 t]) (auto simp: ignoreM_def tryM_def retM_def)
  next
    case False
    then obtain e where e: "redis ?w ?k = Some (itoa (int (cnt a)), Some e)" "T \<le> e"
      using countedD(3) [OF cnt] by blast
    let ?w2 = "?w\<lparr>redis := (redis ?w)(?k \<mapsto> (itoa (int (Suc (cnt a))), Some e)), ticks := Suc (ticks ?w)\<rparr>"
    have "counted T (cnt(a := Suc (cnt a))) ?w2" using e ok by (intro counted_bump [OF cnt]) auto
    moreover obtain t where "redis_ttl ?k ?w2 = (Ok t, ?w2\<lparr>ticks := Suc (ticks ?w2)\<rparr>)"
      using redis_ttl_run [of ?w2 ?k] ok by auto
    moreover have "clock ?w (ticks ?w) < e" using e(2) T(1) le by linarith
    ultimately show ?thesis
      using redis_incr_next [OF ok e(1) _ small] ok False
      by (intro that [of ?w2 t]) (auto simp: retM_def add.commute)
  qed
  let ?x1 = "x\<lparr>xc_world := w2\<lparr>ticks := Suc (Suc (ticks w2))\<rparr>,
    xc_resp := limit_headers limit (int (Suc (cnt a))) ttl (clock w2 (Suc (ticks w2))) (xc_resp x)\<rparr>"
  obtain s where s: "refuse_limit ttl ?x1 = (Ok (), ?x1\<lparr>xc_resp := s\<rparr>)" "status s = 429"
    using refuse_limit_run [of ?x1 ttl] sent by auto
  show ?thesis
  proof (rule that [where y = ?x1 and s = s])
    obtain w1 where "redis_incr ?k ?w = (Ok (int (Suc (cnt a))), w1)"
        "(if int (Suc (cnt a)) = 1 then ignoreM (redis_expire ?k window) else retM ()) w1 = (Ok (), w2)"
      using run by blast
    note hit = rate_limit_counted [OF this [folded k] ttl [folded k]]
    show "rate_limit limit window nxt r x =
        (if limit < int (Suc (cnt a)) then (Ok (), ?x1\<lparr>xc_resp := s\<rparr>) else nxt r ?x1)"
      using s unfolding hit by simp
  qed (use w2 s sent counted_ticks [OF w2(4)] in simp_all)
qed

definition moves :: "world \<Rightarrow> world \<Rightarrow> bool" where
  "moves w w' \<longleftrightarrow> ticks w \<le> ticks w' \<and> clock w' = clock w \<and> faults w' = faults w"

lemma moves_trans: "moves u v \<Longrightarrow> moves v w \<Longrightarrow> moves u w"
  by (auto simp: moves_def)

lemma unlimited_moves: "unlimited h \<Longrightarrow> moves (xc_world x) (xc_world (snd (h r x)))"
  by (simp add: unlimited_def Let_def moves_def)

lemma rate_limit_moves:
  assumes "faults (xc_world x) = []" "unlimited nxt"
  shows "moves ((xc_world x)\<lparr>ticks := Suc (ticks (xc_world x))\<rparr>)
    (xc_world (snd (rate_limit limit window nxt r x)))"
proof -
  let ?w = "xc_world x"
  note nx = unlimited_moves [OF assms(2)]
  obtain res w1 where i: "redis_incr (rate_key r) ?w = (res, w1)" by fastforce
  have w1: "faults w1 = []" "moves (?w\<lparr>ticks := Suc (ticks ?w)\<rparr>) w1"
    using redisM_moves [OF assms(1) i [unfolded redis_incr_def]] assms(1) by (simp_all add: moves_def)
  show ?thesis
  proof (cases res)
    case (Ok n)
    obtain w2 where w2: "(if n = 1 then ignoreM (redis_expire (rate_key r) window) else retM ()) w1 = (Ok (), w2)"
      "faults w2 = []" "moves w1 w2"
    proof (cases "n = 1")
      case True
      then show ?thesis
        using redis_expire_moves [OF w1(1), of "rate_key r" window] that w1(1)
        by (auto simp: ignoreM_def tryM_def retM_def moves_def)
    qed (use that w1 in \<open>auto simp: retM_def moves_def\<close>)
    obtain t where t: "redis_ttl (rate_key r) w2 = (Ok t, w2\<lparr>ticks := Suc (ticks w2)\<rparr>)"
      using redis_ttl_run [OF w2(2)] by blast
    let ?w3 = "w2\<lparr>ticks := Suc (Suc (ticks w2))\<rparr>"
    have "moves (?w\<lparr>ticks := Suc (ticks ?w)\<rparr>) ?w3"
      using moves_trans [OF w1(2) w2(3)] by (auto simp: moves_def)
    moreover have "moves ?w3 (xc_world (snd (rate_limit limit window nxt r x)))"
      using nx [of "x\<lparr>xc_world := ?w3, xc_resp := _\<rparr>" r]
      by (simp add: rate_limit_counted [OF i [unfolded Ok] w2(1) t] refuse_limit_def bindM_def
          set_header_run respond_error_run moves_def)
    ultimately show ?thesis by (rule moves_trans)
  next
    case (Err e)
    have "moves w1 (xc_world (snd (nxt r (x\<lparr>xc_world := w1\<rparr>))))"
      using nx [of "x\<lparr>xc_world := w1\<rparr>" r] by simp
    with Err show ?thesis
      using i moves_trans [OF w1(2)] by (simp add: rate_limit_def worldM_def tryM_def)
  next
    case (Panic p)
    then show ?thesis using i w1(2) by (simp add: rate_limit_def worldM_def tryM_def)
  qed
qed

lemma serve_moves:
  assumes "faults w = []" "unlimited nxt"
  shows "moves w (snd (serve (rate_limit limit window nxt) rs w))"
  using assms(1)
proof (induction rs arbitrary: w)
  case (Cons r rs)
  let ?x = "\<lparr>xc_world = w, xc_resp = new_response (\<lambda>_. None)\<rparr>"
  let ?w1 = "xc_world (snd (rate_limit limit window nxt r ?x))"
  have m: "moves w ?w1"
    using rate_limit_moves [of ?x nxt limit window r] Cons.prems assms(2) by (auto simp: moves_def)
  then have "faults ?w1 = []" using Cons.prems by (simp add: moves_def)
  from moves_trans [OF m Cons.IH [OF this]] show ?case by (simp add: Let_def split_beta)
qed (simp add: moves_def)

definition same_address :: "request \<Rightarrow> request list \<Rightarrow> nat" where
  "same_address r rs = length (filter (\<lambda>q. rq_remote_addr q = rq_remote_addr r) rs)"

lemma counted_keep:
  assumes "counted T cnt (xc_world x)" "unlimited h"
  shows "counted T cnt (xc_world (snd (h r x)))"
  using assms by (simp add: counted_def unlimited_def Let_def)

lemma serve_counted:
  assumes "counted T cnt w" "unlimited nxt" "mono (clock w)" "0 < window" "T \<le> clock w (ticks w) + window"
    and "\<forall>a. int (cnt a) + int (length rs) < 2 ^ 63"
    and "clock w (ticks (snd (serve (rate_limit limit window nxt) rs w))) < T"
  shows "length (fst (serve (rate_limit limit window nxt) rs w)) = length rs \<and> (\<forall>i < length rs.
    status (fst (serve (rate_limit limit window nxt) rs w) ! i) = 429 \<longleftrightarrow>
       limit \<le> int (cnt (rq_remote_addr (rs ! i)) + same_address (rs ! i) (take i rs)))"
  using assms
proof (induction rs arbitrary: cnt w)
  case (Cons r rs)
  let ?h = "rate_limit limit window nxt" and ?a = "rq_remote_addr r"
  let ?x = "\<lparr>xc_world = w, xc_resp = new_response (\<lambda>_. None)\<rparr>"
  let ?x' = "snd (?h r ?x)"
  let ?w1 = "xc_world ?x'"
  have ok: "faults w = []" by (rule countedD(1) [OF Cons.prems(1)])
  have m: "moves (w\<lparr>ticks := Suc (ticks w)\<rparr>) ?w1"
    using rate_limit_moves [of ?x nxt limit window r] ok Cons.prems(2) by simp
  have m1: "moves ?w1 (snd (serve ?h rs ?w1))"
    using serve_moves [of ?w1 nxt limit window rs] m ok Cons.prems(2) by (simp add: moves_def)
  have fin: "snd (serve ?h (r # rs) w) = snd (serve ?h rs ?w1)" by (simp add: Let_def split_beta)
  have "Suc (ticks w) \<le> ticks (snd (serve ?h (r # rs) w))" using m m1 unfolding fin by (simp add: moves_def)
  with Cons.prems(3,7) have T: "clock w (Suc (ticks w)) < T" by (meson monoD order_le_less_trans)
  have small: "int (cnt ?a) < 2 ^ 63 - 1" using Cons.prems(6) [rule_format, of ?a] by simp
  obtain y s where run: "?h r ?x = (if limit < int (Suc (cnt ?a)) then (Ok (), y\<lparr>xc_resp := s\<rparr>) else nxt r y)"
    and y: "status s = 429" "rs_sent (xc_resp y) = None" "counted T (cnt(?a := Suc (cnt ?a))) (xc_world y)"
  proof (rule rate_limit_step [where x = ?x and T = T and cnt = cnt and a = ?a and window = window and r = r
        and limit = limit and nxt = nxt], goal_cases)
    case (9 y s)
    then show ?thesis using that by blast
  qed (use Cons.prems T small in \<open>simp_all add: new_response_def\<close>)
  have over: "status (xc_resp ?x') = 429 \<longleftrightarrow> limit \<le> int (cnt ?a)"
    using Cons.prems(2) y by (auto simp: run unlimited_def Let_def)
  have c1: "counted T (cnt(?a := Suc (cnt ?a))) ?w1"
    using y(3) counted_keep [OF y(3) Cons.prems(2)] by (auto simp: run)
  have IH: "length (fst (serve ?h rs ?w1)) = length rs \<and> (\<forall>i < length rs.
      status (fst (serve ?h rs ?w1) ! i) = 429 \<longleftrightarrow>
        limit \<le> int ((cnt(?a := Suc (cnt ?a))) (rq_remote_addr (rs ! i)) + same_address (rs ! i) (take i rs)))"
  proof (rule Cons.IH [OF c1 Cons.prems(2)])
    show "mono (clock ?w1)" using Cons.prems(3) m by (simp add: moves_def)
    have "clock w (ticks w) \<le> clock w (ticks ?w1)" using m Cons.prems(3) by (auto simp: moves_def intro: monoD)
    then show "T \<le> clock ?w1 (ticks ?w1) + window" using Cons.prems(5) m by (simp add: moves_def)
    show "\<forall>a. int ((cnt(?a := Suc (cnt ?a))) a) + int (length rs) < 2 ^ 63"
      using Cons.prems(6) by (auto simp: algebra_simps) (smt (verit))
    show "clock ?w1 (ticks (snd (serve ?h rs ?w1))) < T" using Cons.prems(7) m unfolding fin by (simp add: moves_def)
  qed (use Cons.prems(4) in simp)
  have out: "fst (serve ?h (r # rs) w) = xc_resp ?x' # fst (serve ?h rs ?w1)" by (simp add: Let_def split_beta)
  show ?case
  proof (intro conjI allI impI)
    fix i assume "i < length (r # rs)"
    then show "status (fst (serve ?h (r # rs) w) ! i) = 429 \<longleftrightarrow>
        limit \<le> int (cnt (rq_remote_addr ((r # rs) ! i)) + same_address ((r # rs) ! i) (take i (r # rs)))"
      using over IH unfolding out
      by (cases i) (auto simp: same_address_def)
  qed (use IH in \<open>simp add: Let_def split_beta\<close>)
qed simp

text \<open>
  C22: while Redis answers, the limiter is exact within a window: of any interleaving of requests that
  are served before a window has passed since the first, a request is refused with 429 if and only if
  at least \<open>limit\<close> requests came before it from the same remote address; requests from other addresses
  never count against it. The handler behind the limiter is any that leaves the counters alone.
\<close>

theorem rate_limit_window:
  assumes "faults w = []" "\<forall>a. redis w (''ratelimit:'' @ a) = None" "mono (clock w)" "0 < window"
    and "unlimited nxt" "int (length rs) < 2 ^ 63"
    and "clock w (ticks (snd (serve (rate_limit limit window nxt) rs w))) < clock w (ticks w) + window"
  shows "\<forall>i < length rs. status (fst (serve (rate_limit limit window nxt) rs w) ! i) = 429 \<longleftrightarrow>
    limit \<le> int (same_address (rs ! i) (take i rs))"
proof -
  have "counted (clock w (ticks w) + window) (\<lambda>_. 0) w"
    using assms(1,2) by (simp add: counted_def addr_key_def)
  from serve_counted [OF this assms(5,3,4)] show ?thesis using assms(6,7) by simp
qed

definition plain_request :: request where
  "plain_request = \<lparr>rq_method = ''GET'', rq_path = ''/'', rq_raw_query = [], rq_query = [],
     rq_headers = (\<lambda>_. None), rq_params = [], rq_body = [], rq_max_body = None, rq_remote_addr = ''a'',
     rq_host = ''h'', rq_content_length = 0, rq_ctx = background\<rparr>"

lemma unlimited_ok: "unlimited (\<lambda>r. respond_success Nil)"
proof -
  have "api_json (success_response Nil Nil) = Some (JObj [(''success'', JBool True)])"
    by (simp add: api_json_def success_response_def)
  then show ?thesis by (simp add: unlimited_def respond_success_def respond_json_run status_written)
qed

lemma rate_limit_window_witness:
  "let ss = fst (serve (rate_limit 1 minute (\<lambda>r. respond_success Nil))
       [plain_request, plain_request\<lparr>rq_remote_addr := ''b''\<rparr>, plain_request] (init_world\<lparr>clock := \<lambda>_. 0\<rparr>))
   in status (ss ! 0) \<noteq> 429 \<and> status (ss ! 1) \<noteq> 429 \<and> status (ss ! 2) = 429"
proof -
  let ?rs = "[plain_request, plain_request\<lparr>rq_remote_addr := ''b''\<rparr>, plain_request]"
  have "\<forall>i < 3. status (fst (serve (rate_limit 1 minute (\<lambda>r. respond_success Nil)) ?rs (init_world\<lparr>clock := \<lambda>_. 0\<rparr>)) ! i) = 429 \<longleftrightarrow>
      1 \<le> int (same_address (?rs ! i) (take i ?rs))"
    using rate_limit_window [of "init_world\<lparr>clock := \<lambda>_. 0\<rparr>" minute "\<lambda>r. respond_success Nil" ?rs 1] unlimited_ok
    by (simp add: init_world_def mono_def)
  from this [rule_format, of 0] this [rule_format, of 1] this [rule_format, of 2] show ?thesis
    by (simp add: same_address_def plain_request_def Let_def)
qed

section \<open>Replayed responses\<close>

lemma b64_char_url_all: "\<forall>n < (64::nat). b64_char n \<noteq> CHR ''+'' \<and> b64_char n \<noteq> CHR ''/''"
  by code_simp

lemma b64_char_url [simp]: "n < 64 \<Longrightarrow> b64_char n \<noteq> CHR ''+''" "n < 64 \<Longrightarrow> b64_char n \<noteq> CHR ''/''"
  using b64_char_url_all by auto

lemma b64_encode_url: "list_all (\<lambda>c. c \<noteq> CHR ''+'' \<and> c \<noteq> CHR ''/'') (b64_encode s)"
  by (induction s rule: b64_encode.induct) (simp_all add: Let_def)

lemma url_std_letter: "list_all (\<lambda>c. c \<noteq> CHR ''+'' \<and> c \<noteq> CHR ''/'') s \<Longrightarrow> map (url_letter \<circ> std_letter) s = s"
  by (induction s) (simp_all add: url_letter_def std_letter_def)

lemma std_letter_no_url: "CHR ''-'' \<notin> set (map std_letter s) \<and> CHR ''_'' \<notin> set (map std_letter s)"
  by (induction s) (auto simp: std_letter_def)

lemma read_bytes_json: "s \<noteq> [] \<Longrightarrow> read_bytes (bytes_json s) = Some s"
  using std_letter_no_url [of "b64_encode s"]
  by (simp add: bytes_json_def url_std_letter [OF b64_encode_url] b64_round_trip)

lemma valid_digits:
  assumes "list_all is_digit t" "t \<noteq> []" "hd t \<noteq> CHR ''0''"
  shows "valid_number t \<and> list_all is_num_char t"
proof -
  have w: "takeWhile is_digit t = t" "dropWhile is_digit t = []"
    using assms(1) by (auto simp: list_all_iff takeWhile_eq_all_conv dropWhile_eq_Nil_conv)
  have "hd t \<noteq> CHR ''-''" using assms(1,2) by (cases t) (auto simp: is_digit_def)
  moreover have "\<forall>c \<in> set t. is_digit c" using assms(1) by (simp add: list_all_iff)
  ultimately have "valid_number t" using assms(2,3) by (simp add: valid_number_def Let_def w)
  moreover have "list_all is_num_char t" using assms(1) by (auto simp: list_all_iff is_num_char_def)
  ultimately show ?thesis by blast
qed

lemma nat_digits_hd: "0 < n \<Longrightarrow> hd (nat_digits n) \<noteq> CHR ''0''"
proof (induction n rule: nat_digits.induct)
  case (1 n)
  have d: "char_of (48 + m) \<noteq> CHR ''0''" if "0 < m" "m < 10" for m :: nat
  proof
    assume "char_of (48 + m) = CHR ''0''"
    then have "of_char (char_of (48 + m)) = (48 :: nat)" by simp
    with that show False by simp
  qed
  show ?case
    using 1 d [of n] nat_digits_val [of "n div 10"] by (simp add: nat_digits.simps [of n])
qed

lemma valid_itoa: "0 < i \<Longrightarrow> valid_number (itoa i) \<and> list_all is_num_char (itoa i)"
  using nat_digits_val [of "nat i"] nat_digits_hd [of "nat i"] valid_digits [of "nat_digits (nat i)"]
  by (simp add: itoa_def)

lemma entry_field_names: "to_lower ''status_code'' = ''status_code''" "to_lower ''body'' = ''body''"
  by code_simp+

lemma decode_entry_json:
  assumes "0 < st" "st < 2 ^ 63"
  shows "decode_entry (json_text (entry_json st body)) = Some (st, body)"
proof -
  have wf: "wf_json (entry_json st body)"
    using valid_itoa [OF assms(1)] by (simp add: entry_json_def bytes_json_def)
  have "field_values ''status_code'' [(''status_code'', JNum t), (''body'', v)] = [JNum t]"
    "field_values ''body'' [(''status_code'', JNum t), (''body'', v)] = (if v = JNull then [] else [v])" for t v
    by (simp_all add: field_values_def key_matches_def entry_field_names)
  then show ?thesis
    unfolding decode_entry_def json_round_trip [OF wf]
    using atoi_itoa [of st] assms read_bytes_json [of body]
    by (auto simp: entry_json_def typed_field_def bytes_json_def Let_def)
qed

text \<open>Everything a replayed request gets: headers, status and bytes.\<close>

definition replayed :: "string \<Rightarrow> int \<Rightarrow> string \<Rightarrow> response \<Rightarrow> response" where
  "replayed key st body s = do_write body (do_write_header st
     (do_set_header ''Idempotency-Key'' key (do_set_header ''Content-Type'' ''application/json'' s)))"

definition keyed :: "string \<Rightarrow> request \<Rightarrow> bool" where
  "keyed key r \<longleftrightarrow> rq_method r = ''POST'' \<and> header_get r ''Idempotency-Key'' = key \<and> key \<noteq> ''''"

lemma idempotency_hit:
  assumes "keyed key r" "faults (xc_world x) = []" "0 < st" "st < 2 ^ 63"
    and "redis (xc_world x) (idempotency_key key) = Some (json_text (entry_json st body), Some e)"
    and "clock (xc_world x) (ticks (xc_world x)) < e"
  shows "idempotency ttl h r x = (Ok (), \<lparr>xc_world = (xc_world x)\<lparr>ticks := Suc (ticks (xc_world x))\<rparr>,
    xc_resp = replayed key st body (xc_resp x)\<rparr>)"
proof -
  have "redis_get (idempotency_key key) (xc_world x) =
      (Ok (json_text (entry_json st body)), (xc_world x)\<lparr>ticks := Suc (ticks (xc_world x))\<rparr>)"
    using assms(2,5,6) by (simp add: redis_get_def redisM_nofault live_at_def)
  moreover have "json_text (entry_json st body) \<noteq> []" by (simp add: entry_json_def)
  ultimately show ?thesis
    using assms(1) decode_entry_json [OF assms(3,4), of body]
    by (simp add: idempotency_def keyed_def worldM_def tryM_def replay_entry_def exchange_run replayed_def
        del: json_text.simps)
qed

lemma idempotency_miss:
  assumes "keyed key r" "faults (xc_world x) = []"
    and "live_at (clock (xc_world x) (ticks (xc_world x))) (redis (xc_world x)) (idempotency_key key) = None"
  shows "idempotency ttl h r x = capture_entry ttl key h r
    (x\<lparr>xc_world := (xc_world x)\<lparr>ticks := Suc (ticks (xc_world x))\<rparr>\<rparr>)"
proof -
  have "redis_get (idempotency_key key) (xc_world x) =
      (Err redis_nil, (xc_world x)\<lparr>ticks := Suc (ticks (xc_world x))\<rparr>)"
    using assms(2,3) by (simp add: redis_get_def redisM_nofault)
  then show ?thesis
    using assms(1) by (simp add: idempotency_def keyed_def worldM_def tryM_def Let_def)
qed

text \<open>
  C23: the first successful answer to a POST with an idempotency key is stored, and until the entry
  expires every further POST with that key is answered with the stored status and bytes without
  running its handler: the tables, the mail and the tokens stay as they are. The key alone decides.
  Neither the path nor the body nor the credentials of the second request are looked at, so a client
  that reuses or guesses a key receives the answer meant for another endpoint or another user.
\<close>

theorem idempotency_replays:
  assumes "keyed key r" "faults (xc_world x) = []" "0 < ttl"
    and "live_at (clock (xc_world x) (ticks (xc_world x))) (redis (xc_world x)) (idempotency_key key) = None"
    and "observed h r (x\<lparr>xc_world := (xc_world x)\<lparr>ticks := Suc (ticks (xc_world x))\<rparr>\<rparr>) = (Ok (codes, body), y)"
    and "faults (xc_world y) = []" "200 \<le> last_code codes" "last_code codes < 300"
    and "keyed key r2" "faults (xc_world x2) = []"
    and "redis (xc_world x2) (idempotency_key key) =
      redis (xc_world (snd (idempotency ttl h r x))) (idempotency_key key)"
    and "clock (xc_world x2) (ticks (xc_world x2)) < clock (xc_world y) (ticks (xc_world y)) + ttl"
  shows "idempotency ttl h2 r2 x2 = (Ok (), \<lparr>xc_world = (xc_world x2)\<lparr>ticks := Suc (ticks (xc_world x2))\<rparr>,
    xc_resp = replayed key (last_code codes) body (xc_resp x2)\<rparr>)"
proof (rule idempotency_hit [OF assms(9,10)])
  have "redis (xc_world (snd (idempotency ttl h r x))) (idempotency_key key) =
    Some (json_text (entry_json (last_code codes) body), Some (clock (xc_world y) (ticks (xc_world y)) + ttl))"
    unfolding idempotency_miss [OF assms(1,2,4)]
    using assms(3,5-8)
    by (simp add: capture_entry_def bindM_def ignoreM_def tryM_def worldM_def redis_set_def redisM_nofault
        set_header_run retM_def del: json_text.simps)
  then show "redis (xc_world x2) (idempotency_key key) =
    Some (json_text (entry_json (last_code codes) body), Some (clock (xc_world y) (ticks (xc_world y)) + ttl))"
    using assms(11) by simp
qed (use assms in simp_all)

text \<open>Two clients with the same key: the second asks for another path and gets the first one's answer.\<close>

definition keyed_request :: request where
  "keyed_request = plain_request\<lparr>rq_method := ''POST'', rq_path := ''/api/v1/auth/login'',
     rq_headers := (\<lambda>h. if h = to_lower ''Idempotency-Key'' then Some ''k'' else None)\<rparr>"

lemma keyed_request_key: "keyed ''k'' keyed_request" "keyed ''k'' (keyed_request\<lparr>rq_path := p, rq_body := b\<rparr>)"
  by (simp_all add: keyed_def keyed_request_def header_get_def or_empty_def)

lemma idempotency_replays_witness:
  "let x = \<lparr>xc_world = init_world, xc_resp = new_response (\<lambda>_. None)\<rparr>;
       first = snd (idempotency hour (\<lambda>r. write_body ''secret'') keyed_request x);
       second = snd (idempotency hour (\<lambda>r. respond_bad_request ''not run'')
         (keyed_request\<lparr>rq_path := ''/api/v1/auth/register'', rq_body := ''{}''\<rparr>)
         \<lparr>xc_world = xc_world first, xc_resp = new_response (\<lambda>_. None)\<rparr>)
   in rs_body (xc_resp second) = ''secret'' \<and> status (xc_resp second) = 200"
proof -
  let ?x = "\<lparr>xc_world = init_world, xc_resp = new_response (\<lambda>_. None)\<rparr>"
  let ?h = "\<lambda>r :: request. write_body ''secret''"
  let ?first = "snd (idempotency hour ?h keyed_request ?x)"
  let ?w1 = "init_world\<lparr>ticks := Suc 0\<rparr>"
  have live: "live_at (clock init_world (ticks init_world)) (redis init_world) (idempotency_key ''k'') = None"
    by (simp add: init_world_def live_at_def)
  have obs: "observed ?h keyed_request \<lparr>xc_world = ?w1, xc_resp = new_response (\<lambda>_. None)\<rparr> =
    (Ok ([], ''secret''), \<lparr>xc_world = ?w1, xc_resp = do_write ''secret'' (new_response (\<lambda>_. None))\<rparr>)"
    by (simp add: observed_def write_body_run bindM_def readM_def do_write_def new_response_def send_status_def)
  have f: "faults (xc_world ?first) = [] \<and> ticks (xc_world ?first) = 2 \<and> clock (xc_world ?first) = clock init_world"
    using idempotency_miss [OF keyed_request_key(1), of ?x hour ?h] live obs
    by (simp add: init_world_def capture_entry_def last_code_def bindM_def ignoreM_def tryM_def worldM_def
        redis_set_def redisM_nofault set_header_run retM_def del: json_text.simps)
  have c: "(1::int) * second + hour > 2 * second" by simp
  show ?thesis
    using idempotency_replays [OF keyed_request_key(1), of ?x hour ?h "[]" "''secret''" _
        "keyed_request\<lparr>rq_path := ''/api/v1/auth/register'', rq_body := ''{}''\<rparr>"
        "\<lparr>xc_world = xc_world ?first, xc_resp = new_response (\<lambda>_. None)\<rparr>" "\<lambda>r. respond_bad_request ''not run''"]
      live obs f c keyed_request_key(2)
    by (simp add: last_code_def replayed_def do_write_def do_write_header_def do_set_header_def
        new_response_def send_status_def status_def init_world_def)
qed

section \<open>Errors as responses\<close>

fun error_class :: "sentinel \<Rightarrow> (int \<times> string) option" where
  "error_class ErrNotFound = Some (404, ''NOT_FOUND'')"
| "error_class ErrAlreadyExists = Some (409, ''CONFLICT'')"
| "error_class ErrConflict = Some (409, ''CONFLICT'')"
| "error_class ErrValidation = Some (400, ''VALIDATION_ERROR'')"
| "error_class ErrForbidden = Some (403, ''FORBIDDEN'')"
| "error_class ErrUnauthorized = Some (401, ''UNAUTHORIZED'')"
| "error_class _ = None"

definition classified :: "goerr \<Rightarrow> bool" where
  "classified e \<longleftrightarrow> (\<exists>s \<in> {ErrNotFound, ErrAlreadyExists, ErrConflict, ErrValidation, ErrForbidden, ErrUnauthorized}. err_is e s)"

lemma map_error_classified:
  assumes "err_is e s" "error_class s = Some (st, ec)"
  shows "map_error_from_request E r e = respond_error st ec (err_text e)"
proof -
  have u: "err_is e t \<longleftrightarrow> t = s" for t using assms(1) err_is_unique by blast
  show ?thesis
    using assms(2) by (cases s)
      (simp_all add: map_error_from_request_def u respond_not_found_def respond_conflict_def
        respond_bad_request_def respond_forbidden_def respond_unauthorized_def)
qed

text \<open>Other errors are also put on the span of the request, with their stack.\<close>

lemma map_error_unclassified:
  "\<not> classified e \<Longrightarrow> \<exists>f. map_error_from_request E r e x =
     (if he_production E then respond_error 500 ''INTERNAL_ERROR'' ''internal server error''
      else respond_json 500 (api_json (error_response ''INTERNAL_ERROR'' (err_text e) (he_stack E))))
       (x\<lparr>xc_world := (xc_world x)\<lparr>active_span := map_option f (active_span (xc_world x))\<rparr>\<rparr>)"
  by (auto simp: map_error_from_request_def classified_def respond_internal_from_request_def
      respond_internal_error_def get_error_info_def with_context_def set_error_info_def
      worldM_def spanM_def op_defs)

text \<open>
  C25: an error is answered by the sentinel it wraps, at whatever depth: its status, its code and the
  text of the whole chain. Any other error is a 500, and in production all of them get one and the
  same answer, so that nothing of the error, its text or the stack reaches the client; they only go to
  the span of the request.
\<close>

theorem errors_to_responses:
  assumes "classified e" "he_production E" "\<not> classified e1" "\<not> classified e2"
  shows "(\<exists>s st ec. err_is e s \<and> error_class s = Some (st, ec) \<and>
      map_error_from_request E r e = respond_error st ec (err_text e)) \<and>
    (\<forall>(d, q) \<in> {(e1, r), (e2, r2)}. \<exists>sp. map_error_from_request E q d x =
      (Ok (), x\<lparr>xc_world := (xc_world x)\<lparr>active_span := sp\<rparr>, xc_resp := json_written 500
        (JObj [(''success'', JBool False), (''error'', error_body_json (''INTERNAL_ERROR'', ''internal server error''))])
        (xc_resp x)\<rparr>))"
proof -
  obtain s where "err_is e s" "error_class s \<noteq> None" using assms(1) by (auto simp: classified_def)
  then have "\<exists>s st ec. err_is e s \<and> error_class s = Some (st, ec) \<and>
      map_error_from_request E r e = respond_error st ec (err_text e)"
    using map_error_classified by auto
  moreover have "\<exists>sp. map_error_from_request E q d x =
      (Ok (), x\<lparr>xc_world := (xc_world x)\<lparr>active_span := sp\<rparr>, xc_resp := json_written 500
        (JObj [(''success'', JBool False), (''error'', error_body_json (''INTERNAL_ERROR'', ''internal server error''))])
        (xc_resp x)\<rparr>)"
    if "\<not> classified d" for d q
    using map_error_unclassified [OF that, of E q x] assms(2) by (auto simp: respond_error_run)
  ultimately show ?thesis using assms(3,4) by blast
qed

lemma errors_to_responses_witness:
  "let E = \<lparr>he_production = True, he_stack = ''goroutine 1'', he_type = (\<lambda>_. '''')\<rparr>;
       x = \<lparr>xc_world = init_world, xc_resp = new_response (\<lambda>_. None)\<rparr>
   in xc_resp (snd (map_error_from_request E plain_request (ExtErr ''password of the database'') x)) =
      xc_resp (snd (map_error_from_request E plain_request (PqErr ''42P01'' ''no table'') x))"
proof -
  have "classified (Wrapf ''todo'' (Sentinel ErrNotFound))" "\<not> classified (ExtErr m)" "\<not> classified (PqErr c m)" for c m
    by (simp_all add: classified_def)
  then show ?thesis
    using errors_to_responses [of "Wrapf ''todo'' (Sentinel ErrNotFound)"
        "\<lparr>he_production = True, he_stack = ''goroutine 1'', he_type = (\<lambda>_. '''')\<rparr>"
        "ExtErr ''password of the database''" "PqErr ''42P01'' ''no table''" plain_request plain_request
        "\<lparr>xc_world = init_world, xc_resp = new_response (\<lambda>_. None)\<rparr>"]
    by (auto simp: Let_def)
qed

section \<open>The formatter and the helpers\<close>

text \<open>A handler that works on the world and then answers with one of the response helpers.\<close>

definition answers :: "http_handler \<Rightarrow> request \<Rightarrow> world \<Rightarrow> int \<Rightarrow> api_response \<Rightarrow> world \<Rightarrow> bool" where
  "answers h r w st a w' \<longleftrightarrow> (\<forall>s. h r \<lparr>xc_world = w, xc_resp = s\<rparr> =
     respond_json st (api_json a) \<lparr>xc_world = w', xc_resp = s\<rparr>)"

lemma success_name: "to_lower ''success'' = ''success''" "to_lower ''data'' = ''data''" "to_lower ''meta'' = ''meta''"
  "to_lower ''error'' = ''error''" "to_lower ''stack'' = ''stack''"
  by code_simp+

lemma envelope_text:
  assumes "api_json a = Some j" "wf_json j"
  shows "is_envelope (json_text j @ newline)"
proof -
  obtain ms where j: "j = JObj ((''success'', JBool (ar_success a)) # ms)"
    "filter (\<lambda>(k, v). key_matches ''success'' k) ms = []"
    using assms(1)
    by (cases "ar_data a"; cases "ar_meta a")
      (auto simp: api_json_def key_matches_def success_name split: if_splits option.splits)
  have n: "ends newline" "skip_ws newline = []" by (simp_all add: newline_def ends_def is_num_char_def is_digit_def skip_ws_def is_ws_def)
  have "pval (2 * length (json_text j @ newline) + 2) (json_text j @ newline) = Some (j, newline)"
    by (rule pval_text(1) [OF assms(2) _ n(1)]) simp
  then have "json_parse (json_text j @ newline) = Some j" by (simp add: json_parse_def n)
  then show ?thesis
    using j(2) by (simp add: is_envelope_def j(1) pointer_field_def key_matches_def Let_def del: json_text.simps)
qed

text \<open>
  C26: the response formatter is the identity on every answer that goes through the response helpers:
  world, status, headers and bytes are those of the handler without it. So the envelopes of the
  handlers are never wrapped a second time.
\<close>

theorem formatter_transparent:
  assumes "answers h r w st a w'" "api_json a = Some j" "wf_json j"
  shows "response_formatter T num h r \<lparr>xc_world = w, xc_resp = new_response hs\<rparr> =
    h r \<lparr>xc_world = w, xc_resp = new_response hs\<rparr>"
proof -
  have run: "h r \<lparr>xc_world = w, xc_resp = s\<rparr> = (Ok (), \<lparr>xc_world = w', xc_resp = json_written st j s\<rparr>)" for s
    using assms(1) by (simp add: answers_def respond_json_run assms(2))
  show ?thesis
    using envelope_text [OF assms(2,3)]
    by (simp add: response_formatter_def run exchange_run json_written_def do_write_def do_write_header_def
        do_set_header_def send_status_def new_response_def first_code_def Let_def newline_def
        del: json_text.simps)
qed

lemma formatter_transparent_witness:
  "\<forall>T num. response_formatter T num (\<lambda>r. respond_not_found ''todo not found'') plain_request
     \<lparr>xc_world = init_world, xc_resp = new_response (\<lambda>_. None)\<rparr> =
   respond_not_found ''todo not found'' \<lparr>xc_world = init_world, xc_resp = new_response (\<lambda>_. None)\<rparr>"
proof -
  have "answers (\<lambda>r. respond_not_found ''todo not found'') plain_request init_world 404
      (error_response ''NOT_FOUND'' ''todo not found'' '''') init_world"
    by (simp add: answers_def respond_not_found_def respond_error_def)
  from formatter_transparent [OF this] show ?thesis by (simp add: error_body_json_def)
qed

end
