(* ===== verification/Router_Laws.thy ===== *)
theory Router_Laws
  imports Router Middleware_Laws
begin

text \<open>
  Who may reach what: every route behind the authentication of the root router is also behind the
  permission the access list names for it, whatever chi does with the path.
\<close>

section \<open>Routes of a router\<close>

fun routes :: "string \<Rightarrow> router \<Rightarrow> ((string option \<times> string) \<times> http_handler) list"
  and entry_routes :: "string \<Rightarrow> entry \<Rightarrow> ((string option \<times> string) \<times> http_handler) list" where
  "routes pre (Router ms es) = concat (map (entry_routes pre) es)"
| "entry_routes pre (Route m p h) = [((m, pre @ p), h)]"
| "entry_routes pre (Mount p ms rt) = routes (pre @ p) rt"

fun wrappers :: "router \<Rightarrow> middleware set" and entry_wrappers :: "entry \<Rightarrow> middleware set" where
  "wrappers (Router ms es) = set ms \<union> (\<Union>e \<in> set es. entry_wrappers e)"
| "entry_wrappers (Route m p h) = {}"
| "entry_wrappers (Mount p ms rt) = set ms \<union> wrappers rt"

lemma use_all_simps [simp]: "use_all [] h = h" "use_all (m # ms) h = m (use_all ms h)"
  "use_all (ms @ ms') h = use_all ms (use_all ms' h)"
  by (simp_all add: use_all_def)

lemma use_all_closed: "(\<And>m h. m \<in> set ms \<Longrightarrow> Q h \<Longrightarrow> Q (m h)) \<Longrightarrow> Q h \<Longrightarrow> Q (use_all ms h)"
  by (induction ms) auto

lemma route_in_found:
  assumes "route_in C (Router ms es) m path = (Some name, h)"
  shows "\<exists>i ps rest h'. i < length es \<and> route_entry C (es ! i) m rest = (Some name, h') \<and>
    h = use_all ms (with_params ps h')"
proof (cases "ch_match C m path (map pattern_of es)")
  case (Found i ps rest)
  then have "i < length es \<and> route_entry C (es ! i) m rest = (Some name, snd (route_entry C (es ! i) m rest)) \<and>
      h = use_all ms (with_params ps (snd (route_entry C (es ! i) m rest)))"
    using assms by (auto simp: case_prod_beta prod_eq_iff split: if_splits)
  then show ?thesis by blast
qed (use assms in simp_all)

text \<open>What holds of the handlers and survives the middlewares holds of what a request reaches.\<close>

lemma route_closed:
  assumes "\<And>n ps h. Q n h \<Longrightarrow> Q n (with_params ps h)"
  shows "route_in C rt m path = (Some (mt, q), h) \<Longrightarrow>
      (\<And>mw n h. mw \<in> wrappers rt \<Longrightarrow> Q n h \<Longrightarrow> Q n (mw h)) \<Longrightarrow>
      (\<And>n h. (n, h) \<in> set (routes pre rt) \<Longrightarrow> Q n h) \<Longrightarrow> Q (mt, pre @ q) h"
    and "route_entry C e m path = (Some (mt, q), h) \<Longrightarrow>
      (\<And>mw n h. mw \<in> entry_wrappers e \<Longrightarrow> Q n h \<Longrightarrow> Q n (mw h)) \<Longrightarrow>
      (\<And>n h. (n, h) \<in> set (entry_routes pre e) \<Longrightarrow> Q n h) \<Longrightarrow> Q (mt, pre @ q) h"
proof (induction rt and e arbitrary: m path mt q h pre and m path mt q h pre)
  case (Router ms es)
  then obtain i ps rest h' where i: "i < length es"
    and e: "route_entry C (es ! i) m rest = (Some (mt, q), h')" and h: "h = use_all ms (with_params ps h')"
    using route_in_found [OF Router.prems(1)] by blast
  have here: "Q (mt, pre @ q) h'"
  proof (rule Router.IH [OF nth_mem [OF i] e])
    fix mw n h
    assume w: "mw \<in> entry_wrappers (es ! i)" and q: "Q n h"
    have "mw \<in> wrappers (Router ms es)" using w nth_mem [OF i] by auto
    then show "Q n (mw h)" using q by (rule Router.prems(2))
  next
    fix n h
    assume "(n, h) \<in> set (entry_routes pre (es ! i))"
    then have "(n, h) \<in> set (routes pre (Router ms es))" using nth_mem [OF i] by auto
    then show "Q n h" by (rule Router.prems(3))
  qed
  show ?case unfolding h
  proof (rule use_all_closed [where Q = "Q (mt, pre @ q)"])
    show "Q (mt, pre @ q) (mw h)" if "mw \<in> set ms" "Q (mt, pre @ q) h" for mw h
      by (rule Router.prems(2)) (use that in simp_all)
  qed (rule assms [OF here])
next
  case (Mount p ms rt)
  then obtain q' h' where r: "route_in C rt m path = (Some (mt, q'), h')" and q: "q = p @ q'"
    and h: "h = use_all ms h'"
    using Mount.prems(1) by (cases "route_in C rt m path") auto
  have there: "Q (mt, (pre @ p) @ q') h'"
    by (rule Mount.IH [OF r]) (simp_all add: Mount.prems(2,3))
  show ?case unfolding h q
  proof (rule use_all_closed [where Q = "Q (mt, pre @ p @ q')"])
    show "Q (mt, pre @ p @ q') (mw h)" if "mw \<in> set ms" "Q (mt, pre @ p @ q') h" for mw h
      by (rule Mount.prems(2)) (use that in simp_all)
  qed (use there in simp)
next
  case (Route m' p h')
  then show ?case by simp
qed


section \<open>Who may call\<close>

text \<open>What a guard may change of the world: time passes, the fault schedule is used up.\<close>

definition idle :: "world \<Rightarrow> world \<Rightarrow> bool" where
  "idle w w' \<longleftrightarrow> db w' = db w \<and> policies w' = policies w \<and> redis w' = redis w \<and> clock w' = clock w \<and>
     ticks w \<le> ticks w' \<and> (faults w = [] \<longrightarrow> faults w' = [])"

lemma idle_refl [simp]: "idle w w"
  by (simp add: idle_def)

lemma idle_trans: "idle u v \<Longrightarrow> idle v w \<Longrightarrow> idle u w"
  by (auto simp: idle_def)

text \<open>
  \<open>token_ok\<close>: at some moment from now on the token of the request is valid and, as far as Redis can
  tell, not on the denylist. \<open>permitted\<close>: the policy in force grants the user of the context the permission.
\<close>

definition token_ok :: "token_service \<Rightarrow> request \<Rightarrow> world \<Rightarrow> token_claims \<Rightarrow> bool" where
  "token_ok svc r w c \<longleftrightarrow> header_get r ''Authorization'' \<noteq> '''' \<and>
     (\<exists>n. ticks w \<le> n \<and>
       fst (ts_validate_token svc (bearer_token (header_get r ''Authorization'')) (w\<lparr>ticks := n\<rparr>)) = Ok c) \<and>
     \<not> (tc_jti c \<noteq> '''' \<and> faults w = [] \<and> redis w (denylist_key (tc_jti c)) = Some (''1'', None))"

definition permitted :: "libs \<Rightarrow> world \<Rightarrow> string \<Rightarrow> string \<times> string \<Rightarrow> bool" where
  "permitted L w user p \<longleftrightarrow> (\<exists>uid. uuid_parse L user = Some uid \<and>
     matches_model L (policies w) (uuid_string L uid) (fst p) (snd p))"

definition may_call :: "libs \<Rightarrow> token_service \<Rightarrow> request \<Rightarrow> world \<Rightarrow> string \<times> string \<Rightarrow> bool" where
  "may_call L svc r w p \<longleftrightarrow> (\<exists>c. token_ok svc r w c \<and> permitted L w (tc_user_id c) p)"

text \<open>Refused: the tables are as they were and the answer is 401 or 403.\<close>

definition refused :: "exchange \<Rightarrow> (goerr, unit) outcome \<times> exchange \<Rightarrow> bool" where
  "refused x y \<longleftrightarrow> fst y = Ok () \<and> idle (xc_world x) (xc_world (snd y)) \<and>
     (rs_sent (xc_resp x) = None \<longrightarrow> status (xc_resp (snd y)) \<in> {401, 403})"

definition checks :: "libs \<Rightarrow> string \<times> string \<Rightarrow> http_handler \<Rightarrow> bool" where
  "checks L p h \<longleftrightarrow> (\<forall>r x. \<not> permitted L (xc_world x) (get_user_id (rq_ctx r)) p \<longrightarrow> refused x (h r x))"

definition needs :: "libs \<Rightarrow> token_service \<Rightarrow> string \<times> string \<Rightarrow> http_handler \<Rightarrow> bool" where
  "needs L svc p h \<longleftrightarrow> (\<forall>r x. \<not> may_call L svc r (xc_world x) p \<longrightarrow> refused x (h r x))"

definition guarded_by :: "libs \<Rightarrow> token_service \<Rightarrow> string \<times> string \<Rightarrow> http_handler \<Rightarrow> bool" where
  "guarded_by L svc p h \<longleftrightarrow> checks L p h \<or> needs L svc p h"

lemma refused_respond:
  "rs_sent (xc_resp x) = None \<longrightarrow> st \<in> {401, 403} \<Longrightarrow> refused x (respond_error st ec msg x)"
  by (simp add: refused_def respond_error_run status_written)

lemma refused_later: "idle (xc_world x) (xc_world y) \<Longrightarrow> xc_resp y = xc_resp x \<Longrightarrow> refused y z \<Longrightarrow> refused x z"
  by (auto simp: refused_def intro: idle_trans)

lemma checks_authorization: "checks L (res, act) (authorization L (enforcer_enforce L) res act h)"
  unfolding checks_def authorization_def respond_unauthorized_def respond_forbidden_def
  by (auto simp: permitted_def enforcer_enforce_def worldM_def readM_def tryM_def
      intro: refused_respond split: option.splits)

lemma checks_wrapped:
  assumes "checks L p h"
  shows "checks L p (with_params ps h)" "checks L p (timeout d h)" "checks L p (tenant_resolver cfg h)"
    "checks L p (max_body_size n h)"
  using assms unfolding checks_def with_params_def timeout_def tenant_resolver_def max_body_size_def
  by (simp_all add: with_context_def get_user_id_def)

lemma header_kept [simp]:
  "header_get (with_context r cx) k = header_get r k" "header_get (r\<lparr>rq_params := ps\<rparr>) k = header_get r k"
  "header_get (r\<lparr>rq_max_body := b\<rparr>) k = header_get r k"
  by (simp_all add: header_get_def with_context_def)

lemma needs_wrapped:
  assumes "needs L svc p h"
  shows "needs L svc p (with_params ps h)" "needs L svc p (timeout d h)" "needs L svc p (tenant_resolver cfg h)"
    "needs L svc p (max_body_size n h)"
  using assms unfolding needs_def with_params_def timeout_def tenant_resolver_def max_body_size_def may_call_def
    token_ok_def
  by simp_all


section \<open>Authentication\<close>

lemma redisM_idle:
  assumes f: "\<And>now m. snd (f now m) = m" and run: "redisM f w = (res, w')"
  shows "idle w w'"
proof -
  have reading: "case_prod (\<lambda>r m. (r, v\<lparr>redis := m, ticks := Suc (ticks v)\<rparr>)) (f (clock v (ticks v)) (redis v)) =
      (fst (f (clock v (ticks v)) (redis v)), v\<lparr>ticks := Suc (ticks v)\<rparr>)" for v
    using f [of "clock v (ticks v)" "redis v"] by (simp add: case_prod_beta)
  show ?thesis
    using run by (auto simp: redisM_def extM_def reading idle_def split: list.splits option.splits sum.splits)
qed

lemma redis_get_idle: "redis_get k w = (res, w') \<Longrightarrow> idle w w'"
  unfolding redis_get_def by (rule redisM_idle) (auto split: option.splits)

lemma denylisted_run:
  "\<exists>b w'. denylisted jti w = (Ok b, w') \<and> idle w w' \<and>
     (faults w = [] \<and> redis w (denylist_key jti) = Some (''1'', None) \<longrightarrow> b)"
proof (cases "redis_get (denylist_key jti) w")
  case (Pair res w')
  have q: "idle w w'" using redis_get_idle [OF Pair] .
  show ?thesis
  proof (cases "faults w = [] \<and> redis w (denylist_key jti) = Some (''1'', None)")
    case True
    then have "res = Ok ''1''" using Pair by (auto simp: redis_get_def redisM_nofault live_at_def)
    then show ?thesis using Pair q by (auto simp: denylisted_def tryM_def retM_def)
  next
    case False
    have "\<exists>r. res = Ok r \<or> (\<exists>e. res = Err e)"
      using Pair by (auto simp: redis_get_def redisM_def extM_def live_at_def
          split: list.splits option.splits prod.splits sum.splits if_splits)
    then show ?thesis using Pair q False by (auto simp: denylisted_def tryM_def retM_def)
  qed
qed

definition plain_service :: "token_service \<Rightarrow> bool" where
  "plain_service svc \<longleftrightarrow> (\<forall>tok w. snd (ts_validate_token svc tok w) = w\<lparr>ticks := Suc (ticks w)\<rparr> \<and>
     (\<forall>p. fst (ts_validate_token svc tok w) \<noteq> Panic p) \<and>
     (\<forall>v. clock v (ticks v) = clock w (ticks w) \<longrightarrow>
       fst (ts_validate_token svc tok v) = fst (ts_validate_token svc tok w)))"

lemma plain_service_run:
  assumes "plain_service svc"
  shows "(\<exists>e. ts_validate_token svc tok w = (Err e, w\<lparr>ticks := Suc (ticks w)\<rparr>)) \<or>
    (\<exists>c. ts_validate_token svc tok w = (Ok c, w\<lparr>ticks := Suc (ticks w)\<rparr>))"
proof -
  obtain res w' where run: "ts_validate_token svc tok w = (res, w')" by (cases "ts_validate_token svc tok w")
  have "snd (ts_validate_token svc tok w) = w\<lparr>ticks := Suc (ticks w)\<rparr>"
    "\<forall>p. fst (ts_validate_token svc tok w) \<noteq> Panic p"
    using assms unfolding plain_service_def by blast+
  then show ?thesis using run by (cases res) simp_all
qed

lemma plain_serviceD:
  "plain_service svc \<Longrightarrow> clock v (ticks v) = clock w (ticks w) \<Longrightarrow>
     fst (ts_validate_token svc tok v) = fst (ts_validate_token svc tok w)"
  unfolding plain_service_def by blast

lemma jwt_validate_run:
  "ts_validate_token (new_jwt_token_service L secret expiration) tok w =
     (case jwt_parse L (jwt_key \<lparr>js_secret = secret, js_expiration = expiration * second\<rparr>) tok (clock w (ticks w)) of
        None \<Rightarrow> Err (Wrapf ''parse token'' (ExtErr ''token is not valid''))
      | Some c \<Rightarrow> Ok (claims_of_jwt c), w\<lparr>ticks := Suc (ticks w)\<rparr>)"
  by (simp add: new_jwt_token_service_def validate_token_def Let_def bindM_def nowM_def errM_def retM_def
      split: option.splits)

lemma plain_jwt: "plain_service (new_jwt_token_service L secret expiration)"
  unfolding plain_service_def jwt_validate_run
  by (intro conjI allI impI) (simp_all split: option.splits)

text \<open>The authentication either refuses or hands the request on with the claims of a valid token.\<close>

lemma authentication_cases:
  assumes svc: "plain_service svc"
  shows "refused x (authentication_with_denylist svc denylisted nxt r x) \<or>
    (\<exists>c x1. token_ok svc r (xc_world x) c \<and> idle (xc_world x) (xc_world x1) \<and> xc_resp x1 = xc_resp x \<and>
       authentication_with_denylist svc denylisted nxt r x =
         nxt (with_context r (claims_ctx c (rq_ctx r))) x1)"
proof -
  let ?tok = "bearer_token (header_get r ''Authorization'')"
  let ?w1 = "(xc_world x)\<lparr>ticks := Suc (ticks (xc_world x))\<rparr>"
  let ?y = "x\<lparr>xc_world := ?w1\<rparr>"
  have q1: "idle (xc_world x) ?w1" by (simp add: idle_def)
  have out: "refused x (respond_unauthorized msg y)"
    if "idle (xc_world x) (xc_world y)" "xc_resp y = xc_resp x" for msg y
    unfolding respond_unauthorized_def by (rule refused_later [OF that]) (simp add: refused_respond)
  show ?thesis
  proof (cases "header_get r ''Authorization'' = ''''")
    case True
    then show ?thesis by (simp add: authentication_with_denylist_def with_claims_def out)
  next
    case head: False
    from plain_service_run [OF svc, of ?tok "xc_world x"] consider (bad) e where "ts_validate_token svc ?tok (xc_world x) = (Err e, ?w1)"
      | (good) c where "ts_validate_token svc ?tok (xc_world x) = (Ok c, ?w1)"
      by blast
    then show ?thesis
    proof cases
      case bad
      then show ?thesis
        using head q1 by (simp add: authentication_with_denylist_def with_claims_def tryM_def worldM_def out)
    next
      case good
      obtain b w2 where b: "denylisted (tc_jti c) ?w1 = (Ok b, w2)" "idle ?w1 w2"
          "faults ?w1 = [] \<and> redis ?w1 (denylist_key (tc_jti c)) = Some (''1'', None) \<longrightarrow> b"
        using denylisted_run by blast
      have q2: "idle (xc_world x) w2" using q1 b(2) by (rule idle_trans)
      have valid: "fst (ts_validate_token svc ?tok ((xc_world x)\<lparr>ticks := ticks (xc_world x)\<rparr>)) = Ok c"
        using good by simp
      show ?thesis
      proof (cases "tc_jti c \<noteq> '''' \<and> b")
        case True
        then show ?thesis using head good b(1) q2
          by (simp add: authentication_with_denylist_def with_claims_def tryM_def worldM_def bindM_def out)
      next
        case False
        have ok: "token_ok svc r (xc_world x) c"
          unfolding token_ok_def using head valid False b(3) by auto
        show ?thesis
        proof (cases "tc_jti c = ''''")
          case True
          then show ?thesis using head good ok q1
            by (intro disjI2 exI [of _ c] exI [of _ ?y])
              (simp add: authentication_with_denylist_def with_claims_def tryM_def worldM_def)
        next
          case jti: False
          then show ?thesis using head good ok q2 b(1) False
            by (intro disjI2 exI [of _ c] exI [of _ "x\<lparr>xc_world := w2\<rparr>"])
              (simp add: authentication_with_denylist_def with_claims_def tryM_def worldM_def bindM_def)
        qed
      qed
    qed
  qed
qed


text \<open>What time may bring is only less: a token that is good later is good from now on.\<close>

lemma token_ok_idle:
  assumes svc: "plain_service svc" and idle: "idle w w'" and ok: "token_ok svc r w' c"
  shows "token_ok svc r w c"
proof -
  let ?tok = "bearer_token (header_get r ''Authorization'')"
  obtain n where n: "ticks w' \<le> n" "fst (ts_validate_token svc ?tok (w'\<lparr>ticks := n\<rparr>)) = Ok c"
    using ok by (auto simp: token_ok_def)
  have "fst (ts_validate_token svc ?tok (w\<lparr>ticks := n\<rparr>)) = fst (ts_validate_token svc ?tok (w'\<lparr>ticks := n\<rparr>))"
    by (rule plain_serviceD [OF svc]) (use idle in \<open>simp add: idle_def\<close>)
  moreover have "ticks w \<le> n" using n(1) idle by (simp add: idle_def)
  ultimately show ?thesis using ok n(2) idle by (auto simp: token_ok_def idle_def)
qed

lemma may_call_context: "may_call L svc (with_context r cx) w p = may_call L svc r w p"
  by (simp add: may_call_def token_ok_def)

lemma may_call_idle:
  assumes "plain_service svc" "idle w w'" "may_call L svc r w' p"
  shows "may_call L svc r w p"
proof -
  obtain c where "token_ok svc r w' c" "permitted L w' (tc_user_id c) p" using assms(3) by (auto simp: may_call_def)
  moreover have "permitted L w' u p = permitted L w u p" for u using assms(2) by (simp add: permitted_def idle_def)
  ultimately show ?thesis using token_ok_idle [OF assms(1,2)] by (auto simp: may_call_def)
qed

lemma needs_authentication:
  assumes "plain_service svc" and "guarded_by L svc p h"
  shows "needs L svc p (authentication_with_denylist svc denylisted h)"
  unfolding needs_def
proof (intro allI impI)
  fix r and x :: exchange
  assume may: "\<not> may_call L svc r (xc_world x) p"
  let ?call = "authentication_with_denylist svc denylisted h r x"
  from authentication_cases [OF assms(1), of x h r] show "refused x ?call"
  proof (elim disjE exE conjE)
    fix c x1
    assume c: "token_ok svc r (xc_world x) c" "idle (xc_world x) (xc_world x1)" "xc_resp x1 = xc_resp x"
      and run: "?call = h (with_context r (claims_ctx c (rq_ctx r))) x1"
    let ?r = "with_context r (claims_ctx c (rq_ctx r))"
    have "\<not> permitted L (xc_world x1) (tc_user_id c) p"
      using may c(1,2) by (auto simp: may_call_def permitted_def idle_def)
    then have "\<not> permitted L (xc_world x1) (get_user_id (rq_ctx ?r)) p"
      by (simp add: with_context_def claims_ctx_def get_user_id_def or_empty_def)
    moreover have "\<not> may_call L svc ?r (xc_world x1) p"
      using may_call_idle [OF assms(1) c(2)] may by (simp add: may_call_context) blast
    ultimately have "refused x1 (h ?r x1)"
      using assms(2) by (auto simp: guarded_by_def checks_def needs_def)
    then show ?thesis unfolding run by (rule refused_later [OF c(2,3)])
  qed
qed

lemma guarded_by_rules:
  assumes "guarded_by L svc p h"
  shows "guarded_by L svc p (with_params ps h)" "guarded_by L svc p (timeout d h)"
    "guarded_by L svc p (tenant_resolver cfg h)" "guarded_by L svc p (max_body_size n h)"
    "plain_service svc \<Longrightarrow> guarded_by L svc p (authentication_with_denylist svc denylisted h)"
  using assms checks_wrapped [of L p h] needs_wrapped [of L svc p h] needs_authentication [of svc L p h]
  by (auto simp: guarded_by_def)


section \<open>The access list\<close>

text \<open>Methods and paths below \<open>/api/v1\<close> with the resource and the action they need.\<close>

definition access_list :: "((string option \<times> string) \<times> (string \<times> string)) list" where
  "access_list =
     [((Some ''POST'', ''/todos/''), ''todo'', ''create''),
      ((Some ''GET'', ''/todos/''), ''todo'', ''list''),
      ((Some ''GET'', ''/todos/search''), ''todo'', ''list''),
      ((Some ''GET'', ''/todos/{id}''), ''todo'', ''read''),
      ((Some ''PUT'', ''/todos/{id}''), ''todo'', ''update''),
      ((Some ''PATCH'', ''/todos/{id}/complete''), ''todo'', ''update''),
      ((Some ''DELETE'', ''/todos/{id}''), ''todo'', ''delete''),
      ((Some ''POST'', ''/users/''), ''user'', ''create''),
      ((Some ''GET'', ''/users/me''), ''user'', ''read''),
      ((Some ''GET'', ''/users/''), ''user'', ''read''),
      ((Some ''GET'', ''/users/{id}''), ''user'', ''read''),
      ((Some ''PUT'', ''/users/{id}''), ''user'', ''update''),
      ((Some ''DELETE'', ''/users/{id}''), ''user'', ''delete''),
      ((Some ''POST'', ''/auth/sessions/roles/''), ''role'', ''create''),
      ((Some ''GET'', ''/auth/sessions/roles/''), ''role'', ''list''),
      ((Some ''GET'', ''/auth/sessions/roles/{id}''), ''role'', ''read''),
      ((Some ''PUT'', ''/auth/sessions/roles/{id}''), ''role'', ''update''),
      ((Some ''DELETE'', ''/auth/sessions/roles/{id}''), ''role'', ''delete''),
      ((Some ''POST'', ''/auth/sessions/roles/{roleId}/permissions/''), ''role_permission'', ''create''),
      ((Some ''DELETE'', ''/auth/sessions/roles/{roleId}/permissions/{permissionId}''), ''role_permission'', ''delete''),
      ((Some ''GET'', ''/auth/sessions/roles/{roleId}/permissions/''), ''role_permission'', ''list''),
      ((Some ''POST'', ''/auth/sessions/permissions/''), ''permission'', ''create''),
      ((Some ''GET'', ''/auth/sessions/permissions/''), ''permission'', ''list''),
      ((Some ''GET'', ''/auth/sessions/permissions/{id}''), ''permission'', ''read''),
      ((Some ''PUT'', ''/auth/sessions/permissions/{id}''), ''permission'', ''update''),
      ((Some ''DELETE'', ''/auth/sessions/permissions/{id}''), ''permission'', ''delete''),
      ((Some ''POST'', ''/auth/sessions/users/{userId}/roles/''), ''user_role'', ''create''),
      ((Some ''DELETE'', ''/auth/sessions/users/{userId}/roles/{roleId}''), ''user_role'', ''delete''),
      ((Some ''GET'', ''/auth/sessions/users/{userId}/roles/''), ''user_role'', ''list''),
      ((Some ''POST'', ''/auth/sessions/check-permission''), ''permission'', ''read''),
      ((Some ''POST'', ''/admin/tenants/''), ''tenant'', ''create''),
      ((Some ''GET'', ''/admin/tenants/''), ''tenant'', ''list''),
      ((Some ''GET'', ''/admin/tenants/{id}''), ''tenant'', ''read''),
      ((Some ''PUT'', ''/admin/tenants/{id}''), ''tenant'', ''update''),
      ((Some ''DELETE'', ''/admin/tenants/{id}''), ''tenant'', ''delete'')]"

definition listed :: "libs \<Rightarrow> token_service \<Rightarrow> string option \<times> string \<Rightarrow> http_handler \<Rightarrow> bool" where
  "listed L svc n h \<longleftrightarrow> (\<exists>p. map_of access_list n = Some p \<and> guarded_by L svc p h)"

lemma listedI:
  "map_of access_list n = Some (res, act) \<Longrightarrow> listed L svc n (authorization L (enforcer_enforce L) res act h)"
  using checks_authorization by (auto simp: listed_def guarded_by_def)

lemma listed_closed:
  assumes "listed L svc n h" "plain_service svc"
    and "mw \<in> {with_params ps, timeout d, authentication_with_denylist svc denylisted}"
  shows "listed L svc n (mw h)"
  using assms guarded_by_rules by (auto simp: listed_def)

lemma listed_wrapped:
  assumes "listed L svc n h" "plain_service svc"
  shows "listed L svc n (timeout d h)" "listed L svc n (authentication_with_denylist svc denylisted h)"
  using assms(1) guarded_by_rules(2) guarded_by_rules(5) [OF _ assms(2)] unfolding listed_def by blast+

lemmas router_defs = group_def route_group_def r_get_def r_post_def r_put_def r_patch_def r_delete_def Let_def

lemma todo_listed:
  assumes "plain_service svc" "(n, h) \<in> set (routes ''/todos''
      (todo_router W (authentication_with_denylist svc denylisted) (enforcer_enforce (we_libs W))))"
  shows "listed (we_libs W) svc n h"
  using assms(2) by (simp add: todo_router_def router_defs)
    (elim disjE conjE; hypsubst;
      intro listed_wrapped listedI assms(1); simp add: access_list_def)


lemma user_listed:
  assumes "plain_service svc" "(n, h) \<in> set (routes ''/users''
      (user_router W (authentication_with_denylist svc denylisted) (enforcer_enforce (we_libs W))))"
  shows "listed (we_libs W) svc n h"
  using assms(2) by (simp add: user_router_def router_defs)
    (elim disjE conjE; hypsubst;
      intro listed_wrapped listedI assms(1); simp add: access_list_def)

lemma tenant_listed:
  assumes "plain_service svc" "(n, h) \<in> set (routes ''/admin/tenants''
      (tenant_router W (authentication_with_denylist svc denylisted) (enforcer_enforce (we_libs W))))"
  shows "listed (we_libs W) svc n h"
  using assms(2) by (simp add: tenant_router_def router_defs)
    (elim disjE conjE; hypsubst;
      intro listed_wrapped listedI assms(1); simp add: access_list_def)

lemma authz_listed:
  assumes "plain_service svc" "(n, h) \<in> set (routes ''/auth/sessions''
      (authz_router W (authentication_with_denylist svc denylisted) (enforcer_enforce (we_libs W))))"
  shows "listed (we_libs W) svc n h"
  using assms(2) by (simp add: authz_router_def router_defs)
    (elim disjE conjE; hypsubst; intro listed_wrapped listedI assms(1); simp add: access_list_def)

text \<open>The protected group: its mounts, and what a request to it reaches.\<close>

lemma mount_guarded:
  assumes svc: "plain_service svc"
    and mount: "route_entry C (behind [authentication_with_denylist svc denylisted, tenant_resolver cfg, max_body_size n]
        (Mount p [] rt)) m path = (Some endpoint, h)"
    and wraps: "wrappers rt \<subseteq> {authentication_with_denylist svc denylisted} \<union> range timeout"
    and all: "\<And>n h. (n, h) \<in> set (routes p rt) \<Longrightarrow> listed L svc n h"
  shows "\<exists>perm. map_of access_list endpoint = Some perm \<and> needs L svc perm h"
proof -
  obtain mt q h' where r: "route_in C rt m path = (Some (mt, q), h')" and e: "endpoint = (mt, p @ q)"
    and h: "h = authentication_with_denylist svc denylisted (tenant_resolver cfg (max_body_size n h'))"
    using mount by (cases "route_in C rt m path") auto
  have "listed L svc (mt, p @ q) h'"
  proof (rule route_closed(1) [OF _ r])
    show "listed L svc n (with_params ps h)" if "listed L svc n h" for n ps h
      using listed_closed [OF that svc] by blast
    show "listed L svc n (mw h)" if "mw \<in> wrappers rt" "listed L svc n h" for mw n h
      using listed_closed [OF that(2) svc] wraps that(1) by blast
  qed (rule all)
  then obtain perm where perm: "map_of access_list endpoint = Some perm" "guarded_by L svc perm h'"
    by (auto simp: listed_def e)
  have "needs L svc perm h"
    unfolding h by (intro needs_authentication svc guarded_by_rules perm(2))
  with perm(1) show ?thesis by blast
qed

lemma router_wrappers:
  "wrappers (todo_router W auth az) = {}" "wrappers (user_router W auth az) = {}"
  "wrappers (tenant_router W auth az) = {}"
  "wrappers (authz_router W auth az) \<subseteq> {auth} \<union> range timeout"
  by (auto simp: todo_router_def user_router_def tenant_router_def authz_router_def router_defs)

lemma protected_needs:
  assumes svc: "plain_service svc"
    and route: "route_in C (Router [] (group [authentication_with_denylist svc denylisted, tenant_resolver cfg, max_body_size n]
      [Mount ''/todos'' [] (todo_router W (authentication_with_denylist svc denylisted) (enforcer_enforce (we_libs W))),
       Mount ''/users'' [] (user_router W (authentication_with_denylist svc denylisted) (enforcer_enforce (we_libs W))),
       Mount ''/auth/sessions'' [] (authz_router W (authentication_with_denylist svc denylisted) (enforcer_enforce (we_libs W))),
       Mount ''/admin/tenants'' [] (tenant_router W (authentication_with_denylist svc denylisted) (enforcer_enforce (we_libs W)))]))
      m path = (Some endpoint, h)"
  shows "\<exists>perm. map_of access_list endpoint = Some perm \<and> needs (we_libs W) svc perm h"
proof -
  let ?auth = "authentication_with_denylist svc denylisted"
  let ?mounts = "[Mount ''/todos'' [] (todo_router W ?auth (enforcer_enforce (we_libs W))),
    Mount ''/users'' [] (user_router W ?auth (enforcer_enforce (we_libs W))),
    Mount ''/auth/sessions'' [] (authz_router W ?auth (enforcer_enforce (we_libs W))),
    Mount ''/admin/tenants'' [] (tenant_router W ?auth (enforcer_enforce (we_libs W)))]"
  obtain i ps rest h' where i: "i < length (group [?auth, tenant_resolver cfg, max_body_size n] ?mounts)"
    and e: "route_entry C (group [?auth, tenant_resolver cfg, max_body_size n] ?mounts ! i) m rest = (Some endpoint, h')"
    and h: "h = use_all [] (with_params ps h')"
    using route_in_found [OF route] by blast
  have i': "i < length ?mounts" using i by (simp only: group_def length_map)
  have e': "route_entry C (behind [?auth, tenant_resolver cfg, max_body_size n] (?mounts ! i)) m rest = (Some endpoint, h')"
    using e by (simp only: group_def nth_map [OF i'])
  have "?mounts ! i \<in> set ?mounts" using i' by (rule nth_mem)
  then have "\<exists>p rt. ?mounts ! i = Mount p [] rt \<and> wrappers rt \<subseteq> {?auth} \<union> range timeout \<and>
      (\<forall>n h. (n, h) \<in> set (routes p rt) \<longrightarrow> listed (we_libs W) svc n h)"
    using todo_listed [OF svc] user_listed [OF svc] authz_listed [OF svc] tenant_listed [OF svc]
      router_wrappers [of W ?auth "enforcer_enforce (we_libs W)"]
    unfolding list.set insert_iff by blast
  then obtain p rt where m: "?mounts ! i = Mount p [] rt" "wrappers rt \<subseteq> {?auth} \<union> range timeout"
    "\<And>n h. (n, h) \<in> set (routes p rt) \<Longrightarrow> listed (we_libs W) svc n h" by blast
  obtain perm where "map_of access_list endpoint = Some perm" "needs (we_libs W) svc perm h'"
    using mount_guarded [OF svc e' [unfolded m(1)] m(2,3)] by blast
  then show ?thesis unfolding h use_all_simps using needs_wrapped(1) by blast
qed


lemma main_auth:
  "atc_token_denylist (cf_auth cfg) \<Longrightarrow>
     mw_auth (main_registry K cfg) = authentication_with_denylist (ap_tokens (main_env K cfg)) denylisted"
  by (simp add: main_registry_def new_registry_def)

lemma main_protected:
  assumes "atc_token_denylist (cf_auth cfg)"
    and "route_in C (Router [] (protected_group (main_handlers K cfg) (main_registry K cfg) cfg)) m path = (Some endpoint, h)"
  shows "\<exists>perm. map_of access_list endpoint = Some perm \<and>
    needs (ln_libs K) (ap_tokens (main_env K cfg)) perm h"
proof -
  let ?W = "main_web K cfg" and ?svc = "ap_tokens (main_env K cfg)"
  have svc: "plain_service ?svc" unfolding ap_tokens_def by (rule plain_jwt)
  have body: "mw_max_body_size (main_registry K cfg) = max_body_size (srv_max_request_body_size (cf_server cfg))"
    by (simp add: main_registry_def new_registry_def)
  have libs: "we_libs ?W = ln_libs K" by (simp add: main_web_def)
  show ?thesis
    using protected_needs [OF svc, of C "cf_tenant cfg" "srv_max_request_body_size (cf_server cfg)" ?W m path endpoint h]
      assms(2) unfolding protected_group_def body main_auth [OF assms(1)] main_handlers_def libs Let_def
    by simp
qed

text \<open>
  C2: every route of the protected group (todos, users, roles and permissions, tenants) is on the access
  list, and a request gets past the guards only with a token that is valid and, as far as Redis can tell,
  not denied, for a user to whom the policy in force grants the resource and the action of that route.
  Any other request is answered 401 or 403 and leaves the tables, the policy and Redis as they were. This
  holds for every choice chi could make: no path leads around the guards.
\<close>

theorem api_guarded:
  assumes "atc_token_denylist (cf_auth cfg)"
    and "route_in C (Router [] (protected_group (main_handlers K cfg) (main_registry K cfg) cfg))
      (rq_method r) path = (Some endpoint, h)"
    and "rs_sent (xc_resp x) = None"
  shows "\<exists>perm. map_of access_list endpoint = Some perm \<and>
    (may_call (ln_libs K) (ap_tokens (main_env K cfg)) r (xc_world x) perm \<or>
     (\<exists>y. h r x = (Ok (), y) \<and> status (xc_resp y) \<in> {401, 403} \<and> db (xc_world y) = db (xc_world x) \<and>
       policies (xc_world y) = policies (xc_world x) \<and> redis (xc_world y) = redis (xc_world x)))"
proof -
  obtain perm where perm: "map_of access_list endpoint = Some perm"
    "needs (ln_libs K) (ap_tokens (main_env K cfg)) perm h"
    using main_protected [OF assms(1,2)] by blast
  obtain res y where run: "h r x = (res, y)" by (cases "h r x")
  show ?thesis
  proof (cases "may_call (ln_libs K) (ap_tokens (main_env K cfg)) r (xc_world x) perm")
    case False
    then have "refused x (res, y)" using perm(2) unfolding needs_def run [symmetric] by blast
    then show ?thesis using perm(1) run assms(3) by (auto simp: refused_def idle_def)
  qed (use perm(1) in blast)
qed

section \<open>Logging out\<close>

definition with_redis :: "(string \<Rightarrow> (string \<times> time option) option) \<Rightarrow> (nat \<Rightarrow> time) \<Rightarrow> world \<Rightarrow> bool" where
  "with_redis m clk w \<longleftrightarrow> redis w = m \<and> clock w = clk"

lemma keeps_redis_now: "keeps (with_redis m clk) nowM"
  by (simp add: keeps_def with_redis_def nowM_def)

lemma keeps_redis_exec: "keeps (with_redis m clk) (execM f)"
  by (auto simp: keeps_def with_redis_def execM_def sqlM_def extM_def split: list.splits option.splits)

lemma keeps_world: "keeps I m \<Longrightarrow> keeps (\<lambda>x. I (xc_world x)) (worldM m)"
  by (force simp: keeps_def worldM_def split: prod.splits)

lemma keeps_writer: "keeps (\<lambda>x. I (xc_world x)) (writerM f)"
  by (simp add: keeps_def writerM_run)

lemma keeps_respond: "keeps (\<lambda>x. I (xc_world x)) (respond_json st v)"
  unfolding respond_json_def set_header_def write_header_def encode_to_def write_body_def
  by (intro keeps_rules keeps_writer)

lemma keeps_handle:
  assumes "\<And>w sp. I (w\<lparr>active_span := sp\<rparr>) = I w"
  shows "keeps (\<lambda>x. I (xc_world x)) (handle_any E r d err)"
proof -
  have span: "keeps I (spanM f)" for f by (simp add: keeps_def spanM_def op_defs assms)
  show ?thesis
  unfolding handle_any_def map_error_from_request_def respond_internal_from_request_def respond_success_def
    respond_not_found_def respond_conflict_def respond_bad_request_def respond_forbidden_def respond_unauthorized_def
    respond_internal_error_def respond_error_def Let_def
  by (intro keeps_rules keeps_respond keeps_world span)
qed

lemma keeps_result: "keeps I m \<Longrightarrow> (\<And>v e. keeps I (f v e)) \<Longrightarrow> keeps I (resultM z m f)"
  unfolding resultM_def by (intro keeps_rules)

lemma keeps_logout_command:
  "keeps (with_redis m clk) (dispatch (we_commands (main_web K cfg)) cx (LogoutCommand s jti ttl None))"
  by (simp add: main_web_def app_dispatch handle_logout_def pg_refresh_repo_sel pg_refresh_revoke_def
      revoke_where_def replyM_def)
    (intro keeps_rules keeps_redis_now keeps_redis_exec)

lemma keeps_logout: "keeps (\<lambda>x. with_redis m clk (xc_world x)) (http_logout (main_web K cfg) r)"
  unfolding http_logout_def with_body_def dispatchM_def respond_bad_request_def respond_error_def
  by (intro keeps_rules keeps_result keeps_respond keeps_handle keeps_world keeps_logout_command)
    (simp add: with_redis_def)

text \<open>
  A logout over HTTP never denies the access token: whatever the request is, Redis holds afterwards
  what it held before, so no token is on the denylist that was not, and every access token stays valid
  until it expires by itself.
\<close>

theorem logout_keeps_access_token:
  "redis (xc_world (snd (http_logout (main_web K cfg) r x))) = redis (xc_world x) \<and>
   fst (ts_validate_token (ap_tokens (main_env K cfg)) tok
      ((xc_world (snd (http_logout (main_web K cfg) r x)))\<lparr>ticks := n\<rparr>)) =
     fst (ts_validate_token (ap_tokens (main_env K cfg)) tok ((xc_world x)\<lparr>ticks := n\<rparr>))"
proof -
  let ?y = "xc_world (snd (http_logout (main_web K cfg) r x))"
  have kept: "with_redis (redis (xc_world x)) (clock (xc_world x)) ?y"
    using keepsD [OF keeps_logout, of "redis (xc_world x)" "clock (xc_world x)" x] by (simp add: with_redis_def)
  then show ?thesis
    using plain_serviceD [OF plain_jwt, of "?y\<lparr>ticks := n\<rparr>" "(xc_world x)\<lparr>ticks := n\<rparr>"]
    by (simp add: with_redis_def ap_tokens_def)
qed


section \<open>A router to try it on\<close>

text \<open>Matching without path parameters: the first pattern that is the path or a prefix of it.\<close>

fun fits_pattern :: "string \<Rightarrow> string \<Rightarrow> pattern \<Rightarrow> string option" where
  "fits_pattern m path (Exact mt p) = (if p = path \<and> (mt = None \<or> mt = Some m) then Some '''' else None)"
| "fits_pattern m path (Subtree p) = (if take (length p) path = p then Some (drop (length p) path) else None)"

fun first_fit :: "nat \<Rightarrow> string \<Rightarrow> string \<Rightarrow> pattern list \<Rightarrow> routing" where
  "first_fit i m path [] = Missing"
| "first_fit i m path (p # ps) = (case fits_pattern m path p of
      Some rest \<Rightarrow> Found i [] rest | None \<Rightarrow> first_fit (Suc i) m path ps)"

definition plain_chi :: chi where
  "plain_chi = \<lparr>ch_match = first_fit 0, ch_not_found = (\<lambda>r. respond_error 404 '''' ''''),
     ch_method_not_allowed = (\<lambda>r. respond_error 405 '''' '''')\<rparr>"

definition bare_request :: "string \<Rightarrow> request" where
  "bare_request m = \<lparr>rq_method = m, rq_path = '''', rq_raw_query = '''', rq_query = [], rq_headers = (\<lambda>_. None),
     rq_params = [], rq_body = '''', rq_max_body = None, rq_remote_addr = '''', rq_host = '''',
     rq_content_length = 0, rq_ctx = background\<rparr>"

lemma api_guarded_witness:
  "\<forall>c K. \<exists>h y. route_in plain_chi
      (Router [] (protected_group (main_handlers K (set_defaults c)) (main_registry K (set_defaults c)) (set_defaults c)))
      ''GET'' ''/todos/search'' = (Some (Some ''GET'', ''/todos/search''), h) \<and>
    h (bare_request ''GET'') \<lparr>xc_world = init_world, xc_resp = new_response (\<lambda>_. None)\<rparr> = (Ok (), y) \<and>
    status (xc_resp y) \<in> {401, 403} \<and> db (xc_world y) = empty_db"
proof (intro allI)
  fix c K
  let ?cfg = "set_defaults c"
  let ?x = "\<lparr>xc_world = init_world, xc_resp = new_response (\<lambda>_. None)\<rparr>"
  obtain h where h: "route_in plain_chi (Router [] (protected_group (main_handlers K ?cfg) (main_registry K ?cfg) ?cfg))
      (rq_method (bare_request ''GET'')) ''/todos/search'' = (Some (Some ''GET'', ''/todos/search''), h)"
    by (simp add: protected_group_def main_handlers_def todo_router_def router_defs plain_chi_def bare_request_def)
  have "\<not> may_call L svc (bare_request ''GET'') w p" for L svc w p
    by (simp add: may_call_def token_ok_def header_get_def bare_request_def or_empty_def)
  moreover have "rs_sent (xc_resp ?x) = None" by (simp add: new_response_def)
  ultimately show "\<exists>h y. route_in plain_chi (Router [] (protected_group (main_handlers K ?cfg) (main_registry K ?cfg) ?cfg))
      ''GET'' ''/todos/search'' = (Some (Some ''GET'', ''/todos/search''), h) \<and>
      h (bare_request ''GET'') ?x = (Ok (), y) \<and> status (xc_resp y) \<in> {401, 403} \<and> db (xc_world y) = empty_db"
    using api_guarded [OF denylist_stays_on h, of ?x] h
    by (force simp: bare_request_def init_world_def)
qed

end
