(* ===== verification/Service_Laws.thy ===== *)
theory Service_Laws
  imports Service_Tables Router_Laws
begin

text \<open>
  No request, no delivery and no restart breaks the tables or undoes what they hold: the HTTP handlers send
  messages on the buses and write responses, the middlewares add their own rows, and the router only combines
  these. The service as a transition system, and what holds in every state it can reach.
\<close>

section \<open>Exchanges\<close>

definition in_tables :: "database \<Rightarrow> exchange \<Rightarrow> bool" where
  "in_tables d0 x \<longleftrightarrow> service_since d0 (db (xc_world x))"

definition safe :: "database \<Rightarrow> http_handler \<Rightarrow> bool" where
  "safe d0 h \<longleftrightarrow> (\<forall>r. keeps (in_tables d0) (h r))"

definition transparent :: "database \<Rightarrow> middleware \<Rightarrow> bool" where
  "transparent d0 mw \<longleftrightarrow> (\<forall>h. safe d0 h \<longrightarrow> safe d0 (mw h))"

lemma in_tables_world: "in_tables d0 = (\<lambda>x. on_db (service_since d0) (xc_world x))"
  by (simp add: in_tables_def on_db_def fun_eq_iff)

lemma safeI: "(\<And>r. keeps (in_tables d0) (h r)) \<Longrightarrow> safe d0 h"
  by (simp add: safe_def)

lemma safeD: "safe d0 h \<Longrightarrow> keeps (in_tables d0) (h r)"
  by (simp add: safe_def)

lemma transparentI: "(\<And>h. safe d0 h \<Longrightarrow> safe d0 (mw h)) \<Longrightarrow> transparent d0 mw"
  by (simp add: transparent_def)

named_theorems safe_rules \<open>introduction rules for the invariant of exchanges\<close>

lemma keeps_in_world [safe_rules]: "keeps (on_db (service_since d0)) m \<Longrightarrow> keeps (in_tables d0) (worldM m)"
  unfolding in_tables_world by (rule keeps_world)

lemma keeps_in_writer [safe_rules]: "keeps (in_tables d0) (writerM f)"
  unfolding in_tables_world by (rule keeps_writer)

lemma keeps_in_headers [safe_rules]:
  "keeps (in_tables d0) (set_header k v)" "keeps (in_tables d0) (write_header c)" "keeps (in_tables d0) (write_body b)"
  unfolding set_header_def write_header_def write_body_def by (rule keeps_in_writer)+

lemma keeps_in_encode [safe_rules]: "keeps (in_tables d0) (encode_to v)"
  unfolding encode_to_def by (intro keeps_rules safe_rules)

lemma keeps_in_json [safe_rules]: "keeps (in_tables d0) (respond_json st v)"
  unfolding respond_json_def by (intro keeps_rules safe_rules)

lemma keeps_in_responses [safe_rules]:
  "keeps (in_tables d0) (respond_success d)" "keeps (in_tables d0) (respond_created d)"
  "keeps (in_tables d0) (respond_error st ec msg)" "keeps (in_tables d0) (respond_bad_request msg)"
  "keeps (in_tables d0) (respond_unauthorized msg)" "keeps (in_tables d0) (respond_forbidden ec msg)"
  "keeps (in_tables d0) (respond_not_found msg)" "keeps (in_tables d0) (respond_conflict msg)"
  "keeps (in_tables d0) (respond_internal_error msg)" "keeps (in_tables d0) (respond_cursor_paginated d n p hn hp l)"
  unfolding respond_success_def respond_created_def respond_error_def respond_bad_request_def
    respond_unauthorized_def respond_forbidden_def respond_not_found_def respond_conflict_def
    respond_internal_error_def respond_cursor_paginated_def
  by (rule keeps_in_json)+

lemma keeps_in_errors [safe_rules]:
  "keeps (in_tables d0) (respond_internal_from_request E r msg)" "keeps (in_tables d0) (map_error_from_request E r e)"
  unfolding map_error_from_request_def respond_internal_from_request_def by (intro keeps_rules safe_rules)+

lemma keeps_in_handle [safe_rules]:
  "keeps (in_tables d0) (handle_any E r d err)" "keeps (in_tables d0) (handle_created E r d err)"
  "keeps (in_tables d0) (handle_no_content E r err)"
  unfolding handle_any_def handle_created_def handle_no_content_def by (intro keeps_rules safe_rules)+

lemma keeps_in_body [safe_rules]:
  "(\<And>a. keeps (in_tables d0) (f a)) \<Longrightarrow> keeps (in_tables d0) (with_body r rd f)"
  "keeps (in_tables d0) m \<Longrightarrow> keeps (in_tables d0) (validated_then L fs m)"
  "(\<And>i. keeps (in_tables d0) (g i)) \<Longrightarrow> keeps (in_tables d0) (with_uuid_param L r name msg g)"
  unfolding with_body_def validated_then_def with_uuid_param_def by (intro keeps_rules safe_rules; assumption)+

lemma keeps_in_page [safe_rules]: "keeps (in_tables d0) (respond_page d pg l)"
  unfolding respond_page_def by (rule safe_rules)

lemma keeps_in_assertion [safe_rules]: "keeps (in_tables d0) failed_assertion"
  unfolding failed_assertion_def by (rule keeps_panicM)


section \<open>The handlers\<close>

text \<open>What the handlers need of the buses: any message of their own leaves the tables in order.\<close>

locale served =
  fixes W :: web_env and ready :: bool and d0 :: database
  assumes commands: "ready \<Longrightarrow> own_code cmd \<Longrightarrow> keeps (on_db (service_since d0)) (dispatch (we_commands W) cx cmd)"
    and queries: "ready \<Longrightarrow> keeps (on_db (service_since d0)) (ask (we_queries W) cx q)"
begin

lemma keeps_dispatch:
  "ready \<Longrightarrow> own_code cmd \<Longrightarrow> (\<And>v e. keeps (in_tables d0) (f v e)) \<Longrightarrow> keeps (in_tables d0) (dispatchM W r cmd f)"
  unfolding dispatchM_def by (intro keeps_result keeps_in_world commands)

lemma keeps_ask: "ready \<Longrightarrow> (\<And>v e. keeps (in_tables d0) (f v e)) \<Longrightarrow> keeps (in_tables d0) (askM W r q f)"
  unfolding askM_def by (intro keeps_result keeps_in_world queries)

lemma keeps_user_reply: "(\<And>d. keeps (in_tables d0) (f d)) \<Longrightarrow> keeps (in_tables d0) (user_reply W f resp)"
  by (cases resp) (simp_all add: user_reply_def safe_rules)

lemma keeps_tenant_answer: "keeps (in_tables d0) m \<Longrightarrow> keeps (in_tables d0) (tenant_answer W r m err)"
  unfolding tenant_answer_def by (intro keeps_rules safe_rules)

lemma keeps_case_reply:
  "(\<And>pg l. keeps (in_tables d0) (f pg l)) \<Longrightarrow> keeps (in_tables d0) (case resp of TodosReply pg l \<Rightarrow> f pg l | _ \<Rightarrow> failed_assertion)"
  "(\<And>pg l. keeps (in_tables d0) (g pg l)) \<Longrightarrow> keeps (in_tables d0) (case resp of UsersReply pg l \<Rightarrow> g pg l | _ \<Rightarrow> failed_assertion)"
  "(\<And>u. keeps (in_tables d0) (h u)) \<Longrightarrow> keeps (in_tables d0) (case resp of UserReply u \<Rightarrow> h u | _ \<Rightarrow> failed_assertion)"
  "(\<And>t. keeps (in_tables d0) (k t)) \<Longrightarrow> keeps (in_tables d0) (case resp of TokensReply t \<Rightarrow> k t | _ \<Rightarrow> failed_assertion)"
  "(\<And>pg. keeps (in_tables d0) (r pg)) \<Longrightarrow> keeps (in_tables d0) (case resp of RolesReply pg \<Rightarrow> r pg | _ \<Rightarrow> failed_assertion)"
  "(\<And>pg. keeps (in_tables d0) (p pg)) \<Longrightarrow> keeps (in_tables d0) (case resp of PermissionsReply pg \<Rightarrow> p pg | _ \<Rightarrow> failed_assertion)"
  "(\<And>ts pg l. keeps (in_tables d0) (t ts pg l)) \<Longrightarrow>
     keeps (in_tables d0) (case resp of TenantsReply ts pg l \<Rightarrow> t ts pg l | _ \<Rightarrow> failed_assertion)"
  by (cases resp; simp add: safe_rules)+

lemmas handler_rules = keeps_dispatch keeps_ask keeps_user_reply keeps_tenant_answer keeps_case_reply

lemma todo_handlers:
  assumes ready
  shows "safe d0 (http_create_todo W)" "safe d0 (http_list_todos W)" "safe d0 (http_get_todo W)" "safe d0 (http_update_todo W)"
    "safe d0 (http_delete_todo W)" "safe d0 (http_complete_todo W)" "safe d0 (http_search_todos W)"
  unfolding http_create_todo_def http_list_todos_def http_get_todo_def http_update_todo_def http_delete_todo_def
    http_complete_todo_def http_search_todos_def Let_def
  by (rule safeI; intro keeps_rules safe_rules handler_rules assms; simp)+

lemma auth_handlers:
  assumes ready
  shows "safe d0 (http_register W)" "safe d0 (http_login W)" "safe d0 (http_refresh_token W)" "safe d0 (http_logout W)"
    "safe d0 (http_logout_all W)" "safe d0 (http_auth_me W)" "safe d0 (http_verify_email W)" "safe d0 (http_forgot_password W)"
    "safe d0 (http_reset_password W)" "safe d0 (http_resend_verification W)"
  unfolding http_register_def http_login_def http_refresh_token_def http_logout_def http_logout_all_def
    http_auth_me_def http_verify_email_def http_forgot_password_def http_reset_password_def
    http_resend_verification_def login_error_def Let_def
  by (rule safeI; (intro keeps_rules safe_rules handler_rules assms)?; simp)+

lemma authz_handlers:
  assumes ready
  shows "safe d0 (http_create_role W)" "safe d0 (http_list_roles W)" "safe d0 (http_get_role W)" "safe d0 (http_update_role W)"
    "safe d0 (http_delete_role W)" "safe d0 (http_create_permission W)" "safe d0 (http_list_permissions W)"
    "safe d0 (http_get_permission W)" "safe d0 (http_update_permission W)" "safe d0 (http_delete_permission W)"
    "safe d0 (http_assign_role W)" "safe d0 (http_remove_role W)" "safe d0 (http_get_user_roles W)"
    "safe d0 (http_assign_permission W)" "safe d0 (http_remove_permission W)" "safe d0 (http_get_role_permissions W)"
    "safe d0 (http_check_permission W)"
  unfolding http_create_role_def http_list_roles_def http_get_role_def http_update_role_def http_delete_role_def
    http_create_permission_def http_list_permissions_def http_get_permission_def http_update_permission_def
    http_delete_permission_def http_assign_role_def http_remove_role_def http_get_user_roles_def
    http_assign_permission_def http_remove_permission_def http_get_role_permissions_def http_check_permission_def Let_def
  by (rule safeI; (intro keeps_rules safe_rules handler_rules assms)?; simp)+

lemma user_tenant_handlers:
  assumes ready
  shows "safe d0 (http_list_users W)" "safe d0 (http_create_user W)" "safe d0 (http_get_user W)" "safe d0 (http_user_me W)"
    "safe d0 (http_update_user W)" "safe d0 (http_delete_user W)" "safe d0 (http_create_tenant W)" "safe d0 (http_list_tenants W)"
    "safe d0 (http_get_tenant W)" "safe d0 (http_update_tenant W)" "safe d0 (http_delete_tenant W)"
  unfolding http_list_users_def http_create_user_def http_get_user_def http_user_me_def http_update_user_def
    http_delete_user_def http_create_tenant_def http_list_tenants_def http_get_tenant_def http_update_tenant_def
    http_delete_tenant_def Let_def
  by (rule safeI; (intro keeps_rules safe_rules handler_rules assms)?; simp)+

lemmas all_handlers = todo_handlers auth_handlers authz_handlers user_tenant_handlers

end

interpretation main_bus: served "main_web K cfg" "quiet_mail (ln_mail K)" d0 for K cfg d0
  by unfold_locales
    (simp_all add: main_web_def app_dispatch app_ask keeps_run_query keeps_run_command main_env_def keeps_event_bus)


section \<open>The middlewares\<close>

lemma keeps_observed: "safe d0 h \<Longrightarrow> keeps (in_tables d0) (observed h r)"
proof (rule keepsI)
  fix x
  assume "safe d0 h" and x: "in_tables d0 x"
  then have "keeps (in_tables d0) (bindM (h r) (\<lambda>_. readM g))" for g :: "exchange \<Rightarrow> int list \<times> string"
    by (intro keeps_bindM keeps_readM) (rule safeD)
  then have "in_tables d0 (snd (bindM (h r) (\<lambda>_. readM g) x))" for g :: "exchange \<Rightarrow> int list \<times> string"
    using x by (rule keepsD)
  then show "in_tables d0 (snd (observed h r x))" by (simp add: observed_def)
qed

lemma keeps_persist_error: "keeps (on_db (service_since d0)) (persist_error L T r st msg e stack)"
  unfolding persist_error_def insert_error_log_def Let_def
  by (intro keeps_rules) simp

lemma keeps_audit: "keeps (on_db (service_since d0)) (insert_audit_log L a)"
  unfolding insert_audit_log_def by (intro keeps_rules) simp

lemma keeps_denylisted: "keeps (on_db (service_since d0)) (denylisted jti)"
  unfolding denylisted_def by (intro keeps_rules)

lemma keeps_validate: "keeps (on_db P) (ts_validate_token (ap_tokens A) tok)"
  by (simp add: keeps_def on_db_def ap_tokens_def jwt_validate_run)

lemmas middleware_keeps = keeps_rules safe_rules keeps_observed keeps_persist_error keeps_audit keeps_denylisted

lemma keeps_wrapped:
  assumes "safe d0 h"
  shows "keeps (in_tables d0) (with_params ps h r)" "keeps (in_tables d0) (timeout d h r)" "keeps (in_tables d0) (tenant_resolver cfg h r)"
    "keeps (in_tables d0) (max_body_size n h r)" "keeps (in_tables d0) (security_headers h r)" "keeps (in_tables d0) (request_id L h r)"
    "keeps (in_tables d0) (error_recorder L T h r)" "keeps (in_tables d0) (logger T h r)" "keeps (in_tables d0) (audit_log_mw L h r)"
    "keeps (in_tables d0) (rate_limit n d h r)" "keeps (in_tables d0) (idempotency ttl h r)"
    "keeps (in_tables d0) (authentication_with_denylist (ap_tokens A) denylisted h r)"
    "keeps (in_tables d0) (authentication (ap_tokens A) h r)"
    "keeps (in_tables d0) (authorization L (enforcer_enforce L') res act h r)"
  unfolding with_params_def timeout_def tenant_resolver_def max_body_size_def security_headers_def request_id_def
    error_recorder_def logger_def audit_log_mw_def rate_limit_def idempotency_def capture_entry_def replay_entry_def
    authentication_with_denylist_def authentication_def with_claims_def authorization_def enforcer_enforce_def Let_def
  by (intro middleware_keeps keeps_redis_ops keeps_validate safeD [OF assms] assms)+

lemma transparent_error_handler: "transparent d0 (error_handler E L T)"
proof (intro transparentI safeI keepsI)
  fix h r x
  assume h: "safe d0 h" and x: "in_tables d0 x"
  obtain res x' where run: "h r x = (res, x')" by (cases "h r x")
  have x': "in_tables d0 x'" using keepsE [OF safeD [OF h] x run] .
  show "in_tables d0 (snd (error_handler E L T h r x))"
  proof (cases res)
    case (Panic p)
    have "keeps (in_tables d0) (bindM (worldM (spanM (span_record_error (Errorf p) \<circ> set_span_status ''panic recovered''))) (\<lambda>_.
        bindM (worldM (logM ''error'' ''panic recovered'' [(''error'', p), (''stack'', he_stack E)])) (\<lambda>_.
        bindM (worldM (persist_error L T r 500 ''panic recovered'' p (he_stack E))) (\<lambda>_.
        respond_internal_from_request E (with_context r (set_error_info (rq_ctx r) (Errorf p) (he_stack E))) p))))"
      by (intro middleware_keeps)
    from keepsD [OF this x'] show ?thesis by (simp add: error_handler_def run Panic)
  qed (simp_all add: error_handler_def run x')
qed

lemma in_tables_response [simp]: "in_tables d0 (x\<lparr>xc_resp := s\<rparr>) = in_tables d0 x"
  by (simp add: in_tables_def)

lemma transparent_formatter: "transparent d0 (response_formatter T num)"
proof (intro transparentI safeI keepsI)
  fix h r x
  assume h: "safe d0 h" and x: "in_tables d0 x"
  let ?y = "x\<lparr>xc_resp := new_response (rs_header (xc_resp x))\<rparr>"
  obtain res x' where run: "h r ?y = (res, x')" by (cases "h r ?y")
  have x': "in_tables d0 x'" using keepsE [OF safeD [OF h] _ run] x by simp
  have k: "keeps (in_tables d0) (bindM (set_header ''Content-Type'' ''application/json'') (\<lambda>_. bindM (write_header st) (\<lambda>_. m)))"
    if "keeps (in_tables d0) m" for st and m :: "(exchange, unit) gop"
    by (intro middleware_keeps that)
  show "in_tables d0 (snd (response_formatter T num h r x))"
    using x' keepsD [OF k [OF keeps_in_headers(3)]] keepsD [OF k [OF keeps_in_encode]] keepsD [OF keeps_in_headers(2)]
    by (cases res) (simp_all add: response_formatter_def run Let_def)
qed


lemma transparent_tracing: "transparent d0 (tracing ot)"
proof (intro transparentI safeI keepsI)
  fix h r x
  assume h: "safe d0 h" and x: "in_tables d0 x"
  let ?m = "bindM (observed h r) (\<lambda>(codes, _). worldM (spanM (finish_span (last_code codes))))"
  have "keeps (in_tables d0) ?m" by (intro middleware_keeps h)
  then have "in_tables d0 (snd (?m (x\<lparr>xc_world := (xc_world x)\<lparr>active_span := sp\<rparr>\<rparr>)))" for sp
    by (rule keepsD) (use x in \<open>simp add: in_tables_def\<close>)
  then show "in_tables d0 (snd (tracing ot h r x))"
    by (simp add: tracing_def Let_def in_tables_def end_span_def case_prod_beta)
qed

lemma safe_middlewares:
  assumes "safe d0 h"
  shows "safe d0 (with_params ps h)" "safe d0 (timeout d h)" "safe d0 (tenant_resolver cfg h)" "safe d0 (max_body_size n h)"
    "safe d0 (security_headers h)" "safe d0 (request_id L h)" "safe d0 (error_recorder L T h)" "safe d0 (logger T h)"
    "safe d0 (audit_log_mw L h)" "safe d0 (rate_limit n d h)" "safe d0 (idempotency ttl h)"
    "safe d0 (authentication_with_denylist (ap_tokens A) denylisted h)" "safe d0 (authentication (ap_tokens A) h)"
    "safe d0 (authorization L (enforcer_enforce L') res act h)"
  by (rule safeI, rule keeps_wrapped [OF assms])+

lemma keeps_deferred:
  assumes "keeps I m" "keeps I d"
  shows "keeps I (\<lambda>x. case m x of (res, x') \<Rightarrow> (case d x' of (Ok _, x'') \<Rightarrow> (res, x'') | (res', x'') \<Rightarrow> (res', x'')))"
proof (rule keepsI)
  fix x
  assume "I x"
  then have "I (snd (d (snd (m x))))" by (intro keepsD [OF assms(2)] keepsD [OF assms(1)])
  then show "I (snd (case m x of (res, x') \<Rightarrow> (case d x' of (Ok _, x'') \<Rightarrow> (res, x'') | (res', x'') \<Rightarrow> (res', x''))))"
    by (auto split: prod.splits outcome.splits)
qed

section \<open>The libraries around\<close>

text \<open>
  Code of libraries that a request runs through does not touch the tables: \<open>inert\<close> operations leave the
  database as it is, and a middleware that \<open>hands_on\<close> does so wherever the next handler does.
\<close>

definition inert :: "(exchange, 'a) gop \<Rightarrow> bool" where
  "inert m \<longleftrightarrow> (\<forall>x. db (xc_world (snd (m x))) = db (xc_world x))"

definition hands_on :: "middleware \<Rightarrow> bool" where
  "hands_on mw \<longleftrightarrow> (\<forall>P h. (\<forall>r. keeps (\<lambda>x. P (db (xc_world x))) (h r)) \<longrightarrow> (\<forall>r. keeps (\<lambda>x. P (db (xc_world x))) (mw h r)))"

definition library_code :: "chi \<Rightarrow> linkage \<Rightarrow> bool" where
  "library_code C K \<longleftrightarrow> quiet_mail (ln_mail K) \<and> (\<forall>c. hands_on (ln_cors K c)) \<and>
     (\<forall>r. inert (ln_swagger K r)) \<and> (\<forall>r. inert (ln_metrics_handler K r)) \<and>
     (\<forall>h r. ln_debug_nats K = Some h \<longrightarrow> inert (h r)) \<and>
     (\<forall>n ls. inert (mr_increment (ln_recorder K) n ls)) \<and> (\<forall>n m ls. inert (mr_observe (ln_recorder K) n m ls)) \<and>
     (\<forall>r. inert (ch_not_found C r)) \<and> (\<forall>r. inert (ch_method_not_allowed C r))"

lemma keeps_inert: "inert m \<Longrightarrow> keeps (in_tables d0) m"
  by (simp add: inert_def keeps_def in_tables_def)

lemma safe_inert: "\<forall>r. inert (h r) \<Longrightarrow> safe d0 h"
  by (simp add: safe_def keeps_inert)

lemma transparent_library: "hands_on mw \<Longrightarrow> transparent d0 mw"
  by (simp add: hands_on_def transparent_def safe_def in_tables_def [abs_def])

lemma transparent_metrics:
  assumes "\<And>n ls. inert (mr_increment R n ls)" "\<And>n m ls. inert (mr_observe R n m ls)"
  shows "transparent d0 (metrics R)"
proof (intro transparentI safeI)
  fix h r
  assume h: "safe d0 h"
  show "keeps (in_tables d0) (metrics R h r)"
    unfolding metrics_def Let_def
    by (intro keeps_bindM keeps_deferred keeps_if keeps_case_prod keeps_retM keeps_in_world
        keeps_nowM keeps_inert [OF assms(1)] keeps_inert [OF assms(2)] keeps_observed h)
qed

section \<open>Routes\<close>

lemma safe_use_all: "(\<And>mw. mw \<in> set ms \<Longrightarrow> transparent d0 mw) \<Longrightarrow> safe d0 h \<Longrightarrow> safe d0 (use_all ms h)"
  by (rule use_all_closed) (auto simp: transparent_def)

lemma safe_route:
  assumes "safe d0 (ch_not_found C)" "safe d0 (ch_method_not_allowed C)"
  shows "(\<And>mw. mw \<in> wrappers rt \<Longrightarrow> transparent d0 mw) \<Longrightarrow> (\<And>n h. (n, h) \<in> set (routes pre rt) \<Longrightarrow> safe d0 h) \<Longrightarrow>
      safe d0 (snd (route_in C rt m path))"
    and "(\<And>mw. mw \<in> entry_wrappers e \<Longrightarrow> transparent d0 mw) \<Longrightarrow> (\<And>n h. (n, h) \<in> set (entry_routes pre e) \<Longrightarrow> safe d0 h) \<Longrightarrow>
      safe d0 (snd (route_entry C e m path))"
proof (induction rt and e arbitrary: m path pre and m path pre)
  case (Router ms es)
  have use: "safe d0 (use_all ms h)" if "safe d0 h" for h
    by (rule safe_use_all [OF _ that]) (use Router.prems(1) in auto)
  have entry: "safe d0 (snd (route_entry C (es ! i) m rest))" if i: "i < length es" for i rest
  proof (rule Router.IH [OF nth_mem [OF i]])
    show "transparent d0 mw" if "mw \<in> entry_wrappers (es ! i)" for mw
      using Router.prems(1) that nth_mem [OF i] by auto
    show "safe d0 h" if "(n, h) \<in> set (entry_routes pre (es ! i))" for n h
      using Router.prems(2) [of n h] that nth_mem [OF i] by auto
  qed
  show ?case
    using use entry safe_middlewares(1)
    by (cases "ch_match C m path (map pattern_of es)") (simp_all add: Let_def assms case_prod_beta)
next
  case (Mount p ms rt)
  have "safe d0 (snd (route_in C rt m path))"
    by (rule Mount.IH) (use Mount.prems in auto)
  moreover have "transparent d0 mw" if "mw \<in> set ms" for mw using Mount.prems(1) that by simp
  ultimately show ?case by (auto simp: case_prod_beta intro!: safe_use_all)
next
  case (Route m' p h)
  then show ?case by simp
qed


text \<open>The routes of the modules, behind any transparent authentication.\<close>

lemma safe_wrapped_by: "transparent d0 mw \<Longrightarrow> safe d0 h \<Longrightarrow> safe d0 (mw h)"
  by (simp add: transparent_def)

context served
begin

lemma module_routes:
  assumes ready "transparent d0 auth"
  shows "(n, h) \<in> set (routes p (todo_router W auth (enforcer_enforce L))) \<Longrightarrow> safe d0 h"
    "(n, h) \<in> set (routes p (user_router W auth (enforcer_enforce L))) \<Longrightarrow> safe d0 h"
    "(n, h) \<in> set (routes p (tenant_router W auth (enforcer_enforce L))) \<Longrightarrow> safe d0 h"
    "(n, h) \<in> set (routes p (authz_router W auth (enforcer_enforce L))) \<Longrightarrow> safe d0 h"
    "(n, h) \<in> set (routes p (auth_router W auth)) \<Longrightarrow> safe d0 h"
  unfolding todo_router_def user_router_def tenant_router_def authz_router_def auth_router_def router_defs
  by (simp; elim disjE conjE; hypsubst; intro safe_wrapped_by [OF assms(2)] safe_middlewares all_handlers [OF assms(1)])+

end


section \<open>The service\<close>

lemma transparent_middlewares:
  "transparent d0 (timeout d)" "transparent d0 (tenant_resolver cfg)" "transparent d0 (max_body_size n)"
  "transparent d0 security_headers" "transparent d0 (request_id L)" "transparent d0 (error_recorder L T)"
  "transparent d0 (logger T)" "transparent d0 (audit_log_mw L)" "transparent d0 (rate_limit n d)" "transparent d0 (idempotency ttl)"
  "transparent d0 (authentication_with_denylist (ap_tokens A) denylisted)" "transparent d0 (authentication (ap_tokens A))"
  by (rule transparentI, erule safe_middlewares)+

lemma transparent_main_auth: "transparent d0 (mw_auth (main_registry K cfg))"
  by (simp add: main_registry_def new_registry_def transparent_middlewares)

lemma main_wrappers:
  assumes "library_code C K" "mw \<in> wrappers (main_router K cfg)"
  shows "transparent d0 mw"
proof -
  have auth: "wrappers (auth_router W a) = {}" for W a by (simp add: auth_router_def router_defs)
  have "mw \<in> {tracing (ln_otel K), request_id (ln_libs K), error_handler (main_http_env K cfg) (ln_libs K) (ln_texts K),
      security_headers, ln_cors K (cf_cors cfg), error_recorder (ln_libs K) (ln_texts K), audit_log_mw (ln_libs K),
      mw_rate_limit (main_registry K cfg), metrics (ln_recorder K), logger (ln_texts K),
      response_formatter (ln_texts K) (ln_number K), mw_max_body_size (main_registry K cfg),
      mw_idempotency (main_registry K cfg), mw_auth (main_registry K cfg), tenant_resolver (cf_tenant cfg)} \<union> range timeout"
    using assms(2) router_wrappers [of "main_web K cfg" "mw_auth (main_registry K cfg)" "enforcer_enforce (ln_libs K)"] auth
    by (auto simp: main_router_def new_router_def register_web_def public_group_def protected_group_def
        main_handlers_def router_defs main_registry_def new_registry_def split: option.splits if_splits)
  moreover have "transparent d0 (ln_cors K (cf_cors cfg))" "transparent d0 (metrics (ln_recorder K))"
    using assms(1) by (auto simp: library_code_def intro: transparent_library transparent_metrics)
  moreover have "transparent d0 (mw_rate_limit (main_registry K cfg))" "transparent d0 (mw_max_body_size (main_registry K cfg))"
    "transparent d0 (mw_idempotency (main_registry K cfg))"
    by (simp_all add: main_registry_def new_registry_def transparent_middlewares)
  moreover note transparent_middlewares transparent_main_auth transparent_error_handler transparent_formatter
    transparent_tracing
  ultimately show ?thesis by (elim UnE insertE emptyE imageE) (simp_all only:)
qed

lemma safe_health: "safe d0 http_health" "safe d0 http_live" "safe d0 http_ready"
  unfolding safe_def http_health_def http_live_def http_ready_def by (intro allI keeps_rules safe_rules)+

lemma main_routes:
  assumes "library_code C K" "(n, h) \<in> set (routes [] (main_router K cfg))"
  shows "safe d0 h"
proof -
  note module = main_bus.module_routes [OF _ transparent_main_auth]
  have lib: "quiet_mail (ln_mail K)" "safe d0 (ln_swagger K)" "safe d0 (ln_metrics_handler K)"
    "\<And>h. ln_debug_nats K = Some h \<Longrightarrow> safe d0 h"
    using assms(1) by (simp_all add: library_code_def safe_inert)
  let ?H = "main_handlers K cfg"
  have "hs_metrics ?H = Some (ln_metrics_handler K)" "hs_debug_nats ?H = ln_debug_nats K"
    by (simp_all add: main_handlers_def Let_def)
  then have "(\<exists>p. \<exists>rt \<in> {hs_auth ?H, hs_todo ?H, hs_user ?H, hs_authz ?H, hs_tenant ?H}. (n, h) \<in> set (routes p rt)) \<or>
      h \<in> {http_health, http_live, http_ready, ln_swagger K, ln_metrics_handler K} \<or> ln_debug_nats K = Some h"
    using assms(2) by (auto simp: main_router_def new_router_def register_web_def public_group_def protected_group_def
        router_defs split: option.splits if_splits)
  then show ?thesis
  proof (elim disjE exE bexE)
    fix p rt
    assume "rt \<in> {hs_auth ?H, hs_todo ?H, hs_user ?H, hs_authz ?H, hs_tenant ?H}" "(n, h) \<in> set (routes p rt)"
    then show ?thesis
      by (elim insertE emptyE; hypsubst; simp only: main_handlers_def Let_def module_routers.simps)
        (rule module [OF lib(1)]; assumption)+
  qed (use lib(2-) safe_health in auto)
qed

lemma keeps_request:
  assumes "library_code C K"
  shows "keeps (in_tables d0) (serve_request C K cfg r)"
proof -
  have "safe d0 (ch_not_found C)" "safe d0 (ch_method_not_allowed C)"
    using assms by (simp_all add: library_code_def safe_inert)
  then have "safe d0 (snd (route_in C (main_router K cfg) (rq_method r) (rq_path r)))"
    using main_wrappers [OF assms] main_routes [OF assms] by (rule safe_route)
  then show ?thesis unfolding serve_request_def by (rule safeD)
qed


text \<open>
  The service as a transition system: it serves requests one after another, delivers the messages of
  JetStream to the event handlers, may be started again, and in between time passes, Redis forgets, the
  mail server and the faults do what they like, as long as nobody else writes to the database.
\<close>

inductive service_step :: "chi \<Rightarrow> linkage \<Rightarrow> config \<Rightarrow> world \<Rightarrow> world \<Rightarrow> bool" for C K cfg where
  request: "serve_request C K cfg r \<lparr>xc_world = w, xc_resp = new_response (\<lambda>_. None)\<rparr> = (res, x) \<Longrightarrow>
    service_step C K cfg w (xc_world x)"
| delivery: "nats_deliver (ln_libs K) app_registry
      (app_handlers (ln_libs K) (new_emailer (ln_mail K) (cf_email cfg))) ty payload w = (reply, w') \<Longrightarrow>
    service_step C K cfg w w'"
| start: "new_enforcer (ln_libs K) w = (en, w') \<Longrightarrow> service_step C K cfg w w'"
| outside: "db w' = db w \<Longrightarrow> service_step C K cfg w w'"

inductive_cases service_stepE: "service_step C K cfg w w'"

lemma service_step_keeps:
  assumes "service_step C K cfg w w'" "library_code C K" "service_since d0 (db w)"
  shows "service_since d0 (db w')"
  using assms(1)
proof cases
  case (request r res x)
  then show ?thesis
    using keepsE [OF keeps_request [OF assms(2)] _ request(2)] assms(3) by (simp add: in_tables_def)
next
  case (delivery ty payload reply)
  have "quiet_mail (ln_mail K)" using assms(2) by (simp add: library_code_def)
  then show ?thesis
    using keepsE [OF keeps_delivery _ delivery] assms(3) by (simp add: on_db_def)
next
  case (start en)
  then show ?thesis using keepsE [OF keeps_new_enforcer _ start] assms(3) by (simp add: on_db_def)
next
  case outside
  then show ?thesis using assms(3) by simp
qed

lemma service_steps_keep:
  assumes "(service_step C K cfg)\<^sup>*\<^sup>* w w'" "library_code C K" "service_since d0 (db w)"
  shows "service_since d0 (db w')"
  using assms(1,3)
proof (induction rule: rtranclp_induct)
  case (step v u)
  then show ?case using service_step_keeps [OF step(2) assms(2)] by simp
qed

text \<open>Starting from any tables in order, the tables stay in order.\<close>

lemma service_stays_ok:
  "library_code C K \<Longrightarrow> (service_step C K cfg)\<^sup>*\<^sup>* w w' \<Longrightarrow> service_ok (db w) \<Longrightarrow> service_ok (db w')"
  using service_steps_keep [of C K cfg w w' "db w"] service_history_refl by (simp add: service_since_def)

text \<open>
  C3: The service forgets nothing. Whatever it goes through from tables in order, every todo, user, role,
  permission and refresh token is still there, with its identifier, its creation time and its owner; a todo that
  was completed stays completed; a deleted row is never changed or brought back; a revoked refresh token is never
  unrevoked, and its row never changes again; the tokens sent by mail, the audit log and the error log only grow.
  This covers every route with every body and header, whatever chi chooses, every pattern of failing external
  calls, the deliveries of the event bus and restarts. (Tenants, assignments and policies can be removed.)
\<close>

theorem service_forgets_nothing:
  assumes "library_code C K" "(service_step C K cfg)\<^sup>*\<^sup>* w w'" "service_ok (db w)"
  shows "service_history (db w) (db w')"
  using service_steps_keep [OF assms(2,1), of "db w"] assms(3) service_history_refl by (simp add: service_since_def)

text \<open>A linkage to try it on.\<close>

definition silent_mail :: mail_lib where
  "silent_mail = \<lparr>ml_execute = (\<lambda>n d. Inr ''''), ml_send_mail = (\<lambda>a u f t s. retM ()), ml_dial_tls = (\<lambda>a h. retM ()),
     ml_new_client = (\<lambda>h. retM ()), ml_dial = (\<lambda>a. retM ()), ml_start_tls = (\<lambda>h. retM ()), ml_auth = (\<lambda>u. retM ()),
     ml_mail = (\<lambda>f. retM ()), ml_rcpt = (\<lambda>t. retM ()), ml_data = retM (), ml_write = (\<lambda>s. retM ()),
     ml_close_data = retM (), ml_quit = retM (), ml_sendgrid = (\<lambda>k f t s c. retM ())\<rparr>"

definition toy_linkage :: linkage where
  "toy_linkage = \<lparr>ln_libs = toy_libs,
     ln_texts = \<lparr>gt_status_text = (\<lambda>_. ''''), gt_type = (\<lambda>_. ''''), gt_duration = (\<lambda>_. ''''), gt_unread = (\<lambda>_. '''')\<rparr>,
     ln_number = Some, ln_stack = '''',
     ln_otel = \<lparr>ot_start = (\<lambda>r w. Some (''1'', ''2'')), ot_url = rq_path, ot_scheme = (\<lambda>_. ''''), ot_proto = (\<lambda>_. ''HTTP/1.1'')\<rparr>,
     ln_cors = (\<lambda>c h. h),
     ln_swagger = (\<lambda>r. respond_json 200 None), ln_metrics_handler = (\<lambda>r. respond_json 200 None),
     ln_debug_nats = None, ln_recorder = \<lparr>mr_increment = (\<lambda>n ls. retM ()), mr_observe = (\<lambda>n m ls. retM ())\<rparr>,
     ln_mail = silent_mail\<rparr>"

lemma inert_respond: "inert (respond_json st v)"
  unfolding inert_def
  using keepsD [OF keeps_respond, of "\<lambda>w. db w = db (xc_world x)" x st v for x] by simp

lemma library_code_toy: "library_code plain_chi toy_linkage"
  by (simp add: library_code_def toy_linkage_def plain_chi_def quiet_mail_def mail_lib_keeps_def silent_mail_def
      keeps_retM hands_on_def inert_respond respond_error_def)
    (simp add: inert_def retM_def)

lemma service_ok_one_account: "service_ok (db one_account)"
  by (simp add: service_ok_def todo_ids_distinct_def accounts_ok_def rbac_ok_def tenant_keys_ok_def one_account_def
      init_world_def empty_db_def)

lemma service_forgets_nothing_witness:
  "\<forall>cfg r. service_history (db one_account) (db (xc_world (snd (serve_request plain_chi toy_linkage cfg r
     \<lparr>xc_world = one_account, xc_resp = new_response (\<lambda>_. None)\<rparr>))))"
proof (intro allI)
  fix cfg r
  let ?x = "\<lparr>xc_world = one_account, xc_resp = new_response (\<lambda>_. None)\<rparr>"
  have "service_step plain_chi toy_linkage cfg one_account (xc_world (snd (serve_request plain_chi toy_linkage cfg r ?x)))"
    by (rule request) (rule prod.collapse [symmetric])
  then show "service_history (db one_account) (db (xc_world (snd (serve_request plain_chi toy_linkage cfg r ?x))))"
    using service_forgets_nothing [OF library_code_toy r_into_rtranclp] service_ok_one_account by simp
qed

end
