(* ===== verification/Api_Access.thy ===== *)
theory Api_Access
  imports Service_Laws
begin

text \<open>
  The other side of the access control: a request with a valid token of a user with the permission reaches
  the handler of its route, with the user in its context and the body it was sent with.
\<close>

section \<open>The operations\<close>

text \<open>The endpoints of the access list with their handlers.\<close>

definition operations :: "web_env \<Rightarrow> ((string option \<times> string) \<times> http_handler) list" where
  "operations W =
     [((Some ''POST'', ''/todos/''), http_create_todo W),
      ((Some ''GET'', ''/todos/''), http_list_todos W),
      ((Some ''GET'', ''/todos/search''), http_search_todos W),
      ((Some ''GET'', ''/todos/{id}''), http_get_todo W),
      ((Some ''PUT'', ''/todos/{id}''), http_update_todo W),
      ((Some ''PATCH'', ''/todos/{id}/complete''), http_complete_todo W),
      ((Some ''DELETE'', ''/todos/{id}''), http_delete_todo W),
      ((Some ''POST'', ''/users/''), http_create_user W),
      ((Some ''GET'', ''/users/me''), http_user_me W),
      ((Some ''GET'', ''/users/''), http_list_users W),
      ((Some ''GET'', ''/users/{id}''), http_get_user W),
      ((Some ''PUT'', ''/users/{id}''), http_update_user W),
      ((Some ''DELETE'', ''/users/{id}''), http_delete_user W),
      ((Some ''POST'', ''/auth/sessions/roles/''), http_create_role W),
      ((Some ''GET'', ''/auth/sessions/roles/''), http_list_roles W),
      ((Some ''GET'', ''/auth/sessions/roles/{id}''), http_get_role W),
      ((Some ''PUT'', ''/auth/sessions/roles/{id}''), http_update_role W),
      ((Some ''DELETE'', ''/auth/sessions/roles/{id}''), http_delete_role W),
      ((Some ''POST'', ''/auth/sessions/roles/{roleId}/permissions/''), http_assign_permission W),
      ((Some ''DELETE'', ''/auth/sessions/roles/{roleId}/permissions/{permissionId}''), http_remove_permission W),
      ((Some ''GET'', ''/auth/sessions/roles/{roleId}/permissions/''), http_get_role_permissions W),
      ((Some ''POST'', ''/auth/sessions/permissions/''), http_create_permission W),
      ((Some ''GET'', ''/auth/sessions/permissions/''), http_list_permissions W),
      ((Some ''GET'', ''/auth/sessions/permissions/{id}''), http_get_permission W),
      ((Some ''PUT'', ''/auth/sessions/permissions/{id}''), http_update_permission W),
      ((Some ''DELETE'', ''/auth/sessions/permissions/{id}''), http_delete_permission W),
      ((Some ''POST'', ''/auth/sessions/users/{userId}/roles/''), http_assign_role W),
      ((Some ''DELETE'', ''/auth/sessions/users/{userId}/roles/{roleId}''), http_remove_role W),
      ((Some ''GET'', ''/auth/sessions/users/{userId}/roles/''), http_get_user_roles W),
      ((Some ''POST'', ''/auth/sessions/check-permission''), http_check_permission W),
      ((Some ''POST'', ''/admin/tenants/''), http_create_tenant W),
      ((Some ''GET'', ''/admin/tenants/''), http_list_tenants W),
      ((Some ''GET'', ''/admin/tenants/{id}''), http_get_tenant W),
      ((Some ''PUT'', ''/admin/tenants/{id}''), http_update_tenant W),
      ((Some ''DELETE'', ''/admin/tenants/{id}''), http_delete_tenant W)]"

lemma operations_listed: "map fst (operations W) = map fst access_list"
  by (simp add: operations_def access_list_def)

section \<open>Getting through\<close>

text \<open>\<open>through u f h r x\<close>: what \<open>h\<close> does with the request is what \<open>f\<close> does with it for the user \<open>u\<close>.\<close>

definition through :: "string \<Rightarrow> http_handler \<Rightarrow> http_handler \<Rightarrow> request \<Rightarrow> exchange \<Rightarrow> bool" where
  "through u f h r x \<longleftrightarrow> (\<exists>r' x'. h r x = f r' x' \<and> get_user_id (rq_ctx r') = u \<and> rq_body r' = rq_body r \<and>
     rq_query r' = rq_query r \<and> xc_resp x' = xc_resp x \<and> idle (xc_world x) (xc_world x'))"

definition opens :: "libs \<Rightarrow> string \<times> string \<Rightarrow> http_handler \<Rightarrow> http_handler \<Rightarrow> bool" where
  "opens L p f h \<longleftrightarrow> (\<forall>r x. get_user_id (rq_ctx r) \<noteq> '''' \<longrightarrow> permitted L (xc_world x) (get_user_id (rq_ctx r)) p \<longrightarrow>
     through (get_user_id (rq_ctx r)) f h r x)"

text \<open>
  \<open>valid_for\<close>: for the next \<open>k\<close> readings of the clock the token of the request is valid, it is not on the
  denylist, and no call fails.
\<close>

definition valid_for :: "token_service \<Rightarrow> nat \<Rightarrow> request \<Rightarrow> world \<Rightarrow> token_claims \<Rightarrow> bool" where
  "valid_for svc k r w c \<longleftrightarrow> faults w = [] \<and> header_get r ''Authorization'' \<noteq> '''' \<and> tc_user_id c \<noteq> '''' \<and>
     redis w (denylist_key (tc_jti c)) = None \<and>
     (\<forall>n < k. fst (ts_validate_token svc (bearer_token (header_get r ''Authorization'')) (w\<lparr>ticks := ticks w + n\<rparr>)) = Ok c)"

definition admits :: "libs \<Rightarrow> token_service \<Rightarrow> string \<times> string \<Rightarrow> nat \<Rightarrow> http_handler \<Rightarrow> http_handler \<Rightarrow> bool" where
  "admits L svc p k f h \<longleftrightarrow> (\<forall>r x c. valid_for svc k r (xc_world x) c \<longrightarrow> permitted L (xc_world x) (tc_user_id c) p \<longrightarrow>
     through (tc_user_id c) f h r x)"

lemma through_self:
  "get_user_id (rq_ctx r) = u \<Longrightarrow> through u f f r x"
  unfolding through_def using idle_refl by blast

lemma through_later:
  assumes "through u f h r' x'" "h1 r x = h r' x'" "rq_body r' = rq_body r" "rq_query r' = rq_query r"
    "xc_resp x' = xc_resp x" "idle (xc_world x) (xc_world x')"
  shows "through u f h1 r x"
proof -
  obtain r2 x2 where t: "h r' x' = f r2 x2" "get_user_id (rq_ctx r2) = u" "rq_body r2 = rq_body r'"
    "rq_query r2 = rq_query r'" "xc_resp x2 = xc_resp x'" "idle (xc_world x') (xc_world x2)"
    using assms(1) unfolding through_def by blast
  have "idle (xc_world x) (xc_world x2)" using assms(6) t(6) by (rule idle_trans)
  then show ?thesis unfolding through_def using t assms(2-5) by (intro exI [of _ r2] exI [of _ x2]) simp
qed

lemma through_now:
  "through u f h r x \<Longrightarrow> h1 r x = h r x \<Longrightarrow> through u f h1 r x"
  by (rule through_later [OF _ _ refl refl refl idle_refl])

lemma opens_authorization: "opens L (res, act) f (authorization L (enforcer_enforce L) res act f)"
  unfolding opens_def
proof (intro allI impI)
  fix r :: request and x :: exchange
  assume u: "get_user_id (rq_ctx r) \<noteq> ''''" and "permitted L (xc_world x) (get_user_id (rq_ctx r)) (res, act)"
  then obtain uid where "uuid_parse L (get_user_id (rq_ctx r)) = Some uid"
    "matches_model L (policies (xc_world x)) (uuid_string L uid) res act" by (auto simp: permitted_def)
  then have "authorization L (enforcer_enforce L) res act f r x = f r x"
    using u by (simp add: authorization_def enforcer_enforce_def tryM_def worldM_def readM_def)
  with through_self [OF refl] show "through (get_user_id (rq_ctx r)) f (authorization L (enforcer_enforce L) res act f) r x"
    by (rule through_now)
qed

lemma opens_params: "opens L p f h \<Longrightarrow> opens L p f (with_params ps h)"
  unfolding opens_def
proof (intro allI impI)
  fix r :: request and x :: exchange
  assume h: "\<forall>r x. get_user_id (rq_ctx r) \<noteq> '''' \<longrightarrow> permitted L (xc_world x) (get_user_id (rq_ctx r)) p \<longrightarrow>
      through (get_user_id (rq_ctx r)) f h r x"
    and "get_user_id (rq_ctx r) \<noteq> ''''" "permitted L (xc_world x) (get_user_id (rq_ctx r)) p"
  then have "through (get_user_id (rq_ctx r)) f h (r\<lparr>rq_params := ps @ rq_params r\<rparr>) x"
    using h [rule_format, of "r\<lparr>rq_params := ps @ rq_params r\<rparr>" x] by simp
  then show "through (get_user_id (rq_ctx r)) f (with_params ps h) r x"
    by (rule through_later) (simp_all add: with_params_def)
qed

lemma admits_changed:
  assumes "admits L svc p k f h" "\<And>r x. mw h r x = h (g r) x"
    "\<And>r. header_get (g r) ''Authorization'' = header_get r ''Authorization''"
    "\<And>r. rq_body (g r) = rq_body r" "\<And>r. rq_query (g r) = rq_query r"
  shows "admits L svc p k f (mw h)"
  unfolding admits_def
proof (intro allI impI)
  fix r :: request and x :: exchange and c
  assume "valid_for svc k r (xc_world x) c" "permitted L (xc_world x) (tc_user_id c) p"
  then have "through (tc_user_id c) f h (g r) x"
    using assms(1) by (simp add: admits_def valid_for_def assms(3))
  then show "through (tc_user_id c) f (mw h) r x"
    by (rule through_later) (simp_all only: assms(2,4,5) idle_refl)
qed

lemma admits_wrapped:
  assumes "admits L svc p k f h"
  shows "admits L svc p k f (with_params ps h)" "admits L svc p k f (tenant_resolver cfg h)"
    "admits L svc p k f (max_body_size n h)"
proof -
  show "admits L svc p k f (with_params ps h)"
    by (rule admits_changed [OF assms, where g = "\<lambda>r. r\<lparr>rq_params := ps @ rq_params r\<rparr>"])
      (simp_all add: with_params_def)
  show "admits L svc p k f (tenant_resolver cfg h)"
    by (rule admits_changed [OF assms, where g = "\<lambda>r. with_context r ((rq_ctx r)\<lparr>cx_tenant_id :=
        Some (if tf_enabled cfg then resolve_tenant r cfg else '''')\<rparr>)"])
      (simp_all add: tenant_resolver_def, simp_all add: with_context_def)
  show "admits L svc p k f (max_body_size n h)"
    by (rule admits_changed [OF assms, where g = "\<lambda>r. if writes_body r then r\<lparr>rq_max_body := Some n\<rparr> else r"])
      (simp_all add: max_body_size_def)
qed

lemma denylisted_no:
  assumes "faults w = []" "redis w (denylist_key jti) = None"
  shows "denylisted jti w = (Ok False, w\<lparr>ticks := Suc (ticks w)\<rparr>)"
  using assms by (simp add: denylisted_def redis_get_def redisM_nofault live_at_def tryM_def retM_def)


section \<open>Past the authentication\<close>

text \<open>One reading of the clock for the token, one for the denylist when the token has an id.\<close>

lemma authentication_passes:
  fixes x :: exchange
  assumes v: "valid_for svc (k + 2) r (xc_world x) c" and svc: "plain_service svc"
  shows "\<exists>x'. authentication_with_denylist svc denylisted h r x = h (with_context r (claims_ctx c (rq_ctx r))) x' \<and>
    xc_resp x' = xc_resp x \<and> idle (xc_world x) (xc_world x') \<and>
    valid_for svc k (with_context r (claims_ctx c (rq_ctx r))) (xc_world x') c"
proof -
  let ?w = "xc_world x" and ?tok = "bearer_token (header_get r ''Authorization'')"
  let ?i = "if tc_jti c = '''' then 1 else 2 :: nat"
  let ?x = "x\<lparr>xc_world := ?w\<lparr>ticks := ticks ?w + ?i\<rparr>\<rparr>"
  have ok: "fst (ts_validate_token svc ?tok (?w\<lparr>ticks := ticks ?w + n\<rparr>)) = Ok c" if "n < k + 2" for n
    using v that by (simp add: valid_for_def)
  have first: "ts_validate_token svc ?tok ?w = (Ok c, ?w\<lparr>ticks := Suc (ticks ?w)\<rparr>)"
    using plain_service_run [OF svc, of ?tok ?w] ok [of 0] by auto
  have "authentication_with_denylist svc denylisted h r x = h (with_context r (claims_ctx c (rq_ctx r))) ?x"
    using v first
    by (auto simp: authentication_with_denylist_def with_claims_def tryM_def worldM_def bindM_def retM_def
        valid_for_def denylisted_no)
  moreover have "idle ?w (xc_world ?x)" by (simp add: idle_def)
  moreover have "valid_for svc k (with_context r (claims_ctx c (rq_ctx r))) (xc_world ?x) c"
    using v ok [of "?i + n" for n] by (simp add: valid_for_def add.assoc)
  ultimately show ?thesis by (intro exI [of _ ?x]) simp
qed

lemma claims_user [simp]: "get_user_id (rq_ctx (with_context r (claims_ctx c cx))) = tc_user_id c"
  by (simp add: with_context_def claims_ctx_def get_user_id_def or_empty_def)

lemma permitted_idle: "idle w w' \<Longrightarrow> permitted L w' u p = permitted L w u p"
  by (simp add: permitted_def idle_def)

lemma admits_authentication:
  assumes "plain_service svc"
    and h: "opens L p f h \<and> k = 0 \<or> admits L svc p k f h"
  shows "admits L svc p (k + 2) f (authentication_with_denylist svc denylisted h)"
  unfolding admits_def
proof (intro allI impI)
  fix r :: request and x :: exchange and c
  assume v: "valid_for svc (k + 2) r (xc_world x) c" and may: "permitted L (xc_world x) (tc_user_id c) p"
  let ?r = "with_context r (claims_ctx c (rq_ctx r))"
  obtain x' where x': "authentication_with_denylist svc denylisted h r x = h ?r x'"
      "xc_resp x' = xc_resp x" "idle (xc_world x) (xc_world x')" "valid_for svc k ?r (xc_world x') c"
    using authentication_passes [OF v assms(1)] by blast
  have "permitted L (xc_world x') (tc_user_id c) p" using may permitted_idle [OF x'(3)] by simp
  moreover have "tc_user_id c \<noteq> ''''" using v by (simp add: valid_for_def)
  moreover have "get_user_id (rq_ctx ?r) = tc_user_id c" by simp
  ultimately have "through (tc_user_id c) f h ?r x'"
    using h x'(4) unfolding opens_def admits_def by metis
  then show "through (tc_user_id c) f (authentication_with_denylist svc denylisted h) r x"
    by (rule through_later) (simp_all add: x' with_context_def)
qed


section \<open>The routers\<close>

text \<open>A route of the access list with its own handler behind the permission it needs.\<close>

definition op_open :: "web_env \<Rightarrow> string option \<times> string \<Rightarrow> http_handler \<Rightarrow> bool" where
  "op_open W n h \<longleftrightarrow> (\<exists>p f. map_of access_list n = Some p \<and> map_of (operations W) n = Some f \<and> opens (we_libs W) p f h)"

lemma endpoints_distinct: "distinct (map fst access_list)"
  by code_simp

lemma op_openI:
  assumes "(n, res, act) \<in> set access_list" "(n, f) \<in> set (operations W)"
  shows "op_open W n (authorization (we_libs W) (enforcer_enforce (we_libs W)) res act f)"
proof -
  have "map_of access_list n = Some (res, act)" "map_of (operations W) n = Some f"
    using assms endpoints_distinct by (simp_all add: operations_listed map_of_is_SomeI)
  then show ?thesis using opens_authorization by (auto simp: op_open_def)
qed

lemmas endpoint_sets = access_list_def operations_def list.set

text \<open>A module: one group behind \<open>ms\<close>, no other middleware, and such routes below \<open>p\<close>.\<close>

definition module_of :: "web_env \<Rightarrow> middleware list \<Rightarrow> string \<Rightarrow> router \<Rightarrow> bool" where
  "module_of W ms p rt \<longleftrightarrow> (\<exists>es. rt = Router [] (group ms es) \<and> wrappers (Router [] es) = {} \<and>
     (\<forall>n h. (n, h) \<in> set (routes p (Router [] es)) \<longrightarrow> op_open W n h))"

lemma module_ofI:
  "rt = Router [] (group ms es) \<Longrightarrow> wrappers (Router [] es) = {} \<Longrightarrow>
    (\<And>n h. (n, h) \<in> set (routes p (Router [] es)) \<Longrightarrow> op_open W n h) \<Longrightarrow> module_of W ms p rt"
  by (auto simp: module_of_def)

lemma todo_module: "module_of W [auth] ''/todos'' (todo_router W auth (enforcer_enforce (we_libs W)))"
  unfolding todo_router_def Let_def
  by (rule module_ofI [OF refl], simp add: router_defs, simp add: router_defs,
      (elim disjE conjE; hypsubst; rule op_openI; unfold endpoint_sets; (rule insertI1 | rule insertI2)+))

lemma user_module: "module_of W [auth] ''/users'' (user_router W auth (enforcer_enforce (we_libs W)))"
  unfolding user_router_def Let_def
  by (rule module_ofI [OF refl], simp add: router_defs, simp add: router_defs,
      (elim disjE conjE; hypsubst; rule op_openI; unfold endpoint_sets; (rule insertI1 | rule insertI2)+))

lemma tenant_module: "module_of W [auth] ''/admin/tenants'' (tenant_router W auth (enforcer_enforce (we_libs W)))"
  unfolding tenant_router_def Let_def
  by (rule module_ofI [OF refl], simp add: router_defs, simp add: router_defs,
      (elim disjE conjE; hypsubst; rule op_openI; unfold endpoint_sets; (rule insertI1 | rule insertI2)+))

lemmas flat_modules = todo_module user_module tenant_module

lemma authz_module:
  "module_of W [auth, timeout (30 * second)] ''/auth/sessions'' (authz_router W auth (enforcer_enforce (we_libs W)))"
  unfolding authz_router_def Let_def
  by (rule module_ofI [OF refl], simp add: router_defs, simp add: router_defs,
      (elim disjE conjE; hypsubst; rule op_openI; unfold endpoint_sets; (rule insertI1 | rule insertI2)+))

lemma route_behind:
  "route_entry C (behind ms e) m rest = (fst (route_entry C e m rest), use_all ms (snd (route_entry C e m rest)))"
  by (cases e) (simp_all add: case_prod_beta)

lemma route_in_group:
  assumes "route_in C (Router [] (group ms es)) m path = (Some n, h)"
  shows "\<exists>e \<in> set es. \<exists>ps rest h0. route_entry C e m rest = (Some n, h0) \<and> h = with_params ps (use_all ms h0)"
proof -
  obtain i ps rest h' where i: "i < length es" and e: "route_entry C (group ms es ! i) m rest = (Some n, h')"
    and h: "h = with_params ps h'"
    using route_in_found [OF assms] by (auto simp: group_def)
  show ?thesis
    using e h nth_mem [OF i] i
    by (intro bexI [of _ "es ! i"] exI [of _ ps] exI [of _ rest] exI [of _ "snd (route_entry C (es ! i) m rest)"])
      (auto simp: group_def route_behind prod_eq_iff)
qed

lemma module_route:
  assumes "module_of W ms p rt" "route_in C rt m path = (Some (mt, q), h)"
  shows "\<exists>ps h0. h = with_params ps (use_all ms h0) \<and> op_open W (mt, p @ q) h0"
proof -
  obtain es where es: "rt = Router [] (group ms es)" "wrappers (Router [] es) = {}"
    "\<And>n h. (n, h) \<in> set (routes p (Router [] es)) \<Longrightarrow> op_open W n h"
    using assms(1) by (auto simp: module_of_def)
  obtain e ps rest h0 where e: "e \<in> set es" "route_entry C e m rest = (Some (mt, q), h0)"
    and h: "h = with_params ps (use_all ms h0)"
    using route_in_group [OF assms(2) [unfolded es(1)]] by blast
  have "op_open W (mt, p @ q) h0"
  proof (rule route_closed(2) [OF _ e(2)])
    show "op_open W n (with_params ps h)" if "op_open W n h" for n ps h
      using that opens_params by (auto simp: op_open_def)
    show "op_open W n (mw h)" if "mw \<in> entry_wrappers e" for mw n h
      using that es(2) e(1) by auto
    show "op_open W n h" if "(n, h) \<in> set (entry_routes p e)" for n h
      using that es(3) [of n h] e(1) by auto
  qed
  then show ?thesis using h by blast
qed


section \<open>The protected API\<close>

lemma module_admits:
  assumes svc: "plain_service svc" and ms: "ms = [authentication_with_denylist svc denylisted] @ map timeout ds"
    and rt: "module_of W ms p rt"
    and mount: "route_entry C (behind [authentication_with_denylist svc denylisted, tenant_resolver cfg, max_body_size n]
        (Mount p [] rt)) m path = (Some endpoint, h)"
  shows "\<exists>perm f. map_of access_list endpoint = Some perm \<and> map_of (operations W) endpoint = Some f \<and>
    admits (we_libs W) svc perm 4 f h"
proof -
  let ?auth = "authentication_with_denylist svc denylisted"
  obtain mt q h' where r: "route_in C rt m path = (Some (mt, q), h')" and e: "endpoint = (mt, p @ q)"
    and h: "h = ?auth (tenant_resolver cfg (max_body_size n h'))"
    using mount by (cases "route_in C rt m path") auto
  obtain ps h0 where h': "h' = with_params ps (use_all ms h0)" and "op_open W endpoint h0"
    using module_route [OF rt r] e by blast
  then obtain perm f where perm: "map_of access_list endpoint = Some perm" "map_of (operations W) endpoint = Some f"
    and "opens (we_libs W) perm f h0" by (auto simp: op_open_def)
  moreover have "use_all (map timeout ds) h0 = h0" by (induction ds) (simp_all add: timeout_def [abs_def])
  ultimately have "opens (we_libs W) perm f (use_all (map timeout ds) h0) \<and> (0::nat) = 0" by simp
  then have "admits (we_libs W) svc perm (0 + 2) f (use_all ms h0)"
    unfolding ms use_all_simps append.simps by (intro admits_authentication svc disjI1)
  then have "admits (we_libs W) svc perm (0 + 2 + 2) f h"
    unfolding h h' by (intro admits_authentication svc disjI2 admits_wrapped)
  then show ?thesis using perm by (auto simp: numeral_eq_Suc)
qed

lemma main_module:
  fixes K cfg
  defines "auth \<equiv> mw_auth (main_registry K cfg)"
  assumes "Mount p ms rt \<in> set [Mount ''/todos'' [] (hs_todo (main_handlers K cfg)),
      Mount ''/users'' [] (hs_user (main_handlers K cfg)), Mount ''/auth/sessions'' [] (hs_authz (main_handlers K cfg)),
      Mount ''/admin/tenants'' [] (hs_tenant (main_handlers K cfg))]"
  shows "ms = [] \<and> (\<exists>ds. module_of (main_web K cfg) ([auth] @ map timeout ds) p rt)"
proof -
  have "we_libs (main_web K cfg) = ln_libs K" by (simp add: main_web_def)
  then have "module_of (main_web K cfg) ([auth] @ map timeout []) ''/todos'' (hs_todo (main_handlers K cfg))"
    "module_of (main_web K cfg) ([auth] @ map timeout []) ''/users'' (hs_user (main_handlers K cfg))"
    "module_of (main_web K cfg) ([auth] @ map timeout []) ''/admin/tenants'' (hs_tenant (main_handlers K cfg))"
    "module_of (main_web K cfg) ([auth] @ map timeout [30 * second]) ''/auth/sessions'' (hs_authz (main_handlers K cfg))"
    using flat_modules [of "main_web K cfg" auth] authz_module [of "main_web K cfg" auth]
    by (simp_all add: main_handlers_def auth_def Let_def)
  then show ?thesis
    using assms(2) unfolding list.set insert_iff empty_iff entry.inject by (elim disjE; blast)
qed

text \<open>
  C4: whoever may call gets through. On a route of the protected group, with a token that is valid at the
  next four readings of the clock and not on the denylist, of a user to whom the policy in force grants what
  the access list asks for the route, and with no call failing, the handler of that very route runs, for that
  user, with the body and the query of the request, on tables, policy and Redis as they were.
\<close>

theorem api_admits:
  assumes "atc_token_denylist (cf_auth cfg)"
    and "route_in C (Router [] (protected_group (main_handlers K cfg) (main_registry K cfg) cfg)) m path = (Some endpoint, h)"
    and "valid_for (ap_tokens (main_env K cfg)) 4 r (xc_world x) c"
    and "map_of access_list endpoint = Some perm" "permitted (ln_libs K) (xc_world x) (tc_user_id c) perm"
  shows "\<exists>f r' x'. map_of (operations (main_web K cfg)) endpoint = Some f \<and> h r x = f r' x' \<and>
    get_user_id (rq_ctx r') = tc_user_id c \<and> rq_body r' = rq_body r \<and> rq_query r' = rq_query r \<and>
    xc_resp x' = xc_resp x \<and> idle (xc_world x) (xc_world x')"
proof -
  let ?svc = "ap_tokens (main_env K cfg)"
  have svc: "plain_service ?svc" unfolding ap_tokens_def by (rule plain_jwt)
  have body: "mw_max_body_size (main_registry K cfg) = max_body_size (srv_max_request_body_size (cf_server cfg))"
    by (simp add: main_registry_def new_registry_def)
  obtain e ps rest h0 where e: "e \<in> set [Mount ''/todos'' [] (hs_todo (main_handlers K cfg)),
      Mount ''/users'' [] (hs_user (main_handlers K cfg)), Mount ''/auth/sessions'' [] (hs_authz (main_handlers K cfg)),
      Mount ''/admin/tenants'' [] (hs_tenant (main_handlers K cfg))]"
    and h0: "route_entry C e m rest = (Some endpoint, h0)" and h: "h = with_params ps (use_all
      [authentication_with_denylist ?svc denylisted, tenant_resolver (cf_tenant cfg),
       max_body_size (srv_max_request_body_size (cf_server cfg))] h0)"
    using route_in_group [OF assms(2) [unfolded protected_group_def body main_auth [OF assms(1)]]] by blast
  obtain p ms rt where m: "e = Mount p ms rt" using e by auto
  obtain ds where ds: "ms = []" "module_of (main_web K cfg) ([authentication_with_denylist ?svc denylisted] @ map timeout ds) p rt"
    using main_module [OF e [unfolded m]] main_auth [OF assms(1)] by auto
  let ?ms = "[authentication_with_denylist ?svc denylisted, tenant_resolver (cf_tenant cfg),
       max_body_size (srv_max_request_body_size (cf_server cfg))]"
  have "route_entry C (behind ?ms (Mount p [] rt)) m rest = (Some endpoint, use_all ?ms h0)"
    using h0 by (simp only: m ds(1) route_behind fst_conv snd_conv)
  moreover have "we_libs (main_web K cfg) = ln_libs K" by (simp add: main_web_def)
  ultimately obtain f where f: "map_of (operations (main_web K cfg)) endpoint = Some f"
    "admits (ln_libs K) ?svc perm 4 f (use_all ?ms h0)"
    using module_admits [OF svc refl ds(2)] assms(4) by (metis option.inject)
  have "through (tc_user_id c) f h r x"
    using admits_wrapped(1) [OF f(2), of ps] assms(3,5) unfolding h admits_def by blast
  then show ?thesis using f(1) unfolding through_def by blast
qed


text \<open>A token that is good for ten seconds, for a user who may list todos.\<close>

definition day_claims :: jwt_claims where
  "day_claims = \<lparr>jc_user_id = unary_string 9, jc_email = '''', jc_role = '''', jc_tenant_id = '''',
     jc_exp = 10 * second, jc_iat = 0, jc_sub = '''', jc_id = ''j''\<rparr>"

definition token_linkage :: linkage where
  "token_linkage = toy_linkage\<lparr>ln_libs := toy_libs\<lparr>jwt_parse := (\<lambda>kf s now.
     if s = ''t'' \<and> now < jc_exp day_claims then Some day_claims else None)\<rparr>\<rparr>"

definition listing_world :: world where
  "listing_world = init_world\<lparr>policies := [[''p'', unary_string 9, ''todo'', ''list'']]\<rparr>"

definition listing_request :: request where
  "listing_request = (bare_request ''GET'')\<lparr>rq_headers := [''authorization'' \<mapsto> ''Bearer t'']\<rparr>"

lemma token_linkage_libs:
  "uuid_parse (ln_libs token_linkage) (unary_string 9) = Some 9" "uuid_string (ln_libs token_linkage) = unary_string"
  "casbin_g (ln_libs token_linkage) = casbin_g toy_libs"
  using uuid_law_toy by (simp_all add: token_linkage_def toy_linkage_def uuid_law_def toy_libs_def)

lemma listing_valid:
  "valid_for (ap_tokens (main_env token_linkage cfg)) 4 listing_request listing_world (claims_of_jwt day_claims)"
proof -
  have "to_lower ''Authorization'' = ''authorization''" by code_simp
  then have "header_get listing_request ''Authorization'' = ''Bearer t''"
    by (simp add: header_get_def listing_request_def or_empty_def)
  moreover have "unary_string 9 \<noteq> ''''" by (simp add: unary_string_def)
  moreover have "int n * second < 10 * second" if "n < 4" for n using that by simp
  ultimately show ?thesis
    by (simp add: valid_for_def ap_tokens_def jwt_validate_run bearer_token_def main_env_def token_linkage_def
        day_claims_def claims_of_jwt_def listing_world_def init_world_def)
qed

lemma api_admits_witness:
  "\<forall>c. \<exists>h. route_in plain_chi (Router [] (protected_group (main_handlers token_linkage (set_defaults c))
        (main_registry token_linkage (set_defaults c)) (set_defaults c)))
      ''GET'' ''/todos/search'' = (Some (Some ''GET'', ''/todos/search''), h) \<and>
    (\<exists>f r' x'. map_of (operations (main_web token_linkage (set_defaults c))) (Some ''GET'', ''/todos/search'') = Some f \<and>
      h listing_request \<lparr>xc_world = listing_world, xc_resp = new_response (\<lambda>_. None)\<rparr> = f r' x' \<and>
      get_user_id (rq_ctx r') = unary_string 9)"
proof
  fix c
  let ?cfg = "set_defaults c" and ?x = "\<lparr>xc_world = listing_world, xc_resp = new_response (\<lambda>_. None)\<rparr>"
  obtain h where h: "route_in plain_chi (Router [] (protected_group (main_handlers token_linkage ?cfg)
        (main_registry token_linkage ?cfg) ?cfg)) ''GET'' ''/todos/search'' = (Some (Some ''GET'', ''/todos/search''), h)"
    by (simp add: protected_group_def main_handlers_def todo_router_def router_defs plain_chi_def)
  have perm: "map_of access_list (Some ''GET'', ''/todos/search'') = Some (''todo'', ''list'')"
    by (simp add: access_list_def)
  have valid: "valid_for (ap_tokens (main_env token_linkage ?cfg)) 4 listing_request (xc_world ?x) (claims_of_jwt day_claims)"
    using listing_valid by simp
  have "permitted (ln_libs token_linkage) (xc_world ?x) (tc_user_id (claims_of_jwt day_claims)) (''todo'', ''list'')"
    by (simp add: permitted_def token_linkage_libs matches_model_def listing_world_def claims_of_jwt_def day_claims_def
        toy_libs_def)
  from api_admits [OF denylist_stays_on h valid perm this] h
  show "\<exists>h. route_in plain_chi (Router [] (protected_group (main_handlers token_linkage ?cfg)
        (main_registry token_linkage ?cfg) ?cfg)) ''GET'' ''/todos/search'' = (Some (Some ''GET'', ''/todos/search''), h) \<and>
    (\<exists>f r' x'. map_of (operations (main_web token_linkage ?cfg)) (Some ''GET'', ''/todos/search'') = Some f \<and>
      h listing_request ?x = f r' x' \<and> get_user_id (rq_ctx r') = unary_string 9)"
    by (auto simp: claims_of_jwt_def day_claims_def)
qed

end
