(* ===== verification/Panic_Free.thy ===== *)
theory Panic_Free
  imports Service_Tables
begin

text \<open>
  No message panics: every command and every query of the service ends with a value or an error, and the
  value of each is of the kind the HTTP handlers assert, so that no type assertion fails.
\<close>

section \<open>Operations that do not panic\<close>

definition panic_free :: "('s, 'e, 'a) op \<Rightarrow> bool" where
  "panic_free m \<longleftrightarrow> (\<forall>s p. fst (m s) \<noteq> Panic p)"

named_theorems pf_rules \<open>introduction rules for operations that do not panic\<close>

lemma pfI: "(\<And>s p. fst (m s) \<noteq> Panic p) \<Longrightarrow> panic_free m"
  by (simp add: panic_free_def)

lemma pfD: "panic_free m \<Longrightarrow> fst (m s) \<noteq> Panic p"
  by (simp add: panic_free_def)

lemma pf_run: "panic_free m \<Longrightarrow> (\<exists>v s'. m s = (Ok v, s')) \<or> (\<exists>e s'. m s = (Err e, s'))"
  using pfD [of m s] by (cases "m s"; cases "fst (m s)") auto

lemma pf_basic [pf_rules]:
  "panic_free (retM x)" "panic_free (errM e)" "panic_free (readM f)" "panic_free (modifyM g)" "panic_free nowM" "panic_free new_uuidM"
  "panic_free (logM lv msg fs)" "panic_free (spanM h)"
  by (simp_all add: panic_free_def op_defs)

lemma pf_tryM [pf_rules]: "panic_free m \<Longrightarrow> (\<And>r. panic_free (f r)) \<Longrightarrow> panic_free (tryM m f)"
  unfolding panic_free_def tryM_def by (auto split: prod.splits outcome.splits) (metis fst_conv)+

lemma pf_bindM [pf_rules]: "panic_free m \<Longrightarrow> (\<And>x. panic_free (f x)) \<Longrightarrow> panic_free (bindM m f)"
  unfolding panic_free_def bindM_def by (auto split: prod.splits outcome.splits) (metis fst_conv)+

lemma pf_ignoreM [pf_rules]: "panic_free m \<Longrightarrow> panic_free (ignoreM m)"
  unfolding ignoreM_def by (intro pf_rules)

lemma pf_forM [pf_rules]: "(\<And>x. x \<in> set xs \<Longrightarrow> panic_free (f x)) \<Longrightarrow> panic_free (forM xs f)"
  by (induction xs) (auto intro!: pf_rules)

lemma pf_if [pf_rules]: "(b \<Longrightarrow> panic_free m) \<Longrightarrow> (\<not> b \<Longrightarrow> panic_free n) \<Longrightarrow> panic_free (if b then m else n)"
  by simp

lemma pf_case_sum [pf_rules]:
  "(\<And>e. x = Inl e \<Longrightarrow> panic_free (f e)) \<Longrightarrow> (\<And>a. x = Inr a \<Longrightarrow> panic_free (g a)) \<Longrightarrow>
    panic_free (case x of Inl e \<Rightarrow> f e | Inr a \<Rightarrow> g a)"
  by (cases x) simp_all

lemma pf_case_option [pf_rules]:
  "(x = None \<Longrightarrow> panic_free m) \<Longrightarrow> (\<And>a. x = Some a \<Longrightarrow> panic_free (g a)) \<Longrightarrow> panic_free (case x of None \<Rightarrow> m | Some a \<Rightarrow> g a)"
  by (cases x) simp_all

lemma pf_case_prod [pf_rules]:
  "(\<And>a b. x = (a, b) \<Longrightarrow> panic_free (g a b)) \<Longrightarrow> panic_free (case x of (a, b) \<Rightarrow> g a b)"
  by (cases x) simp_all

lemma pf_wrapM [pf_rules]: "panic_free m \<Longrightarrow> panic_free (wrapM msg m)"
  unfolding wrapM_def by (intro pf_rules)

lemma pf_map_errM [pf_rules]: "panic_free m \<Longrightarrow> panic_free (map_errM g m)"
  unfolding map_errM_def by (intro pf_rules)

lemma pf_norowsM [pf_rules]: "panic_free m \<Longrightarrow> panic_free (norowsM nf msg m)"
  unfolding norowsM_def by (intro pf_rules)

lemma pf_in_background [pf_rules]: "panic_free m \<Longrightarrow> panic_free (in_background m)"
  by (simp add: panic_free_def in_background_def case_prod_beta)

lemma pf_extM [pf_rules]: "panic_free (extM f)"
  by (auto simp: panic_free_def extM_def split: list.splits option.splits prod.splits sum.splits)

lemma pf_statements [pf_rules]:
  "panic_free (sqlM stm)" "panic_free (queryM f)" "panic_free (query_rowM g)" "panic_free (insertM cs h)" "panic_free (execM h)"
  "panic_free (exec_rowsM n h)" "panic_free (exec_checkedM cs n h)" "panic_free noopM" "panic_free rand32M"
  unfolding sqlM_def queryM_def query_rowM_def insertM_def execM_def exec_rowsM_def exec_checkedM_def noopM_def
    rand32M_def
  by (rule pf_extM)+

lemma pf_txM [pf_rules]:
  assumes "panic_free m"
  shows "panic_free (txM g c m)"
proof -
  have "panic_free (bindM m (\<lambda>x. bindM (map_errM c noopM) (\<lambda>_. retM x)))"
    by (intro pf_rules assms)
  then have "panic_free (\<lambda>w. case bindM m (\<lambda>x. bindM (map_errM c noopM) (\<lambda>_. retM x)) w of
      (Ok x, w') \<Rightarrow> (Ok x, w') | (r, w') \<Rightarrow> (r, w'\<lparr>db := db w\<rparr>))"
    unfolding panic_free_def by (auto split: prod.splits outcome.splits) (metis fst_conv)+
  then show ?thesis unfolding txM_def by (intro pf_bindM pf_map_errM pf_statements)
qed

lemma pf_replyM [pf_rules]: "panic_free m \<Longrightarrow> panic_free (replyM f m)"
  unfolding replyM_def by (intro pf_rules)


section \<open>Entities and statements\<close>

lemma pf_entities [pf_rules]:
  "panic_free new_entity" "panic_free (touch en)" "panic_free (soft_delete en)" "panic_free (new_user em pw nm)"
  "panic_free (is_locked u)" "panic_free (lock_user u t)" "panic_free (new_refresh_token i s t)"
  "panic_free (is_expired k)" "panic_free (bcrypt_generate L pw)" "panic_free (new_todo ti de)"
  "panic_free (todo_complete td)" "panic_free (todo_update td ti de)" "panic_free (generate_token L js tc)"
  "panic_free (new_role nm de)" "panic_free (new_permission nm de re ac)"
  unfolding new_entity_def touch_def soft_delete_def new_user_def is_locked_def lock_user_def new_refresh_token_def
    is_expired_def bcrypt_generate_def new_todo_def todo_complete_def todo_update_def generate_token_def
    new_role_def new_permission_def Let_def
  by (intro pf_rules; simp?)+

lemma pf_users [pf_rules]:
  "panic_free (pg_user_create u)" "panic_free (pg_user_update u)" "panic_free (pg_user_get_by_id i)"
  "panic_free (pg_user_get_by_email em)" "panic_free (pg_user_get_by_verify_token tok)"
  "panic_free (pg_user_get_by_reset_token tok)"
  unfolding pg_user_create_def pg_user_update_def insert_tokens_def sql_insert_user_def sql_insert_credentials_def
    sql_insert_security_def sql_insert_token_def sql_update_user_def sql_upsert_credentials_def
    sql_upsert_security_def pg_user_get_by_id_def pg_user_get_by_email_def pg_user_get_by_verify_token_def
    pg_user_get_by_reset_token_def Let_def
  by (intro pf_rules)+

lemma pf_refresh [pf_rules]:
  "panic_free (pg_refresh_create k)" "panic_free (pg_refresh_get_by_token s)" "panic_free (pg_refresh_revoke s)"
  "panic_free (pg_refresh_revoke_all i)"
  unfolding pg_refresh_create_def pg_refresh_get_by_token_def pg_refresh_revoke_def pg_refresh_revoke_all_def
    revoke_where_def Let_def
  by (intro pf_rules)+

lemma pf_todos [pf_rules]:
  "panic_free (todo_create t)" "panic_free (todo_repo_update t)" "panic_free (todo_delete i)"
  "panic_free (todo_get_by_id i)"
  unfolding todo_create_def sql_create_todo_def todo_repo_update_def sql_update_todo_def todo_delete_def
    sql_soft_delete_todo_def todo_get_by_id_def sql_get_todo_by_id_def Let_def
  by (intro pf_rules)+

lemma pf_profiles [pf_rules]:
  "panic_free (profile_create u)" "panic_free (profile_update u)" "panic_free (profile_get_by_id i)"
  unfolding profile_create_def profile_update_def sql_update_profile_def profile_get_by_id_def sql_get_user_by_id_def
    Let_def
  by (intro pf_rules)+

lemma pf_tenants [pf_rules]:
  "panic_free (tenant_create L t)" "panic_free (tenant_update L t)" "panic_free (tenant_delete i)"
  "panic_free (tenant_get_by_id i)" "panic_free (tenant_get_by_slug s)"
  unfolding tenant_create_def sql_create_tenant_def tenant_update_def sql_update_tenant_def tenant_delete_def
    sql_delete_tenant_def tenant_get_by_id_def sql_get_tenant_by_id_def tenant_get_by_slug_def
    sql_get_tenant_by_slug_def Let_def
  by (intro pf_rules)+

lemma pf_rbac [pf_rules]:
  "panic_free (sql_create_role r)" "panic_free (sql_create_permission p)" "panic_free (sql_update_role r)"
  "panic_free (sql_update_permission p)" "panic_free (sql_delete_role i)" "panic_free (sql_delete_permission i)"
  "panic_free (sql_assign_user_role u i)" "panic_free (sql_assign_role_permission i j)"
  "panic_free (sql_remove_user_role u i)" "panic_free (sql_remove_role_permission i j)"
  "panic_free (sql_get_role_by_id i)" "panic_free (sql_get_permission_by_id i)"
  "panic_free (sql_roles_of_user i)" "panic_free (sql_permissions_of_role i)"
  unfolding sql_create_role_def sql_create_permission_def sql_update_role_def sql_update_permission_def
    sql_delete_role_def sql_delete_permission_def sql_assign_user_role_def sql_assign_role_permission_def
    sql_remove_user_role_def sql_remove_role_permission_def sql_get_role_by_id_def sql_get_permission_by_id_def
    sql_roles_of_user_def sql_permissions_of_role_def
  by (intro pf_rules)+

lemma pf_reload [pf_rules]:
  "panic_free (enforcer_reload_policies L)" "panic_free (enforcer_reload_user_policies L u)" "panic_free (new_enforcer L)"
  unfolding enforcer_reload_policies_def sync_all_policies_def load_all_flattened_policies_def new_enforcer_def
    enforcer_reload_user_policies_def sync_user_policies_def load_user_flattened_policies_def insert_flat_def
    engine_load_policy_def adapter_load_policy_def
  by (intro pf_rules)+

text \<open>A listing cuts its items to the limit, which must not be negative.\<close>

lemma pf_list_page [pf_rules]: "0 \<le> l \<Longrightarrow> panic_free (list_page L C tab msg conv base c l cu)"
  unfolding list_page_def finish_page_def Let_def by (intro pf_rules) simp


section \<open>Every message\<close>

lemma pf_auth_steps [pf_rules]:
  "panic_free random_token" "panic_free (past t)" "panic_free (ts_generate_token (ap_tokens A) tc)"
  unfolding random_token_def past_def ap_tokens_def new_jwt_token_service_def Let_def
  by (intro pf_rules | simp add: pf_entities split: option.split)+

lemma pf_generate [pf_rules]:
  "panic_free (handle_generate_tokens L pg_refresh_repo (ap_tokens A) cx u ttl)"
  unfolding handle_generate_tokens_def pg_refresh_repo_sel Let_def by (intro pf_rules)

lemma pf_sessions [pf_rules]:
  "panic_free (handle_login L pg_user_repo em pw)"
  "panic_free (handle_refresh L pg_user_repo pg_refresh_repo (ap_tokens A) cx s ttl)"
  "panic_free (handle_reset_password L pg_user_repo pg_refresh_repo tok pw)"
  "panic_free (handle_logout pg_refresh_repo s jti ttl None)" "panic_free (handle_logout_all pg_refresh_repo i)"
  unfolding handle_login_def handle_refresh_def handle_reset_password_def handle_logout_def handle_logout_all_def
    pg_refresh_repo_sel pg_user_repo_sel option.case Let_def
  by (intro pf_rules)+

lemma pf_publishing:
  assumes "\<And>ev. panic_free (pub ev)"
  shows "panic_free (handle_register L pg_user_repo pub em pw nm)"
    "panic_free (handle_resend_verification L pg_user_repo pub em)"
    "panic_free (handle_verify_email L pg_user_repo pub tok)"
    "panic_free (handle_forgot_password L pg_user_repo pub em)"
    "panic_free (handle_create_todo (pg_todo_repo L te) pub ti de)"
    "panic_free (handle_update_todo (pg_todo_repo L te) pub i ti de)"
    "panic_free (handle_delete_todo (pg_todo_repo L te) pub i)"
    "panic_free (handle_complete_todo (pg_todo_repo L te) pub i)"
  unfolding handle_register_def handle_resend_verification_def handle_verify_email_def handle_forgot_password_def
    handle_create_todo_def handle_update_todo_def handle_delete_todo_def handle_complete_todo_def svc_create_def
    svc_update_def svc_delete_def svc_complete_def svc_find_def pg_todo_repo_sel pg_user_repo_sel Let_def
  by (intro pf_rules assms)+

lemma pf_run_command:
  assumes "\<And>ev. panic_free (ap_publish A ev)" "own_code cmd"
  shows "panic_free (run_command A cx cmd)"
proof -
  note rbac = authz_handler_defs authz_repo_defs casbin_enforcer_sel pg_repo_sel
    ap_roles_def ap_permissions_def ap_enforcer_def sql_get_role_by_name_def sql_get_permission_by_name_def
  show ?thesis
    using assms(2)
    by (cases cmd; simp only: run_command.simps own_code.simps; intro pf_replyM;
        (unfold rbac user_tenant_handler_defs pg_profile_repo_sel pg_tenant_repo_sel ap_todos_def Let_def)?;
        intro pf_rules pf_publishing assms(1))
qed

text \<open>The limit of a listing; the other queries have none.\<close>

fun fair_limit :: "query \<Rightarrow> bool" where
  "fair_limit (ListTodosQuery c n) = (0 \<le> n)"
| "fair_limit (SearchTodosQuery s c n) = (0 \<le> n)"
| "fair_limit (ListRolesQuery c n) = (0 \<le> n)"
| "fair_limit (ListPermissionsQuery c n) = (0 \<le> n)"
| "fair_limit (ListUsersQuery c n) = (0 \<le> n)"
| "fair_limit (ListTenantsQuery c n) = (0 \<le> n)"
| "fair_limit _ = True"

lemma pf_run_query:
  assumes "fair_limit q"
  shows "panic_free (run_query A cx q)"
  using assms
  by (cases q; simp only: run_query.simps fair_limit.simps; intro pf_replyM;
      (unfold handle_get_todo_def handle_list_todos_def handle_search_todos_def handle_get_role_def
        handle_list_roles_def handle_get_permission_def handle_list_permissions_def handle_get_user_roles_def
        handle_get_role_permissions_def handle_check_permission_def handle_list_users_def handle_get_user_def
        handle_get_tenant_def handle_list_tenants_def tenant_lookup_def ap_todos_def ap_roles_def
        ap_permissions_def ap_enforcer_def ap_profiles_def pg_todo_repo_sel pg_repo_sel pg_profile_repo_sel
        pg_tenant_repo_sel casbin_enforcer_sel role_get_by_id_def permission_get_by_id_def profile_list_def
        tenant_list_def svc_get_def svc_find_def svc_list_def svc_search_def todo_get_all_def todo_search_def
        role_get_all_def permission_get_all_def roles_by_user_id_def permissions_by_role_id_def enforcer_enforce_def)?;
      intro pf_rules; assumption?)

section \<open>Events\<close>

text \<open>A mail library none of whose calls panics.\<close>

definition calm_mail :: "mail_lib \<Rightarrow> bool" where
  "calm_mail M \<longleftrightarrow> (\<forall>a u f t s. panic_free (ml_send_mail M a u f t s)) \<and> (\<forall>a h. panic_free (ml_dial_tls M a h)) \<and>
     (\<forall>h. panic_free (ml_new_client M h)) \<and> (\<forall>a. panic_free (ml_dial M a)) \<and> (\<forall>h. panic_free (ml_start_tls M h)) \<and>
     (\<forall>u. panic_free (ml_auth M u)) \<and> (\<forall>f. panic_free (ml_mail M f)) \<and> (\<forall>t. panic_free (ml_rcpt M t)) \<and>
     panic_free (ml_data M) \<and> (\<forall>s. panic_free (ml_write M s)) \<and> panic_free (ml_close_data M) \<and> panic_free (ml_quit M) \<and>
     (\<forall>k f t s c. panic_free (ml_sendgrid M k f t s c))"

lemma pf_render [pf_rules]: "panic_free (render_template M name d)"
  unfolding render_template_def by (intro pf_rules)

lemma pf_smtp_send: "calm_mail M \<Longrightarrow> panic_free (smtp_send M m to subject body)"
  unfolding smtp_send_def send_with_implicit_tls_def send_with_starttls_def smtp_deliver_def calm_mail_def Let_def
  by (intro pf_rules) blast+

lemma pf_sendgrid_send: "calm_mail M \<Longrightarrow> panic_free (sendgrid_send M k f n to subject content)"
  unfolding sendgrid_send_def calm_mail_def by (intro pf_rules) blast

lemma pf_emailer:
  assumes "calm_mail M"
  shows "panic_free (send_verification (new_emailer M c) a b t)"
    "panic_free (send_password_reset (new_emailer M c) a b t)" "panic_free (send_welcome (new_emailer M c) a b)"
  unfolding new_emailer_def smtp_emailer_def sendgrid_emailer_def console_mailer_def mailer_with_def log_email_def
  by (auto intro!: pf_rules pf_smtp_send [OF assms] pf_sendgrid_send [OF assms])

lemma pf_todo_events [pf_rules]:
  "panic_free (on_created L ev)" "panic_free (on_updated L ev)" "panic_free (on_completed L ev)"
  "panic_free (on_deleted L ev)"
  unfolding on_created_def on_updated_def on_completed_def on_deleted_def
  by (simp_all add: pf_basic split: payload_ref.split payload.split)

lemma pf_mail_events:
  assumes "calm_mail M"
  shows "panic_free (on_user_registered (new_emailer M c) ev)" "panic_free (on_email_verified (new_emailer M c) ev)"
    "panic_free (on_password_reset_requested (new_emailer M c) ev)"
  unfolding on_user_registered_def on_email_verified_def on_password_reset_requested_def
  by (simp_all add: pf_basic pf_emailer [OF assms] split: payload_ref.split payload.split)

lemma app_handlers_range:
  "h \<in> set (app_handlers L m ty) \<Longrightarrow> h \<in> {on_created L, on_updated L, on_completed L, on_deleted L,
     on_user_registered m, on_email_verified m, on_password_reset_requested m}"
  by (auto simp: app_handlers_def register_email_handlers_def register_todo_handlers_def subscribe_def new_bus_def
      split: if_splits)

lemma pf_event_handlers:
  assumes "calm_mail M" "h \<in> set (app_handlers L (new_emailer M c) ty)"
  shows "panic_free (h ev)"
  using app_handlers_range [OF assms(2)]
  by (elim insertE emptyE; hypsubst; intro pf_todo_events pf_mail_events assms(1))

lemma pf_event_bus:
  assumes "calm_mail M"
  shows "panic_free (provide_event_bus L M cfg ev)"
proof -
  have "panic_free (publish_nats L ev)" unfolding publish_nats_def js_publish_def by (intro pf_rules)
  moreover have "panic_free (publish_memory (app_handlers L (new_emailer M c)) ev)" for c
    unfolding publish_memory_def by (intro pf_forM pf_event_handlers [OF assms])
  ultimately show ?thesis
    unfolding provide_event_bus_def publish_logged_def by (auto intro!: pf_rules split: sum.split)
qed

section \<open>The value of a message\<close>

text \<open>What the HTTP handlers assert of the value of a command or a query.\<close>

definition gives :: "('a \<Rightarrow> bool) \<Rightarrow> ('s, 'e, 'a) op \<Rightarrow> bool" where
  "gives P m \<longleftrightarrow> (\<forall>s. case fst (m s) of Ok v \<Rightarrow> P v | Err e \<Rightarrow> True | Panic p \<Rightarrow> False)"

fun fits_command :: "command \<Rightarrow> reply_value \<Rightarrow> bool" where
  "fits_command (RegisterUserCommand _ _ _) v = (\<exists>u. v = UserReply u)"
| "fits_command (CreateUserCommand _ _ _) v = (\<exists>u. v = UserReply u)"
| "fits_command (UpdateUserCommand _ _ _ _) v = (\<exists>u. v = UserReply u)"
| "fits_command (GenerateTokensCommand _ _) v = (\<exists>t. v = TokensReply t)"
| "fits_command (RefreshTokenCommand _ _) v = (\<exists>t. v = TokensReply t)"
| "fits_command _ v = True"

fun fits_query :: "query \<Rightarrow> reply_value \<Rightarrow> bool" where
  "fits_query (ListTodosQuery _ _) v = (\<exists>pg n. v = TodosReply pg n)"
| "fits_query (SearchTodosQuery _ _ _) v = (\<exists>pg n. v = TodosReply pg n)"
| "fits_query (LoginQuery _ _) v = (\<exists>u. v = UserReply u)"
| "fits_query (GetUserQuery _) v = (\<exists>u. v = UserReply u)"
| "fits_query (ListUsersQuery _ _) v = (\<exists>pg n. v = UsersReply pg n)"
| "fits_query (ListRolesQuery _ _) v = (\<exists>pg. v = RolesReply pg)"
| "fits_query (ListPermissionsQuery _ _) v = (\<exists>pg. v = PermissionsReply pg)"
| "fits_query (ListTenantsQuery _ _) v = (\<exists>ts pg n. v = TenantsReply ts pg n)"
| "fits_query _ v = True"

lemma gives_replyM: "panic_free m \<Longrightarrow> (\<And>x. P (f x)) \<Longrightarrow> gives P (replyM f m)"
  unfolding gives_def replyM_def bindM_def retM_def panic_free_def
  by (auto split: prod.splits outcome.splits) (metis fst_conv)

lemma gives_any: "panic_free m \<Longrightarrow> gives (\<lambda>_. True) m"
  by (auto simp: gives_def panic_free_def split: outcome.splits)

lemma panic_free_replyM: "panic_free (replyM f m) \<Longrightarrow> panic_free m"
  unfolding panic_free_def replyM_def bindM_def retM_def
  by (auto split: prod.splits outcome.splits) (metis fst_conv prod.collapse)

lemma run_command_fits:
  assumes "\<And>ev. panic_free (ap_publish A ev)" "own_code cmd"
  shows "gives (fits_command cmd) (run_command A cx cmd)"
proof -
  have "panic_free (run_command A cx cmd)" using assms by (rule pf_run_command)
  then show ?thesis
    by - (cases cmd; simp only: run_command.simps; rule gives_replyM; (erule panic_free_replyM | simp))
qed

lemma run_query_fits:
  assumes "fair_limit q"
  shows "gives (fits_query q) (run_query A cx q)"
proof -
  have "panic_free (run_query A cx q)" using assms by (rule pf_run_query)
  then show ?thesis
    by - (cases q; simp only: run_query.simps; rule gives_replyM; (erule panic_free_replyM | simp split: prod.split))
qed

end
