(* ===== verification/Api_Answers.thy ===== *)
theory Api_Answers
  imports Api_Access Panic_Free
begin

text \<open>
  Every request that reaches a handler of the API is answered, once: the handler returns without a panic,
  it has called \<open>WriteHeader\<close> with one status, and what it wrote is one envelope whose \<open>success\<close> agrees
  with the status. What the handlers need of the buses is a locale, interpreted on those of the service.
\<close>

section \<open>Answers\<close>

text \<open>The statuses of the API: an error has one of the last six, and then there is no data.\<close>

definition proper :: "int \<Rightarrow> api_response \<Rightarrow> bool" where
  "proper st a \<longleftrightarrow> (if ar_success a then st \<in> {200, 201} \<and> ar_error a = None \<and> ar_stack a = ''''
     else st \<in> {400, 401, 403, 404, 409, 500} \<and> ar_error a \<noteq> None \<and> ar_data a = Nil \<and> ar_meta a = Nil)"

definition body_of :: "json option \<Rightarrow> string" where
  "body_of v = (case v of None \<Rightarrow> [] | Some j \<Rightarrow> json_text j @ newline)"

text \<open>What one call of \<open>RespondJSON\<close> makes of the response.\<close>

definition envelope :: "int \<Rightarrow> api_response \<Rightarrow> response \<Rightarrow> response" where
  "envelope st a s = (case api_json a of None \<Rightarrow> id | Some j \<Rightarrow> do_write (json_text j @ newline))
     (do_write_header st (do_set_header ''Content-Type'' ''application/json'' s))"

definition answers :: "(exchange, unit) gop \<Rightarrow> bool" where
  "answers m \<longleftrightarrow> (\<forall>x. \<exists>st a w. proper st a \<and> m x = (Ok (), x\<lparr>xc_world := w, xc_resp := envelope st a (xc_resp x)\<rparr>))"

named_theorems answer_rules \<open>introduction rules for operations that answer once\<close>

lemma envelope_fresh:
  assumes "rs_codes s = []" "rs_body s = []" "rs_sent s = None"
  shows "rs_codes (envelope st a s) = [st]" "rs_body (envelope st a s) = body_of (api_json a)"
    "rs_sent (envelope st a s) = Some (st, (rs_header s)(''Content-Type'' \<mapsto> ''application/json''))"
  using assms
  by (simp_all add: envelope_def body_of_def do_write_def do_write_header_def do_set_header_def send_status_def
      split: option.split)

lemma answers_json [answer_rules]:
  assumes "proper st a"
  shows "answers (respond_json st (api_json a))"
  unfolding answers_def
proof
  fix x :: exchange
  have "respond_json st (api_json a) x = (Ok (), x\<lparr>xc_world := xc_world x, xc_resp := envelope st a (xc_resp x)\<rparr>)"
    by (simp add: respond_json_def set_header_def write_header_def encode_to_def write_body_def writerM_def op_defs
        envelope_def split: option.split)
  then show "\<exists>st' a' w. proper st' a' \<and>
      respond_json st (api_json a) x = (Ok (), x\<lparr>xc_world := w, xc_resp := envelope st' a' (xc_resp x)\<rparr>)"
    using assms by blast
qed

lemma answers_responses [answer_rules]:
  "answers (respond_success d)" "answers (respond_created d)" "answers (respond_bad_request msg)"
  "answers (respond_unauthorized msg)" "answers (respond_forbidden ec msg)" "answers (respond_not_found msg)"
  "answers (respond_conflict msg)" "answers (respond_internal_error msg)"
  "answers (respond_error 401 ec msg)" "answers (respond_error 500 ec msg)"
  "answers (respond_cursor_paginated d n p hn hp l)" "answers (respond_page d pg l)"
  unfolding respond_success_def respond_created_def respond_error_def respond_bad_request_def respond_page_def
    respond_unauthorized_def respond_forbidden_def respond_not_found_def respond_conflict_def
    respond_internal_error_def respond_cursor_paginated_def
  by (rule answers_json; simp add: proper_def success_response_def error_response_def)+

lemma answers_internal [answer_rules]: "answers (respond_internal_from_request E r msg)"
  unfolding respond_internal_from_request_def
  by (auto intro!: answer_rules simp: proper_def error_response_def)

text \<open>Work on the world comes before the answer.\<close>

lemma answers_after:
  assumes "\<And>w. case fst (m w) of Ok v \<Rightarrow> answers (f v) | Err e \<Rightarrow> answers (g e) | Panic p \<Rightarrow> False"
  shows "answers (tryM (worldM m) (\<lambda>r. case r of Inl e \<Rightarrow> g e | Inr v \<Rightarrow> f v))"
  unfolding answers_def
proof
  fix x :: exchange
  obtain o1 w1 where m: "m (xc_world x) = (o1, w1)" by (cases "m (xc_world x)")
  let ?x = "x\<lparr>xc_world := w1\<rparr>"
  have "\<exists>n. answers n \<and> tryM (worldM m) (\<lambda>r. case r of Inl e \<Rightarrow> g e | Inr v \<Rightarrow> f v) x = n ?x"
    using assms [of "xc_world x"] m by (cases o1) (auto simp: tryM_def worldM_def)
  then obtain n where n: "answers n" "tryM (worldM m) (\<lambda>r. case r of Inl e \<Rightarrow> g e | Inr v \<Rightarrow> f v) x = n ?x" by blast
  from n(1) obtain st a w where "proper st a"
    "n ?x = (Ok (), ?x\<lparr>xc_world := w, xc_resp := envelope st a (xc_resp ?x)\<rparr>)" unfolding answers_def by blast
  then show "\<exists>st a w. proper st a \<and> tryM (worldM m) (\<lambda>r. case r of Inl e \<Rightarrow> g e | Inr v \<Rightarrow> f v) x =
      (Ok (), x\<lparr>xc_world := w, xc_resp := envelope st a (xc_resp x)\<rparr>)"
    by (simp only: n(2)) (intro exI [of _ st] exI [of _ a] exI [of _ w]; simp)
qed

lemma answers_spanM [answer_rules]: "answers m \<Longrightarrow> answers (bindM (worldM (spanM h)) (\<lambda>_. m))"
proof -
  assume "answers m"
  then have "answers (tryM (worldM (spanM h)) (\<lambda>r. case r of Inl e \<Rightarrow> errM e | Inr v \<Rightarrow> m))"
    by (intro answers_after) (simp add: op_defs)
  moreover have "tryM (worldM (spanM h)) (\<lambda>r. case r of Inl e \<Rightarrow> errM e | Inr v \<Rightarrow> m) = bindM (worldM (spanM h)) (\<lambda>_. m)"
    by (rule ext) (simp add: op_defs worldM_def)
  ultimately show ?thesis by simp
qed

lemma answers_if [answer_rules]: "(b \<Longrightarrow> answers m) \<Longrightarrow> (\<not> b \<Longrightarrow> answers n) \<Longrightarrow> answers (if b then m else n)"
  by simp

lemma answers_case [answer_rules]:
  "(x = None \<Longrightarrow> answers m) \<Longrightarrow> (\<And>a. x = Some a \<Longrightarrow> answers (f a)) \<Longrightarrow> answers (case x of None \<Rightarrow> m | Some a \<Rightarrow> f a)"
  "(\<And>a b. p = (a, b) \<Longrightarrow> answers (g a b)) \<Longrightarrow> answers (case p of (a, b) \<Rightarrow> g a b)"
  by (cases x; simp) (cases p; simp)

lemma answers_errors [answer_rules]: "answers (map_error_from_request E r e)"
  unfolding map_error_from_request_def by (intro answer_rules)

lemma answers_handle [answer_rules]:
  "answers (handle_any E r d err)" "answers (handle_created E r d err)" "answers (handle_no_content E r err)"
  unfolding handle_any_def handle_created_def handle_no_content_def by (intro answer_rules)+

lemma answers_body [answer_rules]:
  "(\<And>a. answers (f a)) \<Longrightarrow> answers (with_body r rd f)" "answers m \<Longrightarrow> answers (validated_then L fs m)"
  "(\<And>i. answers (g i)) \<Longrightarrow> answers (with_uuid_param L r name msg g)"
  unfolding with_body_def validated_then_def with_uuid_param_def by (intro answer_rules; assumption)+

text \<open>The value of a call is of the kind that is asserted.\<close>

lemma answers_assertion [answer_rules]:
  "\<exists>pg l. resp = TodosReply pg l \<Longrightarrow> (\<And>pg l. answers (f pg l)) \<Longrightarrow>
     answers (case resp of TodosReply pg l \<Rightarrow> f pg l | _ \<Rightarrow> failed_assertion)"
  "\<exists>pg l. resp = UsersReply pg l \<Longrightarrow> (\<And>pg l. answers (g pg l)) \<Longrightarrow>
     answers (case resp of UsersReply pg l \<Rightarrow> g pg l | _ \<Rightarrow> failed_assertion)"
  "\<exists>u. resp = UserReply u \<Longrightarrow> (\<And>u. answers (h u)) \<Longrightarrow>
     answers (case resp of UserReply u \<Rightarrow> h u | _ \<Rightarrow> failed_assertion)"
  "\<exists>t. resp = TokensReply t \<Longrightarrow> (\<And>t. answers (k t)) \<Longrightarrow>
     answers (case resp of TokensReply t \<Rightarrow> k t | _ \<Rightarrow> failed_assertion)"
  "\<exists>pg. resp = RolesReply pg \<Longrightarrow> (\<And>pg. answers (q pg)) \<Longrightarrow>
     answers (case resp of RolesReply pg \<Rightarrow> q pg | _ \<Rightarrow> failed_assertion)"
  "\<exists>pg. resp = PermissionsReply pg \<Longrightarrow> (\<And>pg. answers (p pg)) \<Longrightarrow>
     answers (case resp of PermissionsReply pg \<Rightarrow> p pg | _ \<Rightarrow> failed_assertion)"
  "\<exists>ts pg l. resp = TenantsReply ts pg l \<Longrightarrow> (\<And>ts pg l. answers (t ts pg l)) \<Longrightarrow>
     answers (case resp of TenantsReply ts pg l \<Rightarrow> t ts pg l | _ \<Rightarrow> failed_assertion)"
  by auto

lemma answers_replies [answer_rules]:
  "\<exists>u. resp = UserReply u \<Longrightarrow> (\<And>d. answers (f d)) \<Longrightarrow> answers (user_reply W f resp)"
  "answers m \<Longrightarrow> answers (tenant_answer W r m err)"
  unfolding user_reply_def tenant_answer_def by (intro answer_rules; assumption)+

lemma limit_param_range [simp]: "0 \<le> limit_param r"
  by (simp add: limit_param_def Let_def split: option.split)

section \<open>The handlers\<close>

text \<open>The buses end every message of the service, with a value of the kind its handler asserts.\<close>

locale typed_buses =
  fixes W :: web_env and ready :: bool
  assumes commands: "ready \<Longrightarrow> own_code cmd \<Longrightarrow> gives (fits_command cmd) (dispatch (we_commands W) cx cmd)"
    and queries: "ready \<Longrightarrow> fair_limit q \<Longrightarrow> gives (fits_query q) (ask (we_queries W) cx q)"
begin

lemma answers_dispatch:
  assumes "ready" "own_code cmd" "\<And>e. answers (f NilReply (Some e))" "\<And>v. fits_command cmd v \<Longrightarrow> answers (f v None)"
  shows "answers (dispatchM W r cmd f)"
  unfolding dispatchM_def resultM_def
  using commands [OF assms(1,2), of "rq_ctx r"] assms(3,4)
  by (intro answers_after) (auto simp: gives_def split: outcome.split_asm outcome.split)

lemma answers_ask:
  assumes "ready" "fair_limit q" "\<And>e. answers (f NilReply (Some e))" "\<And>v. fits_query q v \<Longrightarrow> answers (f v None)"
  shows "answers (askM W r q f)"
  unfolding askM_def resultM_def
  using queries [OF assms(1,2), of "rq_ctx r"] assms(3,4)
  by (intro answers_after) (auto simp: gives_def split: outcome.split_asm outcome.split)

lemma todo_answers:
  assumes ready
  shows "answers (http_create_todo W r)" "answers (http_list_todos W r)" "answers (http_get_todo W r)"
    "answers (http_update_todo W r)" "answers (http_delete_todo W r)" "answers (http_complete_todo W r)"
    "answers (http_search_todos W r)"
  unfolding http_create_todo_def http_list_todos_def http_get_todo_def http_update_todo_def http_delete_todo_def
    http_complete_todo_def http_search_todos_def Let_def
  by (intro answer_rules answers_dispatch answers_ask assms; simp)+

lemma auth_answers:
  assumes ready
  shows "answers (http_register W r)" "answers (http_login W r)" "answers (http_refresh_token W r)"
    "answers (http_logout W r)" "answers (http_logout_all W r)" "answers (http_auth_me W r)"
    "answers (http_verify_email W r)" "answers (http_forgot_password W r)" "answers (http_reset_password W r)"
    "answers (http_resend_verification W r)"
  unfolding http_register_def http_login_def http_refresh_token_def http_logout_def http_logout_all_def
    http_auth_me_def http_verify_email_def http_forgot_password_def http_reset_password_def
    http_resend_verification_def login_error_def Let_def
  by ((intro answer_rules answers_dispatch answers_ask assms)?; simp)+

lemma authz_answers:
  assumes ready
  shows "answers (http_create_role W r)" "answers (http_list_roles W r)" "answers (http_get_role W r)"
    "answers (http_update_role W r)" "answers (http_delete_role W r)" "answers (http_create_permission W r)"
    "answers (http_list_permissions W r)" "answers (http_get_permission W r)" "answers (http_update_permission W r)"
    "answers (http_delete_permission W r)" "answers (http_assign_role W r)" "answers (http_remove_role W r)"
    "answers (http_get_user_roles W r)" "answers (http_assign_permission W r)" "answers (http_remove_permission W r)"
    "answers (http_get_role_permissions W r)" "answers (http_check_permission W r)"
  unfolding http_create_role_def http_list_roles_def http_get_role_def http_update_role_def http_delete_role_def
    http_create_permission_def http_list_permissions_def http_get_permission_def http_update_permission_def
    http_delete_permission_def http_assign_role_def http_remove_role_def http_get_user_roles_def
    http_assign_permission_def http_remove_permission_def http_get_role_permissions_def http_check_permission_def Let_def
  by ((intro answer_rules answers_dispatch answers_ask assms)?; simp)+

lemma user_tenant_answers:
  assumes ready
  shows "answers (http_list_users W r)" "answers (http_create_user W r)" "answers (http_get_user W r)"
    "answers (http_update_user W r)" "answers (http_delete_user W r)" "answers (http_create_tenant W r)"
    "answers (http_list_tenants W r)" "answers (http_get_tenant W r)" "answers (http_update_tenant W r)"
    "answers (http_delete_tenant W r)"
  unfolding http_list_users_def http_create_user_def http_get_user_def http_update_user_def
    http_delete_user_def http_create_tenant_def http_list_tenants_def http_get_tenant_def http_update_tenant_def
    http_delete_tenant_def Let_def
  by ((intro answer_rules answers_dispatch answers_ask assms)?; simp)+

lemmas handlers_answer = todo_answers auth_answers authz_answers user_tenant_answers

end

interpretation main_replies: typed_buses "main_web K cfg" "calm_mail (ln_mail K)" for K cfg
  by unfold_locales
    (simp_all add: main_web_def app_dispatch app_ask run_query_fits run_command_fits main_env_def pf_event_bus)


section \<open>The API\<close>

text \<open>The endpoints of the authentication router; the last two are behind the authentication as well.\<close>

definition auth_operations :: "web_env \<Rightarrow> ((string option \<times> string) \<times> http_handler) list" where
  "auth_operations W =
     [((Some ''POST'', ''/auth/register''), http_register W), ((Some ''POST'', ''/auth/login''), http_login W),
      ((Some ''POST'', ''/auth/refresh''), http_refresh_token W), ((Some ''POST'', ''/auth/logout''), http_logout W),
      ((Some ''GET'', ''/auth/verify-email''), http_verify_email W),
      ((Some ''POST'', ''/auth/forgot-password''), http_forgot_password W),
      ((Some ''POST'', ''/auth/reset-password''), http_reset_password W),
      ((Some ''POST'', ''/auth/resend-verification''), http_resend_verification W),
      ((Some ''POST'', ''/auth/logout-all''), http_logout_all W), ((Some ''GET'', ''/auth/me''), http_auth_me W)]"

lemma auth_operations_listed:
  "routes ''/auth'' (auth_router W auth) =
     map (\<lambda>(n, h). (n, if n \<in> {(Some ''POST'', ''/auth/logout-all''), (Some ''GET'', ''/auth/me'')} then auth h else h))
       (auth_operations W)"
  by (simp add: auth_router_def auth_operations_def router_defs)

lemma operation_answers:
  assumes "calm_mail (ln_mail K)" and "(n, h) \<in> set (operations (main_web K cfg) @ auth_operations (main_web K cfg))"
    and "n \<noteq> (Some ''GET'', ''/users/me'')"
  shows "answers (h r)"
proof -
  note a = main_replies.handlers_answer [OF assms(1)]
  show ?thesis
    using assms(2,3)
    unfolding operations_def auth_operations_def append.simps list.set insert_iff empty_iff prod.inject simp_thms
    by - (elim disjE conjE; hypsubst+; (rule a | (erule notE, rule refl)))
qed

text \<open>
  C5: every request that reaches a handler of the API is answered exactly once, whatever the request, the tables, Redis and
  the faults of the outside calls are: unless a call of the mail library panics, the handler returns without a panic,
  it has called \<open>WriteHeader\<close> once, with one of the statuses of the API, and has written one envelope, in which
  \<open>success\<close>, the error and the absence of data agree with the status. The exception is \<open>GET /users/me\<close>.
\<close>

theorem api_answers:
  assumes "calm_mail (ln_mail K)" and "(n, h) \<in> set (operations (main_web K cfg) @ auth_operations (main_web K cfg))"
    and "n \<noteq> (Some ''GET'', ''/users/me'')"
    and "rs_codes (xc_resp x) = []" "rs_body (xc_resp x) = []" "rs_sent (xc_resp x) = None"
  shows "\<exists>st a w s. h r x = (Ok (), x\<lparr>xc_world := w, xc_resp := s\<rparr>) \<and> proper st a \<and> rs_codes s = [st] \<and>
    rs_body s = body_of (api_json a) \<and> rs_sent s = Some (st, (rs_header (xc_resp x))(''Content-Type'' \<mapsto> ''application/json''))"
proof -
  obtain st a w where "proper st a" "h r x = (Ok (), x\<lparr>xc_world := w, xc_resp := envelope st a (xc_resp x)\<rparr>)"
    using operation_answers [OF assms(1-3), of r] unfolding answers_def by blast
  then show ?thesis using envelope_fresh [OF assms(4-6)] by blast
qed

lemma calm_silent: "calm_mail silent_mail"
  by (simp add: calm_mail_def silent_mail_def pf_basic)

text \<open>A registration for which every call fails: the lookup counts as no such user, the rest is a 500.\<close>

lemma api_answers_witness:
  "\<forall>c b fs. \<exists>st a w s. http_register (main_web toy_linkage (set_defaults c)) ((bare_request ''POST'')\<lparr>rq_body := b\<rparr>)
       \<lparr>xc_world = init_world\<lparr>faults := fs\<rparr>, xc_resp = new_response (\<lambda>_. None)\<rparr> =
     (Ok (), \<lparr>xc_world = w, xc_resp = s\<rparr>) \<and> proper st a \<and> rs_codes s = [st] \<and> rs_body s = body_of (api_json a)"
proof (intro allI)
  fix c b fs
  let ?x = "\<lparr>xc_world = init_world\<lparr>faults := fs\<rparr>, xc_resp = new_response (\<lambda>_. None)\<rparr>"
  let ?W = "main_web toy_linkage (set_defaults c)"
  have "calm_mail (ln_mail toy_linkage)" by (simp add: toy_linkage_def calm_silent)
  moreover have "((Some ''POST'', ''/auth/register''), http_register ?W) \<in> set (operations ?W @ auth_operations ?W)"
    by (simp add: auth_operations_def)
  moreover have "(Some ''POST'', ''/auth/register'') \<noteq> (Some ''GET'', ''/users/me'')" by simp
  moreover have "rs_codes (xc_resp ?x) = []" "rs_body (xc_resp ?x) = []" "rs_sent (xc_resp ?x) = None"
    by (simp_all add: new_response_def)
  ultimately have "\<exists>st a w s. http_register ?W ((bare_request ''POST'')\<lparr>rq_body := b\<rparr>) ?x = (Ok (), ?x\<lparr>xc_world := w, xc_resp := s\<rparr>) \<and>
      proper st a \<and> rs_codes s = [st] \<and> rs_body s = body_of (api_json a) \<and>
      rs_sent s = Some (st, (rs_header (xc_resp ?x))(''Content-Type'' \<mapsto> ''application/json''))"
    by (rule api_answers)
  then show "\<exists>st a w s. http_register ?W ((bare_request ''POST'')\<lparr>rq_body := b\<rparr>) ?x =
     (Ok (), \<lparr>xc_world = w, xc_resp = s\<rparr>) \<and> proper st a \<and> rs_codes s = [st] \<and> rs_body s = body_of (api_json a)"
    by auto
qed

text \<open>The profile endpoint dereferences nil for every user whose token is valid.\<close>

lemma user_me_panics:
  assumes "get_user_id (rq_ctx r) \<noteq> ''''" "uuid_parse (we_libs W) (get_user_id (rq_ctx r)) = Some i"
  shows "fst (http_user_me W r x) = Panic ''runtime error: invalid memory address or nil pointer dereference''"
  using assms by (simp add: http_user_me_def panicM_def)

end
