(* ===== verification/Nats_Debug.thy ===== *)
theory Nats_Debug
  imports Http_Core
begin

text \<open>
  The debug endpoint of the NATS messenger (\<open>internal/infrastructure/messaging/debug.go\<close>): a ring buffer of
  the last messages and the handler that shows them. The contract of such a buffer is a locale; the ring
  buffer is its interpretation.
\<close>

section \<open>The contract of a buffer of recent entries\<close>

text \<open>Adding a sequence; no value stands for a panic.\<close>

fun add_all :: "('e \<Rightarrow> 'b \<Rightarrow> 'b option) \<Rightarrow> 'e list \<Rightarrow> 'b \<Rightarrow> 'b option" where
  "add_all add [] b = Some b"
| "add_all add (e # es) b = Option.bind (add e b) (add_all add es)"

lemma take_take_append: "take n (xs @ take n ys) = take n (xs @ ys)"
  by (simp add: min_def)

locale recent_entries =
  fixes valid :: "'b \<Rightarrow> bool"
    and add :: "'e \<Rightarrow> 'b \<Rightarrow> 'b option"
    and entries :: "'b \<Rightarrow> 'e list"
    and room :: nat
  assumes added: "valid b \<Longrightarrow> \<exists>b'. add e b = Some b' \<and> valid b' \<and> entries b' = take room (e # entries b)"
begin

lemma all_added:
  "valid b \<Longrightarrow> length (entries b) \<le> room \<Longrightarrow>
     \<exists>b'. add_all add es b = Some b' \<and> valid b' \<and> entries b' = take room (rev es @ entries b)"
proof (induction es arbitrary: b)
  case Nil
  then show ?case by simp
next
  case (Cons e es)
  obtain b1 where b1: "add e b = Some b1" "valid b1" "entries b1 = take room (e # entries b)"
    using added [OF Cons.prems(1)] by blast
  have "length (entries b1) \<le> room" by (simp add: b1(3))
  then show ?case
    using Cons.IH [OF b1(2)] b1(1) by (simp add: b1(3) take_take_append)
qed

end

section \<open>The ring buffer\<close>

record debug_entry =
  de_subject :: string
  de_timestamp :: int
  de_payload :: string

definition zero_entry :: debug_entry where
  "zero_entry = \<lparr>de_subject = '''', de_timestamp = 0, de_payload = ''''\<rparr>"

record debug_buffer =
  bf_buf :: "debug_entry list"
  bf_cap :: nat
  bf_next :: nat
  bf_full :: bool

definition new_debug_buffer :: "nat \<Rightarrow> debug_buffer" where
  "new_debug_buffer capacity =
     \<lparr>bf_buf = replicate capacity zero_entry, bf_cap = capacity, bf_next = 0, bf_full = False\<rparr>"

definition debug_entry_of :: "time \<Rightarrow> string \<Rightarrow> string \<Rightarrow> debug_entry" where
  "debug_entry_of now subject data =
     \<lparr>de_subject = subject, de_timestamp = now div 1000000,
      de_payload = (if 1024 < length data then take 1024 data else data)\<rparr>"

definition debug_append :: "debug_entry \<Rightarrow> debug_buffer \<Rightarrow> debug_buffer option" where
  "debug_append e b =
     (if bf_next b < length (bf_buf b) then
        (let n = (bf_next b + 1) mod bf_cap b in
         Some (b\<lparr>bf_buf := (bf_buf b)[bf_next b := e], bf_next := n, bf_full := (n = 0 \<or> bf_full b)\<rparr>))
      else None)"

text \<open>The loop at the end of \<open>read\<close> swaps from both ends.\<close>

function swap_ends :: "nat \<Rightarrow> nat \<Rightarrow> 'a list \<Rightarrow> 'a list" where
  "swap_ends i j xs = (if i < j then swap_ends (i + 1) (j - 1) (xs[i := xs ! j, j := xs ! i]) else xs)"
  by pat_completeness auto
termination by (relation "measure (\<lambda>(i, j, xs). j - i)") auto

declare swap_ends.simps [simp del]

definition debug_read :: "debug_buffer \<Rightarrow> debug_entry list" where
  "debug_read b =
     (let count = (if bf_full b then bf_cap b else bf_next b);
          start = (if bf_full b then bf_next b else 0);
          entries = map (\<lambda>i. bf_buf b ! ((start + i) mod bf_cap b)) [0..<count]
      in swap_ends 0 (length entries - 1) entries)"

section \<open>The endpoint\<close>

definition http_not_found :: http_handler where
  "http_not_found r = bindM (set_header ''Content-Type'' ''text/plain; charset=utf-8'') (\<lambda>_.
     bindM (set_header ''X-Content-Type-Options'' ''nosniff'') (\<lambda>_.
     bindM (write_header 404) (\<lambda>_. write_body (''404 page not found'' @ newline))))"

definition debug_entry_json :: "debug_entry \<Rightarrow> json" where
  "debug_entry_json e = JObj [(''subject'', JStr (de_subject e)), (''timestamp'', JNum (itoa (de_timestamp e))),
     (''payload'', JStr (de_payload e))]"

definition http_debug_nats :: "debug_buffer option \<Rightarrow> http_handler" where
  "http_debug_nats buffer r = (case buffer of
      None \<Rightarrow> http_not_found r
    | Some b \<Rightarrow> bindM (set_header ''Content-Type'' ''application/json'') (\<lambda>_.
        encode_to (Some (JArr (map debug_entry_json (debug_read b))))))"

section \<open>The ring buffer keeps the most recent entries\<close>

lemma swap_ends_nth:
  "j < length xs \<Longrightarrow> length (swap_ends i j xs) = length xs \<and> (\<forall>k < length xs.
     swap_ends i j xs ! k = (if i \<le> k \<and> k \<le> j then xs ! (i + j - k) else xs ! k))"
proof (induction i j xs rule: swap_ends.induct)
  case (1 i j xs)
  show ?case
  proof (cases "i < j")
    case False
    have "xs ! (i + j - k) = xs ! k" if "i \<le> k" "k \<le> j" for k
    proof -
      have "i + j - k = k" using that False by simp
      then show ?thesis by simp
    qed
    then show ?thesis using False by (simp add: swap_ends.simps [of i j xs])
  next
    case True
    let ?ys = "xs[i := xs ! j, j := xs ! i]"
    have step: "swap_ends i j xs = swap_ends (i + 1) (j - 1) ?ys" using True by (simp add: swap_ends.simps [of i j xs])
    have IH: "length (swap_ends (i + 1) (j - 1) ?ys) = length xs \<and> (\<forall>k < length xs.
        swap_ends (i + 1) (j - 1) ?ys ! k = (if i + 1 \<le> k \<and> k \<le> j - 1 then ?ys ! (i + 1 + (j - 1) - k) else ?ys ! k))"
      using 1(1) [OF True] 1(2) True by simp
    show ?thesis unfolding step
    proof (intro conjI allI impI)
      fix k assume k: "k < length xs"
      show "swap_ends (i + 1) (j - 1) ?ys ! k = (if i \<le> k \<and> k \<le> j then xs ! (i + j - k) else xs ! k)"
      proof (cases "k = i \<or> k = j")
        case True
        then show ?thesis using IH k \<open>i < j\<close> 1(2) by (auto simp: nth_list_update)
      next
        case False
        have "i + 1 + (j - 1) - k = i + j - k" using \<open>i < j\<close> by simp
        then show ?thesis using IH k \<open>i < j\<close> 1(2) False by (auto simp: nth_list_update)
      qed
    qed (use IH in blast)
  qed
qed

lemma swap_ends_rev: "swap_ends 0 (length xs - 1) xs = rev xs"
proof (cases "xs = []")
  case True
  then show ?thesis by (simp add: swap_ends.simps)
next
  case False
  then have "length xs - 1 < length xs" by simp
  note nth = swap_ends_nth [OF this, of 0]
  show ?thesis by (rule nth_equalityI) (use nth in \<open>auto simp: rev_nth\<close>)
qed

definition ring_ok :: "nat \<Rightarrow> debug_buffer \<Rightarrow> bool" where
  "ring_ok n b \<longleftrightarrow> 0 < n \<and> bf_cap b = n \<and> length (bf_buf b) = n \<and> bf_next b < n"

lemma debug_read_rotate:
  assumes "ring_ok n b"
  shows "debug_read b = rev (if bf_full b then rotate (bf_next b) (bf_buf b) else take (bf_next b) (bf_buf b))"
proof -
  have "map (\<lambda>i. bf_buf b ! ((bf_next b + i) mod bf_cap b)) [0..<bf_cap b] = rotate (bf_next b) (bf_buf b)"
    using assms by (intro nth_equalityI) (auto simp: ring_ok_def nth_rotate)
  moreover have "map (\<lambda>i. bf_buf b ! ((0 + i) mod bf_cap b)) [0..<bf_next b] = take (bf_next b) (bf_buf b)"
    using assms by (intro nth_equalityI) (auto simp: ring_ok_def)
  ultimately have "debug_read b =
      (let es = (if bf_full b then rotate (bf_next b) (bf_buf b) else take (bf_next b) (bf_buf b))
       in swap_ends 0 (length es - 1) es)"
    using assms by (cases "bf_full b") (simp_all add: debug_read_def Let_def ring_ok_def)
  then show ?thesis by (simp only: Let_def swap_ends_rev)
qed

lemma rotate_overwrite:
  assumes "k < length xs"
  shows "rotate (Suc k mod length xs) (xs[k := e]) = tl (rotate k xs) @ [e]"
proof -
  have "xs = take k xs @ xs ! k # drop (Suc k) xs" using assms by (rule id_take_nth_drop)
  then obtain ys z zs where xs: "xs = ys @ z # zs" and k: "k = length ys" using assms by (metis length_take less_imp_le min.absorb2)
  show ?thesis unfolding xs k by (cases zs) (simp_all add: rotate_drop_take)
qed

lemma ring_step:
  assumes "ring_ok n b"
  shows "\<exists>b'. debug_append e b = Some b' \<and> ring_ok n b' \<and> debug_read b' = take n (e # debug_read b)"
proof -
  let ?k = "bf_next b" and ?xs = "bf_buf b"
  define b' where "b' = b\<lparr>bf_buf := ?xs[?k := e], bf_next := Suc ?k mod n, bf_full := (Suc ?k mod n = 0 \<or> bf_full b)\<rparr>"
  have ok: "?k < n" "length ?xs = n" "bf_cap b = n" "0 < n" using assms by (auto simp: ring_ok_def)
  have run: "debug_append e b = Some b'" and ok': "ring_ok n b'"
    using ok by (simp_all add: debug_append_def b'_def ring_ok_def Let_def)
  have read': "debug_read b' = rev (if Suc ?k mod n = 0 \<or> bf_full b then rotate (Suc ?k mod n) (?xs[?k := e])
      else take (Suc ?k mod n) (?xs[?k := e]))"
    unfolding debug_read_rotate [OF ok'] by (simp add: b'_def)
  have "debug_read b' = take n (e # debug_read b)"
  proof (cases "bf_full b")
    case True
    have "take n (e # rev (rotate ?k ?xs)) = e # rev (tl (rotate ?k ?xs))"
      using ok by (cases n) (simp_all add: take_rev drop_Suc)
    then show ?thesis
      using True rotate_overwrite [of ?k ?xs e] ok
      by (simp add: debug_read_rotate [OF assms] read')
  next
    case False
    have all: "take n (e # rev (take ?k ?xs)) = e # rev (take ?k ?xs)" using ok by simp
    show ?thesis
    proof (cases "Suc ?k = n")
      case True
      have "?xs[?k := e] = take ?k ?xs @ [e]" using ok True by (simp add: upd_conv_take_nth_drop)
      then show ?thesis using False True all
        by (simp add: debug_read_rotate [OF assms] read')
    next
      case last: False
      then have "Suc ?k mod n = Suc ?k" using ok by simp
      then show ?thesis using False all ok
        by (simp add: debug_read_rotate [OF assms] read' take_Suc_conv_app_nth)
    qed
  qed
  then show ?thesis using run ok' by blast
qed

interpretation ring: recent_entries "ring_ok n" debug_append debug_read n for n
  by unfold_locales (rule ring_step)

lemma new_ring:
  "0 < n \<Longrightarrow> ring_ok n (new_debug_buffer n)" "0 < n \<Longrightarrow> debug_read (new_debug_buffer n) = []"
  "debug_append e (new_debug_buffer 0) = None"
  by (simp_all add: new_debug_buffer_def ring_ok_def debug_read_rotate debug_append_def)

text \<open>
  C35: the ring buffer refines a list: after any sequence of messages the debug endpoint has exactly the
  last \<open>capacity\<close> of them, newest first, and no write is ever out of range. A buffer without room panics
  on the first message.
\<close>

theorem debug_buffer_refines:
  "0 < capacity \<Longrightarrow> \<exists>b. add_all debug_append es (new_debug_buffer capacity) = Some b \<and>
     debug_read b = take capacity (rev es) \<and> debug_append e (new_debug_buffer 0) = None"
  using ring.all_added [of capacity "new_debug_buffer capacity" es] new_ring(1,2) [where n = capacity] new_ring(3) by auto

lemma debug_buffer_refines_witness:
  "\<exists>b. add_all debug_append [debug_entry_of 1 ''a'' '''', debug_entry_of 2 ''b'' '''', debug_entry_of 3 ''c'' '''']
      (new_debug_buffer 2) = Some b \<and>
    debug_read b = [debug_entry_of 3 ''c'' '''', debug_entry_of 2 ''b'' '''']"
  using debug_buffer_refines [of 2 "[debug_entry_of 1 ''a'' '''', debug_entry_of 2 ''b'' '''', debug_entry_of 3 ''c'' '''']"]
  by auto

end
