(* ===== verification/Platform.thy ===== *)
theory Platform
  imports Nats_Debug Router
begin

text \<open>
  The parts of the platform that the modules do not go through, or only as a parameter: the NATS messenger
  (\<open>internal/infrastructure/messaging/nats.go\<close>), the recorder of metrics
  (\<open>internal/monitoring/infrastructure/prometheus\<close>), the transaction manager
  (\<open>internal/shared/transaction\<close>) and the settings of the logger (\<open>internal/infrastructure/logger\<close>).
\<close>

section \<open>The messenger\<close>

text \<open>The client library; its connection is a parameter.\<close>

record nats_lib =
  nl_connect :: "string \<Rightarrow> (world, unit) gop"
  nl_jetstream :: "(world, unit) gop"
  nl_publish :: "string \<Rightarrow> string \<Rightarrow> (world, unit) gop"
  nl_subscribe :: "string \<Rightarrow> (world, unit) gop"
  nl_drain :: "(world, unit) gop"

record nats_messenger =
  nm_conn :: bool
  nm_js :: bool
  nm_debug :: "debug_buffer option"

text \<open>The four counters of the package, each with the subject as its label.\<close>

record nats_counters =
  nc_published :: "string \<Rightarrow> nat"
  nc_received :: "string \<Rightarrow> nat"
  nc_published_bytes :: "string \<Rightarrow> nat"
  nc_received_bytes :: "string \<Rightarrow> nat"

definition count_published :: "string \<Rightarrow> string \<Rightarrow> nats_counters \<Rightarrow> nats_counters" where
  "count_published subject payload c = c\<lparr>
     nc_published := (nc_published c)(subject := Suc (nc_published c subject)),
     nc_published_bytes := (nc_published_bytes c)(subject := nc_published_bytes c subject + length payload)\<rparr>"

definition count_received :: "string \<Rightarrow> string \<Rightarrow> nats_counters \<Rightarrow> nats_counters" where
  "count_received subject payload c = c\<lparr>
     nc_received := (nc_received c)(subject := Suc (nc_received c subject)),
     nc_received_bytes := (nc_received_bytes c)(subject := nc_received_bytes c subject + length payload)\<rparr>"

definition new_nats_messenger :: "nats_lib \<Rightarrow> nats_config \<Rightarrow> (world, nats_messenger) gop" where
  "new_nats_messenger N c =
     (let m = \<lparr>nm_conn = False, nm_js = False,
            nm_debug = (if ntc_debug_endpoint c then Some (new_debug_buffer 100) else None)\<rparr> in
      if ntc_url c = '''' then retM m
      else bindM (wrapM ''connect nats'' (nl_connect N (ntc_url c))) (\<lambda>_.
           bindM (wrapM ''jetstream'' (nl_jetstream N)) (\<lambda>_.
           retM (m\<lparr>nm_conn := True, nm_js := True\<rparr>))))"

text \<open>The message is in the buffer before it is sent, and stays there when sending fails.\<close>

definition messenger_publish ::
  "nats_lib \<Rightarrow> string \<Rightarrow> string \<Rightarrow> (nats_messenger \<times> nats_counters \<times> world, unit) gop" where
  "messenger_publish N subject payload = (\<lambda>(m, c, w).
     if \<not> nm_conn m then (Ok (), m, c, w)
     else (case nm_debug m of
        None \<Rightarrow> (let (res, w') = nl_publish N subject payload w in (res, m, count_published subject payload c, w'))
      | Some b \<Rightarrow> (case debug_append (debug_entry_of (clock w (ticks w)) subject payload) b of
          None \<Rightarrow> (Panic ''index out of range'', m, c, w\<lparr>ticks := Suc (ticks w)\<rparr>)
        | Some b' \<Rightarrow> (let (res, w') = nl_publish N subject payload (w\<lparr>ticks := Suc (ticks w)\<rparr>) in
            (res, m\<lparr>nm_debug := Some b'\<rparr>, count_published subject payload c, w')))))"

definition messenger_subscribe :: "nats_lib \<Rightarrow> nats_messenger \<Rightarrow> string \<Rightarrow> (world, unit) gop" where
  "messenger_subscribe N m subject = (if \<not> nm_conn m then retM () else nl_subscribe N subject)"

text \<open>The callback of a subscription counts the message and hands its bytes on.\<close>

definition messenger_receive ::
  "string \<Rightarrow> (string \<Rightarrow> (world, unit) gop) \<Rightarrow> string \<Rightarrow> (nats_counters \<times> world, unit) gop" where
  "messenger_receive subject handler payload = (\<lambda>(c, w).
     (case handler payload w of (res, w') \<Rightarrow> (res, count_received subject payload c, w')))"

definition messenger_close :: "nats_lib \<Rightarrow> nats_messenger \<Rightarrow> (world, unit) gop" where
  "messenger_close N m = (if nm_conn m then nl_drain N else retM ())"

definition debug_handler :: "nats_messenger \<Rightarrow> http_handler" where
  "debug_handler m = http_debug_nats (nm_debug m)"

text \<open>The buffer of a messenger that was made by \<open>NewNATSMessenger\<close> never panics.\<close>

definition messenger_ok :: "nats_messenger \<Rightarrow> bool" where
  "messenger_ok m \<longleftrightarrow> (\<forall>b. nm_debug m = Some b \<longrightarrow> ring_ok 100 b)"

lemma new_messenger_ok: "new_nats_messenger N c w = (Ok m, w') \<Longrightarrow> messenger_ok m"
  by (auto simp: new_nats_messenger_def messenger_ok_def new_ring bindM_Ok wrapM_Ok retM_def Let_def split: if_splits)

lemma messenger_publish_entry:
  assumes "messenger_ok m" "nm_conn m" "nm_debug m = Some b"
  shows "\<exists>res b' w'. messenger_publish N subject payload (m, c, w) =
      (res, m\<lparr>nm_debug := Some b'\<rparr>, count_published subject payload c, w') \<and>
    ring_ok 100 b' \<and> debug_read b' = take 100 (debug_entry_of (clock w (ticks w)) subject payload # debug_read b)"
proof -
  have "ring_ok 100 b" using assms(1,3) by (simp add: messenger_ok_def)
  then obtain b' where "debug_append (debug_entry_of (clock w (ticks w)) subject payload) b = Some b'" "ring_ok 100 b'"
    "debug_read b' = take 100 (debug_entry_of (clock w (ticks w)) subject payload # debug_read b)"
    using ring.added by blast
  then show ?thesis using assms(2,3) by (auto simp: messenger_publish_def case_prod_beta)
qed

section \<open>The recorder of metrics\<close>

text \<open>
  \<open>promauto\<close> panics when the name is taken by another collector, a vector panics when it gets another
  number of values than its three labels; no value stands for a panic. The labels come in pairs. The locks
  of the recorder have no counterpart.
\<close>

record recorder =
  rc_counters :: "string \<Rightarrow> (string list \<Rightarrow> nat) option"
  rc_histograms :: "string \<Rightarrow> (string list \<Rightarrow> measure list) option"
  rc_gauges :: "string \<Rightarrow> (string list \<Rightarrow> rat) option"

definition new_recorder :: recorder where
  "new_recorder = \<lparr>rc_counters = (\<lambda>_. None), rc_histograms = (\<lambda>_. None), rc_gauges = (\<lambda>_. None)\<rparr>"

definition get_or_create_counter :: "string set \<Rightarrow> string \<Rightarrow> recorder \<Rightarrow> recorder option" where
  "get_or_create_counter taken name R =
     (if rc_counters R name \<noteq> None then Some R
      else if name \<in> taken \<or> rc_histograms R name \<noteq> None \<or> rc_gauges R name \<noteq> None then None
      else Some (R\<lparr>rc_counters := (rc_counters R)(name \<mapsto> (\<lambda>_. 0))\<rparr>))"

definition get_or_create_histogram :: "string set \<Rightarrow> string \<Rightarrow> recorder \<Rightarrow> recorder option" where
  "get_or_create_histogram taken name R =
     (if rc_histograms R name \<noteq> None then Some R
      else if name \<in> taken \<or> rc_counters R name \<noteq> None \<or> rc_gauges R name \<noteq> None then None
      else Some (R\<lparr>rc_histograms := (rc_histograms R)(name \<mapsto> (\<lambda>_. []))\<rparr>))"

definition increment_counter :: "string set \<Rightarrow> string \<Rightarrow> string list \<Rightarrow> recorder \<Rightarrow> recorder option" where
  "increment_counter taken name labels R = Option.bind (get_or_create_counter taken name R) (\<lambda>R1.
     let vs = extract_values labels in
     if length vs \<noteq> 3 then None
     else Some (R1\<lparr>rc_counters := (rc_counters R1)(name :=
       map_option (\<lambda>f. f(vs := Suc (f vs))) (rc_counters R1 name))\<rparr>))"

definition observe_histogram :: "string set \<Rightarrow> string \<Rightarrow> measure \<Rightarrow> string list \<Rightarrow> recorder \<Rightarrow> recorder option" where
  "observe_histogram taken name v labels R = Option.bind (get_or_create_histogram taken name R) (\<lambda>R1.
     let vs = extract_values labels in
     if length vs \<noteq> 3 then None
     else Some (R1\<lparr>rc_histograms := (rc_histograms R1)(name :=
       map_option (\<lambda>f. f(vs := f vs @ [v])) (rc_histograms R1 name))\<rparr>))"

definition get_or_create_gauge :: "string set \<Rightarrow> string \<Rightarrow> recorder \<Rightarrow> recorder option" where
  "get_or_create_gauge taken name R =
     (if rc_gauges R name \<noteq> None then Some R
      else if name \<in> taken \<or> rc_counters R name \<noteq> None \<or> rc_histograms R name \<noteq> None then None
      else Some (R\<lparr>rc_gauges := (rc_gauges R)(name \<mapsto> (\<lambda>_. 0))\<rparr>))"

definition set_gauge :: "string set \<Rightarrow> string \<Rightarrow> rat \<Rightarrow> string list \<Rightarrow> recorder \<Rightarrow> recorder option" where
  "set_gauge taken name v labels R = Option.bind (get_or_create_gauge taken name R) (\<lambda>R1.
     let vs = extract_values labels in
     if length vs \<noteq> 3 then None
     else Some (R1\<lparr>rc_gauges := (rc_gauges R1)(name := map_option (\<lambda>f. f(vs := v)) (rc_gauges R1 name))\<rparr>))"

text \<open>A name that is not taken by a collector of another kind.\<close>

definition free_for_counter :: "string set \<Rightarrow> string \<Rightarrow> recorder \<Rightarrow> bool" where
  "free_for_counter taken name R \<longleftrightarrow> name \<notin> taken \<and> rc_histograms R name = None \<and> rc_gauges R name = None"

lemma three_labels: "extract_values (metric_labels r st) = [rq_method r, rq_path r, st]"
  by (simp add: metric_labels_def)

definition counted :: "recorder \<Rightarrow> string \<Rightarrow> string list \<Rightarrow> nat" where
  "counted R name vs = (case rc_counters R name of None \<Rightarrow> 0 | Some f \<Rightarrow> f vs)"

text \<open>A name of its own counts, and leaves every other counter, the histograms and the gauges alone.\<close>

lemma increment_counts:
  assumes "free_for_counter taken name R"
  shows "\<exists>R'. increment_counter taken name (metric_labels r st) R = Some R' \<and> free_for_counter taken name R' \<and>
    counted R' n vs = counted R n vs + (if n = name \<and> vs = [rq_method r, rq_path r, st] then 1 else 0)"
  using assms by (cases "rc_counters R name")
    (auto simp: free_for_counter_def increment_counter_def get_or_create_counter_def three_labels counted_def Let_def)

text \<open>
  The metrics middleware increments the number of active requests once before and once after a request, so
  it counts two for each, and there never is a gauge.
\<close>

fun count_active :: "string set \<Rightarrow> request list \<Rightarrow> recorder \<Rightarrow> recorder option" where
  "count_active taken [] R = Some R"
| "count_active taken (r # rs) R =
     Option.bind (increment_counter taken ''http_requests_active'' (metric_labels r ''0'') R) (\<lambda>R1.
     Option.bind (increment_counter taken ''http_requests_active'' (metric_labels r ''0'') R1) (count_active taken rs))"

lemma active_counts_double:
  "free_for_counter taken ''http_requests_active'' R \<Longrightarrow>
    \<exists>R'. count_active taken rs R = Some R' \<and>
      counted R' ''http_requests_active'' [m, p, ''0''] = counted R ''http_requests_active'' [m, p, ''0''] +
        2 * length (filter (\<lambda>r. rq_method r = m \<and> rq_path r = p) rs)"
proof (induction rs arbitrary: R)
  case (Cons r rs)
  let ?own = "\<lambda>n. n + (if rq_method r = m \<and> rq_path r = p then 1 else 0)"
  have step: "\<exists>R'. increment_counter taken ''http_requests_active'' (metric_labels r ''0'') R = Some R' \<and>
      free_for_counter taken ''http_requests_active'' R' \<and>
      counted R' ''http_requests_active'' [m, p, ''0''] = ?own (counted R ''http_requests_active'' [m, p, ''0''])"
    if "free_for_counter taken ''http_requests_active'' R" for R
    using increment_counts [OF that, of r "''0''" "''http_requests_active''" "[m, p, ''0'']"] by auto
  obtain R1 where R1: "increment_counter taken ''http_requests_active'' (metric_labels r ''0'') R = Some R1"
    "free_for_counter taken ''http_requests_active'' R1"
    "counted R1 ''http_requests_active'' [m, p, ''0''] = ?own (counted R ''http_requests_active'' [m, p, ''0''])"
    using step [OF Cons.prems] by blast
  obtain R2 where R2: "increment_counter taken ''http_requests_active'' (metric_labels r ''0'') R1 = Some R2"
    "free_for_counter taken ''http_requests_active'' R2"
    "counted R2 ''http_requests_active'' [m, p, ''0''] = ?own (counted R1 ''http_requests_active'' [m, p, ''0''])"
    using step [OF R1(2)] by blast
  show ?case using Cons.IH [OF R2(2)] R1(1,3) R2(1,3) by auto
qed simp

section \<open>The transaction manager\<close>

text \<open>
  \<open>WithTx\<close> has no deferred rollback: when the function panics, \<open>database/sql\<close> rolls back once the context
  of the transaction ends. The error of a rollback is dropped. The function here runs its statements on the
  transaction it finds in the context; no repository of the service does.
\<close>

definition with_tx :: "(world, unit) gop \<Rightarrow> (world, unit) gop" where
  "with_tx fn = bindM noopM (\<lambda>_ w. case fn w of
       (Ok _, w') \<Rightarrow> (case noopM w' of
           (Ok _, w'') \<Rightarrow> (Ok (), w'') | (res, w'') \<Rightarrow> (res, w''\<lparr>db := db w\<rparr>))
     | (Err e, w') \<Rightarrow> (Err e, (snd (noopM w'))\<lparr>db := db w\<rparr>)
     | (Panic m, w') \<Rightarrow> (Panic m, w'\<lparr>db := db w\<rparr>))"

lemma with_tx_atomic:
  assumes "with_tx fn w = (res, w')" "res \<noteq> Ok ()"
  shows "db w' = db w"
proof -
  obtain r v where n: "noopM w = (r, v)" by (cases "noopM w")
  then show ?thesis
    using assms noopM_db [OF n] by (cases r) (auto simp: with_tx_def bindM_def split: prod.splits outcome.splits)
qed

lemma with_tx_commits:
  "faults w = [] \<Longrightarrow> fn w = (Ok (), w') \<Longrightarrow> faults w' = [] \<Longrightarrow> with_tx fn w = (Ok (), w')"
  by (simp add: with_tx_def bindM_def)

section \<open>The logger\<close>

text \<open>
  What \<open>NewZapLogger\<close> asks zap for. Reading a level is up to zap; a text it does not know is \<open>info\<close>. The
  development preset of zap writes for the console, the production preset JSON.
\<close>

record zap_settings =
  zs_level :: string
  zs_development :: bool
  zs_encoding :: string
  zs_level_encoder :: string

definition zap_settings_of :: "(string \<Rightarrow> string option) \<Rightarrow> string \<Rightarrow> log_config \<Rightarrow> zap_settings" where
  "zap_settings_of parse env c =
     (let development = (env = ''development'') in
      \<lparr>zs_level = (case parse (lgc_level c) of None \<Rightarrow> ''info'' | Some l \<Rightarrow> l), zs_development = development,
       zs_encoding = (if lgc_format c = ''json'' \<or> \<not> development then ''json'' else ''console''),
       zs_level_encoder = (if lgc_format c = ''console'' then ''capitalColor'' else ''capital'')\<rparr>)"

text \<open>
  A field of a log line: its value decides how it is written, an error always under the key \<open>error\<close>; what
  \<open>zap.Any\<close> makes of other values is a parameter. A logger made by \<open>With\<close> writes its own fields first; the
  identifiers of the span come last.
\<close>

datatype log_value = LogString string | LogInt int | LogError goerr | LogZap "string \<times> string" | LogOther string

definition to_zap_field :: "(string \<Rightarrow> string) \<Rightarrow> string \<times> log_value \<Rightarrow> string \<times> string" where
  "to_zap_field any_text f = (case snd f of
      LogString s \<Rightarrow> (fst f, s)
    | LogInt n \<Rightarrow> (fst f, itoa n)
    | LogError e \<Rightarrow> (''error'', err_text e)
    | LogZap z \<Rightarrow> z
    | LogOther v \<Rightarrow> (fst f, any_text v))"

definition to_zap_fields :: "(string \<Rightarrow> string) \<Rightarrow> (string \<times> log_value) list \<Rightarrow> (string \<times> string) list" where
  "to_zap_fields any_text fs = map (to_zap_field any_text) fs"

record zap_logger =
  zl_with :: "(string \<times> string) list"

definition logger_with :: "(string \<Rightarrow> string) \<Rightarrow> (string \<times> log_value) list \<Rightarrow> zap_logger \<Rightarrow> zap_logger" where
  "logger_with any_text fs l = l\<lparr>zl_with := zl_with l @ to_zap_fields any_text fs\<rparr>"

definition zap_write :: "(string \<Rightarrow> string) \<Rightarrow> string \<Rightarrow> zap_logger \<Rightarrow> string \<Rightarrow> (string \<times> log_value) list \<Rightarrow> (world, unit) gop" where
  "zap_write any_text level l msg fs = logM level msg (zl_with l @ to_zap_fields any_text fs)"

definition zap_debug :: "(string \<Rightarrow> string) \<Rightarrow> zap_logger \<Rightarrow> string \<Rightarrow> (string \<times> log_value) list \<Rightarrow> (world, unit) gop" where
  "zap_debug any_text l msg fs = zap_write any_text ''debug'' l msg fs"

definition zap_info :: "(string \<Rightarrow> string) \<Rightarrow> zap_logger \<Rightarrow> string \<Rightarrow> (string \<times> log_value) list \<Rightarrow> (world, unit) gop" where
  "zap_info any_text l msg fs = zap_write any_text ''info'' l msg fs"

definition zap_warn :: "(string \<Rightarrow> string) \<Rightarrow> zap_logger \<Rightarrow> string \<Rightarrow> (string \<times> log_value) list \<Rightarrow> (world, unit) gop" where
  "zap_warn any_text l msg fs = zap_write any_text ''warn'' l msg fs"

definition zap_error :: "(string \<Rightarrow> string) \<Rightarrow> zap_logger \<Rightarrow> string \<Rightarrow> (string \<times> log_value) list \<Rightarrow> (world, unit) gop" where
  "zap_error any_text l msg fs = zap_write any_text ''error'' l msg fs"

text \<open>\<open>NewZapStdLogger\<close>: the logger behind the interface, or one that writes nothing.\<close>

datatype domain_logger = ZapBacked zap_logger | OtherLogger

definition new_zap_std_logger :: "domain_logger \<Rightarrow> zap_logger option" where
  "new_zap_std_logger l = (case l of ZapBacked z \<Rightarrow> Some z | OtherLogger \<Rightarrow> None)"

text \<open>The logger of the handlers is one without fields of its own: what they log is what the world records.\<close>

lemma zap_write_plain:
  "zap_write any_text level \<lparr>zl_with = []\<rparr> msg (map (\<lambda>(k, v). (k, LogString v)) fs) = logM level msg fs"
  by (simp add: zap_write_def to_zap_fields_def to_zap_field_def comp_def case_prod_beta)

text \<open>Fields given with \<open>With\<close> stay in front, in the order they were given.\<close>

lemma logger_with_fields:
  "zap_write any_text level (logger_with any_text gs (logger_with any_text fs l)) msg hs =
     zap_write any_text level l msg (fs @ gs @ hs)"
  by (simp add: zap_write_def logger_with_def to_zap_fields_def)

text \<open>In production the console format only colours the levels of the JSON lines.\<close>

lemma console_format_ignored:
  "env \<noteq> ''development'' \<Longrightarrow> zs_encoding (zap_settings_of parse env c) = ''json''"
  by (simp add: zap_settings_of_def Let_def)

end
