(* ===== verification/Page_Count.thy ===== *)
theory Page_Count
  imports Http_Core "HOL-Library.Log_Nat"
begin

text \<open>
  \<open>Pagination.Calculate\<close> and \<open>NewPaginatedResponse\<close> of \<open>internal/shared/pagination\<close>. The number of pages is
  computed in \<open>float64\<close>: both numbers and their quotient are rounded to 53 binary digits, ties to even, and
  the ceiling becomes an \<open>int\<close> again. Numbers of type \<open>int\<close> and their quotients are far from the ends of
  the exponent range, so floats are rationals here; a quotient by zero has no rational value, and a float
  outside the range of \<open>int\<close> converts to what the processor gives, a parameter.
\<close>

section \<open>Rounding to 53 digits\<close>

text \<open>The exponent of the leading binary digit of a positive rational.\<close>

definition leading_exponent :: "rat \<Rightarrow> int" where
  "leading_exponent q = (case quotient_of q of (a, b) \<Rightarrow>
     let e = bitlen a - bitlen b in if 2 powi e \<le> q then e else e - 1)"

definition half_even :: "rat \<Rightarrow> int" where
  "half_even q = (let n = \<lfloor>q\<rfloor>; d = q - of_int n in
     if d < 1 / 2 then n else if 1 / 2 < d then n + 1 else if even n then n else n + 1)"

definition float64_pos :: "rat \<Rightarrow> rat" where
  "float64_pos q = (let ulp = 2 powi (leading_exponent q - 52) in of_int (half_even (q / ulp)) * ulp)"

definition float64 :: "rat \<Rightarrow> rat" where
  "float64 q = (if q = 0 then 0 else if q < 0 then - float64_pos (- q) else float64_pos q)"

section \<open>pagination.go\<close>

record pagination =
  pn_page :: int
  pn_per_page :: int
  pn_total :: int
  pn_total_pages :: int

text \<open>\<open>int(f)\<close> for a float without fraction; \<open>junk\<close> is the result out of range.\<close>

definition int_of_float :: "int \<Rightarrow> int \<Rightarrow> int" where
  "int_of_float junk n = (if - (2 ^ 63) \<le> n \<and> n < 2 ^ 63 then n else junk)"

definition calculate :: "int \<Rightarrow> pagination \<Rightarrow> int \<Rightarrow> pagination" where
  "calculate junk p tot = p\<lparr>pn_total := tot, pn_total_pages :=
     (if float64 (of_int (pn_per_page p)) = 0 then junk
      else int_of_float junk \<lceil>float64 (float64 (of_int tot) / float64 (of_int (pn_per_page p)))\<rceil>)\<rparr>"

record paginated_response =
  pv_data :: go_any
  pv_pagination :: pagination

definition new_paginated_response :: "int \<Rightarrow> go_any \<Rightarrow> int \<Rightarrow> int \<Rightarrow> int \<Rightarrow> paginated_response" where
  "new_paginated_response junk data pag perPage tot =
     \<lparr>pv_data = data, pv_pagination = calculate junk
        \<lparr>pn_page = pag, pn_per_page = perPage, pn_total = tot, pn_total_pages = 0\<rparr> tot\<rparr>"

section \<open>How far a rounded number is off\<close>

lemma bitlen_range:
  fixes a :: int
  assumes "0 < a"
  shows "2 powi (bitlen a - 1) \<le> (of_int a :: rat)" "(of_int a :: rat) < 2 powi bitlen a"
proof -
  have b: "2 ^ nat (bitlen a - 1) \<le> a" "a < 2 ^ nat (bitlen a)" "0 < bitlen a"
    using bitlen_bounds [OF assms] bitlen_nonneg [of a] assms by (cases "bitlen a = 0"; simp)+
  have "(of_int (2 ^ nat (bitlen a - 1)) :: rat) \<le> of_int a" "(of_int a :: rat) < of_int (2 ^ nat (bitlen a))"
    using b(1,2) by (simp_all only: of_int_le_iff of_int_less_iff)
  then show "2 powi (bitlen a - 1) \<le> (of_int a :: rat)" "(of_int a :: rat) < 2 powi bitlen a"
    using b(3) by (simp_all add: power_int_def)
qed

lemma leading_exponent:
  assumes "0 < q"
  shows "2 powi leading_exponent q \<le> q" "q < 2 powi (leading_exponent q + 1)"
proof -
  obtain a b where ab: "quotient_of q = (a, b)" by (cases "quotient_of q")
  then have b: "0 < b" by (rule quotient_of_denom_pos)
  have q: "q = of_int a / of_int b" using ab by (rule quotient_of_div)
  have a: "0 < a" using assms b q by (simp add: zero_less_divide_iff)
  let ?e = "bitlen a - bitlen b"
  have "q < 2 powi (?e + 1)"
  proof -
    have "of_int a / of_int b < 2 powi bitlen a / (2 powi (bitlen b - 1) :: rat)"
      using bitlen_range [OF a] bitlen_range [OF b] a b by (intro frac_less) auto
    also have "\<dots> = 2 powi (bitlen a - (bitlen b - 1))" by (simp add: power_int_diff)
    finally show ?thesis by (simp add: q algebra_simps)
  qed
  moreover have "2 powi (?e - 1) \<le> q"
  proof -
    have "2 powi (bitlen a - 1) / (2 powi bitlen b :: rat) \<le> of_int a / of_int b"
      using bitlen_range [OF a] bitlen_range [OF b] a b by (intro frac_le) auto
    also have "2 powi (bitlen a - 1) / (2 powi bitlen b :: rat) = 2 powi (bitlen a - 1 - bitlen b)"
      by (simp add: power_int_diff)
    finally show ?thesis by (simp add: q algebra_simps)
  qed
  ultimately show "2 powi leading_exponent q \<le> q" "q < 2 powi (leading_exponent q + 1)"
    by (auto simp: leading_exponent_def ab Let_def)
qed

lemma half_even_near: "\<bar>of_int (half_even q) - q\<bar> \<le> 1 / 2"
proof -
  have "of_int \<lfloor>q\<rfloor> \<le> q" "q < of_int \<lfloor>q\<rfloor> + 1" by linarith+
  then show ?thesis unfolding half_even_def Let_def by (simp only: split: if_split) (simp; linarith)
qed

lemma half_even_int [simp]: "half_even (of_int n) = n"
  by (simp add: half_even_def)

text \<open>The relative error is at most half a unit in the 53rd digit.\<close>

lemma float64_error:
  assumes "0 < q"
  shows "\<bar>float64 q - q\<bar> \<le> q / 2 ^ 53"
proof -
  let ?u = "2 powi (leading_exponent q - 52) :: rat"
  have u: "0 < ?u" by simp
  have "float64 q - q = (of_int (half_even (q / ?u)) - q / ?u) * ?u"
    using assms by (simp add: float64_def float64_pos_def Let_def left_diff_distrib)
  then have "\<bar>float64 q - q\<bar> = \<bar>of_int (half_even (q / ?u)) - q / ?u\<bar> * ?u" by (simp add: abs_mult)
  also have "\<dots> \<le> 1 / 2 * ?u" using half_even_near u by (intro mult_right_mono) auto
  also have "\<dots> = 2 powi leading_exponent q / 2 ^ 53" by (simp add: power_int_diff)
  also have "\<dots> \<le> q / 2 ^ 53" using leading_exponent(1) [OF assms] by (intro divide_right_mono) auto
  finally show ?thesis .
qed

text \<open>Integers of 53 digits are exact.\<close>

lemma float64_int:
  fixes n :: int
  assumes "0 \<le> n" "n < 2 ^ 53"
  shows "float64 (of_int n) = of_int n"
proof (cases "n = 0")
  case True
  then show ?thesis by (simp add: float64_def)
next
  case False
  then have n: "0 < n" using assms(1) by simp
  let ?e = "leading_exponent (of_int n)"
  have less: "2 powi ?e < (2 powi 53 :: rat)"
  proof -
    have "2 powi ?e \<le> (of_int n :: rat)" using leading_exponent(1) [of "of_int n"] n by simp
    also have "\<dots> < of_int (2 ^ 53)" using assms(2) by (simp only: of_int_less_iff)
    finally show ?thesis by (simp add: power_int_def)
  qed
  have e: "?e \<le> 52"
  proof (rule ccontr)
    assume "\<not> ?e \<le> 52"
    then have "2 powi 53 \<le> (2 powi ?e :: rat)" by (intro power_int_increasing) auto
    then show False using less by simp
  qed
  have "of_int n / (2 powi (?e - 52) :: rat) = of_int (n * 2 ^ nat (52 - ?e))"
    using e by (simp add: power_int_def field_simps)
  then have "float64 (of_int n) = of_int (n * 2 ^ nat (52 - ?e)) * 2 powi (?e - 52)"
    using n by (simp only: float64_def float64_pos_def Let_def half_even_int) simp
  also have "\<dots> = of_int n" using e by (simp add: power_int_def flip: power_mult_distrib)
  finally show ?thesis .
qed

section \<open>The number of pages\<close>

lemma ceiling_float64:
  fixes t p :: int
  assumes "0 \<le> t" "t < 2 ^ 53" "0 < p" "p < 2 ^ 53"
  shows "\<lceil>float64 (of_int t / of_int p)\<rceil> = \<lceil>(of_int t / of_int p :: rat)\<rceil>"
proof (cases "p dvd t")
  case True
  then obtain k where k: "t = p * k" by blast
  then have "0 \<le> k" "k < 2 ^ 53"
    using assms by (auto simp: zero_le_mult_iff) (smt (verit) mult_le_cancel_right1 mult_nonneg_nonneg mult.commute)
  then show ?thesis using assms(3) float64_int [of k] by (simp add: k)
next
  case False
  let ?q = "of_int t / of_int p :: rat"
  have t: "0 < t" using False assms(1) by (cases "t = 0") auto
  then have "0 < ?q" using assms(3) by simp
  then have err: "\<bar>float64 ?q - ?q\<bar> \<le> ?q / 2 ^ 53" by (rule float64_error)
  have "(of_int t :: rat) < of_int (2 ^ 53)" using assms(2) by (simp only: of_int_less_iff)
  then have "?q / 2 ^ 53 < 1 / of_int p" using assms(3) by (simp add: field_simps)
  with err have close: "\<bar>float64 ?q - ?q\<bar> < 1 / of_int p" by simp
  let ?n = "t div p"
  have "t mod p \<noteq> 0" "?n * p + t mod p = t" "0 \<le> t mod p" "t mod p < p"
    using False assms(3) by (simp_all add: dvd_eq_mod_eq_0)
  then have "?n * p + 1 \<le> t" "t + 1 \<le> (?n + 1) * p" unfolding distrib_right by linarith+
  then have "(of_int (?n * p + 1) :: rat) \<le> of_int t" "(of_int (t + 1) :: rat) \<le> of_int ((?n + 1) * p)"
    by (simp_all only: of_int_le_iff)
  then have "of_int ?n + 1 / of_int p \<le> ?q" "(of_int t + 1) / of_int p \<le> (of_int ?n + 1 :: rat)"
    using assms(3) by (simp_all add: pos_le_divide_eq pos_divide_le_eq distrib_right)
  then have "of_int ?n + 1 / of_int p \<le> ?q" "?q + 1 / of_int p \<le> of_int ?n + 1"
    by (simp_all add: add_divide_distrib)
  with close have "of_int ?n < float64 ?q" "float64 ?q \<le> of_int ?n + 1" "of_int ?n < ?q" "?q \<le> of_int ?n + 1"
    using assms(3) by (auto simp: abs_less_iff)
  then have "\<lceil>float64 ?q\<rceil> = ?n + 1" "\<lceil>?q\<rceil> = ?n + 1" by (auto intro!: ceiling_unique)
  then show ?thesis by simp
qed

lemma ceiling_pages:
  fixes t p :: int
  assumes "0 < p"
  shows "\<lceil>(of_int t / of_int p :: rat)\<rceil> = (t + p - 1) div p"
proof -
  have "\<lceil>(of_int t / of_int p :: rat)\<rceil> = - \<lfloor>(of_int (- t) / of_int p :: rat)\<rfloor>" by (simp add: ceiling_def)
  also have "\<dots> = - ((- t) div p)" by (simp only: floor_divide_of_int_eq)
  also have "\<dots> = (t + p - 1) div p"
  proof (cases "p dvd t")
    case True
    then obtain k where "t = p * k" by blast
    moreover have "(p * k + (p - 1)) div p = k" using assms by (subst div_mult_self4) (simp_all add: zdiv_eq_0_iff)
    moreover have "(- (p * k)) div p = - k" using assms by (simp flip: mult_minus_right)
    ultimately show ?thesis by (simp add: add_diff_eq)
  next
    case False
    then have "t mod p \<noteq> 0" by (simp add: dvd_eq_mod_eq_0)
    moreover have "(t - 1 + p) div p = (t - 1) div p + 1" using assms by simp
    moreover have "(t - 1) div p = t div p"
    proof -
      have m: "0 < t mod p" "t mod p < p" using assms \<open>t mod p \<noteq> 0\<close> pos_mod_bound [of p t] pos_mod_sign [of p t] by linarith+
      have "t - 1 = t div p * p + (t mod p - 1)" using div_mult_mod_eq [of t p] by linarith
      moreover have "(t div p * p + (t mod p - 1)) div p = t div p"
        using m by (subst div_mult_self3) (simp_all add: zdiv_eq_0_iff)
      ultimately show ?thesis by (simp only:)
    qed
    ultimately show ?thesis using assms by (simp add: zdiv_zminus1_eq_if algebra_simps)
  qed
  finally show ?thesis .
qed

text \<open>
  C33: below \<open>2\<close> to the \<open>53\<close> the detour over floating-point numbers does no harm: the number of pages that
  \<open>NewPaginatedResponse\<close> computes is the total divided by the page size, rounded up, which is what
  \<open>RespondPaginated\<close> computes with integers, so that both report the same numbers.
\<close>

theorem page_counts_agree:
  assumes "0 \<le> tot" "tot < 2 ^ 53" "0 < perPage" "perPage < 2 ^ 53"
  shows "pv_pagination (new_paginated_response junk data pag perPage tot) =
      \<lparr>pn_page = pag, pn_per_page = perPage, pn_total = tot, pn_total_pages = (tot + perPage - 1) div perPage\<rparr> \<and>
    respond_paginated data pag perPage tot = respond_json 200 (api_json (success_response data
      (Val (let n = pv_pagination (new_paginated_response junk data pag perPage tot) in
        pagination_meta (pn_page n) (pn_per_page n) (pn_total n) (pn_total_pages n)))))"
proof -
  have exact: "float64 (of_int tot) = of_int tot" "float64 (of_int perPage) = of_int perPage"
    using assms by (simp_all add: float64_int)
  have bounds: "0 \<le> (tot + perPage - 1) div perPage" "(tot + perPage - 1) div perPage < 2 ^ 63"
  proof -
    show "0 \<le> (tot + perPage - 1) div perPage" using assms by (simp add: pos_imp_zdiv_nonneg_iff)
    have "(tot + perPage - 1) div perPage \<le> tot + perPage - 1" using zdiv_mono2 [of "tot + perPage - 1" 1 perPage] assms by simp
    then show "(tot + perPage - 1) div perPage < 2 ^ 63" using assms by simp
  qed
  have pages: "pv_pagination (new_paginated_response junk data pag perPage tot) =
      \<lparr>pn_page = pag, pn_per_page = perPage, pn_total = tot, pn_total_pages = (tot + perPage - 1) div perPage\<rparr>"
    using assms exact bounds ceiling_float64 [OF assms]
    by (simp add: new_paginated_response_def calculate_def int_of_float_def ceiling_pages)
  have "go_quot (tot + perPage - 1) perPage = (tot + perPage - 1) div perPage"
    using assms by (cases "tot + perPage - 1 = 0") (simp_all add: go_quot_def)
  then show ?thesis using assms bounds by (simp add: pages respond_paginated_def Let_def)
qed

lemma page_counts_agree_witness:
  "pn_total_pages (pv_pagination (new_paginated_response 0 Nil 1 20 41)) = 3"
  using page_counts_agree [of 41 20 0 Nil 1] by simp

text \<open>Beyond, a page can get lost: one item more than \<open>2\<close> to the \<open>53\<close>, one to a page.\<close>

lemma page_lost: "pn_total_pages (pv_pagination (new_paginated_response 0 Nil 1 1 (2 ^ 53 + 1))) = 2 ^ 53"
proof -
  have "float64 9007199254740993 = 9007199254740992" "float64 9007199254740992 = 9007199254740992" "float64 1 = 1"
    by code_simp+
  then show ?thesis by (simp add: new_paginated_response_def calculate_def int_of_float_def)
qed

end
