(* ===== verification/Jet_Stream.thy ===== *)
theory Jet_Stream
  imports Mailers
begin

text \<open>
  The consuming side of the NATS bus: \<open>ensureStream\<close> and \<open>provideEventBus\<close> of
  \<open>internal/shared/events/module.go\<close>, and \<open>Subscribe\<close> of \<open>NATSEventBus\<close> with its adapter. JetStream is a
  library with a state of its own, a parameter; its documented law is that a durable consumer has one
  filter subject.
\<close>

section \<open>The library\<close>

datatype stream_storage = FileStorage | MemoryStorage
datatype retention_policy = LimitsPolicy | InterestPolicy | WorkQueuePolicy

record stream_settings =
  ss_name :: string
  ss_subjects :: "string list"
  ss_storage :: stream_storage
  ss_retention :: retention_policy

record consumer_settings =
  cs_queue :: string
  cs_durable :: string
  cs_max_deliver :: int
  cs_ack_wait :: time
  cs_manual_ack :: bool

text \<open>\<open>jl_filter\<close> is the filter subject of a durable consumer, when there is such a consumer.\<close>

record 'j jet_lib =
  jl_add_stream :: "'j \<Rightarrow> stream_settings \<Rightarrow> goerr option \<times> 'j"
  jl_in_use :: goerr
  jl_queue_subscribe :: "'j \<Rightarrow> string \<Rightarrow> consumer_settings \<Rightarrow> goerr option \<times> 'j"
  jl_filter :: "'j \<Rightarrow> string \<Rightarrow> string option"

text \<open>
  \<open>QueueSubscribe\<close> with the name of a durable consumer: if there is one with another filter subject, it is
  an error (\<open>ErrSubjectMismatch\<close>) and that consumer stays; otherwise the consumer, new or old, has
  the subject if the call succeeds, and if it fails there is none or it has the subject.
\<close>

definition durable_law :: "'j jet_lib \<Rightarrow> bool" where
  "durable_law J \<longleftrightarrow> (\<forall>j subj c err j'. jl_queue_subscribe J j subj c = (err, j') \<longrightarrow>
     (case jl_filter J j (cs_durable c) of
        Some s \<Rightarrow> jl_filter J j' (cs_durable c) = Some s \<and> (s \<noteq> subj \<longrightarrow> err \<noteq> None)
      | None \<Rightarrow> jl_filter J j' (cs_durable c) = Some subj \<or> jl_filter J j' (cs_durable c) = None \<and> err \<noteq> None))"

section \<open>The stream\<close>

text \<open>The name and the subjects come from the configuration; its storage and retention are not looked at.\<close>

definition ensure_stream :: "'j jet_lib \<Rightarrow> stream_config \<Rightarrow> ('j \<times> world, unit) gop" where
  "ensure_stream J c = (\<lambda>(j, w).
     case jl_add_stream J j \<lparr>ss_name = stc_name c, ss_subjects = stc_subjects c, ss_storage = FileStorage,
         ss_retention = InterestPolicy\<rparr> of
       (None, j') \<Rightarrow> (Ok (), j', w)
     | (Some e, j') \<Rightarrow>
         if e = jl_in_use J then (Ok (), j', w)
         else (case in_background (logM ''error'' ''failed to ensure JetStream stream'' [(''error'', err_text e)]) w of
           (r, w') \<Rightarrow> (r, j', w')))"

section \<open>The bus\<close>

text \<open>\<open>nb_live\<close> are the event types with a running subscription, each with the callback \<open>nats_deliver\<close>.\<close>

record 'j nats_bus =
  nb_js :: 'j
  nb_handlers :: handlers
  nb_live :: "string list"

definition new_nats_event_bus :: "'j \<Rightarrow> 'j nats_bus" where
  "new_nats_event_bus j = \<lparr>nb_js = j, nb_handlers = new_bus, nb_live = []\<rparr>"

definition event_consumer :: consumer_settings where
  "event_consumer = \<lparr>cs_queue = ''event-bus'', cs_durable = ''event-bus'', cs_max_deliver = -1,
     cs_ack_wait = 30 * second, cs_manual_ack = True\<rparr>"

definition js_subscribe :: "'j jet_lib \<Rightarrow> 'j \<Rightarrow> string \<Rightarrow> goerr option \<times> 'j" where
  "js_subscribe J j subject = jl_queue_subscribe J j subject event_consumer"

definition event_subject :: "string \<Rightarrow> string" where
  "event_subject ty = ''events.'' @ ty"

lemma event_subject_inj [simp]: "event_subject a = event_subject b \<longleftrightarrow> a = b"
  by (simp add: event_subject_def)

text \<open>The error of the subscription is dropped.\<close>

definition start_subscription :: "'j jet_lib \<Rightarrow> string \<Rightarrow> 'j nats_bus \<Rightarrow> 'j nats_bus" where
  "start_subscription J ty b = (case js_subscribe J (nb_js b) (event_subject ty) of
      (None, j') \<Rightarrow> b\<lparr>nb_js := j', nb_live := nb_live b @ [ty]\<rparr>
    | (Some e, j') \<Rightarrow> b\<lparr>nb_js := j'\<rparr>)"

definition nats_subscribe :: "'j jet_lib \<Rightarrow> string \<Rightarrow> handler \<Rightarrow> 'j nats_bus \<Rightarrow> 'j nats_bus" where
  "nats_subscribe J ty h b =
     (let b' = (if nb_handlers b ty = [] then start_subscription J ty b else b) in
      b'\<lparr>nb_handlers := subscribe (nb_handlers b') ty h\<rparr>)"

text \<open>The logging bus hands the subscriptions on. The todo module registers first, the mail handler last.\<close>

definition todo_subscriptions :: "libs \<Rightarrow> (string \<times> handler) list" where
  "todo_subscriptions L = [(TodoCreatedEvent, on_created L), (TodoUpdatedEvent, on_updated L),
     (TodoCompletedEvent, on_completed L), (TodoDeletedEvent, on_deleted L)]"

definition email_subscriptions :: "emailer \<Rightarrow> (string \<times> handler) list" where
  "email_subscriptions m = [(UserRegisteredEvent, on_user_registered m), (EmailVerifiedEvent, on_email_verified m),
     (PasswordResetRequestedEvent, on_password_reset_requested m)]"

definition subscribe_all :: "'j jet_lib \<Rightarrow> (string \<times> handler) list \<Rightarrow> 'j nats_bus \<Rightarrow> 'j nats_bus" where
  "subscribe_all J xs b = fold (\<lambda>(ty, h). nats_subscribe J ty h) xs b"

definition app_nats_bus :: "'j jet_lib \<Rightarrow> libs \<Rightarrow> emailer \<Rightarrow> 'j \<Rightarrow> 'j nats_bus" where
  "app_nats_bus J L m j = subscribe_all J (email_subscriptions m) (subscribe_all J (todo_subscriptions L) (new_nats_event_bus j))"

text \<open>A message of the stream reaches the handlers when its type has a subscription.\<close>

definition nats_receive :: "libs \<Rightarrow> registry \<Rightarrow> 'j nats_bus \<Rightarrow> string \<Rightarrow> string \<Rightarrow> (world, reply option) gop" where
  "nats_receive L R b ty data =
     (if ty \<in> set (nb_live b) then bindM (nats_deliver L R (nb_handlers b) ty data) (\<lambda>r. retM (Some r)) else retM None)"

text \<open>
  \<open>provideEventBus\<close> with the subscriptions. Without a NATS URL the messenger has no JetStream, and the call
  on the nil interface panics.
\<close>

datatype 'j event_bus = NatsBus "'j nats_bus" | MemoryBus handlers

definition start_event_bus :: "'j jet_lib \<Rightarrow> bool \<Rightarrow> config \<Rightarrow> ('j \<times> world, 'j event_bus) gop" where
  "start_event_bus J has_js cfg =
     (if cf_events_driver cfg = ''nats'' then
        (if has_js then bindM (ensure_stream J (ntc_stream (cf_nats cfg))) (\<lambda>_.
           readM (\<lambda>(j, w). NatsBus (new_nats_event_bus j)))
         else panicM ''runtime error: invalid memory address or nil pointer dereference'')
      else retM (MemoryBus new_bus))"

section \<open>One durable consumer\<close>

lemma start_subscription_live:
  assumes "durable_law J"
  shows "nb_live (start_subscription J ty b) = nb_live b \<or>
    nb_live (start_subscription J ty b) = nb_live b @ [ty] \<and>
    jl_filter J (nb_js (start_subscription J ty b)) ''event-bus'' = Some (event_subject ty)"
    and "jl_filter J (nb_js b) ''event-bus'' = Some s \<Longrightarrow>
      jl_filter J (nb_js (start_subscription J ty b)) ''event-bus'' = Some s"
proof -
  obtain err j' where q: "jl_queue_subscribe J (nb_js b) (event_subject ty) event_consumer = (err, j')" by fastforce
  have c: "cs_durable event_consumer = ''event-bus''" by (simp add: event_consumer_def)
  have law: "case jl_filter J (nb_js b) ''event-bus'' of
        Some s \<Rightarrow> jl_filter J j' ''event-bus'' = Some s \<and> (s \<noteq> event_subject ty \<longrightarrow> err \<noteq> None)
      | None \<Rightarrow> jl_filter J j' ''event-bus'' = Some (event_subject ty) \<or> jl_filter J j' ''event-bus'' = None \<and> err \<noteq> None"
    using assms [unfolded durable_law_def, rule_format, OF q] unfolding c .
  have run: "start_subscription J ty b =
      (if err = None then b\<lparr>nb_js := j', nb_live := nb_live b @ [ty]\<rparr> else b\<lparr>nb_js := j'\<rparr>)"
    by (cases err) (simp_all add: start_subscription_def js_subscribe_def q)
  show "nb_live (start_subscription J ty b) = nb_live b \<or>
    nb_live (start_subscription J ty b) = nb_live b @ [ty] \<and>
    jl_filter J (nb_js (start_subscription J ty b)) ''event-bus'' = Some (event_subject ty)"
    unfolding run using law by (cases "jl_filter J (nb_js b) ''event-bus''") auto
  show "jl_filter J (nb_js b) ''event-bus'' = Some s \<Longrightarrow>
      jl_filter J (nb_js (start_subscription J ty b)) ''event-bus'' = Some s"
    unfolding run using law by simp
qed

text \<open>All subscriptions that run are on the filter subject of the consumer.\<close>

definition on_filter :: "'j jet_lib \<Rightarrow> 'j nats_bus \<Rightarrow> bool" where
  "on_filter J b \<longleftrightarrow> (\<forall>ty \<in> set (nb_live b). jl_filter J (nb_js b) ''event-bus'' = Some (event_subject ty))"

lemma nats_subscribe_fields:
  "nb_live (nats_subscribe J ty h b) = nb_live (if nb_handlers b ty = [] then start_subscription J ty b else b)"
  "nb_js (nats_subscribe J ty h b) = nb_js (if nb_handlers b ty = [] then start_subscription J ty b else b)"
  "nb_handlers (start_subscription J ty b) = nb_handlers b"
  "nb_handlers (nats_subscribe J ty h b) = subscribe (nb_handlers b) ty h"
  by (auto simp: nats_subscribe_def Let_def start_subscription_def split: prod.splits option.splits)

lemma start_subscription_on_filter:
  "durable_law J \<Longrightarrow> on_filter J b \<Longrightarrow> on_filter J (start_subscription J ty b)"
  using start_subscription_live(1) [of J ty b] start_subscription_live(2) [of J b _ ty] unfolding on_filter_def by fastforce

lemma nats_subscribe_on_filter: "durable_law J \<Longrightarrow> on_filter J b \<Longrightarrow> on_filter J (nats_subscribe J ty h b)"
  using start_subscription_on_filter [of J b ty] by (simp add: on_filter_def nats_subscribe_fields split: if_splits)

lemma subscribe_all_step: "subscribe_all J ((ty, h) # xs) b = subscribe_all J xs (nats_subscribe J ty h b)"
  by (simp add: subscribe_all_def)

lemma subscribe_all_on_filter: "durable_law J \<Longrightarrow> on_filter J b \<Longrightarrow> on_filter J (subscribe_all J xs b)"
  by (induction xs arbitrary: b) (auto simp: subscribe_all_def nats_subscribe_on_filter)

lemma on_filter_one: "on_filter J b \<Longrightarrow> ty \<in> set (nb_live b) \<Longrightarrow> ty' \<in> set (nb_live b) \<Longrightarrow> ty' = ty"
proof -
  assume "on_filter J b" "ty \<in> set (nb_live b)" "ty' \<in> set (nb_live b)"
  then have "Some (event_subject ty') = Some (event_subject ty)" unfolding on_filter_def by metis
  then show ?thesis by simp
qed

lemma nats_subscribe_live: "ty \<in> set (nb_live b) \<Longrightarrow> ty \<in> set (nb_live (nats_subscribe J t h b))"
  by (auto simp: nats_subscribe_fields start_subscription_def split: prod.split option.split)

lemma subscribe_all_live: "ty \<in> set (nb_live b) \<Longrightarrow> ty \<in> set (nb_live (subscribe_all J xs b))"
  by (induction xs arbitrary: b) (auto simp: subscribe_all_def nats_subscribe_live)

lemma app_subscriptions_handlers:
  "nb_handlers (app_nats_bus J L m j) = app_handlers L m"
  by (simp add: app_nats_bus_def subscribe_all_def todo_subscriptions_def email_subscriptions_def nats_subscribe_fields
      new_nats_event_bus_def app_handlers_def register_email_handlers_def register_todo_handlers_def)

text \<open>
  C34: over NATS only one of the seven event types is consumed. All subscriptions share the durable
  consumer \<open>event-bus\<close>, whose filter is the subject of the first that succeeds; the others fail and the
  bus drops the error. Where there is no such consumer yet and the first subscription succeeds, that is
  \<open>todo.created\<close>, so the handlers of the mail events, registered like all others, never see a message.
\<close>

theorem nats_serves_one_type:
  assumes "durable_law J"
  shows "nb_handlers (app_nats_bus J L m j) = app_handlers L m \<and> (\<exists>only. set (nb_live (app_nats_bus J L m j)) \<subseteq> {only}) \<and>
    (fst (js_subscribe J j (event_subject TodoCreatedEvent)) = None \<longrightarrow>
      (\<forall>ty data. ty \<noteq> TodoCreatedEvent \<longrightarrow> nats_receive L' R (app_nats_bus J L m j) ty data = retM None))"
proof (intro conjI impI allI)
  let ?b = "app_nats_bus J L m j"
  have filt: "on_filter J ?b"
    unfolding app_nats_bus_def by (intro subscribe_all_on_filter [OF assms(1)]) (simp add: on_filter_def new_nats_event_bus_def)
  show "nb_handlers ?b = app_handlers L m" by (rule app_subscriptions_handlers)
  show "\<exists>only. set (nb_live (app_nats_bus J L m j)) \<subseteq> {only}" using on_filter_one [OF filt] by (cases "nb_live ?b") auto
  fix ty data
  assume first: "fst (js_subscribe J j (event_subject TodoCreatedEvent)) = None" and other: "ty \<noteq> TodoCreatedEvent"
  then obtain j' where "js_subscribe J j (event_subject TodoCreatedEvent) = (None, j')"
    by (cases "js_subscribe J j (event_subject TodoCreatedEvent)") simp
  then have "TodoCreatedEvent \<in> set (nb_live (nats_subscribe J TodoCreatedEvent (on_created L) (new_nats_event_bus j)))"
    by (simp add: nats_subscribe_fields new_nats_event_bus_def new_bus_def start_subscription_def event_type_defs)
  then have "TodoCreatedEvent \<in> set (nb_live ?b)"
    by (simp add: app_nats_bus_def todo_subscriptions_def subscribe_all_step nats_subscribe_live subscribe_all_live)
  then have "ty \<notin> set (nb_live ?b)" using on_filter_one [OF filt] other by blast
  then show "nats_receive L' R (app_nats_bus J L m j) ty data = retM None" by (simp add: nats_receive_def)
qed

text \<open>A JetStream that is nothing but its durable consumers.\<close>

definition toy_jet :: "(string \<Rightarrow> string option) jet_lib" where
  "toy_jet = \<lparr>jl_add_stream = (\<lambda>j s. (None, j)), jl_in_use = ExtErr ''nats: stream name already in use'',
     jl_queue_subscribe = (\<lambda>j subj c. case j (cs_durable c) of
        Some s \<Rightarrow> (if s = subj then None else Some (ExtErr ''nats: subject does not match consumer''), j)
      | None \<Rightarrow> (None, j(cs_durable c \<mapsto> subj))),
     jl_filter = (\<lambda>j d. j d)\<rparr>"

lemma durable_law_toy: "durable_law toy_jet"
  by (auto simp: durable_law_def toy_jet_def split: option.splits if_splits)

lemma nats_serves_one_type_witness:
  "nats_receive toy_libs app_registry (app_nats_bus toy_jet toy_libs toy_mailer Map.empty) UserRegisteredEvent ''{}'' = retM None"
proof -
  have "fst (js_subscribe toy_jet Map.empty (event_subject TodoCreatedEvent)) = None"
    by (simp add: js_subscribe_def toy_jet_def event_consumer_def)
  moreover have "UserRegisteredEvent \<noteq> TodoCreatedEvent" by (simp add: event_type_defs)
  ultimately show ?thesis using nats_serves_one_type [OF durable_law_toy] by blast
qed

text \<open>With the NATS driver and no URL the service dies at start.\<close>

lemma nats_without_url_panics:
  assumes "cf_events_driver cfg = ''nats''"
  shows "fst (start_event_bus J False cfg s) = Panic ''runtime error: invalid memory address or nil pointer dereference''"
  using assms by (simp add: start_event_bus_def panicM_def)

end
