(* ===== verification/Lifecycle.thy ===== *)
theory Lifecycle
  imports Mailers
begin

text \<open>
  From start to exit: what the constructors of the infrastructure do (\<open>internal/shared/database\<close>,
  \<open>internal/shared/telemetry\<close>, \<open>internal/infrastructure/cache\<close>), and \<open>main\<close> and \<open>run\<close> of
  \<open>cmd/api/main.go\<close> as a state machine of the main goroutine, the goroutine of the server, the requests in
  flight, the signal and the timer of the shutdown. Which constructors fx calls is in \<open>Assembly\<close>.
\<close>

section \<open>The database\<close>

record db_pool =
  dp_dsn :: string
  dp_max_open :: int
  dp_max_idle :: int
  dp_lifetime :: time

definition database_dsn :: "database_config \<Rightarrow> string" where
  "database_dsn c = ''host='' @ dbc_host c @ '' port='' @ itoa (dbc_port c) @ '' user='' @ dbc_user c @
     '' password='' @ dbc_password c @ '' dbname='' @ dbc_name c @ '' sslmode='' @ dbc_ssl_mode c"

text \<open>\<open>sql.Open\<close> only reads the DSN, which the driver may refuse; a database that does not answer is a warning.\<close>

definition new_postgres_db :: "(string \<Rightarrow> goerr option) \<Rightarrow> config \<Rightarrow> (world, db_pool) gop" where
  "new_postgres_db open_err cfg = (let c = cf_database cfg in
     bindM (wrapM ''open database'' (case open_err (database_dsn c) of Some e \<Rightarrow> errM e | None \<Rightarrow> retM ())) (\<lambda>_.
     tryM noopM (\<lambda>r. bindM (in_background (case r of
         Inl e \<Rightarrow> logM ''warn'' ''database not reachable'' [(''error'', err_text e)]
       | Inr _ \<Rightarrow> logM ''info'' ''connected to database'' [(''host'', dbc_host c), (''port'', itoa (dbc_port c))])) (\<lambda>_.
     retM \<lparr>dp_dsn = database_dsn c, dp_max_open = dbc_max_open_conns c, dp_max_idle = dbc_max_idle_conns c,
       dp_lifetime = dbc_conn_max_lifetime c * second\<rparr>))))"

text \<open>The pool is there whether or not the database is, once the driver accepts the DSN.\<close>

lemma new_postgres_db_opens:
  assumes "open_err (database_dsn (cf_database cfg)) = None"
  shows "\<exists>p. fst (new_postgres_db open_err cfg w) = Ok p \<and> dp_dsn p = database_dsn (cf_database cfg)"
  using assms
  by (auto simp: new_postgres_db_def Let_def op_defs in_background_def noopM_def extM_def
      split: prod.splits list.splits option.splits sum.splits)

text \<open>The values of the DSN are not quoted, so a blank in one of them starts another setting.\<close>

lemma dsn_not_quoted:
  "database_dsn (c\<lparr>dbc_password := pw @ '' dbname='' @ other\<rparr>) =
     ''host='' @ dbc_host c @ '' port='' @ itoa (dbc_port c) @ '' user='' @ dbc_user c @ '' password='' @ pw @
     '' dbname='' @ other @ '' dbname='' @ dbc_name c @ '' sslmode='' @ dbc_ssl_mode c"
  by (simp add: database_dsn_def)

section \<open>Redis\<close>

record redis_options =
  ro_addr :: string
  ro_password :: string
  ro_db :: int
  ro_pool_size :: int

definition new_redis_client :: "config \<Rightarrow> redis_options" where
  "new_redis_client cfg = \<lparr>ro_addr = rdc_addr (cf_redis cfg), ro_password = rdc_password (cf_redis cfg),
     ro_db = rdc_db (cf_redis cfg), ro_pool_size = rdc_pool_size (cf_redis cfg)\<rparr>"

section \<open>Telemetry\<close>

text \<open>The library: making an exporter and a resource, and shutting a provider down.\<close>

record 'r tracing_lib =
  tl_exporter :: "string \<Rightarrow> (world, unit) gop"
  tl_resource :: "string \<Rightarrow> string \<Rightarrow> 'r \<times> goerr option"
  tl_shutdown :: "(world, unit) gop"

datatype 'r tracer_provider = PlainProvider | BatchProvider string 'r rat

text \<open>\<open>te_hooks\<close> are the \<open>OnStop\<close> hooks, \<open>te_propagator\<close> says whether the propagator of W3C contexts is set.\<close>

record 'r telemetry =
  te_provider :: "'r tracer_provider"
  te_propagator :: bool
  te_hooks :: "(world, unit) gop list"

definition stop_tracer :: "'r tracing_lib \<Rightarrow> (world, unit) gop" where
  "stop_tracer T = tryM (tl_shutdown T) (\<lambda>r. case r of
      Inl e \<Rightarrow> bindM (in_background (logM ''warn'' ''failed to shutdown tracer provider'' [(''error'', err_text e)])) (\<lambda>_. errM e)
    | Inr _ \<Rightarrow> in_background (logM ''info'' ''tracer provider shutdown complete'' []))"

definition plain_telemetry :: "'r telemetry" where
  "plain_telemetry = \<lparr>te_provider = PlainProvider, te_propagator = False, te_hooks = []\<rparr>"

definition new_tracer_provider :: "'r tracing_lib \<Rightarrow> config \<Rightarrow> (world, 'r telemetry) gop" where
  "new_tracer_provider T cfg = (let c = cf_telemetry cfg; endpoint = tlc_exporter_endpoint c in
     if endpoint = '''' then
       bindM (in_background (logM ''warn'' ''telemetry exporter endpoint not configured, tracing disabled'' [])) (\<lambda>_.
       retM plain_telemetry)
     else tryM (tl_exporter T endpoint) (\<lambda>r. case r of
       Inl e \<Rightarrow> bindM (in_background (logM ''warn'' ''failed to create trace exporter'' [(''error'', err_text e)])) (\<lambda>_.
         retM plain_telemetry)
     | Inr _ \<Rightarrow> (case tl_resource T (tlc_service_name c) (app_env (cf_app cfg)) of (res, err) \<Rightarrow>
         bindM (case err of
             Some e \<Rightarrow> in_background (logM ''warn'' ''failed to create resource'' [(''error'', err_text e)])
           | None \<Rightarrow> retM ()) (\<lambda>_.
         bindM (in_background (logM ''info'' ''telemetry initialized''
             [(''service'', tlc_service_name c), (''endpoint'', endpoint)])) (\<lambda>_.
         retM \<lparr>te_provider = BatchProvider endpoint res (tlc_sample_rate c), te_propagator = True,
           te_hooks = [stop_tracer T]\<rparr>)))))"

text \<open>Telemetry never keeps the service from starting; it has a hook exactly when spans are exported.\<close>

lemma new_tracer_provider_starts:
  assumes "\<And>ep p w. fst (tl_exporter T ep w) \<noteq> Panic p"
  shows "\<exists>t. fst (new_tracer_provider T cfg w) = Ok t \<and> (te_hooks t = [] \<longleftrightarrow> te_provider t = PlainProvider)"
proof (cases "tl_exporter T (tlc_exporter_endpoint (cf_telemetry cfg)) w")
  case (Pair r w')
  then have "r \<noteq> Panic p" for p using assms by (metis fst_conv)
  then show ?thesis using Pair
    by (cases r) (auto simp: new_tracer_provider_def Let_def op_defs in_background_def plain_telemetry_def
        split: prod.splits option.splits)
qed

text \<open>
  \<open>RecordError\<close> and \<open>RecordPanic\<close> of \<open>telemetry/error.go\<close>: nothing happens for a nil error or without a span
  that records. Nobody calls them.
\<close>

definition record_error :: "(goerr \<Rightarrow> string) \<Rightarrow> goerr option \<Rightarrow> (world, unit) gop" where
  "record_error type_of err = (case err of
      None \<Rightarrow> retM ()
    | Some e \<Rightarrow> spanM (span_add_event ''exception''
        [(''exception.type'', AString (type_of e)), (''exception.message'', AString (err_text e))] \<circ>
        set_span_status (err_text e) \<circ> span_record_error e))"

definition record_panic :: "string \<Rightarrow> string \<Rightarrow> (world, unit) gop" where
  "record_panic recovered stack = (let e = Errorf recovered in
     spanM (span_add_event ''exception''
        [(''exception.type'', AString ''panic''), (''exception.message'', AString (err_text e)),
         (''exception.stacktrace'', AString stack)] \<circ>
        set_span_status ''panic'' \<circ> span_record_error e))"

section \<open>The server\<close>

record http_server =
  sv_addr :: string
  sv_read_timeout :: time
  sv_write_timeout :: time
  sv_idle_timeout :: time

definition main_server :: "config \<Rightarrow> http_server" where
  "main_server cfg = (let c = cf_server cfg in
     \<lparr>sv_addr = '':'' @ itoa (srv_port c), sv_read_timeout = srv_read_timeout c * second,
      sv_write_timeout = srv_write_timeout c * second, sv_idle_timeout = srv_idle_timeout c * second\<rparr>)"

definition config_banner :: "config \<Rightarrow> string" where
  "config_banner cfg = ''[config] env='' @ app_env (cf_app cfg) @ '' log_format='' @ lgc_format (cf_log cfg) @
     '' log_level='' @ lgc_level (cf_log cfg) @ [CHR 0x0A]"


section \<open>The process\<close>

text \<open>
  Where the main goroutine is: reading the configuration, in \<open>fx.New\<close>, in \<open>app.Start\<close>, waiting for the
  signal, in \<open>srv.Shutdown\<close>, in \<open>app.Stop\<close>. The server is bound by its own goroutine.
\<close>

datatype main_at = AtConfig | AtBuild | AtStart | AtWait | AtShutdown | AtStop
datatype serve_at = NotStarted | Binding | Listening | ServerClosed
datatype exit_status = Exit nat | Killed

text \<open>
  \<open>ps_open\<close> are the requests in flight, \<open>ps_expired\<close> is the end of the 15 seconds, \<open>ps_hooks\<close> are the hooks
  still to run, \<open>ps_stopped\<close> the ones that have run, \<open>ps_failed\<close> the errors of those.
\<close>

record process =
  ps_main :: main_at
  ps_server :: serve_at
  ps_open :: nat
  ps_signal :: bool
  ps_expired :: bool
  ps_hooks :: "string list"
  ps_stopped :: "string list"
  ps_failed :: "goerr list"
  ps_stdout :: string
  ps_stderr :: string
  ps_exit :: "exit_status option"

definition initial_process :: process where
  "initial_process = \<lparr>ps_main = AtConfig, ps_server = NotStarted, ps_open = 0, ps_signal = False, ps_expired = False,
     ps_hooks = [], ps_stopped = [], ps_failed = [], ps_stdout = '''', ps_stderr = '''', ps_exit = None\<rparr>"

text \<open>\<open>main\<close> prints the error of \<open>run\<close> and exits with 1.\<close>

definition exit_with :: "goerr \<Rightarrow> process \<Rightarrow> process" where
  "exit_with e s = s\<lparr>ps_stderr := ps_stderr s @ ''error: '' @ err_text e @ [CHR 0x0A], ps_exit := Some (Exit 1)\<rparr>"

definition stop_error :: "goerr list \<Rightarrow> goerr" where
  "stop_error es = Wrapf ''stop app'' (if length es = 1 then hd es
     else Errorf (concat (map (\<lambda>(i, e). (if i = 0 then '''' else ''; '') @ err_text e) (enumerate 0 es))))"

text \<open>
  The steps. \<open>cfg\<close> is what \<open>config.New\<close> gives and \<open>hooks\<close> the hooks that the constructors append. A
  panic of a constructor ends the process with 2, its error is that of \<open>app.Start\<close>. The hooks are listed in the
  order in which fx stops them. A signal before \<open>NotifyContext\<close>, that is before \<open>app.Start\<close>, kills the process; later ones only end the
  context. The goroutine of the server ends the process with \<open>log.Fatal\<close> when it cannot listen or accept;
  once \<open>Shutdown\<close> has been called it returns quietly. fx runs every hook, also after one has failed.
\<close>

inductive run_step :: "goerr + config \<Rightarrow> string list \<Rightarrow> process \<Rightarrow> process \<Rightarrow> bool"
  for cfg :: "goerr + config" and hooks :: "string list" where
  config_fails: "\<lbrakk>ps_exit s = None; ps_main s = AtConfig; cfg = Inl e\<rbrakk> \<Longrightarrow>
    run_step cfg hooks s (exit_with (Wrapf ''load config'' e) s)"
| config_loads: "\<lbrakk>ps_exit s = None; ps_main s = AtConfig; cfg = Inr c\<rbrakk> \<Longrightarrow>
    run_step cfg hooks s (s\<lparr>ps_main := AtBuild, ps_stdout := ps_stdout s @ config_banner c\<rparr>)"
| killed: "\<lbrakk>ps_exit s = None; ps_main s \<in> {AtConfig, AtBuild}\<rbrakk> \<Longrightarrow> run_step cfg hooks s (s\<lparr>ps_exit := Some Killed\<rparr>)"
| built: "\<lbrakk>ps_exit s = None; ps_main s = AtBuild\<rbrakk> \<Longrightarrow> run_step cfg hooks s (s\<lparr>ps_main := AtStart, ps_hooks := hooks\<rparr>)"
| build_panics: "\<lbrakk>ps_exit s = None; ps_main s = AtBuild\<rbrakk> \<Longrightarrow> run_step cfg hooks s (s\<lparr>ps_exit := Some (Exit 2)\<rparr>)"
| start_fails: "\<lbrakk>ps_exit s = None; ps_main s = AtStart\<rbrakk> \<Longrightarrow> run_step cfg hooks s (exit_with (Wrapf ''start app'' e) s)"
| started: "\<lbrakk>ps_exit s = None; ps_main s = AtStart\<rbrakk> \<Longrightarrow>
    run_step cfg hooks s (s\<lparr>ps_main := AtWait, ps_server := Binding\<rparr>)"
| signal: "\<lbrakk>ps_exit s = None; ps_main s \<notin> {AtConfig, AtBuild}; \<not> ps_signal s\<rbrakk> \<Longrightarrow>
    run_step cfg hooks s (s\<lparr>ps_signal := True\<rparr>)"
| bound: "\<lbrakk>ps_exit s = None; ps_server s = Binding\<rbrakk> \<Longrightarrow> run_step cfg hooks s (s\<lparr>ps_server := Listening\<rparr>)"
| server_fails: "\<lbrakk>ps_exit s = None; ps_server s \<in> {Binding, Listening}\<rbrakk> \<Longrightarrow>
    run_step cfg hooks s (s\<lparr>ps_exit := Some (Exit 1)\<rparr>)"
| request_comes: "\<lbrakk>ps_exit s = None; ps_server s = Listening\<rbrakk> \<Longrightarrow> run_step cfg hooks s (s\<lparr>ps_open := Suc (ps_open s)\<rparr>)"
| request_ends: "\<lbrakk>ps_exit s = None; ps_open s = Suc n\<rbrakk> \<Longrightarrow> run_step cfg hooks s (s\<lparr>ps_open := n\<rparr>)"
| shutdown_begins: "\<lbrakk>ps_exit s = None; ps_main s = AtWait; ps_signal s\<rbrakk> \<Longrightarrow>
    run_step cfg hooks s (s\<lparr>ps_main := AtShutdown, ps_server := ServerClosed\<rparr>)"
| time_is_up: "\<lbrakk>ps_exit s = None; ps_main s = AtShutdown; \<not> ps_expired s\<rbrakk> \<Longrightarrow>
    run_step cfg hooks s (s\<lparr>ps_expired := True\<rparr>)"
| drained: "\<lbrakk>ps_exit s = None; ps_main s = AtShutdown; ps_open s = 0\<rbrakk> \<Longrightarrow> run_step cfg hooks s (s\<lparr>ps_main := AtStop\<rparr>)"
| close_fails: "\<lbrakk>ps_exit s = None; ps_main s = AtShutdown; ps_open s = 0\<rbrakk> \<Longrightarrow>
    run_step cfg hooks s (exit_with (Wrapf ''shutdown server'' e) s)"
| shutdown_fails: "\<lbrakk>ps_exit s = None; ps_main s = AtShutdown; ps_expired s\<rbrakk> \<Longrightarrow>
    run_step cfg hooks s (exit_with (Wrapf ''shutdown server'' (Errorf ''context deadline exceeded'')) s)"
| hook_runs: "\<lbrakk>ps_exit s = None; ps_main s = AtStop; ps_hooks s = h # hs\<rbrakk> \<Longrightarrow>
    run_step cfg hooks s (s\<lparr>ps_hooks := hs, ps_stopped := ps_stopped s @ [h]\<rparr>)"
| hook_fails: "\<lbrakk>ps_exit s = None; ps_main s = AtStop; ps_hooks s = h # hs\<rbrakk> \<Longrightarrow>
    run_step cfg hooks s (s\<lparr>ps_hooks := hs, ps_stopped := ps_stopped s @ [h], ps_failed := ps_failed s @ [e]\<rparr>)"
| stopped: "\<lbrakk>ps_exit s = None; ps_main s = AtStop; ps_hooks s = []; ps_failed s = []\<rbrakk> \<Longrightarrow>
    run_step cfg hooks s (s\<lparr>ps_exit := Some (Exit 0)\<rparr>)"
| stop_fails: "\<lbrakk>ps_exit s = None; ps_main s = AtStop; ps_hooks s = []; ps_failed s \<noteq> []\<rbrakk> \<Longrightarrow>
    run_step cfg hooks s (exit_with (stop_error (ps_failed s)) s)"

inductive_cases run_stepE: "run_step cfg hooks s s'"

lemma exit_with_sel [simp]:
  "ps_exit (exit_with e s) = Some (Exit 1)" "ps_main (exit_with e s) = ps_main s" "ps_server (exit_with e s) = ps_server s"
  "ps_open (exit_with e s) = ps_open s" "ps_signal (exit_with e s) = ps_signal s" "ps_hooks (exit_with e s) = ps_hooks s"
  "ps_stopped (exit_with e s) = ps_stopped s" "ps_failed (exit_with e s) = ps_failed s" "ps_expired (exit_with e s) = ps_expired s"
  by (simp_all add: exit_with_def)

section \<open>What holds of every state\<close>

definition process_ok :: "string list \<Rightarrow> process \<Rightarrow> bool" where
  "process_ok hooks s \<longleftrightarrow>
     (ps_main s \<in> {AtConfig, AtBuild, AtStart} \<longrightarrow> ps_server s = NotStarted \<and> ps_open s = 0) \<and>
     (ps_main s \<in> {AtShutdown, AtStop} \<longrightarrow> ps_server s = ServerClosed \<and> ps_signal s) \<and>
     (ps_main s = AtStop \<longrightarrow> ps_open s = 0) \<and>
     (ps_main s \<notin> {AtConfig, AtBuild} \<longrightarrow> ps_stopped s @ ps_hooks s = hooks) \<and>
     (ps_main s \<noteq> AtStop \<longrightarrow> ps_stopped s = [] \<and> ps_failed s = []) \<and>
     (ps_exit s = Some (Exit 0) \<longrightarrow> ps_main s = AtStop \<and> ps_hooks s = [] \<and> ps_failed s = [])"

lemma run_steps_then:
  "run_step cfg hooks s t \<Longrightarrow> (run_step cfg hooks)\<^sup>*\<^sup>* t u \<Longrightarrow> (run_step cfg hooks)\<^sup>*\<^sup>* s u"
  by (rule converse_rtranclp_into_rtranclp)

text \<open>A run up to the shutdown, with one request still in flight.\<close>

lemma run_to_shutdown:
  "(run_step (Inr c) hooks)\<^sup>*\<^sup>* initial_process (initial_process\<lparr>ps_main := AtShutdown, ps_server := ServerClosed,
     ps_open := 1, ps_signal := True, ps_hooks := hooks, ps_stdout := config_banner c\<rparr>)"
proof -
  let ?b = "initial_process\<lparr>ps_main := AtBuild, ps_stdout := config_banner c\<rparr>"
  let ?s = "?b\<lparr>ps_main := AtStart, ps_hooks := hooks\<rparr>"
  let ?w = "?s\<lparr>ps_main := AtWait, ps_server := Binding\<rparr>"
  let ?l = "?w\<lparr>ps_server := Listening\<rparr>"
  let ?r = "?l\<lparr>ps_open := Suc (ps_open ?l)\<rparr>"
  let ?g = "?r\<lparr>ps_signal := True\<rparr>"
  let ?d = "?g\<lparr>ps_main := AtShutdown, ps_server := ServerClosed\<rparr>"
  have "run_step (Inr c) hooks initial_process ?b"
    using config_loads [of initial_process "Inr c" c hooks] by (simp add: initial_process_def)
  moreover have "run_step (Inr c) hooks ?b ?s" by (rule built) (simp_all add: initial_process_def)
  moreover have "run_step (Inr c) hooks ?s ?w" by (rule started) (simp_all add: initial_process_def)
  moreover have "run_step (Inr c) hooks ?w ?l" by (rule bound) (simp_all add: initial_process_def)
  moreover have "run_step (Inr c) hooks ?l ?r" by (rule request_comes) (simp_all add: initial_process_def)
  moreover have "run_step (Inr c) hooks ?r ?g" by (rule run_step.signal) (simp_all add: initial_process_def)
  moreover have "run_step (Inr c) hooks ?g ?d" by (rule shutdown_begins) (simp_all add: initial_process_def)
  ultimately have "(run_step (Inr c) hooks)\<^sup>*\<^sup>* initial_process ?d"
    by (meson run_steps_then rtranclp.rtrancl_refl)
  then show ?thesis by (simp add: initial_process_def)
qed

lemma process_ok_initial: "process_ok hooks initial_process"
  by (simp add: process_ok_def initial_process_def)

lemma process_ok_step: "run_step cfg hooks s s' \<Longrightarrow> process_ok hooks s \<Longrightarrow> process_ok hooks s'"
  by (erule run_stepE) (auto simp: process_ok_def)

lemma process_ok_run: "(run_step cfg hooks)\<^sup>*\<^sup>* s s' \<Longrightarrow> process_ok hooks s \<Longrightarrow> process_ok hooks s'"
  by (induction rule: rtranclp_induct) (auto intro: process_ok_step)

text \<open>
  C21: exit status 0 means an orderly end. Whatever the interleaving of the main goroutine, the server, the
  requests, the signal and the timer: a process that exits with 0 got the signal, had closed the server and
  let every request finish, and had run all stop hooks without an error.
\<close>

theorem clean_exit:
  assumes "(run_step cfg hooks)\<^sup>*\<^sup>* initial_process s" "ps_exit s = Some (Exit 0)"
  shows "ps_signal s \<and> ps_server s = ServerClosed \<and> ps_open s = 0 \<and> ps_stopped s = hooks \<and> ps_failed s = []"
  using process_ok_run [OF assms(1) process_ok_initial] assms(2) by (auto simp: process_ok_def)

lemma clean_exit_witness:
  "\<forall>c. \<exists>s. (run_step (Inr c) [''tracer''])\<^sup>*\<^sup>* initial_process s \<and> ps_exit s = Some (Exit 0) \<and>
     ps_signal s \<and> ps_server s = ServerClosed \<and> ps_open s = 0 \<and> ps_stopped s = [''tracer''] \<and> ps_failed s = []"
proof
  fix c
  let ?d = "initial_process\<lparr>ps_main := AtShutdown, ps_server := ServerClosed, ps_open := 1, ps_signal := True,
     ps_hooks := [''tracer''], ps_stdout := config_banner c\<rparr>"
  let ?e = "?d\<lparr>ps_open := 0\<rparr>"
  let ?t = "?e\<lparr>ps_main := AtStop\<rparr>"
  let ?h = "?t\<lparr>ps_hooks := [], ps_stopped := ps_stopped ?t @ [''tracer'']\<rparr>"
  let ?x = "?h\<lparr>ps_exit := Some (Exit 0)\<rparr>"
  have "run_step (Inr c) [''tracer''] ?d ?e" by (rule request_ends) (simp_all add: initial_process_def)
  moreover have "run_step (Inr c) [''tracer''] ?e ?t" by (rule drained) (simp_all add: initial_process_def)
  moreover have "run_step (Inr c) [''tracer''] ?t ?h" by (rule hook_runs) (simp_all add: initial_process_def)
  moreover have "run_step (Inr c) [''tracer''] ?h ?x" by (rule run_step.stopped) (simp_all add: initial_process_def)
  ultimately have "(run_step (Inr c) [''tracer''])\<^sup>*\<^sup>* ?d ?x" by (meson run_steps_then rtranclp.rtrancl_refl)
  then have "(run_step (Inr c) [''tracer''])\<^sup>*\<^sup>* initial_process ?x" by (rule rtranclp_trans [OF run_to_shutdown])
  moreover have "ps_exit ?x = Some (Exit 0)" by simp
  ultimately show "\<exists>s. (run_step (Inr c) [''tracer''])\<^sup>*\<^sup>* initial_process s \<and> ps_exit s = Some (Exit 0) \<and>
     ps_signal s \<and> ps_server s = ServerClosed \<and> ps_open s = 0 \<and> ps_stopped s = [''tracer''] \<and> ps_failed s = []"
    using clean_exit by blast
qed

section \<open>The end\<close>

text \<open>What is left to do once the shutdown has begun; a request is one thing, a hook another.\<close>

definition remaining :: "process \<Rightarrow> nat" where
  "remaining s = ps_open s + length (ps_hooks s) + (if ps_expired s then 0 else 1) +
     (if ps_main s = AtShutdown then 1 else 0) + (if ps_exit s = None then 1 else 0)"

definition ending :: "process \<Rightarrow> bool" where
  "ending s \<longleftrightarrow> ps_main s \<in> {AtShutdown, AtStop}"

lemma remaining_step:
  assumes "run_step cfg hooks s s'" "process_ok hooks s" "ending s"
  shows "remaining s' < remaining s \<and> ending s'"
  using assms by (elim run_stepE) (auto simp: process_ok_def remaining_def ending_def)

lemma remaining_steps:
  "(run_step cfg hooks ^^ n) s s' \<Longrightarrow> process_ok hooks s \<Longrightarrow> ending s \<Longrightarrow> remaining s' + n \<le> remaining s \<and> ending s'"
proof (induction n arbitrary: s')
  case 0
  then show ?case by simp
next
  case (Suc n)
  then obtain t where t: "(run_step cfg hooks ^^ n) s t" "run_step cfg hooks t s'" by auto
  have "process_ok hooks t" using process_ok_run [OF relpowp_imp_rtranclp [OF t(1)] Suc.prems(2)] .
  then show ?case using Suc.IH [OF t(1) Suc.prems(2,3)] remaining_step [OF t(2)] by fastforce
qed

lemma ending_moves:
  assumes "ending s" "ps_exit s = None"
  shows "\<exists>s'. run_step cfg hooks s s'"
proof (cases "ps_main s = AtShutdown")
  case True
  then show ?thesis using assms(2) by (cases "ps_expired s") (blast intro: shutdown_fails, blast intro: time_is_up)
next
  case False
  then have stop: "ps_main s = AtStop" using assms(1) by (simp add: ending_def)
  show ?thesis
  proof (cases "ps_hooks s")
    case Nil
    then show ?thesis using stop assms(2) by (cases "ps_failed s = []") (blast intro: run_step.stopped, blast intro: stop_fails)
  next
    case (Cons h hs)
    then show ?thesis using stop assms(2) by (blast intro: hook_runs)
  qed
qed

text \<open>
  C20: the shutdown ends. Once \<open>srv.Shutdown\<close> has been called, at most as many steps are left as there are
  requests in flight and stop hooks, and three more; and where no step is left the process has exited. The
  exit does not wait for a request that never ends: it comes in two steps, with status 1, when the 15 seconds are up.
\<close>

theorem shutdown_ends:
  assumes "(run_step cfg hooks)\<^sup>*\<^sup>* initial_process s" "ps_main s = AtShutdown"
  shows "((run_step cfg hooks ^^ n) s s' \<longrightarrow> n \<le> ps_open s + length hooks + 3) \<and>
    ((run_step cfg hooks)\<^sup>*\<^sup>* s s' \<longrightarrow> (\<forall>s''. \<not> run_step cfg hooks s' s'') \<longrightarrow> ps_exit s' \<noteq> None) \<and>
    (ps_exit s = None \<longrightarrow> \<not> ps_expired s \<longrightarrow>
      (\<exists>u. (run_step cfg hooks ^^ 2) s u \<and> ps_exit u = Some (Exit 1) \<and> ps_open u = ps_open s \<and> ps_stopped u = []))"
proof (intro conjI impI)
  have ok: "process_ok hooks s" using process_ok_run [OF assms(1) process_ok_initial] .
  have e: "ending s" using assms(2) by (simp add: ending_def)
  have "remaining s \<le> ps_open s + length hooks + 3" using ok assms(2) by (auto simp: remaining_def process_ok_def)
  then show "n \<le> ps_open s + length hooks + 3" if "(run_step cfg hooks ^^ n) s s'"
    using remaining_steps [OF that ok e] by simp
  show "ps_exit s' \<noteq> None" if run: "(run_step cfg hooks)\<^sup>*\<^sup>* s s'" and stuck: "\<forall>s''. \<not> run_step cfg hooks s' s''"
  proof -
    obtain k where "(run_step cfg hooks ^^ k) s s'" using rtranclp_imp_relpowp [OF run] by blast
    then have "ending s'" using remaining_steps [OF _ ok e] by blast
    then show ?thesis using ending_moves [of s' cfg hooks] stuck by blast
  qed
  assume live: "ps_exit s = None" "\<not> ps_expired s"
  have "run_step cfg hooks s (s\<lparr>ps_expired := True\<rparr>)" using live assms(2) by (intro time_is_up)
  moreover have "run_step cfg hooks (s\<lparr>ps_expired := True\<rparr>)
      (exit_with (Wrapf ''shutdown server'' (Errorf ''context deadline exceeded'')) (s\<lparr>ps_expired := True\<rparr>))"
    using live(1) assms(2) by (intro shutdown_fails) simp_all
  ultimately have "(run_step cfg hooks ^^ 2) s
      (exit_with (Wrapf ''shutdown server'' (Errorf ''context deadline exceeded'')) (s\<lparr>ps_expired := True\<rparr>))"
    by (auto simp: numeral_2_eq_2 relcompp_apply)
  moreover have "ps_stopped s = []" using ok assms(2) by (auto simp: process_ok_def)
  ultimately show "\<exists>u. (run_step cfg hooks ^^ 2) s u \<and> ps_exit u = Some (Exit 1) \<and> ps_open u = ps_open s \<and> ps_stopped u = []"
    by (intro exI [of _ "exit_with (Wrapf ''shutdown server'' (Errorf ''context deadline exceeded'')) (s\<lparr>ps_expired := True\<rparr>)"])
      simp
qed

lemma shutdown_ends_witness:
  "\<forall>c. \<exists>s u. (run_step (Inr c) [''tracer''])\<^sup>*\<^sup>* initial_process s \<and> ps_main s = AtShutdown \<and>
     (run_step (Inr c) [''tracer''] ^^ 2) s u \<and> ps_exit u = Some (Exit 1) \<and> ps_open u = 1 \<and> ps_stopped u = []"
proof
  fix c
  let ?d = "initial_process\<lparr>ps_main := AtShutdown, ps_server := ServerClosed, ps_open := 1, ps_signal := True,
     ps_hooks := [''tracer''], ps_stdout := config_banner c\<rparr>"
  have "ps_main ?d = AtShutdown" "ps_exit ?d = None" "\<not> ps_expired ?d" "ps_open ?d = 1" by (simp_all add: initial_process_def)
  then show "\<exists>s u. (run_step (Inr c) [''tracer''])\<^sup>*\<^sup>* initial_process s \<and> ps_main s = AtShutdown \<and>
     (run_step (Inr c) [''tracer''] ^^ 2) s u \<and> ps_exit u = Some (Exit 1) \<and> ps_open u = 1 \<and> ps_stopped u = []"
    using shutdown_ends [OF run_to_shutdown [of c "[''tracer'']"]] run_to_shutdown [of c "[''tracer'']"] by metis
qed

end
