(* ===== verification/Assembly.thy ===== *)
theory Assembly
  imports Prelude
begin

text \<open>
  The graph of constructors that \<open>cmd/api/main.go\<close> gives to \<open>fx.New\<close>: one list of providers per \<open>fx.Module\<close>
  of the code, the functions it invokes, and the variables \<open>fx.Populate\<close> fills. fx itself is not modelled:
  \<open>construction\<close> states what its documentation promises of the calls it makes (a constructor is called at
  most once, only when something asks for its result, and after the constructors of its arguments), in
  whatever order. A Go type is its name with its package.
\<close>

section \<open>Constructors and modules\<close>

text \<open>\<open>pv_fallible\<close>: the constructor also returns an error, with which \<open>fx.New\<close> fails.\<close>

record provider =
  pv_name :: string
  pv_needs :: "string list"
  pv_gives :: string
  pv_fallible :: bool

definition ctor :: "string \<Rightarrow> string list \<Rightarrow> string \<Rightarrow> provider" where
  "ctor f needs gives = \<lparr>pv_name = f, pv_needs = needs, pv_gives = gives, pv_fallible = False\<rparr>"

definition ctor_err :: "string \<Rightarrow> string list \<Rightarrow> string \<Rightarrow> provider" where
  "ctor_err f needs gives = (ctor f needs gives)\<lparr>pv_fallible := True\<rparr>"

text \<open>An invoked function is the list of the types of its parameters; \<open>fm_modules\<close> are the modules inside a module.\<close>

datatype fx_module = Fx_Module
  (fm_modules: "fx_module list") (fm_provides: "provider list") (fm_invokes: "string list list")

fun module_provides :: "fx_module \<Rightarrow> provider list" where
  "module_provides (Fx_Module ms ps is) = concat (map module_provides ms) @ ps"

fun module_invokes :: "fx_module \<Rightarrow> string list list" where
  "module_invokes (Fx_Module ms ps is) = concat (map module_invokes ms) @ is"

definition cqrs_module :: fx_module where
  "cqrs_module = Fx_Module []
    [ctor ''cqrs.NewInMemoryCommandBus'' [] ''cqrs.CommandBus'',
     ctor ''cqrs.NewInMemoryQueryBus'' [] ''cqrs.QueryBus'']
    []"

definition zap_module :: fx_module where
  "zap_module = Fx_Module []
    [ctor_err ''logger.NewZapLogger'' [''*config.Config''] ''domain.Logger'',
     ctor ''logger.NewZapStdLogger'' [''domain.Logger''] ''*zap.Logger'']
    []"

definition redis_module :: fx_module where
  "redis_module = Fx_Module []
    [ctor_err ''cache.NewRedisCache'' [''*redis.Client''] ''domain.Cache'',
     ctor ''cache.NewRedisClient'' [''*config.Config''] ''*redis.Client'']
    []"

definition jwt_module :: fx_module where
  "jwt_module = Fx_Module []
    [ctor ''auth.NewJWTTokenService'' [''*config.Config''] ''domain.TokenService'']
    []"

text \<open>The anonymous functions of \<open>messaging\<close> give the messenger as an interface and its stream.\<close>

definition nats_module :: fx_module where
  "nats_module = Fx_Module []
    [ctor_err ''messaging.NewNATSMessenger'' [''*config.Config''] ''*messaging.NATSMessenger'',
     ctor ''messaging.func1'' [''*messaging.NATSMessenger''] ''domain.Messenger'',
     ctor ''messaging.func2'' [''*messaging.NATSMessenger''] ''nats.JetStreamContext'']
    []"

definition database_module :: fx_module where
  "database_module = Fx_Module []
    [ctor_err ''database.NewPostgresDB'' [''*config.Config'', ''*zap.Logger''] ''*sql.DB'']
    []"

definition telemetry_module :: fx_module where
  "telemetry_module = Fx_Module []
    [ctor_err ''telemetry.NewTracerProvider'' [''*config.Config'', ''*zap.Logger'', ''fx.Lifecycle'']
      ''*trace.TracerProvider'']
    [[''*trace.TracerProvider'']]"

definition validator_module :: fx_module where
  "validator_module = Fx_Module []
    [ctor ''validator.New'' [] ''*validator.Validator'']
    []"

definition email_module :: fx_module where
  "email_module = Fx_Module []
    [ctor ''email.NewEmailer'' [''*config.Config'', ''domain.Logger''] ''domain.Emailer'']
    []"

definition events_module :: fx_module where
  "events_module = Fx_Module []
    [ctor ''events.provideEventBus'' [''*config.Config'', ''nats.JetStreamContext'', ''domain.Logger'']
      ''events.EventBus'']
    []"

text \<open>The modules of the service; a type of a module carries the name of the module, since \<open>UserRepository\<close> and
  \<open>Handler\<close> are declared in several of them.\<close>

definition authentication_module :: fx_module where
  "authentication_module = Fx_Module []
    [ctor ''authentication.NewUserRepository'' [''*sql.DB''] ''authentication.UserRepository'',
     ctor ''authentication.NewRefreshTokenRepository'' [''*sql.DB''] ''authentication.RefreshTokenRepository'',
     ctor ''authentication.NewEmailHandler'' [''domain.Emailer''] ''*authentication.EmailHandler'',
     ctor ''authentication.NewHandler'' [''cqrs.CommandBus'', ''cqrs.QueryBus'', ''*validator.Validator'']
       ''*authentication.Handler'']
    [[''cqrs.CommandBus'', ''cqrs.QueryBus'', ''authentication.UserRepository'',
      ''authentication.RefreshTokenRepository'', ''domain.TokenService'', ''events.EventBus''],
     []]"

definition casbin_module :: fx_module where
  "casbin_module = Fx_Module []
    [ctor_err ''casbin.NewEnforcer'' [''*casbin.Adapter''] ''*casbin.Enforcer'']
    []"

definition authorization_module :: fx_module where
  "authorization_module = Fx_Module [casbin_module]
    [ctor ''authorization.NewRoleRepository'' [''*sql.DB'', ''*tenantfilter.Config'']
      ''authorization.RoleRepository'',
     ctor ''authorization.NewPermissionRepository'' [''*sql.DB'', ''*tenantfilter.Config'']
       ''authorization.PermissionRepository'',
     ctor ''authorization.NewUserRoleRepository'' [''*sql.DB''] ''authorization.UserRoleRepository'',
     ctor ''authorization.NewRolePermissionRepository'' [''*sql.DB'']
       ''authorization.RolePermissionRepository'',
     ctor ''casbin.NewAdapter'' [''*sql.DB''] ''*casbin.Adapter'',
     ctor ''authorization.NewHandler'' [''cqrs.CommandBus'', ''cqrs.QueryBus'', ''*validator.Validator'']
       ''*authorization.Handler'',
     ctor ''authorization.NewAuthorizationProvider'' [''authorization.UserRoleRepository'']
       ''authorization.AuthorizationProvider'']
    [[''cqrs.CommandBus'', ''cqrs.QueryBus'', ''authorization.RoleRepository'',
      ''authorization.PermissionRepository'', ''authorization.UserRoleRepository'',
      ''authorization.RolePermissionRepository'', ''*casbin.Enforcer'']]"

definition monitoring_module :: fx_module where
  "monitoring_module = Fx_Module []
    [ctor ''prometheus.NewRecorder'' [] ''*prometheus.Recorder'',
     ctor ''monitoring.func1'' [''*prometheus.Recorder''] ''monitoring.MetricsRecorder'',
     ctor ''monitoring.NewMetricsHandler'' [] ''http.Handler'']
    []"

definition todo_module :: fx_module where
  "todo_module = Fx_Module []
    [ctor ''todo.NewTodoRepository'' [''*sql.DB'', ''*tenantfilter.Config''] ''todo.TodoRepository'',
     ctor ''todo.NewTodoDomainService'' [''todo.TodoRepository''] ''*todo.TodoDomainService'',
     ctor ''todo.NewTodoEventHandler'' [''domain.Logger''] ''*todo.TodoEventHandler'',
     ctor ''todo.NewHandler'' [''cqrs.CommandBus'', ''cqrs.QueryBus'', ''*validator.Validator'']
       ''*todo.Handler'']
    [[''cqrs.CommandBus'', ''cqrs.QueryBus'', ''*todo.TodoDomainService'', ''events.EventBus''],
     [''events.EventBus'', ''*todo.TodoEventHandler''],
     []]"

definition user_module :: fx_module where
  "user_module = Fx_Module []
    [ctor ''user.NewUserRepository'' [''*sql.DB'', ''*tenantfilter.Config''] ''user.UserRepository'',
     ctor ''user.NewHandler'' [''cqrs.CommandBus'', ''cqrs.QueryBus''] ''*user.Handler'',
     ctor ''user.NewUserProfileProvider'' [''cqrs.QueryBus'', ''authorization.AuthorizationProvider'']
       ''user.UserProfileProvider'']
    [[''cqrs.CommandBus'', ''cqrs.QueryBus'', ''user.UserRepository'',
      ''authorization.AuthorizationProvider'']]"

definition tenant_module :: fx_module where
  "tenant_module = Fx_Module []
    [ctor ''tenant.NewTenantRepository'' [''*sql.DB''] ''tenant.TenantRepository'',
     ctor ''tenant.NewHandler'' [''cqrs.CommandBus'', ''cqrs.QueryBus'', ''*validator.Validator'']
       ''*tenant.Handler'']
    [[''cqrs.CommandBus'', ''cqrs.QueryBus'', ''tenant.TenantRepository'']]"

text \<open>What \<open>run\<close> passes to \<open>fx.New\<close>: the configuration it supplies, beside the life cycle that fx provides, the
  variables it fills, and the application.\<close>

definition main_supplied :: "string list" where
  "main_supplied = [''*config.Config'', ''fx.Lifecycle'']"

definition main_populates :: "string list" where
  "main_populates = [''*authentication.Handler'', ''*todo.Handler'', ''*authorization.Handler'', ''*user.Handler'',
     ''*tenant.Handler'', ''*casbin.Enforcer'', ''domain.Logger'', ''*sql.DB'',
     ''*redis.Client'', ''domain.TokenService'', ''*auditlog.Repository'', ''monitoring.MetricsRecorder'',
     ''http.Handler'', ''*messaging.NATSMessenger'']"

definition main_shared :: "provider list" where
  "main_shared = [ctor ''auditlog.NewRepository'' [''*sql.DB''] ''*auditlog.Repository'',
     ctor ''main.func1'' [''*config.Config''] ''*tenantfilter.Config'']"

definition main_app :: fx_module where
  "main_app = Fx_Module
    [cqrs_module, zap_module, redis_module, jwt_module, nats_module,
     database_module, telemetry_module, validator_module, email_module, events_module,
     authentication_module, authorization_module, monitoring_module, todo_module, user_module,
     tenant_module]
    main_shared
    ([''events.EventBus'', ''*authentication.EmailHandler''] # map (\<lambda>t. [t]) main_populates)"

definition main_providers :: "provider list" where
  "main_providers = module_provides main_app"

definition main_requests :: "string list" where
  "main_requests = concat (module_invokes main_app)"

section \<open>The calls fx makes\<close>

text \<open>The types something asks for, directly or as the argument of a constructor of a type asked for.\<close>

inductive needed :: "provider list \<Rightarrow> string list \<Rightarrow> string \<Rightarrow> bool" for ps reqs where
  asked: "t \<in> set reqs \<Longrightarrow> needed ps reqs t"
| argument: "needed ps reqs (pv_gives p) \<Longrightarrow> p \<in> set ps \<Longrightarrow> t \<in> set (pv_needs p) \<Longrightarrow> needed ps reqs t"

fun args_first :: "string list \<Rightarrow> provider list \<Rightarrow> bool" where
  "args_first got [] = True"
| "args_first got (p # cs) = (set (pv_needs p) \<subseteq> set got \<and> args_first (pv_gives p # got) cs)"

definition construction :: "provider list \<Rightarrow> string list \<Rightarrow> string list \<Rightarrow> provider list \<Rightarrow> bool" where
  "construction ps giv reqs cs \<longleftrightarrow> distinct cs \<and> set cs \<subseteq> set ps \<and> args_first giv cs \<and>
     (\<forall>p \<in> set cs. needed ps reqs (pv_gives p)) \<and> set reqs \<subseteq> set giv \<union> pv_gives ` set cs"

lemma args_first_given:
  "args_first got cs \<Longrightarrow> p \<in> set cs \<Longrightarrow> t \<in> set (pv_needs p) \<Longrightarrow> t \<in> set got \<union> pv_gives ` set cs"
  by (induction cs arbitrary: got) fastforce+

text \<open>The calls seen from the last one back: each gives something that is asked for by then.\<close>

fun asked_back :: "string list \<Rightarrow> provider list \<Rightarrow> bool" where
  "asked_back reqs [] = True"
| "asked_back reqs (p # cs) = (pv_gives p \<in> set reqs \<and> asked_back (pv_needs p @ reqs) cs)"

lemma asked_back_needed:
  "asked_back rs cs \<Longrightarrow> set cs \<subseteq> set ps \<Longrightarrow> \<forall>t \<in> set rs. needed ps reqs t \<Longrightarrow> p \<in> set cs \<Longrightarrow> needed ps reqs (pv_gives p)"
proof (induction cs arbitrary: rs)
  case (Cons q cs)
  then have "\<forall>t \<in> set (pv_needs q @ rs). needed ps reqs t"
    by (auto intro: needed.argument)
  with Cons show ?case by auto
qed simp

text \<open>A list of types that has what is asked for, and the arguments of what it has, has all that is needed.\<close>

definition needs_closed :: "provider list \<Rightarrow> string list \<Rightarrow> bool" where
  "needs_closed ps ts \<longleftrightarrow> list_all (\<lambda>p. pv_gives p \<in> set ts \<longrightarrow> set (pv_needs p) \<subseteq> set ts) ps"

lemma needed_within:
  assumes "needed ps reqs t" "set reqs \<subseteq> set ts" "needs_closed ps ts"
  shows "t \<in> set ts"
  using assms by (induction rule: needed.induct) (auto simp: needs_closed_def list_all_iff)

text \<open>Where every type is given once, the calls are the same in whatever order fx makes them.\<close>

locale container =
  fixes ps :: "provider list" and giv :: "string list"
  assumes one_each: "distinct (map pv_gives ps @ giv)"
begin

lemma same_provider: "p \<in> set ps \<Longrightarrow> q \<in> set ps \<Longrightarrow> pv_gives p = pv_gives q \<Longrightarrow> p = q"
  using one_each by (auto simp: distinct_map dest: inj_onD)

lemma needed_given:
  assumes "construction ps giv reqs cs" "needed ps reqs t"
  shows "t \<in> set giv \<union> pv_gives ` set cs"
  using assms(2)
proof (induction rule: needed.induct)
  case (asked t)
  then show ?case using assms(1) by (auto simp: construction_def)
next
  case (argument p t)
  then have "p \<in> set cs"
    using one_each assms(1) same_provider by (auto simp: construction_def)
  then show ?case
    using argument.hyps(3) assms(1) args_first_given by (simp add: construction_def)
qed

lemma calls_needed:
  assumes "construction ps giv reqs cs" "p \<in> set ps"
  shows "p \<in> set cs \<longleftrightarrow> needed ps reqs (pv_gives p)"
proof
  show "p \<in> set cs \<Longrightarrow> needed ps reqs (pv_gives p)" using assms(1) by (simp add: construction_def)
next
  assume "needed ps reqs (pv_gives p)"
  then have "pv_gives p \<in> pv_gives ` set cs"
    using needed_given[OF assms(1)] one_each assms(2) by auto
  then show "p \<in> set cs" using assms same_provider by (auto simp: construction_def)
qed

end

section \<open>The application\<close>

lemmas module_defs = cqrs_module_def zap_module_def redis_module_def jwt_module_def nats_module_def
  database_module_def telemetry_module_def validator_module_def email_module_def events_module_def
  authentication_module_def casbin_module_def authorization_module_def monitoring_module_def todo_module_def
  user_module_def tenant_module_def

lemmas main_graph = main_providers_def main_requests_def main_populates_def main_supplied_def main_app_def main_shared_def
  module_defs ctor_def ctor_err_def

interpretation main_container: container main_providers main_supplied
  by unfold_locales (simp add: main_graph)

text \<open>One order of calls: module by module, the constructor of the enforcer after that of its adapter, and without
  the three constructors nobody asks for.\<close>

definition main_unused :: "string list" where
  "main_unused = [''domain.Cache'', ''domain.Messenger'', ''user.UserProfileProvider'']"

definition main_order :: "provider list" where
  "main_order = filter (\<lambda>p. pv_gives p \<notin> set main_unused) (concat (map module_provides
     [cqrs_module, zap_module, redis_module, jwt_module, nats_module, database_module, telemetry_module,
      validator_module, email_module, events_module]) @ main_shared @ module_provides authentication_module @
     rotate1 (module_provides authorization_module) @ concat (map module_provides
     [monitoring_module, todo_module, user_module, tenant_module]))"

lemmas main_order_eval = main_order_def main_unused_def main_graph

lemma main_order_in: "set main_order \<subseteq> set main_providers"
  by (auto simp: main_order_def main_providers_def main_app_def)

lemma main_order_backwards: "asked_back main_requests (rev main_order)"
  by (simp add: main_order_eval)

lemma main_order_distinct: "distinct (map pv_gives main_order)"
  by (simp add: main_order_eval)

lemma main_order_args: "args_first main_supplied main_order"
  by (simp add: main_order_eval)

lemma main_order_answers: "set main_requests \<subseteq> set main_supplied \<union> pv_gives ` set main_order"
  by (simp add: main_order_eval)

lemma main_order_constructs: "construction main_providers main_supplied main_requests main_order"
proof -
  have "needed main_providers main_requests (pv_gives p)" if "p \<in> set main_order" for p
    using asked_back_needed[OF main_order_backwards, of main_providers] main_order_in that
    by (auto intro: needed.asked)
  then show ?thesis
    using main_order_in main_order_args main_order_answers main_order_distinct
    by (auto simp: construction_def distinct_map)
qed

text \<open>Whatever order fx chooses: a start that comes through calls every constructor but the three, the connection to
  NATS also where the events stay in memory, and never the cache over Redis.\<close>

lemma main_construction:
  assumes "construction main_providers main_supplied main_requests cs" "p \<in> set main_providers"
  shows "p \<in> set cs \<longleftrightarrow> pv_gives p \<notin> {''domain.Cache'', ''domain.Messenger'', ''user.UserProfileProvider''}"
proof -
  have "p \<in> set cs \<longleftrightarrow> p \<in> set main_order"
    using main_container.calls_needed[OF assms] main_container.calls_needed[OF main_order_constructs assms(2)] by simp
  moreover have "p \<in> set main_order \<longleftrightarrow> pv_gives p \<notin> set main_unused"
    using assms(2) by (auto simp: main_order_def main_providers_def main_app_def)
  ultimately show ?thesis by (simp add: main_unused_def)
qed

text \<open>The constructors whose errors end the start.\<close>

lemma main_failures:
  "map pv_name (filter pv_fallible main_order) = [''logger.NewZapLogger'', ''messaging.NewNATSMessenger'',
     ''database.NewPostgresDB'', ''telemetry.NewTracerProvider'', ''casbin.NewEnforcer'']"
  by (simp add: main_order_eval)

end
