(* ===== verification/Auth_Mail.thy ===== *)
theory Auth_Mail
  imports Auth_Recovery Mailers
begin

text \<open>
  Registration and password recovery through the mail that is sent: the event bus in memory with the
  handlers of the service, the mailer of the configuration over SMTP or SendGrid, the rendered template,
  and the link in it. What is in the mail is what the next request has to bring.
\<close>

section \<open>The mailer of the configuration\<close>

definition smtp_of :: "email_config \<Rightarrow> smtp_mailer" where
  "smtp_of c = \<lparr>sm_host = smc_host (emc_smtp c), sm_port = smc_port (emc_smtp c),
     sm_username = smc_username (emc_smtp c), sm_password = smc_password (emc_smtp c),
     sm_use_tls = smc_use_tls (emc_smtp c), sm_from = emc_from c, sm_from_name = emc_from_name c,
     sm_frontend_url = emc_frontend_url c\<rparr>"

definition mail_sender :: "mail_lib \<Rightarrow> email_config \<Rightarrow> string \<Rightarrow> string \<Rightarrow> string \<Rightarrow> (world, unit) gop" where
  "mail_sender M c = (if emc_provider c = ''smtp'' then smtp_send M (smtp_of c)
     else sendgrid_send M (emc_sendgrid_api_key c) (emc_from c) (emc_from_name c))"

definition by_mail :: "config \<Rightarrow> bool" where
  "by_mail cfg \<longleftrightarrow> emc_provider (cf_email cfg) \<in> {''smtp'', ''sendgrid''} \<and> cf_events_driver cfg \<noteq> ''nats''"

lemma by_mail_bus:
  assumes "by_mail cfg"
  shows "provide_event_bus L M cfg =
    app_publish L (mailer_with M (emc_frontend_url (cf_email cfg)) (mail_sender M (cf_email cfg)))"
  using assms
  by (auto simp: by_mail_def provide_event_bus_def app_publish_def new_emailer_def smtp_emailer_def
      sendgrid_emailer_def mail_sender_def smtp_of_def)

text \<open>
  What is relied on of the mail server and of the templates: a message is taken, and \<open>letter\<close> is what it
  is to the receiver; a template is rendered to the page of its data.
\<close>

definition posts ::
  "(string \<Rightarrow> string \<Rightarrow> string \<Rightarrow> (world, unit) gop) \<Rightarrow> (string \<Rightarrow> string \<Rightarrow> string \<Rightarrow> email) \<Rightarrow> bool" where
  "posts send letter \<longleftrightarrow>
     (\<forall>to subject body w. send to subject body w = (Ok (), w\<lparr>outbox := outbox w @ [letter to subject body]\<rparr>))"

definition renders :: "mail_lib \<Rightarrow> (string \<Rightarrow> template_data \<Rightarrow> string) \<Rightarrow> bool" where
  "renders M page \<longleftrightarrow> (\<forall>name d. ml_execute M (name @ ''.html'') d = Inr (page name d))"

lemma send_runs:
  assumes "posts send letter" "renders M page"
  shows "send_verification (mailer_with M f send) to name tok w = (Ok (), w\<lparr>outbox := outbox w @
      [letter to ''Verify your email address''
        (page ''verification'' (no_data\<lparr>td_name := name, td_verify_url := verify_url f tok\<rparr>))]\<rparr>)"
    "send_password_reset (mailer_with M f send) to name tok w = (Ok (), w\<lparr>outbox := outbox w @
      [letter to ''Reset your password''
        (page ''password_reset'' (no_data\<lparr>td_name := name, td_reset_url := reset_url f tok\<rparr>))]\<rparr>)"
    "send_welcome (mailer_with M f send) to name w = (Ok (), w\<lparr>outbox := outbox w @
      [letter to (''Welcome '' @ name @ ''!'') (page ''welcome'' (no_data\<lparr>td_name := name\<rparr>))]\<rparr>)"
proof -
  have r: "render_template M n d = retM (page n d)" for n d
    using assms(2) by (simp add: render_template_def renders_def)
  show "send_verification (mailer_with M f send) to name tok w = (Ok (), w\<lparr>outbox := outbox w @
      [letter to ''Verify your email address''
        (page ''verification'' (no_data\<lparr>td_name := name, td_verify_url := verify_url f tok\<rparr>))]\<rparr>)"
    "send_password_reset (mailer_with M f send) to name tok w = (Ok (), w\<lparr>outbox := outbox w @
      [letter to ''Reset your password''
        (page ''password_reset'' (no_data\<lparr>td_name := name, td_reset_url := reset_url f tok\<rparr>))]\<rparr>)"
    "send_welcome (mailer_with M f send) to name w = (Ok (), w\<lparr>outbox := outbox w @
      [letter to (''Welcome '' @ name @ ''!'') (page ''welcome'' (no_data\<lparr>td_name := name\<rparr>))]\<rparr>)"
    using assms(1) by (simp_all add: mailer_with_def r posts_def)
qed

lemma mailing_post: "(\<And>w. m w = (Ok (), w\<lparr>outbox := f w\<rparr>)) \<Longrightarrow> mailing m"
proof (rule mailingI)
  fix w
  assume "\<And>w. m w = (Ok (), w\<lparr>outbox := f w\<rparr>)"
  then show "\<exists>r ms ls sp. m w = (r, w\<lparr>outbox := ms, logs := ls, active_span := sp\<rparr>) \<and> (\<forall>p. r \<noteq> Panic p)"
    by (intro exI [of _ "Ok ()"] exI [of _ "f w"] exI [of _ "logs w"] exI [of _ "active_span w"]) simp
qed

lemma by_mail_only:
  assumes "by_mail cfg" "posts (mail_sender M (cf_email cfg)) letter" "renders M page"
  shows "mail_only (provide_event_bus L M cfg)"
  unfolding by_mail_bus [OF assms(1)]
  by (rule mail_only_app) (simp add: mailer_only_def mailing_post [OF send_runs(1) [OF assms(2,3)]]
      mailing_post [OF send_runs(2) [OF assms(2,3)]] mailing_post [OF send_runs(3) [OF assms(2,3)]])

text \<open>What the two events become: one mail to their address, with their token in the link.\<close>

definition verification_mail ::
  "(string \<Rightarrow> string \<Rightarrow> string \<Rightarrow> email) \<Rightarrow> (string \<Rightarrow> template_data \<Rightarrow> string) \<Rightarrow> config \<Rightarrow> string \<Rightarrow> string \<Rightarrow> string \<Rightarrow> email" where
  "verification_mail letter page cfg to name tok = letter to ''Verify your email address''
     (page ''verification'' (no_data\<lparr>td_name := name,
        td_verify_url := emc_frontend_url (cf_email cfg) @ ''/verify-email?token='' @ tok\<rparr>))"

definition reset_mail ::
  "(string \<Rightarrow> string \<Rightarrow> string \<Rightarrow> email) \<Rightarrow> (string \<Rightarrow> template_data \<Rightarrow> string) \<Rightarrow> config \<Rightarrow> string \<Rightarrow> string \<Rightarrow> string \<Rightarrow> email" where
  "reset_mail letter page cfg to name tok = letter to ''Reset your password''
     (page ''password_reset'' (no_data\<lparr>td_name := name,
        td_reset_url := emc_frontend_url (cf_email cfg) @ ''/reset-password?token='' @ tok\<rparr>))"

lemma events_mailed:
  assumes "by_mail cfg" "posts (mail_sender M (cf_email cfg)) letter" "renders M page"
  shows "ignoreM (provide_event_bus L M cfg (user_registered e n tok)) w =
      (Ok (), w\<lparr>outbox := outbox w @ [verification_mail letter page cfg e n tok]\<rparr>)"
    "ignoreM (provide_event_bus L M cfg (reset_requested u tok)) w =
      (Ok (), w\<lparr>outbox := outbox w @ [reset_mail letter page cfg (u_email u) (u_name u) tok]\<rparr>)"
  unfolding by_mail_bus [OF assms(1)]
  by (simp_all add: app_publish_def publish_logged_def publish_memory_one app_handlers_at user_registered_def
      reset_requested_def on_user_registered_def on_password_reset_requested_def ignoreM_def op_defs
      send_runs [OF assms(2,3)] verification_mail_def reset_mail_def verify_url_def reset_url_def)

section \<open>Registration\<close>

text \<open>
  C12: Registering a new address sends exactly one mail, to that address, and the token in its link is the
  one that verifies the account: before, a login with the registered password is refused as unverified,
  afterwards it succeeds. The mail goes through the event bus in memory, the handlers that are registered
  there and the mailer of the configuration.
\<close>

theorem register_verify_login:
  assumes "accounts_ready w" "e \<notin> us_email ` set (users (db w))" "uuids w (drawn w) \<notin> us_id ` set (users (db w))"
    "by_mail cfg" "posts (mail_sender M (cf_email cfg)) letter" "renders M page"
    "bcrypt_law L" "bcrypt_hash L pw (rands w (rolled w)) \<noteq> None"
    "token_unused (db w) ''email_verification'' (hash_token L (hex_encode (rands w (Suc (rolled w)))))"
    "\<And>m n. clock w m < clock w n + 24 * hour"
  shows "\<exists>u w1 tok ms w2 u'. handle_register L pg_user_repo (provide_event_bus L M cfg) e pw name w = (Ok u, w1) \<and>
    outbox w1 = outbox w @ [verification_mail letter page cfg e name tok] \<and>
    fst (handle_login L pg_user_repo e pw w1) = Err (Sentinel Query_ErrEmailNotVerified) \<and>
    handle_verify_email L pg_user_repo (provide_event_bus L M cfg) tok w1 = (Ok ms, w2) \<and>
    fst (handle_login L pg_user_repo e pw w2) = Ok u' \<and> e_id u' = uuids w (drawn w)"
proof -
  let ?tok = "hex_encode (rands w (Suc (rolled w)))" and ?bus = "provide_event_bus L M cfg"
  note bus = by_mail_only [OF assms(4-6), of L]
  obtain h where h: "bcrypt_hash L pw (rands w (rolled w)) = Some h" using assms(8) by blast
  then have c: "bcrypt_check L h pw" using assms(7) by (simp add: bcrypt_law_def)
  obtain u w1 ts k a v where w1: "handle_register L pg_user_repo ?bus e pw name w = (Ok u, w1)" "accounts_ready w1"
      "clock w1 = clock w" "user_tokens (db w1) = user_tokens (db w) @ ts"
      "map token_key ts = [(uuids w (drawn w), ''email_verification'', Some (hash_token L ?tok), Some (clock w k + 24 * hour), None)]"
      "account w1 e = Some a" "e_id a = uuids w (drawn w)" "u_password a = h" "u_is_active a"
      "\<not> u_email_verified a" "u_locked_until a = None"
    and v: "outbox v = outbox w" "ignoreM (?bus (user_registered e name ?tok)) v = (Ok (), w1)"
    using register_run [OF assms(1-3) bus h, of name] by (elim exE conjE) (rule that)
  have mail: "outbox w1 = outbox w @ [verification_mail letter page cfg e name ?tok]"
    using v unfolding events_mailed(1) [OF assms(4-6)] by auto
  have t: "token_for (db w1) ''email_verification'' (hash_token L ?tok) (e_id a) (clock w k + 24 * hour)"
    using token_for_append [OF w1(5) assms(9) w1(4)] w1(7) by simp
  have x: "\<And>m. clock w1 m < clock w k + 24 * hour" using assms(10) w1(3) by simp
  obtain w2 now where w2: "handle_verify_email L pg_user_repo ?bus ?tok w1 = (Ok [(''message'', ''email verified successfully'')], w2)"
      "accounts_ready w2" "account w2 = (account w1)(e \<mapsto> a\<lparr>u_email_verified := True, e_updated_at := now\<rparr>)"
    using verify_run [OF w1(2,6) bus t x] by blast
  obtain w1' where l1: "handle_login L pg_user_repo e pw w1 = (login_verdict L w1 pw (account w1 e), w1')"
    using pg_accounts.login_run [OF w1(2)] by blast
  obtain w2' where l2: "handle_login L pg_user_repo e pw w2 = (login_verdict L w2 pw (account w2 e), w2')"
    using pg_accounts.login_run [OF w2(2)] by blast
  have "fst (handle_login L pg_user_repo e pw w1) = Err (Sentinel Query_ErrEmailNotVerified)"
    using l1 w1(6,9-11) by (simp add: login_verdict_def lock_passed_def)
  moreover have "fst (handle_login L pg_user_repo e pw w2) = Ok (unlock_user (a\<lparr>u_email_verified := True, e_updated_at := now\<rparr>))"
    using l2 w2(3) w1(8-11) c by (simp add: login_verdict_def lock_passed_def)
  ultimately show ?thesis
    using w1(1,7) w2(1) mail
    by (intro exI [of _ u] exI [of _ w1] exI [of _ ?tok] exI [of _ "[(''message'', ''email verified successfully'')]"]
        exI [of _ w2] exI [of _ "unlock_user (a\<lparr>u_email_verified := True, e_updated_at := now\<rparr>)"])
      (simp add: unlock_user_def)
qed

section \<open>Recovery\<close>

text \<open>
  C13: The whole recovery: asking for a forgotten password sends exactly one mail, to the address of the
  account, and the token in its link sets a new password while less than an hour has passed, if the hash of
  the token is not already in the table.
\<close>

theorem recovery_works:
  assumes "accounts_ready w" "account w e = Some u"
    "by_mail cfg" "posts (mail_sender M (cf_email cfg)) letter" "renders M page"
    "token_unused (db w) ''password_reset'' (hash_token L (hex_encode (rands w (rolled w))))"
    "\<And>m n. clock w m < clock w n + hour" "\<And>p s. bcrypt_hash L p s \<noteq> None"
  shows "\<exists>w1 tok w2. handle_forgot_password L pg_user_repo (provide_event_bus L M cfg) e w = (Ok (), w1) \<and>
    outbox w1 = outbox w @ [reset_mail letter page cfg e (u_name u) tok] \<and>
    handle_reset_password L pg_user_repo pg_refresh_repo tok pw w1 = (Ok (), w2) \<and>
    (\<exists>u'. account w2 e = Some u' \<and> bcrypt_hash L pw (rands w (Suc (rolled w))) = Some (u_password u'))"
proof -
  let ?tok = "hex_encode (rands w (rolled w))" and ?bus = "provide_event_bus L M cfg"
  obtain w1 ts now v where w1: "handle_forgot_password L pg_user_repo ?bus e w = (Ok (), w1)" "accounts_ready w1"
      "clock w1 = clock w" "rands w1 = rands w" "rolled w1 = Suc (rolled w)"
      "user_tokens (db w1) = user_tokens (db w) @ ts"
      "map token_key ts = [(e_id u, ''password_reset'', Some (hash_token L ?tok), Some (clock w (ticks w) + hour), None)]"
      "account w1 = (account w)(e \<mapsto> u\<lparr>e_updated_at := now\<rparr>)"
    and v: "outbox v = outbox w" "ignoreM (?bus (reset_requested u ?tok)) v = (Ok (), w1)"
    using forgot_run [OF assms(1,2) by_mail_only [OF assms(3-5), of L], of L] by (elim exE conjE) (rule that)
  have mail: "outbox w1 = outbox w @ [reset_mail letter page cfg e (u_name u) ?tok]"
    using v account_same [OF assms(2)] unfolding events_mailed(2) [OF assms(3-5)] by auto
  have a: "account w1 e = Some (u\<lparr>e_updated_at := now\<rparr>)" using w1(8) by simp
  have t: "token_for (db w1) ''password_reset'' (hash_token L ?tok) (e_id (u\<lparr>e_updated_at := now\<rparr>)) (clock w (ticks w) + hour)"
    using token_for_append [OF w1(7) assms(6) w1(6)] by simp
  obtain h where h: "bcrypt_hash L pw (rands w1 (rolled w1)) = Some h" using assms(8) by blast
  have x: "\<And>m. clock w1 m < clock w (ticks w) + hour" using assms(7) w1(3) by simp
  obtain w2 n where "handle_reset_password L pg_user_repo pg_refresh_repo ?tok pw w1 = (Ok (), w2)"
      "account w2 = (account w1)(e \<mapsto> u\<lparr>e_updated_at := now\<rparr>\<lparr>u_password := h, e_updated_at := n\<rparr>)"
    using reset_run [OF w1(2) a t x h] by blast
  then show ?thesis using w1(1,4,5) h mail by (intro exI [of _ w1] exI [of _ ?tok] exI [of _ w2]) simp
qed

section \<open>A mail server to try it on\<close>

text \<open>SendGrid with everything accepted: a page is the name and the two links, and the mail is what was sent.\<close>

definition toy_mail :: mail_lib where
  "toy_mail = \<lparr>ml_execute = (\<lambda>n d. Inr (td_name d @ td_verify_url d @ td_reset_url d)),
     ml_send_mail = (\<lambda>a u f t s. retM ()), ml_dial_tls = (\<lambda>a h. retM ()), ml_new_client = (\<lambda>h. retM ()),
     ml_dial = (\<lambda>a. retM ()), ml_start_tls = (\<lambda>h. retM ()), ml_auth = (\<lambda>u. retM ()), ml_mail = (\<lambda>f. retM ()),
     ml_rcpt = (\<lambda>t. retM ()), ml_data = retM (), ml_write = (\<lambda>s. retM ()), ml_close_data = retM (), ml_quit = retM (),
     ml_sendgrid = (\<lambda>k f t s c w. (Ok (), w\<lparr>outbox := outbox w @ [\<lparr>mail_to = t, mail_subject = s, mail_body = c\<rparr>]\<rparr>))\<rparr>"

definition toy_letter :: "string \<Rightarrow> string \<Rightarrow> string \<Rightarrow> email" where
  "toy_letter t s c = \<lparr>mail_to = t, mail_subject = s, mail_body = c\<rparr>"

definition toy_page :: "string \<Rightarrow> template_data \<Rightarrow> string" where
  "toy_page n d = td_name d @ td_verify_url d @ td_reset_url d"

lemma toy_mail_posts:
  assumes "emc_provider (cf_email cfg) = ''sendgrid''" "cf_events_driver cfg = ''memory''"
  shows "by_mail cfg" "posts (mail_sender toy_mail (cf_email cfg)) toy_letter" "renders toy_mail toy_page"
  using assms
  by (simp_all add: by_mail_def posts_def mail_sender_def sendgrid_send_def toy_mail_def toy_letter_def renders_def
      toy_page_def wrapM_def op_defs)


definition sendgrid_config :: "config \<Rightarrow> config" where
  "sendgrid_config c = c\<lparr>cf_events_driver := ''memory'', cf_email := (cf_email c)\<lparr>emc_provider := ''sendgrid''\<rparr>\<rparr>"

lemma toy_mail_works:
  "by_mail (sendgrid_config c)" "posts (mail_sender toy_mail (cf_email (sendgrid_config c))) toy_letter"
  "renders toy_mail toy_page"
proof -
  have "emc_provider (cf_email (sendgrid_config c)) = ''sendgrid''" "cf_events_driver (sendgrid_config c) = ''memory''"
    by (simp_all add: sendgrid_config_def)
  then show "by_mail (sendgrid_config c)" "posts (mail_sender toy_mail (cf_email (sendgrid_config c))) toy_letter"
    "renders toy_mail toy_page"
    using toy_mail_posts by blast+
qed

theorem register_verify_login_witness:
  "\<forall>c. \<exists>w1 tok ms w2 u'. outbox w1 = [verification_mail toy_letter toy_page (sendgrid_config c) ''b'' ''B'' tok] \<and>
    handle_verify_email toy_libs pg_user_repo (provide_event_bus toy_libs toy_mail (sendgrid_config c)) tok w1 = (Ok ms, w2) \<and>
    fst (handle_login toy_libs pg_user_repo ''b'' ''pw'' w2) = Ok u' \<and> e_id u' = uuids one_account (drawn one_account)"
proof
  fix c
  have "''b'' \<notin> us_email ` set (users (db one_account))"
    "uuids one_account (drawn one_account) \<notin> us_id ` set (users (db one_account))"
    by (simp_all add: one_account_def init_world_def)
  moreover have "bcrypt_hash toy_libs ''pw'' (rands one_account (rolled one_account)) \<noteq> None"
    "token_unused (db one_account) ''email_verification'' (hash_token toy_libs (hex_encode (rands one_account (Suc (rolled one_account)))))"
    "\<And>m n. clock one_account m < clock one_account n + 24 * hour"
    by (simp_all add: toy_libs_def token_unused_def one_account_def empty_db_def)
  moreover have "outbox one_account = []" by (simp add: one_account_def init_world_def)
  ultimately show "\<exists>w1 tok ms w2 u'. outbox w1 = [verification_mail toy_letter toy_page (sendgrid_config c) ''b'' ''B'' tok] \<and>
    handle_verify_email toy_libs pg_user_repo (provide_event_bus toy_libs toy_mail (sendgrid_config c)) tok w1 = (Ok ms, w2) \<and>
    fst (handle_login toy_libs pg_user_repo ''b'' ''pw'' w2) = Ok u' \<and> e_id u' = uuids one_account (drawn one_account)"
    using register_verify_login [where e = "''b''" and pw = "''pw''" and name = "''B''",
      OF one_account_facts(1) _ _ toy_mail_works(1,2) [of c] toy_mail_works(3) bcrypt_law_toy]
    by (simp only: append_Nil) blast
qed

theorem recovery_works_witness:
  "\<forall>c. \<exists>w1 tok w2. handle_forgot_password toy_libs pg_user_repo (provide_event_bus toy_libs toy_mail (sendgrid_config c)) ''a'' one_account = (Ok (), w1) \<and>
    outbox w1 = [reset_mail toy_letter toy_page (sendgrid_config c) ''a'' (u_name sample_user) tok] \<and>
    handle_reset_password toy_libs pg_user_repo pg_refresh_repo tok ''new'' w1 = (Ok (), w2)"
proof
  fix c
  have t: "token_unused (db one_account) ''password_reset''
      (hash_token toy_libs (hex_encode (rands one_account (rolled one_account))))"
    "\<And>m n. clock one_account m < clock one_account n + hour" "\<And>p s. bcrypt_hash toy_libs p s \<noteq> None"
    by (simp_all add: token_unused_def one_account_def empty_db_def toy_libs_def)
  have o: "outbox one_account = []" by (simp add: one_account_def init_world_def)
  show "\<exists>w1 tok w2. handle_forgot_password toy_libs pg_user_repo (provide_event_bus toy_libs toy_mail (sendgrid_config c)) ''a'' one_account = (Ok (), w1) \<and>
    outbox w1 = [reset_mail toy_letter toy_page (sendgrid_config c) ''a'' (u_name sample_user) tok] \<and>
    handle_reset_password toy_libs pg_user_repo pg_refresh_repo tok ''new'' w1 = (Ok (), w2)"
    using recovery_works [where pw = "''new''", OF one_account_facts(1,2) toy_mail_works(1,2) [of c] toy_mail_works(3) t]
    unfolding o append_Nil by blast
qed

end
