(* ===== verification/Auth_Live.thy ===== *)
theory Auth_Live
  imports Auth_Sessions
begin

text \<open>
  Where sessions come from: the refresh tokens of a user that are still good are never more than those there
  were and the logins that succeeded since. Refreshing replaces a token and cannot multiply it; nothing but a
  login opens a session. Requests run one after another here, the race between two of them is in
  \<open>Auth_Sessions\<close>.
\<close>

section \<open>Live sessions\<close>

text \<open>The refresh tokens of a user that are not revoked, not deleted and good at the time \<open>t\<close>.\<close>

definition live_token :: "time \<Rightarrow> uuid \<Rightarrow> refresh_tokens_row \<Rightarrow> bool" where
  "live_token t i r \<longleftrightarrow> rt_user_id r = i \<and> rt_deleted_at r = None \<and> rt_revoked_at r = None \<and> t \<le> rt_expires_at r"

definition live_sessions :: "time \<Rightarrow> uuid \<Rightarrow> database \<Rightarrow> nat" where
  "live_sessions t i d = length (filter (live_token t i) (refresh_tokens d))"

definition at_most :: "time \<Rightarrow> uuid \<Rightarrow> nat \<Rightarrow> database \<Rightarrow> bool" where
  "at_most t i k d \<longleftrightarrow> live_sessions t i d \<le> k"

text \<open>The logins of a run of commands that the password was right for, as the user \<open>i\<close>.\<close>

definition login_user :: "auth_env \<Rightarrow> auth_command \<Rightarrow> world \<Rightarrow> uuid option" where
  "login_user E c w = (case c of
      SignIn email pw ttl \<Rightarrow> (case fst (handle_login (ae_libs E) pg_user_repo email pw w) of
         Ok u \<Rightarrow> Some (e_id u) | _ \<Rightarrow> None)
    | _ \<Rightarrow> None)"

fun logins_as :: "auth_env \<Rightarrow> uuid \<Rightarrow> auth_command list \<Rightarrow> world \<Rightarrow> nat" where
  "logins_as E i [] w = 0"
| "logins_as E i (c # cs) w =
     (if login_user E c w = Some i then 1 else 0) + logins_as E i cs (snd (run_auth_command E c w))"

lemma at_most_other [simp]:
  "at_most t i k (d\<lparr>users := us\<rparr>) = at_most t i k d" "at_most t i k (d\<lparr>user_credentials := cs\<rparr>) = at_most t i k d"
  "at_most t i k (d\<lparr>user_security := ss\<rparr>) = at_most t i k d" "at_most t i k (d\<lparr>user_tokens := ts\<rparr>) = at_most t i k d"
  by (simp_all add: at_most_def live_sessions_def)

lemma filter_update_where:
  "(\<And>x. \<not> Q (f x)) \<Longrightarrow> filter Q (update_where P f xs) = filter (\<lambda>x. Q x \<and> \<not> P x) xs"
  by (induction xs) auto

lemma length_filter_mono: "(\<And>x. Q x \<Longrightarrow> R x) \<Longrightarrow> length (filter Q xs) \<le> length (filter R xs)"
  by (induction xs) (auto intro: le_SucI)

lemma length_filter_less: "x \<in> set xs \<Longrightarrow> Q x \<Longrightarrow> P x \<Longrightarrow> length (filter (\<lambda>x. Q x \<and> \<not> P x) xs) < length (filter Q xs)"
proof (induction xs)
  case (Cons y xs)
  then show ?case
    using length_filter_mono [of "\<lambda>x. Q x \<and> \<not> P x" Q xs] by (cases "x = y") (auto simp: less_Suc_eq_le)
qed simp

text \<open>Revoking ends sessions, at least one where one is revoked that was live.\<close>

definition revoked_where :: "(refresh_tokens_row \<Rightarrow> bool) \<Rightarrow> time \<Rightarrow> database \<Rightarrow> database" where
  "revoked_where P now d = d\<lparr>refresh_tokens := update_where
     (\<lambda>r. P r \<and> rt_deleted_at r = None \<and> rt_revoked_at r = None)
     (\<lambda>r. r\<lparr>rt_revoked_at := Some now, rt_updated_at := now\<rparr>) (refresh_tokens d)\<rparr>"

lemma revoked_live:
  "live_sessions t i (revoked_where P now d) \<le> live_sessions t i d"
  "r \<in> set (refresh_tokens d) \<Longrightarrow> live_token t i r \<Longrightarrow> P r \<Longrightarrow> live_sessions t i (revoked_where P now d) < live_sessions t i d"
proof -
  let ?P = "\<lambda>r. P r \<and> rt_deleted_at r = None \<and> rt_revoked_at r = None"
  have e: "live_sessions t i (revoked_where P now d) = length (filter (\<lambda>r. live_token t i r \<and> \<not> ?P r) (refresh_tokens d))"
    by (simp add: live_sessions_def revoked_where_def filter_update_where live_token_def)
  show "live_sessions t i (revoked_where P now d) \<le> live_sessions t i d"
    unfolding e unfolding live_sessions_def by (rule length_filter_mono) simp
  assume "r \<in> set (refresh_tokens d)" "live_token t i r" "P r"
  then show "live_sessions t i (revoked_where P now d) < live_sessions t i d"
    unfolding e unfolding live_sessions_def by (intro length_filter_less [of r]) (auto simp: live_token_def)
qed

lemma revoke_where_cases:
  assumes "revoke_where P w = (res, w')"
  shows "(\<exists>e. res = Err e \<and> db w' = db w) \<or> (\<exists>now. res = Ok () \<and> db w' = revoked_where P now (db w))"
proof -
  have "execM (revoked_where P (clock w (ticks w))) (w\<lparr>ticks := Suc (ticks w)\<rparr>) = (res, w')"
    using assms by (simp add: revoke_where_def op_defs revoked_where_def [abs_def])
  from sqlM_cases [OF this [unfolded execM_def]] show ?thesis by auto
qed

lemma keeps_at_most_revoke: "keeps (on_db (at_most t i k)) (revoke_where P)"
  unfolding revoke_where_def
  by (intro keeps_rules) (auto simp: at_most_def intro: le_trans revoked_live(1) [unfolded revoked_where_def])

lemma keeps_at_most_writes [keeps_rules]:
  "keeps (on_db (at_most t i k)) (pg_user_create u)" "keeps (on_db (at_most t i k)) (pg_user_update u)"
  "keeps (on_db (at_most t i k)) (pg_refresh_revoke s)" "keeps (on_db (at_most t i k)) (pg_refresh_revoke_all j)"
  unfolding pg_user_create_def pg_user_update_def insert_tokens_def sql_insert_user_def sql_insert_credentials_def
    sql_insert_security_def sql_insert_token_def sql_update_user_def sql_upsert_credentials_def
    sql_upsert_security_def pg_refresh_revoke_def pg_refresh_revoke_all_def Let_def
  by (intro keeps_rules keeps_at_most_revoke; auto split: if_splits)+

text \<open>
  Only storing a new token can add to the live ones; with that taken out the repositories keep the number, and so
  does every handler that stores none.
\<close>

definition storing_none :: refresh_repo where
  "storing_none = pg_refresh_repo\<lparr>refresh_create := \<lambda>k. retM ()\<rparr>"

interpretation no_new_session: auth_invariant "at_most t i k" pg_user_repo storing_none for t i k
  by unfold_locales (simp_all add: keeps_rules storing_none_def)

lemma reset_stores_none: "handle_reset_password L repo storing_none tok pw = handle_reset_password L repo pg_refresh_repo tok pw"
proof -
  have "refresh_revoke_all storing_none = refresh_revoke_all pg_refresh_repo"
    by (simp add: storing_none_def pg_refresh_repo_def)
  then show ?thesis unfolding handle_reset_password_def by (simp only:)
qed

section \<open>Issuing tokens\<close>

definition leads :: "('s \<Rightarrow> bool) \<Rightarrow> ('s \<Rightarrow> bool) \<Rightarrow> ('s, 'a) gop \<Rightarrow> bool" where
  "leads I J m \<longleftrightarrow> (\<forall>w. I w \<longrightarrow> J (snd (m w)))"

lemma leads_bindM:
  assumes "keeps I m" "\<And>x. leads I J (f x)" "\<And>w. I w \<Longrightarrow> J w"
  shows "leads I J (bindM m f)"
  unfolding leads_def
proof (intro allI impI)
  fix w
  assume "I w"
  moreover from keepsD [OF assms(1) this] have "I (snd (m w))" .
  ultimately show "J (snd (bindM m f w))"
    using assms(2,3) unfolding leads_def by (cases "m w"; cases "fst (m w)") (auto simp: bindM_def)
qed

lemma leads_last: "leads I J m \<Longrightarrow> keeps J (f ()) \<Longrightarrow> leads I J (bindM m (\<lambda>_ :: unit. f ()))"
  unfolding leads_def
proof (intro allI impI)
  fix w
  assume a: "\<forall>w. I w \<longrightarrow> J (snd (m w))" "keeps J (f ())" "I w"
  then have "J (snd (m w))" by blast
  then show "J (snd (bindM m (\<lambda>_. f ()) w))"
    using keepsD [OF a(2)] by (cases "m w"; cases "fst (m w)") (auto simp: bindM_def)
qed

lemma refresh_create_adds:
  "leads (on_db (at_most t i k)) (on_db (at_most t i (Suc k))) (pg_refresh_create x)"
  "k_user_id x \<noteq> i \<Longrightarrow> keeps (on_db (at_most t i k)) (pg_refresh_create x)"
proof -
  show "keeps (on_db (at_most t i k)) (pg_refresh_create x)" if "k_user_id x \<noteq> i"
    unfolding pg_refresh_create_def
    by (intro keeps_rules) (use that in \<open>simp add: at_most_def live_sessions_def live_token_def\<close>)
  show "leads (on_db (at_most t i k)) (on_db (at_most t i (Suc k))) (pg_refresh_create x)"
    unfolding leads_def
  proof (intro allI impI)
    fix w
    assume w: "on_db (at_most t i k) w"
    have "snd (pg_refresh_create x w) = snd (insertM
       (\<lambda>d. [(e_id x \<notin> rt_id ` set (refresh_tokens d), unique_violation ''refresh_tokens_pkey''),
           (k_token x \<notin> rt_token ` set (refresh_tokens d), unique_violation ''refresh_tokens_token_key''),
           (k_user_id x \<in> us_id ` set (users d), fk_violation ''refresh_tokens_user_id_fkey'')])
       (\<lambda>d. d\<lparr>refresh_tokens := refresh_tokens d @
        [\<lparr>rt_id = e_id x, rt_user_id = k_user_id x, rt_token = k_token x, rt_expires_at = k_expires_at x,
          rt_revoked_at = None, rt_created_at = e_created_at x, rt_updated_at = e_updated_at x,
          rt_deleted_at = None\<rparr>]\<rparr>) w)" (is "_ = snd (?m w)")
      unfolding pg_refresh_create_def wrapM_def by (simp add: op_defs split: prod.splits outcome.splits)
    moreover obtain r w1 where m: "?m w = (r, w1)" by fastforce
    ultimately have "snd (pg_refresh_create x w) = w1" by simp
    then show "on_db (at_most t i (Suc k)) (snd (pg_refresh_create x w))"
      using w insertM_cases [OF m] by (auto simp: on_db_def at_most_def live_sessions_def)
  qed
qed

lemma new_refresh_token_user: "new_refresh_token i s t w = (Ok k, w') \<Longrightarrow> k_user_id k = i"
  by (auto simp: new_refresh_token_def op_defs new_entity_def)

lemma generate_adds:
  "leads (on_db (at_most t i k)) (on_db (at_most t i (Suc k)))
     (handle_generate_tokens L pg_refresh_repo (ae_tokens E) cx u ttl)"
  "e_id u \<noteq> i \<Longrightarrow> keeps (on_db (at_most t i k)) (handle_generate_tokens L pg_refresh_repo (ae_tokens E) cx u ttl)"
proof -
  show "leads (on_db (at_most t i k)) (on_db (at_most t i (Suc k)))
     (handle_generate_tokens L pg_refresh_repo (ae_tokens E) cx u ttl)"
    unfolding handle_generate_tokens_def Let_def pg_refresh_repo_sel
    by (intro leads_bindM leads_last refresh_create_adds keeps_rules keeps_jwt no_new_session.keeps_random_token)
      (auto simp: on_db_def at_most_def)
  assume i: "e_id u \<noteq> i"
  have inner: "keeps (on_db (at_most t i k)) (bindM (new_refresh_token (e_id u) s x) (\<lambda>k. bindM (pg_refresh_create k) (\<lambda>_. retM v)))"
    for s x v
  proof (rule keepsI)
    fix w
    assume w: "on_db (at_most t i k) w"
    show "on_db (at_most t i k) (snd (bindM (new_refresh_token (e_id u) s x) (\<lambda>k. bindM (pg_refresh_create k) (\<lambda>_. retM v)) w))"
    proof (cases "new_refresh_token (e_id u) s x w :: (goerr, refresh_token) outcome \<times> world")
      case (Pair r w1)
      have w1: "on_db (at_most t i k) w1" using keepsE [OF keeps_new_refresh_token w Pair] .
      have "keeps (on_db (at_most t i k)) (bindM (pg_refresh_create y) (\<lambda>_. retM v))" if "r = Ok y" for y
        using new_refresh_token_user [OF Pair [unfolded that]] i by (intro keeps_rules refresh_create_adds(2)) simp
      from keepsD [OF this w1] show ?thesis
        using w1 Pair by (cases r) (simp_all add: bindM_def [of "new_refresh_token (e_id u) s x"])
    qed
  qed
  show "keeps (on_db (at_most t i k)) (handle_generate_tokens L pg_refresh_repo (ae_tokens E) cx u ttl)"
    unfolding handle_generate_tokens_def Let_def pg_refresh_repo_sel
    by (rule keeps_bindM, rule keeps_new_uuidM, rule keeps_bindM, intro keeps_wrapM keeps_jwt, rule keeps_bindM,
        intro keeps_wrapM no_new_session.keeps_random_token, rule keeps_bindM, rule keeps_nowM, rule inner)
qed


section \<open>The clock\<close>

text \<open>No command changes the readings of the clock, it only takes them in order.\<close>

definition on_clock :: "(nat \<Rightarrow> time) \<Rightarrow> world \<Rightarrow> bool" where
  "on_clock c w \<longleftrightarrow> clock w = c"

lemma clock_basic [keeps_rules]:
  "keeps (on_clock c) nowM" "keeps (on_clock c) new_uuidM" "keeps (on_clock c) (logM lv msg fs)" "keeps (on_clock c) (spanM f)"
  by (simp_all add: keeps_def op_defs on_clock_def)

lemma clock_extM:
  assumes "\<And>w. clock (snd (f w)) = clock w"
  shows "keeps (on_clock c) (extM f)"
proof (rule keepsI)
  fix w
  assume "on_clock c w"
  moreover have "clock (snd (f (w\<lparr>faults := fs\<rparr>))) = clock w" for fs using assms by simp
  ultimately show "on_clock c (snd (extM f w))"
    by (auto simp: extM_def on_clock_def split: list.splits option.splits prod.splits sum.splits) (metis snd_conv)+
qed

lemma clock_calls [keeps_rules]:
  "keeps (on_clock c) rand32M" "keeps (on_clock c) noopM" "keeps (on_clock c) (sqlM stm)"
  "keeps (on_clock c) (bcrypt_generate L pw)"
  unfolding rand32M_def noopM_def sqlM_def bcrypt_generate_def
  by (rule clock_extM; simp split: sum.split option.split)+

lemma clock_statements [keeps_rules]:
  "keeps (on_clock c) (queryM f1)" "keeps (on_clock c) (query_rowM f2)" "keeps (on_clock c) (insertM cs g)"
  "keeps (on_clock c) (execM g)" "keeps (on_clock c) (exec_rowsM n g)"
  unfolding queryM_def query_rowM_def insertM_def execM_def exec_rowsM_def by (rule clock_calls)+

lemma clock_txM [keeps_rules]:
  assumes "keeps (on_clock c) body"
  shows "keeps (on_clock c) (txM b cm body)"
  unfolding txM_def
proof (intro keeps_bindM keeps_map_errM clock_calls)
  have k: "keeps (on_clock c) (bindM body (\<lambda>x. bindM (map_errM cm noopM) (\<lambda>_. retM x)))"
    by (intro keeps_rules assms)
  show "keeps (on_clock c) (\<lambda>w. case bindM body (\<lambda>x. bindM (map_errM cm noopM) (\<lambda>_. retM x)) w of
       (Ok x, w') \<Rightarrow> (Ok x, w') | (r, w') \<Rightarrow> (r, w'\<lparr>db := db w\<rparr>))" (is "keeps _ ?f")
  proof (rule keepsI)
    fix w
    assume "on_clock c w"
    from keepsD [OF k this] show "on_clock c (snd (?f w))"
      by (auto simp: on_clock_def split: prod.splits outcome.splits)
  qed
qed

lemma clock_entities [keeps_rules]:
  "keeps (on_clock c) new_entity" "keeps (on_clock c) (new_user e p n)" "keeps (on_clock c) (is_locked u)"
  "keeps (on_clock c) (lock_user u d)" "keeps (on_clock c) (new_refresh_token i s x)" "keeps (on_clock c) (is_expired k)"
  "keeps (on_clock c) random_token" "keeps (on_clock c) (past y)" "keeps (on_clock c) (generate_token L sv tc)"
  unfolding new_entity_def new_user_def is_locked_def lock_user_def new_refresh_token_def is_expired_def
    random_token_def past_def generate_token_def
  by (auto intro!: keeps_rules split: option.split)

lemma clock_accounts [keeps_rules]:
  "keeps (on_clock c) (pg_user_create u)" "keeps (on_clock c) (pg_user_update u)" "keeps (on_clock c) (pg_user_get_by_id i)"
  "keeps (on_clock c) (pg_user_get_by_email e)" "keeps (on_clock c) (pg_user_get_by_verify_token h)"
  "keeps (on_clock c) (pg_user_get_by_reset_token h)" "keeps (on_clock c) (pg_refresh_create k)"
  "keeps (on_clock c) (pg_refresh_get_by_token s)" "keeps (on_clock c) (pg_refresh_revoke s)"
  "keeps (on_clock c) (pg_refresh_revoke_all i)"
  unfolding pg_user_create_def pg_user_update_def insert_tokens_def sql_insert_user_def sql_insert_credentials_def
    sql_insert_security_def sql_insert_token_def sql_update_user_def sql_upsert_credentials_def
    sql_upsert_security_def pg_user_get_by_id_def pg_user_get_by_email_def pg_user_get_by_verify_token_def
    pg_user_get_by_reset_token_def pg_refresh_create_def pg_refresh_get_by_token_def pg_refresh_revoke_def
    pg_refresh_revoke_all_def revoke_where_def Let_def
  by (intro keeps_rules)+

lemma clock_jwt [keeps_rules]: "keeps (on_clock c) (ts_generate_token (ae_tokens E) tc)"
  by (simp add: ae_tokens_def new_jwt_token_service_def Let_def keeps_rules)

text \<open>A bus that leaves the refresh tokens and the clock alone.\<close>

definition undisturbed :: "auth_env \<Rightarrow> bool" where
  "undisturbed E \<longleftrightarrow> (\<forall>ev t i k. keeps (on_db (at_most t i k)) (ae_publish E ev)) \<and> (\<forall>ev c. keeps (on_clock c) (ae_publish E ev))"

lemma run_auth_command_clock:
  assumes "undisturbed E"
  shows "clock (snd (run_auth_command E cmd w)) = clock w"
proof -
  have p: "keeps (on_clock c) (ae_publish E ev)" for c ev using assms by (simp add: undisturbed_def)
  have "keeps (on_clock c) (run_auth_command E cmd)" for c
    by (cases cmd; simp only: run_auth_command.simps; unfold sign_in_def refresh_session_def handle_register_def
        handle_verify_email_def handle_resend_verification_def handle_forgot_password_def handle_reset_password_def
        handle_login_def handle_generate_tokens_def handle_refresh_def handle_logout_def handle_logout_all_def
        pg_user_repo_sel pg_refresh_repo_sel Let_def option.case; intro keeps_rules p)
  from keepsD [OF this, of "clock w" w] show ?thesis by (simp add: on_clock_def)
qed

section \<open>Refreshing does not multiply sessions\<close>

lemma refresh_check_live:
  assumes "refresh_check pg_user_repo pg_refresh_repo s w = (Ok u, w1)" "\<And>n. t \<le> clock w n"
  shows "\<exists>r \<in> set (refresh_tokens (db w)). rt_token r = s \<and> live_token t (e_id u) r"
proof -
  from assms(1) obtain k w2 w3 w4 where k: "pg_refresh_get_by_token s w = (Ok k, w2)"
      "is_expired k w2 = ((Ok False, w3) :: (goerr, bool) outcome \<times> world)" "\<not> is_revoked k" "pg_user_get_by_id (k_user_id k) w3 = (Ok u, w4)"
    by (auto simp: refresh_check_def tryM_Ok bindM_Ok errM_def retM_def split: if_splits)
  from k(1) obtain r where r: "find (\<lambda>r. rt_token r = s \<and> rt_deleted_at r = None) (refresh_tokens (db w)) = Some r"
      "k = refresh_of_row r"
    unfolding pg_refresh_get_by_token_def norowsM_Ok by (auto dest!: query_rowM_Ok)
  have "clock w2 = clock w"
    using keepsE [OF clock_accounts(8) _ k(1)] by (simp add: on_clock_def)
  then have "t \<le> rt_expires_at r"
    using k(2) assms(2) r(2) by (auto simp: is_expired_def op_defs refresh_of_row_def not_less intro: order_trans)
  moreover have "e_id u = rt_user_id r"
    using k(4) r(2) unfolding pg_user_get_by_id_def norowsM_Ok
    by (auto dest!: query_rowM_Ok find_SomeD simp: user_of_row_fields Let_def refresh_of_row_def)
  moreover have "rt_revoked_at r = None" using k(3) r(2) by (simp add: is_revoked_def refresh_of_row_def)
  ultimately show ?thesis using find_SomeD [OF r(1)] by (auto simp: live_token_def)
qed

lemma refresh_session_live:
  assumes "\<And>n. t \<le> clock w n"
  shows "live_sessions t i (db (snd (refresh_session E s ttl w))) \<le> live_sessions t i (db w)"
proof (cases "refresh_check pg_user_repo pg_refresh_repo s w")
  case (Pair res w1)
  have d1: "db w1 = db w" using refresh_check_db [OF Pair] .
  show ?thesis
  proof (cases res)
    case (Ok u)
    obtain r where r: "r \<in> set (refresh_tokens (db w1))" "rt_token r = s" "live_token t (e_id u) r"
      using refresh_check_live [OF Pair [unfolded Ok] assms] d1 by auto
    obtain res2 w2 where rv: "revoke_where (\<lambda>r. rt_token r = s) w1 = (res2, w2)" by fastforce
    let ?gen = "handle_generate_tokens (ae_libs E) pg_refresh_repo (ae_tokens E) (ae_ctx E) u ttl"
    have run: "snd (refresh_session E s ttl w) = snd (bindM (pg_refresh_revoke s) (\<lambda>_. ?gen) w1)"
      unfolding refresh_session_split using Pair Ok by (simp add: bindM_def [of "refresh_check _ _ _"] refresh_finish_def)
    from revoke_where_cases [OF rv] show ?thesis
    proof (elim disjE exE conjE)
      fix e
      assume "res2 = Err e" "db w2 = db w1"
      then show ?thesis
        unfolding run using rv d1 by (simp add: bindM_def pg_refresh_revoke_def wrapM_def op_defs)
    next
      fix now
      assume o: "res2 = Ok ()" "db w2 = revoked_where (\<lambda>r. rt_token r = s) now (db w1)"
      have run2: "snd (refresh_session E s ttl w) = snd (?gen w2)"
        unfolding run using rv o(1) by (simp add: bindM_def pg_refresh_revoke_def wrapM_def op_defs)
      show ?thesis
      proof (cases "e_id u = i")
        case True
        have "live_sessions t i (db w2) < live_sessions t i (db w1)"
          unfolding o(2) using r True by (intro revoked_live(2)) auto
        then obtain k where k: "live_sessions t i (db w1) = Suc k" "live_sessions t i (db w2) \<le> k"
          by (cases "live_sessions t i (db w1)") auto
        then have "on_db (at_most t i (Suc k)) (snd (?gen w2))"
          using generate_adds(1) unfolding leads_def by (simp add: on_db_def at_most_def)
        then show ?thesis unfolding run2 using k(1) d1 by (simp add: on_db_def at_most_def)
      next
        case False
        have "on_db (at_most t i (live_sessions t i (db w1))) w2"
          using revoked_live(1) by (simp add: on_db_def at_most_def o(2))
        from keepsD [OF generate_adds(2) [OF False] this] show ?thesis
          unfolding run2 using d1 by (simp add: on_db_def at_most_def)
      qed
    qed
  qed (simp_all add: refresh_session_split bindM_def Pair d1)
qed

lemma sign_in_live:
  "live_sessions t i (db (snd (sign_in E email pw ttl w))) \<le>
     live_sessions t i (db w) + (if login_user E (SignIn email pw ttl) w = Some i then 1 else 0)"
proof (cases "handle_login (ae_libs E) pg_user_repo email pw w")
  case (Pair res w1)
  have w1: "on_db (at_most t i (live_sessions t i (db w))) w1"
    by (rule keepsE [OF no_new_session.keeps_login _ Pair]) (simp add: on_db_def at_most_def)
  show ?thesis
  proof (cases res)
    case (Ok u)
    have run: "snd (sign_in E email pw ttl w) =
        snd (handle_generate_tokens (ae_libs E) pg_refresh_repo (ae_tokens E) (ae_ctx E) u ttl w1)"
      using Pair Ok by (simp add: sign_in_def bindM_def [of "handle_login _ _ _ _"])
    show ?thesis
    proof (cases "e_id u = i")
      case True
      have "on_db (at_most t i (Suc (live_sessions t i (db w)))) (snd (sign_in E email pw ttl w))"
        unfolding run using generate_adds(1) w1 unfolding leads_def by blast
      then show ?thesis using True Pair Ok by (simp add: on_db_def at_most_def login_user_def)
    next
      case False
      have "on_db (at_most t i (live_sessions t i (db w))) (snd (sign_in E email pw ttl w))"
        unfolding run by (rule keepsD [OF generate_adds(2) [OF False] w1])
      then show ?thesis by (simp add: on_db_def at_most_def)
    qed
  qed (use Pair w1 in \<open>simp_all add: sign_in_def bindM_def on_db_def at_most_def\<close>)
qed

lemma snd_dropM [simp]: "snd (dropM m w) = snd (m w)"
  by (simp add: dropM_def op_defs split: prod.splits outcome.splits)

lemma run_auth_command_live:
  assumes "undisturbed E" "\<And>n. t \<le> clock w n"
  shows "live_sessions t i (db (snd (run_auth_command E c w))) \<le>
    live_sessions t i (db w) + (if login_user E c w = Some i then 1 else 0)"
proof -
  have p: "keeps (on_db (at_most t i k)) (ae_publish E ev)" for k ev using assms(1) by (simp add: undisturbed_def)
  have le: "live_sessions t i (db (snd (m w))) \<le> live_sessions t i (db w)"
    if "\<And>k. keeps (on_db (at_most t i k)) m" for m :: "(world, 'x) gop"
    using keepsD [OF that, of "live_sessions t i (db w)" w] by (simp add: on_db_def at_most_def)
  note k = no_new_session.keeps_publishing [OF p] no_new_session.keeps_reset [unfolded reset_stores_none]
  show ?thesis
  proof (cases c)
    case (SignIn email pw ttl)
    then show ?thesis using sign_in_live [of t i E email pw ttl w] by simp
  next
    case (RefreshToken s ttl)
    then show ?thesis using refresh_session_live [OF assms(2), of i E s ttl] by simp
  qed (auto simp: login_user_def handle_logout_def handle_logout_all_def simp del: bindM_retM intro!: le k keeps_rules)
qed

text \<open>
  C10: Every session stems from a login: whatever authentication commands run, and whichever calls fail, the
  refresh tokens of a user that are good at the end (not revoked, not expired when the run began) are no more
  than those that were good at the beginning and the sign-ins as that user whose password was right. A token
  that is revoked or expired opens nothing, and a refresh takes one session for the one it gives, even
  when it fails half-way.
\<close>

theorem sessions_stem_from_logins:
  assumes "undisturbed E" "\<And>n. t \<le> clock w n"
  shows "live_sessions t i (db (run_auth E cs w)) \<le> live_sessions t i (db w) + logins_as E i cs w"
  using assms(2)
proof (induction cs arbitrary: w)
  case (Cons c cs)
  let ?w = "snd (run_auth_command E c w)"
  have "\<And>n. t \<le> clock ?w n" using Cons.prems run_auth_command_clock [OF assms(1)] by simp
  from Cons.IH [OF this] run_auth_command_live [OF assms(1) Cons.prems, of i c] show ?case by simp
qed simp

lemma undisturbed_toy_env: "undisturbed toy_env"
  by (simp add: undisturbed_def toy_env_def keeps_retM)

theorem sessions_stem_from_logins_witness:
  "live_sessions 0 7 (db (run_auth toy_env [RefreshToken ''r'' 0, RefreshToken ''r'' 0, Logout ''x''] one_account)) \<le> 1"
proof -
  have "live_sessions 0 7 (db one_account) = 1" "\<And>n. 0 \<le> clock one_account n"
    by (simp_all add: live_sessions_def live_token_def one_account_def init_world_def)
  then show ?thesis
    using sessions_stem_from_logins [OF undisturbed_toy_env, of 0 one_account 7
        "[RefreshToken ''r'' 0, RefreshToken ''r'' 0, Logout ''x'']"]
    by (simp add: login_user_def del: run_auth.simps run_auth_command.simps)
qed

end
