(* ===== verification/Authz_Refine.thy ===== *)
theory Authz_Refine
  imports Authorization Tenant_Module
begin

text \<open>
  What the commands of the authorization module promise, apart from tables and SQL: two catalogues of named
  entries, who has which role, which role has which permission, and the answers of the enforcer. The commands
  over PostgreSQL and casbin implement this specification, errors included.
\<close>

section \<open>The specification\<close>

text \<open>A role or a permission; roles have no resource and no action. A deleted entry keeps its name.\<close>

record entry =
  ent_name :: string
  ent_description :: string
  ent_resource :: string
  ent_action :: string
  ent_live :: bool

type_synonym catalogue = "uuid \<Rightarrow> entry option"

record access_view =
  av_roles :: catalogue
  av_permissions :: catalogue
  av_assigned :: "(uuid \<times> uuid) set"
  av_granted :: "(uuid \<times> uuid) set"
  av_recorded :: "uuid \<Rightarrow> string \<Rightarrow> string \<Rightarrow> bool"
  av_allowed :: "uuid \<Rightarrow> string \<Rightarrow> string \<Rightarrow> bool"

definition taken :: "catalogue \<Rightarrow> (uuid \<Rightarrow> entry \<Rightarrow> bool) \<Rightarrow> bool" where
  "taken m P \<longleftrightarrow> (\<exists>i x. m i = Some x \<and> P i x)"

definition live_entry :: "catalogue \<Rightarrow> uuid \<Rightarrow> bool" where
  "live_entry m i \<longleftrightarrow> (case m i of None \<Rightarrow> False | Some x \<Rightarrow> ent_live x)"

definition no_entry :: "string \<Rightarrow> goerr" where
  "no_entry what = Errorf (what @ '' not found'')"

definition name_violation :: "string \<Rightarrow> goerr" where
  "name_violation what = unique_violation (what @ ''s_name_key'')"

definition create_entry :: "string \<Rightarrow> uuid \<Rightarrow> entry \<Rightarrow> catalogue \<Rightarrow> goerr option \<times> catalogue" where
  "create_entry what new x m =
     (if taken m (\<lambda>i y. ent_name y = ent_name x \<and> ent_live y) then (Some (Sentinel ErrConflict), m)
      else if taken m (\<lambda>i y. ent_name y = ent_name x) then (Some (Wrapf (''insert '' @ what) (name_violation what)), m)
      else (None, m(new \<mapsto> x)))"

definition update_entry :: "string \<Rightarrow> uuid \<Rightarrow> (entry \<Rightarrow> entry) \<Rightarrow> catalogue \<Rightarrow> goerr option \<times> catalogue" where
  "update_entry what i f m =
     (if \<not> live_entry m i then (Some (no_entry what), m)
      else if taken m (\<lambda>j y. j \<noteq> i \<and> ent_name y = ent_name (f (the (m i))))
        then (Some (Wrapf (''update '' @ what) (name_violation what)), m)
      else (None, m(i \<mapsto> f (the (m i)))))"

definition delete_entry :: "string \<Rightarrow> uuid \<Rightarrow> catalogue \<Rightarrow> goerr option \<times> catalogue" where
  "delete_entry what i m =
     (if live_entry m i then (None, m(i \<mapsto> (the (m i))\<lparr>ent_live := False\<rparr>)) else (Some (no_entry what), m))"

text \<open>An empty field of an update keeps the old value.\<close>

definition or_kept :: "string \<Rightarrow> string \<Rightarrow> string" where
  "or_kept new old = (if new = '''' then old else new)"

text \<open>What the roles grant, and the two ways the enforcer learns it: for everybody, or for one user.\<close>

definition view_grants :: "access_view \<Rightarrow> uuid \<Rightarrow> string \<Rightarrow> string \<Rightarrow> bool" where
  "view_grants v u resource action \<longleftrightarrow> (\<exists>r p x. (u, r) \<in> av_assigned v \<and> (r, p) \<in> av_granted v \<and>
     live_entry (av_roles v) r \<and> av_permissions v p = Some x \<and> ent_live x \<and>
     ent_resource x = resource \<and> ent_action x = action)"

definition learn_all :: "access_view \<Rightarrow> access_view" where
  "learn_all v = v\<lparr>av_recorded := view_grants v, av_allowed := view_grants v\<rparr>"

definition learn_user :: "uuid \<Rightarrow> access_view \<Rightarrow> access_view" where
  "learn_user u v = (let rec = (av_recorded v)(u := view_grants v u) in v\<lparr>av_recorded := rec, av_allowed := rec\<rparr>)"

definition on_roles :: "access_view \<Rightarrow> goerr option \<times> catalogue \<Rightarrow> goerr option \<times> access_view" where
  "on_roles v s = (fst s, v\<lparr>av_roles := snd s\<rparr>)"

definition on_permissions :: "access_view \<Rightarrow> goerr option \<times> catalogue \<Rightarrow> goerr option \<times> access_view" where
  "on_permissions v s = (fst s, v\<lparr>av_permissions := snd s\<rparr>)"

text \<open>The error and the view a command ends with; \<open>new\<close> is the identifier drawn for what it creates.\<close>

fun access_spec :: "uuid \<Rightarrow> authz_command \<Rightarrow> access_view \<Rightarrow> goerr option \<times> access_view" where
  "access_spec new (CreateRole name desc) v = on_roles v (create_entry ''role'' new
     \<lparr>ent_name = name, ent_description = desc, ent_resource = '''', ent_action = '''', ent_live = True\<rparr> (av_roles v))"
| "access_spec new (UpdateRole i name desc) v = on_roles v (update_entry ''role'' i
     (\<lambda>x. x\<lparr>ent_name := or_kept name (ent_name x), ent_description := or_kept desc (ent_description x)\<rparr>) (av_roles v))"
| "access_spec new (DeleteRole i) v = on_roles v (delete_entry ''role'' i (av_roles v))"
| "access_spec new (CreatePermission name desc resource action) v = on_permissions v (create_entry ''permission'' new
     \<lparr>ent_name = name, ent_description = desc, ent_resource = resource, ent_action = action, ent_live = True\<rparr>
     (av_permissions v))"
| "access_spec new (UpdatePermission i name desc resource action) v = on_permissions v (update_entry ''permission'' i
     (\<lambda>x. x\<lparr>ent_name := or_kept name (ent_name x), ent_description := or_kept desc (ent_description x),
       ent_resource := or_kept resource (ent_resource x), ent_action := or_kept action (ent_action x)\<rparr>)
     (av_permissions v))"
| "access_spec new (DeletePermission i) v = on_permissions v (delete_entry ''permission'' i (av_permissions v))"
| "access_spec new (AssignRole u r) v =
     (if live_entry (av_roles v) r then (None, learn_user u (v\<lparr>av_assigned := insert (u, r) (av_assigned v)\<rparr>))
      else (Some (no_entry ''role''), v))"
| "access_spec new (UnassignRole u r) v = (None, learn_user u (v\<lparr>av_assigned := av_assigned v - {(u, r)}\<rparr>))"
| "access_spec new (AssignPermission r p) v =
     (if \<not> live_entry (av_roles v) r then (Some (no_entry ''role''), v)
      else if \<not> live_entry (av_permissions v) p then (Some (no_entry ''permission''), v)
      else (None, learn_all (v\<lparr>av_granted := insert (r, p) (av_granted v)\<rparr>)))"
| "access_spec new (UnassignPermission r p) v = (None, learn_all (v\<lparr>av_granted := av_granted v - {(r, p)}\<rparr>))"

section \<open>The view of the tables\<close>

definition role_entry :: "roles_row \<Rightarrow> entry" where
  "role_entry r = \<lparr>ent_name = ro_name r, ent_description = ro_description r, ent_resource = '''', ent_action = '''',
     ent_live = (ro_deleted_at r = None)\<rparr>"

definition permission_entry :: "permissions_row \<Rightarrow> entry" where
  "permission_entry r = \<lparr>ent_name = pe_name r, ent_description = pe_description r, ent_resource = pe_resource r,
     ent_action = pe_action r, ent_live = (pe_deleted_at r = None)\<rparr>"

definition role_entries :: "database \<Rightarrow> catalogue" where
  "role_entries d = (\<lambda>i. map_option role_entry (find (\<lambda>r. ro_id r = i) (roles d)))"

definition permission_entries :: "database \<Rightarrow> catalogue" where
  "permission_entries d = (\<lambda>i. map_option permission_entry (find (\<lambda>r. pe_id r = i) (permissions d)))"

definition access_of :: "libs \<Rightarrow> world \<Rightarrow> access_view" where
  "access_of L w = \<lparr>av_roles = role_entries (db w), av_permissions = permission_entries (db w),
     av_assigned = (\<lambda>x. (ur_user_id x, ur_role_id x)) ` set (user_roles (db w)),
     av_granted = (\<lambda>x. (rp_role_id x, rp_permission_id x)) ` set (role_permissions (db w)),
     av_recorded = records L (db w), av_allowed = allows L w\<rparr>"

text \<open>Lookups by key, and what an update of rows does to them.\<close>

lemma find_key_update:
  "(\<And>r. key (f r) = key r) \<Longrightarrow> find (\<lambda>r. key r = j) (update_where P f rows) =
    map_option (\<lambda>r. if P r then f r else r) (find (\<lambda>r. key r = j) rows)"
  by (induction rows) auto

lemma find_key_and:
  "distinct (map key rows) \<Longrightarrow> find (\<lambda>r. key r = i \<and> Q r) rows =
    (case find (\<lambda>r. key r = i) rows of None \<Rightarrow> None | Some r \<Rightarrow> if Q r then Some r else None)"
  by (induction rows) (auto simp: find_None_all split: option.splits dest!: find_SomeD)

lemma taken_rows:
  assumes "distinct (map key rows)"
  shows "taken (\<lambda>i. map_option g (find (\<lambda>r. key r = i) rows)) P \<longleftrightarrow> (\<exists>r \<in> set rows. P (key r) (g r))"
proof
  assume "\<exists>r \<in> set rows. P (key r) (g r)"
  then show "taken (\<lambda>i. map_option g (find (\<lambda>r. key r = i) rows)) P"
    using find_key [OF assms] unfolding taken_def by fastforce
qed (auto simp: taken_def dest!: find_SomeD)

lemma rbac_keys:
  assumes "rbac_ok d"
  shows "distinct (map ro_id (roles d))" "distinct (map pe_id (permissions d))"
  using assms by (simp_all add: rbac_ok_def)

lemma role_taken: "rbac_ok d \<Longrightarrow> taken (role_entries d) P \<longleftrightarrow> (\<exists>r \<in> set (roles d). P (ro_id r) (role_entry r))"
  unfolding role_entries_def by (rule taken_rows [OF rbac_keys(1)])

lemma permission_taken:
  "rbac_ok d \<Longrightarrow> taken (permission_entries d) P \<longleftrightarrow> (\<exists>r \<in> set (permissions d). P (pe_id r) (permission_entry r))"
  unfolding permission_entries_def by (rule taken_rows [OF rbac_keys(2)])

lemma find_live:
  assumes "rbac_ok d"
  shows "find (live_role i) (roles d) =
      (case find (\<lambda>r. ro_id r = i) (roles d) of None \<Rightarrow> None | Some r \<Rightarrow> if ro_deleted_at r = None then Some r else None)"
    "find (live_permission i) (permissions d) =
      (case find (\<lambda>r. pe_id r = i) (permissions d) of None \<Rightarrow> None | Some r \<Rightarrow> if pe_deleted_at r = None then Some r else None)"
  using find_key_and [OF rbac_keys(1) [OF assms]] find_key_and [OF rbac_keys(2) [OF assms]]
  by (simp_all add: live_role_def [abs_def] live_permission_def [abs_def])

lemma entry_sel [simp]:
  "ent_name (role_entry r) = ro_name r" "ent_description (role_entry r) = ro_description r"
  "ent_live (role_entry r) \<longleftrightarrow> ro_deleted_at r = None"
  "ent_name (permission_entry q) = pe_name q" "ent_description (permission_entry q) = pe_description q"
  "ent_resource (permission_entry q) = pe_resource q" "ent_action (permission_entry q) = pe_action q"
  "ent_live (permission_entry q) \<longleftrightarrow> pe_deleted_at q = None"
  by (simp_all add: role_entry_def permission_entry_def)

lemma live_entries:
  assumes "rbac_ok d"
  shows "live_entry (role_entries d) i \<longleftrightarrow> (\<exists>r \<in> set (roles d). live_role i r)"
    "live_entry (permission_entries d) i \<longleftrightarrow> (\<exists>r \<in> set (permissions d). live_permission i r)"
proof -
  have "find (live_role i) (roles d) = None \<longleftrightarrow> \<not> live_entry (role_entries d) i"
    "find (live_permission i) (permissions d) = None \<longleftrightarrow> \<not> live_entry (permission_entries d) i"
    unfolding find_live [OF assms]
    by (auto simp: live_entry_def role_entries_def permission_entries_def split: option.splits)
  then show "live_entry (role_entries d) i \<longleftrightarrow> (\<exists>r \<in> set (roles d). live_role i r)"
    "live_entry (permission_entries d) i \<longleftrightarrow> (\<exists>r \<in> set (permissions d). live_permission i r)"
    by (auto simp: find_None_all)
qed

lemma view_grants_are_grants:
  assumes "rbac_ok (db w)"
  shows "view_grants (access_of L w) = grants (db w)"
proof (intro ext)
  fix u ob a
  have p: "(\<exists>x. permission_entries (db w) p = Some x \<and> ent_live x \<and> ent_resource x = ob \<and> ent_action x = a) \<longleftrightarrow>
      (\<exists>q \<in> set (permissions (db w)). pe_id q = p \<and> pe_deleted_at q = None \<and> pe_resource q = ob \<and> pe_action q = a)" for p
    using permission_taken [OF assms, of "\<lambda>i x. i = p \<and> ent_live x \<and> ent_resource x = ob \<and> ent_action x = a"]
    by (simp add: taken_def)
  have r: "live_entry (role_entries (db w)) i \<longleftrightarrow> role_live (db w) i" for i
    using live_entries(1) [OF assms] by (simp add: role_live_def live_role_def)
  have g: "(\<exists>p. (i, p) \<in> (\<lambda>x. (rp_role_id x, rp_permission_id x)) ` set (role_permissions (db w)) \<and> C \<and> Q p) \<longleftrightarrow>
      C \<and> (\<exists>rp \<in> set (role_permissions (db w)). rp_role_id rp = i \<and> Q (rp_permission_id rp))" for i C Q
    by auto
  show "view_grants (access_of L w) u ob a = grants (db w) u ob a"
    unfolding view_grants_def grants_by_role role_allows_def assigned_def
    by (simp add: access_of_def p r g)
qed


section \<open>Lookups\<close>

lemma lookup_runs:
  assumes "faults w = []" "rbac_ok (db w)"
  shows "role_get_by_id i w = (case find (live_role i) (roles (db w)) of
      None \<Rightarrow> (Err (no_entry ''role''), w) | Some r \<Rightarrow> (Ok (role_of_row r), w))"
    "permission_get_by_id i w = (case find (live_permission i) (permissions (db w)) of
      None \<Rightarrow> (Err (no_entry ''permission''), w) | Some r \<Rightarrow> (Ok (permission_of_row r), w))"
    "taken (role_entries (db w)) (\<lambda>i y. ent_name y = n \<and> ent_live y) \<Longrightarrow> \<exists>r. role_get_by_name n w = (Ok r, w)"
    "\<not> taken (role_entries (db w)) (\<lambda>i y. ent_name y = n \<and> ent_live y) \<Longrightarrow> \<exists>e. role_get_by_name n w = (Err e, w)"
    "taken (permission_entries (db w)) (\<lambda>i y. ent_name y = n \<and> ent_live y) \<Longrightarrow> \<exists>r. permission_get_by_name n w = (Ok r, w)"
    "\<not> taken (permission_entries (db w)) (\<lambda>i y. ent_name y = n \<and> ent_live y) \<Longrightarrow> \<exists>e. permission_get_by_name n w = (Err e, w)"
  using assms(1)
  by (auto simp: role_get_by_id_def permission_get_by_id_def role_get_by_name_def permission_get_by_name_def
      authz_query_defs op_defs is_no_rows_def no_entry_def role_taken [OF assms(2)] permission_taken [OF assms(2)] find_None_all
      split: option.splits dest: find_SomeD)

section \<open>Changes of the catalogues\<close>

text \<open>A run that changed the rows of the roles, or of the permissions, and nothing else the view shows.\<close>

definition changed_roles :: "world \<Rightarrow> catalogue \<Rightarrow> world \<Rightarrow> bool" where
  "changed_roles w m w' \<longleftrightarrow> faults w' = [] \<and> policies w' = policies w \<and>
     (\<exists>rows. db w' = (db w)\<lparr>roles := rows\<rparr>) \<and> role_entries (db w') = m"

definition changed_permissions :: "world \<Rightarrow> catalogue \<Rightarrow> world \<Rightarrow> bool" where
  "changed_permissions w m w' \<longleftrightarrow> faults w' = [] \<and> policies w' = policies w \<and>
     (\<exists>rows. db w' = (db w)\<lparr>permissions := rows\<rparr>) \<and> permission_entries (db w') = m"

lemma changed_same:
  "faults w' = [] \<Longrightarrow> policies w' = policies w \<Longrightarrow> db w' = db w \<Longrightarrow> changed_roles w (role_entries (db w)) w'"
  "faults w' = [] \<Longrightarrow> policies w' = policies w \<Longrightarrow> db w' = db w \<Longrightarrow>
    changed_permissions w (permission_entries (db w)) w'"
  unfolding changed_roles_def changed_permissions_def
  by (auto intro: exI [of _ "roles (db w)"] exI [of _ "permissions (db w)"])

lemma changed_rows:
  "faults w' = [] \<Longrightarrow> policies w' = policies w \<Longrightarrow> db w' = (db w)\<lparr>roles := rs\<rparr> \<Longrightarrow>
    changed_roles w (\<lambda>i. map_option role_entry (find (\<lambda>r. ro_id r = i) rs)) w'"
  "faults w' = [] \<Longrightarrow> policies w' = policies w \<Longrightarrow> db w' = (db w)\<lparr>permissions := ps\<rparr> \<Longrightarrow>
    changed_permissions w (\<lambda>i. map_option permission_entry (find (\<lambda>r. pe_id r = i) ps)) w'"
  by (auto simp: changed_roles_def changed_permissions_def role_entries_def permission_entries_def)

lemma added_entry:
  "role_entries d (ro_id r) = None \<Longrightarrow>
    (\<lambda>i. map_option role_entry (find (\<lambda>r. ro_id r = i) (roles d @ [r]))) = (role_entries d)(ro_id r \<mapsto> role_entry r)"
  "permission_entries d (pe_id p) = None \<Longrightarrow>
    (\<lambda>i. map_option permission_entry (find (\<lambda>r. pe_id r = i) (permissions d @ [p]))) =
      (permission_entries d)(pe_id p \<mapsto> permission_entry p)"
  by (auto simp: role_entries_def permission_entries_def find_append fun_eq_iff split: option.splits)

lemma find_key_update_one:
  assumes "find (\<lambda>r. key r = i) rows = Some r" "P r" "\<And>r. key (f r) = key r" "\<And>q. P q \<Longrightarrow> key q = i"
  shows "(\<lambda>j. map_option g (find (\<lambda>r. key r = j) (update_where P f rows))) =
    (\<lambda>j. map_option g (find (\<lambda>r. key r = j) rows))(i \<mapsto> g (f r))"
proof
  fix j
  have "map_option g (map_option (\<lambda>r. if P r then f r else r) (find (\<lambda>r. key r = j) rows)) =
      map_option g (find (\<lambda>r. key r = j) rows)" if "j \<noteq> i"
    using assms(4) that find_SomeD [of "\<lambda>r. key r = j" rows] by (cases "find (\<lambda>r. key r = j) rows") auto
  then show "map_option g (find (\<lambda>r. key r = j) (update_where P f rows)) =
      ((\<lambda>j. map_option g (find (\<lambda>r. key r = j) rows))(i \<mapsto> g (f r))) j"
    using assms(1,2) by (simp add: find_key_update [of key f, OF assms(3)])
qed

lemma changed_entry:
  assumes "rbac_ok d"
  shows "find (live_role i) (roles d) = Some r \<Longrightarrow> (\<And>r. ro_id (f r) = ro_id r) \<Longrightarrow>
      (\<lambda>j. map_option role_entry (find (\<lambda>r. ro_id r = j) (update_where (live_role i) f (roles d)))) =
        (role_entries d)(i \<mapsto> role_entry (f r))"
    "find (live_permission i) (permissions d) = Some p \<Longrightarrow> (\<And>p. pe_id (g p) = pe_id p) \<Longrightarrow>
      (\<lambda>j. map_option permission_entry (find (\<lambda>r. pe_id r = j) (update_where (live_permission i) g (permissions d)))) =
        (permission_entries d)(i \<mapsto> permission_entry (g p))"
  unfolding find_live [OF assms] role_entries_def permission_entries_def
  by (rule find_key_update_one; auto simp: live_role_def live_permission_def split: option.splits if_splits
      dest: find_SomeD)+

lemma found_entry:
  assumes "rbac_ok d"
  shows "find (live_role i) (roles d) = Some r \<Longrightarrow> role_entries d i = Some (role_entry r) \<and> live_entry (role_entries d) i"
    "find (live_permission i) (permissions d) = Some p \<Longrightarrow>
      permission_entries d i = Some (permission_entry p) \<and> live_entry (permission_entries d) i"
  unfolding find_live [OF assms]
  by (auto simp: role_entries_def permission_entries_def live_entry_def split: option.splits if_splits)

lemma not_found_entry:
  assumes "rbac_ok d"
  shows "find (live_role i) (roles d) = None \<Longrightarrow> \<not> live_entry (role_entries d) i"
    "find (live_permission i) (permissions d) = None \<Longrightarrow> \<not> live_entry (permission_entries d) i"
  by (auto simp: live_entries [OF assms] find_None_all)

lemma new_names:
  assumes "rbac_ok d"
  shows "role_entries d i = None \<Longrightarrow> i \<notin> ro_id ` set (roles d)"
    "permission_entries d i = None \<Longrightarrow> i \<notin> pe_id ` set (permissions d)"
    "n \<in> ro_name ` set (roles d) \<longleftrightarrow> taken (role_entries d) (\<lambda>i y. ent_name y = n)"
    "n \<in> pe_name ` set (permissions d) \<longleftrightarrow> taken (permission_entries d) (\<lambda>i y. ent_name y = n)"
    "list_all (\<lambda>r. ro_name r = n \<longrightarrow> ro_id r = i) (roles d) \<longleftrightarrow> \<not> taken (role_entries d) (\<lambda>j y. j \<noteq> i \<and> ent_name y = n)"
    "list_all (\<lambda>r. pe_name r = n \<longrightarrow> pe_id r = i) (permissions d) \<longleftrightarrow>
      \<not> taken (permission_entries d) (\<lambda>j y. j \<noteq> i \<and> ent_name y = n)"
  unfolding role_taken [OF assms] permission_taken [OF assms]
  by (auto simp: role_entries_def permission_entries_def find_None_all list_all_iff)


text \<open>The commands that change a catalogue end with the error and the catalogue that the specification gives.\<close>

lemma create_role_run:
  fixes name desc :: string
  assumes "faults w = []" "rbac_ok (db w)" "role_entries (db w) (uuids w (drawn w)) = None"
  defines "s \<equiv> create_entry ''role'' (uuids w (drawn w))
     \<lparr>ent_name = name, ent_description = desc, ent_resource = '''', ent_action = '''', ent_live = True\<rparr> (role_entries (db w))"
  shows "\<exists>w'. run_authz_command L (CreateRole name desc) w = (finished (fst s), w') \<and> changed_roles w (snd s) w'"
proof (cases "taken (role_entries (db w)) (\<lambda>i y. ent_name y = name \<and> ent_live y)")
  case True
  then show ?thesis
    using lookup_runs(3) [OF assms(1,2) True] changed_same(1) [of w w] assms(1)
    by (auto simp: s_def handle_create_role_def op_defs create_entry_def finished_def)
next
  case False
  obtain e where e: "role_get_by_name name w = (Err e, w)" using lookup_runs(4) [OF assms(1,2) False] by blast
  let ?row = "\<lparr>ro_id = uuids w (drawn w), ro_name = name, ro_description = desc, ro_created_at = clock w (ticks w),
      ro_updated_at = clock w (ticks w), ro_deleted_at = None, ro_tenant_id = ''''\<rparr>"
  let ?w = "w\<lparr>ticks := Suc (ticks w), drawn := Suc (drawn w)\<rparr>"
  let ?w' = "?w\<lparr>db := (db w)\<lparr>roles := roles (db w) @ [?row]\<rparr>\<rparr>"
  have "run_authz_command L (CreateRole name desc) w =
      (if name \<in> ro_name ` set (roles (db w)) then (Err (Wrapf ''insert role'' (name_violation ''role'')), ?w) else (Ok (), ?w'))"
    using e assms(1) new_names(1) [OF assms(2,3)]
    by (simp add: handle_create_role_def new_role_def new_entity_def make_role_def role_create_def sql_create_role_def
        op_defs name_violation_def)
  moreover have "changed_roles w (role_entries (db w)) ?w" by (rule changed_same) (simp_all add: assms(1))
  moreover have "changed_roles w ((role_entries (db w))(uuids w (drawn w) \<mapsto> role_entry ?row)) ?w'"
    using changed_rows(1) [of ?w' w "roles (db w) @ [?row]"] added_entry(1) [of "db w" ?row] assms(1,3) by simp
  ultimately show ?thesis
    using False new_names(3) [OF assms(2)] by (auto simp: s_def create_entry_def finished_def role_entry_def)
qed

lemma create_permission_run:
  fixes name desc ob a :: string
  assumes "faults w = []" "rbac_ok (db w)" "permission_entries (db w) (uuids w (drawn w)) = None"
  defines "s \<equiv> create_entry ''permission'' (uuids w (drawn w))
     \<lparr>ent_name = name, ent_description = desc, ent_resource = ob, ent_action = a, ent_live = True\<rparr> (permission_entries (db w))"
  shows "\<exists>w'. run_authz_command L (CreatePermission name desc ob a) w = (finished (fst s), w') \<and>
    changed_permissions w (snd s) w'"
proof (cases "taken (permission_entries (db w)) (\<lambda>i y. ent_name y = name \<and> ent_live y)")
  case True
  then show ?thesis
    using lookup_runs(5) [OF assms(1,2) True] changed_same(2) [of w w] assms(1)
    by (auto simp: s_def handle_create_permission_def op_defs create_entry_def finished_def)
next
  case False
  obtain e where e: "permission_get_by_name name w = (Err e, w)" using lookup_runs(6) [OF assms(1,2) False] by blast
  let ?row = "\<lparr>pe_id = uuids w (drawn w), pe_name = name, pe_description = desc, pe_resource = ob, pe_action = a,
      pe_created_at = clock w (ticks w), pe_updated_at = clock w (ticks w), pe_deleted_at = None, pe_tenant_id = ''''\<rparr>"
  let ?w = "w\<lparr>ticks := Suc (ticks w), drawn := Suc (drawn w)\<rparr>"
  let ?w' = "?w\<lparr>db := (db w)\<lparr>permissions := permissions (db w) @ [?row]\<rparr>\<rparr>"
  have "run_authz_command L (CreatePermission name desc ob a) w =
      (if name \<in> pe_name ` set (permissions (db w)) then
         (Err (Wrapf ''insert permission'' (name_violation ''permission'')), ?w) else (Ok (), ?w'))"
    using e assms(1) new_names(2) [OF assms(2,3)]
    by (simp add: handle_create_permission_def new_permission_def new_entity_def make_permission_def
        permission_create_def sql_create_permission_def op_defs name_violation_def)
  moreover have "changed_permissions w (permission_entries (db w)) ?w" by (rule changed_same) (simp_all add: assms(1))
  moreover have "changed_permissions w ((permission_entries (db w))(uuids w (drawn w) \<mapsto> permission_entry ?row)) ?w'"
    using changed_rows(2) [of ?w' w "permissions (db w) @ [?row]"] added_entry(2) [of "db w" ?row] assms(1,3) by simp
  ultimately show ?thesis
    using False new_names(4) [OF assms(2)] by (auto simp: s_def create_entry_def finished_def permission_entry_def)
qed

lemma found_rows:
  "find P rows = Some r \<Longrightarrow> list_ex P rows"
  "find P rows = Some r \<Longrightarrow> (\<forall>r \<in> set rows. \<not> P r) = False"
  by (auto simp: list_ex_iff dest: find_SomeD)

lemma update_role_run:
  fixes name desc :: string and i :: uuid
  assumes "faults w = []" "rbac_ok (db w)"
  defines "s \<equiv> update_entry ''role'' i
     (\<lambda>x. x\<lparr>ent_name := or_kept name (ent_name x), ent_description := or_kept desc (ent_description x)\<rparr>) (role_entries (db w))"
  shows "\<exists>w'. run_authz_command L (UpdateRole i name desc) w = (finished (fst s), w') \<and> changed_roles w (snd s) w'"
proof (cases "find (live_role i) (roles (db w))")
  case None
  then show ?thesis
    using lookup_runs(1) [OF assms(1,2), of i] not_found_entry(1) [OF assms(2) None] changed_same(1) [of w w] assms(1)
    by (auto simp: s_def handle_update_role_def bindM_def update_entry_def finished_def)
next
  case (Some r)
  note r = found_entry(1) [OF assms(2) Some]
  let ?n = "or_kept name (ro_name r)" and ?t = "clock w (ticks w)"
  let ?f = "\<lambda>r'. r'\<lparr>ro_name := ?n, ro_description := or_kept desc (ro_description r), ro_updated_at := ?t\<rparr>"
  let ?w = "w\<lparr>ticks := Suc (ticks w)\<rparr>"
  let ?w' = "?w\<lparr>db := (db w)\<lparr>roles := update_where (live_role i) ?f (roles (db w))\<rparr>\<rparr>"
  have i: "ro_id r = i" "ro_deleted_at r = None" using find_SomeD [OF Some] by (simp_all add: live_role_def)
  have "run_authz_command L (UpdateRole i name desc) w =
      (if list_all (\<lambda>r'. ro_name r' = ?n \<longrightarrow> ro_id r' = i) (roles (db w)) then (Ok (), ?w')
       else (Err (Wrapf ''update role'' (name_violation ''role'')), ?w))"
    using lookup_runs(1) [OF assms(1,2), of i] Some assms(1) i(1)
    by (simp add: found_rows [OF Some] handle_update_role_def role_of_row_def touch_def role_repo_update_def sql_update_role_def
        exec_checkedM_def sqlM_nofault op_defs name_violation_def or_kept_def)
  moreover have "changed_roles w (role_entries (db w)) ?w" by (rule changed_same) (simp_all add: assms(1))
  moreover have "changed_roles w ((role_entries (db w))(i \<mapsto> role_entry (?f r))) ?w'"
    using changed_rows(1) [of ?w' w "update_where (live_role i) ?f (roles (db w))"] changed_entry(1) [OF assms(2) Some, of ?f] assms(1) by simp
  ultimately show ?thesis
    using r i(2) new_names(5) [OF assms(2), of ?n i]
    by (auto simp: s_def update_entry_def finished_def role_entry_def)
qed


lemma update_permission_run:
  fixes name desc ob a :: string and i :: uuid
  assumes "faults w = []" "rbac_ok (db w)"
  defines "s \<equiv> update_entry ''permission'' i
     (\<lambda>x. x\<lparr>ent_name := or_kept name (ent_name x), ent_description := or_kept desc (ent_description x),
       ent_resource := or_kept ob (ent_resource x), ent_action := or_kept a (ent_action x)\<rparr>) (permission_entries (db w))"
  shows "\<exists>w'. run_authz_command L (UpdatePermission i name desc ob a) w = (finished (fst s), w') \<and>
    changed_permissions w (snd s) w'"
proof (cases "find (live_permission i) (permissions (db w))")
  case None
  then show ?thesis
    using lookup_runs(2) [OF assms(1,2), of i] not_found_entry(2) [OF assms(2) None] changed_same(2) [of w w] assms(1)
    by (auto simp: s_def handle_update_permission_def bindM_def update_entry_def finished_def)
next
  case (Some p)
  note p = found_entry(2) [OF assms(2) Some]
  let ?n = "or_kept name (pe_name p)" and ?t = "clock w (ticks w)"
  let ?f = "\<lambda>r. r\<lparr>pe_name := ?n, pe_description := or_kept desc (pe_description p),
      pe_resource := or_kept ob (pe_resource p), pe_action := or_kept a (pe_action p), pe_updated_at := ?t\<rparr>"
  let ?w = "w\<lparr>ticks := Suc (ticks w)\<rparr>"
  let ?w' = "?w\<lparr>db := (db w)\<lparr>permissions := update_where (live_permission i) ?f (permissions (db w))\<rparr>\<rparr>"
  have i: "pe_id p = i" "pe_deleted_at p = None" using find_SomeD [OF Some] by (simp_all add: live_permission_def)
  have "run_authz_command L (UpdatePermission i name desc ob a) w =
      (if list_all (\<lambda>r. pe_name r = ?n \<longrightarrow> pe_id r = i) (permissions (db w)) then (Ok (), ?w')
       else (Err (Wrapf ''update permission'' (name_violation ''permission'')), ?w))"
    using lookup_runs(2) [OF assms(1,2), of i] Some assms(1) i(1)
    by (simp add: found_rows [OF Some] handle_update_permission_def permission_of_row_def touch_def
        permission_repo_update_def sql_update_permission_def exec_checkedM_def sqlM_nofault op_defs name_violation_def
        or_kept_def Let_def)
  moreover have "changed_permissions w (permission_entries (db w)) ?w" by (rule changed_same) (simp_all add: assms(1))
  moreover have "changed_permissions w ((permission_entries (db w))(i \<mapsto> permission_entry (?f p))) ?w'"
    using changed_rows(2) [of ?w' w "update_where (live_permission i) ?f (permissions (db w))"]
      changed_entry(2) [OF assms(2) Some, of ?f] assms(1) by simp
  ultimately show ?thesis
    using p i(2) new_names(6) [OF assms(2), of ?n i]
    by (auto simp: s_def update_entry_def finished_def permission_entry_def)
qed

lemma delete_runs:
  assumes "faults w = []" "rbac_ok (db w)"
  shows "\<exists>w'. run_authz_command L (DeleteRole i) w = (finished (fst (delete_entry ''role'' i (role_entries (db w)))), w') \<and>
      changed_roles w (snd (delete_entry ''role'' i (role_entries (db w)))) w'"
    "\<exists>w'. run_authz_command L (DeletePermission i) w =
        (finished (fst (delete_entry ''permission'' i (permission_entries (db w)))), w') \<and>
      changed_permissions w (snd (delete_entry ''permission'' i (permission_entries (db w)))) w'"
proof -
  let ?t = "clock w (ticks w)" and ?w = "w\<lparr>ticks := Suc (ticks w)\<rparr>"
  note run = handle_delete_role_def role_delete_def sql_delete_role_def handle_delete_permission_def
    permission_delete_def sql_delete_permission_def op_defs
  show "\<exists>w'. run_authz_command L (DeleteRole i) w = (finished (fst (delete_entry ''role'' i (role_entries (db w)))), w') \<and>
      changed_roles w (snd (delete_entry ''role'' i (role_entries (db w)))) w'"
  proof (cases "find (live_role i) (roles (db w))")
    case None
    have same: "update_where (live_role i) f (roles (db w)) = roles (db w)" for f
      using None by (intro update_where_id) (auto simp: find_None_all)
    have "\<forall>r \<in> set (roles (db w)). \<not> live_role i r" using None by (simp add: find_None_all)
    then have "run_authz_command L (DeleteRole i) w = (Err (no_entry ''role''), ?w)"
      using assms(1) by (simp add: run same no_entry_def)
    then show ?thesis
      using not_found_entry(1) [OF assms(2) None] changed_same(1) [of ?w w] assms(1)
      by (simp add: delete_entry_def finished_def)
  next
    case (Some r)
    let ?f = "\<lambda>r. r\<lparr>ro_updated_at := ?t, ro_deleted_at := Some ?t\<rparr>"
    let ?w' = "?w\<lparr>db := (db w)\<lparr>roles := update_where (live_role i) ?f (roles (db w))\<rparr>\<rparr>"
    have "run_authz_command L (DeleteRole i) w = (Ok (), ?w')"
      using assms(1) by (simp add: run found_rows [OF Some])
    moreover have "changed_roles w ((role_entries (db w))(i \<mapsto> role_entry (?f r))) ?w'"
      using changed_rows(1) [of ?w' w "update_where (live_role i) ?f (roles (db w))"]
        changed_entry(1) [OF assms(2) Some, of ?f] assms(1) by simp
    ultimately show ?thesis
      using found_entry(1) [OF assms(2) Some] by (auto simp: delete_entry_def finished_def role_entry_def)
  qed
  show "\<exists>w'. run_authz_command L (DeletePermission i) w =
        (finished (fst (delete_entry ''permission'' i (permission_entries (db w)))), w') \<and>
      changed_permissions w (snd (delete_entry ''permission'' i (permission_entries (db w)))) w'"
  proof (cases "find (live_permission i) (permissions (db w))")
    case None
    have same: "update_where (live_permission i) f (permissions (db w)) = permissions (db w)" for f
      using None by (intro update_where_id) (auto simp: find_None_all)
    have "\<forall>r \<in> set (permissions (db w)). \<not> live_permission i r" using None by (simp add: find_None_all)
    then have "run_authz_command L (DeletePermission i) w = (Err (no_entry ''permission''), ?w)"
      using assms(1) by (simp add: run same no_entry_def)
    then show ?thesis
      using not_found_entry(2) [OF assms(2) None] changed_same(2) [of ?w w] assms(1)
      by (simp add: delete_entry_def finished_def)
  next
    case (Some p)
    let ?f = "\<lambda>r. r\<lparr>pe_updated_at := ?t, pe_deleted_at := Some ?t\<rparr>"
    let ?w' = "?w\<lparr>db := (db w)\<lparr>permissions := update_where (live_permission i) ?f (permissions (db w))\<rparr>\<rparr>"
    have "run_authz_command L (DeletePermission i) w = (Ok (), ?w')"
      using assms(1) by (simp add: run found_rows [OF Some])
    moreover have "changed_permissions w ((permission_entries (db w))(i \<mapsto> permission_entry (?f p))) ?w'"
      using changed_rows(2) [of ?w' w "update_where (live_permission i) ?f (permissions (db w))"]
        changed_entry(2) [OF assms(2) Some, of ?f] assms(1) by simp
    ultimately show ?thesis
      using found_entry(2) [OF assms(2) Some] by (auto simp: delete_entry_def finished_def permission_entry_def)
  qed
qed


section \<open>The enforcer learns\<close>

definition same_grants :: "database \<Rightarrow> database \<Rightarrow> bool" where
  "same_grants d d' \<longleftrightarrow> roles d' = roles d \<and> permissions d' = permissions d \<and> user_roles d' = user_roles d \<and>
     role_permissions d' = role_permissions d"

lemma keeps_reload_same:
  "keeps (on_db (same_grants d)) (enforcer_reload_policies L)"
  "keeps (on_db (same_grants d)) (enforcer_reload_user_policies L u)"
  unfolding enforcer_reload_policies_def sync_all_policies_def load_all_flattened_policies_def
    enforcer_reload_user_policies_def sync_user_policies_def load_user_flattened_policies_def insert_flat_def
  by (intro keeps_rules; simp add: same_grants_def)+

lemma reload_views:
  assumes "casbin_law L" "enforcer_ready w" "rbac_ok (db w)"
  shows "\<exists>w'. enforcer_reload_policies L w = (Ok (), w') \<and> enforcer_ready w' \<and> access_of L w' = learn_all (access_of L w)"
    "\<exists>w'. enforcer_reload_user_policies L u w = (Ok (), w') \<and> enforcer_ready w' \<and>
      access_of L w' = learn_user u (access_of L w)"
proof -
  have same: "on_db (same_grants (db w)) w" by (simp add: on_db_def same_grants_def)
  note eq = access_of_def on_db_def same_grants_def role_entries_def permission_entries_def
  obtain w' where w': "enforcer_reload_policies L w = (Ok (), w')" "enforcer_ready w'" "grants (db w') = grants (db w)"
      "allows L w' = records L (db w')" "records L (db w') = grants (db w)"
    using casbin.reload_law [of L w] assms(1,2) by auto
  then have "access_of L w' = learn_all (access_of L w)"
    using keepsE [OF keeps_reload_same(1) same w'(1)] view_grants_are_grants [OF assms(3), of L]
    by (simp add: eq learn_all_def)
  then show "\<exists>w'. enforcer_reload_policies L w = (Ok (), w') \<and> enforcer_ready w' \<and> access_of L w' = learn_all (access_of L w)"
    using w'(1,2) by blast
  obtain w2 where w2: "enforcer_reload_user_policies L u w = (Ok (), w2)" "enforcer_ready w2" "grants (db w2) = grants (db w)"
      "allows L w2 = records L (db w2)" "records L (db w2) = (records L (db w))(u := grants (db w) u)"
    using casbin.reload_user_law [of L w u] assms(1,2) by auto
  then have "access_of L w2 = learn_user u (access_of L w)"
    using keepsE [OF keeps_reload_same(2) same w2(1)] view_grants_are_grants [OF assms(3), of L]
    by (simp add: eq learn_user_def Let_def)
  then show "\<exists>w'. enforcer_reload_user_policies L u w = (Ok (), w') \<and> enforcer_ready w' \<and>
      access_of L w' = learn_user u (access_of L w)"
    using w2(1,2) by blast
qed

text \<open>The writes of the assignments, for a role and a permission that exist.\<close>

definition wrote :: "libs \<Rightarrow> world \<Rightarrow> (world, unit) gop \<Rightarrow> access_view \<Rightarrow> bool" where
  "wrote L w m v \<longleftrightarrow> (\<exists>w1. m w = (Ok (), w1) \<and> enforcer_ready w1 \<and> rbac_ok (db w1) \<and> access_of L w1 = v)"

lemma wroteI:
  assumes "m w = (Ok (), w1)" "enforcer_ready w" "rbac_ok (db w)" "keeps (on_db rbac_ok) m"
    "calm w w1" "access_of L w1 = v"
  shows "wrote L w m v"
  using assms calm_facts(3) [OF assms(5,2)] keepsE [OF assms(4) _ assms(1)] by (auto simp: wrote_def on_db_def)

lemma assignment_keeps:
  "keeps (on_db rbac_ok) (user_role_assign x)" "keeps (on_db rbac_ok) (user_role_remove u r)"
  "keeps (on_db rbac_ok) (role_permission_assign y)" "keeps (on_db rbac_ok) (role_permission_remove r p)"
  unfolding authz_repo_defs by (intro keeps_rules)+

lemma assignment_writes:
  assumes "enforcer_ready w" "rbac_ok (db w)"
  shows "live_entry (role_entries (db w)) r \<Longrightarrow> wrote L w (user_role_assign (new_user_role u r))
      ((access_of L w)\<lparr>av_assigned := insert (u, r) (av_assigned (access_of L w))\<rparr>)"
    "wrote L w (user_role_remove u r) ((access_of L w)\<lparr>av_assigned := av_assigned (access_of L w) - {(u, r)}\<rparr>)"
    "live_entry (role_entries (db w)) r \<Longrightarrow> live_entry (permission_entries (db w)) p \<Longrightarrow>
      wrote L w (role_permission_assign (new_role_permission r p))
        ((access_of L w)\<lparr>av_granted := insert (r, p) (av_granted (access_of L w))\<rparr>)"
    "wrote L w (role_permission_remove r p) ((access_of L w)\<lparr>av_granted := av_granted (access_of L w) - {(r, p)}\<rparr>)"
proof -
  have f: "faults w = []" using assms(1) by (simp add: enforcer_ready_def)
  note run = authz_repo_defs new_user_role_def new_role_permission_def sql_assign_user_role_def
    sql_remove_user_role_def sql_assign_role_permission_def sql_remove_role_permission_def op_defs
  note view = access_of_def role_entries_def permission_entries_def records_def [abs_def] allows_def [abs_def]
    calm_def fields_plain_def
  have ids: "live_entry (role_entries (db w)) r \<Longrightarrow> r \<in> ro_id ` set (roles (db w))"
    "live_entry (permission_entries (db w)) p \<Longrightarrow> p \<in> pe_id ` set (permissions (db w))"
    unfolding live_entries [OF assms(2)] by (auto simp: live_role_def live_permission_def)
  let ?asg = "(u, r) \<in> (\<lambda>x. (ur_user_id x, ur_role_id x)) ` set (user_roles (db w))"
  let ?grt = "(r, p) \<in> (\<lambda>x. (rp_role_id x, rp_permission_id x)) ` set (role_permissions (db w))"
  let ?w = "w\<lparr>ticks := Suc (ticks w)\<rparr>"
  let ?w1 = "?w\<lparr>db := if ?asg then db w else (db w)\<lparr>user_roles := user_roles (db w) @
      [\<lparr>ur_user_id = u, ur_role_id = r, ur_created_at = clock w (ticks w), ur_tenant_id = ''''\<rparr>]\<rparr>\<rparr>"
  let ?w2 = "w\<lparr>db := (db w)\<lparr>user_roles := filter (\<lambda>x. \<not> (ur_user_id x = u \<and> ur_role_id x = r)) (user_roles (db w))\<rparr>\<rparr>"
  let ?w3 = "?w\<lparr>db := if ?grt then db w else (db w)\<lparr>role_permissions := role_permissions (db w) @
      [\<lparr>rp_role_id = r, rp_permission_id = p, rp_created_at = clock w (ticks w), rp_tenant_id = ''''\<rparr>]\<rparr>\<rparr>"
  let ?w4 = "w\<lparr>db := (db w)\<lparr>role_permissions :=
      filter (\<lambda>x. \<not> (rp_role_id x = r \<and> rp_permission_id x = p)) (role_permissions (db w))\<rparr>\<rparr>"
  show "wrote L w (user_role_assign (new_user_role u r))
      ((access_of L w)\<lparr>av_assigned := insert (u, r) (av_assigned (access_of L w))\<rparr>)"
    if "live_entry (role_entries (db w)) r"
    using f ids(1) [OF that]
    by (intro wroteI [of _ _ ?w1] assms assignment_keeps) (simp add: run, simp add: view, auto simp: view)
  show "wrote L w (user_role_remove u r) ((access_of L w)\<lparr>av_assigned := av_assigned (access_of L w) - {(u, r)}\<rparr>)"
    using f by (intro wroteI [of _ _ ?w2] assms assignment_keeps) (simp add: run, simp add: view, auto simp: view)
  show "wrote L w (role_permission_assign (new_role_permission r p))
        ((access_of L w)\<lparr>av_granted := insert (r, p) (av_granted (access_of L w))\<rparr>)"
    if "live_entry (role_entries (db w)) r" "live_entry (permission_entries (db w)) p"
    using f ids(1) [OF that(1)] ids(2) [OF that(2)]
    by (intro wroteI [of _ _ ?w3] assms assignment_keeps) (simp add: run, simp add: view, auto simp: view)
  show "wrote L w (role_permission_remove r p) ((access_of L w)\<lparr>av_granted := av_granted (access_of L w) - {(r, p)}\<rparr>)"
    using f by (intro wroteI [of _ _ ?w4] assms assignment_keeps) (simp add: run, simp add: view, auto simp: view)
qed


section \<open>Every command\<close>

definition implements :: "libs \<Rightarrow> authz_command \<Rightarrow> world \<Rightarrow> bool" where
  "implements L c w \<longleftrightarrow> (let s = access_spec (uuids w (drawn w)) c (access_of L w) in
     \<exists>w'. run_authz_command L c w = (finished (fst s), w') \<and> enforcer_ready w' \<and> rbac_ok (db w') \<and>
       access_of L w' = snd s)"

text \<open>New fields of permissions that a policy line can carry.\<close>

definition plain_fields :: "authz_command \<Rightarrow> bool" where
  "plain_fields c = (case c of
      CreatePermission name desc resource action \<Rightarrow> plain resource \<and> plain action
    | UpdatePermission i name desc resource action \<Rightarrow>
        (resource = '''' \<or> plain resource) \<and> (action = '''' \<or> plain action)
    | _ \<Rightarrow> True)"

lemma access_of_sel [simp]:
  "av_roles (access_of L w) = role_entries (db w)" "av_permissions (access_of L w) = permission_entries (db w)"
  by (simp_all add: access_of_def)

lemma command_keeps:
  "rbac_ok (db w) \<Longrightarrow> run_authz_command L c w = (res, w') \<Longrightarrow> rbac_ok (db w')"
  using keepsE [OF keeps_run_authz_command, of w L c res w'] by (simp add: on_db_def)

lemma roles_implement:
  assumes "enforcer_ready w" "rbac_ok (db w)"
    and "\<exists>w'. run_authz_command L c w = (finished (fst s), w') \<and> changed_roles w (snd s) w'"
    and "access_spec (uuids w (drawn w)) c (access_of L w) = on_roles (access_of L w) s"
  shows "implements L c w"
proof -
  obtain w' where w': "run_authz_command L c w = (finished (fst s), w')" "changed_roles w (snd s) w'"
    using assms(3) by blast
  have "enforcer_ready w'" "access_of L w' = (access_of L w)\<lparr>av_roles := snd s\<rparr>"
    using w'(2) assms(1)
    by (auto simp: changed_roles_def enforcer_ready_def policy_tables_ok_def fields_plain_def access_of_def
        permission_entries_def records_def fun_eq_iff allows_def)
  then show ?thesis
    using w'(1) command_keeps [OF assms(2) w'(1)] assms(4) by (simp add: implements_def on_roles_def)
qed

definition plain_entry :: "uuid \<Rightarrow> entry \<Rightarrow> bool" where
  "plain_entry i x \<longleftrightarrow> (ent_live x \<longrightarrow> plain (ent_resource x) \<and> plain (ent_action x))"

lemma fields_plain_entries: "rbac_ok d \<Longrightarrow> fields_plain d \<longleftrightarrow> \<not> taken (permission_entries d) (\<lambda>i x. \<not> plain_entry i x)"
  by (auto simp: permission_taken fields_plain_def list_all_iff plain_entry_def)

lemma permissions_implement:
  assumes "enforcer_ready w" "rbac_ok (db w)"
    and "\<exists>w'. run_authz_command L c w = (finished (fst s), w') \<and> changed_permissions w (snd s) w'"
    and "access_spec (uuids w (drawn w)) c (access_of L w) = on_permissions (access_of L w) s"
    and "\<not> taken (permission_entries (db w)) (\<lambda>i x. \<not> plain_entry i x) \<Longrightarrow> \<not> taken (snd s) (\<lambda>i x. \<not> plain_entry i x)"
  shows "implements L c w"
proof -
  obtain w' where w': "run_authz_command L c w = (finished (fst s), w')" "changed_permissions w (snd s) w'"
    using assms(3) by blast
  have ok: "rbac_ok (db w')" using command_keeps [OF assms(2) w'(1)] .
  have "fields_plain (db w')"
    using w'(2) assms(1,2,5) by (simp add: fields_plain_entries ok changed_permissions_def enforcer_ready_def policy_tables_ok_def)
  then have "enforcer_ready w'" "access_of L w' = (access_of L w)\<lparr>av_permissions := snd s\<rparr>"
    using w'(2) assms(1)
    by (auto simp: changed_permissions_def enforcer_ready_def policy_tables_ok_def access_of_def
        role_entries_def records_def fun_eq_iff allows_def)
  then show ?thesis
    using w'(1) ok assms(4) by (simp add: implements_def on_permissions_def)
qed

lemma taken_update: "taken (m(i \<mapsto> x)) P \<Longrightarrow> P i x \<or> taken m P"
  by (auto simp: taken_def split: if_splits)

lemma entries_stay_plain:
  assumes "\<not> taken m (\<lambda>i x. \<not> plain_entry i x)"
  shows "plain_entry new x \<Longrightarrow> \<not> taken (snd (create_entry what new x m)) (\<lambda>i x. \<not> plain_entry i x)"
    "(\<And>x. plain_entry i x \<Longrightarrow> plain_entry i (f x)) \<Longrightarrow> \<not> taken (snd (update_entry what i f m)) (\<lambda>i x. \<not> plain_entry i x)"
    "\<not> taken (snd (delete_entry what i m)) (\<lambda>i x. \<not> plain_entry i x)"
proof -
  have at: "plain_entry i (the (m i))" if "live_entry m i"
    using that assms by (auto simp: taken_def live_entry_def split: option.splits)
  show "plain_entry new x \<Longrightarrow> \<not> taken (snd (create_entry what new x m)) (\<lambda>i x. \<not> plain_entry i x)"
    using assms by (auto simp: create_entry_def dest: taken_update)
  show "(\<And>x. plain_entry i x \<Longrightarrow> plain_entry i (f x)) \<Longrightarrow> \<not> taken (snd (update_entry what i f m)) (\<lambda>i x. \<not> plain_entry i x)"
    using assms at by (auto simp: update_entry_def dest: taken_update)
  show "\<not> taken (snd (delete_entry what i m)) (\<lambda>i x. \<not> plain_entry i x)"
    using assms by (auto simp: delete_entry_def plain_entry_def dest: taken_update)
qed

lemma then_learns:
  assumes "casbin_law L" "wrote L w m v"
  shows "\<exists>w'. bindM m (\<lambda>_. enforcer_reload_policies L) w = (Ok (), w') \<and> enforcer_ready w' \<and> access_of L w' = learn_all v"
    "\<exists>w'. bindM m (\<lambda>_. enforcer_reload_user_policies L u) w = (Ok (), w') \<and> enforcer_ready w' \<and>
      access_of L w' = learn_user u v"
  using assms(2) reload_views [OF assms(1)] by (fastforce simp: wrote_def bindM_def)+

lemma learning_implements:
  assumes "rbac_ok (db w)" "\<exists>w'. run_authz_command L c w = (Ok (), w') \<and> enforcer_ready w' \<and> access_of L w' = v"
    and "access_spec (uuids w (drawn w)) c (access_of L w) = (None, v)"
  shows "implements L c w"
  using assms command_keeps [OF assms(1)] by (auto simp: implements_def finished_def)

lemma refused_implements:
  assumes "enforcer_ready w" "rbac_ok (db w)" "run_authz_command L c w = (Err e, w)"
    and "access_spec (uuids w (drawn w)) c (access_of L w) = (Some e, access_of L w)"
  shows "implements L c w"
  using assms by (auto simp: implements_def finished_def)

lemma assignments_implement:
  assumes L: "casbin_law L" and w: "enforcer_ready w" "rbac_ok (db w)"
  shows "implements L (AssignRole u r) w" "implements L (UnassignRole u r) w"
    "implements L (AssignPermission r p) w" "implements L (UnassignPermission r p) w"
proof -
  have f: "faults w = []" using w(1) by (simp add: enforcer_ready_def)
  note writes = assignment_writes [OF w, where L = L] and look = lookup_runs(1,2) [OF f w(2)]
  show "implements L (UnassignRole u r) w"
    using then_learns(2) [OF L writes(2) [where u = u and r = r], of u]
    by (intro learning_implements [OF w(2)]) (simp_all add: handle_unassign_role_def)
  show "implements L (UnassignPermission r p) w"
    using then_learns(1) [OF L writes(4) [where r = r and p = p]]
    by (intro learning_implements [OF w(2)]) (simp_all add: handle_unassign_permission_def)
  show "implements L (AssignRole u r) w"
  proof (cases "find (live_role r) (roles (db w))")
    case None
    then show ?thesis
      using look(1) [of r] not_found_entry(1) [OF w(2) None]
      by (intro refused_implements [OF w]) (simp_all add: handle_assign_role_def bindM_def)
  next
    case (Some x)
    note live = conjunct2 [OF found_entry(1) [OF w(2) Some]]
    show ?thesis
      using then_learns(2) [OF L writes(1) [OF live, of u], of u] look(1) [of r] Some live
      by (intro learning_implements [OF w(2)]) (simp_all add: handle_assign_role_def bindM_def)
  qed
  show "implements L (AssignPermission r p) w"
  proof (cases "find (live_role r) (roles (db w))")
    case None
    then show ?thesis
      using look(1) [of r] not_found_entry(1) [OF w(2) None]
      by (intro refused_implements [OF w]) (simp_all add: handle_assign_permission_def bindM_def)
  next
    case (Some x)
    note r = Some and live = conjunct2 [OF found_entry(1) [OF w(2) Some]]
    show ?thesis
    proof (cases "find (live_permission p) (permissions (db w))")
      case None
      then show ?thesis
        using look(1) [of r] look(2) [of p] r live not_found_entry(2) [OF w(2) None]
        by (intro refused_implements [OF w]) (simp_all add: handle_assign_permission_def bindM_def)
    next
      case (Some y)
      note live_p = conjunct2 [OF found_entry(2) [OF w(2) Some]]
      show ?thesis
        using then_learns(1) [OF L writes(3) [OF live live_p]] look(1) [of r] look(2) [of p] r Some live live_p
        by (intro learning_implements [OF w(2)]) (simp_all add: handle_assign_permission_def bindM_def)
    qed
  qed
qed

text \<open>
  C11: The commands of the authorization module implement two catalogues of named entries, the pairs of who has
  which role and which role grants which permission, and the answers of the enforcer. On a database without
  faults each command ends with the outcome and the view that the specification gives: a name that a live entry
  has is a conflict, one that a deleted entry or (for a rename) any other entry has is the unique violation of
  the database; an empty field of an update keeps the old one; what does not exist or is deleted is reported and
  nothing changes, also by an assignment, while withdrawing what was never assigned is no error. An assignment
  or withdrawal of a role makes the enforcer relearn the one user, of a permission everybody; no other command
  changes its answers.
\<close>

theorem authz_commands_refine:
  assumes "casbin_law L" "enforcer_ready w" "rbac_ok (db w)" "plain_fields c"
    and "av_roles (access_of L w) (uuids w (drawn w)) = None" "av_permissions (access_of L w) (uuids w (drawn w)) = None"
  shows "\<exists>w'. run_authz_command L c w = (finished (fst (access_spec (uuids w (drawn w)) c (access_of L w))), w') \<and>
    access_of L w' = snd (access_spec (uuids w (drawn w)) c (access_of L w)) \<and> enforcer_ready w' \<and> rbac_ok (db w')"
proof -
  have f: "faults w = []" using assms(2) by (simp add: enforcer_ready_def)
  note ok = assms(2,3)
  note roles = roles_implement [OF ok] and permissions = permissions_implement [OF ok]
    and assignments = assignments_implement [OF assms(1) ok]
  have "implements L c w"
  proof (cases c)
    case (CreateRole name desc)
    then show ?thesis using create_role_run [OF f assms(3)] assms(5) by (intro roles) simp_all
  next
    case (UpdateRole i name desc)
    then show ?thesis using update_role_run [OF f assms(3)] by (intro roles) simp_all
  next
    case (DeleteRole i)
    then show ?thesis using delete_runs(1) [OF f assms(3)] by (intro roles) simp_all
  next
    case (CreatePermission name desc ob a)
    show ?thesis
      unfolding CreatePermission
    proof (rule permissions [OF create_permission_run [OF f assms(3)]])
      show "\<not> taken (snd (create_entry ''permission'' (uuids w (drawn w)) \<lparr>ent_name = name, ent_description = desc,
          ent_resource = ob, ent_action = a, ent_live = True\<rparr> (permission_entries (db w)))) (\<lambda>i x. \<not> plain_entry i x)"
        if "\<not> taken (permission_entries (db w)) (\<lambda>i x. \<not> plain_entry i x)"
        using assms(4) CreatePermission by (intro entries_stay_plain(1) [OF that]) (simp add: plain_entry_def plain_fields_def)
    qed (use assms(6) in simp_all)
  next
    case (UpdatePermission i name desc ob a)
    show ?thesis
      unfolding UpdatePermission
    proof (rule permissions [OF update_permission_run [OF f assms(3)]])
      show "\<not> taken (snd (update_entry ''permission'' i
          (\<lambda>x. x\<lparr>ent_name := or_kept name (ent_name x), ent_description := or_kept desc (ent_description x),
            ent_resource := or_kept ob (ent_resource x), ent_action := or_kept a (ent_action x)\<rparr>)
          (permission_entries (db w)))) (\<lambda>i x. \<not> plain_entry i x)"
        if "\<not> taken (permission_entries (db w)) (\<lambda>i x. \<not> plain_entry i x)"
        using assms(4) UpdatePermission
        by (intro entries_stay_plain(2) [OF that]) (auto simp: plain_entry_def plain_fields_def or_kept_def)
    qed simp
  next
    case (DeletePermission i)
    show ?thesis
      unfolding DeletePermission by (rule permissions [OF delete_runs(2) [OF f assms(3)]]) (simp_all add: entries_stay_plain(3))
  qed (simp_all add: assignments)
  then show ?thesis by (simp add: implements_def Let_def) blast
qed


lemma authz_commands_refine_witness:
  "\<exists>w'. run_authz_command toy_libs (AssignRole 8 1) (one_grant\<lparr>drawn := 5\<rparr>) = (Ok (), w') \<and>
    av_allowed (access_of toy_libs w') 8 ''todo'' ''read'' \<and> enforcer_ready w'"
proof -
  let ?w = "one_grant\<lparr>drawn := 5\<rparr>"
  have w: "enforcer_ready ?w" "rbac_ok (db ?w)"
    using one_grant_facts(2) by (simp_all add: in_step_def enforcer_ready_def) (simp add: rbac_ok_def one_grant_def)
  have fresh: "role_entries (db ?w) (uuids ?w (drawn ?w)) = None" "permission_entries (db ?w) (uuids ?w (drawn ?w)) = None"
    by (simp_all add: role_entries_def permission_entries_def one_grant_def init_world_def)
  have live: "live_entry (role_entries (db ?w)) 1" by (simp add: live_entry_def role_entries_def one_grant_def)
  let ?v = "(access_of toy_libs ?w)\<lparr>av_assigned := insert (8, 1) (av_assigned (access_of toy_libs ?w))\<rparr>"
  have v: "(1, 2) \<in> av_granted ?v" "permission_entries (db ?w) 2 = Some \<lparr>ent_name = ''todo:read'', ent_description = ''d'',
      ent_resource = ''todo'', ent_action = ''read'', ent_live = True\<rparr>"
    by (simp_all add: access_of_def one_grant_def permission_entries_def permission_entry_def)
  then have "view_grants ?v 8 ''todo'' ''read''"
    unfolding view_grants_def using live by (intro exI [of _ 1] exI [of _ 2]) simp
  then have "av_allowed (learn_user 8 ?v) 8 ''todo'' ''read''" by (simp add: learn_user_def Let_def)
  moreover have "access_spec (uuids ?w (drawn ?w)) (AssignRole 8 1) (access_of toy_libs ?w) = (None, learn_user 8 ?v)"
    using live by simp
  moreover have "plain_fields (AssignRole 8 1)" by (simp add: plain_fields_def)
  ultimately show ?thesis
    using authz_commands_refine [OF casbin_law_toy w, of "AssignRole 8 1"] fresh
    by (simp add: finished_def del: access_spec.simps run_authz_command.simps) metis
qed

end
