(* ===== verification/Spec2Isabelle.thy ===== *)
theory Spec2Isabelle
  imports Api_Answers Platform Page_Count Jet_Stream Lifecycle Assembly Auth_Mail Auth_Live Authz_Refine
begin

text \<open>
  A verification of the Go service under \<open>src/\<close>: a REST API for todos with accounts, roles and
  permissions, users and tenants, over PostgreSQL, Redis, NATS, casbin and a mail server.

  \<^bold>\<open>The program and its parts.\<close> A request comes to the root router (\<open>internal/shared/router\<close>), passes the
  middlewares (\<open>internal/shared/middleware\<close>) and ends in a handler of one of five modules
  (\<open>internal/{authentication,authorization,todo,user,tenant}/interfaces/http\<close>). The handler decodes and
  validates the body and sends a command or a query on a bus (\<open>internal/shared/cqrs\<close>), where the module has
  registered the handler of that message (\<open>application/command\<close>, \<open>application/query\<close>). These work on
  repositories (\<open>infrastructure/persistence\<close>), which run SQL, and publish events
  (\<open>internal/shared/events\<close>), whose handlers write logs and send mail. The permission check asks the casbin
  enforcer, which keeps the policies in memory and in the table \<open>casbin_rule\<close>.

  \<^bold>\<open>How it is modelled.\<close> A Go function that returns a value and an error and touches the outside is an
  operation \<open>(world, 'a) gop\<close>: from a world to an outcome (\<open>Ok\<close>, \<open>Err\<close> or \<open>Panic\<close>) and the next world;
  \<open>bindM\<close>, \<open>tryM\<close>, \<open>ignoreM\<close> and \<open>forM\<close> are the ways the code goes on after a call. The world has the
  tables, Redis, the policies in memory, the mail, the stream of published messages, the log, the spans that
  have ended and the one of the context that is running, and as streams
  read in order the clock, the identifiers and the random bytes. Every call to an external system takes one
  entry of the fault schedule first, so a theorem about all worlds covers every choice of calls that fail, and one
  that assumes an empty schedule says what happens when nothing fails. A call that fails has had no effect: a
  statement or a commit that PostgreSQL carries out and whose reply is then lost is not covered. An interface of the code is a record
  of operations (\<open>todo_repo\<close>, \<open>user_repo\<close>, \<open>token_service\<close>, \<open>enforcer\<close>); PostgreSQL gives the instances
  that \<open>main\<close> wires. An HTTP handler is an operation on an exchange, a world with a response under
  construction; a middleware maps handlers to handlers. Libraries are parameters: the record \<open>libs\<close> has the
  signing and parsing of JWTs, bcrypt, SHA-256, UUID texts, \<open>jsonb\<close> and the validator, with laws such as
  \<open>jwt_law\<close>, \<open>bcrypt_law\<close>, \<open>uuid_law\<close> and \<open>casbin_law\<close> where a theorem needs them, all of them satisfied by
  \<open>toy_libs\<close>; \<open>mail_lib\<close>, \<open>nats_lib\<close>, \<open>chi\<close> and \<open>linkage\<close> are of the same kind.

  \<^bold>\<open>The theories.\<close>
  \<^item> \<open>Prelude\<close>, \<open>Go_Error\<close>, \<open>Go_Std\<close>, \<open>Go_Time\<close>, \<open>Go_Json\<close>: outcomes and combinators, the rules \<open>keeps_rules\<close>
    for invariants of operations, error values with \<open>errors.Is\<close>, the functions of the standard library that
    are called, RFC 3339 and \<open>encoding/json\<close>.
  \<^item> \<open>Database\<close>, \<open>World\<close>: the schema of \<open>migrations/\<close> and the world with statements and transactions.
  \<^item> \<open>Core_Domain\<close>, \<open>Pagination\<close>, \<open>Events\<close>: \<open>internal/core/domain\<close>, cursors and keyset pagination, event
    buses and event handlers.
  \<^item> \<open>Todo\<close>; \<open>Token_Service\<close>, \<open>Auth_Store\<close>, \<open>Authentication\<close>, \<open>Auth_Sessions\<close>, \<open>Auth_Live\<close>,
    \<open>Auth_Recovery\<close>, \<open>Auth_Mail\<close>; \<open>Rbac_Store\<close>, \<open>Casbin\<close>, \<open>Authorization\<close>, \<open>Authz_Refine\<close>;
    \<open>User_Module\<close>; \<open>Tenant_Module\<close>: the modules, each with its entities, statements, repositories and handlers, and
    what they promise.
  \<^item> \<open>Redis_Store\<close>, \<open>Audit_Log\<close>, \<open>Mailers\<close>, \<open>Config\<close>, \<open>Platform\<close>: the cache, the two log tables, e-mail and
    the choice of the event bus, the configuration, and the messenger, the metrics recorder, the transaction
    manager and the logger; \<open>Nats_Debug\<close>: the ring buffer of the debug endpoint; \<open>Jet_Stream\<close>: the
    subscriptions of the NATS bus; \<open>Page_Count\<close>: page numbers with the rounding of their floats.
  \<^item> \<open>Lifecycle\<close>: opening the database, telemetry, and \<open>cmd/api/main.go\<close> from start to exit;
    \<open>Assembly\<close>: the constructors it hands to fx, module by module, and which of them a start calls.
  \<^item> \<open>Cqrs\<close>, \<open>Http_Core\<close>, \<open>Http_Api\<close>, \<open>Http_Middleware\<close>, \<open>Router\<close>: the buses with every registration, requests
    and responses, the HTTP handlers, the middlewares, and the routers with what \<open>cmd/api/main.go\<close> builds.
  \<^item> \<open>Middleware_Laws\<close>, \<open>Router_Laws\<close>, \<open>Service_Tables\<close>, \<open>Service_Laws\<close>, \<open>Api_Access\<close>, \<open>Panic_Free\<close>,
    \<open>Api_Answers\<close>: what spans the components.

  \<^bold>\<open>What is shown.\<close> Of the whole service: in every state it can reach through the transition system
  \<open>service_step\<close> no row of its todos, users, roles, permissions, refresh tokens and logs is lost, and no deletion,
  revocation or completion undone; every protected route is behind
  authentication and the permission of the access list, where nobody else gets in and whoever may call reaches
  the handler of the route; there every request gets exactly one answer, without a panic, whatever fails
  outside. The process ends after the signal in a bounded number of steps, with status 0 only when every request
  and every stop hook has ended. Of the modules: the todo and the tenant commands refine finite maps, the
  authorization commands two catalogues with their assignments and the answers of the enforcer; walking the
  cursors of a listing or a search visits every row exactly once; the permission check agrees with the role
  tables through any assignments; login, lockout, registration, verification, password reset, refresh tokens
  and logout behave as stated, the tokens of the mails included, and every session stems from a login,
  whatever fails. Of the shared parts: round trips of tokens, policies and the
  todo cache, the bound of the rate limiter, the replay of the idempotency middleware, the routing of
  messages, the mapping of errors to statuses, the transparency of the response formatter, the number of pages,
  the value of each setting of the configuration. Several theorems show that the code does not do what it means to (a reset token that works
  again, two refreshes with one token, a deleted role that still allows).

  \<^bold>\<open>Interfaces as locales.\<close> \<open>todo_repository\<close> and \<open>account_store\<close> state what the todo service and the login
  rely on, \<open>token_contract\<close> the contract of access tokens, \<open>policy_enforcer\<close> that of the enforcer,
  \<open>recent_entries\<close> that of a buffer of recent messages; \<open>auth_invariant\<close> says which operations an invariant
  of the account tables has to survive, \<open>served\<close> and \<open>typed_buses\<close> what the HTTP handlers need of the buses,
  \<open>container\<close> what makes the calls of fx independent of its order.
  Each is interpreted on the definitions of the service.

  \<^bold>\<open>Bounds and fuel.\<close> The JSON parser runs on fuel \<open>2 * length s + 2\<close>; a
  value consumes a character before it holds another, and \<open>fuel_enough\<close> shows that more fuel
  never changes an answer. \<open>raw_members\<close> gets the length of its text, one for each member. A walk
  over pages gets a step for each row and one more. Recursion that is not structural has a measure. Integers
  are mathematical where the code only counts or compares; where a width matters it is written out
  (\<open>to_int32\<close> of the log tables, the 64 bits of \<open>INCR\<close> and \<open>atoi\<close>,
  128-bit UUIDs as words); the failure counter of an account, an \<open>INTEGER\<close> column, has no bound here. An instant is
  a number of nanoseconds and is printed in UTC; PostgreSQL would keep microseconds, and Go would print the zone of
  the process. Floats are rationals: the rates of the configuration as they are, the quotients of
  page numbers rounded to 53 digits.

  \<^bold>\<open>Order and concurrency.\<close> A request runs to its end before the next one starts, except in the theorems
  that take a handler apart at the point where another request can come in between: two refreshes with one
  token, an update and a completion of one todo. Statements of PostgreSQL are atomic and so are
  transactions; mutexes have no counterpart. A deadline of a context shows only as a call that fails. The goroutines
  of \<open>main\<close>, the signal, the timer and the requests in flight interleave freely in \<open>run_step\<close>.

  \<^bold>\<open>Not modelled.\<close> Which pattern chi chooses for a path (a parameter that no theorem constrains); CORS,
  Swagger and the handlers of Prometheus (parameters of the root router); the rendering of HTML
  templates, the dialogue inside the SMTP, SendGrid, NATS, JetStream, OpenTelemetry, zap and casbin libraries;
  reading the configuration file (what koanf finds is the input of \<open>new_config\<close>); what fx does with the
  constructors, beyond what \<open>construction\<close> states of its calls, and the migrations, which no code of the service runs; most structs of the transfer objects, whose
  fields the handlers read one by one; the generated models, which repeat one schema in each module and are
  modelled once; the tables for addresses, profiles, sessions, social links and preferences, which no code uses.
\<close>

end
